(* ===== verification/Prelude.thy ===== *)
theory Prelude
  imports Main "HOL-Library.Word" "HOL-Library.Char_ord" "HOL-Library.List_Lexorder"
begin

text \<open>
  Shared vocabulary of the development: the machine types of the C++ code
  (\<open>uint8_t\<close>, \<open>int16_t\<close>, \<open>uint32_t\<close>, \<open>size_t\<close>), byte vectors, exceptions as
  values of a sum type, and the generic facts on lists, strings and words that
  the component theories use.
\<close>

unbundle bit_operations_syntax

section \<open>Collections of facts\<close>

named_theorems wf_intros \<open>preservation of well-formedness invariants\<close>
named_theorems op_simps \<open>functional behaviour of operations\<close>

section \<open>Machine types\<close>

type_synonym byte = "8 word"
type_synonym bytes = "8 word list"
type_synonym sample = "16 word"
type_synonym uint32 = "32 word"
type_synonym uint64 = "64 word"
type_synonym size_t = "64 word"

section \<open>Exceptions\<close>

text \<open>
  A C++ function that may throw returns \<open>exn + 'a\<close>; \<open>Inl\<close> is the exception.
  \<open>Runtime_error\<close> carries the \<open>what()\<close> string the source writes, the two standard
  exceptions are those of \<open>std::stoul\<close> and \<open>std::stoi\<close>, \<open>Json_error\<close> is any exception of the
  JSON library, \<open>Pj_error\<close> is \<open>pj::Error\<close>, which is
  \<^emph>\<open>not\<close> a \<open>std::exception\<close>.
\<close>

datatype exn = Runtime_error string | Invalid_argument | Out_of_range | Json_error | Pj_error

type_synonym 'a result = "exn + 'a"

definition bindR :: "'a result \<Rightarrow> ('a \<Rightarrow> 'b result) \<Rightarrow> 'b result" where
  "bindR r f = (case r of Inl e \<Rightarrow> Inl e | Inr x \<Rightarrow> f x)"

lemma bindR_simps [simp]:
  "bindR (Inl e) f = Inl e"
  "bindR (Inr x) f = f x"
  by (simp_all add: bindR_def)

lemma bindR_Inr_iff: "bindR r f = Inr y \<longleftrightarrow> (\<exists>x. r = Inr x \<and> f x = Inr y)"
  by (cases r) auto

lemma bindR_assoc: "bindR (bindR r f) g = bindR r (\<lambda>x. bindR (f x) g)"
  by (cases r) auto

text \<open>
  Code that both changes state and may throw: the state reached is kept when an
  exception is raised (what an earlier statement committed stays committed).
\<close>

type_synonym ('s, 'a) effect = "'s \<Rightarrow> 'a result \<times> 's"

definition returnS :: "'a \<Rightarrow> ('s, 'a) effect" where
  "returnS x s = (Inr x, s)"

definition throwS :: "exn \<Rightarrow> ('s, 'a) effect" where
  "throwS e s = (Inl e, s)"

definition bindS :: "('s, 'a) effect \<Rightarrow> ('a \<Rightarrow> ('s, 'b) effect) \<Rightarrow> ('s, 'b) effect" where
  "bindS m f s = (case m s of (Inl e, s') \<Rightarrow> (Inl e, s') | (Inr x, s') \<Rightarrow> f x s')"

definition liftR :: "('s \<Rightarrow> 'a result) \<Rightarrow> ('s, 'a) effect" where
  "liftR f s = (f s, s)"

definition updR :: "('s \<Rightarrow> 's result) \<Rightarrow> ('s, unit) effect" where
  "updR f s = (case f s of Inl e \<Rightarrow> (Inl e, s) | Inr s' \<Rightarrow> (Inr (), s'))"

text \<open>\<open>catch (const std::exception&)\<close> around a statement: every exception but \<open>pj::Error\<close> is swallowed.\<close>

definition catch_std :: "('s, unit) effect \<Rightarrow> ('s, unit) effect" where
  "catch_std m s = (case m s of (Inl e, s') \<Rightarrow> (if e = Pj_error then Inl e else Inr (), s') | (Inr _, s') \<Rightarrow> (Inr (), s'))"

lemma effect_simps [simp]:
  "returnS x s = (Inr x, s)"
  "throwS e s = (Inl e, s)"
  "m s = (Inl e, s') \<Longrightarrow> bindS m f s = (Inl e, s')"
  "m s = (Inr x, s') \<Longrightarrow> bindS m f s = f x s'"
  by (simp_all add: returnS_def throwS_def bindS_def)

lemma bindS_cases:
  assumes "bindS m f s = (r, s'')"
  obtains e s' where "m s = (Inl e, s')" "r = Inl e" "s'' = s'"
    | x s' where "m s = (Inr x, s')" "f x s' = (r, s'')"
  using assms by (auto simp: bindS_def split: prod.splits sum.splits)

section \<open>Bytes of characters\<close>

definition chr_byte :: "char \<Rightarrow> byte" where
  "chr_byte c = word_of_nat (of_char c)"

definition byte_chr :: "byte \<Rightarrow> char" where
  "byte_chr b = char_of (unat b)"

lemma nat_of_char_less [simp]: "(of_char c :: nat) < 256"
  using nat_of_char_less_256 [of c] by simp

lemma byte_chr_chr_byte [simp]: "byte_chr (chr_byte c) = c"
  by (simp add: byte_chr_def chr_byte_def unat_of_nat)

lemma chr_byte_byte_chr [simp]: "chr_byte (byte_chr b) = b"
proof -
  have "unat b < 256"
    using unsigned_less [of b, where ?'a = nat] by simp
  then show ?thesis
    by (simp add: byte_chr_def chr_byte_def)
qed

section \<open>Lists\<close>

lemma take_replicate_append [simp]:
  "take n (replicate n x @ ys) = replicate n x"
  by simp

lemma takeWhile_replicate [simp]:
  "takeWhile P (replicate n x) = (if P x then replicate n x else [])"
  by (induction n) auto

section \<open>Strings of the standard library\<close>

text \<open>\<open>std::isspace\<close> of the C locale, decimal digits, \<open>std::to_string\<close> of a non-negative number.\<close>

definition is_space :: "char \<Rightarrow> bool" where
  "is_space c \<longleftrightarrow> c \<in> {CHR '' '', CHR 9, CHR 10, CHR 11, CHR 12, CHR 13}"

definition is_digit :: "char \<Rightarrow> bool" where
  "is_digit c \<longleftrightarrow> (48 :: nat) \<le> of_char c \<and> (of_char c :: nat) \<le> 57"

definition digit_val :: "char \<Rightarrow> nat" where
  "digit_val c = of_char c - 48"

fun nat_of_digits :: "nat \<Rightarrow> string \<Rightarrow> nat" where
  "nat_of_digits n [] = n"
| "nat_of_digits n (c # cs) = nat_of_digits (10 * n + digit_val c) cs"

fun to_string :: "nat \<Rightarrow> string" where
  "to_string n = (if n < 10 then [char_of (48 + n)] else to_string (n div 10) @ [char_of (48 + n mod 10)])"

declare to_string.simps [simp del]

text \<open>
  \<open>strtol\<close>, base 10: leading white space, a sign, the longest run of digits; the
  rest is ignored. \<open>None\<close> when no digit was read; the sign and the magnitude otherwise.
\<close>

definition strtol :: "string \<Rightarrow> (bool \<times> nat) option" where
  "strtol s =
     (let s1 = dropWhile is_space s;
          (neg, s2) = (case s1 of [] \<Rightarrow> (False, []) | c # cs \<Rightarrow>
             if c = CHR ''-'' then (True, cs) else if c = CHR ''+'' then (False, cs) else (False, s1));
          ds = takeWhile is_digit s2
      in if ds = [] then None else Some (neg, nat_of_digits 0 ds))"

definition stoi :: "string \<Rightarrow> int result" where
  "stoi s = (case strtol s of None \<Rightarrow> Inl Invalid_argument
     | Some (neg, m) \<Rightarrow>
        let v = (if neg then - int m else int m)
        in if - (2 ^ 31) \<le> v \<and> v < 2 ^ 31 then Inr v else Inl Out_of_range)"

text \<open>\<open>std::stoul\<close>: a minus sign negates modulo \<open>2^64\<close>.\<close>

definition stoul :: "string \<Rightarrow> uint64 result" where
  "stoul s = (case strtol s of None \<Rightarrow> Inl Invalid_argument
     | Some (neg, m) \<Rightarrow>
        if m < 2 ^ 64 then Inr (if neg then - word_of_nat m else word_of_nat m) else Inl Out_of_range)"

lemma digit_char:
  assumes "n < 10"
  shows "is_digit (char_of (48 + n :: nat))" "digit_val (char_of (48 + n :: nat)) = n"
  using assms by (simp_all add: is_digit_def digit_val_def)

lemma to_string_digits: "list_all is_digit (to_string n) \<and> to_string n \<noteq> []"
proof (induction n rule: to_string.induct)
  case (1 n)
  then show ?case
    by (subst to_string.simps, subst (2) to_string.simps) (auto simp: digit_char)
qed

lemma nat_of_digits_append: "nat_of_digits n (xs @ ys) = nat_of_digits (nat_of_digits n xs) ys"
  by (induction n xs rule: nat_of_digits.induct) auto

lemma nat_of_digits_to_string [simp]: "nat_of_digits 0 (to_string n) = n"
proof (induction n rule: to_string.induct)
  case (1 n)
  then show ?case
    by (subst to_string.simps) (auto simp: digit_char nat_of_digits_append)
qed

lemma digit_not_space_sign:
  assumes "is_digit c"
  shows "\<not> is_space c" "c \<noteq> CHR ''-''" "c \<noteq> CHR ''+''" "c \<noteq> CHR ''.''"
  using assms by (auto simp: is_digit_def is_space_def)

lemma strtol_to_string: "strtol (to_string n) = Some (False, n)"
proof -
  obtain c cs where c: "to_string n = c # cs" "is_digit c"
    using to_string_digits [of n] by (cases "to_string n") auto
  have "takeWhile is_digit cs = cs"
    using to_string_digits [of n] c by (simp add: list_all_iff takeWhile_eq_all_conv)
  then show ?thesis
    using c digit_not_space_sign [of c] nat_of_digits_to_string [of n]
    by (simp add: strtol_def Let_def del: takeWhile_eq_all_conv)
qed

lemma stoi_to_string: "n < 2 ^ 31 \<Longrightarrow> stoi (to_string n) = Inr (int n)"
  by (simp add: stoi_def strtol_to_string Let_def)

text \<open>\<open>s.rfind(c)\<close> followed by the two \<open>substr\<close> around it.\<close>

fun rsplit :: "char \<Rightarrow> string \<Rightarrow> (string \<times> string) option" where
  "rsplit c [] = None"
| "rsplit c (x # xs) = (case rsplit c xs of
       Some (a, b) \<Rightarrow> Some (x # a, b)
     | None \<Rightarrow> if x = c then Some ([], xs) else None)"

lemma rsplit_None: "rsplit c s = None \<longleftrightarrow> c \<notin> set s"
  by (induction s) (auto split: option.splits)

lemma rsplit_append: "c \<notin> set b \<Longrightarrow> rsplit c (a @ c # b) = Some (a, b)"
proof (induction a)
  case Nil
  then have "rsplit c b = None"
    by (simp add: rsplit_None)
  then show ?case
    by simp
qed simp

lemma rsplit_Some: "rsplit c s = Some (a, b) \<Longrightarrow> s = a @ c # b \<and> c \<notin> set b"
  by (induction s arbitrary: a b) (auto simp: rsplit_None split: option.splits if_splits)


section \<open>Reachable states\<close>

text \<open>
  The states a step relation reaches from an initial one. A predicate that holds initially
  and that every step keeps holds of all of them; each state machine of the
  development interprets the locale with its own relation and invariant.
\<close>

inductive reachable :: "('s \<Rightarrow> bool) \<Rightarrow> ('s \<Rightarrow> 's \<Rightarrow> bool) \<Rightarrow> 's \<Rightarrow> bool"
  for init :: "'s \<Rightarrow> bool" and step :: "'s \<Rightarrow> 's \<Rightarrow> bool" where
  reach_init [intro]: "init s \<Longrightarrow> reachable init step s"
| reach_step [intro]: "reachable init step s \<Longrightarrow> step s s' \<Longrightarrow> reachable init step s'"

locale invariant_system =
  fixes init :: "'s \<Rightarrow> bool" and step :: "'s \<Rightarrow> 's \<Rightarrow> bool" and inv :: "'s \<Rightarrow> bool"
  assumes inv_init: "init s \<Longrightarrow> inv s"
    and inv_step: "step s s' \<Longrightarrow> inv s \<Longrightarrow> inv s'"
begin

lemma reachable_inv: "reachable init step s \<Longrightarrow> inv s"
  by (induction rule: reachable.induct) (auto intro: inv_init inv_step)

lemma run_inv: "step\<^sup>*\<^sup>* s s' \<Longrightarrow> inv s \<Longrightarrow> inv s'"
  by (induction rule: rtranclp_induct) (auto intro: inv_step)

end

end
