(* ===== verification/RingBuffer.thy ===== *)
theory RingBuffer
  imports Prelude
begin

text \<open>
  Model of \<open>voip/ring_buffer.h\<close>: the single-producer/single-consumer ring buffer
  of PCM samples. Indices are \<open>size_t\<close>, so the used count is computed with the
  wrapping subtraction of the source. The sequential operations refine a bounded
  FIFO list (locale \<open>bounded_fifo\<close>); the step relation \<open>spsc_step\<close> interleaves the
  loads, sample copies and index stores of a concurrent \<open>push\<close> and \<open>pop\<close>.
\<close>

section \<open>The code\<close>

record ring =
  capacity :: size_t
  buffer :: "sample list"
  head :: size_t
  tail :: size_t

definition RingBuffer :: "size_t \<Rightarrow> ring" where
  "RingBuffer capacity_samples =
     \<lparr>capacity = capacity_samples, buffer = replicate (unat capacity_samples) 0, head = 0, tail = 0\<rparr>"

definition used_between :: "size_t \<Rightarrow> size_t \<Rightarrow> size_t \<Rightarrow> size_t" where
  "used_between cap h t = (h - t + cap) mod cap"

definition push_count :: "size_t \<Rightarrow> size_t \<Rightarrow> size_t \<Rightarrow> size_t \<Rightarrow> size_t" where
  "push_count cap h t samples =
     (let available = cap - 1 - used_between cap h t
      in if samples > available then available else samples)"

definition pop_count :: "size_t \<Rightarrow> size_t \<Rightarrow> size_t \<Rightarrow> size_t \<Rightarrow> size_t" where
  "pop_count cap h t samples =
     (let available = used_between cap h t
      in if samples < available then samples else available)"

definition write_sample :: "size_t \<Rightarrow> size_t \<Rightarrow> sample list \<Rightarrow> nat \<Rightarrow> sample list \<Rightarrow> sample list" where
  "write_sample cap h data i buf = buf[unat ((h + word_of_nat i) mod cap) := data ! i]"

definition read_sample :: "size_t \<Rightarrow> size_t \<Rightarrow> sample list \<Rightarrow> nat \<Rightarrow> sample" where
  "read_sample cap t buf i = buf ! unat ((t + word_of_nat i) mod cap)"

definition push :: "ring \<Rightarrow> sample list \<Rightarrow> ring" where
  "push rb data =
     (let samples = push_count (capacity rb) (head rb) (tail rb) (word_of_nat (length data))
      in if samples = 0 then rb
         else rb\<lparr>buffer := fold (write_sample (capacity rb) (head rb) data) [0..<unat samples] (buffer rb),
                 head := (head rb + samples) mod capacity rb\<rparr>)"

definition pop :: "ring \<Rightarrow> nat \<Rightarrow> sample list \<times> ring" where
  "pop rb samples =
     (let to_copy = pop_count (capacity rb) (head rb) (tail rb) (word_of_nat samples)
      in (map (read_sample (capacity rb) (tail rb) (buffer rb)) [0..<unat to_copy]
            @ replicate (samples - unat to_copy) 0,
          rb\<lparr>tail := (tail rb + to_copy) mod capacity rb\<rparr>))"

section \<open>Invariant and abstraction\<close>

definition ring_inv :: "ring \<Rightarrow> bool" where
  "ring_inv rb \<longleftrightarrow> 0 < unat (capacity rb) \<and> unat (capacity rb) < 2 ^ 62
     \<and> length (buffer rb) = unat (capacity rb)
     \<and> unat (head rb) < unat (capacity rb) \<and> unat (tail rb) < unat (capacity rb)"

definition used :: "ring \<Rightarrow> nat" where
  "used rb = unat (used_between (capacity rb) (head rb) (tail rb))"

definition contents :: "ring \<Rightarrow> sample list" where
  "contents rb = map (read_sample (capacity rb) (tail rb) (buffer rb)) [0..<used rb]"

lemma ring_inv_RingBuffer [wf_intros]:
  assumes "0 < unat cap" "unat cap < 2 ^ 62"
  shows "ring_inv (RingBuffer cap)"
  using assms by (simp add: ring_inv_def RingBuffer_def)

lemma contents_RingBuffer [simp]: "contents (RingBuffer cap) = []"
  by (simp add: contents_def RingBuffer_def used_def used_between_def)

lemma RingBuffer_sel [simp]: "capacity (RingBuffer cap) = cap" "used (RingBuffer cap) = 0"
  by (simp_all add: RingBuffer_def used_def used_between_def)

text \<open>The wrapping index arithmetic, as arithmetic on naturals.\<close>

lemma unat_used_between:
  assumes "unat h < unat c" "unat t < unat c" "unat c < 2 ^ 62"
  shows "unat (used_between c h t) = (unat h + unat c - unat t) mod unat c"
proof -
  have "unat (h - t + c) = unat (h + c - t)"
    by (simp add: algebra_simps)
  also have "\<dots> = unat (h + c) - unat t"
    using assms by (intro unat_sub) (simp add: word_le_nat_alt unat_word_ariths)
  also have "\<dots> = unat h + unat c - unat t"
    using assms by (simp add: unat_word_ariths)
  finally show ?thesis
    by (simp add: used_between_def unat_mod_distrib)
qed

lemma unat_step_index:
  fixes h c :: size_t
  assumes "unat h < unat c" "unat c < 2 ^ 62" "n \<le> unat c"
  shows "unat ((h + word_of_nat n) mod c) = (unat h + n) mod unat c"
proof -
  have "n < 2 ^ 64"
    using assms by simp
  then have "unat (h + word_of_nat n) = unat h + n"
    using assms by (simp add: unat_word_ariths unat_of_nat take_bit_nat_eq_self)
  then show ?thesis
    by (simp add: unat_mod_distrib)
qed

text \<open>
  Slot \<open>k\<close> of the ring is the buffer cell \<open>k\<close> places after the tail. Slots below
  \<open>used\<close> hold the queue, the head is slot \<open>used\<close>, one slot stays free.
\<close>

abbreviation slot :: "nat \<Rightarrow> nat \<Rightarrow> nat \<Rightarrow> nat" where
  "slot c t k \<equiv> (t + k) mod c"

lemma slot_inj:
  assumes "slot c t j = slot c t k" "j < c" "k < c"
  shows "j = k"
proof -
  have "(t mod c + j) mod c = (t mod c + k) mod c" "t mod c < c"
    using assms by (simp_all add: mod_add_left_eq)
  with assms(2,3) show ?thesis
    by (cases "t mod c + j < c"; cases "t mod c + k < c") (auto simp: mod_if [of "t mod c + _"])
qed

lemma used_less: "ring_inv rb \<Longrightarrow> used rb < unat (capacity rb)"
  by (simp add: used_def ring_inv_def unat_used_between)

lemma head_slot:
  assumes "ring_inv rb"
  shows "unat (head rb) = slot (unat (capacity rb)) (unat (tail rb)) (used rb)"
proof -
  let ?h = "unat (head rb)" and ?t = "unat (tail rb)" and ?c = "unat (capacity rb)"
  have lt: "?h < ?c" "?t < ?c" and u: "used rb = (?h + ?c - ?t) mod ?c"
    using assms by (simp_all add: ring_inv_def used_def unat_used_between)
  have "(?t + (?h + ?c - ?t) mod ?c) mod ?c = (?t + (?h + ?c - ?t)) mod ?c"
    by (simp add: mod_add_right_eq)
  also have "\<dots> = ?h"
    using lt by simp
  finally show ?thesis
    by (simp add: u)
qed

lemma read_sample_slot:
  assumes "ring_inv rb" "i < unat (capacity rb)"
  shows "read_sample (capacity rb) (tail rb) buf i = buf ! slot (unat (capacity rb)) (unat (tail rb)) i"
  using assms by (simp add: read_sample_def unat_step_index ring_inv_def)

lemma contents_slots:
  assumes "ring_inv rb"
  shows "contents rb = map (\<lambda>k. buffer rb ! slot (unat (capacity rb)) (unat (tail rb)) k) [0..<used rb]"
  using assms used_less [OF assms] by (simp add: contents_def read_sample_slot)

lemma length_contents [simp]: "length (contents rb) = used rb"
  by (simp add: contents_def)

text \<open>Writing sample \<open>i\<close> after the head touches slot \<open>used + i\<close> and no other.\<close>

lemma write_sample_slot:
  assumes "ring_inv rb" "used rb + i < unat (capacity rb)"
  shows "write_sample (capacity rb) (head rb) data i buf =
    buf[slot (unat (capacity rb)) (unat (tail rb)) (used rb + i) := data ! i]"
proof -
  have "(unat (head rb) + i) mod unat (capacity rb) = slot (unat (capacity rb)) (unat (tail rb)) (used rb + i)"
    unfolding head_slot [OF assms(1)] by (simp add: mod_add_left_eq add.assoc)
  then show ?thesis
    using assms by (simp add: write_sample_def unat_step_index ring_inv_def)
qed

lemma write_sample_length [simp]: "length (write_sample c h data i buf) = length buf"
  by (simp add: write_sample_def)

lemma fold_write_length [simp]: "length (fold (write_sample c h data) is buf) = length buf"
  by (induction "is" arbitrary: buf) auto

lemma fold_write_nth:
  assumes "ring_inv rb" "length buf = unat (capacity rb)" "used rb + n < unat (capacity rb)"
    "k < unat (capacity rb)"
  shows "fold (write_sample (capacity rb) (head rb) data) [0..<n] buf ! slot (unat (capacity rb)) (unat (tail rb)) k =
    (if used rb \<le> k \<and> k < used rb + n then data ! (k - used rb)
     else buf ! slot (unat (capacity rb)) (unat (tail rb)) k)"
  using assms(3)
proof (induction n)
  case (Suc n)
  have pos: "0 < unat (capacity rb)"
    using assms(1) by (simp add: ring_inv_def)
  have "slot (unat (capacity rb)) (unat (tail rb)) (used rb + n) = slot (unat (capacity rb)) (unat (tail rb)) k \<longleftrightarrow> k = used rb + n"
    using slot_inj [where c = "unat (capacity rb)" and t = "unat (tail rb)" and j = "used rb + n" and k = k] Suc.prems assms(4) by auto
  then show ?case
    using Suc assms pos by (auto simp: write_sample_slot nth_list_update less_Suc_eq)
qed auto

lemma unat_push_count:
  assumes "ring_inv rb" "n < 2 ^ 64"
  shows "unat (push_count (capacity rb) (head rb) (tail rb) (word_of_nat n)) =
    min n (unat (capacity rb) - 1 - used rb)"
proof -
  let ?u = "used_between (capacity rb) (head rb) (tail rb)"
  have "unat ?u < unat (capacity rb)"
    using used_less [OF assms(1)] by (simp add: used_def)
  then have "(1 :: size_t) \<le> capacity rb" "?u \<le> capacity rb - 1"
    by (auto simp: word_le_nat_alt unat_sub)
  then have a: "unat (capacity rb - 1 - ?u) = unat (capacity rb) - 1 - used rb"
    by (simp add: unat_sub used_def)
  have "unat (word_of_nat n :: size_t) = n"
    using assms(2) by (simp add: unat_of_nat)
  with a show ?thesis
    by (simp add: push_count_def Let_def word_less_nat_alt min_def)
qed

lemma unat_pop_count:
  assumes "ring_inv rb" "n < 2 ^ 64"
  shows "unat (pop_count (capacity rb) (head rb) (tail rb) (word_of_nat n)) = min n (used rb)"
proof -
  have "unat (word_of_nat n :: size_t) = n"
    using assms(2) by (simp add: unat_of_nat)
  then show ?thesis
    by (simp add: pop_count_def Let_def word_less_nat_alt min_def used_def)
qed

text \<open>Moving the head on by \<open>n \<le> space\<close>, the tail on by \<open>n \<le> used\<close>.\<close>

lemma used_head_step:
  assumes "ring_inv rb" "used rb + unat n < unat (capacity rb)"
  shows "used (rb\<lparr>head := (head rb + n) mod capacity rb\<rparr>) = used rb + unat n"
proof -
  let ?rb = "rb\<lparr>head := (head rb + n) mod capacity rb\<rparr>"
  have h: "unat ((head rb + n) mod capacity rb) = (unat (head rb) + unat n) mod unat (capacity rb)"
    using unat_step_index [of "head rb" "capacity rb" "unat n"] assms by (simp add: ring_inv_def)
  have inv: "ring_inv ?rb"
    using assms h by (simp add: ring_inv_def)
  have "slot (unat (capacity rb)) (unat (tail rb)) (used ?rb) = unat (head ?rb)"
    using head_slot [OF inv] by simp
  also have "\<dots> = slot (unat (capacity rb)) (unat (tail rb)) (used rb + unat n)"
    using h head_slot [OF assms(1)] by (simp add: mod_add_left_eq add.assoc)
  finally show ?thesis
    by (rule slot_inj) (use used_less [OF inv] assms(2) in simp_all)
qed

lemma used_tail_step:
  assumes "ring_inv rb" "unat n \<le> used rb"
  shows "used (rb\<lparr>tail := (tail rb + n) mod capacity rb\<rparr>) = used rb - unat n"
proof -
  let ?rb = "rb\<lparr>tail := (tail rb + n) mod capacity rb\<rparr>"
  let ?c = "unat (capacity rb)"
  have t: "unat ((tail rb + n) mod capacity rb) = (unat (tail rb) + unat n) mod ?c"
    using unat_step_index [of "tail rb" "capacity rb" "unat n"] assms used_less [OF assms(1)]
    by (simp add: ring_inv_def)
  have inv: "ring_inv ?rb"
    using assms t by (simp add: ring_inv_def)
  have "slot ?c (unat (tail ?rb)) (used ?rb) = unat (head rb)"
    using head_slot [OF inv] by simp
  also have "\<dots> = slot ?c (unat (tail rb)) (unat n + (used rb - unat n))"
    using head_slot [OF assms(1)] assms(2) by simp
  also have "\<dots> = slot ?c (unat (tail ?rb)) (used rb - unat n)"
    using t by (simp add: mod_add_left_eq add.assoc)
  finally show ?thesis
    by (rule slot_inj) (use used_less [OF inv] used_less [OF assms(1)] in simp_all)
qed

lemma slot_tail_step:
  assumes "ring_inv rb" "unat n \<le> used rb"
  shows "slot (unat (capacity rb)) (unat ((tail rb + n) mod capacity rb)) k =
    slot (unat (capacity rb)) (unat (tail rb)) (unat n + k)"
  using unat_step_index [of "tail rb" "capacity rb" "unat n"] assms used_less [OF assms(1)]
  by (simp add: ring_inv_def mod_add_left_eq add.assoc)

lemma ring_inv_head_step [wf_intros]:
  "ring_inv rb \<Longrightarrow> ring_inv (rb\<lparr>head := w mod capacity rb\<rparr>)"
  by (simp add: ring_inv_def unat_mod_distrib)

lemma ring_inv_tail_step [wf_intros]:
  "ring_inv rb \<Longrightarrow> ring_inv (rb\<lparr>tail := w mod capacity rb\<rparr>)"
  by (simp add: ring_inv_def unat_mod_distrib)

lemma ring_inv_buffer [wf_intros]:
  "ring_inv rb \<Longrightarrow> length b = length (buffer rb) \<Longrightarrow> ring_inv (rb\<lparr>buffer := b\<rparr>)"
  by (simp add: ring_inv_def)

lemma used_buffer [simp]: "used (rb\<lparr>buffer := b\<rparr>) = used rb"
  by (simp add: used_def)

text \<open>Advancing the tail drops the front of the queue.\<close>

lemma contents_tail_step:
  assumes "ring_inv rb" "unat n \<le> used rb"
  shows "contents (rb\<lparr>tail := (tail rb + n) mod capacity rb\<rparr>) = drop (unat n) (contents rb)"
proof (rule nth_equalityI)
  fix k
  assume "k < length (contents (rb\<lparr>tail := (tail rb + n) mod capacity rb\<rparr>))"
  then have "unat n + k < used rb"
    using assms by (simp add: used_tail_step)
  then show "contents (rb\<lparr>tail := (tail rb + n) mod capacity rb\<rparr>) ! k = drop (unat n) (contents rb) ! k"
    using assms by (simp add: contents_slots ring_inv_tail_step used_tail_step slot_tail_step)
qed (use assms in \<open>simp add: used_tail_step\<close>)

text \<open>Publishing a head past freshly written slots appends them to the queue.\<close>

lemma contents_publish:
  assumes "ring_inv rb" "used rb + unat n < unat (capacity rb)" "unat n \<le> length data"
    and written: "\<And>i. i < unat n \<Longrightarrow>
      buffer rb ! slot (unat (capacity rb)) (unat (tail rb)) (used rb + i) = data ! i"
  shows "contents (rb\<lparr>head := (head rb + n) mod capacity rb\<rparr>) = contents rb @ take (unat n) data"
proof (rule nth_equalityI)
  fix k
  assume "k < length (contents (rb\<lparr>head := (head rb + n) mod capacity rb\<rparr>))"
  then show "contents (rb\<lparr>head := (head rb + n) mod capacity rb\<rparr>) ! k = (contents rb @ take (unat n) data) ! k"
    using assms(1-3) written [of "k - used rb"]
    by (auto simp: contents_slots ring_inv_head_step used_head_step nth_append)
qed (use assms in \<open>simp add: used_head_step\<close>)

lemma contents_push:
  assumes "ring_inv rb" "length data < 2 ^ 64"
  shows "contents (push rb data) = contents rb @ take (unat (capacity rb) - 1 - used rb) data"
proof -
  define n where "n = push_count (capacity rb) (head rb) (tail rb) (word_of_nat (length data))"
  define b where "b = fold (write_sample (capacity rb) (head rb) data) [0..<unat n] (buffer rb)"
  have n: "unat n = min (length data) (unat (capacity rb) - 1 - used rb)"
    using assms by (simp add: n_def unat_push_count)
  have fit: "used rb + unat n < unat (capacity rb)"
    using used_less [OF assms(1)] by (simp add: n)
  have inv: "ring_inv (rb\<lparr>buffer := b\<rparr>)"
    using assms by (simp add: b_def wf_intros)
  have bnth: "b ! slot (unat (capacity rb)) (unat (tail rb)) k =
      (if used rb \<le> k \<and> k < used rb + unat n then data ! (k - used rb)
       else buffer rb ! slot (unat (capacity rb)) (unat (tail rb)) k)" if "k < unat (capacity rb)" for k
    unfolding b_def using assms fit that by (intro fold_write_nth) (simp_all add: ring_inv_def)
  have wr: "b ! slot (unat (capacity rb)) (unat (tail rb)) (used rb + i) = data ! i" if "i < unat n" for i
    using bnth [of "used rb + i"] fit that by simp
  have same: "contents (rb\<lparr>buffer := b\<rparr>) = contents rb"
    using used_less [OF assms(1)] by (simp add: contents_slots inv assms(1) bnth)
  have "contents (rb\<lparr>buffer := b, head := (head rb + n) mod capacity rb\<rparr>) =
      contents (rb\<lparr>buffer := b\<rparr>) @ take (unat n) data"
    using contents_publish [OF inv, of n data] wr fit n by simp
  moreover have "take (unat n) data = take (unat (capacity rb) - 1 - used rb) data"
    by (simp add: n min_def)
  ultimately show ?thesis
    unfolding same by (cases "n = 0") (auto simp: push_def Let_def simp flip: n_def b_def)
qed

lemma ring_inv_push [wf_intros]: "ring_inv rb \<Longrightarrow> ring_inv (push rb data)"
  by (simp add: push_def Let_def ring_inv_def unat_mod_distrib)

lemma ring_inv_pop [wf_intros]: "ring_inv rb \<Longrightarrow> ring_inv (snd (pop rb n))"
  by (simp add: pop_def Let_def wf_intros)

lemma capacity_push [simp]: "capacity (push rb data) = capacity rb"
  by (simp add: push_def Let_def)

lemma capacity_pop [simp]: "capacity (snd (pop rb n)) = capacity rb"
  by (simp add: pop_def Let_def)

lemma pop_result:
  assumes "ring_inv rb" "n < 2 ^ 64"
  shows "fst (pop rb n) = take n (contents rb) @ replicate (n - used rb) 0"
  using assms by (auto simp: pop_def Let_def unat_pop_count contents_def take_map min_def)

lemma contents_pop:
  assumes "ring_inv rb" "n < 2 ^ 64"
  shows "contents (snd (pop rb n)) = drop n (contents rb)"
  using assms by (simp add: pop_def Let_def contents_tail_step unat_pop_count min_def)

section \<open>The interface: a bounded FIFO\<close>

text \<open>
  What the audio threads rely on. \<open>size\<close> is the number of samples the queue can
  hold; a push keeps the part that fits, a pop always delivers the requested
  number of samples, silence after the queued ones.
\<close>

locale bounded_fifo =
  fixes inv :: "'q \<Rightarrow> bool"
    and list :: "'q \<Rightarrow> 'a list"
    and room :: "'q \<Rightarrow> nat"
    and enq :: "'q \<Rightarrow> 'a list \<Rightarrow> 'q"
    and deq :: "'q \<Rightarrow> nat \<Rightarrow> 'a list \<times> 'q"
    and silence :: 'a
    and limit :: nat
  assumes inv_enq: "inv q \<Longrightarrow> inv (enq q xs)"
    and inv_deq: "inv q \<Longrightarrow> inv (snd (deq q n))"
    and room_enq: "inv q \<Longrightarrow> room (enq q xs) = room q"
    and room_deq: "inv q \<Longrightarrow> room (snd (deq q n)) = room q"
    and list_bound: "inv q \<Longrightarrow> length (list q) \<le> room q"
    and list_enq: "inv q \<Longrightarrow> length xs < limit \<Longrightarrow>
      list (enq q xs) = list q @ take (room q - length (list q)) xs"
    and deq_out: "inv q \<Longrightarrow> n < limit \<Longrightarrow>
      fst (deq q n) = take n (list q) @ replicate (n - length (list q)) silence"
    and list_deq: "inv q \<Longrightarrow> n < limit \<Longrightarrow> list (snd (deq q n)) = drop n (list q)"
begin

lemma deq_length:
  assumes "inv q" "n < limit"
  shows "length (fst (deq q n)) = n"
  using assms by (simp add: deq_out)

lemma enq_fits:
  assumes "inv q" "length xs < limit" "length (list q) + length xs \<le> room q"
  shows "list (enq q xs) = list q @ xs"
  using assms by (simp add: list_enq)

lemma enq_deq_exact:
  assumes "inv q" "list q = []" "length xs < limit" "length xs \<le> room q"
  shows "fst (deq (enq q xs) (length xs)) = xs \<and> list (snd (deq (enq q xs) (length xs))) = []"
  using assms by (simp add: inv_enq enq_fits deq_out list_deq)

text \<open>
  A run of whole operations: \<open>Inl xs\<close> pushes, \<open>Inr n\<close> pops. \<open>run\<close> returns what was
  pushed into the queue, what was taken out of it (without the silence) and the queue.
\<close>

fun run :: "'q \<Rightarrow> ('a list + nat) list \<Rightarrow> 'a list \<times> 'a list \<times> 'q" where
  "run q [] = ([], [], q)"
| "run q (Inl xs # ops) =
     (let (i, out, q') = run (enq q xs) ops in (take (room q - length (list q)) xs @ i, out, q'))"
| "run q (Inr n # ops) =
     (let (i, out, q') = run (snd (deq q n)) ops
      in (i, take (length (list q)) (fst (deq q n)) @ out, q'))"

lemma run_fifo:
  assumes "inv q" "\<forall>xs. Inl xs \<in> set ops \<longrightarrow> length xs < limit" "\<forall>n. Inr n \<in> set ops \<longrightarrow> n < limit"
    and "run q ops = (i, out, q')"
  shows "inv q' \<and> list q @ i = out @ list q' \<and> length (list q') \<le> room q"
  using assms
proof (induction ops arbitrary: q i out q')
  case Nil
  then show ?case
    by (auto simp: list_bound)
next
  case (Cons op ops)
  show ?case
  proof (cases op)
    case (Inl xs)
    with Cons.prems obtain j where j: "run (enq q xs) ops = (j, out, q')"
      "i = take (room q - length (list q)) xs @ j"
      by (auto split: prod.splits)
    have "inv q' \<and> list (enq q xs) @ j = out @ list q' \<and> length (list q') \<le> room (enq q xs)"
      using Cons.prems Inl j by (intro Cons.IH) (auto simp: inv_enq)
    with j Cons.prems Inl show ?thesis
      by (simp add: list_enq room_enq)
  next
    case (Inr n)
    with Cons.prems obtain o' where j: "run (snd (deq q n)) ops = (i, o', q')"
      "out = take (length (list q)) (fst (deq q n)) @ o'"
      by (auto split: prod.splits)
    have "inv q' \<and> list (snd (deq q n)) @ i = o' @ list q' \<and> length (list q') \<le> room (snd (deq q n))"
      using Cons.prems Inr j by (intro Cons.IH) (auto simp: inv_deq)
    moreover have "take (length (list q)) (fst (deq q n)) @ drop n (list q) = list q"
      using Cons.prems Inr by (simp add: deq_out min_def)
    ultimately show ?thesis
      using j Cons.prems Inr by (simp add: list_deq room_deq) (metis append.assoc)
  qed
qed

end

interpretation rb: bounded_fifo ring_inv contents "\<lambda>rb. unat (capacity rb) - 1" push pop 0 "2 ^ 64"
proof unfold_locales
  show "length (contents q) \<le> unat (capacity q) - 1" if "ring_inv q" for q
    using used_less [OF that] by simp
qed (simp_all add: wf_intros contents_push pop_result contents_pop)

section \<open>Concurrent producer and consumer\<close>

text \<open>
  \<open>push\<close> and \<open>pop\<close> run on two threads. Each is cut at its accesses to the shared
  fields: the loads of both indices (each thread owns one of them, so the only
  racing load is that of the other thread's index), one step per sample copied,
  and the final \<open>store\<close> of the own index. Acquire/release ordering makes a sample
  copied before the store visible to the thread that loads the stored index, so
  the steps are interleaved over one memory.
\<close>

datatype producer = PIdle | PWriting "sample list" size_t nat
datatype consumer = CIdle | CReading nat size_t "sample list" | CDone "sample list"

record spsc =
  ring :: ring
  prod :: producer
  cons :: consumer

inductive spsc_step :: "spsc \<Rightarrow> spsc \<Rightarrow> bool" where
  push_load: "prod s = PIdle \<Longrightarrow> length data < 2 ^ 64 \<Longrightarrow>
     n = push_count (capacity (ring s)) (head (ring s)) (tail (ring s)) (word_of_nat (length data)) \<Longrightarrow>
     n \<noteq> 0 \<Longrightarrow> spsc_step s (s\<lparr>prod := PWriting data n 0\<rparr>)"
| push_write: "prod s = PWriting data n i \<Longrightarrow> i < unat n \<Longrightarrow>
     spsc_step s (s\<lparr>ring := (ring s)\<lparr>buffer :=
         write_sample (capacity (ring s)) (head (ring s)) data i (buffer (ring s))\<rparr>,
       prod := PWriting data n (Suc i)\<rparr>)"
| push_store: "prod s = PWriting data n (unat n) \<Longrightarrow>
     spsc_step s (s\<lparr>ring := (ring s)\<lparr>head := (head (ring s) + n) mod capacity (ring s)\<rparr>, prod := PIdle\<rparr>)"
| pop_load: "cons s \<in> {CIdle, CDone out} \<Longrightarrow> m < 2 ^ 64 \<Longrightarrow>
     n = pop_count (capacity (ring s)) (head (ring s)) (tail (ring s)) (word_of_nat m) \<Longrightarrow>
     spsc_step s (s\<lparr>cons := CReading m n []\<rparr>)"
| pop_read: "cons s = CReading m n out \<Longrightarrow> length out < unat n \<Longrightarrow>
     spsc_step s (s\<lparr>cons := CReading m n
       (out @ [read_sample (capacity (ring s)) (tail (ring s)) (buffer (ring s)) (length out)])\<rparr>)"
| pop_store: "cons s = CReading m n out \<Longrightarrow> length out = unat n \<Longrightarrow>
     spsc_step s (s\<lparr>ring := (ring s)\<lparr>tail := (tail (ring s) + n) mod capacity (ring s)\<rparr>,
       cons := CDone (out @ replicate (m - unat n) 0)\<rparr>)"

inductive_cases spsc_stepE: "spsc_step s s'"

definition prod_inv :: "spsc \<Rightarrow> bool" where
  "prod_inv s = (case prod s of PIdle \<Rightarrow> True
     | PWriting data n i \<Rightarrow> i \<le> unat n \<and> unat n \<le> length data
         \<and> used (ring s) + unat n < unat (capacity (ring s))
         \<and> (\<forall>j<i. buffer (ring s) ! slot (unat (capacity (ring s))) (unat (tail (ring s))) (used (ring s) + j)
              = data ! j))"

definition cons_inv :: "spsc \<Rightarrow> bool" where
  "cons_inv s = (case cons s of CReading m n out \<Rightarrow>
       unat n \<le> m \<and> unat n \<le> used (ring s) \<and> length out \<le> unat n
       \<and> out = take (length out) (contents (ring s))
     | _ \<Rightarrow> True)"

definition spsc_inv :: "spsc \<Rightarrow> bool" where
  "spsc_inv s \<longleftrightarrow> ring_inv (ring s) \<and> prod_inv s \<and> cons_inv s"

lemma inv_frame [simp]:
  "cons_inv (s\<lparr>prod := p\<rparr>) = cons_inv s"
  "prod_inv (s\<lparr>cons := c\<rparr>) = prod_inv s"
  by (simp_all add: cons_inv_def prod_inv_def split: consumer.split producer.split)

text \<open>The queue that a step leaves, as a function of the step's kind.\<close>

definition fifo_effect :: "spsc \<Rightarrow> spsc \<Rightarrow> bool" where
  "fifo_effect s s' \<longleftrightarrow>
     contents (ring s') = contents (ring s)
     \<or> (\<exists>data n. prod s = PWriting data n (unat n) \<and> prod s' = PIdle
          \<and> contents (ring s') = contents (ring s) @ take (unat n) data)
     \<or> (\<exists>m n out. cons s = CReading m n out \<and> cons s' = CDone (out @ replicate (m - unat n) 0)
          \<and> contents (ring s) = out @ contents (ring s'))"

text \<open>Writing into a free slot changes neither the queue nor the samples written before.\<close>

lemma write_free_slot:
  fixes data :: "sample list"
  assumes "ring_inv rb" "used rb + i < unat (capacity rb)"
  defines "b \<equiv> write_sample (capacity rb) (head rb) data i (buffer rb)"
  shows "contents (rb\<lparr>buffer := b\<rparr>) = contents rb"
    and "k < unat (capacity rb) \<Longrightarrow> b ! slot (unat (capacity rb)) (unat (tail rb)) k =
      (if k = used rb + i then data ! i else buffer rb ! slot (unat (capacity rb)) (unat (tail rb)) k)"
proof -
  have c: "0 < unat (capacity rb)" "length (buffer rb) = unat (capacity rb)"
    using assms by (auto simp: ring_inv_def)
  show nth: "b ! slot (unat (capacity rb)) (unat (tail rb)) k =
      (if k = used rb + i then data ! i else buffer rb ! slot (unat (capacity rb)) (unat (tail rb)) k)"
    if "k < unat (capacity rb)" for k
    using slot_inj [where c = "unat (capacity rb)" and t = "unat (tail rb)" and j = "used rb + i" and k = k]
      that assms c by (auto simp: write_sample_slot nth_list_update)
  have inv: "ring_inv (rb\<lparr>buffer := b\<rparr>)"
    using assms by (simp add: wf_intros)
  show "contents (rb\<lparr>buffer := b\<rparr>) = contents rb"
    using used_less [OF assms(1)] by (simp add: contents_slots inv assms(1) nth)
qed

lemma spsc_push_write:
  assumes "spsc_inv s" "prod s = PWriting data n i" "i < unat n"
  defines "s' \<equiv> s\<lparr>ring := (ring s)\<lparr>buffer :=
         write_sample (capacity (ring s)) (head (ring s)) data i (buffer (ring s))\<rparr>,
       prod := PWriting data n (Suc i)\<rparr>"
  shows "spsc_inv s' \<and> contents (ring s') = contents (ring s)"
proof -
  have r: "ring_inv (ring s)" and fit: "used (ring s) + unat n < unat (capacity (ring s))"
    and p: "unat n \<le> length data"
      "\<forall>j<i. buffer (ring s) ! slot (unat (capacity (ring s))) (unat (tail (ring s))) (used (ring s) + j) = data ! j"
    and ci: "cons_inv s"
    using assms by (auto simp: spsc_inv_def prod_inv_def)
  have fit': "used (ring s) + i < unat (capacity (ring s))"
    using fit assms(3) by simp
  note w = write_free_slot [OF r fit', where data = data]
  have "prod_inv s'"
    unfolding prod_inv_def s'_def using fit p assms(3) w(2) by (simp add: less_Suc_eq all_conj_distrib)
  moreover have "cons_inv s'"
    using ci w(1) by (simp add: cons_inv_def s'_def split: consumer.splits)
  ultimately show ?thesis
    using r w(1) by (simp add: spsc_inv_def s'_def wf_intros)
qed

lemma spsc_push_store:
  assumes "spsc_inv s" "prod s = PWriting data n (unat n)"
  defines "s' \<equiv> s\<lparr>ring := (ring s)\<lparr>head := (head (ring s) + n) mod capacity (ring s)\<rparr>, prod := PIdle\<rparr>"
  shows "spsc_inv s' \<and> contents (ring s') = contents (ring s) @ take (unat n) data"
proof -
  have r: "ring_inv (ring s)" and fit: "used (ring s) + unat n < unat (capacity (ring s))"
    and ci: "cons_inv s"
    using assms by (auto simp: spsc_inv_def prod_inv_def)
  have c: "contents (ring s') = contents (ring s) @ take (unat n) data"
    unfolding s'_def using assms(1,2) r fit
    by (simp add: contents_publish spsc_inv_def prod_inv_def)
  have "cons_inv s'"
  proof (cases "cons s")
    case (CReading m k out)
    then show ?thesis
      using ci c r fit by (simp add: cons_inv_def s'_def used_head_step)
  qed (simp_all add: cons_inv_def s'_def)
  then show ?thesis
    using r c by (simp add: spsc_inv_def prod_inv_def s'_def wf_intros)
qed

lemma spsc_pop_store:
  assumes "spsc_inv s" "cons s = CReading m n out" "length out = unat n"
  defines "s' \<equiv> s\<lparr>ring := (ring s)\<lparr>tail := (tail (ring s) + n) mod capacity (ring s)\<rparr>,
       cons := CDone (out @ replicate (m - unat n) 0)\<rparr>"
  shows "spsc_inv s' \<and> contents (ring s) = out @ contents (ring s')"
proof -
  have r: "ring_inv (ring s)" and u: "unat n \<le> used (ring s)" and out: "out = take (unat n) (contents (ring s))"
    and pr: "prod_inv s"
    using assms by (auto simp: spsc_inv_def cons_inv_def)
  have c: "contents (ring s) = out @ contents (ring s')"
    unfolding s'_def using r u out by (simp add: contents_tail_step)
  have "prod_inv s'"
  proof (cases "prod s")
    case (PWriting data k i)
    have "slot (unat (capacity (ring s))) (unat ((tail (ring s) + n) mod capacity (ring s)))
        (used (ring s) - unat n + j) = slot (unat (capacity (ring s))) (unat (tail (ring s))) (used (ring s) + j)" for j
      unfolding slot_tail_step [OF r u] using u by (intro arg_cong [where f = "\<lambda>x. x mod _"]) simp
    with PWriting show ?thesis
      using pr r u by (simp add: prod_inv_def s'_def used_tail_step, linarith)
  qed (simp add: prod_inv_def s'_def)
  then show ?thesis
    using r c by (simp add: spsc_inv_def cons_inv_def s'_def wf_intros)
qed

lemma spsc_loads:
  assumes "spsc_inv s"
  shows "length data < 2 ^ 64 \<Longrightarrow> spsc_inv (s\<lparr>prod := PWriting data
      (push_count (capacity (ring s)) (head (ring s)) (tail (ring s)) (word_of_nat (length data))) 0\<rparr>)"
    and "m < 2 ^ 64 \<Longrightarrow> spsc_inv (s\<lparr>cons := CReading m
      (pop_count (capacity (ring s)) (head (ring s)) (tail (ring s)) (word_of_nat m)) []\<rparr>)"
proof -
  have r: "ring_inv (ring s)"
    using assms by (simp add: spsc_inv_def)
  show "spsc_inv (s\<lparr>prod := PWriting data
      (push_count (capacity (ring s)) (head (ring s)) (tail (ring s)) (word_of_nat (length data))) 0\<rparr>)"
    if "length data < 2 ^ 64"
    using assms used_less [OF r] unat_push_count [OF r that]
    by (simp add: spsc_inv_def) (simp add: prod_inv_def min_def, linarith)
  show "spsc_inv (s\<lparr>cons := CReading m
      (pop_count (capacity (ring s)) (head (ring s)) (tail (ring s)) (word_of_nat m)) []\<rparr>)"
    if "m < 2 ^ 64"
    using assms unat_pop_count [OF r that]
    by (simp add: spsc_inv_def) (simp add: cons_inv_def)
qed

lemma spsc_pop_read:
  assumes "spsc_inv s" "cons s = CReading m n out" "length out < unat n"
  shows "spsc_inv (s\<lparr>cons := CReading m n
       (out @ [read_sample (capacity (ring s)) (tail (ring s)) (buffer (ring s)) (length out)])\<rparr>)"
proof -
  let ?x = "read_sample (capacity (ring s)) (tail (ring s)) (buffer (ring s)) (length out)"
  have u: "length out < used (ring s)" and out: "out = take (length out) (contents (ring s))"
    using assms by (auto simp: spsc_inv_def cons_inv_def)
  have "contents (ring s) ! length out = ?x"
    using u by (simp add: contents_def)
  then have "out @ [?x] = take (Suc (length out)) (contents (ring s))"
    using u out by (metis length_contents take_Suc_conv_app_nth)
  then show ?thesis
    using assms by (simp add: spsc_inv_def) (simp add: cons_inv_def)
qed

lemma spsc_step_inv:
  assumes "spsc_step s s'" "spsc_inv s"
  shows "spsc_inv s' \<and> fifo_effect s s'"
  using assms
proof (cases rule: spsc_step.cases)
  case (push_write data n i)
  then show ?thesis
    using spsc_push_write [OF assms(2)] by (simp add: fifo_effect_def)
next
  case (push_store data n)
  then show ?thesis
    using spsc_push_store [OF assms(2)] by (auto simp: fifo_effect_def)
next
  case (pop_store m n out)
  then show ?thesis
    using spsc_pop_store [OF assms(2)] by (auto simp: fifo_effect_def)
qed (use assms(2) spsc_loads spsc_pop_read in \<open>auto simp: fifo_effect_def\<close>)

definition spsc_init :: "size_t \<Rightarrow> spsc" where
  "spsc_init cap = \<lparr>ring = RingBuffer cap, prod = PIdle, cons = CIdle\<rparr>"

lemma spsc_inv_init:
  "0 < unat cap \<Longrightarrow> unat cap < 2 ^ 62 \<Longrightarrow> spsc_inv (spsc_init cap)"
  by (simp add: spsc_inv_def spsc_init_def wf_intros prod_inv_def cons_inv_def)

lemma spsc_reachable_inv:
  assumes "spsc_step\<^sup>*\<^sup>* s s'" "spsc_inv s"
  shows "spsc_inv s'"
  using assms by (induction rule: rtranclp_induct) (auto dest: spsc_step_inv)

section \<open>Properties\<close>

text \<open>
  C9: \<open>push\<close> and \<open>pop\<close> refine a bounded FIFO of \<open>capacity - 1\<close> samples: a push appends
  the prefix of the data that fits and drops the rest, a pop returns exactly the
  requested number of samples, the queued ones in order and silence after them.
\<close>

theorem ring_refines_fifo:
  assumes "ring_inv rb" "length data < 2 ^ 64" "n < 2 ^ 64"
  shows "ring_inv (push rb data) \<and> ring_inv (snd (pop rb n))
    \<and> contents (push rb data) = contents rb @ take (unat (capacity rb) - 1 - length (contents rb)) data
    \<and> fst (pop rb n) = take n (contents rb) @ replicate (n - length (contents rb)) 0
    \<and> contents (snd (pop rb n)) = drop n (contents rb)"
  using assms rb.inv_enq rb.inv_deq rb.list_enq rb.deq_out rb.list_deq by simp

theorem ring_refines_fifo_witness:
  "contents (push (RingBuffer 4) [1, 2, 3, 4, 5]) = [1, 2, 3]
   \<and> fst (pop (RingBuffer 4) 1) = [0]"
  using ring_refines_fifo [of "RingBuffer 4" "[1, 2, 3, 4, 5]" 1] ring_inv_RingBuffer [of 4]
  by simp

text \<open>
  C1: under every interleaving of a concurrent \<open>push\<close> and \<open>pop\<close> the queue changes only
  at the two index stores: the producer's store appends exactly the samples it
  wrote, the consumer's store removes exactly the samples it read, in FIFO order; no
  other step changes the queue, and no index leaves the buffer.
\<close>

theorem spsc_linearizable:
  assumes "spsc_step\<^sup>*\<^sup>* (spsc_init cap) s" "spsc_step s s'" "0 < unat cap" "unat cap < 2 ^ 62"
  shows "ring_inv (ring s') \<and>
     (contents (ring s') = contents (ring s)
     \<or> (\<exists>data n. prod s = PWriting data n (unat n) \<and> prod s' = PIdle
          \<and> contents (ring s') = contents (ring s) @ take (unat n) data)
     \<or> (\<exists>m n out. cons s = CReading m n out \<and> cons s' = CDone (out @ replicate (m - unat n) 0)
          \<and> contents (ring s) = out @ contents (ring s')))"
proof -
  have "spsc_inv s"
    using spsc_reachable_inv assms spsc_inv_init by blast
  then have "spsc_inv s' \<and> fifo_effect s s'"
    using assms(2) spsc_step_inv by blast
  then show ?thesis
    by (simp add: spsc_inv_def fifo_effect_def)
qed

theorem spsc_linearizable_witness:
  "ring_inv (ring ((spsc_init 4)\<lparr>prod := PWriting [7] 1 0\<rparr>))"
proof -
  have "spsc_step (spsc_init 4) ((spsc_init 4)\<lparr>prod := PWriting [7] 1 0\<rparr>)"
    by (rule push_load) (simp_all add: spsc_init_def RingBuffer_def push_count_def used_between_def)
  then show ?thesis
    using spsc_linearizable [of 4 "spsc_init 4" "(spsc_init 4)\<lparr>prod := PWriting [7] 1 0\<rparr>"] by simp
qed

end
