(* ===== verification/AudioBridge.thy ===== *)
theory AudioBridge
  imports RingBuffer
begin

text \<open>
  Model of \<open>voip/audio_bridge.cpp\<close>, \<open>voip/ringrtc_sip_bridge.{h,cpp}\<close> and of
  \<open>wireBridgeAudio\<close> (\<open>daemon/main.cpp\<close>): the two PJMEDIA ports over the ring buffers, the
  feeder loop, and the wiring of resample ports into the conference bridge. The
  conference bridge is state of its own: PJMEDIA's clock thread drives every port
  registered there, so an entry whose downstream audio object is destroyed is a use
  after free.
\<close>

section \<open>Frames and ports\<close>

datatype frame_type = FRAME_NONE | FRAME_AUDIO | FRAME_OTHER

record frame =
  ftype :: frame_type
  fsize :: nat
  fbuf :: "sample list"

abbreviation SAMPLES_PER_FRAME :: nat where
  "SAMPLES_PER_FRAME \<equiv> 480"

text \<open>The downstream object of a conference port: this bridge's input or output, or another's.\<close>

datatype downstream = DnInput | DnOutput | DnOther

record conf =
  ports :: "int \<Rightarrow> downstream option"
  links :: "(int \<times> int) list"
  pools :: nat

abbreviation PJSUA_INVALID_ID :: int where
  "PJSUA_INVALID_ID \<equiv> -1"

definition conf_add_port :: "(conf \<Rightarrow> int option) \<Rightarrow> conf \<Rightarrow> downstream \<Rightarrow> int \<times> conf" where
  "conf_add_port alloc c d = (case alloc c of
       None \<Rightarrow> (PJSUA_INVALID_ID, c)
     | Some i \<Rightarrow> (i, c\<lparr>ports := (ports c)(i \<mapsto> d)\<rparr>))"

definition conf_remove_port :: "int \<Rightarrow> conf \<Rightarrow> conf" where
  "conf_remove_port i c = c\<lparr>ports := (ports c)(i := None),
     links := filter (\<lambda>(a, b). a \<noteq> i \<and> b \<noteq> i) (links c)\<rparr>"

definition conf_connect :: "int \<Rightarrow> int \<Rightarrow> conf \<Rightarrow> conf" where
  "conf_connect a b c =
     (if a = PJSUA_INVALID_ID \<or> b = PJSUA_INVALID_ID then c else c\<lparr>links := (a, b) # links c\<rparr>)"

section \<open>The bridge object\<close>

record bridge =
  mic_buffer :: ring
  playout_buffer :: ring
  input_active :: bool
  output_active :: bool
  input_port :: int
  output_port :: int
  feeder_running :: bool
  feeder_thread :: bool
  resample_pool :: bool
  in_resample_id :: int
  out_resample_id :: int
  alive :: bool

definition kRingBufferCapacitySamples :: size_t where
  "kRingBufferCapacitySamples = 48000 * 2"

definition RingRtcSipBridge :: "(conf \<Rightarrow> int option) \<Rightarrow> conf \<Rightarrow> bridge \<times> conf" where
  "RingRtcSipBridge alloc c =
     (let (i, c1) = conf_add_port alloc c DnInput; (j, c2) = conf_add_port alloc c1 DnOutput in
      (\<lparr>mic_buffer = RingBuffer kRingBufferCapacitySamples,
        playout_buffer = RingBuffer kRingBufferCapacitySamples,
        input_active = False, output_active = False, input_port = i, output_port = j,
        feeder_running = False, feeder_thread = False,
        resample_pool = False, in_resample_id = PJSUA_INVALID_ID, out_resample_id = PJSUA_INVALID_ID,
        alive = True\<rparr>, c2\<lparr>pools := pools c2 + 2\<rparr>))"

definition Input_PutFrameCallback :: "bridge \<Rightarrow> frame \<Rightarrow> bridge" where
  "Input_PutFrameCallback b f =
     (if ftype f \<noteq> FRAME_AUDIO then b
      else if \<not> input_active b then b
      else b\<lparr>mic_buffer := push (mic_buffer b) (take (fsize f div 2) (fbuf f))\<rparr>)"

definition Input_GetFrameCallback :: "frame \<Rightarrow> frame" where
  "Input_GetFrameCallback f = f\<lparr>ftype := FRAME_NONE, fsize := 0\<rparr>"

definition Output_PutFrameCallback :: "frame \<Rightarrow> frame" where
  "Output_PutFrameCallback f = f\<lparr>ftype := FRAME_NONE, fsize := 0\<rparr>"

definition Output_GetFrameCallback :: "bridge \<Rightarrow> frame \<Rightarrow> bridge \<times> frame" where
  "Output_GetFrameCallback b f =
     (if \<not> output_active b then (b, f\<lparr>ftype := FRAME_NONE, fsize := 0\<rparr>)
      else let (out, rb) = pop (playout_buffer b) SAMPLES_PER_FRAME
           in (b\<lparr>playout_buffer := rb\<rparr>,
               f\<lparr>fbuf := out @ drop SAMPLES_PER_FRAME (fbuf f), ftype := FRAME_AUDIO,
                 fsize := SAMPLES_PER_FRAME * 2\<rparr>))"

definition HasResamplePorts :: "bridge \<Rightarrow> bool" where
  "HasResamplePorts b = resample_pool b"

definition SetResamplePorts :: "bridge \<Rightarrow> int \<Rightarrow> int \<Rightarrow> bridge" where
  "SetResamplePorts b in_id out_id =
     b\<lparr>resample_pool := True, in_resample_id := in_id, out_resample_id := out_id\<rparr>"

definition bridge_Start :: "bridge \<Rightarrow> bridge" where
  "bridge_Start b =
     (if feeder_running b then b
      else b\<lparr>feeder_running := True, input_active := True, output_active := True, feeder_thread := True\<rparr>)"

definition bridge_Stop :: "bridge \<Rightarrow> bridge" where
  "bridge_Stop b =
     (if \<not> feeder_running b then b
      else b\<lparr>feeder_running := False, feeder_thread := False, input_active := False, output_active := False\<rparr>)"

text \<open>One iteration of \<open>FeederLoop\<close>: \<open>pulled\<close> is what \<open>signal2sip_pull_playout_samples\<close> returned.\<close>

definition FeederLoop_tick :: "bridge \<Rightarrow> sample list \<Rightarrow> sample list \<times> bridge" where
  "FeederLoop_tick b pulled =
     (let (mic_scratch, mic) = pop (mic_buffer b) SAMPLES_PER_FRAME
      in (mic_scratch, b\<lparr>mic_buffer := mic, playout_buffer := push (playout_buffer b) pulled\<rparr>))"

definition destroy_bridge :: "bridge \<Rightarrow> conf \<Rightarrow> bridge \<times> conf" where
  "destroy_bridge b c =
     (let b1 = bridge_Stop b;
          (b2, c2) = (if resample_pool b1
            then (b1\<lparr>resample_pool := False\<rparr>,
                  (conf_remove_port (out_resample_id b1) (conf_remove_port (in_resample_id b1) c))
                    \<lparr>pools := pools c - 1\<rparr>)
            else (b1, c));
          c3 = conf_remove_port (input_port b2) (conf_remove_port (output_port b2) c2)
      in (b2\<lparr>alive := False\<rparr>, c3\<lparr>pools := pools c3 - 2\<rparr>))"

text \<open>
  \<open>wireBridgeAudio\<close>: \<open>media\<close> lists the call's media, \<open>Some p\<close> for an audio medium with
  conference port \<open>p\<close>, \<open>None\<close> for one the loop skips.
\<close>

fun wire_loop :: "(conf \<Rightarrow> int option) \<Rightarrow> int option list \<Rightarrow> bridge \<Rightarrow> conf \<Rightarrow> bridge \<times> conf" where
  "wire_loop alloc [] b c = (b, c)"
| "wire_loop alloc (None # ms) b c = wire_loop alloc ms b c"
| "wire_loop alloc (Some p # ms) b c =
     (let c0 = c\<lparr>pools := pools c + 1\<rparr>;
          (i, c1) = conf_add_port alloc c0 DnInput;
          c2 = conf_connect p i c1;
          (j, c3) = conf_add_port alloc c2 DnOutput;
          c4 = conf_connect j p c3
      in wire_loop alloc ms (bridge_Start (SetResamplePorts b i j)) c4)"

definition wireBridgeAudio :: "(conf \<Rightarrow> int option) \<Rightarrow> int option list \<Rightarrow> bridge \<Rightarrow> conf \<Rightarrow> bridge \<times> conf" where
  "wireBridgeAudio alloc media b c =
     (if HasResamplePorts b then (b, c) else wire_loop alloc media b c)"

section \<open>Well-formedness\<close>

definition bridge_inv :: "bridge \<Rightarrow> bool" where
  "bridge_inv b \<longleftrightarrow> ring_inv (mic_buffer b) \<and> ring_inv (playout_buffer b)
     \<and> capacity (mic_buffer b) = kRingBufferCapacitySamples
     \<and> capacity (playout_buffer b) = kRingBufferCapacitySamples
     \<and> feeder_thread b = feeder_running b
     \<and> input_active b = feeder_running b \<and> output_active b = feeder_running b"

lemma capacity_facts [simp]: "unat kRingBufferCapacitySamples = 96000"
  by (simp add: kRingBufferCapacitySamples_def)

lemma bridge_inv_new [wf_intros]: "bridge_inv (fst (RingRtcSipBridge alloc c))"
  by (auto simp: bridge_inv_def RingRtcSipBridge_def Let_def wf_intros split: prod.split)

lemma bridge_inv_ops [wf_intros]:
  assumes "bridge_inv b"
  shows "bridge_inv (Input_PutFrameCallback b f)"
    and "bridge_inv (fst (Output_GetFrameCallback b f))"
    and "bridge_inv (bridge_Start b)"
    and "bridge_inv (bridge_Stop b)"
    and "bridge_inv (snd (FeederLoop_tick b pulled))"
    and "bridge_inv (SetResamplePorts b i j)"
  using assms ring_inv_pop [of "mic_buffer b" SAMPLES_PER_FRAME] capacity_pop [of "mic_buffer b" SAMPLES_PER_FRAME]
    ring_inv_pop [of "playout_buffer b" SAMPLES_PER_FRAME] capacity_pop [of "playout_buffer b" SAMPLES_PER_FRAME]
  by (simp_all add: bridge_inv_def Input_PutFrameCallback_def Output_GetFrameCallback_def bridge_Start_def
      bridge_Stop_def FeederLoop_tick_def SetResamplePorts_def Let_def ring_inv_push split_beta)

lemma bridge_inv_wire [wf_intros]:
  "bridge_inv b \<Longrightarrow> bridge_inv (fst (wire_loop alloc ms b c))"
  by (induction alloc ms b c rule: wire_loop.induct) (auto simp: Let_def wf_intros split: prod.split)

section \<open>Conference ports of a bridge\<close>

definition owned :: "bridge \<Rightarrow> int set" where
  "owned b = {input_port b, output_port b}
     \<union> (if resample_pool b then {in_resample_id b, out_resample_id b} else {})"

definition into_bridge :: "conf \<Rightarrow> int \<Rightarrow> bool" where
  "into_bridge c i \<longleftrightarrow> ports c i = Some DnInput \<or> ports c i = Some DnOutput"

definition conf_inv :: "bridge \<Rightarrow> conf \<Rightarrow> bool" where
  "conf_inv b c \<longleftrightarrow> Collect (into_bridge c) \<subseteq> owned b"

definition dangling :: "bridge \<Rightarrow> conf \<Rightarrow> int \<Rightarrow> bool" where
  "dangling b c i \<longleftrightarrow> \<not> alive b \<and> into_bridge c i"

definition unused :: "conf \<Rightarrow> bool" where
  "unused c \<longleftrightarrow> (\<forall>i. \<not> into_bridge c i)"

lemma into_bridge_add: "Collect (into_bridge (snd (conf_add_port alloc c d))) \<subseteq>
    insert (fst (conf_add_port alloc c d)) (Collect (into_bridge c))"
  by (auto simp: conf_add_port_def into_bridge_def split: option.splits)

lemma into_bridge_frame [simp]:
  "into_bridge (conf_connect i j c) = into_bridge c"
  "into_bridge (c\<lparr>pools := n\<rparr>) = into_bridge c"
  by (auto simp: conf_connect_def into_bridge_def fun_eq_iff)

lemma into_bridge_remove [simp]:
  "into_bridge (conf_remove_port i c) k \<longleftrightarrow> k \<noteq> i \<and> into_bridge c k"
  by (auto simp: conf_remove_port_def into_bridge_def)

lemma conf_inv_new:
  assumes "unused c"
  shows "conf_inv (fst (RingRtcSipBridge alloc c)) (snd (RingRtcSipBridge alloc c))"
  using assms into_bridge_add [of alloc c DnInput]
    into_bridge_add [of alloc "snd (conf_add_port alloc c DnInput)" DnOutput]
  by (auto simp: unused_def conf_inv_def RingRtcSipBridge_def owned_def Let_def split_beta)

lemma owned_Start [simp]: "owned (bridge_Start b) = owned b"
  by (simp add: owned_def bridge_Start_def)

lemma owned_Stop [simp]: "owned (bridge_Stop b) = owned b"
  by (simp add: owned_def bridge_Stop_def)

lemma wire_loop_no_audio: "\<forall>m \<in> set ms. m = None \<Longrightarrow> wire_loop alloc ms b c = (b, c)"
  by (induction alloc ms b c rule: wire_loop.induct) auto

lemma conf_inv_wire_one:
  assumes "conf_inv b c" "\<not> resample_pool b" "\<forall>m \<in> set ms. m = None"
  shows "conf_inv (fst (wire_loop alloc (Some p # ms) b c)) (snd (wire_loop alloc (Some p # ms) b c))"
proof -
  let ?c0 = "c\<lparr>pools := pools c + 1\<rparr>"
  let ?i = "conf_add_port alloc ?c0 DnInput"
  let ?j = "conf_add_port alloc (conf_connect p (fst ?i) (snd ?i)) DnOutput"
  have "Collect (into_bridge (snd ?j)) \<subseteq> {fst ?i, fst ?j} \<union> Collect (into_bridge c)"
    using into_bridge_add [of alloc ?c0 DnInput]
      into_bridge_add [of alloc "conf_connect p (fst ?i) (snd ?i)" DnOutput] by auto
  moreover have "owned (SetResamplePorts b (fst ?i) (fst ?j)) = {fst ?i, fst ?j} \<union> owned b"
    using assms(2) by (auto simp: owned_def SetResamplePorts_def)
  ultimately show ?thesis
    using assms(1,3) by (auto simp: Let_def split_beta wire_loop_no_audio conf_inv_def)
qed

lemma conf_inv_wire_loop:
  assumes "conf_inv b c" "\<not> resample_pool b" "length (filter (\<lambda>m. m \<noteq> None) ms) \<le> 1"
  shows "conf_inv (fst (wire_loop alloc ms b c)) (snd (wire_loop alloc ms b c))"
  using assms
proof (induction ms)
  case (Cons m ms)
  show ?case
  proof (cases m)
    case (Some p)
    then have "\<forall>m \<in> set ms. m = None"
      using Cons.prems(3) by (auto simp: filter_empty_conv)
    with Some show ?thesis
      using conf_inv_wire_one Cons.prems by blast
  qed (use Cons in simp)
qed simp

lemma wire_alive: "alive (fst (wire_loop alloc ms b c)) = alive b"
  by (induction alloc ms b c rule: wire_loop.induct)
    (auto simp: Let_def SetResamplePorts_def bridge_Start_def split: prod.split)

lemma destroy_no_dangling:
  assumes "conf_inv b c"
  shows "\<not> dangling (fst (destroy_bridge b c)) (snd (destroy_bridge b c)) i"
  using assms
  by (auto simp: destroy_bridge_def dangling_def conf_inv_def owned_def bridge_Stop_def Let_def split_beta)

text \<open>The life of a bridge: constructed, wired by a sequence of media-state callbacks, destroyed.\<close>

definition bridge_life :: "(conf \<Rightarrow> int option) \<Rightarrow> int option list list \<Rightarrow> conf \<Rightarrow> bridge \<times> conf" where
  "bridge_life alloc events c =
     (let (b, c') = fold (\<lambda>ms (b, c). wireBridgeAudio alloc ms b c) events (RingRtcSipBridge alloc c)
      in destroy_bridge b c')"

lemma conf_inv_wireBridgeAudio:
  assumes "conf_inv b c" "length (filter (\<lambda>m. m \<noteq> None) ms) \<le> 1"
  shows "conf_inv (fst (wireBridgeAudio alloc ms b c)) (snd (wireBridgeAudio alloc ms b c))"
  using assms conf_inv_wire_loop by (auto simp: wireBridgeAudio_def HasResamplePorts_def)

lemma conf_inv_events:
  assumes "conf_inv (fst bc) (snd bc)" "\<forall>ms \<in> set events. length (filter (\<lambda>m. m \<noteq> None) ms) \<le> 1"
  shows "conf_inv (fst (fold (\<lambda>ms (b, c). wireBridgeAudio alloc ms b c) events bc))
    (snd (fold (\<lambda>ms (b, c). wireBridgeAudio alloc ms b c) events bc))"
  using assms
proof (induction events arbitrary: bc)
  case (Cons ms events)
  have "conf_inv (fst (wireBridgeAudio alloc ms (fst bc) (snd bc))) (snd (wireBridgeAudio alloc ms (fst bc) (snd bc)))"
    using Cons.prems by (intro conf_inv_wireBridgeAudio) simp_all
  with Cons show ?case
    by (simp add: split_beta)
qed simp

section \<open>Properties\<close>

text \<open>
  C24: for calls with at most one usable audio medium, however often the media
  state changes, destroying the bridge leaves no conference port whose downstream
  is the destroyed bridge: PJMEDIA's clock thread can no longer reach freed audio
  objects.
\<close>

theorem bridge_teardown_safe:
  assumes "unused c" "\<forall>ms \<in> set events. length (filter (\<lambda>m. m \<noteq> None) ms) \<le> 1"
  shows "\<not> dangling (fst (bridge_life alloc events c)) (snd (bridge_life alloc events c)) i"
proof -
  let ?bc = "fold (\<lambda>ms (b, c). wireBridgeAudio alloc ms b c) events (RingRtcSipBridge alloc c)"
  have "conf_inv (fst ?bc) (snd ?bc)"
    using conf_inv_events [OF conf_inv_new [OF assms(1)] assms(2)] .
  then show ?thesis
    using destroy_no_dangling [of "fst ?bc" "snd ?bc"]
    by (simp add: bridge_life_def split_beta)
qed

definition conf0 :: conf where
  "conf0 = \<lparr>ports = (\<lambda>_. None), links = [], pools = 0\<rparr>"

definition alloc_next :: "conf \<Rightarrow> int option" where
  "alloc_next c = (if ports c 0 = None then Some 0 else if ports c 1 = None then Some 1
     else if ports c 2 = None then Some 2 else if ports c 3 = None then Some 3
     else if ports c 4 = None then Some 4 else if ports c 5 = None then Some 5 else None)"

theorem bridge_teardown_safe_witness:
  "\<not> dangling (fst (bridge_life alloc_next [[None, Some 9], [Some 9]] conf0))
     (snd (bridge_life alloc_next [[None, Some 9], [Some 9]] conf0)) 2"
  by (rule bridge_teardown_safe) (simp_all add: unused_def conf0_def into_bridge_def)

text \<open>
  \<open>wireBridgeAudio\<close> tests \<open>HasResamplePorts\<close> once, before its loop. A call whose
  SDP has two audio media gets two pairs of resample ports, only the last pair is
  recorded, and after the destructor the first pair is still driven by the
  conference bridge into the destroyed ports.
\<close>

theorem two_audio_media_dangle:
  "dangling (fst (bridge_life alloc_next [[Some 8, Some 9]] conf0))
     (snd (bridge_life alloc_next [[Some 8, Some 9]] conf0)) 2"
  by (simp add: bridge_life_def dangling_def into_bridge_def wireBridgeAudio_def HasResamplePorts_def RingRtcSipBridge_def
      conf_add_port_def conf_connect_def conf_remove_port_def SetResamplePorts_def bridge_Start_def
      bridge_Stop_def destroy_bridge_def conf0_def alloc_next_def)

text \<open>
  One tick of the feeder always hands RingRTC exactly one full frame: the oldest
  queued microphone samples in order, silence after them; what RingRTC returned is
  queued behind the earlier playout samples up to the two-second capacity.
\<close>

theorem feeder_tick_frame:
  assumes "bridge_inv b" "length pulled \<le> SAMPLES_PER_FRAME"
  shows "fst (FeederLoop_tick b pulled) = take 480 (contents (mic_buffer b))
           @ replicate (480 - length (contents (mic_buffer b))) 0
    \<and> length (fst (FeederLoop_tick b pulled)) = 480
    \<and> contents (mic_buffer (snd (FeederLoop_tick b pulled))) = drop 480 (contents (mic_buffer b))
    \<and> contents (playout_buffer (snd (FeederLoop_tick b pulled))) =
        contents (playout_buffer b) @ take (95999 - length (contents (playout_buffer b))) pulled"
  using assms rb.deq_out [of "mic_buffer b" 480] rb.list_deq [of "mic_buffer b" 480]
    rb.list_enq [of "playout_buffer b" pulled]
  by (simp add: FeederLoop_tick_def bridge_inv_def split_beta)

theorem feeder_tick_frame_witness:
  "length (fst (FeederLoop_tick (fst (RingRtcSipBridge alloc_next conf0)) [5])) = 480"
  using feeder_tick_frame [of "fst (RingRtcSipBridge alloc_next conf0)" "[5]"] bridge_inv_new by simp

end
