(* ===== verification/Base64.thy ===== *)
theory Base64
  imports Prelude
begin

text \<open>
  Model of \<open>util/Base64.cpp\<close>: the encoder works on 24-bit groups held in a
  \<open>uint32_t\<close>; the decoder is one pass over the characters with a 32-bit shift
  buffer and a count of pending bits. The round trip, the length and the
  alphabet of the encoding are proved for every byte vector.
\<close>

section \<open>The code\<close>

definition kAlphabet :: string where
  "kAlphabet = ''ABCDEFGHIJKLMNOPQRSTUVWXYZabcdefghijklmnopqrstuvwxyz0123456789+/''"

definition sextet :: "uint32 \<Rightarrow> nat \<Rightarrow> char" where
  "sextet n k = kAlphabet ! unat (drop_bit k n AND 0x3F)"

fun base64Encode :: "bytes \<Rightarrow> string" where
  "base64Encode (a # b # c # rest) =
     (let n = push_bit 16 (ucast a) OR push_bit 8 (ucast b) OR ucast c :: uint32
      in sextet n 18 # sextet n 12 # sextet n 6 # sextet n 0 # base64Encode rest)"
| "base64Encode [a] =
     (let n = push_bit 16 (ucast a) :: uint32
      in [sextet n 18, sextet n 12, CHR ''='', CHR ''=''])"
| "base64Encode [a, b] =
     (let n = push_bit 16 (ucast a) OR push_bit 8 (ucast b) :: uint32
      in [sextet n 18, sextet n 12, sextet n 6, CHR ''=''])"
| "base64Encode [] = []"

definition kTable :: "char \<Rightarrow> int" where
  "kTable = fold (\<lambda>i t. t(kAlphabet ! i := int i)) [0..<64] (\<lambda>_. -1)"

fun decode_loop :: "string \<Rightarrow> uint32 \<Rightarrow> nat \<Rightarrow> bytes \<Rightarrow> bytes" where
  "decode_loop [] buffer bits out = out"
| "decode_loop (c # cs) buffer bits out =
     (if c = CHR ''='' then out
      else let v = kTable c in
        if v < 0 then decode_loop cs buffer bits out
        else let buffer' = push_bit 6 buffer OR word_of_int v; bits' = bits + 6 in
          if 8 \<le> bits' then
            decode_loop cs buffer' (bits' - 8)
              (out @ [ucast (drop_bit (bits' - 8) buffer' AND 0xFF)])
          else decode_loop cs buffer' bits' out)"

definition base64Decode :: "string \<Rightarrow> bytes" where
  "base64Decode input = decode_loop input 0 0 []"

section \<open>The decoding table inverts the alphabet\<close>

lemma kAlphabet_length [simp]: "length kAlphabet = 64"
  by (simp add: kAlphabet_def)

lemma kAlphabet_distinct: "distinct kAlphabet"
  by (simp add: kAlphabet_def)

lemma kAlphabet_no_pad: "CHR ''='' \<notin> set kAlphabet"
  by (simp add: kAlphabet_def)

lemma fold_table_in:
  assumes "distinct xs" "n \<le> length xs" "i < n"
  shows "fold (\<lambda>i t. t(xs ! i := int i)) [0..<n] t0 (xs ! i) = int i"
  using assms by (induction n) (auto simp: less_Suc_eq nth_eq_iff_index_eq)

lemma fold_table_out:
  assumes "n \<le> length xs" "c \<notin> set xs"
  shows "fold (\<lambda>i t. t(xs ! i := int i)) [0..<n] t0 c = t0 c"
  using assms by (induction n) auto

lemma kTable_alphabet: "i < 64 \<Longrightarrow> kTable (kAlphabet ! i) = int i"
  by (simp add: kTable_def fold_table_in kAlphabet_distinct)

lemma kTable_other: "c \<notin> set kAlphabet \<Longrightarrow> kTable c = -1"
  by (simp add: kTable_def fold_table_out)

lemma sextet_index: "unat ((w :: uint32) AND 0x3F) < 64"
proof -
  have "w AND 0x3F = take_bit 6 w"
    by (simp add: take_bit_eq_mask mask_eq_exp_minus_1)
  then show ?thesis
    using take_bit_nat_less_exp [of 6 "unat w"] by (simp add: unsigned_take_bit_eq)
qed

lemma sextet_in_alphabet [simp]: "sextet n k \<in> set kAlphabet"
  by (simp add: sextet_def sextet_index)

lemma kTable_sextet [simp]: "kTable (sextet n k) = uint (drop_bit k n AND 0x3F)"
  by (simp add: sextet_def kTable_alphabet sextet_index)

lemma sextet_not_pad [simp]: "sextet n k \<noteq> CHR ''=''"
  using sextet_in_alphabet [of n k] kAlphabet_no_pad by metis

section \<open>Round trip\<close>

text \<open>
  One step of the decoder shifts a sextet of the encoder's group \<open>n\<close> into the
  buffer (\<open>acc\<close>); a byte is read from the buffer above \<open>j\<close> pending bits (\<open>emit\<close>).
\<close>

definition acc :: "uint32 \<Rightarrow> nat \<Rightarrow> uint32 \<Rightarrow> uint32" where
  "acc n k buffer = push_bit 6 buffer OR (drop_bit k n AND 0x3F)"

definition emit :: "nat \<Rightarrow> uint32 \<Rightarrow> byte" where
  "emit j buffer = ucast (drop_bit j buffer AND 0xFF)"

lemma decode_char [simp]:
  "decode_loop (sextet n k # cs) buffer bits out =
     (if 2 \<le> bits then decode_loop cs (acc n k buffer) (bits - 2) (out @ [emit (bits - 2) (acc n k buffer)])
      else decode_loop cs (acc n k buffer) (bits + 6) out)"
  by (simp add: Let_def acc_def emit_def)

lemma decode_pad [simp]: "decode_loop (CHR ''='' # cs) buffer bits out = out"
  by simp

declare decode_loop.simps(2) [simp del]

lemma emit_acc:
  assumes "j \<le> 4"
  shows "emit j (acc n k (acc n (k + 6) B)) = ucast (drop_bit (k + j) n)"
proof (rule bit_word_eqI)
  fix i assume "i < LENGTH(8)"
  then have i: "i < 8" by simp
  have m: "(0x3F :: uint32) = mask 6" "(0xFF :: uint32) = mask 8"
    by (simp_all add: mask_eq_exp_minus_1)
  show "bit (emit j (acc n k (acc n (k + 6) B))) i = bit (ucast (drop_bit (k + j) n) :: byte) i"
    unfolding emit_def acc_def m using i assms by (auto simp: bit_simps ac_simps)
qed

lemmas emit_simps [simp] =
  emit_acc [of 4 _ 12, simplified] emit_acc [of 2 _ 6, simplified] emit_acc [of 0 _ 0, simplified]

lemma byte_bit_high [simp]: "\<not> bit (b :: byte) (8 + n)" "\<not> bit (b :: byte) (16 + n)"
  using bit_imp_le_length [of b "8 + n"] bit_imp_le_length [of b "16 + n"] by auto

lemma group_bytes:
  fixes a b c :: byte
  defines "n \<equiv> push_bit 16 (ucast a) OR push_bit 8 (ucast b) OR ucast c :: uint32"
  shows "(ucast (drop_bit 16 n) :: byte) = a" "(ucast (drop_bit 8 n) :: byte) = b"
    "(ucast n :: byte) = c"
  unfolding n_def by (auto intro!: bit_word_eqI simp: bit_simps)

lemma group_bytes_short:
  fixes a b :: byte
  shows "(ucast (drop_bit 16 (push_bit 16 (ucast a) :: uint32)) :: byte) = a"
    "(ucast (drop_bit 16 (push_bit 16 (ucast a) OR push_bit 8 (ucast b) :: uint32)) :: byte) = a"
    "(ucast (drop_bit 8 (push_bit 16 (ucast a) OR push_bit 8 (ucast b) :: uint32)) :: byte) = b"
  by (auto intro!: bit_word_eqI simp: bit_simps)

lemma decode_group4:
  "decode_loop (sextet n 18 # sextet n 12 # sextet n 6 # sextet n 0 # cs) B 0 out =
    decode_loop cs (acc n 0 (acc n 6 (acc n 12 (acc n 18 B)))) 0
      (out @ [ucast (drop_bit 16 n), ucast (drop_bit 8 n), ucast n])"
  by simp

lemma decode_group2:
  "decode_loop [sextet n 18, sextet n 12, CHR ''='', CHR ''=''] B 0 out = out @ [ucast (drop_bit 16 n)]"
  by simp

lemma decode_group3:
  "decode_loop [sextet n 18, sextet n 12, sextet n 6, CHR ''=''] B 0 out =
    out @ [ucast (drop_bit 16 n), ucast (drop_bit 8 n)]"
  by simp

lemma decode_loop_encode: "decode_loop (base64Encode xs) B 0 out = out @ xs"
proof (induction xs arbitrary: B out rule: base64Encode.induct)
  case (1 a b c rest)
  show ?case
    by (simp only: base64Encode.simps Let_def decode_group4 group_bytes 1) simp
qed (simp_all only: base64Encode.simps Let_def decode_group2 decode_group3 group_bytes_short
       decode_loop.simps(1) append_Nil2)

text \<open>C10: decoding what \<open>base64Encode\<close> wrote gives back the input, for every byte vector.\<close>

theorem base64_roundtrip: "base64Decode (base64Encode xs) = xs"
  by (simp add: base64Decode_def decode_loop_encode)

lemma decode_loop_append_pad:
  "decode_loop (cs @ replicate k (CHR ''='')) buffer bits out = decode_loop cs buffer bits out"
  by (induction cs buffer bits out rule: decode_loop.induct)
    (cases k, auto simp: Let_def decode_loop.simps(2))

lemma base64Encode_shape:
  "\<exists>body k. base64Encode xs = body @ replicate k (CHR ''='') \<and> set body \<subseteq> set kAlphabet
     \<and> k = (3 - length xs mod 3) mod 3 \<and> length (base64Encode xs) = (length xs + 2) div 3 * 4"
proof (induction xs rule: base64Encode.induct)
  case (1 a b c rest)
  then obtain body k where ih: "base64Encode rest = body @ replicate k (CHR ''='')"
    "set body \<subseteq> set kAlphabet" "k = (3 - length rest mod 3) mod 3"
    "length (base64Encode rest) = (length rest + 2) div 3 * 4"
    by metis
  define n where "n = (push_bit 16 (ucast a) OR push_bit 8 (ucast b) OR ucast c :: uint32)"
  let ?body = "[sextet n 18, sextet n 12, sextet n 6, sextet n 0] @ body"
  have "base64Encode (a # b # c # rest) = ?body @ replicate k (CHR ''='')"
    by (simp add: Let_def ih(1) n_def)
  moreover have "set ?body \<subseteq> set kAlphabet"
    using ih(2) by simp
  moreover have "k = (3 - length (a # b # c # rest) mod 3) mod 3"
    using ih(3) by (simp add: mod_Suc)
  moreover have "length (base64Encode (a # b # c # rest)) = (length (a # b # c # rest) + 2) div 3 * 4"
    using ih(4) div_add_self2 [of 3 "length rest + 2"] by (simp add: Let_def)
  ultimately show ?case
    by blast
next
  case (2 a)
  define n where "n = (push_bit 16 (ucast a) :: uint32)"
  have "base64Encode [a] = [sextet n 18, sextet n 12] @ replicate 2 (CHR ''='')"
    by (simp add: Let_def n_def numeral_2_eq_2)
  then show ?case
    by (intro exI [of _ "[sextet n 18, sextet n 12]"] exI [of _ 2]) simp
next
  case (3 a b)
  define n where "n = (push_bit 16 (ucast a) OR push_bit 8 (ucast b) :: uint32)"
  have "base64Encode [a, b] = [sextet n 18, sextet n 12, sextet n 6] @ replicate 1 (CHR ''='')"
    by (simp add: Let_def n_def)
  then show ?case
    by (intro exI [of _ "[sextet n 18, sextet n 12, sextet n 6]"] exI [of _ 1]) simp
qed simp

end
