(* ===== verification/Padding.thy ===== *)
theory Padding
  imports Prelude
begin

text \<open>
  Model of \<open>signal/Padding.cpp\<close>: message bodies are padded with a \<open>0x80\<close>
  terminator and zeros so that the padded length is one less than a multiple of
  80, and stripped by scanning back for the terminator. Lengths are \<open>size_t\<close>.
\<close>

section \<open>The code\<close>

definition kPaddingBlockSize :: size_t where
  "kPaddingBlockSize = 80"

definition paddedMessageLength :: "size_t \<Rightarrow> size_t" where
  "paddedMessageLength messageLength =
     (let messageLengthWithTerminator = messageLength + 1;
          messagePartCount = messageLengthWithTerminator div kPaddingBlockSize;
          messagePartCount' = (if messageLengthWithTerminator mod kPaddingBlockSize \<noteq> 0
            then messagePartCount + 1 else messagePartCount)
      in messagePartCount' * kPaddingBlockSize)"

definition padMessageBody :: "bytes \<Rightarrow> bytes" where
  "padMessageBody messageBody =
     (let padded = replicate (unat (paddedMessageLength (word_of_nat (length messageBody) + 1) - 1)) 0;
          padded' = messageBody @ drop (length messageBody) padded
      in padded'[length messageBody := 0x80])"

fun strip_loop :: "bytes \<Rightarrow> nat \<Rightarrow> bytes" where
  "strip_loop m 0 = m"
| "strip_loop m (Suc i) =
     (if m ! i = 0x80 then take i m
      else if m ! i \<noteq> 0 then m
      else strip_loop m i)"

definition stripPaddingMessageBody :: "bytes \<Rightarrow> bytes" where
  "stripPaddingMessageBody m = strip_loop m (length m)"

section \<open>Lengths\<close>

lemma unat_paddedMessageLength:
  assumes "n < 2 ^ 63"
  shows "unat (paddedMessageLength (word_of_nat n)) = (n + 80) div 80 * 80"
proof -
  define w :: size_t where "w = word_of_nat n + 1"
  have w: "unat w = n + 1"
    using assms by (simp add: w_def unat_word_ariths unat_of_nat take_bit_nat_eq_self)
  have dm: "n + 1 = 80 * ((n + 1) div 80) + (n + 1) mod 80" "(n + 1) mod 80 < 80"
    by simp_all
  have parts: "unat (if w mod 80 \<noteq> 0 then w div 80 + 1 else w div 80) = (n + 80) div 80"
  proof (cases "(n + 1) mod 80 = 0")
    case True
    then have "unat (w mod 80) = 0"
      by (simp add: unat_mod_distrib w)
    then have "w mod 80 = 0"
      by (simp add: unat_eq_0)
    moreover have "(n + 80) div 80 = (n + 1) div 80"
    proof -
      obtain q where q: "n + 1 = 80 * q"
        using True by auto
      then have "n + 80 = 80 * q + 79"
        by simp
      then show ?thesis
        unfolding q by simp
    qed
    ultimately show ?thesis
      by (simp add: unat_div_distrib w)
  next
    case False
    then have "unat (w mod 80) \<noteq> 0"
      by (simp add: unat_mod_distrib w)
    then have "w mod 80 \<noteq> 0"
      by (metis unat_0)
    moreover have "(n + 80) div 80 = (n + 1) div 80 + 1"
    proof -
      define q r where "q = (n + 1) div 80" and "r = (n + 1) mod 80"
      then have "n + 1 = 80 * q + r" "r < 80" "0 < r"
        using dm False by simp_all
      then have "n + 80 = 80 * (q + 1) + (r - 1)" "r - 1 < 80"
        by simp_all
      then have "(n + 80) div 80 = q + 1"
        by (metis add.commute div_mult_self4 div_less add_0_left zero_neq_numeral)
      then show ?thesis
        by (simp add: q_def)
    qed
    ultimately show ?thesis
      using assms by (simp add: unat_div_distrib w unat_word_ariths)
  qed
  have "unat (paddedMessageLength (word_of_nat n)) =
      (unat (if w mod 80 \<noteq> 0 then w div 80 + 1 else w div 80) * 80) mod 2 ^ 64"
    by (simp add: paddedMessageLength_def kPaddingBlockSize_def Let_def unat_word_ariths w_def)
  also have "\<dots> = (n + 80) div 80 * 80"
    unfolding parts using assms by (intro mod_less) auto
  finally show ?thesis .
qed

lemma unat_padded_size:
  assumes "length xs < 2 ^ 62"
  shows "unat (paddedMessageLength (word_of_nat (length xs) + 1) - 1) = (length xs + 81) div 80 * 80 - 1"
proof -
  have l: "word_of_nat (length xs) + 1 = (word_of_nat (length xs + 1) :: size_t)"
    by simp
  have u: "unat (paddedMessageLength (word_of_nat (length xs) + 1)) = (length xs + 81) div 80 * 80"
    unfolding l using unat_paddedMessageLength [of "length xs + 1"] assms by (simp add: add.commute)
  moreover have "1 \<le> (length xs + 81) div 80 * 80"
    by simp
  ultimately have "(1 :: size_t) \<le> paddedMessageLength (word_of_nat (length xs) + 1)"
    by (simp add: word_le_nat_alt)
  then show ?thesis
    by (simp add: unat_sub u)
qed

lemma padded_room: "length xs < (length xs + 81) div 80 * 80 - 1"
proof -
  have "length xs + 81 = 80 * ((length xs + 81) div 80) + (length xs + 81) mod 80"
    "(length xs + 81) mod 80 < 80"
    by simp_all
  then show ?thesis
    by linarith
qed

text \<open>The padded body is the message, the terminator, and zeros.\<close>

lemma padMessageBody_eq:
  assumes "length xs < 2 ^ 62"
  shows "padMessageBody xs =
    xs @ 0x80 # replicate ((length xs + 81) div 80 * 80 - 2 - length xs) 0"
proof -
  define k where "k = (length xs + 81) div 80 * 80 - 2 - length xs"
  have "(length xs + 81) div 80 * 80 - 1 - length xs = Suc k"
    using padded_room [of xs] by (simp add: k_def)
  then show ?thesis
    using assms
    by (simp add: padMessageBody_def unat_padded_size Let_def list_update_append flip: k_def)
qed

section \<open>Stripping\<close>

lemma strip_loop_zeros:
  assumes "i \<le> length m" and "\<forall>j. i \<le> j \<and> j < length m \<longrightarrow> m ! j = 0"
  shows "strip_loop m (length m) = strip_loop m i"
  using assms
proof (induction "length m - i" arbitrary: i)
  case (Suc d)
  then have "strip_loop m (length m) = strip_loop m (Suc i)"
    by (intro Suc.hyps(1)) auto
  also have "\<dots> = strip_loop m i"
    using Suc.hyps(2) Suc.prems by simp
  finally show ?case .
qed simp

lemma strip_terminated:
  "stripPaddingMessageBody (xs @ 0x80 # replicate k 0) = xs"
proof -
  let ?m = "xs @ 0x80 # replicate k (0 :: byte)"
  have "strip_loop ?m (length ?m) = strip_loop ?m (Suc (length xs))"
    by (rule strip_loop_zeros) (auto simp: nth_append nth_Cons')
  then show ?thesis
    by (simp add: stripPaddingMessageBody_def)
qed

lemma strip_loop_cases:
  assumes "i \<le> length m"
  shows "strip_loop m i = m \<or>
    (\<exists>j < i. m ! j = 0x80 \<and> (\<forall>l. j < l \<and> l < i \<longrightarrow> m ! l = 0) \<and> strip_loop m i = take j m)"
  using assms
proof (induction i)
  case (Suc i)
  then show ?case
    by (auto simp: less_Suc_eq)
qed simp

text \<open>A padded message strips back to itself, whatever bytes it ends in.\<close>

theorem pad_strip_roundtrip:
  assumes "length xs < 2 ^ 62"
  shows "stripPaddingMessageBody (padMessageBody xs) = xs"
  using assms by (simp add: padMessageBody_eq strip_terminated)

theorem pad_strip_roundtrip_witness:
  "stripPaddingMessageBody (padMessageBody [7, 0x80, 0]) = [7, 0x80, 0]"
  by (rule pad_strip_roundtrip) simp

text \<open>
  The padded length is one short of a multiple of the 80-byte block, so the
  length sent hides the message length up to the block, and the padding never
  exceeds one block.
\<close>

theorem pad_length_block:
  assumes "length xs < 2 ^ 62"
  shows "length (padMessageBody xs) mod 80 = 79
    \<and> length xs < length (padMessageBody xs) \<and> length (padMessageBody xs) \<le> length xs + 80"
proof -
  obtain q r where qr: "length xs + 81 = 80 * q + r" "r < 80" "q = (length xs + 81) div 80"
    using mult_div_mod_eq [of 80 "length xs + 81"] by (metis mod_less_divisor zero_less_numeral)
  have q: "1 \<le> q"
    using qr(1,2) by simp
  have l: "length (padMessageBody xs) = 80 * (q - 1) + 79"
    using assms padded_room [of xs] q by (simp add: padMessageBody_eq flip: qr(3))
  then have "length (padMessageBody xs) mod 80 = 79"
    by simp
  moreover have "length xs < length (padMessageBody xs) \<and> length (padMessageBody xs) \<le> length xs + 80"
    using l qr(1,2) q by linarith
  ultimately show ?thesis
    by simp
qed

theorem pad_length_block_witness:
  "length (padMessageBody (replicate 78 1)) mod 80 = 79"
  using pad_length_block [of "replicate 78 1"] by simp

end
