(* ===== verification/Sql.thy ===== *)
theory Sql
  imports Prelude
begin

text \<open>
  The part of SQL that \<open>storage/Storage.cpp\<close> uses, as functions on tables of rows:
  \<open>SELECT ... WHERE\<close> equalities, \<open>INSERT ... ON CONFLICT DO UPDATE\<close>, \<open>UPDATE\<close>,
  \<open>DELETE\<close>, the DDL of the migrations, and the constraints of \<open>storage/schema.sql\<close>.
  Faults of the engine itself (I/O errors, lock contention, a prepare that fails)
  are a parameter: a \<open>sqlite\<close> record names, per statement label, the error the call
  reports, if any. A statement that reports an error leaves the database as it was.
\<close>

section \<open>Values, rows, tables\<close>

datatype sqlval = SNull | SText string | SBlob bytes | SInt int

type_synonym row = "string \<Rightarrow> sqlval"

record table =
  cols :: "string list"
  rows :: "row list"

record db =
  tabs :: "string \<Rightarrow> table option"
  autoinc :: int

record sqlite =
  prepare :: "string \<Rightarrow> string option"
  step :: "string \<Rightarrow> string option"
  exec :: "string \<Rightarrow> string option"

definition no_faults :: sqlite where
  "no_faults = \<lparr>prepare = (\<lambda>_. None), step = (\<lambda>_. None), exec = (\<lambda>_. None)\<rparr>"

type_synonym conds = "(string \<times> sqlval) list"

definition sql_eq :: "sqlval \<Rightarrow> sqlval \<Rightarrow> bool" where
  "sql_eq x y \<longleftrightarrow> x = y \<and> x \<noteq> SNull"

definition matches :: "conds \<Rightarrow> row \<Rightarrow> bool" where
  "matches cs r \<longleftrightarrow> list_all (\<lambda>(c, v). sql_eq (r c) v) cs"

definition set_cols :: "row \<Rightarrow> (string \<times> sqlval) list \<Rightarrow> row" where
  "set_cols r vs = fold (\<lambda>(c, v) r. r(c := v)) vs r"

definition rows_of :: "db \<Rightarrow> string \<Rightarrow> row list" where
  "rows_of d n = (case tabs d n of None \<Rightarrow> [] | Some t \<Rightarrow> rows t)"

definition put_rows :: "string \<Rightarrow> row list \<Rightarrow> db \<Rightarrow> db" where
  "put_rows n rs d = (case tabs d n of None \<Rightarrow> d
     | Some t \<Rightarrow> d\<lparr>tabs := (tabs d)(n \<mapsto> t\<lparr>rows := rs\<rparr>)\<rparr>)"

section \<open>Constraints of the schema\<close>

definition nonempty_text :: "sqlval \<Rightarrow> bool" where
  "nonempty_text v \<longleftrightarrow> v \<noteq> SText '''' \<and> v \<noteq> SNull"

definition fk_error :: "db \<Rightarrow> string \<Rightarrow> row \<Rightarrow> string option" where
  "fk_error d n r = (if n \<noteq> ''account''
       \<and> \<not> list_ex (matches [(''account_name'', r ''account_name'')]) (rows_of d ''account'')
     then Some ''FOREIGN KEY constraint failed'' else None)"

definition check_error :: "string \<Rightarrow> row \<Rightarrow> string option" where
  "check_error n r = (if n \<in> {''identity_keypair'', ''signed_prekey'', ''kyber_prekey''}
       \<and> r ''identity'' \<notin> {SText ''aci'', SText ''pni''}
     then Some ''CHECK constraint failed: identity IN ('aci', 'pni')'' else None)"

text \<open>The two partial unique indexes of \<open>synced_contact\<close>; \<open>others\<close> are the table's other rows.\<close>

definition clash :: "string \<Rightarrow> row \<Rightarrow> row \<Rightarrow> bool" where
  "clash c r q \<longleftrightarrow> nonempty_text (r c) \<and> matches [(''account_name'', r ''account_name''), (c, r c)] q"

definition unique_error :: "string \<Rightarrow> row list \<Rightarrow> row \<Rightarrow> string option" where
  "unique_error n others r = (if n \<noteq> ''synced_contact'' then None
     else if list_ex (clash ''e164'' r) others
       then Some ''UNIQUE constraint failed: synced_contact.account_name, synced_contact.e164''
     else if list_ex (clash ''aci'' r) others
       then Some ''UNIQUE constraint failed: synced_contact.account_name, synced_contact.aci''
     else None)"

definition first_error :: "string option list \<Rightarrow> string option" where
  "first_error es = (case filter (\<lambda>e. e \<noteq> None) es of [] \<Rightarrow> None | e # _ \<Rightarrow> e)"

section \<open>Statements\<close>

definition sql_insert :: "string \<Rightarrow> row \<Rightarrow> db \<Rightarrow> string + db" where
  "sql_insert n r d =
     (case first_error [check_error n r, unique_error n (rows_of d n) r, fk_error d n r] of
        Some e \<Rightarrow> Inl e
      | None \<Rightarrow> Inr (put_rows n (rows_of d n @ [r]) d))"

definition sql_upsert :: "string \<Rightarrow> string list \<Rightarrow> (string \<times> sqlval) list \<Rightarrow> row \<Rightarrow> db \<Rightarrow> string + db" where
  "sql_upsert n keys upd r d =
     (let cs = map (\<lambda>c. (c, r c)) keys in
      case check_error n r of Some e \<Rightarrow> Inl e
      | None \<Rightarrow>
         if list_ex (matches cs) (rows_of d n)
         then Inr (put_rows n (map (\<lambda>q. if matches cs q then set_cols q upd else q) (rows_of d n)) d)
         else (case fk_error d n r of Some e \<Rightarrow> Inl e
               | None \<Rightarrow> Inr (put_rows n (rows_of d n @ [r]) d)))"

definition sql_delete :: "string \<Rightarrow> conds \<Rightarrow> db \<Rightarrow> db" where
  "sql_delete n cs d = put_rows n (filter (\<lambda>r. \<not> matches cs r) (rows_of d n)) d"

section \<open>Calling the engine\<close>

definition Stmt :: "sqlite \<Rightarrow> string \<Rightarrow> string \<Rightarrow> db \<Rightarrow> unit result" where
  "Stmt q label n d =
     (case prepare q label of
        Some e \<Rightarrow> Inl (Runtime_error (''sqlite3_prepare_v2 failed: '' @ e))
      | None \<Rightarrow> if tabs d n = None
          then Inl (Runtime_error (''sqlite3_prepare_v2 failed: no such table: '' @ n)) else Inr ())"

text \<open>A data-modifying statement: \<open>throw\<close> turns the engine's message into the exception the caller raises.\<close>

definition run_write :: "sqlite \<Rightarrow> string \<Rightarrow> string \<Rightarrow> string \<Rightarrow> (db \<Rightarrow> string + db) \<Rightarrow> db \<Rightarrow> db result" where
  "run_write q label msg n f d =
     bindR (Stmt q label n d) (\<lambda>_. case step q label of
        Some e \<Rightarrow> Inl (Runtime_error (msg @ e))
      | None \<Rightarrow> (case f d of Inl e \<Rightarrow> Inl (Runtime_error (msg @ e)) | Inr d' \<Rightarrow> Inr d'))"

text \<open>A query whose first row is read; a step that fails looks like an empty result to the source.\<close>

definition run_first :: "sqlite \<Rightarrow> string \<Rightarrow> string \<Rightarrow> conds \<Rightarrow> db \<Rightarrow> row option result" where
  "run_first q label n cs d =
     bindR (Stmt q label n d) (\<lambda>_. Inr (if step q label \<noteq> None then None else find (matches cs) (rows_of d n)))"

definition readable :: "sqlite \<Rightarrow> string \<Rightarrow> bool" where
  "readable q label \<longleftrightarrow> prepare q label = None \<and> step q label = None"

lemma no_faults_sel [simp]:
  "prepare no_faults l = None" "step no_faults l = None" "exec no_faults l = None"
  by (simp_all add: no_faults_def)

lemma readable_no_faults [simp]: "readable no_faults label"
  by (simp add: readable_def)

section \<open>Laws\<close>

lemma set_cols_simps [simp]:
  "set_cols r [] = r"
  "set_cols r ((c, v) # vs) = set_cols (r(c := v)) vs"
  by (simp_all add: set_cols_def)

lemma matches_simps [simp]:
  "matches [] r"
  "matches ((c, v) # cs) r \<longleftrightarrow> r c = v \<and> v \<noteq> SNull \<and> matches cs r"
  by (auto simp: matches_def sql_eq_def)

lemma put_rows_tabs [simp]: "tabs (put_rows n rs d) m = None \<longleftrightarrow> tabs d m = None"
  by (auto simp: put_rows_def split: option.split)

lemma rows_of_put_rows [simp]:
  "tabs d n \<noteq> None \<Longrightarrow> rows_of (put_rows n rs d) m = (if m = n then rs else rows_of d m)"
  by (auto simp: rows_of_def put_rows_def split: option.split)

lemma rows_of_put_other [simp]: "m \<noteq> n \<Longrightarrow> rows_of (put_rows n rs d) m = rows_of d m"
  by (auto simp: rows_of_def put_rows_def split: option.split)

lemma find_map_other:
  assumes "\<And>q. q \<in> set rs \<Longrightarrow> P q \<Longrightarrow> \<not> R q \<and> \<not> R (f q)"
  shows "find R (map (\<lambda>q. if P q then f q else q) rs) = find R rs"
  using assms by (induction rs) auto

lemma find_map_same:
  assumes "\<And>q. P q \<Longrightarrow> P (f q)" and "list_ex P rs"
  shows "find P (map (\<lambda>q. if P q then f q else q) rs) = map_option f (find P rs)"
  using assms by (induction rs) auto

lemma find_append_if: "find P (rs @ [r]) = (case find P rs of None \<Rightarrow> if P r then Some r else None | Some x \<Rightarrow> Some x)"
  by (induction rs) auto

lemma find_None_list_ex: "find P rs = None \<longleftrightarrow> \<not> list_ex P rs"
  by (auto simp: find_None_iff list_ex_iff)

text \<open>
  What a successful upsert leaves. The keyed row of the table is the old row with
  the update columns set, or the new row; every row with another key, and every
  other table, is as before.
\<close>

lemma sql_upsert_tabs:
  "sql_upsert n keys upd r d = Inr d' \<Longrightarrow> tabs d' m = None \<longleftrightarrow> tabs d m = None"
  by (auto simp: sql_upsert_def Let_def split: option.splits if_splits)

lemma sql_upsert_other_table:
  "sql_upsert n keys upd r d = Inr d' \<Longrightarrow> m \<noteq> n \<Longrightarrow> rows_of d' m = rows_of d m"
  by (auto simp: sql_upsert_def Let_def split: option.splits if_splits)

lemma sql_upsert_find_same:
  assumes "sql_upsert n keys upd r d = Inr d'" "tabs d n \<noteq> None"
    and "cs = map (\<lambda>c. (c, r c)) keys" "matches cs r"
    and keep: "\<And>q. matches cs q \<Longrightarrow> matches cs (set_cols q upd)"
  shows "find (matches cs) (rows_of d' n) =
    Some (case find (matches cs) (rows_of d n) of None \<Rightarrow> r | Some q \<Rightarrow> set_cols q upd)"
proof (cases "list_ex (matches cs) (rows_of d n)")
  case True
  then obtain q where q: "find (matches cs) (rows_of d n) = Some q"
    by (metis find_None_list_ex not_None_eq)
  from True assms(1,3) have "d' = put_rows n (map (\<lambda>q. if matches cs q then set_cols q upd else q) (rows_of d n)) d"
    by (auto simp: sql_upsert_def Let_def split: option.splits)
  then show ?thesis
    using assms(2) keep True q by (simp add: find_map_same)
next
  case False
  then have "find (matches cs) (rows_of d n) = None"
    by (simp add: find_None_list_ex)
  moreover from False assms(1,3) have "d' = put_rows n (rows_of d n @ [r]) d"
    by (auto simp: sql_upsert_def Let_def split: option.splits)
  ultimately show ?thesis
    using assms(2,4) by (simp add: find_append_if)
qed

lemma sql_upsert_find_other:
  assumes "sql_upsert n keys upd r d = Inr d'" "tabs d n \<noteq> None"
    and "\<And>q. matches (map (\<lambda>c. (c, r c)) keys) q \<Longrightarrow> \<not> matches cs' q \<and> \<not> matches cs' (set_cols q upd)"
    and "\<not> matches cs' r"
  shows "find (matches cs') (rows_of d' n) = find (matches cs') (rows_of d n)"
  using assms
  by (auto simp: sql_upsert_def Let_def find_map_other find_append_if split: option.splits if_splits)

lemma set_cols_other [simp]: "c \<notin> fst ` set vs \<Longrightarrow> set_cols r vs c = r c"
  by (induction vs arbitrary: r) auto

lemma set_cols_append [simp]: "set_cols r (vs @ ws) = set_cols (set_cols r vs) ws"
  by (simp add: set_cols_def)

lemma set_cols_matches:
  "fst ` set cs \<inter> fst ` set vs = {} \<Longrightarrow> matches cs (set_cols r vs) = matches cs r"
  by (induction cs) auto

lemma run_writeE:
  assumes "run_write q label msg n f d = Inr d'"
  obtains "tabs d n \<noteq> None" "f d = Inr d'" "step q label = None" "prepare q label = None"
  using assms by (auto simp: run_write_def Stmt_def split: option.splits sum.splits if_splits)

lemma run_first_readable:
  "readable q label \<Longrightarrow> tabs d n \<noteq> None \<Longrightarrow> run_first q label n cs d = Inr (find (matches cs) (rows_of d n))"
  by (simp add: run_first_def Stmt_def readable_def)

lemma run_first_cong:
  assumes "tabs d n = None \<longleftrightarrow> tabs d' n = None"
    "find (matches cs) (rows_of d n) = find (matches cs) (rows_of d' n)"
  shows "run_first q label n cs d = run_first q label n cs d'"
  using assms by (auto simp: run_first_def Stmt_def bindR_def split: option.split)

end
