(* ===== verification/Storage.thy ===== *)
theory Storage
  imports Sql
begin

text \<open>
  Model of \<open>storage/Storage.cpp\<close> over the tables of \<open>Sql\<close>: opening with its schema
  and live migrations, the account row, the keyed stores (identity keys, prekeys,
  sessions, remote identities, resolved contacts), the synced contacts with their two
  partial unique indexes, and account deletion. The keyed stores satisfy one contract
  (locale \<open>keyed_store\<close>): what was saved is loaded, nothing else changes, in
  particular nothing of another account.
\<close>

section \<open>Binding and reading values\<close>

definition bindText :: "string \<Rightarrow> sqlval" where
  "bindText s = SText s"

definition bindTextOpt :: "string option \<Rightarrow> sqlval" where
  "bindTextOpt v = (case v of Some s \<Rightarrow> bindText s | None \<Rightarrow> SNull)"

text \<open>A zero-length vector is bound as a zero-length blob, never as \<open>NULL\<close>.\<close>

definition bindBlob :: "bytes \<Rightarrow> sqlval" where
  "bindBlob v = (if v = [] then SBlob [] else SBlob v)"

definition bindBlobOpt :: "bytes option \<Rightarrow> sqlval" where
  "bindBlobOpt v = (case v of Some b \<Rightarrow> bindBlob b | None \<Rightarrow> SNull)"

definition bindInt64Opt :: "int option \<Rightarrow> sqlval" where
  "bindInt64Opt v = (case v of Some i \<Rightarrow> SInt i | None \<Rightarrow> SNull)"

text \<open>SQLite converts on reading: text of a null is empty, an integer of a text is not used by the code.\<close>

definition columnText :: "sqlval \<Rightarrow> string" where
  "columnText v = (case v of SText s \<Rightarrow> s | SBlob b \<Rightarrow> map byte_chr b | _ \<Rightarrow> '''')"

definition columnTextOpt :: "sqlval \<Rightarrow> string option" where
  "columnTextOpt v = (if v = SNull then None else Some (columnText v))"

definition columnBlob :: "sqlval \<Rightarrow> bytes" where
  "columnBlob v = (case v of SBlob b \<Rightarrow> b | SText s \<Rightarrow> map chr_byte s | _ \<Rightarrow> [])"

definition columnBlobOpt :: "sqlval \<Rightarrow> bytes option" where
  "columnBlobOpt v = (if v = SNull then None else Some (columnBlob v))"

definition columnInt :: "sqlval \<Rightarrow> int" where
  "columnInt v = (case v of SInt i \<Rightarrow> i | _ \<Rightarrow> 0)"

definition columnInt64Opt :: "sqlval \<Rightarrow> int option" where
  "columnInt64Opt v = (if v = SNull then None else Some (columnInt v))"

definition bindBool :: "bool \<Rightarrow> sqlval" where
  "bindBool b = SInt (if b then 1 else 0)"

lemma column_bind [simp]:
  "columnText (bindText s) = s"
  "columnTextOpt (bindTextOpt t) = t"
  "columnBlob (bindBlob b) = b"
  "columnBlobOpt (bindBlobOpt ob) = ob"
  "columnInt64Opt (bindInt64Opt oi) = oi"
  "columnInt (SInt i) = i"
  "columnText (SText s) = s"
  "columnInt (bindBool x) \<noteq> 0 \<longleftrightarrow> x"
  by (auto simp: bindText_def bindTextOpt_def bindBlob_def bindBlobOpt_def bindInt64Opt_def bindBool_def
      columnText_def columnTextOpt_def columnBlob_def columnBlobOpt_def columnInt_def columnInt64Opt_def
      split: option.split)

lemma bind_inj [simp]:
  "bindText s = bindText t \<longleftrightarrow> s = t"
  "bindText s \<noteq> SNull"
  "bindText s = SText t \<longleftrightarrow> s = t"
  by (auto simp: bindText_def)

section \<open>Records\<close>

record AccountRecord =
  a_e164 :: string
  a_aci :: string
  a_pni :: string
  a_password :: string
  a_device_id :: int
  a_registration_id :: int
  a_pni_registration_id :: int
  a_flow :: "string option"
  a_account_entropy_pool :: "string option"
  a_media_root_backup_key :: "bytes option"
  a_profile_key :: "bytes option"
  a_registered_at :: "int option"
  a_linked_at :: "int option"
  a_prekeys_refreshed_at :: "int option"
  a_server_url :: string
  a_sip_host :: string
  a_sip_extension :: string
  a_sip_password :: string
  a_sip_bridge_destination :: string
  a_sip_bridge_did :: string
  a_sip_srtp :: string
  a_sip_transport :: string
  a_sip_tls_ca_file :: string
  a_sip_tls_insecure :: bool
  a_outgoing_call_target :: string
  a_signal_proxy :: string
  a_signal_censorship_circumvention :: bool
  a_enabled :: bool
  a_config_version :: int

record AccountSummary =
  s_account_name :: string
  s_e164 :: string
  s_enabled :: bool
  s_config_version :: int

record ResolvedContactRecord =
  r_aci :: string
  r_pni :: string
  r_resolved_at :: int

record SyncedContactRecord =
  c_e164 :: string
  c_aci :: string
  c_pni :: string
  c_profile_key :: bytes
  c_given_name :: string
  c_family_name :: string
  c_synced_at :: int

record IdentityKeypairRecord =
  k_private_key :: bytes
  k_public_key :: bytes

record PrekeyRecord =
  p_key_id :: int
  p_record :: bytes

section \<open>Schema and migrations\<close>

definition account_config_columns :: "(string \<times> sqlval) list" where
  "account_config_columns =
     [(''server_url'', SText ''''), (''sip_host'', SText ''''), (''sip_extension'', SText ''''),
      (''sip_password'', SText ''''), (''sip_bridge_destination'', SText ''''),
      (''sip_bridge_did'', SText ''''), (''sip_srtp'', SText ''disabled''),
      (''sip_transport'', SText ''udp''), (''sip_tls_ca_file'', SText ''''),
      (''sip_tls_insecure'', SInt 0), (''outgoing_call_target'', SText ''''),
      (''signal_proxy'', SText ''''), (''signal_censorship_circumvention'', SInt 0),
      (''enabled'', SInt 1), (''config_version'', SInt 0)]"

text \<open>The same columns as \<open>CREATE TABLE account\<close> of \<open>storage/schema.sql\<close> declares them, with their \<open>DEFAULT\<close>s.\<close>

definition account_defaults :: "(string \<times> sqlval) list" where
  "account_defaults =
     [(''server_url'', SText ''''), (''sip_host'', SText ''''), (''sip_extension'', SText ''''),
      (''sip_password'', SText ''''), (''sip_bridge_destination'', SText ''''),
      (''sip_bridge_did'', SText ''''), (''sip_srtp'', SText ''disabled''),
      (''sip_transport'', SText ''udp''), (''sip_tls_ca_file'', SText ''''),
      (''sip_tls_insecure'', SInt 0), (''outgoing_call_target'', SText ''''),
      (''signal_proxy'', SText ''''), (''signal_censorship_circumvention'', SInt 0),
      (''enabled'', SInt 1), (''config_version'', SInt 0)]"

definition account_identity_columns :: "string list" where
  "account_identity_columns =
     [''account_name'', ''e164'', ''aci'', ''pni'', ''device_id'', ''password'', ''registration_id'',
      ''pni_registration_id'', ''flow'', ''account_entropy_pool'', ''media_root_backup_key'',
      ''profile_key'', ''registered_at'', ''linked_at'', ''prekeys_refreshed_at'']"

definition schema :: "(string \<times> string list) list" where
  "schema =
     [(''account'', account_identity_columns @ map fst account_defaults),
      (''identity_keypair'', [''account_name'', ''identity'', ''private_key'', ''public_key'']),
      (''signed_prekey'', [''account_name'', ''identity'', ''key_id'', ''record'']),
      (''kyber_prekey'', [''account_name'', ''identity'', ''key_id'', ''record'']),
      (''session'', [''account_name'', ''address'', ''record'']),
      (''remote_identity'', [''account_name'', ''address'', ''public_key'']),
      (''resolved_contact'', [''account_name'', ''e164'', ''aci'', ''pni'', ''resolved_at'']),
      (''synced_contact'', [''id'', ''account_name'', ''e164'', ''aci'', ''pni'', ''profile_key'',
         ''given_name'', ''family_name'', ''synced_at''])]"

definition create_if_missing :: "string \<times> string list \<Rightarrow> db \<Rightarrow> db" where
  "create_if_missing tc d = (case tabs d (fst tc) of Some _ \<Rightarrow> d
     | None \<Rightarrow> d\<lparr>tabs := (tabs d)(fst tc \<mapsto> \<lparr>cols = snd tc, rows = []\<rparr>)\<rparr>)"

definition kSchemaSql :: "db \<Rightarrow> db" where
  "kSchemaSql d = fold create_if_missing schema d"

definition prepare_error :: "string \<Rightarrow> exn" where
  "prepare_error e = Runtime_error (''sqlite3_prepare_v2 failed: '' @ e)"

definition tableExists :: "sqlite \<Rightarrow> string \<Rightarrow> db \<Rightarrow> bool result" where
  "tableExists q n d = (case prepare q ''tableExists'' of
       Some e \<Rightarrow> Inl (prepare_error e)
     | None \<Rightarrow> Inr (step q ''tableExists'' = None \<and> tabs d n \<noteq> None))"

definition rename_table :: "string \<Rightarrow> string \<Rightarrow> db \<Rightarrow> db" where
  "rename_table n m d = d\<lparr>tabs := (tabs d)(n := None, m := tabs d n)\<rparr>"

definition renameOldSyncedContactTableIfNeeded :: "sqlite \<Rightarrow> (db, unit) effect" where
  "renameOldSyncedContactTableIfNeeded q =
     bindS (liftR (tableExists q ''synced_contact'')) (\<lambda>ex.
       if \<not> ex then returnS ()
       else (\<lambda>d. case prepare q ''hasId'' of
         Some e \<Rightarrow> throwS (prepare_error e) d
       | None \<Rightarrow>
          if step q ''hasId'' = None \<and> ''id'' \<in> set (cols (the (tabs d ''synced_contact''))) then returnS () d
          else case exec q ''rename'' of
            Some e \<Rightarrow> throwS (Runtime_error (''failed to rename old synced_contact table for migration: '' @ e)) d
          | None \<Rightarrow> returnS () (rename_table ''synced_contact'' ''synced_contact_old_pk_migration'' d)))"

text \<open>One row of \<open>INSERT INTO synced_contact ... SELECT ..., '', '', ...\<close>.\<close>

definition migrated_contact :: "int \<Rightarrow> row \<Rightarrow> row" where
  "migrated_contact i r = set_cols (\<lambda>_. SNull)
     [(''id'', SInt i), (''account_name'', r ''account_name''), (''e164'', r ''e164''), (''aci'', r ''aci''),
      (''pni'', r ''pni''), (''profile_key'', r ''profile_key''), (''given_name'', SText ''''),
      (''family_name'', SText ''''), (''synced_at'', r ''synced_at'')]"

definition insert_synced :: "(int \<Rightarrow> row) \<Rightarrow> db \<Rightarrow> string + db" where
  "insert_synced mk d =
     (case sql_insert ''synced_contact'' (mk (autoinc d + 1)) d of
        Inl e \<Rightarrow> Inl e | Inr d' \<Rightarrow> Inr (d'\<lparr>autoinc := autoinc d + 1\<rparr>))"

fun insert_all :: "row list \<Rightarrow> db \<Rightarrow> string + db" where
  "insert_all [] d = Inr d"
| "insert_all (r # rs) d =
     (case insert_synced (\<lambda>i. migrated_contact i r) d of Inl e \<Rightarrow> Inl e | Inr d' \<Rightarrow> insert_all rs d')"

definition copyOldSyncedContactDataIfPresent :: "sqlite \<Rightarrow> (db, unit) effect" where
  "copyOldSyncedContactDataIfPresent q =
     bindS (liftR (tableExists q ''synced_contact_old_pk_migration'')) (\<lambda>ex.
       if \<not> ex then returnS ()
       else (\<lambda>d. case (case exec q ''copy'' of Some e \<Rightarrow> Inl e
             | None \<Rightarrow> insert_all (rows_of d ''synced_contact_old_pk_migration'') d) of
           Inl e \<Rightarrow> throwS (Runtime_error (''failed to migrate synced_contact data to new schema: '' @ e)) d
         | Inr d' \<Rightarrow>
            (case exec q ''drop'' of
               Some e \<Rightarrow> throwS (Runtime_error (''failed to migrate synced_contact data to new schema: '' @ e)) d'
             | None \<Rightarrow> returnS () (d'\<lparr>tabs := (tabs d')(''synced_contact_old_pk_migration'' := None)\<rparr>))))"

definition addColumnIfMissing :: "sqlite \<Rightarrow> string \<Rightarrow> string \<times> sqlval \<Rightarrow> (db, unit) effect" where
  "addColumnIfMissing q n cd d =
     (case prepare q ''table_info'' of Some e \<Rightarrow> throwS (prepare_error e) d
      | None \<Rightarrow>
        let present = (case tabs d n of None \<Rightarrow> False | Some t \<Rightarrow> fst cd \<in> set (cols t));
            failed = (\<lambda>e. Runtime_error (''failed to add column '' @ fst cd @ '' to '' @ n @ '': '' @ e))
        in if step q ''table_info'' = None \<and> present then returnS () d
           else case exec q ''add_column'' of Some e \<Rightarrow> throwS (failed e) d
             | None \<Rightarrow>
               (case tabs d n of None \<Rightarrow> throwS (failed (''no such table: '' @ n)) d
                | Some t \<Rightarrow>
                   if present then throwS (failed (''duplicate column name: '' @ fst cd)) d
                   else returnS () (d\<lparr>tabs := (tabs d)(n \<mapsto>
                     \<lparr>cols = cols t @ [fst cd], rows = map (\<lambda>r. r(fst cd := snd cd)) (rows t)\<rparr>)\<rparr>)))"

fun add_columns :: "sqlite \<Rightarrow> string \<Rightarrow> (string \<times> sqlval) list \<Rightarrow> (db, unit) effect" where
  "add_columns q n [] = returnS ()"
| "add_columns q n (cd # cds) = bindS (addColumnIfMissing q n cd) (\<lambda>_. add_columns q n cds)"

definition migrateAccountConfigColumnsIfNeeded :: "sqlite \<Rightarrow> (db, unit) effect" where
  "migrateAccountConfigColumnsIfNeeded q = add_columns q ''account'' account_config_columns"

section \<open>Opening\<close>

record dbfile =
  f_key :: string
  f_db :: db

type_synonym disk = "string \<Rightarrow> dbfile option"

definition empty_db :: db where
  "empty_db = \<lparr>tabs = (\<lambda>_. None), autoinc = 0\<rparr>"

text \<open>
  The schema and migration part of the constructor, on the opened database;
  \<open>pre\<close> is the prefix \<open>listAllAccounts\<close> puts before its own messages.
\<close>

definition apply_schema :: "sqlite \<Rightarrow> string \<Rightarrow> (db, unit) effect" where
  "apply_schema q pre = (case exec q ''schema'' of
       Some e \<Rightarrow> throwS (Runtime_error (pre @ ''failed to apply schema: '' @ e))
     | None \<Rightarrow> (\<lambda>d. returnS () (kSchemaSql d)))"

definition migrate :: "sqlite \<Rightarrow> string \<Rightarrow> (db, unit) effect" where
  "migrate q pre =
     bindS (renameOldSyncedContactTableIfNeeded q) (\<lambda>_.
     bindS (apply_schema q pre) (\<lambda>_.
     bindS (copyOldSyncedContactDataIfPresent q) (\<lambda>_.
     migrateAccountConfigColumnsIfNeeded q)))"

definition open_db :: "sqlite \<Rightarrow> string \<Rightarrow> string \<Rightarrow> string \<Rightarrow> (disk, unit) effect" where
  "open_db q pre path key disk =
     (case exec q ''open'' of Some e \<Rightarrow> throwS (Runtime_error (pre @ ''sqlite3_open failed: '' @ e)) disk
      | None \<Rightarrow>
     (case exec q ''key'' of Some e \<Rightarrow> throwS (Runtime_error (pre @ ''PRAGMA key failed: '' @ e)) disk
      | None \<Rightarrow>
      (let f = (case disk path of None \<Rightarrow> \<lparr>f_key = key, f_db = empty_db\<rparr> | Some f \<Rightarrow> f);
           wrong = pre @ ''failed to open database (wrong key or corrupt file): '' in
       if f_key f \<noteq> key then throwS (Runtime_error (wrong @ ''file is not a database'')) disk
       else case exec q ''check'' of Some e \<Rightarrow> throwS (Runtime_error (wrong @ e)) disk
       | None \<Rightarrow>
      (case exec q ''wal'' of Some e \<Rightarrow> throwS (Runtime_error (pre @ ''PRAGMA journal_mode=WAL failed: '' @ e)) disk
       | None \<Rightarrow> (case migrate q pre (f_db f) of (r, d) \<Rightarrow> (r, disk(path \<mapsto> f\<lparr>f_db := d\<rparr>)))))))"

definition Storage :: "sqlite \<Rightarrow> string \<Rightarrow> string \<Rightarrow> (disk, unit) effect" where
  "Storage q path key = open_db q [] path key"

section \<open>The account row\<close>

definition hasAccount :: "sqlite \<Rightarrow> string \<Rightarrow> db \<Rightarrow> bool result" where
  "hasAccount q acct d =
     bindR (Stmt q ''hasAccount'' ''account'' d) (\<lambda>_.
       Inr (step q ''hasAccount'' = None
         \<and> 0 < length (filter (matches [(''account_name'', bindText acct)]) (rows_of d ''account''))))"

definition account_of_row :: "row \<Rightarrow> AccountRecord" where
  "account_of_row r =
     \<lparr>a_e164 = columnText (r ''e164''), a_aci = columnText (r ''aci''), a_pni = columnText (r ''pni''),
      a_password = columnText (r ''password''), a_device_id = columnInt (r ''device_id''),
      a_registration_id = columnInt (r ''registration_id''),
      a_pni_registration_id = columnInt (r ''pni_registration_id''),
      a_flow = columnTextOpt (r ''flow''),
      a_account_entropy_pool = columnTextOpt (r ''account_entropy_pool''),
      a_media_root_backup_key = columnBlobOpt (r ''media_root_backup_key''),
      a_profile_key = columnBlobOpt (r ''profile_key''),
      a_registered_at = columnInt64Opt (r ''registered_at''),
      a_linked_at = columnInt64Opt (r ''linked_at''),
      a_prekeys_refreshed_at = columnInt64Opt (r ''prekeys_refreshed_at''),
      a_server_url = columnText (r ''server_url''), a_sip_host = columnText (r ''sip_host''),
      a_sip_extension = columnText (r ''sip_extension''), a_sip_password = columnText (r ''sip_password''),
      a_sip_bridge_destination = columnText (r ''sip_bridge_destination''),
      a_sip_bridge_did = columnText (r ''sip_bridge_did''),
      a_sip_srtp = columnText (r ''sip_srtp''), a_sip_transport = columnText (r ''sip_transport''),
      a_sip_tls_ca_file = columnText (r ''sip_tls_ca_file''),
      a_sip_tls_insecure = (columnInt (r ''sip_tls_insecure'') \<noteq> 0),
      a_outgoing_call_target = columnText (r ''outgoing_call_target''),
      a_signal_proxy = columnText (r ''signal_proxy''),
      a_signal_censorship_circumvention = (columnInt (r ''signal_censorship_circumvention'') \<noteq> 0),
      a_enabled = (columnInt (r ''enabled'') \<noteq> 0), a_config_version = columnInt (r ''config_version'')\<rparr>"

definition loadAccount :: "sqlite \<Rightarrow> string \<Rightarrow> db \<Rightarrow> AccountRecord result" where
  "loadAccount q acct d =
     bindR (run_first q ''loadAccount'' ''account'' [(''account_name'', bindText acct)] d) (\<lambda>ro.
       case ro of None \<Rightarrow> Inl (Runtime_error ''loadAccount: no account row present'')
       | Some r \<Rightarrow> Inr (account_of_row r))"

definition config_values :: "AccountRecord \<Rightarrow> (string \<times> sqlval) list" where
  "config_values a =
     [(''server_url'', bindText (a_server_url a)), (''sip_host'', bindText (a_sip_host a)),
      (''sip_extension'', bindText (a_sip_extension a)), (''sip_password'', bindText (a_sip_password a)),
      (''sip_bridge_destination'', bindText (a_sip_bridge_destination a)),
      (''sip_bridge_did'', bindText (a_sip_bridge_did a)), (''sip_srtp'', bindText (a_sip_srtp a)),
      (''sip_transport'', bindText (a_sip_transport a)), (''sip_tls_ca_file'', bindText (a_sip_tls_ca_file a)),
      (''sip_tls_insecure'', bindBool (a_sip_tls_insecure a)),
      (''outgoing_call_target'', bindText (a_outgoing_call_target a)),
      (''signal_proxy'', bindText (a_signal_proxy a)),
      (''signal_censorship_circumvention'', bindBool (a_signal_censorship_circumvention a)),
      (''enabled'', bindBool (a_enabled a))]"

definition config_update :: "AccountRecord \<Rightarrow> row \<Rightarrow> row" where
  "config_update a r = set_cols r (config_values a @ [(''config_version'', SInt (columnInt (r ''config_version'') + 1))])"

definition saveAccountConfig :: "sqlite \<Rightarrow> string \<Rightarrow> AccountRecord \<Rightarrow> db \<Rightarrow> db result" where
  "saveAccountConfig q acct a d =
     (let cs = [(''account_name'', bindText acct)]
      in bindR (run_write q ''saveAccountConfig'' ''saveAccountConfig failed: '' ''account''
           (\<lambda>d. Inr (put_rows ''account''
              (map (\<lambda>r. if matches cs r then config_update a r else r) (rows_of d ''account'')) d)) d)
         (\<lambda>d'. if filter (matches cs) (rows_of d ''account'') = []
            then Inl (Runtime_error (''saveAccountConfig: no account row named '' @ [CHR 0x27] @ acct
                   @ [CHR 0x27] @ '' to update''))
            else Inr d'))"

definition identity_values :: "AccountRecord \<Rightarrow> (string \<times> sqlval) list" where
  "identity_values a =
     [(''e164'', bindText (a_e164 a)), (''aci'', bindText (a_aci a)), (''pni'', bindText (a_pni a)),
      (''device_id'', SInt (a_device_id a)), (''password'', bindText (a_password a)),
      (''registration_id'', SInt (a_registration_id a)),
      (''pni_registration_id'', SInt (a_pni_registration_id a)),
      (''flow'', bindTextOpt (a_flow a)), (''account_entropy_pool'', bindTextOpt (a_account_entropy_pool a)),
      (''media_root_backup_key'', bindBlobOpt (a_media_root_backup_key a)),
      (''profile_key'', bindBlobOpt (a_profile_key a)),
      (''registered_at'', bindInt64Opt (a_registered_at a)), (''linked_at'', bindInt64Opt (a_linked_at a)),
      (''prekeys_refreshed_at'', bindInt64Opt (a_prekeys_refreshed_at a))]"

definition new_account_row :: "string \<Rightarrow> AccountRecord \<Rightarrow> row" where
  "new_account_row acct a =
     set_cols (\<lambda>_. SNull) (account_defaults @ [(''account_name'', bindText acct)] @ identity_values a)"

definition saveAccount :: "sqlite \<Rightarrow> string \<Rightarrow> AccountRecord \<Rightarrow> db \<Rightarrow> db result" where
  "saveAccount q acct a =
     run_write q ''saveAccount'' ''saveAccount failed: '' ''account''
       (sql_upsert ''account'' [''account_name''] (identity_values a) (new_account_row acct a))"

section \<open>Keyed stores\<close>

text \<open>
  All six keyed stores have the shape: a row keyed by the account and one more text
  column; \<open>upsert_kv\<close> and \<open>first_kv\<close> are their two statements.
\<close>

definition kv_row :: "string \<Rightarrow> string \<Rightarrow> string \<Rightarrow> (string \<times> sqlval) list \<Rightarrow> row" where
  "kv_row acct kcol k vals = set_cols (\<lambda>_. SNull) ([(''account_name'', bindText acct), (kcol, bindText k)] @ vals)"

definition upsert_kv :: "sqlite \<Rightarrow> string \<Rightarrow> string \<Rightarrow> string \<Rightarrow> string \<Rightarrow> string \<Rightarrow>
    (string \<times> sqlval) list \<Rightarrow> db \<Rightarrow> db result" where
  "upsert_kv q label n kcol acct k vals =
     run_write q label (label @ '' failed: '') n (sql_upsert n [''account_name'', kcol] vals (kv_row acct kcol k vals))"

definition first_kv :: "sqlite \<Rightarrow> string \<Rightarrow> string \<Rightarrow> string \<Rightarrow> string \<Rightarrow> string \<Rightarrow> (row \<Rightarrow> 'a) \<Rightarrow> db \<Rightarrow> 'a option result" where
  "first_kv q label n kcol acct k dec d =
     bindR (run_first q label n [(''account_name'', bindText acct), (kcol, bindText k)] d) (\<lambda>ro. Inr (map_option dec ro))"

definition saveIdentityKeypair :: "sqlite \<Rightarrow> string \<Rightarrow> string \<Rightarrow> IdentityKeypairRecord \<Rightarrow> db \<Rightarrow> db result" where
  "saveIdentityKeypair q acct identity kp = upsert_kv q ''saveIdentityKeypair'' ''identity_keypair'' ''identity'' acct identity
     [(''private_key'', bindBlob (k_private_key kp)), (''public_key'', bindBlob (k_public_key kp))]"

definition loadIdentityKeypair :: "sqlite \<Rightarrow> string \<Rightarrow> string \<Rightarrow> db \<Rightarrow> IdentityKeypairRecord option result" where
  "loadIdentityKeypair q acct identity = first_kv q ''loadIdentityKeypair'' ''identity_keypair'' ''identity'' acct identity
     (\<lambda>r. \<lparr>k_private_key = columnBlob (r ''private_key''), k_public_key = columnBlob (r ''public_key'')\<rparr>)"

definition saveSignedPrekey :: "sqlite \<Rightarrow> string \<Rightarrow> string \<Rightarrow> PrekeyRecord \<Rightarrow> db \<Rightarrow> db result" where
  "saveSignedPrekey q acct identity pk = upsert_kv q ''saveSignedPrekey'' ''signed_prekey'' ''identity'' acct identity
     [(''key_id'', SInt (p_key_id pk)), (''record'', bindBlob (p_record pk))]"

definition loadSignedPrekey :: "sqlite \<Rightarrow> string \<Rightarrow> string \<Rightarrow> db \<Rightarrow> PrekeyRecord option result" where
  "loadSignedPrekey q acct identity = first_kv q ''loadSignedPrekey'' ''signed_prekey'' ''identity'' acct identity
     (\<lambda>r. \<lparr>p_key_id = columnInt (r ''key_id''), p_record = columnBlob (r ''record'')\<rparr>)"

definition saveKyberPrekey :: "sqlite \<Rightarrow> string \<Rightarrow> string \<Rightarrow> PrekeyRecord \<Rightarrow> db \<Rightarrow> db result" where
  "saveKyberPrekey q acct identity pk = upsert_kv q ''saveKyberPrekey'' ''kyber_prekey'' ''identity'' acct identity
     [(''key_id'', SInt (p_key_id pk)), (''record'', bindBlob (p_record pk))]"

definition loadKyberPrekey :: "sqlite \<Rightarrow> string \<Rightarrow> string \<Rightarrow> db \<Rightarrow> PrekeyRecord option result" where
  "loadKyberPrekey q acct identity = first_kv q ''loadKyberPrekey'' ''kyber_prekey'' ''identity'' acct identity
     (\<lambda>r. \<lparr>p_key_id = columnInt (r ''key_id''), p_record = columnBlob (r ''record'')\<rparr>)"

definition saveSession :: "sqlite \<Rightarrow> string \<Rightarrow> string \<Rightarrow> bytes \<Rightarrow> db \<Rightarrow> db result" where
  "saveSession q acct address record = upsert_kv q ''saveSession'' ''session'' ''address'' acct address
     [(''record'', bindBlob record)]"

definition loadSession :: "sqlite \<Rightarrow> string \<Rightarrow> string \<Rightarrow> db \<Rightarrow> bytes option result" where
  "loadSession q acct address = first_kv q ''loadSession'' ''session'' ''address'' acct address
     (\<lambda>r. columnBlob (r ''record''))"

definition saveRemoteIdentity :: "sqlite \<Rightarrow> string \<Rightarrow> string \<Rightarrow> bytes \<Rightarrow> db \<Rightarrow> db result" where
  "saveRemoteIdentity q acct address publicKey = upsert_kv q ''saveRemoteIdentity'' ''remote_identity'' ''address'' acct address
     [(''public_key'', bindBlob publicKey)]"

definition loadRemoteIdentity :: "sqlite \<Rightarrow> string \<Rightarrow> string \<Rightarrow> db \<Rightarrow> bytes option result" where
  "loadRemoteIdentity q acct address = first_kv q ''loadRemoteIdentity'' ''remote_identity'' ''address'' acct address
     (\<lambda>r. columnBlob (r ''public_key''))"

text \<open>\<open>now\<close> is \<open>std::time(nullptr)\<close>.\<close>

definition saveResolvedContact :: "sqlite \<Rightarrow> int \<Rightarrow> string \<Rightarrow> string \<Rightarrow> string \<Rightarrow> string \<Rightarrow> db \<Rightarrow> db result" where
  "saveResolvedContact q now acct e164 aci pni = upsert_kv q ''saveResolvedContact'' ''resolved_contact'' ''e164'' acct e164
     [(''aci'', bindText aci), (''pni'', bindText pni), (''resolved_at'', SInt now)]"

definition loadResolvedContact :: "sqlite \<Rightarrow> string \<Rightarrow> string \<Rightarrow> db \<Rightarrow> ResolvedContactRecord option result" where
  "loadResolvedContact q acct e164 = first_kv q ''loadResolvedContact'' ''resolved_contact'' ''e164'' acct e164
     (\<lambda>r. \<lparr>r_aci = columnText (r ''aci''), r_pni = columnText (r ''pni''),
           r_resolved_at = columnInt (r ''resolved_at'')\<rparr>)"

section \<open>Sessions of a service id\<close>

text \<open>\<open>LIKE\<close>: ASCII letters compare without case, \<open>%\<close> and \<open>_\<close> are wildcards.\<close>

definition lower :: "char \<Rightarrow> char" where
  "lower c = (if (65 :: nat) \<le> of_char c \<and> (of_char c :: nat) \<le> 90 then char_of (of_char c + 32 :: nat) else c)"

fun sql_like :: "string \<Rightarrow> string \<Rightarrow> bool" where
  "sql_like [] s = (s = [])"
| "sql_like (p # ps) [] = (p = CHR ''%'' \<and> sql_like ps [])"
| "sql_like (p # ps) (c # cs) =
     (if p = CHR ''%'' then sql_like ps (c # cs) \<or> sql_like (p # ps) cs
      else (p = CHR ''_'' \<or> lower p = lower c) \<and> sql_like ps cs)"

definition address_device :: "string \<Rightarrow> int list" where
  "address_device address = (case rsplit (CHR ''.'') address of None \<Rightarrow> []
     | Some (_, suffix) \<Rightarrow> (case stoi suffix of Inl _ \<Rightarrow> [] | Inr i \<Rightarrow> [i]))"

definition knownDeviceIdsFor :: "sqlite \<Rightarrow> string \<Rightarrow> string \<Rightarrow> db \<Rightarrow> int list result" where
  "knownDeviceIdsFor q acct serviceId d =
     bindR (Stmt q ''knownDeviceIdsFor'' ''session'' d) (\<lambda>_.
       Inr (if step q ''knownDeviceIdsFor'' \<noteq> None then [] else
         concat (map (\<lambda>r. address_device (columnText (r ''address'')))
           (filter (\<lambda>r. matches [(''account_name'', bindText acct)] r
              \<and> sql_like (serviceId @ ''.%'') (columnText (r ''address''))) (rows_of d ''session'')))))"

section \<open>Synced contacts\<close>

definition find_synced :: "sqlite \<Rightarrow> string \<Rightarrow> string \<Rightarrow> string \<Rightarrow> db \<Rightarrow> int option result" where
  "find_synced q acct col v d =
     bindR (run_first q ''find_synced'' ''synced_contact'' [(''account_name'', bindText acct), (col, bindText v)] d)
       (\<lambda>ro. Inr (map_option (\<lambda>r. columnInt (r ''id'')) ro))"

definition synced_values :: "int \<Rightarrow> string \<Rightarrow> string \<Rightarrow> string \<Rightarrow> bytes \<Rightarrow> string \<Rightarrow> string \<Rightarrow> (string \<times> sqlval) list" where
  "synced_values now e164 aci pni profileKey givenName familyName =
     [(''e164'', bindText e164), (''aci'', bindText aci), (''pni'', bindText pni),
      (''profile_key'', bindBlob profileKey), (''given_name'', bindText givenName),
      (''family_name'', bindText familyName), (''synced_at'', SInt now)]"

text \<open>\<open>UPDATE synced_contact SET ... WHERE id = ?\<close>, refused when it would break a unique index.\<close>

definition update_synced :: "int \<Rightarrow> (string \<times> sqlval) list \<Rightarrow> db \<Rightarrow> string + db" where
  "update_synced i vals d =
     (let rs = rows_of d ''synced_contact''; hit = matches [(''id'', SInt i)];
          others = filter (\<lambda>r. \<not> hit r) rs
      in case first_error (map (\<lambda>r. unique_error ''synced_contact'' others (set_cols r vals)) (filter hit rs)) of
           Some e \<Rightarrow> Inl e
         | None \<Rightarrow> Inr (put_rows ''synced_contact'' (map (\<lambda>r. if hit r then set_cols r vals else r) rs) d))"

definition saveSyncedContact :: "sqlite \<Rightarrow> int \<Rightarrow> string \<Rightarrow> string \<Rightarrow> string \<Rightarrow> string \<Rightarrow> bytes \<Rightarrow> string \<Rightarrow> string \<Rightarrow>
    db \<Rightarrow> db result" where
  "saveSyncedContact q now acct e164 aci pni profileKey givenName familyName d =
     bindR (if e164 \<noteq> [] then find_synced q acct ''e164'' e164 d else Inr None) (\<lambda>byE164.
     bindR (if byE164 = None \<and> aci \<noteq> [] then find_synced q acct ''aci'' aci d else Inr byE164) (\<lambda>existingId.
       let vals = synced_values now e164 aci pni profileKey givenName familyName in
       case existingId of
         Some i \<Rightarrow> run_write q ''updateSynced'' ''saveSyncedContact (update) failed: '' ''synced_contact''
           (update_synced i vals) d
       | None \<Rightarrow> run_write q ''insertSynced'' ''saveSyncedContact (insert) failed: '' ''synced_contact''
           (insert_synced (\<lambda>i. set_cols (\<lambda>_. SNull) ([(''id'', SInt i), (''account_name'', bindText acct)] @ vals))) d))"

definition readSyncedContactRow :: "row \<Rightarrow> SyncedContactRecord" where
  "readSyncedContactRow r =
     \<lparr>c_e164 = columnText (r ''e164''), c_aci = columnText (r ''aci''), c_pni = columnText (r ''pni''),
      c_profile_key = columnBlob (r ''profile_key''), c_given_name = columnText (r ''given_name''),
      c_family_name = columnText (r ''family_name''), c_synced_at = columnInt (r ''synced_at'')\<rparr>"

definition loadSyncedContact :: "sqlite \<Rightarrow> string \<Rightarrow> string \<Rightarrow> db \<Rightarrow> SyncedContactRecord option result" where
  "loadSyncedContact q acct e164 =
     first_kv q ''loadSyncedContact'' ''synced_contact'' ''e164'' acct e164 readSyncedContactRow"

definition loadSyncedContactByAci :: "sqlite \<Rightarrow> string \<Rightarrow> string \<Rightarrow> db \<Rightarrow> SyncedContactRecord option result" where
  "loadSyncedContactByAci q acct aci =
     first_kv q ''loadSyncedContactByAci'' ''synced_contact'' ''aci'' acct aci readSyncedContactRow"

section \<open>Deleting and listing accounts\<close>

definition kTables :: "string list" where
  "kTables = [''identity_keypair'', ''signed_prekey'', ''kyber_prekey'', ''session'',
     ''remote_identity'', ''resolved_contact'', ''synced_contact'', ''account'']"

text \<open>Deleting a parent row is refused while a child row still refers to it.\<close>

definition child_tables :: "string list" where
  "child_tables = [''identity_keypair'', ''signed_prekey'', ''kyber_prekey'', ''session'',
     ''remote_identity'', ''resolved_contact'', ''synced_contact'']"

definition delete_rows :: "string \<Rightarrow> string \<Rightarrow> db \<Rightarrow> string + db" where
  "delete_rows acct n d =
     (if n = ''account'' \<and> list_ex (\<lambda>c. list_ex (matches [(''account_name'', bindText acct)]) (rows_of d c)) child_tables
        \<and> list_ex (matches [(''account_name'', bindText acct)]) (rows_of d ''account'')
      then Inl ''FOREIGN KEY constraint failed''
      else Inr (sql_delete n [(''account_name'', bindText acct)] d))"

fun delete_tables :: "sqlite \<Rightarrow> string \<Rightarrow> string list \<Rightarrow> db \<Rightarrow> db result" where
  "delete_tables q acct [] d = Inr d"
| "delete_tables q acct (n # ns) d =
     bindR (run_write q (''DELETE FROM '' @ n) (''DELETE FROM '' @ n @ '' failed: '') n (delete_rows acct n) d)
       (delete_tables q acct ns)"

text \<open>
  The transaction of the connection: \<open>cn_db\<close> is what its statements see and change; while a transaction is open, \<open>cn_begun\<close> is the database at its \<open>BEGIN\<close>, which is
  what the file holds until \<open>COMMIT\<close>, and what it keeps when the connection is closed with the transaction still open.
\<close>

record conn =
  cn_db :: db
  cn_begun :: "db option"

definition durable :: "conn \<Rightarrow> db" where
  "durable c = (case cn_begun c of None \<Rightarrow> cn_db c | Some d \<Rightarrow> d)"

definition exec_txn :: "sqlite \<Rightarrow> string \<Rightarrow> (conn \<Rightarrow> conn) \<Rightarrow> string \<Rightarrow> (conn, unit) effect" where
  "exec_txn q sql f msg c = (case exec q sql of Some e \<Rightarrow> throwS (Runtime_error (msg @ e)) c | None \<Rightarrow> returnS () (f c))"

definition begin_txn :: "conn \<Rightarrow> conn" where "begin_txn c = c\<lparr>cn_begun := Some (cn_db c)\<rparr>"

definition commit_txn :: "conn \<Rightarrow> conn" where "commit_txn c = c\<lparr>cn_begun := None\<rparr>"

definition rollback_txn :: "conn \<Rightarrow> conn" where "rollback_txn c = \<lparr>cn_db = durable c, cn_begun = None\<rparr>"

fun delete_each :: "sqlite \<Rightarrow> string \<Rightarrow> string list \<Rightarrow> (conn, unit) effect" where
  "delete_each q acct [] = returnS ()"
| "delete_each q acct (n # ns) = bindS
     (\<lambda>c. case run_write q (''DELETE FROM '' @ n) (''DELETE FROM '' @ n @ '' failed: '') n (delete_rows acct n) (cn_db c) of
        Inl e \<Rightarrow> throwS e c | Inr d \<Rightarrow> returnS () (c\<lparr>cn_db := d\<rparr>))
     (\<lambda>_. delete_each q acct ns)"

definition delete_in_txn :: "sqlite \<Rightarrow> string \<Rightarrow> (conn, unit) effect" where
  "delete_in_txn q acct =
     bindS (exec_txn q ''BEGIN'' begin_txn ''deleteAccount: BEGIN failed: '') (\<lambda>_.
     bindS (\<lambda>c. case delete_each q acct kTables c of
         (Inl e, c) \<Rightarrow> throwS e (snd (exec_txn q ''ROLLBACK'' rollback_txn [] c))
       | (Inr _, c) \<Rightarrow> returnS () c) (\<lambda>_.
     exec_txn q ''COMMIT'' commit_txn ''deleteAccount: COMMIT failed: ''))"

text \<open>The connection is used for this deletion and closed after it.\<close>

definition deleteAccount :: "sqlite \<Rightarrow> string \<Rightarrow> (db, unit) effect" where
  "deleteAccount q acct d = (case delete_in_txn q acct \<lparr>cn_db = d, cn_begun = None\<rparr> of (r, c) \<Rightarrow> (r, durable c))"

definition summary_of_row :: "row \<Rightarrow> AccountSummary" where
  "summary_of_row r =
     \<lparr>s_account_name = columnText (r ''account_name''), s_e164 = columnText (r ''e164''),
      s_enabled = (columnInt (r ''enabled'') \<noteq> 0), s_config_version = columnInt (r ''config_version'')\<rparr>"

definition listAllAccounts :: "sqlite \<Rightarrow> string \<Rightarrow> string \<Rightarrow> (disk, AccountSummary list) effect" where
  "listAllAccounts q path key =
     bindS (open_db q ''listAllAccounts: '' path key) (\<lambda>_ disk.
       case disk path of None \<Rightarrow> (Inr [], disk)
       | Some f \<Rightarrow> (bindR (Stmt q ''listAllAccounts'' ''account'' (f_db f)) (\<lambda>_.
           Inr (if step q ''listAllAccounts'' \<noteq> None then []
                else sort_key s_account_name (map summary_of_row (rows_of (f_db f) ''account'')))), disk))"

section \<open>The contract of the keyed stores\<close>

locale keyed_store =
  fixes save :: "string \<Rightarrow> 'k \<Rightarrow> 'v \<Rightarrow> 'd \<Rightarrow> 'd result"
    and load :: "string \<Rightarrow> 'k \<Rightarrow> 'd \<Rightarrow> 'v option result"
    and readable :: bool
  assumes load_saved: "save a k v d = Inr d' \<Longrightarrow> readable \<Longrightarrow> load a k d' = Inr (Some v)"
    and load_other: "save a k v d = Inr d' \<Longrightarrow> (a', k') \<noteq> (a, k) \<Longrightarrow> load a' k' d' = load a' k' d"
begin

lemma last_save_wins:
  assumes "save a k v d = Inr d1" "save a k w d1 = Inr d2" "readable"
  shows "load a k d2 = Inr (Some w)"
  using assms load_saved by blast

fun save_all :: "string \<Rightarrow> ('k \<times> 'v) list \<Rightarrow> 'd \<Rightarrow> 'd result" where
  "save_all a [] d = Inr d"
| "save_all a ((k, v) # kvs) d = bindR (save a k v d) (save_all a kvs)"

lemma load_save_all_other:
  "save_all a kvs d = Inr d' \<Longrightarrow> a' \<noteq> a \<or> k' \<notin> fst ` set kvs \<Longrightarrow> load a' k' d' = load a' k' d"
proof (induction kvs arbitrary: d)
  case (Cons kv kvs)
  obtain k v where kv: "kv = (k, v)"
    by fastforce
  with Cons.prems(1) obtain d1 where d1: "save a k v d = Inr d1" "save_all a kvs d1 = Inr d'"
    by (auto simp: bindR_Inr_iff)
  have "load a' k' d' = load a' k' d1"
    using Cons.IH [OF d1(2)] Cons.prems(2) by auto
  then show ?case
    using load_other [OF d1(1), of a' k'] Cons.prems(2) kv by auto
qed simp

lemma load_save_all:
  assumes "save_all a kvs d = Inr d'" "readable" "map_of (rev kvs) k = Some v"
  shows "load a k d' = Inr (Some v)"
  using assms(1,3)
proof (induction kvs arbitrary: d)
  case (Cons kv kvs)
  obtain k1 v1 where kv: "kv = (k1, v1)"
    by fastforce
  with Cons.prems(1) obtain d1 where d1: "save a k1 v1 d = Inr d1" "save_all a kvs d1 = Inr d'"
    by (auto simp: bindR_Inr_iff)
  show ?case
  proof (cases "map_of (rev kvs) k")
    case None
    then have "k \<notin> fst ` set kvs"
      by (simp add: map_of_eq_None_iff)
    then have "load a k d' = load a k d1"
      using load_save_all_other [OF d1(2)] by blast
    moreover have "k1 = k \<and> v1 = v"
      using Cons.prems(2) None kv by (auto simp: map_add_def split: if_splits)
    ultimately show ?thesis
      using load_saved [OF d1(1) assms(2)] by simp
  next
    case (Some w)
    then have "map_of (rev kvs) k = Some v"
      using Cons.prems(2) kv by (auto simp: map_add_def)
    then show ?thesis
      using Cons.IH [OF d1(2)] by simp
  qed
qed simp

end

lemma upsert_kv_first:
  assumes up: "upsert_kv q label n kcol acct k vals d = Inr d'" and r: "Sql.readable q l2"
    and c: "kcol \<noteq> ''account_name''" "''account_name'' \<notin> fst ` set vals" "kcol \<notin> fst ` set vals"
  shows "\<exists>q0. first_kv q l2 n kcol acct k dec d' = Inr (Some (dec (set_cols q0 vals)))"
proof -
  let ?r = "kv_row acct kcol k vals"
  let ?cs = "[(''account_name'', bindText acct), (kcol, bindText k)]"
  have t: "tabs d n \<noteq> None" and u: "sql_upsert n [''account_name'', kcol] vals ?r d = Inr d'"
    using up by (auto simp: upsert_kv_def elim: run_writeE)
  have key: "?r ''account_name'' = bindText acct" "?r kcol = bindText k"
    using c by (simp_all add: kv_row_def)
  have "find (matches ?cs) (rows_of d' n) =
      Some (case find (matches ?cs) (rows_of d n) of None \<Rightarrow> ?r | Some q \<Rightarrow> set_cols q vals)"
    using c key by (intro sql_upsert_find_same [OF u t]) simp_all
  then obtain q0 where "find (matches ?cs) (rows_of d' n) = Some (set_cols q0 vals)"
    by (cases "find (matches ?cs) (rows_of d n)") (auto simp: kv_row_def)
  moreover have "tabs d' n \<noteq> None"
    using t sql_upsert_tabs [OF u] by simp
  ultimately show ?thesis
    using r by (auto simp: first_kv_def run_first_readable)
qed

lemma upsert_kv_other:
  assumes up: "upsert_kv q label n kcol acct k vals d = Inr d'" and ne: "(acct', k') \<noteq> (acct, k)"
    and c: "kcol \<noteq> ''account_name''" "''account_name'' \<notin> fst ` set vals" "kcol \<notin> fst ` set vals"
  shows "first_kv q l2 n kcol acct' k' dec d' = first_kv q l2 n kcol acct' k' dec d"
proof -
  let ?r = "kv_row acct kcol k vals"
  let ?cs = "[(''account_name'', bindText acct'), (kcol, bindText k')]"
  have t: "tabs d n \<noteq> None" and u: "sql_upsert n [''account_name'', kcol] vals ?r d = Inr d'"
    using up by (auto simp: upsert_kv_def elim: run_writeE)
  have key: "?r ''account_name'' = bindText acct" "?r kcol = bindText k"
    using c by (simp_all add: kv_row_def)
  have "find (matches ?cs) (rows_of d' n) = find (matches ?cs) (rows_of d n)"
    using c key ne by (intro sql_upsert_find_other [OF u t]) auto
  then show ?thesis
    using run_first_cong [of d' n d ?cs q l2] sql_upsert_tabs [OF u] by (simp add: first_kv_def)
qed

text \<open>Each store of the code meets the contract, whatever the engine's faults \<open>q\<close>.\<close>

interpretation sessions: keyed_store "saveSession q" "loadSession q" "Sql.readable q ''loadSession''" for q
proof (unfold_locales, goal_cases)
  case (1 a k v d d')
  then show ?case
    using upsert_kv_first [OF 1(1) [unfolded saveSession_def], where dec = "\<lambda>r. columnBlob (r ''record'')"]
    by (fastforce simp: loadSession_def)
next
  case (2 a k v d d' a' k')
  then show ?case
    unfolding saveSession_def loadSession_def by (intro upsert_kv_other) auto
qed

interpretation remote_ids: keyed_store "saveRemoteIdentity q" "loadRemoteIdentity q"
  "Sql.readable q ''loadRemoteIdentity''" for q
proof (unfold_locales, goal_cases)
  case (1 a k v d d')
  then show ?case
    using upsert_kv_first [OF 1(1) [unfolded saveRemoteIdentity_def], where dec = "\<lambda>r. columnBlob (r ''public_key'')"]
    by (fastforce simp: loadRemoteIdentity_def)
next
  case (2 a k v d d' a' k')
  then show ?case
    unfolding saveRemoteIdentity_def loadRemoteIdentity_def by (intro upsert_kv_other) auto
qed

interpretation identity_keys: keyed_store "saveIdentityKeypair q" "loadIdentityKeypair q"
  "Sql.readable q ''loadIdentityKeypair''" for q
proof (unfold_locales, goal_cases)
  case (1 a k v d d')
  then show ?case
    using upsert_kv_first [OF 1(1) [unfolded saveIdentityKeypair_def],
        where dec = "\<lambda>r. \<lparr>k_private_key = columnBlob (r ''private_key''), k_public_key = columnBlob (r ''public_key'')\<rparr>"]
    by (fastforce simp: loadIdentityKeypair_def)
next
  case (2 a k v d d' a' k')
  then show ?case
    unfolding saveIdentityKeypair_def loadIdentityKeypair_def by (intro upsert_kv_other) auto
qed

interpretation signed_prekeys: keyed_store "saveSignedPrekey q" "loadSignedPrekey q"
  "Sql.readable q ''loadSignedPrekey''" for q
proof (unfold_locales, goal_cases)
  case (1 a k v d d')
  then show ?case
    using upsert_kv_first [OF 1(1) [unfolded saveSignedPrekey_def],
        where dec = "\<lambda>r. \<lparr>p_key_id = columnInt (r ''key_id''), p_record = columnBlob (r ''record'')\<rparr>"]
    by (fastforce simp: loadSignedPrekey_def)
next
  case (2 a k v d d' a' k')
  then show ?case
    unfolding saveSignedPrekey_def loadSignedPrekey_def by (intro upsert_kv_other) auto
qed

interpretation kyber_prekeys: keyed_store "saveKyberPrekey q" "loadKyberPrekey q"
  "Sql.readable q ''loadKyberPrekey''" for q
proof (unfold_locales, goal_cases)
  case (1 a k v d d')
  then show ?case
    using upsert_kv_first [OF 1(1) [unfolded saveKyberPrekey_def],
        where dec = "\<lambda>r. \<lparr>p_key_id = columnInt (r ''key_id''), p_record = columnBlob (r ''record'')\<rparr>"]
    by (fastforce simp: loadKyberPrekey_def)
next
  case (2 a k v d d' a' k')
  then show ?case
    unfolding saveKyberPrekey_def loadKyberPrekey_def by (intro upsert_kv_other) auto
qed

text \<open>The resolved-contact cache is keyed by the number; the stored time is that of the save.\<close>

interpretation resolved: keyed_store "\<lambda>acct e164 (aci, pni). saveResolvedContact q now acct e164 aci pni"
  "\<lambda>acct e164 d. bindR (loadResolvedContact q acct e164 d) (\<lambda>ro. Inr (map_option (\<lambda>r. (r_aci r, r_pni r)) ro))"
  "Sql.readable q ''loadResolvedContact''" for q now
proof (unfold_locales, goal_cases)
  case (1 a k v d d')
  obtain aci pni where v: "v = (aci, pni)"
    by fastforce
  show ?case
    using 1 upsert_kv_first [OF 1(1) [unfolded saveResolvedContact_def v prod.case],
        where dec = "\<lambda>r. \<lparr>r_aci = columnText (r ''aci''), r_pni = columnText (r ''pni''),
           r_resolved_at = columnInt (r ''resolved_at'')\<rparr>"]
    by (fastforce simp: loadResolvedContact_def v)
next
  case (2 a k v d d' a' k')
  obtain aci pni where v: "v = (aci, pni)"
    by fastforce
  have "loadResolvedContact q a' k' d' = loadResolvedContact q a' k' d"
    unfolding loadResolvedContact_def
    using 2 by (intro upsert_kv_other) (auto simp: v saveResolvedContact_def)
  then show ?case
    by simp
qed

section \<open>The account row: identity and configuration\<close>

text \<open>
  The two halves of an account record: the identity columns, owned by \<open>saveAccount\<close>,
  and the configuration columns, owned by \<open>saveAccountConfig\<close>.
\<close>

definition with_config :: "AccountRecord \<Rightarrow> AccountRecord \<Rightarrow> AccountRecord" where
  "with_config a c = a\<lparr>a_server_url := a_server_url c, a_sip_host := a_sip_host c,
     a_sip_extension := a_sip_extension c, a_sip_password := a_sip_password c,
     a_sip_bridge_destination := a_sip_bridge_destination c, a_sip_bridge_did := a_sip_bridge_did c,
     a_sip_srtp := a_sip_srtp c, a_sip_transport := a_sip_transport c, a_sip_tls_ca_file := a_sip_tls_ca_file c,
     a_sip_tls_insecure := a_sip_tls_insecure c, a_outgoing_call_target := a_outgoing_call_target c,
     a_signal_proxy := a_signal_proxy c,
     a_signal_censorship_circumvention := a_signal_censorship_circumvention c,
     a_enabled := a_enabled c, a_config_version := a_config_version c\<rparr>"

definition default_config :: "AccountRecord \<Rightarrow> AccountRecord" where
  "default_config a = a\<lparr>a_server_url := [], a_sip_host := [], a_sip_extension := [], a_sip_password := [],
     a_sip_bridge_destination := [], a_sip_bridge_did := [], a_sip_srtp := ''disabled'', a_sip_transport := ''udp'',
     a_sip_tls_ca_file := [], a_sip_tls_insecure := False, a_outgoing_call_target := [], a_signal_proxy := [],
     a_signal_censorship_circumvention := False, a_enabled := True, a_config_version := 0\<rparr>"

lemma account_of_identity:
  "account_of_row (set_cols r (identity_values a)) = with_config a (account_of_row r)"
  by (simp add: account_of_row_def identity_values_def with_config_def)

lemma account_of_config:
  "account_of_row (config_update a r) =
    with_config (account_of_row r) (a\<lparr>a_config_version := a_config_version (account_of_row r) + 1\<rparr>)"
  by (simp add: account_of_row_def config_update_def config_values_def with_config_def)

lemma account_of_new_row: "account_of_row (new_account_row acct a) = default_config a"
  by (simp add: account_of_row_def new_account_row_def identity_values_def account_defaults_def
      default_config_def)

lemma identity_values_keys [simp]: "''account_name'' \<notin> fst ` set (identity_values a)"
  by (simp add: identity_values_def)

lemma config_values_keys [simp]: "''account_name'' \<notin> fst ` set (config_values a)"
  by (simp add: config_values_def)

lemma config_update_name [simp]: "config_update a r ''account_name'' = r ''account_name''"
  by (simp add: config_update_def)

lemma new_account_row_name [simp]: "new_account_row acct a ''account_name'' = bindText acct"
  by (simp add: new_account_row_def)

text \<open>The row of an account, if there is one.\<close>

definition account_row :: "string \<Rightarrow> db \<Rightarrow> row option" where
  "account_row acct d = find (matches [(''account_name'', bindText acct)]) (rows_of d ''account'')"

lemma loadAccount_row:
  assumes "Sql.readable q ''loadAccount''" "tabs d ''account'' \<noteq> None"
  shows "loadAccount q acct d = (case account_row acct d of
      None \<Rightarrow> Inl (Runtime_error ''loadAccount: no account row present'')
    | Some r \<Rightarrow> Inr (account_of_row r))"
  using assms by (simp add: loadAccount_def run_first_readable account_row_def)

lemma saveAccount_row:
  assumes "saveAccount q acct a d = Inr d'"
  shows "tabs d ''account'' \<noteq> None \<and> tabs d' ''account'' \<noteq> None
    \<and> account_row acct d' = Some (case account_row acct d of None \<Rightarrow> new_account_row acct a
        | Some r \<Rightarrow> set_cols r (identity_values a))
    \<and> (\<forall>b. b \<noteq> acct \<longrightarrow> account_row b d' = account_row b d)
    \<and> (\<forall>n. n \<noteq> ''account'' \<longrightarrow> rows_of d' n = rows_of d n)"
proof -
  have t: "tabs d ''account'' \<noteq> None"
    and u: "sql_upsert ''account'' [''account_name''] (identity_values a) (new_account_row acct a) d = Inr d'"
    using assms by (auto simp: saveAccount_def elim: run_writeE)
  have "account_row acct d' = Some (case account_row acct d of None \<Rightarrow> new_account_row acct a
        | Some r \<Rightarrow> set_cols r (identity_values a))"
    unfolding account_row_def by (rule sql_upsert_find_same [OF u t]) simp_all
  moreover have "account_row b d' = account_row b d" if "b \<noteq> acct" for b
    unfolding account_row_def using that by (intro sql_upsert_find_other [OF u t]) auto
  ultimately show ?thesis
    using t sql_upsert_tabs [OF u] sql_upsert_other_table [OF u] by auto
qed

lemma saveAccountConfig_rows:
  assumes "saveAccountConfig q acct a d = Inr d'"
  shows "tabs d ''account'' \<noteq> None \<and>
    d' = put_rows ''account'' (map (\<lambda>r. if matches [(''account_name'', bindText acct)] r then config_update a r else r) (rows_of d ''account'')) d"
  using assms by (auto simp: saveAccountConfig_def Let_def bindR_Inr_iff elim!: run_writeE split: if_splits)

lemma saveAccountConfig_row:
  assumes "saveAccountConfig q acct a d = Inr d'"
  shows "tabs d ''account'' \<noteq> None \<and> tabs d' ''account'' \<noteq> None
    \<and> (\<exists>r. account_row acct d = Some r \<and> account_row acct d' = Some (config_update a r))
    \<and> (\<forall>b. b \<noteq> acct \<longrightarrow> account_row b d' = account_row b d)
    \<and> (\<forall>n. n \<noteq> ''account'' \<longrightarrow> rows_of d' n = rows_of d n)"
proof -
  let ?cs = "[(''account_name'', bindText acct)]"
  let ?upd = "config_update a"
  let ?rows = "map (\<lambda>r. if matches ?cs r then ?upd r else r) (rows_of d ''account'')"
  have t: "tabs d ''account'' \<noteq> None" and d': "d' = put_rows ''account'' ?rows d"
    and ex: "list_ex (matches ?cs) (rows_of d ''account'')"
    using assms by (auto simp: saveAccountConfig_def Let_def bindR_Inr_iff list_ex_iff filter_empty_conv
        elim!: run_writeE split: if_splits)
  obtain r where r: "account_row acct d = Some r"
    using ex by (metis account_row_def find_None_list_ex not_None_eq)
  have "find (matches ?cs) ?rows = map_option ?upd (find (matches ?cs) (rows_of d ''account''))"
    by (rule find_map_same [OF _ ex]) simp
  then have "account_row acct d' = Some (?upd r)"
    using r t d' by (simp add: account_row_def)
  moreover have "account_row b d' = account_row b d" if "b \<noteq> acct" for b
  proof -
    have "find (matches [(''account_name'', bindText b)]) ?rows =
        find (matches [(''account_name'', bindText b)]) (rows_of d ''account'')"
      using that by (intro find_map_other) auto
    then show ?thesis
      using t d' by (simp add: account_row_def)
  qed
  ultimately show ?thesis
    using t d' r by auto
qed

section \<open>Properties of the account row\<close>

text \<open>
  \<open>saveAccount\<close> followed by \<open>loadAccount\<close> returns exactly the identity that was
  saved; the configuration half is the schema default for a new account and the
  untouched old configuration for an existing one.
\<close>

theorem saveAccount_loadAccount:
  assumes "saveAccount q acct a d = Inr d'" "Sql.readable q ''loadAccount''"
  shows "loadAccount q acct d' = (case loadAccount q acct d of
      Inl _ \<Rightarrow> Inr (default_config a)
    | Inr old \<Rightarrow> Inr (with_config a old))"
proof -
  note s = saveAccount_row [OF assms(1)]
  then show ?thesis
    using assms(2) by (cases "account_row acct d")
      (auto simp: loadAccount_row account_of_new_row account_of_identity)
qed

text \<open>
  C7: \<open>saveAccountConfig\<close> writes the configuration columns only: the identity of the
  account, including its credentials, is untouched, \<open>config_version\<close> is the old
  value plus one whatever the passed record says, and no other account changes.
\<close>

theorem saveAccountConfig_effect:
  assumes "saveAccountConfig q acct a d = Inr d'" "Sql.readable q ''loadAccount''" "b \<noteq> acct"
  shows "(\<exists>old. loadAccount q acct d = Inr old
      \<and> loadAccount q acct d' = Inr (with_config old (a\<lparr>a_config_version := a_config_version old + 1\<rparr>)))
    \<and> loadAccount q b d' = loadAccount q b d"
proof -
  note s = saveAccountConfig_row [OF assms(1)]
  then obtain r where "account_row acct d = Some r" "account_row acct d' = Some (config_update a r)"
    by blast
  then show ?thesis
    using s assms(2,3) by (simp add: loadAccount_row account_of_config)
qed

text \<open>A database just created, and an account for the examples below.\<close>

definition fresh_db :: db where
  "fresh_db = kSchemaSql empty_db"

definition sample_account :: AccountRecord where
  "sample_account = \<lparr>a_e164 = ''+15550100'', a_aci = ''aci-1'', a_pni = ''pni-1'', a_password = ''pw'',
     a_device_id = 1, a_registration_id = 7, a_pni_registration_id = 8, a_flow = Some ''standalone'',
     a_account_entropy_pool = None, a_media_root_backup_key = None, a_profile_key = Some [1],
     a_registered_at = Some 5, a_linked_at = None, a_prekeys_refreshed_at = None,
     a_server_url = [], a_sip_host = ''pbx'', a_sip_extension = ''100'', a_sip_password = ''s'',
     a_sip_bridge_destination = [], a_sip_bridge_did = [], a_sip_srtp = ''disabled'', a_sip_transport = ''udp'',
     a_sip_tls_ca_file = [], a_sip_tls_insecure = False, a_outgoing_call_target = [], a_signal_proxy = [],
     a_signal_censorship_circumvention = False, a_enabled = True, a_config_version = 0\<rparr>"

lemma fresh_db_tabs: "n \<in> set (map fst schema) \<Longrightarrow> tabs fresh_db n \<noteq> None"
  by (auto simp: fresh_db_def kSchemaSql_def schema_def create_if_missing_def empty_db_def)

lemma fresh_db_rows [simp]: "rows_of fresh_db n = []"
  by (simp add: fresh_db_def kSchemaSql_def schema_def create_if_missing_def empty_db_def rows_of_def)

lemma fresh_db_account [simp]: "tabs fresh_db ''account'' \<noteq> None"
  by (rule fresh_db_tabs) (simp add: schema_def)

definition one_account :: db where
  "one_account = put_rows ''account'' [new_account_row ''a'' sample_account] fresh_db"

lemma saveAccount_fresh: "saveAccount no_faults ''a'' sample_account fresh_db = Inr one_account"
  using fresh_db_account
  by (simp add: saveAccount_def run_write_def Stmt_def sql_upsert_def check_error_def fk_error_def
      one_account_def)

theorem saveAccount_loadAccount_witness:
  "loadAccount no_faults ''a'' one_account = (case loadAccount no_faults ''a'' fresh_db of
      Inl _ \<Rightarrow> Inr (default_config sample_account)
    | Inr old \<Rightarrow> Inr (with_config sample_account old))"
  by (rule saveAccount_loadAccount [OF saveAccount_fresh]) simp

lemma saveAccountConfig_one:
  "saveAccountConfig no_faults ''a'' sample_account one_account =
     Inr (put_rows ''account'' [config_update sample_account (new_account_row ''a'' sample_account)] one_account)"
  using fresh_db_account
  by (simp add: saveAccountConfig_def run_write_def Stmt_def one_account_def Let_def)

theorem saveAccountConfig_effect_witness:
  "\<exists>old. loadAccount no_faults ''a'' one_account = Inr old
     \<and> loadAccount no_faults ''a'' (put_rows ''account'' [config_update sample_account (new_account_row ''a'' sample_account)] one_account)
       = Inr (with_config old (sample_account\<lparr>a_config_version := a_config_version old + 1\<rparr>))"
  using saveAccountConfig_effect [OF saveAccountConfig_one, of "''b''"] by simp

section \<open>Account deletion\<close>

lemma delete_tables_rows:
  assumes "delete_tables q acct ns d = Inr d'"
  shows "(tabs d' m = None \<longleftrightarrow> tabs d m = None) \<and> rows_of d' m =
    (if m \<in> set ns then filter (\<lambda>r. \<not> matches [(''account_name'', bindText acct)] r) (rows_of d m) else rows_of d m)"
  using assms
proof (induction ns arbitrary: d)
  case (Cons n ns)
  let ?P = "\<lambda>r. \<not> matches [(''account_name'', bindText acct)] r"
  from Cons.prems obtain d1 where d1: "delete_rows acct n d = Inr d1" "tabs d n \<noteq> None"
    "delete_tables q acct ns d1 = Inr d'"
    by (auto simp: bindR_Inr_iff elim: run_writeE)
  have e: "d1 = put_rows n (filter ?P (rows_of d n)) d"
    using d1(1) by (auto simp: delete_rows_def sql_delete_def split: if_splits)
  show ?case
    using Cons.IH [OF d1(3)] d1(2) by (auto simp: e)
qed simp

lemma delete_tables_append:
  "delete_tables q acct (ns @ ms) d = bindR (delete_tables q acct ns d) (delete_tables q acct ms)"
  by (induction ns arbitrary: d) (auto simp: bindR_def split: sum.split)

lemma delete_children_ok:
  assumes "\<forall>n \<in> set ns. tabs d n \<noteq> None" "''account'' \<notin> set ns"
  shows "\<exists>d'. delete_tables no_faults acct ns d = Inr d'"
  using assms
proof (induction ns arbitrary: d)
  case (Cons n ns)
  let ?d = "sql_delete n [(''account_name'', bindText acct)] d"
  have "\<exists>d'. delete_tables no_faults acct ns ?d = Inr d'"
    using Cons.prems by (intro Cons.IH) (auto simp: sql_delete_def)
  moreover have "delete_rows acct n d = Inr ?d"
    using Cons.prems(2) by (auto simp: delete_rows_def)
  ultimately show ?case
    using Cons.prems(1) by (simp add: run_write_def Stmt_def)
qed simp

lemma kTables_split: "kTables = child_tables @ [''account'']"
  by (simp add: kTables_def child_tables_def)

lemma delete_all_ok:
  assumes "\<forall>n \<in> set kTables. tabs d n \<noteq> None"
  shows "\<exists>d'. delete_tables no_faults acct kTables d = Inr d'"
proof -
  have "\<exists>d1. delete_tables no_faults acct child_tables d = Inr d1"
    using assms by (intro delete_children_ok) (auto simp: kTables_split child_tables_def)
  then obtain d1 where d1: "delete_tables no_faults acct child_tables d = Inr d1" ..
  have "rows_of d1 c = filter (\<lambda>r. \<not> matches [(''account_name'', bindText acct)] r) (rows_of d c)"
    if "c \<in> set child_tables" for c
    using delete_tables_rows [OF d1, of c] that by simp
  then have "\<not> list_ex (\<lambda>c. list_ex (matches [(''account_name'', bindText acct)]) (rows_of d1 c)) child_tables"
    by (auto simp: list_ex_iff)
  moreover have "tabs d1 ''account'' \<noteq> None"
    using delete_tables_rows [OF d1, of "''account''"] assms by (simp add: kTables_def)
  ultimately show ?thesis
    by (simp add: kTables_split delete_tables_append d1 run_write_def Stmt_def delete_rows_def)
qed

lemma delete_each_result:
  "delete_each q acct ns c = (r, c') \<Longrightarrow> cn_begun c' = cn_begun c \<and> (case r of Inl _ \<Rightarrow> True | Inr _ \<Rightarrow> delete_tables q acct ns (cn_db c) = Inr (cn_db c'))"
proof (induction ns arbitrary: c)
  case (Cons n ns)
  show ?case
  proof (cases "run_write q (''DELETE FROM '' @ n) (''DELETE FROM '' @ n @ '' failed: '') n (delete_rows acct n) (cn_db c)")
    case (Inl e)
    with Cons.prems show ?thesis by (auto simp: bindS_def)
  next
    case (Inr d)
    with Cons.prems Cons.IH [of "c\<lparr>cn_db := d\<rparr>"] show ?thesis by (cases r) (simp_all add: bindS_def)
  qed
qed auto

lemma delete_each_ok: "delete_tables q acct ns (cn_db c) = Inr d' \<Longrightarrow> delete_each q acct ns c = (Inr (), c\<lparr>cn_db := d'\<rparr>)"
  by (induction ns arbitrary: c) (auto simp: bindR_Inr_iff bindS_def)

lemma delete_in_txn_result:
  assumes "delete_in_txn q acct c = (r, c')" "cn_begun c = None"
  shows "case r of Inl _ \<Rightarrow> durable c' = cn_db c | Inr _ \<Rightarrow> cn_begun c' = None \<and> delete_tables q acct kTables (cn_db c) = Inr (cn_db c')"
proof (cases "exec q ''BEGIN''")
  case None
  obtain x c1 where x: "delete_each q acct kTables (begin_txn c) = (x, c1)" by fastforce
  note d = delete_each_result [OF x]
  have b: "cn_begun (begin_txn c) = Some (cn_db c)" "cn_db (begin_txn c) = cn_db c" by (simp_all add: begin_txn_def)
  show ?thesis
  proof (cases x)
    case (Inl e)
    then have "c' = snd (exec_txn q ''ROLLBACK'' rollback_txn [] c1)" "\<exists>e. r = Inl e"
      using assms(1) None x by (auto simp: delete_in_txn_def bindS_def exec_txn_def [of q "''BEGIN''"])
    then show ?thesis using d b by (auto simp: exec_txn_def rollback_txn_def durable_def split: option.split)
  next
    case (Inr u)
    then have "exec_txn q ''COMMIT'' commit_txn ''deleteAccount: COMMIT failed: '' c1 = (r, c')"
      using assms(1) None x by (simp add: delete_in_txn_def bindS_def exec_txn_def [of q "''BEGIN''"])
    then show ?thesis using d b Inr by (auto simp: exec_txn_def commit_txn_def durable_def split: option.splits)
  qed
qed (use assms in \<open>auto simp: delete_in_txn_def bindS_def exec_txn_def durable_def\<close>)

text \<open>The tables of the schema with rows of an account.\<close>

definition account_tables :: "string list" where
  "account_tables = map fst (filter (\<lambda>tc. ''account_name'' \<in> set (snd tc)) schema)"

lemma account_tables_deleted: "set kTables = set account_tables"
proof -
  have e: "account_tables = ''account'' # child_tables" by code_simp
  have "set account_tables = insert ''account'' (set child_tables)" unfolding e by (rule list.set)
  then show ?thesis by (auto simp only: kTables_split set_append list.set)
qed

text \<open>
  C25: \<open>deleteAccount\<close> is all or nothing. When it returns, every row of the account is gone from every table of \<open>schema.sql\<close> that has an account's rows and every other
  row is as it was; when it throws, at whatever statement of the transaction, its \<open>COMMIT\<close> and \<open>ROLLBACK\<close> included, the database file is what it was.
\<close>

theorem deleteAccount_atomic:
  assumes "deleteAccount q acct d = (r, d')"
  shows "case r of Inl _ \<Rightarrow> d' = d
    | Inr _ \<Rightarrow> (\<forall>n. rows_of d' n = (if n \<in> set account_tables
        then filter (\<lambda>r. \<not> matches [(''account_name'', bindText acct)] r) (rows_of d n) else rows_of d n))"
proof -
  obtain c where c: "delete_in_txn q acct \<lparr>cn_db = d, cn_begun = None\<rparr> = (r, c)" "d' = durable c"
    using assms by (auto simp: deleteAccount_def split: prod.splits)
  from delete_in_txn_result [OF c(1)] c(2) show ?thesis
    using delete_tables_rows [of q acct kTables d] by (auto simp: durable_def account_tables_deleted split: sum.splits)
qed

theorem deleteAccount_atomic_witness:
  "case deleteAccount no_faults ''a'' one_account of (Inl _, d') \<Rightarrow> d' = one_account
    | (Inr _, d') \<Rightarrow> rows_of d' ''account'' = []"
  using deleteAccount_atomic [of no_faults "''a''" one_account "fst (deleteAccount no_faults ''a'' one_account)"
      "snd (deleteAccount no_faults ''a'' one_account)"] fresh_db_account
  by (auto simp: one_account_def account_tables_def schema_def account_identity_columns_def split: prod.splits sum.splits)

text \<open>On a database with its schema, and with no engine fault, \<open>deleteAccount\<close> succeeds.\<close>

theorem deleteAccount_succeeds:
  assumes "\<forall>n \<in> set kTables. tabs d n \<noteq> None"
  shows "fst (deleteAccount no_faults acct d) = Inr ()"
proof -
  obtain d' where "delete_tables no_faults acct kTables d = Inr d'"
    using delete_all_ok assms by blast
  from delete_each_ok [of no_faults acct kTables "begin_txn \<lparr>cn_db = d, cn_begun = None\<rparr>"] this show ?thesis
    by (simp add: deleteAccount_def delete_in_txn_def bindS_def exec_txn_def begin_txn_def)
qed

theorem deleteAccount_succeeds_witness: "fst (deleteAccount no_faults ''a'' fresh_db) = Inr ()"
  by (rule deleteAccount_succeeds) (use fresh_db_tabs in \<open>auto simp: kTables_def schema_def\<close>)

text \<open>
  The order of \<open>kTables\<close> does matter: with the account row first, the same
  deletion is refused by the foreign keys as soon as the account has a session.
\<close>

theorem deleteAccount_order_matters:
  assumes "tabs d ''account'' \<noteq> None"
    and "list_ex (matches [(''account_name'', bindText acct)]) (rows_of d ''session'')"
    and "list_ex (matches [(''account_name'', bindText acct)]) (rows_of d ''account'')"
  shows "delete_tables no_faults acct (''account'' # child_tables) d =
    Inl (Runtime_error ''DELETE FROM account failed: FOREIGN KEY constraint failed'')"
  using assms by (simp add: run_write_def Stmt_def delete_rows_def child_tables_def)

theorem deleteAccount_order_matters_witness:
  "delete_tables no_faults ''a'' (''account'' # child_tables)
     (put_rows ''session'' [kv_row ''a'' ''address'' ''x.1'' []] one_account) =
    Inl (Runtime_error ''DELETE FROM account failed: FOREIGN KEY constraint failed'')"
proof (rule deleteAccount_order_matters)
  have s: "tabs one_account ''session'' \<noteq> None"
    using fresh_db_tabs [of "''session''"] by (simp add: one_account_def schema_def)
  then show "list_ex (matches [(''account_name'', bindText ''a'')])
      (rows_of (put_rows ''session'' [kv_row ''a'' ''address'' ''x.1'' []] one_account) ''session'')"
    by (simp add: kv_row_def)
qed (use fresh_db_account in \<open>simp_all add: one_account_def\<close>)

end
