(* ===== verification/ProtocolStores.thy ===== *)
theory ProtocolStores
  imports Storage
begin

text \<open>
  Model of \<open>signal/ProtocolStores.cpp\<close>, the callbacks through which libsignal reads
  and writes an account's keys and sessions, with the address keys of
  \<open>signal/FfiUtil.h\<close>. A callback returns its C status and, through out parameters, a
  value; no exception leaves it. Libsignal's own (de)serialisers are parameters.
\<close>

section \<open>Address keys\<close>

text \<open>A protocol address is a service id and a device id (\<open>uint32_t\<close>).\<close>

type_synonym address = "string \<times> uint32"

definition addressKey :: "address \<Rightarrow> string" where
  "addressKey a = fst a @ ''.'' @ to_string (unat (snd a))"

definition serviceIdFromAddressKey :: "string \<Rightarrow> string" where
  "serviceIdFromAddressKey k = (case rsplit (CHR ''.'') k of None \<Rightarrow> k | Some (a, _) \<Rightarrow> a)"

section \<open>Callbacks\<close>

text \<open>The result of a callback: its status, the out value if it was set, the database.\<close>

type_synonym 'a cb = "db \<Rightarrow> int \<times> 'a option \<times> db"

definition guardCallback :: "(db, 'a) effect \<Rightarrow> 'a cb" where
  "guardCallback f d = (case f d of (Inl e, d') \<Rightarrow> (-1, None, d') | (Inr x, d') \<Rightarrow> (0, Some x, d'))"

definition load_session :: "sqlite \<Rightarrow> (bytes \<Rightarrow> 'h result) \<Rightarrow> string \<Rightarrow> address \<Rightarrow> 'h option cb" where
  "load_session q des acct a = guardCallback (liftR (\<lambda>d.
     bindR (loadSession q acct (addressKey a) d) (\<lambda>record.
       case record of None \<Rightarrow> Inr None | Some r \<Rightarrow> bindR (des r) (\<lambda>h. Inr (Some h)))))"

definition store_session :: "sqlite \<Rightarrow> ('h \<Rightarrow> bytes result) \<Rightarrow> string \<Rightarrow> address \<Rightarrow> 'h \<Rightarrow> unit cb" where
  "store_session q ser acct a h = guardCallback (updR (\<lambda>d.
     bindR (ser h) (\<lambda>bytes. saveSession q acct (addressKey a) bytes d)))"

definition get_local_identity_key_pair :: "sqlite \<Rightarrow> (bytes \<Rightarrow> 'p result) \<Rightarrow> (bytes \<Rightarrow> 'k result) \<Rightarrow> string \<Rightarrow> string \<Rightarrow> ('p \<times> 'k) cb" where
  "get_local_identity_key_pair q desPriv desPub acct identity = guardCallback (liftR (\<lambda>d.
     bindR (loadIdentityKeypair q acct identity d) (\<lambda>kp.
       case kp of None \<Rightarrow> Inl (Runtime_error (''no identity keypair stored for '' @ identity))
       | Some k \<Rightarrow> bindR (desPriv (k_private_key k)) (\<lambda>p. bindR (desPub (k_public_key k)) (\<lambda>b. Inr (p, b))))))"

definition get_local_registration_id :: "sqlite \<Rightarrow> string \<Rightarrow> string \<Rightarrow> uint32 cb" where
  "get_local_registration_id q acct identity = guardCallback (liftR (\<lambda>d.
     bindR (loadAccount q acct d) (\<lambda>account.
       Inr (word_of_int (if identity = ''pni'' then a_pni_registration_id account else a_registration_id account)))))"

definition get_identity_key :: "sqlite \<Rightarrow> (bytes \<Rightarrow> 'k result) \<Rightarrow> string \<Rightarrow> address \<Rightarrow> 'k option cb" where
  "get_identity_key q desPub acct a = guardCallback (liftR (\<lambda>d.
     bindR (loadRemoteIdentity q acct (serviceIdFromAddressKey (addressKey a)) d) (\<lambda>stored.
       case stored of None \<Rightarrow> Inr None | Some b \<Rightarrow> bindR (desPub b) (\<lambda>k. Inr (Some k)))))"

text \<open>The value of \<open>save_identity_key\<close>: 1 when a different key was replaced, else 0.\<close>

definition save_identity_key :: "sqlite \<Rightarrow> ('k \<Rightarrow> bytes result) \<Rightarrow> string \<Rightarrow> address \<Rightarrow> 'k \<Rightarrow> nat cb" where
  "save_identity_key q ser acct a publicKey =
     (let key = serviceIdFromAddressKey (addressKey a) in
      guardCallback (bindS (liftR (\<lambda>_. ser publicKey)) (\<lambda>newKeyBytes.
        bindS (liftR (loadRemoteIdentity q acct key)) (\<lambda>existing.
        bindS (updR (saveRemoteIdentity q acct key newKeyBytes)) (\<lambda>_.
          returnS (if existing \<noteq> None \<and> the existing \<noteq> newKeyBytes then 1 else 0))))))"

definition is_trusted_identity :: "sqlite \<Rightarrow> ('k \<Rightarrow> bytes result) \<Rightarrow> string \<Rightarrow> address \<Rightarrow> 'k \<Rightarrow> bool cb" where
  "is_trusted_identity q ser acct a publicKey =
     guardCallback (liftR (\<lambda>d. bindR (ser publicKey) (\<lambda>candidate.
       bindR (loadRemoteIdentity q acct (serviceIdFromAddressKey (addressKey a)) d) (\<lambda>existing.
         Inr (existing = None \<or> existing = Some candidate)))))"

text \<open>One-time prekeys are never used: loading one always fails, storing one is dropped.\<close>

definition load_pre_key :: "uint32 \<Rightarrow> 'h cb" where
  "load_pre_key i d = (-1, None, d)"

definition store_pre_key :: "unit result \<Rightarrow> uint32 \<Rightarrow> unit cb" where
  "store_pre_key destroyed i = guardCallback (liftR (\<lambda>_. destroyed))"

definition remove_pre_key :: "uint32 \<Rightarrow> unit cb" where
  "remove_pre_key i d = (0, Some (), d)"

definition load_signed_pre_key :: "sqlite \<Rightarrow> (bytes \<Rightarrow> 'h result) \<Rightarrow> string \<Rightarrow> string \<Rightarrow> uint32 \<Rightarrow> 'h cb" where
  "load_signed_pre_key q des acct identity i = guardCallback (liftR (\<lambda>d.
     bindR (loadSignedPrekey q acct identity d) (\<lambda>stored.
       case stored of None \<Rightarrow> Inl (Runtime_error (''no signed prekey '' @ to_string (unat i) @ '' on file''))
       | Some r \<Rightarrow> if p_key_id r \<noteq> uint i then Inl (Runtime_error (''no signed prekey '' @ to_string (unat i) @ '' on file''))
           else des (p_record r))))"

definition store_signed_pre_key :: "sqlite \<Rightarrow> ('h \<Rightarrow> bytes result) \<Rightarrow> string \<Rightarrow> string \<Rightarrow> uint32 \<Rightarrow> 'h \<Rightarrow> unit cb" where
  "store_signed_pre_key q ser acct identity i h = guardCallback (updR (\<lambda>d.
     bindR (ser h) (\<lambda>bytes. saveSignedPrekey q acct identity \<lparr>p_key_id = uint i, p_record = bytes\<rparr> d)))"

definition load_kyber_pre_key :: "sqlite \<Rightarrow> (bytes \<Rightarrow> 'h result) \<Rightarrow> string \<Rightarrow> string \<Rightarrow> uint32 \<Rightarrow> 'h cb" where
  "load_kyber_pre_key q des acct identity i = guardCallback (liftR (\<lambda>d.
     bindR (loadKyberPrekey q acct identity d) (\<lambda>stored.
       case stored of None \<Rightarrow> Inl (Runtime_error (''no kyber prekey '' @ to_string (unat i) @ '' on file''))
       | Some r \<Rightarrow> if p_key_id r \<noteq> uint i then Inl (Runtime_error (''no kyber prekey '' @ to_string (unat i) @ '' on file''))
           else des (p_record r))))"

definition store_kyber_pre_key :: "sqlite \<Rightarrow> ('h \<Rightarrow> bytes result) \<Rightarrow> string \<Rightarrow> string \<Rightarrow> uint32 \<Rightarrow> 'h \<Rightarrow> unit cb" where
  "store_kyber_pre_key q ser acct identity i h = guardCallback (updR (\<lambda>d.
     bindR (ser h) (\<lambda>bytes. saveKyberPrekey q acct identity \<lparr>p_key_id = uint i, p_record = bytes\<rparr> d)))"

definition mark_kyber_pre_key_used :: "unit result \<Rightarrow> uint32 \<Rightarrow> unit cb" where
  "mark_kyber_pre_key_used destroyed i = guardCallback (liftR (\<lambda>_. destroyed))"

section \<open>Facts\<close>

lemma no_dot_digits: "CHR ''.'' \<notin> set (to_string n)"
  using to_string_digits [of n] digit_not_space_sign(4) by (auto simp: list_all_iff)

lemma serviceId_addressKey [simp]: "serviceIdFromAddressKey (addressKey a) = fst a"
  using rsplit_append [OF no_dot_digits [of "unat (snd a)"], of "fst a"]
  by (simp add: serviceIdFromAddressKey_def addressKey_def)

lemma to_string_inj: "to_string m = to_string n \<Longrightarrow> m = n"
  by (metis nat_of_digits_to_string)

lemma addressKey_inj: "addressKey a = addressKey b \<Longrightarrow> a = b"
proof -
  assume eq: "addressKey a = addressKey b"
  then have f: "fst a = fst b"
    using serviceId_addressKey by metis
  then have "to_string (unat (snd a)) = to_string (unat (snd b))"
    using eq by (simp add: addressKey_def)
  then have "snd a = snd b"
    by (intro unsigned_word_eqI) (rule to_string_inj)
  with f show "a = b"
    by (simp add: prod_eq_iff)
qed

lemma guardCallback_status:
  "guardCallback f d = (s, x, d') \<Longrightarrow> (s = 0 \<longleftrightarrow> x \<noteq> None) \<and> (s = 0 \<or> s = -1)"
  by (auto simp: guardCallback_def split: prod.splits sum.splits)

lemma save_identity_ok:
  assumes "save_identity_key q ser acct a k d = (0, x, d')"
  shows "\<exists>b. ser k = Inr b \<and> saveRemoteIdentity q acct (fst a) b d = Inr d'"
  using assms
  by (auto simp: save_identity_key_def guardCallback_def Let_def liftR_def updR_def
      split: prod.splits sum.splits elim!: bindS_cases)

section \<open>Properties\<close>

text \<open>
  Trust on first use, per service id. Once a key was saved for any device of a
  service id, exactly that key is trusted for all its devices; a different key is
  refused until it replaces the stored one, and then \<open>save_identity_key\<close> reports
  the replacement.
\<close>

theorem identity_trust_on_first_use:
  assumes "save_identity_key q ser acct (sid, dev) k d = (0, x, d')"
    and "Sql.readable q ''loadRemoteIdentity''" "ser k = Inr b" "ser k2 = Inr b2"
  shows "is_trusted_identity q ser acct (sid, dev2) k2 d' = (0, Some (b2 = b), d')
    \<and> (\<forall>y d2. save_identity_key q ser acct (sid, dev2) k2 d' = (0, y, d2) \<longrightarrow> y = Some (if b2 = b then 0 else 1))"
proof -
  have s: "saveRemoteIdentity q acct sid b d = Inr d'"
    using save_identity_ok [OF assms(1)] assms(3) by simp
  have l: "loadRemoteIdentity q acct sid d' = Inr (Some b)"
    by (rule remote_ids.load_saved [OF s assms(2)])
  then show ?thesis
    using assms(4)
    by (auto simp: is_trusted_identity_def save_identity_key_def guardCallback_def liftR_def updR_def bindS_def Let_def
        split: sum.splits)
qed

lemma save_identity_sample:
  "save_identity_key no_faults Inr ''a'' (''s'', 1) [5] one_account =
     (0, Some 0, put_rows ''remote_identity'' [kv_row ''a'' ''address'' ''s'' [(''public_key'', bindBlob [5])]] one_account)"
  using fresh_db_tabs [of "''remote_identity''"] fresh_db_account
  by (simp add: save_identity_key_def guardCallback_def liftR_def updR_def bindS_def Let_def schema_def one_account_def
      loadRemoteIdentity_def first_kv_def run_first_readable saveRemoteIdentity_def upsert_kv_def run_write_def Stmt_def
      sql_upsert_def check_error_def fk_error_def kv_row_def)

theorem identity_trust_on_first_use_witness:
  "is_trusted_identity no_faults Inr ''a'' (''s'', 2) [6]
     (put_rows ''remote_identity'' [kv_row ''a'' ''address'' ''s'' [(''public_key'', bindBlob [5])]] one_account) =
   (0, Some False, put_rows ''remote_identity'' [kv_row ''a'' ''address'' ''s'' [(''public_key'', bindBlob [5])]] one_account)"
  using identity_trust_on_first_use [OF save_identity_sample, of "[5]" "[6]" "[6]" 2] by simp

text \<open>
  A stored session is loaded again for its own address and leaves every other
  address of every account as it was: two addresses never share a session key.
\<close>

theorem session_store_roundtrip:
  assumes "store_session q ser acct a h d = (0, x, d')" "ser h = Inr b" "Sql.readable q ''loadSession''"
  shows "load_session q des acct a d' = (case des b of Inl _ \<Rightarrow> (-1, None, d') | Inr h' \<Rightarrow> (0, Some (Some h'), d'))
    \<and> ((acct2, a2) \<noteq> (acct, a) \<longrightarrow>
        fst (load_session q des acct2 a2 d') = fst (load_session q des acct2 a2 d)
        \<and> fst (snd (load_session q des acct2 a2 d')) = fst (snd (load_session q des acct2 a2 d)))"
proof -
  have s: "saveSession q acct (addressKey a) b d = Inr d'"
    using assms(1,2) by (auto simp: store_session_def guardCallback_def updR_def split: sum.splits prod.splits)
  have "loadSession q acct2 (addressKey a2) d' = loadSession q acct2 (addressKey a2) d" if "(acct2, a2) \<noteq> (acct, a)"
    using sessions.load_other [OF s, of acct2 "addressKey a2"] addressKey_inj [of a2 a] that by auto
  then show ?thesis
    using sessions.load_saved [OF s assms(3)]
    by (auto simp: load_session_def guardCallback_def liftR_def split: sum.split)
qed

lemma store_session_sample:
  "store_session no_faults Inr ''a'' (''s'', 1) [5] one_account =
     (0, Some (), put_rows ''session'' [kv_row ''a'' ''address'' (addressKey (''s'', 1)) [(''record'', bindBlob [5])]] one_account)"
  using fresh_db_tabs [of "''session''"] fresh_db_account
  by (simp add: store_session_def guardCallback_def updR_def schema_def one_account_def
      saveSession_def upsert_kv_def run_write_def Stmt_def sql_upsert_def check_error_def fk_error_def kv_row_def)

theorem session_store_roundtrip_witness:
  "fst (load_session no_faults Inr ''a'' (''s'', 1)
     (put_rows ''session'' [kv_row ''a'' ''address'' (addressKey (''s'', 1)) [(''record'', bindBlob [5])]] one_account)) = 0"
  using session_store_roundtrip [OF store_session_sample, of "[5]" Inr "''a''" "(''s'', 1)"] by simp
end
