(* ===== verification/Crypto.thy ===== *)
theory Crypto
  imports Base64 Padding ProtocolStores
begin

text \<open>
  Model of \<open>signal/Crypto.cpp\<close>: establishing sessions, encrypting and decrypting one
  device's message, sealed sender, and the decryption error message. Libsignal itself
  is the parameter \<open>libsignal\<close>; its functions read and write the account's stores, so
  they are effects on the database.
\<close>

record RemotePreKeyBundle =
  b_serviceId :: string
  b_deviceId :: uint32
  b_registrationId :: uint32
  b_preKeyId :: "uint32 option"
  b_preKeyPublic :: "bytes option"
  b_signedPreKeyId :: uint32
  b_signedPreKeyPublic :: bytes
  b_signedPreKeySignature :: bytes
  b_identityKey :: bytes
  b_kyberPreKeyId :: uint32
  b_kyberPreKeyPublic :: bytes
  b_kyberPreKeySignature :: bytes

record EncryptedMessage =
  em_ciphertext :: bytes
  em_type :: byte

record SealedSenderResult =
  ss_senderServiceId :: string
  ss_senderDeviceId :: uint32
  ss_plaintext :: bytes

text \<open>A sealed-sender content: the sender's certificate (uuid, device), the inner type and ciphertext.\<close>

record usmc =
  u_cert :: "string \<times> uint32"
  u_type :: byte
  u_contents :: bytes

text \<open>
  The libsignal calls. \<open>key_ok\<close> is the check of a public key's encoding,
  \<open>new_bundle\<close> the argument check of \<open>signal_pre_key_bundle_new\<close> (with the one-time
  prekey id passed as a plain \<open>uint32_t\<close> and whether the key pointer was given).
\<close>

record libsignal =
  key_ok :: "bytes \<Rightarrow> unit result"
  kyber_key_ok :: "bytes \<Rightarrow> unit result"
  new_bundle :: "uint32 \<Rightarrow> bytes option \<Rightarrow> RemotePreKeyBundle \<Rightarrow> unit result"
  process_bundle :: "RemotePreKeyBundle \<Rightarrow> address \<Rightarrow> address \<Rightarrow> (db, unit) effect"
  encrypt_message :: "bytes \<Rightarrow> address \<Rightarrow> address \<Rightarrow> (db, EncryptedMessage) effect"
  decrypt_pre_key_message :: "bytes \<Rightarrow> address \<Rightarrow> address \<Rightarrow> (db, bytes) effect"
  decrypt_message :: "bytes \<Rightarrow> address \<Rightarrow> address \<Rightarrow> (db, bytes) effect"
  decrypt_to_usmc :: "bytes \<Rightarrow> (db, usmc) effect"
  certificate_validate :: "string \<times> uint32 \<Rightarrow> bytes list \<Rightarrow> uint64 \<Rightarrow> bool result"
  error_message :: "bytes \<Rightarrow> byte \<Rightarrow> uint64 \<Rightarrow> uint32 \<Rightarrow> bytes result"

definition kTrustRootsBase64 :: "string list" where
  "kTrustRootsBase64 = [''BXu6QIKVz5MA8gstzfOgRQGqyLqOwNKHL6INkv3IHWMF'', ''BUkY0I+9+oPgDCn4+Ac6Iu813yvqkDr/ga8DzLxFxuk6'']"

abbreviation CiphertextMessageTypePreKey :: byte where
  "CiphertextMessageTypePreKey \<equiv> 3"

abbreviation UINT32_MAX :: uint32 where
  "UINT32_MAX \<equiv> 0xFFFFFFFF"

definition establishSession :: "libsignal \<Rightarrow> address \<Rightarrow> RemotePreKeyBundle \<Rightarrow> (db, unit) effect" where
  "establishSession ls localAddress b =
     bindS (liftR (\<lambda>_. key_ok ls (b_identityKey b))) (\<lambda>_.
     bindS (liftR (\<lambda>_. key_ok ls (b_signedPreKeyPublic b))) (\<lambda>_.
     bindS (liftR (\<lambda>_. case b_preKeyPublic b of None \<Rightarrow> Inr () | Some k \<Rightarrow> key_ok ls k)) (\<lambda>_.
     bindS (liftR (\<lambda>_. kyber_key_ok ls (b_kyberPreKeyPublic b))) (\<lambda>_.
     bindS (liftR (\<lambda>_. new_bundle ls (case b_preKeyId b of None \<Rightarrow> UINT32_MAX | Some i \<Rightarrow> i) (b_preKeyPublic b) b)) (\<lambda>_.
       process_bundle ls b (b_serviceId b, b_deviceId b) localAddress)))))"

definition encryptForDevice :: "libsignal \<Rightarrow> address \<Rightarrow> address \<Rightarrow> bytes \<Rightarrow> (db, EncryptedMessage) effect" where
  "encryptForDevice ls localAddress remoteAddress plaintextContent =
     encrypt_message ls (padMessageBody plaintextContent) remoteAddress localAddress"

definition decryptCiphertext :: "libsignal \<Rightarrow> address \<Rightarrow> address \<Rightarrow> byte \<Rightarrow> bytes \<Rightarrow> (db, bytes) effect" where
  "decryptCiphertext ls localAddress remoteAddress messageType ciphertext =
     bindS (if messageType = CiphertextMessageTypePreKey
       then decrypt_pre_key_message ls ciphertext remoteAddress localAddress
       else decrypt_message ls ciphertext remoteAddress localAddress)
     (\<lambda>buffer. returnS (stripPaddingMessageBody buffer))"

definition decryptSealedSender :: "libsignal \<Rightarrow> address \<Rightarrow> bytes \<Rightarrow> uint64 \<Rightarrow> (db, SealedSenderResult) effect" where
  "decryptSealedSender ls localAddress sealed serverTimestamp =
     bindS (decrypt_to_usmc ls sealed) (\<lambda>u.
     bindS (liftR (\<lambda>_. certificate_validate ls (u_cert u) (map base64Decode kTrustRootsBase64) serverTimestamp)) (\<lambda>valid.
       if \<not> valid
       then throwS (Runtime_error ''sealed sender: sender certificate failed trust root validation'')
       else bindS (decryptCiphertext ls localAddress (u_cert u) (u_type u) (u_contents u)) (\<lambda>plaintext.
         returnS \<lparr>ss_senderServiceId = fst (u_cert u), ss_senderDeviceId = snd (u_cert u), ss_plaintext = plaintext\<rparr>)))"

definition buildDecryptionErrorMessage :: "libsignal \<Rightarrow> bytes \<Rightarrow> byte \<Rightarrow> uint64 \<Rightarrow> uint32 \<Rightarrow> bytes result" where
  "buildDecryptionErrorMessage ls originalCiphertext originalType originalTimestamp originalSenderDeviceId =
     error_message ls originalCiphertext originalType originalTimestamp originalSenderDeviceId"

section \<open>Properties\<close>

lemma strip_pad: "length xs < 2 ^ 62 \<Longrightarrow> stripPaddingMessageBody (padMessageBody xs) = xs"
  by (simp add: padMessageBody_eq strip_terminated)

text \<open>
  What is encrypted for a device is what that device decrypts. If libsignal's
  decryption inverts its encryption on the padded body (whichever of the two message types
  it chose), \<open>decryptCiphertext\<close> returns the content that was passed to
  \<open>encryptForDevice\<close>, padding removed.
\<close>

theorem encrypt_decrypt_content:
  assumes "encryptForDevice ls alice bob content d = (Inr m, d')" "length content < 2 ^ 62"
    and "if em_type m = CiphertextMessageTypePreKey
      then decrypt_pre_key_message ls2 (em_ciphertext m) alice bob e = (Inr (padMessageBody content), e')
      else decrypt_message ls2 (em_ciphertext m) alice bob e = (Inr (padMessageBody content), e')"
  shows "decryptCiphertext ls2 bob alice (em_type m) (em_ciphertext m) e = (Inr content, e')"
  using assms by (simp add: decryptCiphertext_def bindS_def strip_pad split: if_splits)

definition transparent :: libsignal where
  "transparent = \<lparr>key_ok = (\<lambda>_. Inr ()), kyber_key_ok = (\<lambda>_. Inr ()), new_bundle = (\<lambda>_ _ _. Inr ()),
     process_bundle = (\<lambda>_ _ _. returnS ()),
     encrypt_message = (\<lambda>p _ _. returnS \<lparr>em_ciphertext = p, em_type = 3\<rparr>),
     decrypt_pre_key_message = (\<lambda>c _ _. returnS c), decrypt_message = (\<lambda>c _ _. returnS c),
     decrypt_to_usmc = (\<lambda>c. returnS \<lparr>u_cert = (''mallory'', 1), u_type = 2, u_contents = c\<rparr>),
     certificate_validate = (\<lambda>c ks _. Inr (fst c \<noteq> ''mallory'')), error_message = (\<lambda>c _ _ _. Inr c)\<rparr>"

theorem encrypt_decrypt_content_witness:
  "decryptCiphertext transparent (''bob'', 1) (''alice'', 2) 3 (padMessageBody [1, 2]) fresh_db = (Inr [1, 2], fresh_db)"
  using encrypt_decrypt_content [of transparent "(''alice'', 2)" "(''bob'', 1)" "[1, 2]" fresh_db
      "\<lparr>em_ciphertext = padMessageBody [1, 2], em_type = 3\<rparr>" fresh_db transparent fresh_db fresh_db]
  by (simp add: transparent_def encryptForDevice_def)

text \<open>
  A sealed-sender envelope is only ever attributed and decrypted after its
  certificate validated against the two pinned trust roots: a plaintext comes with
  the identity of a validated certificate, and without validation nothing of the
  account's sessions is touched.
\<close>

theorem sealed_sender_authenticated:
  assumes "decryptSealedSender ls local sealed ts d = (r, d')"
  shows "(\<forall>x. r = Inr x \<longrightarrow> (\<exists>u d1. decrypt_to_usmc ls sealed d = (Inr u, d1)
        \<and> certificate_validate ls (u_cert u) (map base64Decode kTrustRootsBase64) ts = Inr True
        \<and> (ss_senderServiceId x, ss_senderDeviceId x) = u_cert u))
    \<and> (\<forall>u d1. decrypt_to_usmc ls sealed d = (Inr u, d1)
        \<and> certificate_validate ls (u_cert u) (map base64Decode kTrustRootsBase64) ts \<noteq> Inr True \<longrightarrow> isl r \<and> d' = d1)"
  using assms by (auto simp: decryptSealedSender_def liftR_def split: if_splits elim!: bindS_cases)

theorem sealed_sender_authenticated_witness:
  "isl (fst (decryptSealedSender transparent (''bob'', 1) [9] 0 fresh_db))"
  using sealed_sender_authenticated [of transparent "(''bob'', 1)" "[9]" 0 fresh_db
      "fst (decryptSealedSender transparent (''bob'', 1) [9] 0 fresh_db)"
      "snd (decryptSealedSender transparent (''bob'', 1) [9] 0 fresh_db)"]
  by (simp add: transparent_def)
end
