(* ===== verification/AuthSocket.thy ===== *)
theory AuthSocket
  imports Prelude
begin

text \<open>
  Model of \<open>signal/AuthSocket.cpp\<close>: the authenticated chat connection. The sequential
  operations work on the state of \<open>AuthSocket::Impl\<close>; libsignal's part in them (a handle, an
  error code, a response) is an argument. \<open>doConnect\<close>'s hand-over between the waiting thread and
  libsignal's completion callback is a step relation of its own, because either side may be
  the last to use the shared \<open>ConnectState\<close>.
\<close>

section \<open>State\<close>

abbreviation kErrorDeviceDeregistered :: nat where "kErrorDeviceDeregistered \<equiv> 171"
abbreviation kErrorConnectionInvalidated :: nat where "kErrorConnectionInvalidated \<equiv> 172"
abbreviation kErrorConnectedElsewhere :: nat where "kErrorConnectedElsewhere \<equiv> 173"
abbreviation kErrorWebSocketGeneric :: nat where "kErrorWebSocketGeneric \<equiv> 146"

record Response =
  status :: nat
  body :: bytes

record http_request =
  hr_verb :: string
  hr_path :: string
  hr_body :: "bytes option"
  hr_content_type :: "string option"

text \<open>
  \<open>signal_error_get_type\<close> and the message \<open>checkError\<close> throws.
\<close>

record ffi_error =
  err_code :: nat
  err_message :: string

definition checkError :: "ffi_error option \<Rightarrow> unit result" where
  "checkError err = (case err of None \<Rightarrow> Inr () | Some e \<Rightarrow> Inl (Runtime_error (err_message e)))"

text \<open>
  A chat handle is a number, \<open>chat = None\<close> the null handle. \<open>live\<close> lists the connections
  that were opened and not yet disconnected, \<open>keepAlive\<close> whether the keep-alive thread
  is joinable, \<open>proxy\<close> and \<open>circumvent\<close> what the connection manager was last told.
\<close>

record Impl =
  signalProxy :: string
  censorshipCircumvention :: bool
  chat :: "nat option"
  connected :: bool
  deauthorized :: bool
  keepAlive :: bool
  stopping :: bool
  proxy :: "(string \<times> int) option"
  circumvent :: bool
  live :: "nat list"

section \<open>Operations\<close>

definition disconnectAndDestroyBestEffort :: "nat option \<Rightarrow> Impl \<Rightarrow> Impl" where
  "disconnectAndDestroyBestEffort h s = (case h of None \<Rightarrow> s | Some c \<Rightarrow> s\<lparr>live := removeAll c (live s)\<rparr>)"

text \<open>
  \<open>set_proxy\<close> is what \<open>signal_connection_proxy_config_new\<close> and \<open>set_proxy\<close> answer for a
  host and a port.
\<close>

definition proxy_target :: "string \<Rightarrow> (string \<times> int) result" where
  "proxy_target sp = (case rsplit (CHR '':'') sp of
      None \<Rightarrow> Inr (sp, 443)
    | Some (host, port) \<Rightarrow> bindR (stoi port) (\<lambda>p. Inr (host, p)))"

definition applyProxyConfig :: "(string \<times> int \<Rightarrow> unit result) \<Rightarrow> (Impl, unit) effect" where
  "applyProxyConfig set_proxy s =
     (if signalProxy s = [] then returnS () (s\<lparr>proxy := None, circumvent := censorshipCircumvention s\<rparr>)
      else bindS (liftR (\<lambda>s. bindR (proxy_target (signalProxy s)) (\<lambda>t. bindR (set_proxy t) (\<lambda>_. Inr t))))
        (\<lambda>t s. returnS () (s\<lparr>proxy := Some t, circumvent := censorshipCircumvention s\<rparr>)) s)"

definition AuthSocket_new :: "(string \<times> int \<Rightarrow> unit result) \<Rightarrow> string \<Rightarrow> bool \<Rightarrow> Impl result" where
  "AuthSocket_new set_proxy sp cc =
     fst (bindS (applyProxyConfig set_proxy) (\<lambda>_. liftR Inr)
       \<lparr>signalProxy = sp, censorshipCircumvention = cc, chat = None, connected = False, deauthorized = False,
        keepAlive = False, stopping = False, proxy = None, circumvent = False, live = []\<rparr>)"

text \<open>The acknowledgement is sent before the handler runs; its failure is only logged.\<close>

datatype push_event = Ack | Push string string bytes

definition onReceivedIncomingMessage :: "bytes \<Rightarrow> push_event list" where
  "onReceivedIncomingMessage envelope = [Ack, Push ''PUT'' ''/api/v1/message'' envelope]"

definition onConnectionInterrupted :: "nat option \<Rightarrow> Impl \<Rightarrow> Impl" where
  "onConnectionInterrupted code s =
     (let s = s\<lparr>connected := False\<rparr> in
      if code = Some kErrorConnectionInvalidated then s\<lparr>deauthorized := True\<rparr> else s)"

text \<open>How a connect attempt ends, and what \<open>init_listener\<close> answers on success.\<close>

datatype outcome = Call_failed ffi_error | Timed_out | Completed "ffi_error + nat"

definition doConnect :: "outcome \<Rightarrow> ffi_error option \<Rightarrow> (Impl, unit) effect" where
  "doConnect out initListener s =
     (let s = disconnectAndDestroyBestEffort (chat s) (s\<lparr>connected := False\<rparr>);
          s = s\<lparr>chat := None\<rparr> in
      case out of
        Call_failed e \<Rightarrow> (Inl (Runtime_error (err_message e)), s)
      | Timed_out \<Rightarrow> (Inl (Runtime_error ''timed out connecting to chat.signal.org''), s)
      | Completed (Inl e) \<Rightarrow>
          (Inl (Runtime_error (err_message e)),
           if err_code e = kErrorDeviceDeregistered then s\<lparr>deauthorized := True\<rparr> else s)
      | Completed (Inr h) \<Rightarrow>
          let s = s\<lparr>chat := Some h, live := h # live s\<rparr> in
          (case checkError initListener of Inl x \<Rightarrow> (Inl x, s)
           | Inr _ \<Rightarrow> (Inr (), s\<lparr>deauthorized := False, connected := True\<rparr>)))"

definition connect :: "outcome \<Rightarrow> ffi_error option \<Rightarrow> (Impl, unit) effect" where
  "connect out il = bindS (doConnect out il) (\<lambda>_ s. returnS () (s\<lparr>keepAlive := True\<rparr>))"

definition reconnect :: "outcome \<Rightarrow> ffi_error option \<Rightarrow> (Impl, unit) effect" where
  "reconnect = doConnect"

text \<open>
  \<open>new_request\<close> is libsignal's answer when the request object is built, \<open>send\<close> what becomes of
  it: refused at once, failed later, or answered (\<open>None\<close>: completed without a response).
\<close>

datatype sent = Send_refused ffi_error | Send_failed ffi_error | Answered "Response option"

definition make_request :: "string \<Rightarrow> string \<Rightarrow> bytes option \<Rightarrow> http_request" where
  "make_request verb path bd =
     \<lparr>hr_verb = verb, hr_path = path, hr_body = bd,
      hr_content_type = (if bd = None then None else Some ''application/json'')\<rparr>"

definition doRequest ::
  "(http_request \<Rightarrow> ffi_error option) \<Rightarrow> (http_request \<Rightarrow> sent) \<Rightarrow> string \<Rightarrow> string \<Rightarrow> bytes option \<Rightarrow> Impl \<Rightarrow> Response result" where
  "doRequest new_request send verb path bd s =
     (let req = make_request verb path bd in
      bindR (checkError (new_request req)) (\<lambda>_.
        if chat s = None then Inr \<lparr>status = 0, body = []\<rparr>
        else case send req of
            Send_refused e \<Rightarrow> Inl (Runtime_error (err_message e))
          | Send_failed e \<Rightarrow>
              if err_code e = kErrorConnectionInvalidated \<or> err_code e = kErrorConnectedElsewhere \<or>
                 err_code e = kErrorWebSocketGeneric
              then Inr \<lparr>status = 0, body = []\<rparr> else Inl (Runtime_error (err_message e))
          | Answered None \<Rightarrow> Inr \<lparr>status = 0, body = []\<rparr>
          | Answered (Some r) \<Rightarrow> Inr r))"

text \<open>The requests a keep-alive round sends.\<close>

definition sendKeepAlive :: "Impl \<Rightarrow> http_request list" where
  "sendKeepAlive s = (if connected s \<and> chat s \<noteq> None then [make_request ''GET'' ''/v1/keepalive'' None] else [])"

definition isConnected :: "Impl \<Rightarrow> bool" where
  "isConnected s = connected s"

definition isDeauthorized :: "Impl \<Rightarrow> bool" where
  "isDeauthorized s = deauthorized s"

definition close :: "Impl \<Rightarrow> Impl" where
  "close s =
     (if stopping s then s
      else (disconnectAndDestroyBestEffort (chat s) (s\<lparr>stopping := True, keepAlive := False\<rparr>))
             \<lparr>chat := None, connected := False\<rparr>)"

definition destroy_socket :: "Impl \<Rightarrow> Impl" where
  "destroy_socket s = (let s = close s in (disconnectAndDestroyBestEffort (chat s) s)\<lparr>chat := None\<rparr>)"

section \<open>One session at a time\<close>

text \<open>
  What happens to a socket: connection attempts with their outcome, interruptions reported by
  libsignal, \<open>close\<close>. A dropped connection is no longer live, whatever its handle says.
\<close>

datatype socket_event = Connect outcome "ffi_error option" | Reconnect outcome "ffi_error option"
  | Interrupted "nat option" | Close

fun socket_step :: "socket_event \<Rightarrow> Impl \<Rightarrow> Impl" where
  "socket_step (Connect out il) s = snd (connect out il s)"
| "socket_step (Reconnect out il) s = snd (reconnect out il s)"
| "socket_step (Interrupted c) s = onConnectionInterrupted c (s\<lparr>live := []\<rparr>)"
| "socket_step Close s = close s"

definition single_session :: "Impl \<Rightarrow> bool" where
  "single_session s \<longleftrightarrow>
     (live s = [] \<or> (\<exists>c. chat s = Some c \<and> live s = [c])) \<and>
     (connected s \<longrightarrow> chat s \<noteq> None)"


lemma single_session_step: "single_session s \<Longrightarrow> single_session (socket_step ev s)"
  by (cases ev; cases "chat s")
    (auto simp: single_session_def connect_def reconnect_def doConnect_def bindS_def checkError_def close_def
       onConnectionInterrupted_def disconnectAndDestroyBestEffort_def Let_def
       split: outcome.splits sum.splits option.splits prod.splits if_splits)

lemma single_session_new: "AuthSocket_new sp p c = Inr s \<Longrightarrow> single_session s \<and> live s = [] \<and> \<not> deauthorized s"
  by (auto simp: AuthSocket_new_def applyProxyConfig_def bindS_def liftR_def single_session_def
      split: if_splits sum.splits prod.splits)

lemma single_session_run: "single_session s \<Longrightarrow> single_session (fold socket_step evs s)"
  by (induction evs arbitrary: s) (simp_all add: single_session_step)

definition sample_proxy :: "string \<times> int \<Rightarrow> unit result" where
  "sample_proxy t = Inr ()"

text \<open>
  Whatever sequence of connection attempts, drops and closes a socket goes through, at most
  one session of it is live at a time, it is the one the socket holds, and the socket never
  says it is connected without holding one. After \<open>close\<close> and after destruction nothing is
  live and every request is answered with status 0, without an exception, whatever the
  network would have done with it.
\<close>

theorem socket_single_session:
  assumes "AuthSocket_new set_proxy sp cc = Inr s0"
    and "s = fold socket_step evs s0"
  shows "length (live s) \<le> 1 \<and> set (live s) \<subseteq> set_option (chat s) \<and>
    (isConnected s \<longrightarrow> chat s \<noteq> None) \<and>
    (\<not> stopping s \<longrightarrow> live (close s) = [] \<and> \<not> isConnected (close s) \<and>
      (new_request (make_request verb path bd) = None \<longrightarrow>
         doRequest new_request send verb path bd (close s) = Inr \<lparr>status = 0, body = []\<rparr>)) \<and>
    live (destroy_socket s) = []"
proof -
  have inv: "single_session s"
    using assms single_session_new single_session_run by blast
  then show ?thesis
    by (auto simp: single_session_def isConnected_def close_def destroy_socket_def doRequest_def checkError_def
        disconnectAndDestroyBestEffort_def Let_def split: option.splits)
qed

definition sample_socket :: Impl where
  "sample_socket = \<lparr>signalProxy = ''relay:8443'', censorshipCircumvention = False, chat = None, connected = False,
     deauthorized = False, keepAlive = False, stopping = False, proxy = Some (''relay'', 8443), circumvent = False, live = []\<rparr>"

lemma sample_socket_new: "AuthSocket_new sample_proxy ''relay:8443'' False = Inr sample_socket"
  by code_simp

theorem socket_single_session_witness:
  "let s = fold socket_step [Connect (Completed (Inr 1)) None, Interrupted None, Reconnect Timed_out None,
             Reconnect (Completed (Inr 2)) None] sample_socket in
   AuthSocket_new sample_proxy ''relay:8443'' False = Inr sample_socket \<and> isConnected s \<and> chat s = Some 2 \<and>
   length (live s) \<le> 1 \<and> live (destroy_socket s) = []"
proof -
  let ?evs = "[Connect (Completed (Inr 1)) None, Interrupted None, Reconnect Timed_out None, Reconnect (Completed (Inr 2)) None]"
  have "isConnected (fold socket_step ?evs sample_socket) \<and> chat (fold socket_step ?evs sample_socket) = Some 2"
    by code_simp
  then show ?thesis
    using socket_single_session [OF sample_socket_new refl, of ?evs] sample_socket_new by (simp only: Let_def simp_thms)
qed

text \<open>
  \<open>isDeauthorized\<close> becomes true only when the server refuses the device on connect (code
  171) or invalidates the session (code 172), and any successful connection clears it; a
  time-out, any other error and a take-over by another session leave it as it was.
\<close>

theorem deauthorized_exactly:
  "isDeauthorized (socket_step ev s) \<longleftrightarrow>
     (case ev of
        Connect out il \<Rightarrow> (case out of Completed (Inl e) \<Rightarrow> isDeauthorized s \<or> err_code e = kErrorDeviceDeregistered
                            | Completed (Inr h) \<Rightarrow> isDeauthorized s \<and> il \<noteq> None | _ \<Rightarrow> isDeauthorized s)
      | Reconnect out il \<Rightarrow> (case out of Completed (Inl e) \<Rightarrow> isDeauthorized s \<or> err_code e = kErrorDeviceDeregistered
                            | Completed (Inr h) \<Rightarrow> isDeauthorized s \<and> il \<noteq> None | _ \<Rightarrow> isDeauthorized s)
      | Interrupted c \<Rightarrow> isDeauthorized s \<or> c = Some kErrorConnectionInvalidated
      | Close \<Rightarrow> isDeauthorized s)"
  by (cases ev; cases "chat s")
    (auto simp: isDeauthorized_def connect_def reconnect_def doConnect_def bindS_def checkError_def close_def
       onConnectionInterrupted_def disconnectAndDestroyBestEffort_def Let_def
       split: outcome.splits sum.splits option.splits prod.splits if_splits)

section \<open>The hand-over of a connect attempt\<close>

text \<open>
  \<open>ConnectState\<close> is on the heap: \<open>shared = None\<close> means it was deleted. The waiter is the thread in
  \<open>doConnect\<close>, the completer libsignal's thread running the promise's callback; a step of either is
  one critical section of \<open>state->mutex\<close> or one access outside it. \<open>uaf\<close> records an access
  to the deleted state, \<open>opened\<close> the connections open.
\<close>

record ConnectState =
  st_done :: bool
  st_abandoned :: bool
  st_error :: "ffi_error option"
  st_result :: "nat option"

datatype waiter = Waiting | Taking | Returned "ffi_error + nat" | Threw
datatype completer = Pending | Notifying | Cleaning "nat option" | Deleting | Finished

record handover =
  shared :: "ConnectState option"
  waiter :: waiter
  completer :: completer
  opened :: "nat list"
  deletes :: nat
  uaf :: bool

definition start_connect :: handover where
  "start_connect = \<lparr>shared = Some \<lparr>st_done = False, st_abandoned = False, st_error = None, st_result = None\<rparr>,
     waiter = Waiting, completer = Pending, opened = [], deletes = 0, uaf = False\<rparr>"

definition taken :: "ConnectState \<Rightarrow> ffi_error + nat" where
  "taken st = (case st_error st of Some e \<Rightarrow> Inl e | None \<Rightarrow> Inr (the (st_result st)))"

definition result_of :: "ffi_error + nat \<Rightarrow> nat option" where
  "result_of r = (case r of Inl _ \<Rightarrow> None | Inr h \<Rightarrow> Some h)"

text \<open>
  \<open>call_failed\<close>: libsignal refuses the call itself, before the wait; the state is deleted at once and no callback is made, so the completer has nothing left to do.
\<close>

inductive hstep :: "handover \<Rightarrow> handover \<Rightarrow> bool" where
  call_failed: "\<lbrakk>waiter h = Waiting; completer h = Pending; shared h = Some st\<rbrakk> \<Longrightarrow>
    hstep h (h\<lparr>waiter := Threw, completer := Finished, shared := None, deletes := deletes h + 1\<rparr>)"
| wait_ok: "\<lbrakk>waiter h = Waiting; shared h = Some st; st_done st\<rbrakk> \<Longrightarrow> hstep h (h\<lparr>waiter := Taking\<rparr>)"
| wait_timeout: "\<lbrakk>waiter h = Waiting; shared h = Some st; \<not> st_done st\<rbrakk> \<Longrightarrow>
    hstep h (h\<lparr>waiter := Threw, shared := Some (st\<lparr>st_abandoned := True\<rparr>)\<rparr>)"
| take: "\<lbrakk>waiter h = Taking; shared h = Some st\<rbrakk> \<Longrightarrow>
    hstep h (h\<lparr>waiter := Returned (taken st), shared := None, deletes := deletes h + 1\<rparr>)"
| complete: "\<lbrakk>completer h = Pending; shared h = Some st; \<not> st_abandoned st\<rbrakk> \<Longrightarrow>
    hstep h (h\<lparr>completer := Notifying, opened := (case r of Inl _ \<Rightarrow> opened h | Inr c \<Rightarrow> c # opened h),
      shared := Some (st\<lparr>st_done := True, st_error := (case r of Inl e \<Rightarrow> Some e | Inr _ \<Rightarrow> None), st_result := result_of r\<rparr>)\<rparr>)"
| complete_late: "\<lbrakk>completer h = Pending; shared h = Some st; st_abandoned st\<rbrakk> \<Longrightarrow>
    hstep h (h\<lparr>completer := Cleaning (result_of r), opened := (case r of Inl _ \<Rightarrow> opened h | Inr c \<Rightarrow> c # opened h)\<rparr>)"
| notify: "completer h = Notifying \<Longrightarrow> hstep h (h\<lparr>completer := Finished, uaf := (uaf h \<or> shared h = None)\<rparr>)"
| clean: "completer h = Cleaning c \<Longrightarrow>
    hstep h (h\<lparr>completer := Deleting, opened := (case c of None \<Rightarrow> opened h | Some x \<Rightarrow> removeAll x (opened h))\<rparr>)"
| delete: "completer h = Deleting \<Longrightarrow>
    hstep h (h\<lparr>completer := Finished, shared := None, deletes := deletes h + 1, uaf := (uaf h \<or> shared h = None)\<rparr>)"

inductive_cases hstepE: "hstep h h'"

abbreviation attempt :: "handover \<Rightarrow> bool" where
  "attempt \<equiv> reachable (\<lambda>h. h = start_connect) hstep"

definition held :: "ffi_error + nat \<Rightarrow> nat list" where
  "held r = (case r of Inl _ \<Rightarrow> [] | Inr c \<Rightarrow> [c])"

lemma length_held [simp]: "length (held r) \<le> Suc 0"
  by (cases r) (simp_all add: held_def)

lemma case_held: "(case r of Inl a \<Rightarrow> [] | Inr c \<Rightarrow> [c]) = held r"
  by (cases r) (simp_all add: held_def)

definition handover_inv :: "handover \<Rightarrow> bool" where
  "handover_inv h \<longleftrightarrow>
     (case waiter h of
        Waiting \<Rightarrow> (\<exists>st. shared h = Some st \<and> \<not> st_abandoned st \<and> deletes h = 0 \<and>
           (completer h = Pending \<and> \<not> st_done st \<and> opened h = [] \<or>
            completer h \<in> {Notifying, Finished} \<and> st_done st \<and> opened h = held (taken st)))
      | Taking \<Rightarrow> (\<exists>st. shared h = Some st \<and> deletes h = 0 \<and> completer h \<in> {Notifying, Finished} \<and>
           opened h = held (taken st))
      | Returned r \<Rightarrow> shared h = None \<and> deletes h = 1 \<and> completer h \<in> {Notifying, Finished} \<and>
           opened h = held r
      | Threw \<Rightarrow> (case completer h of
           Pending \<Rightarrow> (\<exists>st. shared h = Some st \<and> st_abandoned st) \<and> deletes h = 0 \<and> opened h = []
         | Cleaning c \<Rightarrow> (\<exists>st. shared h = Some st \<and> st_abandoned st) \<and> deletes h = 0 \<and> opened h = (case c of None \<Rightarrow> [] | Some x \<Rightarrow> [x])
         | Deleting \<Rightarrow> (\<exists>st. shared h = Some st \<and> st_abandoned st) \<and> deletes h = 0 \<and> opened h = []
         | Finished \<Rightarrow> shared h = None \<and> deletes h = 1 \<and> opened h = []
         | Notifying \<Rightarrow> False))"

lemma handover_inv_step:
  assumes "hstep h h'" "handover_inv h"
  shows "handover_inv h'"
  using assms
  by (cases rule: hstep.cases)
    (auto simp: handover_inv_def taken_def result_of_def held_def split: waiter.splits completer.splits option.splits sum.splits)

interpretation handing: invariant_system "\<lambda>h. h = start_connect" hstep handover_inv
proof unfold_locales
  show "handover_inv h" if "h = start_connect" for h
    using that by (simp add: handover_inv_def start_connect_def)
qed (rule handover_inv_step)

lemma start_attempt: "attempt start_connect"
  by (rule reach_init) (rule refl)

text \<open>
  C34: However the waiting thread and libsignal's callback interleave in a connect attempt, the
  shared state is deleted at most once, and once both sides are through, exactly once. When the waiter gave up, a
  connection that still comes up late is closed again: at the end the only open connection is
  the one the waiter returned with, and none if it threw, so no second live session for
  the device is left behind.
\<close>

theorem connect_handover:
  assumes "attempt h"
  shows "deletes h \<le> 1 \<and> length (opened h) \<le> 1 \<and>
    (completer h = Finished \<and> waiter h \<notin> {Waiting, Taking} \<longrightarrow>
       deletes h = 1 \<and> shared h = None \<and>
       opened h = (case waiter h of Returned (Inr c) \<Rightarrow> [c] | _ \<Rightarrow> []))"
  using handing.reachable_inv [OF assms]
  by (cases "waiter h")
    (auto simp: handover_inv_def case_held split: completer.splits option.splits)

lemma late_attempt:
  "attempt \<lparr>shared = None, waiter = Threw, completer = Finished, opened = [], deletes = 1, uaf = False\<rparr>"
proof -
  note steps = reach_step
  let ?st = "\<lparr>st_done = False, st_abandoned = True, st_error = None, st_result = None\<rparr>"
  have "attempt \<lparr>shared = Some ?st, waiter = Threw, completer = Pending, opened = [], deletes = 0, uaf = False\<rparr>"
    using steps [OF start_attempt wait_timeout] by (simp add: start_connect_def)
  from steps [OF this complete_late [where r = "Inr 7"]]
  have "attempt \<lparr>shared = Some ?st, waiter = Threw, completer = Cleaning (Some 7), opened = [7], deletes = 0, uaf = False\<rparr>"
    by (simp add: result_of_def)
  from steps [OF this clean]
  have "attempt \<lparr>shared = Some ?st, waiter = Threw, completer = Deleting, opened = [], deletes = 0, uaf = False\<rparr>"
    by simp
  from steps [OF this delete] show ?thesis by simp
qed

theorem connect_handover_witness:
  "let h = \<lparr>shared = None, waiter = Threw, completer = Finished, opened = [], deletes = 1, uaf = False\<rparr>
   in attempt h \<and> deletes h \<le> 1 \<and> length (opened h) \<le> 1"
  using connect_handover [OF late_attempt] late_attempt by (simp add: Let_def)

text \<open>
  The callback wakes the waiter after it has released the mutex. When the attempt
  completes before the waiter looks, the waiter sees it done, takes the result and deletes
  the state, and the callback's \<open>notify_all\<close> then runs on deleted memory: a state with an access
  to the freed \<open>ConnectState\<close> is reachable.
\<close>

theorem connect_notify_after_free:
  "\<exists>h. attempt h \<and> waiter h = Returned (Inr 7) \<and> uaf h"
proof -
  note steps = reach_step
  let ?st = "\<lparr>st_done = True, st_abandoned = False, st_error = None, st_result = Some 7\<rparr>"
  have "attempt \<lparr>shared = Some ?st, waiter = Waiting, completer = Notifying, opened = [7], deletes = 0, uaf = False\<rparr>"
    using steps [OF start_attempt complete [where r = "Inr 7"]] by (simp add: start_connect_def result_of_def)
  from steps [OF this wait_ok]
  have "attempt \<lparr>shared = Some ?st, waiter = Taking, completer = Notifying, opened = [7], deletes = 0, uaf = False\<rparr>"
    by simp
  from steps [OF this take]
  have "attempt \<lparr>shared = None, waiter = Returned (Inr 7), completer = Notifying, opened = [7], deletes = 1, uaf = False\<rparr>"
    by (simp add: taken_def)
  from steps [OF this notify]
  have "attempt \<lparr>shared = None, waiter = Returned (Inr 7), completer = Finished, opened = [7], deletes = 1, uaf = True\<rparr>"
    by simp
  then show ?thesis by (intro exI conjI) auto
qed

end
