(* ===== verification/CallSignaling.thy ===== *)
theory CallSignaling
  imports Crypto AuthSocket
begin

text \<open>
  Model of \<open>daemon/CallSignaling.cpp\<close>: received call messages handed to RingRTC, and
  the sending side: device lists with their cache, encryption for every device, the
  \<open>PUT /v1/messages\<close> with its retry, and the decryption error reply. The chat server and
  the JSON parser are parameters; every request is logged in the sender's state.
\<close>

section \<open>JSON\<close>

text \<open>An object's members are listed in key order, each key once; numbers are integers.\<close>

datatype json = JNull | JBool bool | JNum int | JStr string | JArr "json list" | JObj "(string \<times> json) list"

definition json_at :: "json \<Rightarrow> string \<Rightarrow> json result" where
  "json_at j key = (case j of JObj kvs \<Rightarrow> (case map_of kvs key of Some v \<Rightarrow> Inr v | None \<Rightarrow> Inl Json_error) | _ \<Rightarrow> Inl Json_error)"

definition json_contains :: "json \<Rightarrow> string \<Rightarrow> bool" where
  "json_contains j key = (case j of JObj kvs \<Rightarrow> map_of kvs key \<noteq> None | _ \<Rightarrow> False)"

definition get_string :: "json \<Rightarrow> string result" where
  "get_string j = (case j of JStr s \<Rightarrow> Inr s | _ \<Rightarrow> Inl Json_error)"

text \<open>Arithmetic \<open>get\<close> casts, and takes booleans too.\<close>

definition get_u32 :: "json \<Rightarrow> uint32 result" where
  "get_u32 j = (case j of JNum n \<Rightarrow> Inr (word_of_int n) | JBool b \<Rightarrow> Inr (of_bool b) | _ \<Rightarrow> Inl Json_error)"

definition get_int :: "json \<Rightarrow> int result" where
  "get_int j = bindR (get_u32 j) (\<lambda>w. Inr (sint w))"

text \<open>
  A range-based \<open>for\<close> over a value: the elements of an array, the members of an object in key
  order, nothing for null, the value itself otherwise.
\<close>

definition json_items :: "json \<Rightarrow> json list" where
  "json_items j = (case j of JArr xs \<Rightarrow> xs | JObj kvs \<Rightarrow> map snd kvs | JNull \<Rightarrow> [] | _ \<Rightarrow> [j])"

definition get_array :: "json \<Rightarrow> json list result" where
  "get_array j = (case j of JArr xs \<Rightarrow> Inr xs | _ \<Rightarrow> Inl Json_error)"

fun mapR :: "('a \<Rightarrow> 'b result) \<Rightarrow> 'a list \<Rightarrow> 'b list result" where
  "mapR f [] = Inr []"
| "mapR f (x # xs) = bindR (f x) (\<lambda>y. bindR (mapR f xs) (\<lambda>ys. Inr (y # ys)))"

definition b64 :: "json \<Rightarrow> string \<Rightarrow> bytes result" where
  "b64 j key = bindR (json_at j key) (\<lambda>v. bindR (get_string v) (\<lambda>s. Inr (base64Decode s)))"

definition at_u32 :: "json \<Rightarrow> string \<Rightarrow> uint32 result" where
  "at_u32 j key = bindR (json_at j key) get_u32"

section \<open>Call messages\<close>

text \<open>The fields of \<open>SignalService.proto\<close> the code reads and writes.\<close>

datatype offer_type = OFFER_AUDIO_CALL | OFFER_VIDEO_CALL

record CallMessage =
  cm_offer :: "(uint64 \<times> offer_type \<times> bytes) option"
  cm_answer :: "(uint64 \<times> bytes) option"
  cm_ice :: "(uint64 \<times> bytes) list"
  cm_hangup :: "(uint64 \<times> int \<times> uint32) option"
  cm_busy :: "uint64 option"
  cm_destination :: "uint32 option"

definition empty_message :: CallMessage where
  "empty_message = \<lparr>cm_offer = None, cm_answer = None, cm_ice = [], cm_hangup = None, cm_busy = None, cm_destination = None\<rparr>"

datatype Content = Call_message CallMessage | Keys_request | Decryption_error bytes

section \<open>The sender's state and the server\<close>

record request =
  r_method :: string
  r_path :: string
  r_body :: "json option"

record sender =
  sd_db :: db
  sd_cache :: "string \<Rightarrow> (int list \<times> int) option"
  sd_log :: "request list"

text \<open>The server's answer to the \<open>n\<close>-th request; an exception when the socket throws.\<close>

type_synonym server = "nat \<Rightarrow> request \<Rightarrow> Response result"

definition socket_request :: "server \<Rightarrow> request \<Rightarrow> (sender, Response) effect" where
  "socket_request sv req s = (sv (length (sd_log s)) req, s\<lparr>sd_log := sd_log s @ [req]\<rparr>)"

definition on_db :: "(db, 'a) effect \<Rightarrow> (sender, 'a) effect" where
  "on_db f s = (case f (sd_db s) of (r, d) \<Rightarrow> (r, s\<lparr>sd_db := d\<rparr>))"

definition body_text :: "Response \<Rightarrow> string" where
  "body_text r = map byte_chr (body r)"

text \<open>What does not change during a call: the local address and the outside functions.\<close>

record env =
  e_ls :: libsignal
  e_sv :: server
  e_parse :: "string \<Rightarrow> json result"
  e_q :: sqlite
  e_acct :: string
  e_local :: address
  e_serialize :: "Content \<Rightarrow> bytes"
  e_registration_id :: "bytes \<Rightarrow> uint32 result"

section \<open>Prekey bundles\<close>

definition parse_bundle :: "string \<Rightarrow> bytes \<Rightarrow> json \<Rightarrow> RemotePreKeyBundle result" where
  "parse_bundle remoteServiceId identityKey device =
     bindR (at_u32 device ''deviceId'') (\<lambda>deviceId.
     bindR (at_u32 device ''registrationId'') (\<lambda>registrationId.
     bindR (if json_contains device ''preKey'' \<and> json_at device ''preKey'' \<noteq> Inr JNull
            then bindR (json_at device ''preKey'') (\<lambda>pk. bindR (at_u32 pk ''keyId'') (\<lambda>i. bindR (b64 pk ''publicKey'') (\<lambda>b. Inr (Some i, Some b))))
            else Inr (None, None)) (\<lambda>(preKeyId, preKeyPublic).
     bindR (json_at device ''signedPreKey'') (\<lambda>signedPreKey.
     bindR (at_u32 signedPreKey ''keyId'') (\<lambda>signedPreKeyId.
     bindR (b64 signedPreKey ''publicKey'') (\<lambda>signedPreKeyPublic.
     bindR (b64 signedPreKey ''signature'') (\<lambda>signedPreKeySignature.
     bindR (json_at device ''pqPreKey'') (\<lambda>pqPreKey.
     bindR (at_u32 pqPreKey ''keyId'') (\<lambda>kyberPreKeyId.
     bindR (b64 pqPreKey ''publicKey'') (\<lambda>kyberPreKeyPublic.
     bindR (b64 pqPreKey ''signature'') (\<lambda>kyberPreKeySignature.
       Inr \<lparr>b_serviceId = remoteServiceId, b_deviceId = deviceId, b_registrationId = registrationId,
            b_preKeyId = preKeyId, b_preKeyPublic = preKeyPublic, b_signedPreKeyId = signedPreKeyId,
            b_signedPreKeyPublic = signedPreKeyPublic, b_signedPreKeySignature = signedPreKeySignature,
            b_identityKey = identityKey, b_kyberPreKeyId = kyberPreKeyId, b_kyberPreKeyPublic = kyberPreKeyPublic,
            b_kyberPreKeySignature = kyberPreKeySignature\<rparr>)))))))))))"

definition parse_bundles :: "string \<Rightarrow> json \<Rightarrow> RemotePreKeyBundle list result" where
  "parse_bundles remoteServiceId bd =
     bindR (b64 bd ''identityKey'') (\<lambda>identityKey.
     bindR (json_at bd ''devices'') (\<lambda>ds. mapR (parse_bundle remoteServiceId identityKey) (json_items ds)))"

fun establish_all :: "libsignal \<Rightarrow> address \<Rightarrow> RemotePreKeyBundle list \<Rightarrow> (db, int list) effect" where
  "establish_all ls local [] = returnS []"
| "establish_all ls local (b # bs) =
     bindS (establishSession ls local b) (\<lambda>_. bindS (establish_all ls local bs) (\<lambda>ids.
       returnS (sint (b_deviceId b) # ids)))"

definition keys_request :: "string \<Rightarrow> request" where
  "keys_request peer = \<lparr>r_method = ''GET'', r_path = ''/v2/keys/'' @ peer @ ''/*'', r_body = None\<rparr>"

definition fetchAndEstablishSessions :: "env \<Rightarrow> string \<Rightarrow> (sender, int list) effect" where
  "fetchAndEstablishSessions e remoteServiceId =
     bindS (socket_request (e_sv e) (keys_request remoteServiceId)) (\<lambda>response.
       if status response \<noteq> 200
       then throwS (Runtime_error (''GET /v2/keys/'' @ remoteServiceId @ ''/* -> '' @ to_string (status response)))
       else bindS (liftR (\<lambda>_. bindR (e_parse e (body_text response)) (parse_bundles remoteServiceId))) (\<lambda>bundles.
         on_db (establish_all (e_ls e) (e_local e) bundles)))"

section \<open>Sending\<close>

definition messages_request :: "string \<Rightarrow> int \<Rightarrow> json list \<Rightarrow> bool \<Rightarrow> request" where
  "messages_request destination nowMs messages online =
     \<lparr>r_method = ''PUT'', r_path = ''/v1/messages/'' @ destination @ ''?story=false'',
      r_body = Some (JObj [(''destination'', JStr destination), (''timestamp'', JNum nowMs), (''messages'', JArr messages),
        (''online'', JBool online), (''urgent'', JBool True)])\<rparr>"

definition putMessages :: "env \<Rightarrow> string \<Rightarrow> int \<Rightarrow> json list \<Rightarrow> bool \<Rightarrow> (sender, Response) effect" where
  "putMessages e destination nowMs messages online =
     socket_request (e_sv e) (messages_request destination nowMs messages online)"

definition remoteRegistrationIdFromSession :: "env \<Rightarrow> string \<Rightarrow> db \<Rightarrow> uint32 result" where
  "remoteRegistrationIdFromSession e address d =
     bindR (loadSession (e_q e) (e_acct e) address d) (\<lambda>record. case record of None \<Rightarrow> Inr 0 | Some r \<Rightarrow> e_registration_id e r)"

definition rawPublicKeyBytes :: "bytes \<Rightarrow> bytes" where
  "rawPublicKeyBytes serialized = (if length serialized = 33 then tl serialized else serialized)"

abbreviation kDeviceListCacheTtl :: int where
  "kDeviceListCacheTtl \<equiv> 1800"

text \<open>\<open>t1\<close> is the steady clock at the lookup, \<open>t2\<close> the one when the fetched list is stored.\<close>

definition resolveDeviceList :: "env \<Rightarrow> int \<Rightarrow> int \<Rightarrow> string \<Rightarrow> (sender, int list) effect" where
  "resolveDeviceList e t1 t2 remotePeerId s =
     (case sd_cache s remotePeerId of
        Some (ids, t) \<Rightarrow> if t1 - t < kDeviceListCacheTtl then returnS ids s
          else bindS (fetchAndEstablishSessions e remotePeerId) (\<lambda>ids s'.
            returnS ids (s'\<lparr>sd_cache := (sd_cache s')(remotePeerId \<mapsto> (ids, t2))\<rparr>)) s
      | None \<Rightarrow> bindS (fetchAndEstablishSessions e remotePeerId) (\<lambda>ids s'.
            returnS ids (s'\<lparr>sd_cache := (sd_cache s')(remotePeerId \<mapsto> (ids, t2))\<rparr>)) s)"

definition message_json :: "int \<Rightarrow> int \<Rightarrow> uint32 \<Rightarrow> bytes \<Rightarrow> json" where
  "message_json ty deviceId registrationId content =
     JObj [(''type'', JNum ty), (''destinationDeviceId'', JNum deviceId),
       (''destinationRegistrationId'', JNum (uint registrationId)), (''content'', JStr (base64Encode content))]"

definition device_address :: "string \<Rightarrow> int \<Rightarrow> string" where
  "device_address sid deviceId = sid @ ''.'' @ (if deviceId < 0 then CHR ''-'' # to_string (nat (- deviceId)) else to_string (nat deviceId))"

fun encrypt_all :: "env \<Rightarrow> string \<Rightarrow> bytes \<Rightarrow> int list \<Rightarrow> (db, json list) effect" where
  "encrypt_all e dest plaintext [] = returnS []"
| "encrypt_all e dest plaintext (i # is) =
     bindS (encryptForDevice (e_ls e) (e_local e) (dest, word_of_int i) plaintext) (\<lambda>m.
     bindS (liftR (remoteRegistrationIdFromSession e (device_address dest i))) (\<lambda>r.
     bindS (encrypt_all e dest plaintext is) (\<lambda>ms.
       returnS (message_json (if em_type m = CiphertextMessageTypePreKey then 3 else 1) i r (em_ciphertext m) # ms))))"

definition extra_devices :: "env \<Rightarrow> Response \<Rightarrow> int list result" where
  "extra_devices e response =
     bindR (e_parse e (body_text response)) (\<lambda>errorBody. case errorBody of
         JObj kvs \<Rightarrow> (case map_of kvs ''extraDevices'' of None \<Rightarrow> Inr []
           | Some v \<Rightarrow> bindR (get_array v) (mapR get_int))
       | _ \<Rightarrow> Inl Json_error)"

definition message_device :: "json \<Rightarrow> int result" where
  "message_device m = bindR (json_at m ''destinationDeviceId'') get_int"

text \<open>The 409 branch: the retry's own exceptions are swallowed, the first response stands.\<close>

definition retry_409 :: "env \<Rightarrow> string \<Rightarrow> int \<Rightarrow> json list \<Rightarrow> Response \<Rightarrow> sender \<Rightarrow> Response \<times> sender" where
  "retry_409 e dest nowMs messages response s =
     (case extra_devices e response of
        Inl _ \<Rightarrow> (response, s)
      | Inr extra \<Rightarrow>
         if extra = [] then (response, s)
         else case mapR message_device messages of Inl _ \<Rightarrow> (response, s)
           | Inr ids \<Rightarrow>
              let retryMessages = map snd (filter (\<lambda>(i, m). i \<notin> set extra) (zip ids messages)) in
              if retryMessages = [] then (response, s)
              else (case putMessages e dest nowMs retryMessages True s of
                  (Inl _, s') \<Rightarrow> (response, s') | (Inr r, s') \<Rightarrow> (r, s')))"

definition after_put :: "string \<Rightarrow> Response \<Rightarrow> sender \<Rightarrow> sender" where
  "after_put dest response s =
     (if status response div 100 \<noteq> 2 \<and> (status response = 409 \<or> status response = 410)
      then s\<lparr>sd_cache := (sd_cache s)(dest := None)\<rparr> else s)"

definition put_with_retry :: "env \<Rightarrow> string \<Rightarrow> int \<Rightarrow> json list \<Rightarrow> (sender, unit) effect" where
  "put_with_retry e dest nowMs messages =
     bindS (putMessages e dest nowMs messages True) (\<lambda>response s.
       let (response', s') = (if status response = 409 then retry_409 e dest nowMs messages response s else (response, s))
       in returnS () (after_put dest response' s'))"

text \<open>\<open>tm\<close> holds the clock readings: the two of the cache and the wall clock of the PUT.\<close>

definition sendContent :: "env \<Rightarrow> int \<times> int \<times> int \<Rightarrow> string \<Rightarrow> Content \<Rightarrow> (sender, int list) effect" where
  "sendContent e tm dest content = (case tm of (t1, t2, nowMs) \<Rightarrow>
     bindS (resolveDeviceList e t1 t2 dest) (\<lambda>deviceIds.
       if deviceIds = [] then returnS deviceIds
       else bindS (on_db (encrypt_all e dest (e_serialize e content) deviceIds)) (\<lambda>messages.
         bindS (put_with_retry e dest nowMs messages) (\<lambda>_. returnS deviceIds))))"

definition sendCallMessage :: "env \<Rightarrow> int \<times> int \<times> int \<Rightarrow> string \<Rightarrow> CallMessage \<Rightarrow> (sender, int list) effect" where
  "sendCallMessage e tm remotePeerId callMessage = sendContent e tm remotePeerId (Call_message callMessage)"

definition sendKeysRequest :: "env \<Rightarrow> int \<times> int \<times> int \<Rightarrow> (sender, unit) effect" where
  "sendKeysRequest e tm = bindS (sendContent e tm (fst (e_local e)) Keys_request) (\<lambda>_. returnS ())"

definition offer_message :: "uint64 \<Rightarrow> int \<Rightarrow> bytes \<Rightarrow> CallMessage" where
  "offer_message callId mediaType opaque = empty_message
     \<lparr>cm_offer := Some (callId, if mediaType = 1 then OFFER_VIDEO_CALL else OFFER_AUDIO_CALL, opaque)\<rparr>"

definition sendOffer :: "env \<Rightarrow> int \<times> int \<times> int \<Rightarrow> string \<Rightarrow> uint64 \<Rightarrow> int \<Rightarrow> bytes \<Rightarrow> (sender, unit) effect" where
  "sendOffer e tm remotePeerId callId mediaType opaque =
     bindS (sendCallMessage e tm remotePeerId (offer_message callId mediaType opaque)) (\<lambda>_. returnS ())"

definition sendAnswer :: "env \<Rightarrow> int \<times> int \<times> int \<Rightarrow> string \<Rightarrow> uint64 \<Rightarrow> bytes \<Rightarrow> (sender, unit) effect" where
  "sendAnswer e tm remotePeerId callId opaque =
     bindS (sendCallMessage e tm remotePeerId (empty_message\<lparr>cm_answer := Some (callId, opaque)\<rparr>)) (\<lambda>_. returnS ())"

definition ice_message :: "uint64 \<Rightarrow> bool \<Rightarrow> uint32 \<Rightarrow> bytes \<Rightarrow> CallMessage" where
  "ice_message callId hasReceiverDeviceId receiverDeviceId opaque = empty_message
     \<lparr>cm_ice := [(callId, opaque)], cm_destination := (if hasReceiverDeviceId then Some receiverDeviceId else None)\<rparr>"

definition sendIce :: "env \<Rightarrow> int \<times> int \<times> int \<Rightarrow> string \<Rightarrow> uint64 \<Rightarrow> bool \<Rightarrow> uint32 \<Rightarrow> bytes \<Rightarrow> (sender, unit) effect" where
  "sendIce e tm remotePeerId callId hasReceiverDeviceId receiverDeviceId opaque =
     bindS (sendCallMessage e tm remotePeerId (ice_message callId hasReceiverDeviceId receiverDeviceId opaque)) (\<lambda>_. returnS ())"

definition sendHangup :: "env \<Rightarrow> int \<times> int \<times> int \<Rightarrow> string \<Rightarrow> uint64 \<Rightarrow> int \<Rightarrow> uint32 \<Rightarrow> (sender, unit) effect" where
  "sendHangup e tm remotePeerId callId hangupType hangupDeviceId =
     bindS (sendCallMessage e tm remotePeerId (empty_message\<lparr>cm_hangup := Some (callId, hangupType, hangupDeviceId)\<rparr>))
       (\<lambda>_. returnS ())"

section \<open>The callbacks RingRTC calls\<close>

text \<open>The state is paired with the call ids reported as sent by \<open>signal2sip_call_message_sent\<close>.\<close>

definition safeCallback :: "('s, unit) effect \<Rightarrow> 's \<Rightarrow> 's" where
  "safeCallback f s = snd (f s)"

definition then_sent :: "uint64 \<Rightarrow> (sender, unit) effect \<Rightarrow> (sender \<times> uint64 list, unit) effect" where
  "then_sent callId send = (\<lambda>(s, sent). case send s of (Inl x, s') \<Rightarrow> (Inl x, s', sent) | (Inr _, s') \<Rightarrow> (Inr (), s', sent @ [callId]))"

definition onSendOffer :: "env \<Rightarrow> int \<times> int \<times> int \<Rightarrow> string \<Rightarrow> uint64 \<Rightarrow> int \<Rightarrow> bytes \<Rightarrow> sender \<times> uint64 list \<Rightarrow> sender \<times> uint64 list" where
  "onSendOffer e tm remotePeerId callId mediaType opaque =
     safeCallback (then_sent callId (sendOffer e tm remotePeerId callId mediaType opaque))"

definition onSendAnswer :: "env \<Rightarrow> int \<times> int \<times> int \<Rightarrow> string \<Rightarrow> uint64 \<Rightarrow> bytes \<Rightarrow> sender \<times> uint64 list \<Rightarrow> sender \<times> uint64 list" where
  "onSendAnswer e tm remotePeerId callId opaque = safeCallback (then_sent callId (sendAnswer e tm remotePeerId callId opaque))"

definition onSendIce ::
  "env \<Rightarrow> int \<times> int \<times> int \<Rightarrow> string \<Rightarrow> uint64 \<Rightarrow> bool \<Rightarrow> uint32 \<Rightarrow> bytes \<Rightarrow> sender \<times> uint64 list \<Rightarrow> sender \<times> uint64 list" where
  "onSendIce e tm remotePeerId callId has dev opaque = safeCallback (then_sent callId (sendIce e tm remotePeerId callId has dev opaque))"

definition onSendHangup ::
  "env \<Rightarrow> int \<times> int \<times> int \<Rightarrow> string \<Rightarrow> uint64 \<Rightarrow> int \<Rightarrow> uint32 \<Rightarrow> sender \<times> uint64 list \<Rightarrow> sender \<times> uint64 list" where
  "onSendHangup e tm remotePeerId callId ty dev = safeCallback (then_sent callId (sendHangup e tm remotePeerId callId ty dev))"

section \<open>The decryption error reply\<close>

definition plaintext_content :: "bytes \<Rightarrow> bytes" where
  "plaintext_content content = 0xC0 # content @ [0x80]"

fun reply_messages :: "env \<Rightarrow> string \<Rightarrow> bytes \<Rightarrow> int list \<Rightarrow> db \<Rightarrow> json list result" where
  "reply_messages e senderServiceId content [] d = Inr []"
| "reply_messages e senderServiceId content (i # is) d =
     (if senderServiceId = fst (e_local e) \<and> word_of_int i = snd (e_local e)
      then reply_messages e senderServiceId content is d
      else bindR (remoteRegistrationIdFromSession e (device_address senderServiceId i) d) (\<lambda>r.
           bindR (reply_messages e senderServiceId content is d) (\<lambda>ms.
             Inr (message_json 8 i r content # ms))))"

definition sendDecryptionErrorReply ::
  "env \<Rightarrow> int \<times> int \<times> int \<Rightarrow> string \<Rightarrow> uint32 \<Rightarrow> bytes \<Rightarrow> byte \<Rightarrow> uint64 \<Rightarrow> (sender, unit) effect" where
  "sendDecryptionErrorReply e tm senderServiceId senderDeviceId originalCiphertext originalType originalTimestamp =
     (case tm of (t1, t2, nowMs) \<Rightarrow> catch_std (
       bindS (liftR (\<lambda>_. buildDecryptionErrorMessage (e_ls e) originalCiphertext originalType originalTimestamp senderDeviceId)) (\<lambda>dem.
       bindS (resolveDeviceList e t1 t2 senderServiceId) (\<lambda>deviceIds.
       bindS (on_db (liftR (reply_messages e senderServiceId (plaintext_content (e_serialize e (Decryption_error dem))) deviceIds))) (\<lambda>messages.
       bindS (putMessages e senderServiceId nowMs messages False) (\<lambda>_. returnS ()))))))"

section \<open>Received call messages\<close>

datatype rtc_event =
    Received_offer string uint64 uint32 uint32 bytes bytes bytes
  | Received_answer string uint64 uint32 bytes bytes bytes
  | Received_ice string uint64 uint32 bytes
  | Received_hangup string uint64 uint32 int uint32
  | Received_busy string uint64 uint32

definition emit :: "'e list \<Rightarrow> ('e list, unit) effect" where
  "emit es log = (Inr (), log @ es)"

text \<open>The sender's and our identity key as RingRTC wants them, 32 zero bytes for one we do not have.\<close>

definition identity_keys_for :: "sqlite \<Rightarrow> string \<Rightarrow> string \<Rightarrow> string \<Rightarrow> db \<Rightarrow> (bytes \<times> bytes) result" where
  "identity_keys_for q acct identity senderServiceId d =
     bindR (loadRemoteIdentity q acct senderServiceId d) (\<lambda>stored.
     bindR (loadIdentityKeypair q acct identity d) (\<lambda>keypair.
       Inr (case stored of None \<Rightarrow> replicate 32 0 | Some k \<Rightarrow> rawPublicKeyBytes k,
            case keypair of None \<Rightarrow> replicate 32 0 | Some k \<Rightarrow> rawPublicKeyBytes (k_public_key k))))"

definition handleCallMessage ::
  "sqlite \<Rightarrow> string \<Rightarrow> string \<Rightarrow> db \<Rightarrow> string \<Rightarrow> uint32 \<Rightarrow> uint32 \<Rightarrow> CallMessage \<Rightarrow> (rtc_event list, unit) effect" where
  "handleCallMessage q acct identity d senderServiceId senderDeviceId localDeviceId m =
     bindS (case cm_offer m of None \<Rightarrow> returnS ()
       | Some (i, ty, opaque) \<Rightarrow> bindS (liftR (\<lambda>_. identity_keys_for q acct identity senderServiceId d)) (\<lambda>(sk, rk).
           emit [Received_offer senderServiceId i senderDeviceId localDeviceId opaque sk rk])) (\<lambda>_.
     bindS (case cm_answer m of None \<Rightarrow> returnS ()
       | Some (i, opaque) \<Rightarrow> bindS (liftR (\<lambda>_. identity_keys_for q acct identity senderServiceId d)) (\<lambda>(sk, rk).
           emit [Received_answer senderServiceId i senderDeviceId opaque sk rk])) (\<lambda>_.
     bindS (emit (map (\<lambda>(i, opaque). Received_ice senderServiceId i senderDeviceId opaque) (cm_ice m))) (\<lambda>_.
     bindS (case cm_hangup m of None \<Rightarrow> returnS ()
       | Some (i, ty, dev) \<Rightarrow> emit [Received_hangup senderServiceId i senderDeviceId ty dev]) (\<lambda>_.
     case cm_busy m of None \<Rightarrow> returnS () | Some i \<Rightarrow> emit [Received_busy senderServiceId i senderDeviceId]))))"


section \<open>Properties of sending\<close>

lemma socket_request_log: "socket_request sv req s = (r, s') \<Longrightarrow> sd_log s' = sd_log s @ [req] \<and> sd_cache s' = sd_cache s"
  by (auto simp: socket_request_def)

lemma on_db_log: "on_db f s = (r, s') \<Longrightarrow> sd_log s' = sd_log s \<and> sd_cache s' = sd_cache s"
  by (auto simp: on_db_def split: prod.splits)

lemma on_db_result: "on_db f s = (Inr x, s') \<Longrightarrow> \<exists>d. f (sd_db s) = (Inr x, d)"
  by (auto simp: on_db_def split: prod.splits)

lemma liftR_state: "liftR f s = (r, s') \<Longrightarrow> s' = s \<and> r = f s"
  by (auto simp: liftR_def)

lemmas sender_frame = socket_request_log on_db_log liftR_state

lemma fetch_log:
  assumes "fetchAndEstablishSessions e peer s = (r, s')"
  shows "sd_log s' = sd_log s @ [keys_request peer] \<and> sd_cache s' = sd_cache s"
  using assms unfolding fetchAndEstablishSessions_def
  by (auto elim!: bindS_cases dest!: sender_frame split: if_splits)

lemma resolveDeviceList_log:
  assumes "resolveDeviceList e t1 t2 peer s = (r, s')"
  shows "sd_log s' = sd_log s @ (if \<exists>ids t. sd_cache s peer = Some (ids, t) \<and> t1 - t < kDeviceListCacheTtl then [] else [keys_request peer])"
  using assms unfolding resolveDeviceList_def
  by (auto split: option.splits if_splits elim!: bindS_cases dest!: fetch_log)

lemma json_at_message [simp]: "json_at (message_json ty i r c) ''destinationDeviceId'' = Inr (JNum i)"
  by (simp add: json_at_def message_json_def)

lemma encrypt_all_devices:
  "encrypt_all e dest p ids d = (Inr ms, d') \<Longrightarrow>
     map (\<lambda>m. json_at m ''destinationDeviceId'') ms = map (\<lambda>i. Inr (JNum i)) ids"
  by (induction ids arbitrary: ms d) (auto elim!: bindS_cases)

lemma mapR_Inr: "mapR f xs = Inr ys \<Longrightarrow> map f xs = map Inr ys"
  by (induction xs arbitrary: ys) (auto simp: bindR_Inr_iff)

lemma filter_zip_mapR:
  "mapR f xs = Inr ys \<Longrightarrow> map snd (filter (\<lambda>(i, m). i \<notin> A) (zip ys xs)) = filter (\<lambda>m. f m \<notin> Inr ` A) xs"
  by (induction xs arbitrary: ys) (auto simp: bindR_Inr_iff)

lemma retry_409_log:
  assumes "retry_409 e dest now ms resp s = (resp', s')"
  obtains "s' = s" "resp' = resp"
  | extra where "extra_devices e resp = Inr extra" "extra \<noteq> []"
      "sd_log s' = sd_log s @ [messages_request dest now (filter (\<lambda>m. message_device m \<notin> Inr ` set extra) ms) True]"
      "sd_cache s' = sd_cache s"
  using assms unfolding retry_409_def
  by (auto simp: Let_def filter_zip_mapR putMessages_def split: sum.splits if_splits prod.splits dest!: socket_request_log)

lemma after_put_log [simp]: "sd_log (after_put dest resp s) = sd_log s"
  by (simp add: after_put_def)

abbreviation without_devices :: "int list \<Rightarrow> json list \<Rightarrow> json list" where
  "without_devices extra ms \<equiv> filter (\<lambda>m. message_device m \<notin> Inr ` set extra) ms"

text \<open>What the server says in the body of a 409: the device ids under \<open>extraDevices\<close>.\<close>

definition names_extra :: "env \<Rightarrow> Response \<Rightarrow> int list \<Rightarrow> bool" where
  "names_extra e resp extra \<longleftrightarrow> (\<exists>kvs js. e_parse e (body_text resp) = Inr (JObj kvs) \<and> map_of kvs ''extraDevices'' = Some (JArr js) \<and> map get_int js = map Inr extra)"

lemma mapR_iff: "mapR f xs = Inr ys \<longleftrightarrow> map f xs = map Inr ys"
proof (induction xs arbitrary: ys)
  case (Cons x xs)
  then show ?case by (cases ys) (auto simp: bindR_Inr_iff)
qed auto

lemma extra_devices_iff: "extra \<noteq> [] \<Longrightarrow> extra_devices e resp = Inr extra \<longleftrightarrow> names_extra e resp extra"
proof (cases "\<exists>kvs js. e_parse e (body_text resp) = Inr (JObj kvs) \<and> map_of kvs ''extraDevices'' = Some (JArr js)")
  case True
  then show ?thesis by (auto simp: extra_devices_def names_extra_def get_array_def bindR_def mapR_iff)
next
  case False
  assume "extra \<noteq> []"
  with False show ?thesis
    by (cases "e_parse e (body_text resp)") (auto simp: extra_devices_def names_extra_def get_array_def bindR_def split: json.splits option.splits)
qed

lemma addressed_ids: "map (\<lambda>m. json_at m ''destinationDeviceId'') ms = map (\<lambda>i. Inr (JNum i)) ids \<Longrightarrow> \<exists>xs. mapR message_device ms = Inr xs"
proof (induction ms arbitrary: ids)
  case (Cons m ms)
  then show ?case by (cases ids) (force simp: message_device_def get_int_def get_u32_def)+
qed simp

text \<open>The retry a response asks for: none unless it is a 409 that names devices to leave out, with some message left.\<close>

definition retry_for :: "env \<Rightarrow> string \<Rightarrow> int \<Rightarrow> json list \<Rightarrow> Response \<Rightarrow> request list \<Rightarrow> bool" where
  "retry_for e dest now ms resp retry \<longleftrightarrow>
     (if status resp = 409 \<and> (\<exists>extra. extra \<noteq> [] \<and> names_extra e resp extra \<and> without_devices extra ms \<noteq> [])
      then \<exists>extra. names_extra e resp extra \<and> retry = [messages_request dest now (without_devices extra ms) True] else retry = [])"

lemma retry_409_retries:
  assumes "retry_409 e dest now ms resp s = (resp', s')" "status resp = 409" "mapR message_device ms = Inr xs"
  shows "\<exists>retry. sd_log s' = sd_log s @ retry \<and> retry_for e dest now ms resp retry"
proof (cases "\<exists>extra. extra \<noteq> [] \<and> names_extra e resp extra \<and> without_devices extra ms \<noteq> []")
  case True
  then obtain extra where x: "extra \<noteq> []" "names_extra e resp extra" "without_devices extra ms \<noteq> []" by blast
  then have ex: "extra_devices e resp = Inr extra" by (simp add: extra_devices_iff)
  let ?req = "messages_request dest now (without_devices extra ms) True"
  have "sd_log s' = sd_log s @ [?req]"
    using assms(1) x by (auto simp: retry_409_def ex assms(3) Let_def filter_zip_mapR [OF assms(3)] putMessages_def split: sum.splits prod.splits dest!: socket_request_log)
  then show ?thesis using assms(2) x by (auto simp: retry_for_def)
next
  case False
  have "s' = s"
  proof (cases "extra_devices e resp")
    case (Inr extra)
    then show ?thesis
      using False assms(1) extra_devices_iff [of extra e resp] by (auto simp: retry_409_def assms(3) Let_def filter_zip_mapR [OF assms(3)] split: if_splits)
  qed (use assms(1) in \<open>simp add: retry_409_def\<close>)
  then show ?thesis using False by (auto simp: retry_for_def)
qed

lemma put_with_retry_retries:
  assumes "put_with_retry e dest now ms s = (Inr (), s')" "mapR message_device ms = Inr xs"
  shows "\<exists>resp retry. e_sv e (length (sd_log s)) (messages_request dest now ms True) = Inr resp \<and>
    sd_log s' = sd_log s @ [messages_request dest now ms True] @ retry \<and> retry_for e dest now ms resp retry"
proof -
  obtain resp s1 where p: "putMessages e dest now ms True s = (Inr resp, s1)"
    and rest: "(let (response', s') = (if status resp = 409 then retry_409 e dest now ms resp s1 else (resp, s1)) in returnS () (after_put dest response' s')) = (Inr (), s')"
    using assms(1) unfolding put_with_retry_def by (auto elim!: bindS_cases)
  have sv: "e_sv e (length (sd_log s)) (messages_request dest now ms True) = Inr resp" "sd_log s1 = sd_log s @ [messages_request dest now ms True]"
    using p by (auto simp: putMessages_def socket_request_def)
  show ?thesis
  proof (cases "status resp = 409")
    case True
    obtain resp' s2 where r: "retry_409 e dest now ms resp s1 = (resp', s2)" by (meson surj_pair)
    have "s' = after_put dest resp' s2" using rest True r by simp
    with retry_409_retries [OF r True assms(2)] sv show ?thesis by auto
  next
    case False
    then have "retry_for e dest now ms resp []" "s' = after_put dest resp s1" using rest by (simp_all add: retry_for_def)
    with sv show ?thesis by auto
  qed
qed

lemma put_with_retry_log:
  assumes "put_with_retry e dest now ms s = (r, s')"
  shows "\<exists>retry. sd_log s' = sd_log s @ [messages_request dest now ms True] @ retry \<and>
    (retry = [] \<or> (\<exists>extra. extra \<noteq> [] \<and> retry = [messages_request dest now (without_devices extra ms) True]))"
  using assms unfolding put_with_retry_def
proof (cases rule: bindS_cases)
  case (1 x s1)
  then show ?thesis by (auto simp: putMessages_def dest!: socket_request_log)
next
  case (2 resp s1)
  then have log1: "sd_log s1 = sd_log s @ [messages_request dest now ms True]"
    by (auto simp: putMessages_def dest!: socket_request_log)
  show ?thesis
  proof (cases "status resp = 409")
    case True
    obtain resp' s2 where r: "retry_409 e dest now ms resp s1 = (resp', s2)" by fastforce
    with 2 True have "s' = after_put dest resp' s2" by simp
    with r log1 show ?thesis by (cases rule: retry_409_log [OF r]) auto
  qed (use 2 log1 in auto)
qed

text \<open>
  C35: Every send addresses the peer's complete device list: the first \<open>PUT /v1/messages\<close> of
  \<open>sendContent\<close> carries exactly one message for each device id that
  \<open>resolveDeviceList\<close> returned, in that order, and the ids the function returns are those. One
  \<open>GET /v2/keys\<close> comes before it, unless the cached list is younger than its lifetime. After it comes one more \<open>PUT\<close>
  exactly when the server answered the first with 409 and a body that names extra devices, and messages for other devices are left: it carries the
  same messages without those for the devices the body names. After any other answer nothing more is sent.
\<close>

theorem send_addresses_every_device:
  assumes "sendContent e (t1, t2, now) dest content s = (Inr ids, s')" "ids \<noteq> []"
  shows "\<exists>fetch ms resp retry.
     sd_log s' = sd_log s @ fetch @ [messages_request dest now ms True] @ retry \<and>
     fetch = (if \<exists>xs t. sd_cache s dest = Some (xs, t) \<and> t1 - t < kDeviceListCacheTtl then [] else [keys_request dest]) \<and>
     map (\<lambda>m. json_at m ''destinationDeviceId'') ms = map (\<lambda>i. Inr (JNum i)) ids \<and>
     e_sv e (length (sd_log s @ fetch)) (messages_request dest now ms True) = Inr resp \<and>
     (if status resp = 409 \<and> (\<exists>extra. extra \<noteq> [] \<and> names_extra e resp extra \<and> without_devices extra ms \<noteq> [])
      then \<exists>extra. names_extra e resp extra \<and> retry = [messages_request dest now (without_devices extra ms) True] else retry = [])"
proof -
  obtain ids' s1 where res: "resolveDeviceList e t1 t2 dest s = (Inr ids', s1)" and
    rest: "(if ids' = [] then returnS ids' else bindS (on_db (encrypt_all e dest (e_serialize e content) ids')) (\<lambda>messages.
         bindS (put_with_retry e dest now messages) (\<lambda>_. returnS ids'))) s1 = (Inr ids, s')"
    using assms(1) by (auto simp: sendContent_def elim!: bindS_cases)
  have eq: "ids' = ids"
    using rest by (auto split: if_splits elim!: bindS_cases)
  obtain ms s2 where enc: "on_db (encrypt_all e dest (e_serialize e content) ids) s1 = (Inr ms, s2)"
    and put: "put_with_retry e dest now ms s2 = (Inr (), s')"
    using rest eq assms(2) by (auto elim!: bindS_cases)
  obtain d where "encrypt_all e dest (e_serialize e content) ids (sd_db s1) = (Inr ms, d)"
    using on_db_result [OF enc] by blast
  note devices = encrypt_all_devices [OF this]
  let ?fetch = "if \<exists>xs t. sd_cache s dest = Some (xs, t) \<and> t1 - t < kDeviceListCacheTtl then [] else [keys_request dest]"
  have log: "sd_log s2 = sd_log s @ ?fetch" using resolveDeviceList_log [OF res] on_db_log [OF enc] by simp
  obtain xs where "mapR message_device ms = Inr xs" using addressed_ids [OF devices] by blast
  from put_with_retry_retries [OF put this] obtain resp retry where
    "e_sv e (length (sd_log s2)) (messages_request dest now ms True) = Inr resp"
    "sd_log s' = sd_log s2 @ [messages_request dest now ms True] @ retry" "retry_for e dest now ms resp retry" by blast
  then show ?thesis
    using devices unfolding log retry_for_def
    by (intro exI [of _ ?fetch] exI [of _ ms] exI [of _ resp] exI [of _ retry]) (simp only: append_assoc)
qed

text \<open>
  A small peer: two devices in the cache; the server answers the first \<open>PUT\<close> of a
  run with 409 naming device 2 as extra, then 200.
\<close>

definition sample_server :: server where
  "sample_server n req = Inr (if n = 0 then \<lparr>status = 409, body = [0]\<rparr> else \<lparr>status = 200, body = []\<rparr>)"

definition sample_env :: env where
  "sample_env = \<lparr>e_ls = transparent, e_sv = sample_server,
     e_parse = (\<lambda>t. Inr (JObj [(''extraDevices'', JArr [JNum 2])])), e_q = no_faults, e_acct = ''a'', e_local = (''me'', 3),
     e_serialize = (\<lambda>c. [1, 2]), e_registration_id = (\<lambda>r. Inr 5)\<rparr>"

definition sample_sender :: sender where
  "sample_sender = \<lparr>sd_db = fresh_db, sd_cache = [''bob'' \<mapsto> ([1, 2], 100)], sd_log = []\<rparr>"

lemma fresh_no_session: "loadSession no_faults ''a'' adr fresh_db = Inr None"
  using fresh_db_tabs [of "''session''"]
  by (simp add: loadSession_def first_kv_def run_first_readable schema_def)

lemma sample_encrypt:
  "encrypt_all sample_env ''bob'' [1, 2] [1, 2] fresh_db =
     (Inr [message_json 3 1 0 (padMessageBody [1, 2]), message_json 3 2 0 (padMessageBody [1, 2])], fresh_db)"
  by (simp add: sample_env_def encryptForDevice_def transparent_def bindS_def liftR_def remoteRegistrationIdFromSession_def
      fresh_no_session)

lemma message_device_json: "message_device (message_json ty i r c) = Inr (sint (word_of_int i :: uint32))"
  by (simp add: message_device_def get_int_def get_u32_def)

lemma sample_send:
  "sendContent sample_env (150, 151, 9) ''bob'' c sample_sender =
     (Inr [1, 2], sample_sender\<lparr>sd_log :=
        [messages_request ''bob'' 9 [message_json 3 1 0 (padMessageBody [1, 2]), message_json 3 2 0 (padMessageBody [1, 2])] True,
         messages_request ''bob'' 9 [message_json 3 1 0 (padMessageBody [1, 2])] True]\<rparr>)"
proof -
  have "e_serialize sample_env c = [1, 2]" "sd_db sample_sender = fresh_db"
    by (simp_all add: sample_env_def sample_sender_def)
  note base = this sample_encrypt
  have "resolveDeviceList sample_env 150 151 ''bob'' sample_sender = (Inr [1, 2], sample_sender)"
    by (simp add: resolveDeviceList_def sample_sender_def)
  then show ?thesis
    using base
    by (simp add: sendContent_def bindS_def on_db_def put_with_retry_def putMessages_def socket_request_def after_put_def
        retry_409_def extra_devices_def get_array_def get_int_def get_u32_def message_device_json
        sample_env_def sample_server_def sample_sender_def)
qed

theorem send_addresses_every_device_witness:
  "let s' = snd (sendContent sample_env (150, 151, 9) ''bob'' Keys_request sample_sender) in
   \<exists>ms resp extra. sd_log s' = [messages_request ''bob'' 9 ms True, messages_request ''bob'' 9 (without_devices extra ms) True] \<and>
     map (\<lambda>m. json_at m ''destinationDeviceId'') ms = map (\<lambda>i. Inr (JNum i)) [1, 2] \<and>
     sample_server 0 (messages_request ''bob'' 9 ms True) = Inr resp \<and> status resp = 409 \<and> names_extra sample_env resp extra"
proof -
  let ?s' = "snd (sendContent sample_env (150, 151, 9) ''bob'' Keys_request sample_sender)"
  have two: "length (sd_log ?s') = 2"
    by (simp add: sample_send)
  have run: "sendContent sample_env (150, 151, 9) ''bob'' Keys_request sample_sender = (Inr [1, 2], ?s')"
    by (simp add: sample_send)
  have s: "sd_log sample_sender = []" "sd_cache sample_sender ''bob'' = Some ([1, 2], 100)" "e_sv sample_env = sample_server"
    by (simp_all add: sample_sender_def sample_env_def)
  from send_addresses_every_device [OF run] obtain ms resp retry where r:
    "sd_log ?s' = [messages_request ''bob'' 9 ms True] @ retry" "map (\<lambda>m. json_at m ''destinationDeviceId'') ms = map (\<lambda>i. Inr (JNum i)) [1, 2]"
    "sample_server 0 (messages_request ''bob'' 9 ms True) = Inr resp"
    "if status resp = 409 \<and> (\<exists>extra. extra \<noteq> [] \<and> names_extra sample_env resp extra \<and> without_devices extra ms \<noteq> [])
      then \<exists>extra. names_extra sample_env resp extra \<and> retry = [messages_request ''bob'' 9 (without_devices extra ms) True] else retry = []"
    by (auto simp: s)
  have "retry \<noteq> []" using two r(1) by auto
  with r show ?thesis unfolding Let_def by (metis append_Cons append_Nil)
qed

section \<open>The device list cache\<close>

lemma put_not_keys [simp]: "(messages_request dest now ms online = keys_request p) = False"
  by (simp add: messages_request_def keys_request_def)

lemma put_with_retry_keeps_cache:
  assumes "put_with_retry e dest now ms s = (r, s')"
    and "\<forall>n req resp. e_sv e n req = Inr resp \<longrightarrow> status resp \<notin> {409, 410}"
  shows "sd_cache s' = sd_cache s"
  using assms unfolding put_with_retry_def
  by (auto simp: after_put_def putMessages_def socket_request_def split: if_splits elim!: bindS_cases)

lemma send_cached:
  assumes "sd_cache s dest = Some (ids, t)" "t1 - t < kDeviceListCacheTtl"
    and ok: "\<forall>n req resp. e_sv e n req = Inr resp \<longrightarrow> status resp \<notin> {409, 410}"
    and run: "sendContent e (t1, t2, now) dest content s = (r, s')"
  shows "sd_cache s' = sd_cache s \<and>
    filter (\<lambda>q. q = keys_request dest) (sd_log s') = filter (\<lambda>q. q = keys_request dest) (sd_log s)"
proof -
  have "resolveDeviceList e t1 t2 dest s = (Inr ids, s)"
    using assms(1,2) by (simp add: resolveDeviceList_def)
  with run show ?thesis
    by (auto simp: sendContent_def split: if_splits elim!: bindS_cases
        dest!: on_db_log dest: put_with_retry_keeps_cache [OF _ ok] put_with_retry_log)
qed

fun send_all :: "env \<Rightarrow> string \<Rightarrow> ((int \<times> int \<times> int) \<times> Content) list \<Rightarrow> sender \<Rightarrow> sender" where
  "send_all e dest [] s = s"
| "send_all e dest ((tm, c) # rest) s = send_all e dest rest (snd (sendContent e tm dest c s))"

text \<open>
  The rate-limited \<open>GET /v2/keys\<close> is not repeated: once a peer's device list is
  cached, any number of sends to that peer within the 30 minutes fetch no keys, whether
  they succeed or fail, as long as the server does not answer 409 or 410.
\<close>

theorem device_list_cached:
  assumes "sd_cache s dest = Some (ids, t)"
    and "\<forall>(tm, c) \<in> set sends. fst tm - t < kDeviceListCacheTtl"
    and "\<forall>n req resp. e_sv e n req = Inr resp \<longrightarrow> status resp \<notin> {409, 410}"
  shows "filter (\<lambda>q. q = keys_request dest) (sd_log (send_all e dest sends s)) = filter (\<lambda>q. q = keys_request dest) (sd_log s)"
  using assms(1,2)
proof (induction sends arbitrary: s)
  case (Cons p rest)
  obtain t1 t2 now c where p: "p = ((t1, t2, now), c)" by (cases p) auto
  obtain r s' where run: "sendContent e (t1, t2, now) dest c s = (r, s')" by fastforce
  have "t1 - t < kDeviceListCacheTtl" using Cons.prems(2) p by simp
  note one = send_cached [OF Cons.prems(1) this assms(3) run]
  show ?case
    using Cons.IH [of s'] Cons.prems one p run by simp
qed simp


theorem device_list_cached_witness:
  "filter (\<lambda>q. q = keys_request ''bob'') (sd_log (send_all (sample_env\<lparr>e_sv := \<lambda>_ _. Inr \<lparr>status = 200, body = []\<rparr>\<rparr>) ''bob''
     [((150, 151, 9), Keys_request), ((1899, 1900, 10), Keys_request)] sample_sender)) = []"
  using device_list_cached [of sample_sender "''bob''" "[1, 2]" 100 "[((150, 151, 9), Keys_request), ((1899, 1900, 10), Keys_request)]"
      "sample_env\<lparr>e_sv := \<lambda>_ _. Inr \<lparr>status = 200, body = []\<rparr>\<rparr>"]
  by (simp add: sample_sender_def)

text \<open>
  The cache follows the server's last word. When the last request of a send was answered
  with 409 or 410, or the retry never got an answer, the peer's entry is dropped and the next
  send fetches a fresh list; after any other answer every entry is kept as it was, which includes the list
  with the extra devices when the retry without them was accepted.
\<close>

theorem cache_follows_last_answer:
  assumes "put_with_retry e dest now ms s = (Inr (), s')"
  shows "case e_sv e (length (sd_log s') - 1) (last (sd_log s')) of
      Inl _ \<Rightarrow> sd_cache s' = (sd_cache s)(dest := None)
    | Inr resp \<Rightarrow> sd_cache s' = (if status resp \<in> {409, 410} then (sd_cache s)(dest := None) else sd_cache s)"
  using assms unfolding put_with_retry_def
  by (auto simp: after_put_def putMessages_def retry_409_def Let_def socket_request_def
      split: if_splits prod.splits sum.splits elim!: bindS_cases)

lemma sample_put:
  "put_with_retry sample_env ''bob'' 9 [message_json 3 1 0 [], message_json 3 2 0 []] sample_sender =
     (Inr (), sample_sender\<lparr>sd_log := [messages_request ''bob'' 9 [message_json 3 1 0 [], message_json 3 2 0 []] True,
         messages_request ''bob'' 9 [message_json 3 1 0 []] True]\<rparr>)"
  by (simp add: bindS_def put_with_retry_def putMessages_def socket_request_def after_put_def
        retry_409_def extra_devices_def get_array_def get_int_def get_u32_def message_device_json
        sample_env_def sample_server_def sample_sender_def)

theorem cache_follows_last_answer_witness:
  "sd_cache (snd (put_with_retry sample_env ''bob'' 9 [message_json 3 1 0 [], message_json 3 2 0 []] sample_sender)) ''bob'' =
     Some ([1, 2], 100)"
proof -
  have "e_sv sample_env = sample_server" "sd_cache sample_sender ''bob'' = Some ([1, 2], 100)"
    by (simp_all add: sample_env_def sample_sender_def)
  then show ?thesis
    using cache_follows_last_answer [OF sample_put] by (simp add: sample_server_def sample_put)
qed

section \<open>Reported as sent\<close>

text \<open>
  A \<open>PUT\<close> that the server refuses does not raise an exception, so RingRTC is told that
  the message was sent: with the device list cached and the encryption done, \<open>onSendOffer\<close> reports the
  call id as sent whatever status the server answers with.
\<close>

theorem refused_put_reported_sent:
  assumes "sd_cache s dest = Some (ids, t)" "t1 - t < kDeviceListCacheTtl"
    and "encrypt_all e dest (e_serialize e (Call_message (offer_message callId mediaType opaque))) ids (sd_db s) = (Inr ms, d)"
    and "e_sv e (length (sd_log s)) (messages_request dest now ms True) = Inr resp"
  shows "snd (onSendOffer e (t1, t2, now) dest callId mediaType opaque (s, sent)) = sent @ [callId]"
proof -
  have "resolveDeviceList e t1 t2 dest s = (Inr ids, s)"
    using assms(1,2) by (simp add: resolveDeviceList_def)
  then have "fst (sendOffer e (t1, t2, now) dest callId mediaType opaque s) = Inr ()"
    using assms(3,4)
    by (simp add: sendOffer_def sendCallMessage_def sendContent_def bindS_def on_db_def put_with_retry_def putMessages_def
        socket_request_def split: prod.splits)
  then show ?thesis
    by (auto simp: onSendOffer_def safeCallback_def then_sent_def split: prod.splits sum.splits)
qed

theorem refused_put_reported_sent_witness:
  "snd (onSendOffer (sample_env\<lparr>e_sv := \<lambda>_ _. Inr \<lparr>status = 500, body = []\<rparr>\<rparr>) (150, 151, 9) ''bob'' 77 0 [4] (sample_sender, [])) = [77]"
proof -
  let ?e = "sample_env\<lparr>e_sv := \<lambda>_ _. Inr \<lparr>status = 500, body = []\<rparr>\<rparr>"
  have "encrypt_all ?e ''bob'' (e_serialize ?e (Call_message (offer_message 77 0 [4]))) [1, 2] (sd_db sample_sender) =
     (Inr [message_json 3 1 0 (padMessageBody [1, 2]), message_json 3 2 0 (padMessageBody [1, 2])], fresh_db)"
    by (simp add: sample_env_def encryptForDevice_def transparent_def bindS_def liftR_def remoteRegistrationIdFromSession_def
        fresh_no_session sample_sender_def)
  from refused_put_reported_sent [OF _ _ this] show ?thesis
    by (simp add: sample_sender_def)
qed


section \<open>Properties of the decryption error reply\<close>

definition own_device :: "env \<Rightarrow> string \<Rightarrow> int \<Rightarrow> bool" where
  "own_device e sid i \<longleftrightarrow> sid = fst (e_local e) \<and> word_of_int i = snd (e_local e)"

lemma reply_messages_spec:
  "reply_messages e sid content ids d = Inr ms \<Longrightarrow>
     (\<exists>regs. length regs = length (filter (\<lambda>i. \<not> own_device e sid i) ids) \<and>
       ms = map2 (\<lambda>i r. message_json 8 i r content) (filter (\<lambda>i. \<not> own_device e sid i) ids) regs)"
proof (induction ids arbitrary: ms)
  case (Cons i ids)
  show ?case
  proof (cases "own_device e sid i")
    case True
    with Cons show ?thesis by (simp add: own_device_def)
  next
    case False
    then obtain r ms' where ms: "reply_messages e sid content ids d = Inr ms'" "ms = message_json 8 i r content # ms'"
      using Cons.prems by (auto simp: own_device_def bindR_Inr_iff)
    from Cons.IH [OF ms(1)] obtain regs where
      "length regs = length (filter (\<lambda>i. \<not> own_device e sid i) ids)"
      "ms' = map2 (\<lambda>i r. message_json 8 i r content) (filter (\<lambda>i. \<not> own_device e sid i) ids) regs" by blast
    with ms False show ?thesis by (intro exI [of _ "r # regs"]) simp
  qed
qed simp

lemma resolveDeviceList_Inr_log:
  assumes "resolveDeviceList e t1 t2 peer s = (r, s')"
  obtains fetch where "sd_log s' = sd_log s @ fetch" "fetch \<in> {[], [keys_request peer]}"
  using resolveDeviceList_log [OF assms] by (auto split: if_splits)

text \<open>
  Replying to an undecryptable envelope lets no standard exception out, whatever fails inside. What it
  sends is at most one \<open>PUT\<close>, after at most one key fetch: a plaintext-content message (type 8) for each device of the resolved list but
  this one, all with the same body, which is the serialized content between the marker bytes
  0xC0 and 0x80.
\<close>

theorem decryption_error_reply:
  assumes "sendDecryptionErrorReply e (t1, t2, now) sid dev ct ty ts s = (r, s')"
  shows "r \<in> {Inr (), Inl Pj_error} \<and>
    (\<exists>fetch put. sd_log s' = sd_log s @ fetch @ put \<and> fetch \<in> {[], [keys_request sid]} \<and>
      (put = [] \<or> (\<exists>ids regs dem. let targets = filter (\<lambda>i. \<not> own_device e sid i) ids in
         buildDecryptionErrorMessage (e_ls e) ct ty ts dev = Inr dem \<and>
         fst (resolveDeviceList e t1 t2 sid s) = Inr ids \<and> length regs = length targets \<and>
         put = [messages_request sid now
           (map2 (\<lambda>i reg. message_json 8 i reg (0xC0 # e_serialize e (Decryption_error dem) @ [0x80])) targets regs) False])))"
proof -
  obtain r0 where run: "bindS (liftR (\<lambda>_. buildDecryptionErrorMessage (e_ls e) ct ty ts dev)) (\<lambda>dem.
       bindS (resolveDeviceList e t1 t2 sid) (\<lambda>deviceIds.
       bindS (on_db (liftR (reply_messages e sid (plaintext_content (e_serialize e (Decryption_error dem))) deviceIds))) (\<lambda>messages.
       bindS (putMessages e sid now messages False) (\<lambda>_. returnS ())))) s = (r0, s')"
    and r: "r \<in> {Inr (), Inl Pj_error}"
    using assms by (auto simp: sendDecryptionErrorReply_def catch_std_def split: prod.splits sum.splits if_splits)
  from run show ?thesis
  proof (cases rule: bindS_cases)
    case (2 dem s1)
    then have dem: "buildDecryptionErrorMessage (e_ls e) ct ty ts dev = Inr dem" and s1: "s1 = s"
      by (auto dest!: liftR_state)
    from 2(2) show ?thesis
    proof (cases rule: bindS_cases)
      case (1 x s2)
      then show ?thesis
        using r s1 by (elim resolveDeviceList_Inr_log) auto
    next
      case (2 ids s2)
      then obtain fetch where fetch: "sd_log s2 = sd_log s @ fetch" "fetch \<in> {[], [keys_request sid]}"
        using s1 by (elim resolveDeviceList_Inr_log) auto
      from 2(2) show ?thesis
      proof (cases rule: bindS_cases)
        case (1 x s3)
        then have "sd_log s' = sd_log s @ fetch @ []" using fetch by (auto dest!: on_db_log)
        with r fetch(2) show ?thesis by blast
      next
        case (2 ms s3)
        then have "reply_messages e sid (plaintext_content (e_serialize e (Decryption_error dem))) ids (sd_db s2) = Inr ms"
          by (auto simp: on_db_def liftR_def)
        then obtain regs where "length regs = length (filter (\<lambda>i. \<not> own_device e sid i) ids)"
          "ms = map2 (\<lambda>i reg. message_json 8 i reg (0xC0 # e_serialize e (Decryption_error dem) @ [0x80]))
             (filter (\<lambda>i. \<not> own_device e sid i) ids) regs"
          using reply_messages_spec unfolding plaintext_content_def by blast
        moreover have "sd_log s' = sd_log s @ fetch @ [messages_request sid now ms False]"
          using 2 fetch by (auto simp: putMessages_def dest!: sender_frame elim!: bindS_cases)
        ultimately show ?thesis
          using r fetch(2) dem \<open>resolveDeviceList e t1 t2 sid s1 = (Inr ids, s2)\<close> s1
          by (intro conjI exI [of _ fetch] exI [of _ "[messages_request sid now ms False]"]) (auto simp: Let_def)
      qed
    qed
  qed (use r in \<open>auto dest!: liftR_state\<close>)
qed


lemma sample_reply:
  "sendDecryptionErrorReply (sample_env\<lparr>e_local := (''bob'', 2)\<rparr>) (150, 151, 9) ''bob'' 1 [7] 2 55 sample_sender =
     (Inr (), sample_sender\<lparr>sd_log := [messages_request ''bob'' 9 [message_json 8 1 0 [0xC0, 1, 2, 0x80]] False]\<rparr>)"
  by (simp add: sendDecryptionErrorReply_def catch_std_def bindS_def liftR_def sample_env_def sample_sender_def
      buildDecryptionErrorMessage_def transparent_def resolveDeviceList_def on_db_def remoteRegistrationIdFromSession_def
      fresh_no_session plaintext_content_def putMessages_def socket_request_def sample_server_def)

theorem decryption_error_reply_witness:
  "fst (sendDecryptionErrorReply (sample_env\<lparr>e_local := (''bob'', 2)\<rparr>) (150, 151, 9) ''bob'' 1 [7] 2 55 sample_sender)
     \<in> {Inr (), Inl Pj_error}"
  using decryption_error_reply [OF sample_reply] by (simp only: sample_reply fst_conv)

section \<open>Properties of received call messages\<close>

text \<open>
  The keys that RingRTC derives the media encryption from are those of the accounts. After libsignal's store
  callback saved a peer's 33-byte identity key (for any of the peer's devices) an offer of the peer is handed over with that
  key and with our own public key, both without the type byte and exactly 32 bytes long, and the events of one call message
  come in the order offer, answer, ice candidates, hangup, busy, each once.
\<close>

theorem offer_carries_identity_keys:
  assumes "save_identity_key q ser acct (sid, dev0) k d0 = (0, x, d)" "ser k = Inr b" "length b = 33"
    and "Sql.readable q ''loadRemoteIdentity''"
    and "loadIdentityKeypair q acct identity d = Inr (Some kp)" "length (k_public_key kp) = 33"
    and "cm_offer m = Some (i, ty, opaque)"
  shows "handleCallMessage q acct identity d sid dev local m log =
     (Inr (), log @ [Received_offer sid i dev local opaque (tl b) (tl (k_public_key kp))] @
        (case cm_answer m of None \<Rightarrow> [] | Some (j, op) \<Rightarrow> [Received_answer sid j dev op (tl b) (tl (k_public_key kp))]) @
        map (\<lambda>(j, op). Received_ice sid j dev op) (cm_ice m) @
        (case cm_hangup m of None \<Rightarrow> [] | Some (j, t, hdev) \<Rightarrow> [Received_hangup sid j dev t hdev]) @
        (case cm_busy m of None \<Rightarrow> [] | Some j \<Rightarrow> [Received_busy sid j dev]))
     \<and> length (tl b) = 32 \<and> length (tl (k_public_key kp)) = 32"
proof -
  have "saveRemoteIdentity q acct sid b d0 = Inr d"
    using save_identity_ok [OF assms(1)] assms(2) by simp
  then have "loadRemoteIdentity q acct sid d = Inr (Some b)"
    by (rule remote_ids.load_saved [OF _ assms(4)])
  then have "identity_keys_for q acct identity sid d = Inr (tl b, tl (k_public_key kp))"
    using assms(3,5,6) by (simp add: identity_keys_for_def rawPublicKeyBytes_def)
  then show ?thesis
    using assms(3,6,7)
    by (auto simp: handleCallMessage_def bindS_def liftR_def emit_def returnS_def split: option.splits prod.splits)
qed

definition sample_key :: bytes where
  "sample_key = 5 # replicate 32 9"


definition own_key_db :: db where
  "own_key_db = put_rows ''identity_keypair'' [kv_row ''a'' ''identity'' ''aci'' [(''private_key'', bindBlob [1]), (''public_key'', bindBlob sample_key)]]
     one_account"

definition call_db :: db where
  "call_db = put_rows ''remote_identity'' [kv_row ''a'' ''address'' ''s'' [(''public_key'', bindBlob sample_key)]] own_key_db"

lemma own_key_db_tabs: "tabs own_key_db n = None \<longleftrightarrow> tabs fresh_db n = None"
  by (simp add: own_key_db_def one_account_def)

lemma call_db_saved: "save_identity_key no_faults Inr ''a'' (''s'', 1) sample_key own_key_db = (0, Some 0, call_db)"
  using fresh_db_tabs [of "''remote_identity''"] fresh_db_account
  by (simp add: save_identity_key_def guardCallback_def liftR_def updR_def bindS_def Let_def schema_def own_key_db_tabs call_db_def
      loadRemoteIdentity_def first_kv_def run_first_readable saveRemoteIdentity_def upsert_kv_def run_write_def Stmt_def
      sql_upsert_def check_error_def fk_error_def kv_row_def, simp add: own_key_db_def one_account_def)

lemma call_db_keypair:
  "loadIdentityKeypair no_faults ''a'' ''aci'' call_db = Inr (Some \<lparr>k_private_key = [1], k_public_key = sample_key\<rparr>)"
  using fresh_db_tabs [of "''remote_identity''"] fresh_db_tabs [of "''identity_keypair''"]
  by (simp add: loadIdentityKeypair_def first_kv_def run_first_readable call_db_def own_key_db_tabs schema_def,
      simp add: own_key_db_def one_account_def schema_def kv_row_def)


theorem offer_carries_identity_keys_witness:
  "handleCallMessage no_faults ''a'' ''aci'' call_db ''s'' 2 1 (offer_message 77 0 [4]) [] =
     (Inr (), [Received_offer ''s'' 77 2 1 [4] (replicate 32 9) (replicate 32 9)])"
  using offer_carries_identity_keys [OF call_db_saved, of sample_key "''aci''" "\<lparr>k_private_key = [1], k_public_key = sample_key\<rparr>"
      "offer_message 77 0 [4]" 77 OFFER_AUDIO_CALL "[4]" 2 1 "[]"]
  by (simp add: call_db_keypair offer_message_def empty_message_def, simp add: sample_key_def)

end
