(* ===== verification/Migration.thy ===== *)
theory Migration
  imports Storage
begin

text \<open>
  The live migrations the \<open>Storage\<close> constructor runs: a database of any older shape
  is brought to the current one, running them again changes nothing, and the contacts of the
  old table survive. The migration of the contacts is two statements outside a
  transaction; what an interruption between them leaves behind is stated too.
\<close>

definition cols_of :: "db \<Rightarrow> string \<Rightarrow> string list option" where
  "cols_of d n = map_option cols (tabs d n)"

abbreviation old_contacts :: string where
  "old_contacts \<equiv> ''synced_contact_old_pk_migration''"

text \<open>Current: every table of \<open>schema.sql\<close> is there with all its columns, and no migration is half done.\<close>

definition db_current :: "db \<Rightarrow> bool" where
  "db_current d \<longleftrightarrow> list_all (\<lambda>(n, cs). case cols_of d n of None \<Rightarrow> False | Some cs' \<Rightarrow> set cs \<subseteq> set cs') schema \<and> tabs d old_contacts = None"

lemma db_currentD: "db_current d \<Longrightarrow> (n, cs) \<in> set schema \<Longrightarrow> \<exists>cs'. cols_of d n = Some cs' \<and> set cs \<subseteq> set cs'"
  by (fastforce simp: db_current_def list_all_iff split: option.splits)

lemma db_currentI:
  "(\<And>n cs. (n, cs) \<in> set schema \<Longrightarrow> \<exists>cs'. cols_of d n = Some cs' \<and> set cs \<subseteq> set cs') \<Longrightarrow> tabs d old_contacts = None \<Longrightarrow> db_current d"
  by (fastforce simp: db_current_def list_all_iff)

lemma db_current_tabs: "db_current d \<Longrightarrow> \<forall>n \<in> fst ` set schema. tabs d n \<noteq> None"
  using db_currentD by (fastforce simp: cols_of_def)

lemma db_current_id: "db_current d \<Longrightarrow> \<exists>cs. cols_of d ''synced_contact'' = Some cs \<and> ''id'' \<in> set cs"
  using db_currentD [of d "''synced_contact''"] by (fastforce simp: schema_def)

lemma account_columns: "(''account'', account_identity_columns @ map fst account_defaults) \<in> set schema"
  by (simp add: schema_def)

lemma config_columns_declared: "fst ` set account_config_columns = set (map fst account_defaults)"
  by (simp add: account_config_columns_def account_defaults_def)

lemma db_current_columns: "db_current d \<Longrightarrow> \<exists>cs. cols_of d ''account'' = Some cs \<and> fst ` set account_config_columns \<subseteq> set cs"
  using db_currentD [OF _ account_columns] config_columns_declared by fastforce

lemma db_current_no_old: "db_current d \<Longrightarrow> tabs d old_contacts = None"
  by (simp add: db_current_def)

section \<open>Steps\<close>

lemma cols_of_put_rows [simp]: "cols_of (put_rows n rs d) m = cols_of d m"
  by (auto simp: cols_of_def put_rows_def split: option.split)

lemma cols_of_None: "cols_of d n = None \<longleftrightarrow> tabs d n = None"
  by (simp add: cols_of_def)

lemma sql_insert_cols: "sql_insert n r d = Inr d' \<Longrightarrow> cols_of d' m = cols_of d m"
  by (auto simp: sql_insert_def split: option.splits)

lemma insert_synced_cols: "insert_synced mk d = Inr d' \<Longrightarrow> cols_of d' m = cols_of d m"
  using sql_insert_cols by (fastforce simp: insert_synced_def cols_of_def split: sum.splits)

lemma insert_all_cols: "insert_all rs d = Inr d' \<Longrightarrow> cols_of d' m = cols_of d m"
  by (induction rs arbitrary: d) (auto simp: insert_synced_cols split: sum.splits)

lemma create_tabs:
  "tabs (create_if_missing tc d) m = (if m = fst tc \<and> tabs d m = None then Some \<lparr>cols = snd tc, rows = []\<rparr> else tabs d m)"
  by (auto simp: create_if_missing_def split: option.split)

lemma fold_create_existing: "tabs d m = Some t \<Longrightarrow> tabs (fold create_if_missing tcs d) m = Some t"
  by (induction tcs arbitrary: d) (auto simp: create_tabs)

lemma fold_create_missing:
  assumes "tabs d m = None"
  shows "tabs (fold create_if_missing tcs d) m = map_option (\<lambda>cs. \<lparr>cols = cs, rows = []\<rparr>) (map_of tcs m)"
  using assms
proof (induction tcs arbitrary: d)
  case (Cons tc tcs)
  show ?case
  proof (cases "fst tc = m")
    case True
    then have "tabs (create_if_missing tc d) m = Some \<lparr>cols = snd tc, rows = []\<rparr>"
      using Cons.prems by (simp add: create_tabs)
    then show ?thesis
      using True by (cases tc) (simp add: fold_create_existing)
  next
    case False
    then have "tabs (create_if_missing tc d) m = None"
      using Cons.prems by (simp add: create_tabs)
    then show ?thesis
      using False Cons.IH by (cases tc) auto
  qed
qed simp

lemma kSchemaSql_tabs:
  "tabs (kSchemaSql d) m = (case tabs d m of Some t \<Rightarrow> Some t
     | None \<Rightarrow> map_option (\<lambda>cs. \<lparr>cols = cs, rows = []\<rparr>) (map_of schema m))"
  by (auto simp: kSchemaSql_def fold_create_existing fold_create_missing split: option.split)

lemma kSchemaSql_all: "n \<in> fst ` set schema \<Longrightarrow> tabs (kSchemaSql d) n \<noteq> None"
  by (auto simp: kSchemaSql_tabs split: option.split dest: weak_map_of_SomeI)

lemma kSchemaSql_current: "(\<forall>n \<in> fst ` set schema. tabs d n \<noteq> None) \<Longrightarrow> kSchemaSql d = d"
proof -
  assume a: "\<forall>n \<in> fst ` set schema. tabs d n \<noteq> None"
  have "fold create_if_missing tcs d = d" if "\<forall>tc \<in> set tcs. tabs d (fst tc) \<noteq> None" for tcs
    using that by (induction tcs) (auto simp: create_if_missing_def split: option.split)
  then show ?thesis
    using a by (simp add: kSchemaSql_def)
qed

text \<open>Renaming: afterwards there is no \<open>synced_contact\<close> of the old shape.\<close>

lemma rename_shape:
  assumes "renameOldSyncedContactTableIfNeeded no_faults d = (Inr (), d1)"
  shows "(tabs d1 ''synced_contact'' = None \<or> (\<exists>cs. cols_of d1 ''synced_contact'' = Some cs \<and> ''id'' \<in> set cs))
    \<and> (\<forall>n. n \<noteq> ''synced_contact'' \<and> n \<noteq> old_contacts \<longrightarrow> tabs d1 n = tabs d n)"
  using assms
  by (auto simp: renameOldSyncedContactTableIfNeeded_def bindS_def liftR_def tableExists_def rename_table_def
      cols_of_def split: if_splits)

lemma copy_shape:
  assumes "copyOldSyncedContactDataIfPresent no_faults d = (Inr (), d1)"
  shows "tabs d1 old_contacts = None \<and> (\<forall>n. n \<noteq> old_contacts \<longrightarrow> cols_of d1 n = cols_of d n)"
  using assms insert_all_cols [of "rows_of d old_contacts" d]
  by (auto simp: copyOldSyncedContactDataIfPresent_def bindS_def liftR_def tableExists_def cols_of_def
      split: if_splits sum.splits)

lemma addColumn_shape:
  assumes "addColumnIfMissing no_faults n cd d = (Inr (), d1)"
  shows "(\<exists>cs cs'. cols_of d n = Some cs \<and> cols_of d1 n = Some cs' \<and> set cs' = insert (fst cd) (set cs))
    \<and> (\<forall>m. m \<noteq> n \<longrightarrow> tabs d1 m = tabs d m)"
  using assms
  by (auto simp: addColumnIfMissing_def Let_def cols_of_def split: option.splits if_splits)

lemma add_columns_shape:
  assumes "add_columns no_faults n cds d = (Inr (), d1)" "tabs d n \<noteq> None"
  shows "(\<exists>cs cs'. cols_of d n = Some cs \<and> cols_of d1 n = Some cs' \<and> set cs' = set cs \<union> fst ` set cds)
    \<and> (\<forall>m. m \<noteq> n \<longrightarrow> tabs d1 m = tabs d m)"
  using assms
proof (induction cds arbitrary: d)
  case Nil
  then show ?case
    by (auto simp: cols_of_def)
next
  case (Cons cd cds)
  obtain d2 where d2: "addColumnIfMissing no_faults n cd d = (Inr (), d2)" "add_columns no_faults n cds d2 = (Inr (), d1)"
    using Cons.prems(1) by (auto elim: bindS_cases)
  obtain cs cs' where c: "cols_of d n = Some cs" "cols_of d2 n = Some cs'" "set cs' = insert (fst cd) (set cs)"
    and f: "\<forall>m. m \<noteq> n \<longrightarrow> tabs d2 m = tabs d m"
    using addColumn_shape [OF d2(1)] by blast
  have "tabs d2 n \<noteq> None"
    using c(2) by (auto simp: cols_of_def)
  then show ?case
    using Cons.IH [OF d2(2)] c f by auto
qed

section \<open>Running the migrations again\<close>

lemma rename_current:
  "db_current d \<Longrightarrow> renameOldSyncedContactTableIfNeeded no_faults d = (Inr (), d)"
  by (auto simp: renameOldSyncedContactTableIfNeeded_def bindS_def liftR_def tableExists_def cols_of_def dest!: db_current_id)

lemma copy_current:
  "db_current d \<Longrightarrow> copyOldSyncedContactDataIfPresent no_faults d = (Inr (), d)"
  by (simp add: copyOldSyncedContactDataIfPresent_def bindS_def liftR_def tableExists_def db_current_no_old)

lemma add_columns_current:
  assumes "cols_of d n = Some cs" "fst ` set cds \<subseteq> set cs"
  shows "add_columns no_faults n cds d = (Inr (), d)"
  using assms
proof (induction cds)
  case (Cons cd cds)
  then have "addColumnIfMissing no_faults n cd d = (Inr (), d)"
    by (auto simp: addColumnIfMissing_def cols_of_def)
  then show ?case
    using Cons by simp
qed simp

text \<open>
  Older databases: a table that is there has all its columns, but \<open>account\<close> may lack those added for the configuration in the database, and \<open>synced_contact\<close> may still
  have its old shape, keyed by number.
\<close>

definition contact_columns :: "string list" where
  "contact_columns = [''account_name'', ''e164'', ''aci'', ''pni'', ''profile_key'', ''synced_at'']"

definition older_shape :: "db \<Rightarrow> bool" where
  "older_shape d \<longleftrightarrow> tabs d old_contacts = None \<and> list_all (\<lambda>(n, cs). case cols_of d n of None \<Rightarrow> True | Some cs' \<Rightarrow>
     if n = ''account'' then set account_identity_columns \<subseteq> set cs'
     else if n = ''synced_contact'' \<and> ''id'' \<notin> set cs' then set contact_columns \<subseteq> set cs'
     else set cs \<subseteq> set cs') schema"

definition contacts_to_move :: "db \<Rightarrow> row list" where
  "contacts_to_move d = (case cols_of d ''synced_contact'' of None \<Rightarrow> [] | Some cs \<Rightarrow> if ''id'' \<in> set cs then [] else rows_of d ''synced_contact'')"

text \<open>What the new table asks of the contacts: an account each, and no number and no ACI twice.\<close>

fun no_clashes :: "row list \<Rightarrow> bool" where
  "no_clashes [] = True"
| "no_clashes (r # rs) \<longleftrightarrow> list_all (\<lambda>q. \<not> clash ''e164'' q r \<and> \<not> clash ''aci'' q r) rs \<and> no_clashes rs"

definition contacts_ok :: "db \<Rightarrow> bool" where
  "contacts_ok d \<longleftrightarrow> no_clashes (contacts_to_move d) \<and> list_all (\<lambda>r. fk_error d ''synced_contact'' r = None) (contacts_to_move d)"

lemma schema_map: "(n, cs) \<in> set schema \<Longrightarrow> map_of schema n = Some cs"
  by (auto simp: schema_def)

lemma schema_only: "(''account'', cs) \<in> set schema \<Longrightarrow> cs = account_identity_columns @ map fst account_defaults"
  by (simp add: schema_def)

lemma migrated_shape:
  assumes "older_shape d" "renameOldSyncedContactTableIfNeeded no_faults d = (Inr (), d1)"
    "copyOldSyncedContactDataIfPresent no_faults (kSchemaSql d1) = (Inr (), d2)" "add_columns no_faults ''account'' account_config_columns d2 = (Inr (), d')"
  shows "db_current d'"
proof (rule db_currentI)
  have named: "n \<noteq> old_contacts" if "(n, cs) \<in> set schema" for n cs using that by (auto simp: schema_def)
  have made: "\<exists>cs'. cols_of d2 n = Some cs' \<and> (if n = ''account'' then set account_identity_columns \<subseteq> set cs' else set cs \<subseteq> set cs')"
    if m: "(n, cs) \<in> set schema" for n cs
  proof -
    have fresh: "map_of schema n = Some cs" using m by (rule schema_map)
    have c2: "cols_of d2 n = cols_of (kSchemaSql d1) n" using copy_shape [OF assms(3)] named [OF m] by blast
    show ?thesis
    proof (cases "tabs d1 n")
      case None
      then have "cols_of (kSchemaSql d1) n = Some cs" by (simp add: cols_of_def kSchemaSql_tabs fresh)
      moreover have "set account_identity_columns \<subseteq> set cs" if "n = ''account''" using schema_only [of cs] m that by fastforce
      ultimately show ?thesis using c2 by simp
    next
      case (Some u)
      then have k: "cols_of (kSchemaSql d1) n = Some (cols u)" "cols_of d1 n = Some (cols u)" by (simp_all add: cols_of_def kSchemaSql_tabs)
      have "cols_of d n = Some (cols u) \<and> (n = ''synced_contact'' \<longrightarrow> ''id'' \<in> set (cols u))"
        using assms(2) k(2) Some named [OF m]
        by (auto simp: renameOldSyncedContactTableIfNeeded_def bindS_def liftR_def tableExists_def rename_table_def cols_of_def split: if_splits)
      with assms(1) m k c2 show ?thesis by (fastforce simp: older_shape_def list_all_iff)
    qed
  qed
  have t2: "tabs d2 ''account'' \<noteq> None" using made [OF account_columns] by (auto simp: cols_of_def)
  note ac = add_columns_shape [OF assms(4) t2]
  show "\<exists>cs'. cols_of d' n = Some cs' \<and> set cs \<subseteq> set cs'" if m: "(n, cs) \<in> set schema" for n cs
  proof (cases "n = ''account''")
    case True
    with m have "(''account'', cs) \<in> set schema" by simp
    then have "set cs = set account_identity_columns \<union> fst ` set account_config_columns"
      unfolding config_columns_declared set_append [symmetric] by (rule arg_cong [OF schema_only])
    then show ?thesis using ac made [OF m] True by fastforce
  next
    case False
    then have "cols_of d' n = cols_of d2 n" using ac by (simp add: cols_of_def)
    then show ?thesis using made [OF m] False by auto
  qed
  have "tabs d' old_contacts = tabs d2 old_contacts" using ac by simp
  then show "tabs d' old_contacts = None" using copy_shape [OF assms(3)] by simp
qed

lemma migrate_noop:
  assumes "db_current d"
  shows "migrate no_faults pre d = (Inr (), d)"
proof -
  obtain cs where "cols_of d ''account'' = Some cs" "fst ` set account_config_columns \<subseteq> set cs"
    using db_current_columns [OF assms] by blast
  then have "migrateAccountConfigColumnsIfNeeded no_faults d = (Inr (), d)"
    by (simp add: migrateAccountConfigColumnsIfNeeded_def add_columns_current)
  moreover have "kSchemaSql d = d"
    using db_current_tabs [OF assms] by (rule kSchemaSql_current)
  ultimately show ?thesis
    using assms by (simp add: migrate_def apply_schema_def rename_current copy_current)
qed

section \<open>Contacts survive\<close>

lemma insert_synced_rows:
  assumes "insert_synced mk d = Inr d'" "tabs d ''synced_contact'' \<noteq> None"
  shows "rows_of d' ''synced_contact'' = rows_of d ''synced_contact'' @ [mk (autoinc d + 1)]
    \<and> autoinc d' = autoinc d + 1 \<and> tabs d' ''synced_contact'' \<noteq> None
    \<and> (\<forall>n. n \<noteq> ''synced_contact'' \<longrightarrow> tabs d' n = tabs d n)"
  using assms
  by (auto simp: insert_synced_def sql_insert_def rows_of_def put_rows_def split: sum.splits option.splits)

lemma insert_all_rows:
  assumes "insert_all rs d = Inr d'" "tabs d ''synced_contact'' \<noteq> None"
  shows "rows_of d' ''synced_contact'' = rows_of d ''synced_contact''
      @ map (\<lambda>(i, r). migrated_contact (autoinc d + 1 + int i) r) (enumerate 0 rs)"
  using assms
proof (induction rs arbitrary: d)
  case (Cons r rs)
  obtain d1 where d1: "insert_synced (\<lambda>i. migrated_contact i r) d = Inr d1" "insert_all rs d1 = Inr d'"
    using Cons.prems(1) by (auto split: sum.splits)
  note s = insert_synced_rows [OF d1(1) Cons.prems(2)]
  have "map (\<lambda>(i, r). migrated_contact (autoinc d + 1 + int i) r) (enumerate 1 rs) =
      map (\<lambda>(i, r). migrated_contact (autoinc d1 + 1 + int i) r) (enumerate 0 rs)"
    using s by (auto intro!: nth_equalityI simp: nth_enumerate_eq add.assoc)
  then show ?case
    using Cons.IH [OF d1(2)] s by simp
qed simp

lemma clash_migrated: "c \<in> {''e164'', ''aci''} \<Longrightarrow> clash c (migrated_contact i r) (migrated_contact j q) = clash c r q"
  by (auto simp: clash_def migrated_contact_def)

lemma insert_all_ok:
  assumes "tabs d ''synced_contact'' \<noteq> None" "list_all (\<lambda>r. fk_error d ''synced_contact'' r = None) rs" "no_clashes rs"
    "\<forall>r \<in> set rs. \<forall>q \<in> set (rows_of d ''synced_contact''). \<exists>j p. q = migrated_contact j p \<and> \<not> clash ''e164'' r p \<and> \<not> clash ''aci'' r p"
  shows "\<exists>d'. insert_all rs d = Inr d'"
  using assms
proof (induction rs arbitrary: d)
  case (Cons r rs)
  let ?r = "migrated_contact (autoinc d + 1) r"
  have "\<not> list_ex (clash c ?r) (rows_of d ''synced_contact'')" if "c \<in> {''e164'', ''aci''}" for c
    using Cons.prems(4) that by (fastforce simp: list_ex_iff clash_migrated)
  moreover have "fk_error d ''synced_contact'' ?r = None" using Cons.prems(2) by (simp add: fk_error_def migrated_contact_def)
  ultimately obtain d1 where d1: "insert_synced (\<lambda>i. migrated_contact i r) d = Inr d1"
    by (simp add: insert_synced_def sql_insert_def first_error_def check_error_def unique_error_def)
  note s = insert_synced_rows [OF d1 Cons.prems(1)]
  have "fk_error d1 n q = fk_error d n q" for n q using s by (simp add: fk_error_def rows_of_def)
  then have "\<exists>d'. insert_all rs d1 = Inr d'"
    using Cons.prems s by (intro Cons.IH) (auto simp: list_all_iff, blast)
  then show ?case using d1 by simp
qed simp

lemma migrated_contact_columns: "map (migrated_contact i r) contact_columns = map r contact_columns"
  by (simp add: migrated_contact_def contact_columns_def)

section \<open>Properties\<close>

lemma add_columns_total:
  assumes "tabs d n \<noteq> None"
  shows "\<exists>d'. add_columns no_faults n cds d = (Inr (), d')"
  using assms
proof (induction cds arbitrary: d)
  case (Cons cd cds)
  then obtain t where t: "tabs d n = Some t"
    by blast
  define d1 where "d1 = snd (addColumnIfMissing no_faults n cd d)"
  have a: "addColumnIfMissing no_faults n cd d = (Inr (), d1)" "tabs d1 n \<noteq> None"
    by (auto simp: d1_def addColumnIfMissing_def t Let_def)
  then show ?case
    using Cons.IH by simp
qed simp

lemma rename_total:
  "\<exists>d1. renameOldSyncedContactTableIfNeeded no_faults d = (Inr (), d1) \<and>
    d1 = (if cols_of d ''synced_contact'' = None \<or> ''id'' \<in> set (the (cols_of d ''synced_contact'')) then d else rename_table ''synced_contact'' old_contacts d)"
  by (auto simp: renameOldSyncedContactTableIfNeeded_def bindS_def liftR_def tableExists_def cols_of_def)

lemma copy_total:
  assumes "older_shape d" "contacts_ok d" "renameOldSyncedContactTableIfNeeded no_faults d = (Inr (), d1)"
  shows "\<exists>d2. copyOldSyncedContactDataIfPresent no_faults (kSchemaSql d1) = (Inr (), d2)"
proof (cases "cols_of d ''synced_contact'' = None \<or> ''id'' \<in> set (the (cols_of d ''synced_contact''))")
  case True
  then have "tabs d1 old_contacts = None" using rename_total [of d] assms(1,3) by (simp add: older_shape_def)
  moreover have "map_of schema old_contacts = None" by (simp add: schema_def)
  ultimately show ?thesis
    by (simp add: copyOldSyncedContactDataIfPresent_def bindS_def liftR_def tableExists_def kSchemaSql_tabs)
next
  case False
  let ?s = "kSchemaSql d1"
  have d1: "d1 = rename_table ''synced_contact'' old_contacts d" using rename_total [of d] assms(3) False by simp
  obtain u where u: "tabs d ''synced_contact'' = Some u" using False by (auto simp: cols_of_def)
  have move: "contacts_to_move d = rows_of ?s old_contacts" "tabs ?s old_contacts \<noteq> None"
    using False u by (auto simp: contacts_to_move_def d1 rows_of_def kSchemaSql_tabs rename_table_def)
  have new: "tabs ?s ''synced_contact'' \<noteq> None" "rows_of ?s ''synced_contact'' = []"
    by (simp_all add: d1 kSchemaSql_tabs rename_table_def schema_def rows_of_def)
  have "rows_of ?s ''account'' = rows_of d ''account''"
    by (simp add: d1 kSchemaSql_tabs rename_table_def rows_of_def schema_def split: option.split)
  then have "fk_error ?s ''synced_contact'' r = fk_error d ''synced_contact'' r" for r by (simp add: fk_error_def)
  then have "\<exists>d'. insert_all (rows_of ?s old_contacts) ?s = Inr d'"
    using assms(2) move(1) new by (intro insert_all_ok) (simp_all add: contacts_ok_def)
  then show ?thesis
    using move(2) by (auto simp: copyOldSyncedContactDataIfPresent_def bindS_def liftR_def tableExists_def)
qed

text \<open>
  C28: opening an older database, with contacts that fit the new table, succeeds and brings it to the current shape, every table of \<open>schema.sql\<close> with every column; opening
  it again changes nothing. The engine has no faults here.
\<close>

theorem migrate_idempotent:
  assumes "older_shape d" "contacts_ok d"
  shows "\<exists>d'. migrate no_faults pre d = (Inr (), d') \<and> db_current d' \<and> migrate no_faults pre2 d' = (Inr (), d')"
proof -
  obtain d1 where d1: "renameOldSyncedContactTableIfNeeded no_faults d = (Inr (), d1)" using rename_total by blast
  obtain d2 where d2: "copyOldSyncedContactDataIfPresent no_faults (kSchemaSql d1) = (Inr (), d2)" using copy_total [OF assms d1] ..
  have "tabs (kSchemaSql d1) ''account'' \<noteq> None" by (rule kSchemaSql_all) (simp add: schema_def)
  then have "tabs d2 ''account'' \<noteq> None" using copy_shape [OF d2] by (simp flip: cols_of_None)
  from add_columns_total [OF this] obtain d' where d': "add_columns no_faults ''account'' account_config_columns d2 = (Inr (), d')" ..
  have "migrate no_faults pre d = (Inr (), d')"
    using d1 d2 d' by (simp add: migrate_def apply_schema_def migrateAccountConfigColumnsIfNeeded_def)
  moreover have "db_current d'" using assms(1) d1 d2 d' by (rule migrated_shape)
  ultimately show ?thesis using migrate_noop by blast
qed

text \<open>A database of the old shape: no configuration columns, contacts keyed by number.\<close>

definition old_db :: db where
  "old_db = \<lparr>tabs = [''account'' \<mapsto> \<lparr>cols = account_identity_columns,
        rows = [set_cols (\<lambda>_. SNull) ((''account_name'', SText ''a'') # identity_values sample_account)]\<rparr>,
      ''synced_contact'' \<mapsto> \<lparr>cols = contact_columns,
        rows = [set_cols (\<lambda>_. SNull) [(''account_name'', SText ''a''), (''e164'', SText ''+15550101''),
          (''aci'', SText ''aci-2''), (''pni'', SText []), (''profile_key'', SBlob []), (''synced_at'', SInt 9)]]\<rparr>],
     autoinc = 0\<rparr>"

lemma old_db_older: "older_shape old_db" "contacts_ok old_db"
proof -
  have "account_identity_columns \<noteq> []" by (simp add: account_identity_columns_def)
  then show "older_shape old_db" by (simp add: older_shape_def old_db_def cols_of_def schema_def contact_columns_def)
  show "contacts_ok old_db"
    by (simp add: contacts_ok_def contacts_to_move_def old_db_def cols_of_def rows_of_def contact_columns_def fk_error_def)
qed

theorem migrate_idempotent_witness:
  "\<exists>d'. migrate no_faults [] old_db = (Inr (), d') \<and> db_current d' \<and> \<not> db_current old_db"
  using migrate_idempotent [OF old_db_older, of "[]"] by (auto simp: db_current_def schema_def old_db_def cols_of_def)

lemma migrate_old: "\<exists>d'. migrate no_faults pre old_db = (Inr (), d')"
proof -
  obtain d1 d2 where d: "renameOldSyncedContactTableIfNeeded no_faults old_db = (Inr (), d1)"
      "copyOldSyncedContactDataIfPresent no_faults (kSchemaSql d1) = (Inr (), d2)"
    using copy_total [OF old_db_older] rename_total by blast
  have "tabs (kSchemaSql d1) ''account'' \<noteq> None" by (rule kSchemaSql_all) (simp add: schema_def)
  then have "tabs d2 ''account'' \<noteq> None" using copy_shape [OF d(2)] by (simp flip: cols_of_None)
  then show ?thesis using d add_columns_total by (simp add: migrate_def apply_schema_def migrateAccountConfigColumnsIfNeeded_def)
qed

text \<open>
  Every contact of the old table is in the new one after the migration, in
  order, with its account, number, ACI, PNI, profile key and sync time unchanged.
\<close>

theorem migrate_keeps_contacts:
  assumes "migrate no_faults pre d = (Inr (), d')" "tabs d old_contacts = None"
    and "cols_of d ''synced_contact'' = Some cs" "''id'' \<notin> set cs"
  shows "map (\<lambda>r. map r contact_columns) (rows_of d' ''synced_contact'') =
    map (\<lambda>r. map r contact_columns) (rows_of d ''synced_contact'')"
proof -
  let ?r = "rename_table ''synced_contact'' old_contacts d"
  let ?s = "kSchemaSql ?r"
  have ren: "renameOldSyncedContactTableIfNeeded no_faults d = (Inr (), ?r)"
    using assms(3,4)
    by (auto simp: renameOldSyncedContactTableIfNeeded_def bindS_def liftR_def tableExists_def cols_of_def)
  obtain d2 where d2: "copyOldSyncedContactDataIfPresent no_faults ?s = (Inr (), d2)"
    and d': "add_columns no_faults ''account'' account_config_columns d2 = (Inr (), d')"
    using assms(1) ren
    by (auto simp: migrate_def apply_schema_def migrateAccountConfigColumnsIfNeeded_def elim!: bindS_cases)
  have old: "rows_of ?s old_contacts = rows_of d ''synced_contact''" "tabs ?s old_contacts \<noteq> None"
    using assms(3) by (auto simp: rows_of_def kSchemaSql_tabs rename_table_def cols_of_def)
  have new: "tabs ?s ''synced_contact'' \<noteq> None" "rows_of ?s ''synced_contact'' = []"
    by (simp_all add: kSchemaSql_tabs rename_table_def schema_def rows_of_def)
  obtain d3 where d3: "insert_all (rows_of d ''synced_contact'') ?s = Inr d3"
      "d2 = d3\<lparr>tabs := (tabs d3)(old_contacts := None)\<rparr>"
    using d2 old by (auto simp: copyOldSyncedContactDataIfPresent_def bindS_def liftR_def tableExists_def split: sum.splits)
  have "rows_of d2 ''synced_contact'' = rows_of d3 ''synced_contact''"
    by (simp add: d3(2) rows_of_def)
  moreover have "tabs d2 ''account'' \<noteq> None"
    using kSchemaSql_all [of "''account''" ?r] copy_shape [OF d2] by (simp add: schema_def flip: cols_of_None)
  then have "rows_of d' ''synced_contact'' = rows_of d2 ''synced_contact''"
    using add_columns_shape [OF d'] by (simp add: rows_of_def)
  ultimately show ?thesis
    using insert_all_rows [OF d3(1) new(1)] new(2)
    by (auto intro!: nth_equalityI simp: nth_enumerate_eq migrated_contact_columns)
qed

theorem migrate_keeps_contacts_witness:
  "map (\<lambda>r. map r contact_columns) (rows_of (snd (migrate no_faults [] old_db)) ''synced_contact'') =
    map (\<lambda>r. map r contact_columns) (rows_of old_db ''synced_contact'')"
proof (rule migrate_keeps_contacts [where cs = contact_columns])
  show "migrate no_faults [] old_db = (Inr (), snd (migrate no_faults [] old_db))"
    using migrate_old [of "[]"] by auto
qed (simp_all add: old_db_def cols_of_def contact_columns_def)

text \<open>
  The copy of the old contacts and the drop of the old table are separate
  statements outside a transaction. A process that stops between them leaves a
  database that can no longer be opened: the next start copies the first contact
  again and the unique index refuses it.
\<close>

theorem interrupted_migration_stuck:
  assumes "tabs d old_contacts = Some t" "rows t = r # rs"
    and "cols_of d ''synced_contact'' = Some cs" "''id'' \<in> set cs"
    and "migrated_contact i r \<in> set (rows_of d ''synced_contact'')"
    and "nonempty_text (r ''e164'')" "r ''account_name'' \<noteq> SNull"
  shows "migrate no_faults pre d = (Inl (Runtime_error
     (''failed to migrate synced_contact data to new schema: '' @
      ''UNIQUE constraint failed: synced_contact.account_name, synced_contact.e164'')), kSchemaSql d)"
proof -
  let ?s = "kSchemaSql d"
  have ren: "renameOldSyncedContactTableIfNeeded no_faults d = (Inr (), d)"
    using assms(3,4)
    by (auto simp: renameOldSyncedContactTableIfNeeded_def bindS_def liftR_def tableExists_def cols_of_def)
  have sy: "rows_of ?s ''synced_contact'' = rows_of d ''synced_contact''"
    and old: "rows_of ?s old_contacts = r # rs" "tabs ?s old_contacts \<noteq> None"
    using assms(1-3) by (auto simp: rows_of_def kSchemaSql_tabs cols_of_def)
  have "clash ''e164'' (migrated_contact j r) (migrated_contact i r)" for j
    using assms(6,7) by (simp add: clash_def migrated_contact_def nonempty_text_def)
  then have "list_ex (clash ''e164'' (migrated_contact j r)) (rows_of ?s ''synced_contact'')" for j
    using assms(5) by (auto simp: list_ex_iff sy)
  then have "insert_all (r # rs) ?s =
      Inl ''UNIQUE constraint failed: synced_contact.account_name, synced_contact.e164''"
    by (simp add: insert_synced_def sql_insert_def check_error_def unique_error_def first_error_def)
  then have "copyOldSyncedContactDataIfPresent no_faults ?s = (Inl (Runtime_error
     (''failed to migrate synced_contact data to new schema: '' @
      ''UNIQUE constraint failed: synced_contact.account_name, synced_contact.e164'')), ?s)"
    using old by (simp add: copyOldSyncedContactDataIfPresent_def bindS_def liftR_def tableExists_def del: insert_all.simps)
  then show ?thesis
    using ren by (simp add: migrate_def apply_schema_def)
qed

definition old_row :: row where
  "old_row = set_cols (\<lambda>_. SNull) [(''account_name'', SText ''a''), (''e164'', SText ''+15550101''),
     (''aci'', SText ''aci-2''), (''pni'', SText []), (''profile_key'', SBlob []), (''synced_at'', SInt 9)]"

definition half_migrated :: db where
  "half_migrated = fresh_db\<lparr>tabs := (tabs fresh_db)(old_contacts \<mapsto> \<lparr>cols = contact_columns, rows = [old_row]\<rparr>,
     ''synced_contact'' \<mapsto> \<lparr>cols = [''id''], rows = [migrated_contact 1 old_row]\<rparr>)\<rparr>"

theorem interrupted_migration_stuck_witness:
  "fst (migrate no_faults [] half_migrated) = Inl (Runtime_error
     (''failed to migrate synced_contact data to new schema: '' @
      ''UNIQUE constraint failed: synced_contact.account_name, synced_contact.e164''))"
proof -
  have "migrate no_faults [] half_migrated = (Inl (Runtime_error
     (''failed to migrate synced_contact data to new schema: '' @
      ''UNIQUE constraint failed: synced_contact.account_name, synced_contact.e164'')), kSchemaSql half_migrated)"
    by (rule interrupted_migration_stuck [where r = old_row and i = 1 and cs = "[''id'']"
        and t = "\<lparr>cols = contact_columns, rows = [old_row]\<rparr>" and rs = "[]"])
      (simp_all add: half_migrated_def cols_of_def rows_of_def old_row_def nonempty_text_def)
  then show ?thesis
    by simp
qed

end
