(* ===== verification/Config.thy ===== *)
theory Config
  imports Migration
begin

text \<open>
  Model of \<open>daemon/Config.cpp\<close>: the INI file with the global settings, and the per
  account configuration that is read from the database row and validated. Text files are a map
  from paths to contents; the database is the disk of \<open>Storage\<close>.
\<close>

section \<open>INI files\<close>

type_synonym files = "string \<Rightarrow> string option"

definition fileExists :: "files \<Rightarrow> string \<Rightarrow> bool" where
  "fileExists fs path \<longleftrightarrow> fs path \<noteq> None"

definition is_blank :: "char \<Rightarrow> bool" where
  "is_blank c \<longleftrightarrow> c \<in> {CHR '' '', CHR 9, CHR 13, CHR 10}"

definition trim :: "string \<Rightarrow> string" where
  "trim s = rev (dropWhile is_blank (rev (dropWhile is_blank s)))"

text \<open>\<open>std::getline\<close> until end of file: a last line without its newline counts, an empty rest does not.\<close>

fun getlines :: "string \<Rightarrow> string \<Rightarrow> string list" where
  "getlines cur [] = (if cur = [] then [] else [cur])"
| "getlines cur (c # cs) = (if c = CHR 10 then cur # getlines [] cs else getlines (cur @ [c]) cs)"

definition lines_of :: "string \<Rightarrow> string list" where
  "lines_of s = getlines [] s"

type_synonym IniMap = "string \<Rightarrow> (string \<Rightarrow> string option) option"

definition ini_put :: "string \<Rightarrow> string \<Rightarrow> string \<Rightarrow> IniMap \<Rightarrow> IniMap" where
  "ini_put section key val m =
     m(section \<mapsto> (case m section of None \<Rightarrow> Map.empty | Some s \<Rightarrow> s)(key \<mapsto> val))"

definition parse_line :: "string \<Rightarrow> string \<times> IniMap \<Rightarrow> string \<times> IniMap" where
  "parse_line line st =
     (let trimmed = trim line; (section, result) = st in
      if trimmed = [] \<or> hd trimmed = CHR '';'' \<or> hd trimmed = CHR ''#'' then st
      else if hd trimmed = CHR ''['' \<and> last trimmed = CHR '']'' then (butlast (tl trimmed), result)
      else if CHR ''='' \<notin> set trimmed then st
      else (section, ini_put section (trim (takeWhile (\<lambda>c. c \<noteq> CHR ''='') trimmed))
              (trim (tl (dropWhile (\<lambda>c. c \<noteq> CHR ''='') trimmed))) result))"

definition parse_text :: "string \<Rightarrow> IniMap" where
  "parse_text s = snd (fold parse_line (lines_of s) ([], Map.empty))"

definition parseIni :: "files \<Rightarrow> string \<Rightarrow> IniMap result" where
  "parseIni fs path = (case fs path of
       None \<Rightarrow> Inl (Runtime_error (''cannot open config file: '' @ path))
     | Some s \<Rightarrow> Inr (parse_text s))"

definition getOr :: "IniMap \<Rightarrow> string \<Rightarrow> string \<Rightarrow> string \<Rightarrow> string" where
  "getOr ini section key fallback = (case ini section of None \<Rightarrow> fallback
     | Some sec \<Rightarrow> (case sec key of None \<Rightarrow> fallback | Some v \<Rightarrow> if v = [] then fallback else v))"

section \<open>Configuration records\<close>

record GlobalConfig =
  dbPath :: string
  dbKey :: string
  sipRegWatchdogSec :: uint32
  resolvedContactTtlSec :: uint32
  storageSyncIntervalSec :: uint32
  configPollIntervalSec :: uint32

definition default_global :: GlobalConfig where
  "default_global = \<lparr>dbPath = [], dbKey = [], sipRegWatchdogSec = 60, resolvedContactTtlSec = 86400,
     storageSyncIntervalSec = 43200, configPollIntervalSec = 30\<rparr>"

record AccountConfig =
  ac_name :: string
  ac_configVersion :: int
  ac_e164 :: string
  ac_serverUrl :: string
  ac_sipHost :: string
  ac_sipExtension :: string
  ac_sipPassword :: string
  ac_sipBridgeDestination :: string
  ac_sipBridgeDid :: string
  ac_sipSrtp :: string
  ac_sipTransport :: string
  ac_sipTlsCaFile :: string
  ac_sipTlsInsecure :: bool
  ac_outgoingCallTarget :: string
  ac_signalProxy :: string
  ac_signalCensorshipCircumvention :: bool

definition hasSip :: "AccountConfig \<Rightarrow> bool" where
  "hasSip c \<longleftrightarrow> ac_sipHost c \<noteq> []"

record DaemonConfig =
  dc_global :: GlobalConfig
  dc_accounts :: "AccountConfig list"

definition account_error :: "string \<Rightarrow> string \<Rightarrow> exn" where
  "account_error name msg = Runtime_error (''account '' @ [CHR 0x27] @ name @ [CHR 0x27] @ '': '' @ msg)"

definition accountConfigFromRecord :: "string \<Rightarrow> AccountRecord \<Rightarrow> AccountConfig result" where
  "accountConfigFromRecord name record =
     (if a_e164 record = [] then Inl (account_error name ''e164 is empty'')
      else
        let srtp = (if a_sip_srtp record = [] then ''disabled'' else a_sip_srtp record) in
        if srtp \<noteq> ''disabled'' \<and> srtp \<noteq> ''optional'' \<and> srtp \<noteq> ''mandatory''
        then Inl (account_error name (''sip_srtp must be disabled/optional/mandatory, got '' @ [CHR 0x27] @ srtp @ [CHR 0x27]))
        else
        let transport = (if a_sip_transport record = [] then ''udp'' else a_sip_transport record) in
        if transport \<noteq> ''udp'' \<and> transport \<noteq> ''tls''
        then Inl (account_error name (''sip_transport must be udp/tls, got '' @ [CHR 0x27] @ transport @ [CHR 0x27]))
        else
        let host = (if transport = ''tls'' \<and> a_sip_host record \<noteq> [] \<and> CHR '':'' \<notin> set (a_sip_host record)
               then a_sip_host record @ '':5061'' else a_sip_host record) in
        if transport = ''tls'' \<and> a_sip_tls_ca_file record = [] \<and> \<not> a_sip_tls_insecure record
        then Inl (account_error name (''sip_transport=tls needs either sip_tls_ca_file (pin the Asterisk server's certificate) or ''
               @ ''sip_tls_insecure=yes (skip verification entirely) - one of the two is required, not silently insecure by default''))
        else Inr \<lparr>ac_name = name, ac_configVersion = a_config_version record, ac_e164 = a_e164 record,
               ac_serverUrl = a_server_url record, ac_sipHost = host, ac_sipExtension = a_sip_extension record,
               ac_sipPassword = a_sip_password record, ac_sipBridgeDestination = a_sip_bridge_destination record,
               ac_sipBridgeDid = a_sip_bridge_did record, ac_sipSrtp = srtp, ac_sipTransport = transport,
               ac_sipTlsCaFile = a_sip_tls_ca_file record, ac_sipTlsInsecure = a_sip_tls_insecure record,
               ac_outgoingCallTarget = a_outgoing_call_target record, ac_signalProxy = a_signal_proxy record,
               ac_signalCensorshipCircumvention = a_signal_censorship_circumvention record\<rparr>)"

definition resolveConfigPath :: "files \<Rightarrow> string list \<Rightarrow> string" where
  "resolveConfigPath fs argv =
     (if 1 < length argv \<and> argv ! 1 \<noteq> [] then argv ! 1
      else if fileExists fs ''/etc/signal2sip/signal2sip.conf'' then ''/etc/signal2sip/signal2sip.conf''
      else ''./signal2sip.conf'')"

definition resolveCaCertPath :: "files \<Rightarrow> string" where
  "resolveCaCertPath fs =
     (if fileExists fs ''/etc/signal2sip/certs/signal-root-ca.pem'' then ''/etc/signal2sip/certs/signal-root-ca.pem''
      else ''./certs/signal-root-ca.pem'')"

text \<open>\<open>static_cast<unsigned>(std::stoul(...))\<close>: the 64-bit value is truncated to 32 bits.\<close>

definition unsigned_setting :: "IniMap \<Rightarrow> string \<Rightarrow> string \<Rightarrow> uint32 result" where
  "unsigned_setting ini key dflt = bindR (stoul (getOr ini ''global'' key dflt)) (\<lambda>w. Inr (ucast w))"

definition load_global :: "IniMap \<Rightarrow> GlobalConfig result" where
  "load_global ini =
     (let path = getOr ini ''global'' ''db_path'' []; key = getOr ini ''global'' ''db_key'' [] in
      if path = [] then Inl (Runtime_error ''signal2sip.conf: [global] db_path is required'')
      else if key = [] then Inl (Runtime_error ''signal2sip.conf: [global] db_key is required'')
      else bindR (unsigned_setting ini ''sip_reg_watchdog_sec'' ''60'') (\<lambda>watchdog.
           bindR (unsigned_setting ini ''resolved_contact_ttl_sec'' ''86400'') (\<lambda>ttl.
           bindR (unsigned_setting ini ''storage_sync_interval_sec'' ''43200'') (\<lambda>sync.
           bindR (unsigned_setting ini ''config_poll_interval_sec'' ''30'') (\<lambda>poll.
           Inr \<lparr>dbPath = path, dbKey = key, sipRegWatchdogSec = watchdog, resolvedContactTtlSec = ttl,
                storageSyncIntervalSec = sync, configPollIntervalSec = poll\<rparr>)))))"

text \<open>One account of the list: a row that cannot be opened, loaded or validated is skipped.\<close>

definition load_one :: "sqlite \<Rightarrow> GlobalConfig \<Rightarrow> AccountSummary \<Rightarrow> disk \<Rightarrow> AccountConfig list \<times> disk" where
  "load_one q g summary disk =
     (if \<not> s_enabled summary then ([], disk)
      else case Storage q (dbPath g) (dbKey g) disk of
          (Inl _, disk') \<Rightarrow> ([], disk')
        | (Inr _, disk') \<Rightarrow>
            (case bindR (loadAccount q (s_account_name summary) (f_db (the (disk' (dbPath g)))))
                 (accountConfigFromRecord (s_account_name summary)) of
               Inl _ \<Rightarrow> ([], disk') | Inr c \<Rightarrow> ([c], disk')))"

fun load_accounts :: "sqlite \<Rightarrow> GlobalConfig \<Rightarrow> AccountSummary list \<Rightarrow> disk \<Rightarrow> AccountConfig list \<times> disk" where
  "load_accounts q g [] disk = ([], disk)"
| "load_accounts q g (s # ss) disk =
     (let (c, disk1) = load_one q g s disk; (cs, disk2) = load_accounts q g ss disk1 in (c @ cs, disk2))"

definition DaemonConfig_load :: "sqlite \<Rightarrow> files \<Rightarrow> string \<Rightarrow> (disk, DaemonConfig) effect" where
  "DaemonConfig_load q fs path disk =
     (case bindR (parseIni fs path) load_global of
        Inl e \<Rightarrow> (Inl e, disk)
      | Inr g \<Rightarrow>
         (case listAllAccounts q (dbPath g) (dbKey g) disk of
            (Inl e, disk1) \<Rightarrow> (Inl e, disk1)
          | (Inr ss, disk1) \<Rightarrow>
             (let (cs, disk2) = load_accounts q g ss disk1
              in (Inr \<lparr>dc_global = g, dc_accounts = cs\<rparr>, disk2))))"

definition loadGlobalConfigLenient :: "files \<Rightarrow> string \<Rightarrow> GlobalConfig result" where
  "loadGlobalConfigLenient fs path =
     (if \<not> fileExists fs path then Inr default_global
      else bindR (parseIni fs path) (\<lambda>ini.
        Inr (default_global\<lparr>dbPath := getOr ini ''global'' ''db_path'' [], dbKey := getOr ini ''global'' ''db_key'' []\<rparr>)))"

section \<open>Reading INI text\<close>

lemma trim_blank_ends: "trim s = [] \<or> (\<not> is_blank (hd (trim s)) \<and> \<not> is_blank (last (trim s)))"
proof (cases "trim s = []")
  case False
  let ?t = "dropWhile is_blank s" and ?u = "dropWhile is_blank (rev (dropWhile is_blank s))"
  have u: "?u \<noteq> []"
    using False by (simp add: trim_def)
  then have l: "\<not> is_blank (hd ?u)"
    by (rule hd_dropWhile)
  have "?t \<noteq> []"
    using u by (metis dropWhile.simps(1) rev.simps(1))
  then have h: "\<not> is_blank (hd ?t)"
    by (rule hd_dropWhile)
  obtain v where "rev ?t = v @ ?u"
    by (metis takeWhile_dropWhile_id)
  then have "?t = rev ?u @ rev v"
    by (metis rev_append rev_rev_ident)
  then have "hd ?t = hd (rev ?u)"
    using u by (metis hd_append2 rev_is_Nil_conv)
  then show ?thesis
    using h l u by (simp add: trim_def last_rev)
qed simp

lemma trim_id: "s = [] \<or> (\<not> is_blank (hd s) \<and> \<not> is_blank (last s)) \<Longrightarrow> trim s = s"
proof (cases "s = []")
  case False
  assume "s = [] \<or> (\<not> is_blank (hd s) \<and> \<not> is_blank (last s))"
  with False have a: "\<not> is_blank (hd s)" "\<not> is_blank (last s)"
    by auto
  have "dropWhile is_blank s = s"
    using a(1) False by (cases s) auto
  moreover have "dropWhile is_blank (rev s) = rev s"
    using a(2) False by (cases "rev s") (auto simp: hd_rev [symmetric])
  ultimately show ?thesis
    by (simp add: trim_def)
qed (simp add: trim_def)

lemma trim_pad: "trim (CHR '' '' # s) = trim s" "trim (s @ [CHR '' '']) = trim s"
proof -
  show "trim (CHR '' '' # s) = trim s"
    by (simp add: trim_def is_blank_def)
  show "trim (s @ [CHR '' '']) = trim s"
  proof (cases "\<forall>c \<in> set s. is_blank c")
    case True
    then have "dropWhile is_blank (s @ [CHR '' '']) = []" "dropWhile is_blank s = []"
      by (auto simp: dropWhile_eq_Nil_conv is_blank_def)
    then show ?thesis
      unfolding trim_def by (simp only: rev.simps dropWhile.simps)
  next
    case False
    then obtain c where "c \<in> set s" "\<not> is_blank c"
      by blast
    then have "dropWhile is_blank (s @ [CHR '' '']) = dropWhile is_blank s @ [CHR '' '']"
      by (rule dropWhile_append1)
    then show ?thesis
      by (simp add: trim_def) (simp add: is_blank_def)
  qed
qed

lemma getlines_line:
  "CHR 10 \<notin> set l \<Longrightarrow> getlines cur (l @ CHR 10 # s) = (cur @ l) # getlines [] s"
  by (induction l arbitrary: cur) auto

lemma lines_of_line [simp]: "CHR 10 \<notin> set l \<Longrightarrow> lines_of (l @ CHR 10 # s) = l # lines_of s"
  by (simp add: lines_of_def getlines_line)

lemma lines_of_Nil [simp]: "lines_of [] = []"
  by (simp add: lines_of_def)

text \<open>A key or value that survives a line of the file: no newline, no blank at its ends.\<close>

definition clean :: "string \<Rightarrow> bool" where
  "clean s \<longleftrightarrow> CHR 10 \<notin> set s \<and> trim s = s"

definition clean_key :: "string \<Rightarrow> bool" where
  "clean_key k \<longleftrightarrow> clean k \<and> k \<noteq> [] \<and> CHR ''='' \<notin> set k \<and> hd k \<notin> {CHR '';'', CHR ''#'', CHR ''[''}"

definition ini_entry :: "string \<times> string \<Rightarrow> string" where
  "ini_entry kv = fst kv @ '' = '' @ snd kv"

lemma parse_entry:
  assumes "clean_key k" "clean v"
  shows "parse_line (ini_entry (k, v)) (sec, m) = (sec, ini_put sec k v m)"
proof -
  have k: "k \<noteq> []" "\<not> is_blank (hd k)" "CHR ''='' \<notin> set k" "trim k = k"
    using assms(1) trim_blank_ends [of k] by (auto simp: clean_key_def clean_def)
  let ?t = "trim (k @ CHR '' '' # CHR ''='' # CHR '' '' # v)"
  have "\<exists>w. ?t = k @ CHR '' '' # CHR ''='' # w \<and> trim w = v"
  proof (cases "v = []")
    case True
    have "trim (k @ '' = '') = trim ((k @ '' ='') @ [CHR '' ''])"
      by simp
    also have "\<dots> = trim (k @ '' ='')"
      by (rule trim_pad)
    also have "\<dots> = k @ '' =''"
      using k by (intro trim_id) (simp add: is_blank_def)
    finally show ?thesis
      using True by (simp add: trim_def)
  next
    case False
    then have "\<not> is_blank (last v)"
      using assms(2) trim_blank_ends [of v] by (auto simp: clean_def)
    then have "?t = k @ CHR '' '' # CHR ''='' # CHR '' '' # v"
      using k False by (intro trim_id) simp
    then show ?thesis
      using assms(2) by (auto simp: trim_pad clean_def)
  qed
  then obtain w where w: "?t = k @ CHR '' '' # CHR ''='' # w" "trim w = v"
    by blast
  have tk: "takeWhile (\<lambda>c. c \<noteq> CHR ''='') ?t = k @ [CHR '' '']" "dropWhile (\<lambda>c. c \<noteq> CHR ''='') ?t = CHR ''='' # w"
    using k(3) by (auto simp: w(1) takeWhile_append dropWhile_append)
  have "hd ?t = hd k" "?t \<noteq> []" "CHR ''='' \<in> set ?t"
    using k by (simp_all add: w(1))
  moreover have "hd k \<notin> {CHR '';'', CHR ''#'', CHR ''[''}"
    using assms(1) by (simp add: clean_key_def)
  ultimately show ?thesis
    using tk w(2) k(4) by (simp add: parse_line_def ini_entry_def Let_def trim_pad)
qed

lemma parse_entries:
  assumes "\<forall>kv \<in> set kvs. clean_key (fst kv) \<and> clean (snd kv)"
  shows "fold parse_line (map ini_entry kvs) (sec, m) = (sec, fold (\<lambda>(k, v). ini_put sec k v) kvs m)"
  using assms by (induction kvs arbitrary: m) (auto simp: parse_entry)

lemma getOr_ini_put: "getOr (ini_put s k v m) s' k' dflt =
    (if s' = s \<and> k' = k then if v = [] then dflt else v else getOr m s' k' dflt)"
  by (auto simp: getOr_def ini_put_def split: option.split)

lemma getOr_empty: "getOr Map.empty s k dflt = dflt"
  by (simp add: getOr_def)

lemma getOr_entries:
  "getOr (fold (\<lambda>(k, v). ini_put sec k v) kvs m) sec key dflt =
     (case map_of (rev kvs) key of None \<Rightarrow> getOr m sec key dflt | Some v \<Rightarrow> if v = [] then dflt else v)"
  by (induction kvs arbitrary: m) (auto simp: getOr_ini_put map_add_def split: option.splits)

text \<open>A file of one section.\<close>

definition ini_text :: "string \<Rightarrow> (string \<times> string) list \<Rightarrow> string" where
  "ini_text sec kvs = concat (map (\<lambda>l. l @ [CHR 10]) (([CHR ''[''] @ sec @ [CHR '']'']) # map ini_entry kvs))"

lemma lines_of_concat:
  "\<forall>l \<in> set ls. CHR 10 \<notin> set l \<Longrightarrow> lines_of (concat (map (\<lambda>l. l @ [CHR 10]) ls)) = ls"
  by (induction ls) simp_all

lemma getOr_ini_text:
  assumes "\<forall>kv \<in> set kvs. clean_key (fst kv) \<and> clean (snd kv)" "CHR 10 \<notin> set sec"
  shows "getOr (parse_text (ini_text sec kvs)) sec key dflt =
    (case map_of (rev kvs) key of None \<Rightarrow> dflt | Some v \<Rightarrow> if v = [] then dflt else v)"
proof -
  let ?h = "[CHR ''[''] @ sec @ [CHR '']'']"
  have "\<forall>l \<in> set (?h # map ini_entry kvs). CHR 10 \<notin> set l"
    using assms by (auto simp: clean_key_def clean_def ini_entry_def)
  then have l: "lines_of (ini_text sec kvs) = ?h # map ini_entry kvs"
    unfolding ini_text_def by (rule lines_of_concat)
  have "trim ?h = ?h"
    by (rule trim_id) (simp add: is_blank_def)
  then have "parse_line ?h ([], Map.empty) = (sec, Map.empty)"
    by (simp add: parse_line_def Let_def)
  then have "parse_text (ini_text sec kvs) = fold (\<lambda>(k, v). ini_put sec k v) kvs Map.empty"
    using parse_entries [OF assms(1)] by (simp add: parse_text_def l)
  then show ?thesis
    by (simp only: getOr_entries getOr_empty)
qed

text \<open>
  A setting that is written as \<open>key = value\<close> in a section is read back as
  written, the last writer of a key wins, and an absent or empty value falls back to
  the default.
\<close>

theorem ini_roundtrip:
  assumes "\<forall>kv \<in> set kvs. clean_key (fst kv) \<and> clean (snd kv)" "CHR 10 \<notin> set sec"
  shows "getOr (parse_text (ini_text sec kvs)) sec key dflt =
    (case map_of (rev kvs) key of None \<Rightarrow> dflt | Some v \<Rightarrow> if v = [] then dflt else v)"
  using assms by (rule getOr_ini_text)

theorem ini_roundtrip_witness:
  "getOr (parse_text (ini_text ''global'' [(''db_path'', ''/var/x.db''), (''db_key'', ''k y'')])) ''global'' ''db_key'' []
    = ''k y''"
  using ini_roundtrip [of "[(''db_path'', ''/var/x.db''), (''db_key'', ''k y'')]" "''global''" "''db_key''" "[]"]
  by (simp add: clean_key_def clean_def trim_def is_blank_def)

section \<open>Account configuration\<close>

definition valid_record :: "AccountRecord \<Rightarrow> bool" where
  "valid_record r \<longleftrightarrow> a_e164 r \<noteq> []
     \<and> a_sip_srtp r \<in> {[], ''disabled'', ''optional'', ''mandatory''}
     \<and> a_sip_transport r \<in> {[], ''udp'', ''tls''}
     \<and> (a_sip_transport r = ''tls'' \<longrightarrow> a_sip_tls_ca_file r \<noteq> [] \<or> a_sip_tls_insecure r)"

lemma accountConfig_valid_iff: "(\<exists>c. accountConfigFromRecord name r = Inr c) \<longleftrightarrow> valid_record r"
  by (auto simp: accountConfigFromRecord_def valid_record_def Let_def)

text \<open>
  A database row is accepted exactly when its number is set, its SRTP and
  transport settings are known (or empty, for the defaults), and TLS comes with a
  pinned certificate or an explicit opt-out; an accepted TLS account always has an
  explicit port when it has a host, so no TLS account is ever silently unverified.
\<close>

theorem accountConfigFromRecord_spec:
  "((\<exists>c. accountConfigFromRecord name r = Inr c) \<longleftrightarrow> valid_record r)
   \<and> (\<forall>c. accountConfigFromRecord name r = Inr c \<longrightarrow>
        ac_name c = name \<and> ac_e164 c = a_e164 r \<and> ac_configVersion c = a_config_version r
        \<and> ac_sipSrtp c \<in> {''disabled'', ''optional'', ''mandatory''} \<and> ac_sipTransport c \<in> {''udp'', ''tls''}
        \<and> (ac_sipTransport c = ''tls'' \<longrightarrow>
             (ac_sipTlsCaFile c \<noteq> [] \<or> ac_sipTlsInsecure c) \<and> (hasSip c \<longrightarrow> CHR '':'' \<in> set (ac_sipHost c)))
        \<and> (hasSip c \<longleftrightarrow> a_sip_host r \<noteq> []))"
  unfolding accountConfig_valid_iff
  by (auto simp: accountConfigFromRecord_def Let_def hasSip_def split: if_splits)

theorem accountConfigFromRecord_spec_witness:
  "(\<exists>c. accountConfigFromRecord ''a'' (sample_account\<lparr>a_sip_transport := ''tls'', a_sip_tls_insecure := True\<rparr>) = Inr c)
   \<and> \<not> (\<exists>c. accountConfigFromRecord ''a'' (sample_account\<lparr>a_sip_transport := ''tls''\<rparr>) = Inr c)"
  using accountConfigFromRecord_spec [of "''a''" "sample_account\<lparr>a_sip_transport := ''tls'', a_sip_tls_insecure := True\<rparr>"]
    accountConfigFromRecord_spec [of "''a''" "sample_account\<lparr>a_sip_transport := ''tls''\<rparr>"]
  by (simp add: valid_record_def sample_account_def)

section \<open>Loading the daemon's accounts\<close>

lemma open_current:
  assumes "disk path = Some f" "f_key f = key" "db_current (f_db f)"
  shows "open_db no_faults pre path key disk = (Inr (), disk)"
proof -
  have "disk(path \<mapsto> f\<lparr>f_db := f_db f\<rparr>) = disk"
    using assms(1) by (auto simp: fun_eq_iff)
  then show ?thesis
    using assms by (simp add: open_db_def migrate_noop)
qed

lemma db_current_account: "db_current d \<Longrightarrow> tabs d ''account'' \<noteq> None"
  using db_current_columns by (fastforce simp: cols_of_def)

lemma listAllAccounts_current:
  assumes "disk path = Some f" "f_key f = key" "db_current (f_db f)"
  shows "listAllAccounts no_faults path key disk =
    (Inr (sort_key s_account_name (map summary_of_row (rows_of (f_db f) ''account''))), disk)"
  using open_current [of disk path f key] assms db_current_account [OF assms(3)]
  by (simp add: listAllAccounts_def Stmt_def)

definition config_of_summary :: "db \<Rightarrow> AccountSummary \<Rightarrow> AccountConfig list" where
  "config_of_summary d s =
     (if \<not> s_enabled s then []
      else case bindR (loadAccount no_faults (s_account_name s) d) (accountConfigFromRecord (s_account_name s)) of
          Inl _ \<Rightarrow> [] | Inr c \<Rightarrow> [c])"

lemma load_accounts_current:
  assumes "disk (dbPath g) = Some f" "f_key f = dbKey g" "db_current (f_db f)"
  shows "load_accounts no_faults g ss disk = (concat (map (config_of_summary (f_db f)) ss), disk)"
proof (induction ss)
  case (Cons s ss)
  have "load_one no_faults g s disk = (config_of_summary (f_db f) s, disk)"
    using open_current [of disk "dbPath g" f "dbKey g"] assms
    by (simp add: load_one_def config_of_summary_def Storage_def split: sum.split)
  then show ?case
    using Cons by (simp add: Let_def)
qed simp

lemma account_row_of_row:
  assumes "r \<in> set (rows_of d ''account'')" "distinct (map (\<lambda>r. r ''account_name'') (rows_of d ''account''))"
    "r ''account_name'' = bindText name"
  shows "account_row name d = Some r"
proof -
  let ?m = "matches [(''account_name'', bindText name)]"
  obtain s where s: "account_row name d = Some s"
    using assms(1,3) by (metis account_row_def find_None_iff matches_simps bind_inj(2) not_None_eq)
  then have "s \<in> set (rows_of d ''account'')" "s ''account_name'' = bindText name"
    by (auto simp: account_row_def find_Some_iff in_set_conv_nth)
  then have "s = r"
    using assms by (auto simp: distinct_map inj_on_def)
  with s show ?thesis
    by simp
qed

lemma accountConfig_name: "accountConfigFromRecord n r = Inr c \<Longrightarrow> ac_name c = n"
  by (auto simp: accountConfigFromRecord_def Let_def split: if_splits)

lemma accountConfig_version: "accountConfigFromRecord n r = Inr c \<Longrightarrow> ac_configVersion c = a_config_version r"
  by (auto simp: accountConfigFromRecord_def Let_def split: if_splits)

lemma config_of_summary_name: "c \<in> set (config_of_summary d s) \<Longrightarrow> ac_name c = s_account_name s"
  by (cases "loadAccount no_faults (s_account_name s) d")
    (auto simp: config_of_summary_def dest: accountConfig_name [OF sym] split: if_splits sum.splits)

lemma sorted_configs:
  assumes "sorted (map s_account_name ss)"
  shows "sorted (map ac_name (concat (map (config_of_summary d) ss)))"
  using assms
proof (induction ss)
  case (Cons s ss)
  have "length (config_of_summary d s) \<le> 1"
    by (simp add: config_of_summary_def split: sum.split)
  then have "sorted (map ac_name (config_of_summary d s))"
    by (simp add: sorted01)
  moreover have "\<forall>c \<in> set (concat (map (config_of_summary d) ss)). s_account_name s \<le> ac_name c"
    using Cons.prems config_of_summary_name by fastforce
  ultimately show ?case
    using Cons config_of_summary_name by (auto simp: sorted_append)
qed simp

lemma config_of_row:
  assumes "r \<in> set (rows_of d ''account'')" "distinct (map (\<lambda>r. r ''account_name'') (rows_of d ''account''))"
    "r ''account_name'' = bindText name" "tabs d ''account'' \<noteq> None"
  shows "c \<in> set (config_of_summary d (summary_of_row r)) \<longleftrightarrow>
    a_enabled (account_of_row r) \<and> accountConfigFromRecord name (account_of_row r) = Inr c"
proof -
  have "loadAccount no_faults name d = Inr (account_of_row r)"
    using account_row_of_row [OF assms(1-3)] assms(4) by (simp add: loadAccount_row)
  then show ?thesis
    using assms(3) by (auto simp: config_of_summary_def summary_of_row_def account_of_row_def split: sum.split)
qed

definition loaded_configs :: "db \<Rightarrow> AccountConfig list" where
  "loaded_configs d = concat (map (config_of_summary d) (sort_key s_account_name (map summary_of_row (rows_of d ''account''))))"

lemma load_current:
  assumes "bindR (parseIni fs path) load_global = Inr g" "disk (dbPath g) = Some f" "f_key f = dbKey g" "db_current (f_db f)"
  shows "DaemonConfig_load no_faults fs path disk = (Inr \<lparr>dc_global = g, dc_accounts = loaded_configs (f_db f)\<rparr>, disk)"
  using assms listAllAccounts_current [of disk "dbPath g" f "dbKey g"] load_accounts_current [of disk g f]
  by (simp add: DaemonConfig_load_def loaded_configs_def)

text \<open>The configuration an account name has in the database.\<close>

definition configured :: "string \<Rightarrow> db \<Rightarrow> AccountConfig option" where
  "configured x d = (case account_row x d of None \<Rightarrow> None | Some r \<Rightarrow>
     if a_enabled (account_of_row r) then (case accountConfigFromRecord x (account_of_row r) of Inl _ \<Rightarrow> None | Inr c \<Rightarrow> Some c) else None)"

definition named_rows :: "db \<Rightarrow> bool" where
  "named_rows d \<longleftrightarrow> distinct (map (\<lambda>r. r ''account_name'') (rows_of d ''account'')) \<and>
     (\<forall>r \<in> set (rows_of d ''account''). \<exists>n. r ''account_name'' = bindText n)"

lemma named_rows_map:
  assumes "rows_of d' ''account'' = map upd (rows_of d ''account'')" "\<And>r. upd r ''account_name'' = r ''account_name''" "named_rows d"
  shows "named_rows d'"
  using assms by (simp add: named_rows_def comp_def)

lemma named_rows_config:
  assumes "saveAccountConfig q name a d = Inr d'" "named_rows d"
  shows "named_rows d'"
proof (rule named_rows_map [OF _ _ assms(2)])
  show "rows_of d' ''account'' = map (\<lambda>r. if matches [(''account_name'', bindText name)] r then config_update a r else r) (rows_of d ''account'')"
    using saveAccountConfig_rows [OF assms(1)] by simp
  show "(if matches [(''account_name'', bindText name)] r then config_update a r else r) ''account_name'' = r ''account_name''" for r
    by (simp add: config_update_def config_values_def)
qed

lemma loaded_iff:
  assumes "named_rows d" "tabs d ''account'' \<noteq> None"
  shows "c \<in> set (loaded_configs d) \<longleftrightarrow> (\<exists>x. configured x d = Some c)"
proof
  assume "c \<in> set (loaded_configs d)"
  then obtain r where r: "r \<in> set (rows_of d ''account'')" "c \<in> set (config_of_summary d (summary_of_row r))"
    by (auto simp: loaded_configs_def)
  then obtain x where x: "r ''account_name'' = bindText x" using assms(1) by (auto simp: named_rows_def)
  have "account_row x d = Some r" using account_row_of_row [OF r(1) _ x] assms(1) by (simp add: named_rows_def)
  moreover have "a_enabled (account_of_row r) \<and> accountConfigFromRecord x (account_of_row r) = Inr c"
    using config_of_row [OF r(1) _ x assms(2)] r(2) assms(1) by (simp add: named_rows_def)
  ultimately have "configured x d = Some c" by (simp add: configured_def)
  then show "\<exists>x. configured x d = Some c" ..
next
  assume "\<exists>x. configured x d = Some c"
  then obtain x where x: "configured x d = Some c" ..
  then obtain r where r: "account_row x d = Some r" by (cases "account_row x d") (simp_all add: configured_def)
  with x have en: "a_enabled (account_of_row r)" "accountConfigFromRecord x (account_of_row r) = Inr c"
    by (simp_all add: configured_def split: if_splits sum.splits)
  have m: "r \<in> set (rows_of d ''account'')" "r ''account_name'' = bindText x"
    using r by (auto simp: account_row_def find_Some_iff in_set_conv_nth)
  then have "c \<in> set (config_of_summary d (summary_of_row r))"
    using config_of_row [OF m(1) _ m(2) assms(2)] en assms(1) by (simp add: named_rows_def)
  with m(1) show "c \<in> set (loaded_configs d)" by (auto simp: loaded_configs_def)
qed

lemma configured_name: "configured x d = Some c \<Longrightarrow> ac_name c = x"
  by (simp add: configured_def split: option.splits if_splits sum.splits) (auto dest: accountConfig_name)

lemma loaded_find:
  assumes "named_rows d" "tabs d ''account'' \<noteq> None"
  shows "find (\<lambda>c. ac_name c = x) (loaded_configs d) = configured x d"
proof (cases "configured x d")
  case None
  then have "c \<notin> set (loaded_configs d) \<or> ac_name c \<noteq> x" for c
    using loaded_iff [OF assms, of c] configured_name by fastforce
  with None show ?thesis by (simp add: find_None_iff)
next
  case (Some c)
  then have "c \<in> set (loaded_configs d)" "ac_name c = x" using loaded_iff [OF assms] configured_name by blast+
  then obtain c' where c': "find (\<lambda>c. ac_name c = x) (loaded_configs d) = Some c'"
    by (cases "find (\<lambda>c. ac_name c = x) (loaded_configs d)") (auto simp: find_None_iff)
  then have "c' \<in> set (loaded_configs d)" "ac_name c' = x" by (auto simp: find_Some_iff)
  then have "configured x d = Some c'" using loaded_iff [OF assms] configured_name by blast
  with c' show ?thesis by simp
qed

text \<open>
  With a readable database of the current shape, \<open>DaemonConfig::load\<close> returns exactly the
  enabled accounts whose configuration is valid, ordered by name: a disabled or
  misconfigured account is left out and never keeps another one from running.
\<close>

theorem load_enabled_valid_accounts:
  assumes "bindR (parseIni fs path) load_global = Inr g"
    and "disk (dbPath g) = Some f" "f_key f = dbKey g" "db_current (f_db f)"
    and "distinct (map (\<lambda>r. r ''account_name'') (rows_of (f_db f) ''account''))"
    and "\<forall>r \<in> set (rows_of (f_db f) ''account''). \<exists>n. r ''account_name'' = bindText n"
  shows "\<exists>cs. DaemonConfig_load no_faults fs path disk = (Inr \<lparr>dc_global = g, dc_accounts = cs\<rparr>, disk)
    \<and> sorted (map ac_name cs)
    \<and> (\<forall>c. c \<in> set cs \<longleftrightarrow> (\<exists>r \<in> set (rows_of (f_db f) ''account''). \<exists>n. r ''account_name'' = bindText n
          \<and> a_enabled (account_of_row r) \<and> accountConfigFromRecord n (account_of_row r) = Inr c))"
proof -
  let ?d = "f_db f"
  let ?ss = "sort_key s_account_name (map summary_of_row (rows_of ?d ''account''))"
  let ?cs = "concat (map (config_of_summary ?d) ?ss)"
  have "DaemonConfig_load no_faults fs path disk = (Inr \<lparr>dc_global = g, dc_accounts = ?cs\<rparr>, disk)"
    using load_current [OF assms(1), of disk f] assms(2-4) by (simp add: loaded_configs_def)
  moreover have "sorted (map ac_name ?cs)"
    by (rule sorted_configs) simp
  moreover have "c \<in> set ?cs \<longleftrightarrow> (\<exists>r \<in> set (rows_of ?d ''account''). \<exists>n. r ''account_name'' = bindText n
          \<and> a_enabled (account_of_row r) \<and> accountConfigFromRecord n (account_of_row r) = Inr c)" for c
    using assms(6) config_of_row [OF _ assms(5) _ db_current_account [OF assms(4)]] by fastforce
  ultimately show ?thesis
    by blast
qed

lemma db_current_fresh: "db_current fresh_db"
proof (rule db_currentI)
  show "\<exists>cs'. cols_of fresh_db n = Some cs' \<and> set cs \<subseteq> set cs'" if "(n, cs) \<in> set schema" for n cs
    using schema_map [OF that] by (simp add: fresh_db_def kSchemaSql_tabs empty_db_def cols_of_def)
qed (simp add: fresh_db_def kSchemaSql_tabs empty_db_def schema_def)

lemma db_current_put_rows [simp]: "db_current (put_rows n rs d) = db_current d"
  by (simp add: db_current_def)

lemma db_current_one_account: "db_current one_account"
  by (simp add: one_account_def db_current_fresh)

definition sample_files :: files where
  "sample_files = [''c'' \<mapsto> ini_text ''global'' [(''db_path'', ''p''), (''db_key'', ''k'')]]"

definition sample_global :: GlobalConfig where
  "sample_global = default_global\<lparr>dbPath := ''p'', dbKey := ''k''\<rparr>"

definition sample_disk :: disk where
  "sample_disk = [''p'' \<mapsto> \<lparr>f_key = ''k'', f_db = one_account\<rparr>]"

lemma sample_getOr:
  "getOr (parse_text (ini_text ''global'' [(''db_path'', ''p''), (''db_key'', ''k'')])) ''global'' key dflt =
    (case map_of [(''db_key'', ''k''), (''db_path'', ''p'')] key of None \<Rightarrow> dflt | Some v \<Rightarrow> if v = [] then dflt else v)"
  by (subst getOr_ini_text) (auto simp: clean_key_def clean_def trim_def is_blank_def)

lemma sample_load_global: "bindR (parseIni sample_files ''c'') load_global = Inr sample_global"
  by (simp add: parseIni_def sample_files_def load_global_def sample_getOr unsigned_setting_def stoul_def strtol_def
      is_space_def is_digit_def digit_val_def sample_global_def default_global_def)

lemma one_account_rows: "rows_of one_account ''account'' = [new_account_row ''a'' sample_account]"
  using fresh_db_account by (simp add: one_account_def)

theorem load_enabled_valid_accounts_witness:
  "\<exists>cs. DaemonConfig_load no_faults sample_files ''c'' sample_disk
     = (Inr \<lparr>dc_global = sample_global, dc_accounts = cs\<rparr>, sample_disk) \<and> sorted (map ac_name cs)"
proof -
  have "sample_disk (dbPath sample_global) = Some \<lparr>f_key = ''k'', f_db = one_account\<rparr>"
    by (simp add: sample_disk_def sample_global_def)
  then show ?thesis
    using load_enabled_valid_accounts [OF sample_load_global, of sample_disk "\<lparr>f_key = ''k'', f_db = one_account\<rparr>"]
      db_current_one_account
    by (auto simp: sample_global_def one_account_rows)
qed

end
