(* ===== verification/Resolver.thy ===== *)
theory Resolver
  imports AuthSocket Storage
begin

text \<open>
  Model of \<open>daemon/ContactResolver.cpp\<close> and of the result mapping of
  \<open>signal/Cdsi.cpp\<close>: how the number dialled on the SIP side becomes the service id of
  the outgoing call. The HTTP request, the JSON parser and the CDSI enclave lookup
  are parameters of the model (record \<open>directory\<close>).
\<close>

section \<open>CDSI results\<close>

record CdsiLookupResult =
  l_e164 :: string
  l_aci :: string
  l_pni :: string

definition hex_digit :: "nat \<Rightarrow> char" where
  "hex_digit n = char_of (if n < 10 then 48 + n else 87 + n)"

definition hex_byte :: "byte \<Rightarrow> string" where
  "hex_byte b = [hex_digit (unat b div 16), hex_digit (unat b mod 16)]"

definition hex_bytes :: "bytes \<Rightarrow> string" where
  "hex_bytes bs = concat (map hex_byte bs)"

text \<open>\<open>bytes\<close> is an array of 16 bytes.\<close>

definition uuid_text :: "bytes \<Rightarrow> string" where
  "uuid_text bs = hex_bytes (take 4 bs) @ ''-'' @ hex_bytes (take 2 (drop 4 bs)) @ ''-'' @ hex_bytes (take 2 (drop 6 bs))
     @ ''-'' @ hex_bytes (take 2 (drop 8 bs)) @ ''-'' @ hex_bytes (take 6 (drop 10 bs))"

definition formatUuidOrEmpty :: "bytes \<Rightarrow> string" where
  "formatUuidOrEmpty bs = (if list_all (\<lambda>b. b = 0) (take 16 bs) then [] else uuid_text bs)"

text \<open>An entry of the response: the number as an integer, raw ACI and PNI.\<close>

type_synonym cdsi_entry = "nat \<times> bytes \<times> bytes"

definition lookup_results :: "cdsi_entry list option \<Rightarrow> CdsiLookupResult list" where
  "lookup_results response = (case response of None \<Rightarrow> []
     | Some entries \<Rightarrow> map (\<lambda>(e164, aci, pni). \<lparr>l_e164 = CHR ''+'' # to_string e164,
         l_aci = formatUuidOrEmpty aci, l_pni = formatUuidOrEmpty pni\<rparr>) entries)"

section \<open>Resolving a target\<close>

text \<open>
  \<open>auth\<close> is \<open>GET /v2/directory/auth\<close>, \<open>token\<close> the user name and password read
  from its JSON body, \<open>cdsi\<close> the enclave's answer for a list of numbers.
\<close>

record directory =
  auth :: "Response result"
  token :: "bytes \<Rightarrow> (string \<times> string) result"
  cdsi :: "string \<Rightarrow> string \<Rightarrow> string list \<Rightarrow> cdsi_entry list option result"

definition cdsiLookup :: "directory \<Rightarrow> string \<Rightarrow> string \<Rightarrow> string list \<Rightarrow> CdsiLookupResult list result" where
  "cdsiLookup dir username password e164s =
     bindR (cdsi dir username password e164s) (\<lambda>r. Inr (lookup_results r))"

definition service_id :: "string \<Rightarrow> string \<Rightarrow> exn \<Rightarrow> string result" where
  "service_id aci pni none =
     (if aci \<noteq> [] then Inr aci else if pni \<noteq> [] then Inr (''PNI:'' @ pni) else Inl none)"

definition resolve_online :: "sqlite \<Rightarrow> directory \<Rightarrow> int \<Rightarrow> string \<Rightarrow> string \<Rightarrow> (db, string) effect" where
  "resolve_online q dir now acct target d =
     (case bindR (auth dir) (\<lambda>r.
        if status r \<noteq> 200 then Inl (Runtime_error (''GET /v2/directory/auth -> status '' @ to_string (status r)))
        else bindR (token dir (body r)) (\<lambda>(username, password).
          bindR (cdsiLookup dir username password [target]) (\<lambda>results.
            if results = [] then Inl (Runtime_error (''CDSI lookup for '' @ target @ '' returned no result''))
            else Inr (hd results)))) of
        Inl e \<Rightarrow> (Inl e, d)
      | Inr result \<Rightarrow>
         (case saveResolvedContact q now acct target (l_aci result) (l_pni result) d of
            Inl e \<Rightarrow> (Inl e, d)
          | Inr d' \<Rightarrow> (service_id (l_aci result) (l_pni result)
              (Runtime_error (target @ '' is not on Signal (CDSI lookup found nothing)'')), d')))"

definition resolveOutgoingTarget :: "sqlite \<Rightarrow> directory \<Rightarrow> int \<Rightarrow> string \<Rightarrow> string \<Rightarrow> uint32 \<Rightarrow> (db, string) effect" where
  "resolveOutgoingTarget q dir now acct target ttlSec =
     (if target = [] \<or> hd target \<noteq> CHR ''+'' then returnS target
      else bindS (liftR (loadSyncedContact q acct target)) (\<lambda>synced.
        if synced \<noteq> None \<and> c_aci (the synced) \<noteq> [] then returnS (c_aci (the synced))
        else bindS (liftR (loadResolvedContact q acct target)) (\<lambda>cached.
          case cached of
            Some c \<Rightarrow>
              if now - r_resolved_at c < uint ttlSec
              then liftR (\<lambda>_. service_id (r_aci c) (r_pni c)
                     (Runtime_error (target @ '' is not on Signal (cached CDSI result)'')))
              else resolve_online q dir now acct target
          | None \<Rightarrow> resolve_online q dir now acct target)))"

section \<open>The cache\<close>

lemma load_saved_resolved:
  assumes "saveResolvedContact q now acct e164 aci pni d = Inr d'" "Sql.readable q ''loadResolvedContact''"
  shows "loadResolvedContact q acct e164 d' = Inr (Some \<lparr>r_aci = aci, r_pni = pni, r_resolved_at = now\<rparr>)"
  using upsert_kv_first [OF assms(1) [unfolded saveResolvedContact_def] assms(2),
      where dec = "\<lambda>r. \<lparr>r_aci = columnText (r ''aci''), r_pni = columnText (r ''pni''),
           r_resolved_at = columnInt (r ''resolved_at'')\<rparr>"]
  by (auto simp: loadResolvedContact_def)

lemma saveResolved_synced:
  assumes "saveResolvedContact q now acct e164 aci pni d = Inr d'"
  shows "loadSyncedContact q2 b n d' = loadSyncedContact q2 b n d"
proof -
  let ?n = "''resolved_contact''"
  obtain u where "sql_upsert ?n [''account_name'', ''e164''] u (kv_row acct ''e164'' e164 u) d = Inr d'"
    using assms by (auto simp: saveResolvedContact_def upsert_kv_def elim: run_writeE)
  then have "rows_of d' ''synced_contact'' = rows_of d ''synced_contact''"
    "tabs d' ''synced_contact'' = None \<longleftrightarrow> tabs d ''synced_contact'' = None"
    using sql_upsert_other_table sql_upsert_tabs by auto
  then show ?thesis
    by (simp add: loadSyncedContact_def first_kv_def cong: run_first_cong)
qed

lemma resolve_online_saved:
  assumes "resolve_online q dir now acct target d = (r, d')" "d' \<noteq> d \<or> \<not> isl r"
  shows "\<exists>aci pni none. saveResolvedContact q now acct target aci pni d = Inr d' \<and> r = service_id aci pni none"
  using assms by (auto simp: resolve_online_def split: sum.splits)

section \<open>UUID strings\<close>

lemma hex_digit_inj: "m < 16 \<Longrightarrow> n < 16 \<Longrightarrow> hex_digit m = hex_digit n \<longleftrightarrow> m = n"
  by (auto simp: hex_digit_def)

lemma hex_byte_inj: "hex_byte a = hex_byte b \<longleftrightarrow> a = b"
proof
  assume "hex_byte a = hex_byte b"
  moreover have "unat a div 16 < 16" "unat b div 16 < 16"
    using unsigned_less [of a, where ?'a = nat] unsigned_less [of b, where ?'a = nat] by simp_all
  ultimately have "unat a div 16 = unat b div 16" "unat a mod 16 = unat b mod 16"
    by (auto simp: hex_byte_def hex_digit_inj)
  then have "unat a = unat b"
    by (metis div_mult_mod_eq)
  then show "a = b"
    by (rule unsigned_word_eqI)
qed simp

lemma hex_bytes_Cons [simp]: "hex_bytes (b # bs) = hex_byte b @ hex_bytes bs"
  by (simp add: hex_bytes_def)

lemma hex_bytes_Nil [simp]: "hex_bytes [] = []"
  by (simp add: hex_bytes_def)

lemma length_hex_bytes [simp]: "length (hex_bytes bs) = 2 * length bs"
  by (induction bs) (auto simp: hex_byte_def)

lemma hex_bytes_inj: "length as = length bs \<Longrightarrow> hex_bytes as = hex_bytes bs \<longleftrightarrow> as = bs"
proof (induction as bs rule: list_induct2)
  case (Cons a as b bs)
  then show ?case
    using hex_byte_inj [of a b] append_eq_append_conv [of "hex_byte a" "hex_byte b" "hex_bytes as" "hex_bytes bs"]
    by (auto simp: hex_byte_def)
qed simp

lemma formatUuid_parts:
  assumes "length bs = 16"
  shows "bs = take 4 bs @ take 2 (drop 4 bs) @ take 2 (drop 6 bs) @ take 2 (drop 8 bs) @ take 6 (drop 10 bs)"
proof -
  have "bs = take 4 bs @ drop 4 bs" "drop 4 bs = take 2 (drop 4 bs) @ drop 6 bs"
    "drop 6 bs = take 2 (drop 6 bs) @ drop 8 bs" "drop 8 bs = take 2 (drop 8 bs) @ drop 10 bs"
    "drop 10 bs = take 6 (drop 10 bs)"
    using append_take_drop_id [of 2 "drop 4 bs"] append_take_drop_id [of 2 "drop 6 bs"]
      append_take_drop_id [of 2 "drop 8 bs"] assms by (simp_all add: drop_drop)
  then show ?thesis
    by metis
qed

lemma uuid_text_inj:
  assumes "length as = 16" "length bs = 16" "uuid_text as = uuid_text bs"
  shows "as = bs"
proof -
  have "take 4 as = take 4 bs" "take 2 (drop 4 as) = take 2 (drop 4 bs)" "take 2 (drop 6 as) = take 2 (drop 6 bs)"
    "take 2 (drop 8 as) = take 2 (drop 8 bs)" "take 6 (drop 10 as) = take 6 (drop 10 bs)"
    using assms by (simp_all add: uuid_text_def append_eq_append_conv hex_bytes_inj)
  then show ?thesis
    using formatUuid_parts assms(1,2) by metis
qed

section \<open>Properties\<close>

text \<open>
  The UUID text of a CDSI entry identifies its bytes: it is empty exactly for the
  all-zero \<open>not found\<close> value, has 36 characters otherwise, and two different UUIDs
  never have the same text.
\<close>

theorem formatUuid_injective:
  assumes "length as = 16" "length bs = 16"
  shows "(formatUuidOrEmpty as = [] \<longleftrightarrow> as = replicate 16 0)
    \<and> (formatUuidOrEmpty as \<noteq> [] \<longrightarrow> length (formatUuidOrEmpty as) = 36)
    \<and> (formatUuidOrEmpty as = formatUuidOrEmpty bs \<longrightarrow> as = bs)"
proof -
  have z: "list_all (\<lambda>b. b = 0) x \<longleftrightarrow> x = replicate 16 0" if "length x = 16" for x :: bytes
    using that replicate_length_same [of x 0] by (auto simp: list_all_iff)
  have l: "length (uuid_text x) = 36" if "length x = 16" for x
    using that by (simp add: uuid_text_def)
  then have n: "uuid_text x \<noteq> []" if "length x = 16" for x
    using that by fastforce
  show ?thesis
    using assms z [of as] z [of bs] l [of as] n [of as] n [of bs] uuid_text_inj
    by (auto simp: formatUuidOrEmpty_def)
qed

lemma sample_uuid:
  "formatUuidOrEmpty (replicate 16 0) = []" "formatUuidOrEmpty (1 # replicate 15 0) \<noteq> []"
  by (simp_all add: formatUuidOrEmpty_def uuid_text_def list_all_iff)

theorem formatUuid_injective_witness:
  "length (formatUuidOrEmpty (1 # replicate 15 0)) = 36"
  using formatUuid_injective [of "1 # replicate 15 0" "replicate 16 0"] sample_uuid by simp

text \<open>
  An online resolution is remembered, positive or negative: as long as the
  cache entry is younger than the configured time to live, resolving the same
  number again gives the same service id, or the same \<open>not on Signal\<close>, without
  consulting the directory, whatever the directory would answer now.
\<close>

theorem resolution_is_cached:
  assumes "target \<noteq> []" "hd target = CHR ''+''"
    and "loadSyncedContact q acct target d = Inr None" "loadResolvedContact q acct target d = Inr None"
    and "resolveOutgoingTarget q dir now acct target ttl d = (r, d')" "d' \<noteq> d \<or> \<not> isl r"
    and "Sql.readable q ''loadResolvedContact''" "now2 - now < uint ttl"
  shows "resolveOutgoingTarget q dir2 now2 acct target ttl d' =
    (case r of Inr sid \<Rightarrow> (Inr sid, d')
     | Inl _ \<Rightarrow> (Inl (Runtime_error (target @ '' is not on Signal (cached CDSI result)'')), d'))"
proof -
  have "resolve_online q dir now acct target d = (r, d')"
    using assms(1-5) by (simp add: resolveOutgoingTarget_def bindS_def liftR_def)
  then obtain aci pni none where s: "saveResolvedContact q now acct target aci pni d = Inr d'" "r = service_id aci pni none"
    using resolve_online_saved assms(6) by blast
  then show ?thesis
    using assms(1-3,7,8) load_saved_resolved [OF s(1) assms(7)] saveResolved_synced [OF s(1)]
    by (simp add: resolveOutgoingTarget_def bindS_def liftR_def service_id_def)
qed

definition sample_directory :: directory where
  "sample_directory = \<lparr>auth = Inr \<lparr>status = 200, body = []\<rparr>, token = (\<lambda>_. Inr (''u'', ''p'')),
     cdsi = (\<lambda>_ _ _. Inr (Some [(15550101, replicate 16 0, 1 # replicate 15 0)]))\<rparr>"

definition resolved_db :: db where
  "resolved_db = put_rows ''resolved_contact'' [kv_row ''a'' ''e164'' ''+15550101''
     [(''aci'', bindText []), (''pni'', bindText (formatUuidOrEmpty (1 # replicate 15 0))), (''resolved_at'', SInt 100)]] one_account"

lemma one_account_tabs: "n \<in> fst ` set schema \<Longrightarrow> tabs one_account n \<noteq> None"
  using fresh_db_tabs by (simp add: one_account_def)

lemma resolve_sample:
  "resolveOutgoingTarget no_faults sample_directory 100 ''a'' ''+15550101'' 60 one_account =
     (Inr (''PNI:'' @ formatUuidOrEmpty (1 # replicate 15 0)), resolved_db)"
  using one_account_tabs [of "''synced_contact''"] one_account_tabs [of "''resolved_contact''"] fresh_db_account
  by (simp add: schema_def resolveOutgoingTarget_def bindS_def liftR_def loadSyncedContact_def loadResolvedContact_def
      first_kv_def run_first_readable one_account_def resolve_online_def sample_directory_def cdsiLookup_def lookup_results_def
      saveResolvedContact_def upsert_kv_def run_write_def Stmt_def sql_upsert_def check_error_def fk_error_def resolved_db_def
      service_id_def sample_uuid kv_row_def)

theorem resolution_is_cached_witness:
  "resolveOutgoingTarget no_faults (sample_directory\<lparr>auth := Inl Pj_error\<rparr>) 159 ''a'' ''+15550101'' 60 resolved_db =
     (Inr (''PNI:'' @ formatUuidOrEmpty (1 # replicate 15 0)), resolved_db)"
proof -
  have "loadSyncedContact no_faults ''a'' ''+15550101'' one_account = Inr None"
    "loadResolvedContact no_faults ''a'' ''+15550101'' one_account = Inr None"
    using one_account_tabs [of "''synced_contact''"] one_account_tabs [of "''resolved_contact''"]
    by (simp_all add: schema_def loadSyncedContact_def loadResolvedContact_def first_kv_def run_first_readable one_account_def)
  then show ?thesis
    using resolution_is_cached [OF _ _ _ _ resolve_sample] by simp
qed

end
