(* ===== verification/Calls.thy ===== *)
theory Calls
  imports CallSignaling Config Resolver
begin

text \<open>
  Model of the call handling of \<open>daemon/main.cpp\<close>: RingRTC's call states
  (\<open>onCallState\<close>), the SIP leg dialled for an incoming Signal call (\<open>BridgeCall\<close>), the SIP
  call that starts an outgoing Signal call (\<open>IncomingSipCall\<close>, \<open>onIncomingCall\<close>) and their
  teardown. What RingRTC and PJSIP are asked to do is logged as actions. A bridge object is
  named by a number; a SIP call object holds a reference to its bridge.
\<close>

section \<open>State\<close>

datatype rtc_state = INCOMING_AUDIO | OUTGOING_AUDIO | RINGING | CONNECTED | CONNECTING | ENDED | REJECTED | CONCLUDED

datatype inv_state = CONFIRMED | DISCONNECTED | Other_state

record sip_call =
  sc_bridge :: nat
  sc_dialed :: bool
  acceptSent :: bool
  weHungUp :: bool
  disconnected :: bool

datatype action =
    Call_proceed uint64 | Call_accept uint64 | Call_hangup | Start_outgoing string
  | Invite string "(string \<times> string) list" | Sip_answer nat | Sip_hangup | Sip_reject nat
  | Run_probe

record AccountState =
  config :: AccountConfig
  activeCallId :: uint64
  isCallee :: bool
  remotePeerId :: string
  bridge_ptr :: "nat option"
  sipCall :: "sip_call option"
  incomingSipCall :: "sip_call option"
  next_bridge :: nat
  actions :: "action list"

definition act :: "action \<Rightarrow> AccountState \<Rightarrow> AccountState" where
  "act a s = s\<lparr>actions := actions s @ [a]\<rparr>"

definition new_bridge :: "AccountState \<Rightarrow> AccountState" where
  "new_bridge s = s\<lparr>bridge_ptr := Some (next_bridge s), next_bridge := next_bridge s + 1\<rparr>"

definition new_call :: "nat \<Rightarrow> sip_call" where
  "new_call b = \<lparr>sc_bridge = b, sc_dialed = False, acceptSent = False, weHungUp = False, disconnected = False\<rparr>"

section \<open>Choosing and dialling the SIP destination\<close>

definition bridgeTarget :: "AccountConfig \<Rightarrow> string" where
  "bridgeTarget c = (if ac_sipBridgeDid c = [] then ac_sipBridgeDestination c else ac_sipBridgeDid c)"

text \<open>\<open>sip c\<close> is \<open>g_sipAccounts\<close>: the \<open>registered\<close> flag of the account's SIP registration, if it has one.\<close>

type_synonym sip_accounts = "string \<Rightarrow> bool option"

definition canBridgeToSip :: "sip_accounts \<Rightarrow> AccountConfig \<Rightarrow> bool" where
  "canBridgeToSip sip c \<longleftrightarrow> bridgeTarget c \<noteq> [] \<and> sip (ac_name c) = Some True"

definition contact_name :: "SyncedContactRecord \<Rightarrow> string" where
  "contact_name c = c_given_name c @
     (if c_family_name c = [] then [] else (if c_given_name c = [] then [] else '' '') @ c_family_name c)"

definition contact_headers :: "SyncedContactRecord option \<Rightarrow> (string \<times> string) list" where
  "contact_headers contact = (case contact of None \<Rightarrow> []
     | Some c \<Rightarrow> (if c_e164 c = [] then [] else [(''X-Signal-Phone'', c_e164 c)]) @
                 (if contact_name c = [] then [] else [(''X-Signal-Name'', contact_name c)]))"

text \<open>\<open>byAci\<close> is \<open>Storage::loadSyncedContactByAci\<close> on the account's database.\<close>

definition caller_headers :: "(string \<Rightarrow> SyncedContactRecord option result) \<Rightarrow> string \<Rightarrow> (string \<times> string) list result" where
  "caller_headers byAci peer =
     (if peer = [] then Inr []
      else bindR (byAci peer) (\<lambda>contact. Inr ((''X-Signal-UUID'', peer) # contact_headers contact)))"

definition sip_uri :: "AccountConfig \<Rightarrow> string" where
  "sip_uri c = (if ac_sipTransport c = ''tls'' then ''sips'' else ''sip'') @ '':'' @ bridgeTarget c @ ''@'' @ ac_sipHost c"

definition startSipDial ::
  "sip_accounts \<Rightarrow> (string \<Rightarrow> SyncedContactRecord option result) \<Rightarrow> (AccountState, unit) effect" where
  "startSipDial sip byAci s =
     (if sip (ac_name (config s)) \<noteq> Some True then returnS () s
      else let s = new_bridge s; s = s\<lparr>sipCall := Some (new_call (the (bridge_ptr s)))\<rparr> in
        bindS (liftR (\<lambda>s. caller_headers byAci (remotePeerId s))) (\<lambda>headers s.
          returnS () (act (Invite (sip_uri (config s)) headers)
            (s\<lparr>sipCall := map_option (\<lambda>c. c\<lparr>sc_dialed := True\<rparr>) (sipCall s)\<rparr>))) s)"

section \<open>Teardown\<close>

definition stopSipBridge :: "AccountState \<Rightarrow> AccountState" where
  "stopSipBridge s =
     (case sipCall s of None \<Rightarrow> s | Some c \<Rightarrow> (act Sip_hangup s)\<lparr>sipCall := None\<rparr>)\<lparr>bridge_ptr := None\<rparr>"

definition stopIncomingSipCall :: "AccountState \<Rightarrow> AccountState" where
  "stopIncomingSipCall s =
     (case incomingSipCall s of None \<Rightarrow> s | Some c \<Rightarrow> (act Sip_hangup s)\<lparr>incomingSipCall := None\<rparr>)\<lparr>bridge_ptr := None\<rparr>"

section \<open>Callbacks\<close>

text \<open>\<open>BridgeCall::onCallState\<close>.\<close>

definition BridgeCall_onCallState :: "inv_state \<Rightarrow> AccountState \<Rightarrow> AccountState" where
  "BridgeCall_onCallState st s = (case sipCall s of None \<Rightarrow> s
     | Some c \<Rightarrow>
        if st = CONFIRMED \<and> \<not> acceptSent c
        then act (Call_accept (activeCallId s)) (s\<lparr>sipCall := Some (c\<lparr>acceptSent := True\<rparr>)\<rparr>)
        else if st = DISCONNECTED
        then (if acceptSent c \<and> \<not> weHungUp c then act Call_hangup s else s)\<lparr>sipCall := Some (c\<lparr>disconnected := True\<rparr>)\<rparr>
        else s)"

text \<open>\<open>IncomingSipCall::onCallState\<close>.\<close>

definition IncomingSipCall_onCallState :: "inv_state \<Rightarrow> AccountState \<Rightarrow> AccountState" where
  "IncomingSipCall_onCallState st s = (case incomingSipCall s of None \<Rightarrow> s
     | Some c \<Rightarrow>
        if st = DISCONNECTED
        then (if weHungUp c then s else act Call_hangup s)
               \<lparr>incomingSipCall := Some (c\<lparr>weHungUp := True, disconnected := True\<rparr>)\<rparr>
        else s)"

definition call_state_action ::
  "sip_accounts \<Rightarrow> (string \<Rightarrow> SyncedContactRecord option result) \<Rightarrow> uint64 \<Rightarrow> rtc_state \<Rightarrow> (AccountState, unit) effect" where
  "call_state_action sip byAci callId st s =
     (case st of
        OUTGOING_AUDIO \<Rightarrow> returnS () (act (Call_proceed callId) s)
      | INCOMING_AUDIO \<Rightarrow> returnS ()
          (if canBridgeToSip sip (config s) then act (Call_proceed callId) (s\<lparr>isCallee := True\<rparr>) else s)
      | RINGING \<Rightarrow> if isCallee s \<and> canBridgeToSip sip (config s) then startSipDial sip byAci s else returnS () s
      | CONNECTED \<Rightarrow> returnS ()
          (if \<not> isCallee s \<and> incomingSipCall s \<noteq> None then act (Sip_answer 200) s
           else if \<not> isCallee s \<and> ac_outgoingCallTarget (config s) \<noteq> [] then act Run_probe s else s)
      | ENDED \<Rightarrow> returnS () ((stopIncomingSipCall (stopSipBridge s))\<lparr>isCallee := False\<rparr>)
      | CONCLUDED \<Rightarrow> returnS () ((stopIncomingSipCall (stopSipBridge s))\<lparr>isCallee := False\<rparr>)
      | _ \<Rightarrow> returnS () s)"

definition onCallState ::
  "sip_accounts \<Rightarrow> (string \<Rightarrow> SyncedContactRecord option result) \<Rightarrow> string \<Rightarrow> uint64 \<Rightarrow> rtc_state \<Rightarrow> AccountState \<Rightarrow> AccountState" where
  "onCallState sip byAci peer callId st s =
     safeCallback (call_state_action sip byAci callId st) (s\<lparr>activeCallId := callId, remotePeerId := peer\<rparr>)"

section \<open>A SIP call that starts a Signal call\<close>

definition dest_user :: "string \<Rightarrow> string" where
  "dest_user user = (if user = [] then [] else CHR ''+'' # dropWhile (\<lambda>c. c = CHR ''+'') user)"

text \<open>
  Which account an INVITE belongs to: the one registered for the port it arrived on, else the
  one PJSIP picked. \<open>None\<close> as a port stands for missing transport data.
\<close>

definition resolve_account :: "(int \<Rightarrow> 'a option) \<Rightarrow> int option \<Rightarrow> 'a \<Rightarrow> 'a" where
  "resolve_account portToAccount port acctState =
     (case port of None \<Rightarrow> acctState
      | Some p \<Rightarrow> (case portToAccount p of None \<Rightarrow> acctState | Some a \<Rightarrow> a))"

text \<open>
  \<open>onIncomingCall\<close> up to the 180 Ringing (the result says whether it goes on), and from
  the answer of \<open>resolveOutgoingTarget\<close> on; \<open>callId\<close> is what \<open>signal2sip_call_start_outgoing\<close> returns.
\<close>

definition incoming_ring :: "string \<Rightarrow> AccountState \<Rightarrow> string option \<times> AccountState" where
  "incoming_ring user s =
     (if incomingSipCall s \<noteq> None \<or> sipCall s \<noteq> None then (None, act (Sip_reject 486) s)
      else if dest_user user = [] then (None, act (Sip_reject 404) s)
      else let s = new_bridge s; s = s\<lparr>incomingSipCall := Some (new_call (the (bridge_ptr s)))\<rparr>
           in (Some (dest_user user), act (Sip_answer 180) s))"

definition incoming_place :: "string result \<Rightarrow> uint64 \<Rightarrow> AccountState \<Rightarrow> AccountState" where
  "incoming_place resolved callId s =
     (case resolved of
        Inl _ \<Rightarrow> stopIncomingSipCall s
      | Inr target \<Rightarrow>
          if target = [] then stopIncomingSipCall s
          else let s = act (Start_outgoing target) (s\<lparr>isCallee := False\<rparr>)
               in if callId = 0 then stopIncomingSipCall s else s)"

definition onIncomingCall :: "(string \<Rightarrow> string result) \<Rightarrow> uint64 \<Rightarrow> string \<Rightarrow> AccountState \<Rightarrow> AccountState" where
  "onIncomingCall resolve callId user s =
     (case incoming_ring user s of
        (None, s) \<Rightarrow> s
      | (Some target, s) \<Rightarrow> incoming_place (resolve target) callId s)"


section \<open>Runs of one account\<close>

text \<open>
  RingRTC's call manager has one call at a time and reports each as ringing at most once (\<open>rtc\<close>: the call and whether it has rung): it announces an incoming call only
  when it has none, and \<open>signal2sip_call_start_outgoing\<close> returns 0 while it has one. PJSIP reports \<open>CONFIRMED\<close> only for a call that was dialled. A handler runs without
  another in between, but for the network lookup in the middle of \<open>onIncomingCall\<close>: an INVITE leaves its number in \<open>lookups\<close>, any event may follow, and the answer of the
  lookup runs the rest of the handler. The run keeps what happened, newest first: the event, the lookups then in flight, what the handler asked RingRTC and PJSIP to do, and
  the bridge of the dialled leg there was afterwards.
\<close>

datatype call_event = Rtc uint64 rtc_state | Leg nat inv_state | Caller inv_state | Invite_arrived string | Looked_up string

record moment =
  mo_event :: call_event
  mo_lookups :: "string list"
  mo_acts :: "action list"
  mo_leg :: "nat option"

definition noted :: "call_event \<Rightarrow> string list \<Rightarrow> AccountState \<Rightarrow> AccountState \<Rightarrow> moment" where
  "noted e ls s s' = \<lparr>mo_event = e, mo_lookups = ls, mo_acts = drop (length (actions s)) (actions s'), mo_leg = map_option sc_bridge (sipCall s')\<rparr>"

type_synonym call_run = "AccountState \<times> (uint64 \<times> bool) option \<times> string list \<times> moment list"

inductive call_step :: "call_run \<Rightarrow> call_run \<Rightarrow> bool" where
  rtc_incoming: "s' = onCallState sip byAci peer i INCOMING_AUDIO s \<Longrightarrow>
    call_step (s, None, ls, h) (s', Some (i, False), ls, noted (Rtc i INCOMING_AUDIO) ls s s' # h)"
| rtc_progress: "st \<in> {OUTGOING_AUDIO, CONNECTED, CONNECTING, REJECTED} \<Longrightarrow> s' = onCallState sip byAci peer i st s \<Longrightarrow>
    call_step (s, Some (i, rang), ls, h) (s', Some (i, rang), ls, noted (Rtc i st) ls s s' # h)"
| rtc_ringing: "s' = onCallState sip byAci peer i RINGING s \<Longrightarrow>
    call_step (s, Some (i, False), ls, h) (s', Some (i, True), ls, noted (Rtc i RINGING) ls s s' # h)"
| rtc_ended: "s' = onCallState sip byAci peer i ENDED s \<Longrightarrow>
    call_step (s, Some (i, rang), ls, h) (s', None, ls, noted (Rtc i ENDED) ls s s' # h)"
| rtc_concluded: "s' = onCallState sip byAci peer i CONCLUDED s \<Longrightarrow>
    call_step (s, r, ls, h) (s', r, ls, noted (Rtc i CONCLUDED) ls s s' # h)"
| leg_state: "sipCall s = Some c \<Longrightarrow> st = CONFIRMED \<longrightarrow> sc_dialed c \<Longrightarrow> s' = BridgeCall_onCallState st s \<Longrightarrow>
    call_step (s, r, ls, h) (s', r, ls, noted (Leg (sc_bridge c) st) ls s s' # h)"
| caller_state: "s' = IncomingSipCall_onCallState st s \<Longrightarrow>
    call_step (s, r, ls, h) (s', r, ls, noted (Caller st) ls s s' # h)"
| invite: "incoming_ring user s = (t, s') \<Longrightarrow>
    call_step (s, r, ls, h) (s', r, (case t of None \<Rightarrow> ls | Some number \<Rightarrow> number # ls), noted (Invite_arrived user) ls s s' # h)"
| looked_up: "ls = xs @ number # ys \<Longrightarrow> callId \<noteq> 0 \<longrightarrow> r = None \<Longrightarrow> s' = incoming_place res callId s \<Longrightarrow>
    r' = (if callId \<noteq> 0 \<and> (\<exists>target. res = Inr target \<and> target \<noteq> []) then Some (callId, False) else r) \<Longrightarrow>
    call_step (s, r, ls, h) (s', r', xs @ ys, noted (Looked_up number) ls s s' # h)"

definition idle :: "AccountState \<Rightarrow> bool" where
  "idle s \<longleftrightarrow> \<not> isCallee s \<and> bridge_ptr s = None \<and> sipCall s = None \<and> incomingSipCall s = None \<and> actions s = []"

definition call_start :: "call_run \<Rightarrow> bool" where
  "call_start p \<longleftrightarrow> (\<exists>s. p = (s, None, [], []) \<and> idle s)"

abbreviation call_reachable :: "call_run \<Rightarrow> bool" where
  "call_reachable \<equiv> reachable call_start call_step"

definition is_invite :: "action \<Rightarrow> bool" where
  "is_invite a \<longleftrightarrow> (\<exists>u h. a = Invite u h)"

definition is_accept :: "action \<Rightarrow> bool" where
  "is_accept a \<longleftrightarrow> (\<exists>i. a = Call_accept i)"

definition accepts :: "moment \<Rightarrow> uint64 list" where
  "accepts m = concat (map (\<lambda>a. case a of Call_accept i \<Rightarrow> [i] | _ \<Rightarrow> []) (mo_acts m))"

text \<open>The moment at which the leg with bridge \<open>b\<close> was dialled because call \<open>i\<close> rings.\<close>

definition dials :: "uint64 \<Rightarrow> nat \<Rightarrow> moment \<Rightarrow> bool" where
  "dials i b m \<longleftrightarrow> mo_event m = Rtc i RINGING \<and> mo_leg m = Some b \<and> list_ex is_invite (mo_acts m)"

lemmas call_defs = onCallState_def safeCallback_def call_state_action_def act_def stopSipBridge_def stopIncomingSipCall_def
  BridgeCall_onCallState_def IncomingSipCall_onCallState_def startSipDial_def new_bridge_def new_call_def bindS_def liftR_def
  Let_def incoming_ring_def incoming_place_def onIncomingCall_def

section \<open>Accepting follows the answer\<close>

text \<open>What is true of every moment of a run, given what was before it.\<close>

fun answered_runs :: "moment list \<Rightarrow> bool" where
  "answered_runs [] = True"
| "answered_runs (m # h) \<longleftrightarrow> answered_runs h \<and> (accepts m = [] \<or> (\<exists>i b. accepts m = [i] \<and> mo_event m = Leg b CONFIRMED \<and>
     list_ex (dials i b) h \<and> list_all (\<lambda>m'. mo_event m' = Leg b CONFIRMED \<longrightarrow> accepts m' = []) h))"

definition leg_known :: "AccountState \<Rightarrow> (uint64 \<times> bool) option \<Rightarrow> moment list \<Rightarrow> bool" where
  "leg_known s r h \<longleftrightarrow> (\<forall>c. sipCall s = Some c \<longrightarrow> sc_bridge c < next_bridge s \<and> r = Some (activeCallId s, True) \<and>
     (sc_dialed c \<longrightarrow> list_ex (dials (activeCallId s) (sc_bridge c)) h) \<and>
     (\<not> acceptSent c \<longrightarrow> list_all (\<lambda>m. mo_event m = Leg (sc_bridge c) CONFIRMED \<longrightarrow> accepts m = []) h))"

definition legs_old :: "AccountState \<Rightarrow> moment list \<Rightarrow> bool" where
  "legs_old s h \<longleftrightarrow> list_all (\<lambda>m. \<forall>b st. mo_event m = Leg b st \<longrightarrow> b < next_bridge s) h"

text \<open>What RingRTC's events do to the dialled leg, and that none of them accepts.\<close>

lemma rtc_effect:
  assumes "s' = onCallState sip byAci peer i st s"
  shows "accepts (noted e ls s s') = []" "activeCallId s' = i" "next_bridge s \<le> next_bridge s'"
    "st \<noteq> RINGING \<Longrightarrow> sipCall s' = None \<or> sipCall s' = sipCall s" "st \<in> {ENDED, CONCLUDED} \<Longrightarrow> sipCall s' = None"
  using assms by (cases st; auto simp: call_defs accepts_def noted_def split: option.splits sum.splits)+

lemma ringing_effect:
  assumes "s' = onCallState sip byAci peer i RINGING s"
  shows "sipCall s' = sipCall s \<or> (\<exists>c. sipCall s' = Some c \<and> sc_bridge c = next_bridge s \<and> next_bridge s' = Suc (next_bridge s) \<and> \<not> acceptSent c \<and>
    (sc_dialed c \<longrightarrow> dials i (next_bridge s) (noted (Rtc i RINGING) ls s s')))"
  using assms by (auto simp: call_defs dials_def noted_def is_invite_def split: option.splits sum.splits)

lemma leg_effect:
  assumes "sipCall s = Some c" "s' = BridgeCall_onCallState st s"
  shows "accepts (noted e ls s s') = (if st = CONFIRMED \<and> \<not> acceptSent c then [activeCallId s] else [])"
    "\<exists>c'. sipCall s' = Some c' \<and> sc_bridge c' = sc_bridge c \<and> sc_dialed c' = sc_dialed c \<and> acceptSent c' = (acceptSent c \<or> st = CONFIRMED)"
    "activeCallId s' = activeCallId s" "next_bridge s' = next_bridge s"
  using assms by (auto simp: call_defs accepts_def noted_def)

lemma caller_effect:
  assumes "s' = IncomingSipCall_onCallState st s"
  shows "accepts (noted e ls s s') = []" "sipCall s' = sipCall s" "activeCallId s' = activeCallId s" "next_bridge s' = next_bridge s"
  using assms by (auto simp: call_defs accepts_def noted_def split: option.splits)

lemma ring_effect:
  assumes "incoming_ring user s = (t, s')"
  shows "accepts (noted e ls s s') = []" "sipCall s' = sipCall s" "activeCallId s' = activeCallId s" "next_bridge s \<le> next_bridge s'"
  using assms by (auto simp: call_defs accepts_def noted_def split: if_splits)

lemma place_effect:
  assumes "s' = incoming_place res callId s"
  shows "accepts (noted e ls s s') = []" "sipCall s' = sipCall s" "activeCallId s' = activeCallId s" "next_bridge s' = next_bridge s"
  using assms by (auto simp: call_defs accepts_def noted_def split: option.splits sum.splits)

definition answer_inv :: "call_run \<Rightarrow> bool" where
  "answer_inv p \<longleftrightarrow> (case p of (s, r, ls, h) \<Rightarrow> answered_runs h \<and> leg_known s r h \<and> legs_old s h)"

lemma legs_old_mono: "legs_old s h \<Longrightarrow> next_bridge s \<le> next_bridge s' \<Longrightarrow> legs_old s' h"
  by (fastforce simp: legs_old_def list_all_iff)

text \<open>A step that leaves the leg alone, or drops it.\<close>

lemma answer_quiet:
  assumes "answer_inv (s, r, ls, h)" "accepts m = []" "next_bridge s \<le> next_bridge s'" "\<forall>b st. mo_event m \<noteq> Leg b st"
    and "sipCall s' = None \<or> sipCall s' = sipCall s \<and> (sipCall s \<noteq> None \<longrightarrow> activeCallId s' = activeCallId s \<and> r' = r)"
  shows "answer_inv (s', r', ls', m # h)"
  using assms legs_old_mono [of s h s'] by (auto simp: answer_inv_def leg_known_def legs_old_def)

lemma answer_inv_step: "call_step p p' \<Longrightarrow> answer_inv p \<Longrightarrow> answer_inv p'"
proof (induction rule: call_step.induct)
  case (rtc_incoming s' sip byAci peer i s ls h)
  then have "sipCall s = None" by (auto simp: answer_inv_def leg_known_def)
  with rtc_effect [OF rtc_incoming(1)] rtc_incoming(2) show ?case by (intro answer_quiet) (auto simp: noted_def)
next
  case (rtc_progress st s' sip byAci peer i s rang ls h)
  then have "sipCall s \<noteq> None \<longrightarrow> activeCallId s = i" by (auto simp: answer_inv_def leg_known_def)
  with rtc_effect [OF rtc_progress(2)] rtc_progress(1,3) show ?case by (intro answer_quiet) (auto simp: noted_def)
next
  case (rtc_ringing s' sip byAci peer i s ls h)
  then have none: "sipCall s = None" by (auto simp: answer_inv_def leg_known_def)
  let ?m = "noted (Rtc i RINGING) ls s s'"
  note e = rtc_effect [OF rtc_ringing(1)]
  from ringing_effect [OF rtc_ringing(1), of ls] show ?case
  proof
    assume "sipCall s' = sipCall s"
    with none e rtc_ringing(2) show ?thesis by (intro answer_quiet) (auto simp: noted_def)
  next
    assume "\<exists>c. sipCall s' = Some c \<and> sc_bridge c = next_bridge s \<and> next_bridge s' = Suc (next_bridge s) \<and> \<not> acceptSent c \<and>
      (sc_dialed c \<longrightarrow> dials i (next_bridge s) ?m)"
    moreover have "list_all (\<lambda>m. mo_event m \<noteq> Leg (next_bridge s) CONFIRMED) h"
      using rtc_ringing(2) by (fastforce simp: answer_inv_def legs_old_def list_all_iff)
    ultimately show ?thesis
      using rtc_ringing(2) e legs_old_mono [of s h s'] by (auto simp: answer_inv_def leg_known_def legs_old_def noted_def list_all_iff)
  qed
next
  case (rtc_ended s' sip byAci peer i s rang ls h)
  with rtc_effect [OF rtc_ended(1)] show ?case by (intro answer_quiet) (auto simp: noted_def)
next
  case (rtc_concluded s' sip byAci peer i s r ls h)
  with rtc_effect [OF rtc_concluded(1)] show ?case by (intro answer_quiet) (auto simp: noted_def)
next
  case (leg_state s c st s' r ls h)
  note e = leg_effect [OF leg_state(1,3)]
  from e(2) obtain c' where c': "sipCall s' = Some c'" "sc_bridge c' = sc_bridge c" "sc_dialed c' = sc_dialed c" "acceptSent c' = (acceptSent c \<or> st = CONFIRMED)" by blast
  have old: "answered_runs h" "leg_known s r h" "legs_old s h" using leg_state(4) by (auto simp: answer_inv_def)
  have "legs_old s' (noted (Leg (sc_bridge c) st) ls s s' # h)"
    using old(2,3) leg_state(1) e(4) by (auto simp: legs_old_def leg_known_def noted_def)
  moreover have "leg_known s' r (noted (Leg (sc_bridge c) st) ls s s' # h)"
    using old(2) leg_state(1) c' e by (auto simp: leg_known_def)
  moreover have "answered_runs (noted (Leg (sc_bridge c) st) ls s s' # h)"
    using old(1,2) leg_state(1,2) e(1) by (auto simp: leg_known_def noted_def)
  ultimately show ?case by (simp add: answer_inv_def)
next
  case (caller_state s' st s r ls h)
  with caller_effect [OF caller_state(1)] show ?case by (intro answer_quiet) (auto simp: noted_def)
next
  case (invite user s t s' r ls h)
  with ring_effect [OF invite(1)] show ?case by (intro answer_quiet) (auto simp: noted_def)
next
  case (looked_up ls xs number ys callId r s' res s r' h)
  have "sipCall s \<noteq> None \<longrightarrow> r' = r" using looked_up(2,4,5) by (auto simp: answer_inv_def leg_known_def)
  with place_effect [OF looked_up(3)] looked_up(5) show ?case by (intro answer_quiet) (auto simp: noted_def)
qed

interpretation answers: invariant_system call_start call_step answer_inv
proof unfold_locales
  show "answer_inv p" if "call_start p" for p
    using that by (auto simp: call_start_def answer_inv_def leg_known_def legs_old_def idle_def)
qed (rule answer_inv_step)

lemma answered_runs_append: "answered_runs (newer @ m # older) \<Longrightarrow> answered_runs (m # older)"
  by (induction newer) auto

lemma filter_accepts: "filter is_accept (mo_acts m) = map Call_accept (accepts m)"
proof -
  have "filter is_accept as = map Call_accept (concat (map (\<lambda>a. case a of Call_accept i \<Rightarrow> [i] | _ \<Rightarrow> []) as))" for as
    by (induction as) (auto simp: is_accept_def split: action.split)
  then show ?thesis by (simp add: accepts_def)
qed

text \<open>
  C11: The Signal call is never taken before the PBX has answered. In every run of an account's events, whatever interleaves, \<open>signal2sip_call_accept\<close> is called only while
  PJSIP reports a dialled leg as answered, for the call whose ringing had that leg dialled before, once, and not if the same leg has been reported as answered and accepted before.
\<close>

theorem accept_follows_answer:
  assumes "call_reachable (s, r, ls, newer @ m # older)" "Call_accept i \<in> set (mo_acts m)"
  shows "\<exists>b. mo_event m = Leg b CONFIRMED \<and> filter is_accept (mo_acts m) = [Call_accept i] \<and> (\<exists>d \<in> set older. dials i b d) \<and>
    (\<forall>m' \<in> set older. mo_event m' = Leg b CONFIRMED \<longrightarrow> filter is_accept (mo_acts m') = [])"
proof -
  have "answered_runs (newer @ m # older)" using answers.reachable_inv [OF assms(1)] by (simp add: answer_inv_def)
  then have "answered_runs (m # older)" by (rule answered_runs_append)
  moreover have "i \<in> set (accepts m)" using assms(2) by (force simp: accepts_def)
  ultimately show ?thesis by (auto simp: filter_accepts list_ex_iff list_all_iff)
qed

section \<open>The two legs never meet\<close>

text \<open>A call rings while the number of an INVITE is being looked up.\<close>

definition rang_during_lookup :: "moment list \<Rightarrow> bool" where
  "rang_during_lookup h \<longleftrightarrow> list_ex (\<lambda>m. (case mo_event m of Rtc i st \<Rightarrow> st = RINGING | _ \<Rightarrow> False) \<and> mo_lookups m \<noteq> []) h"

definition legs_ok :: "AccountState \<Rightarrow> (uint64 \<times> bool) option \<Rightarrow> string list \<Rightarrow> bool" where
  "legs_ok s r ls \<longleftrightarrow> (\<forall>c. sipCall s = Some c \<longrightarrow> incomingSipCall s = None \<and> bridge_ptr s = Some (sc_bridge c) \<and> ls = []) \<and>
     (\<forall>c. incomingSipCall s = Some c \<longrightarrow> bridge_ptr s = Some (sc_bridge c) \<and> (ls = [] \<longrightarrow> \<not> isCallee s \<and> r \<noteq> None))"

lemma legs_ok_rtc:
  assumes "legs_ok s r ls" "s' = onCallState sip byAci peer i st s" "st = INCOMING_AUDIO \<longrightarrow> r = None" "st = RINGING \<longrightarrow> ls = []"
    "r' = None \<longrightarrow> st = ENDED \<or> r = None"
  shows "legs_ok s' r' ls"
  using assms by (cases st) (auto simp: call_defs legs_ok_def split: option.splits sum.splits)

lemma legs_ok_leg: "legs_ok s r ls \<Longrightarrow> legs_ok (BridgeCall_onCallState st s) r ls"
  by (auto simp: call_defs legs_ok_def split: option.splits)

lemma legs_ok_caller: "legs_ok s r ls \<Longrightarrow> legs_ok (IncomingSipCall_onCallState st s) r ls"
  by (auto simp: call_defs legs_ok_def split: option.splits)

lemma legs_ok_ring:
  "incoming_ring user s = (t, s') \<Longrightarrow> legs_ok s r ls \<Longrightarrow> legs_ok s' r (case t of None \<Rightarrow> ls | Some number \<Rightarrow> number # ls)"
  by (auto simp: call_defs legs_ok_def split: option.splits if_splits)

lemma legs_ok_place:
  assumes "legs_ok s r ls" "ls \<noteq> []" "callId \<noteq> 0 \<longrightarrow> r = None"
  shows "legs_ok (incoming_place res callId s) (if callId \<noteq> 0 \<and> (\<exists>target. res = Inr target \<and> target \<noteq> []) then Some (callId, False) else r) ls'"
  using assms by (auto simp: call_defs legs_ok_def split: option.splits sum.splits if_splits)

definition legs_inv :: "call_run \<Rightarrow> bool" where
  "legs_inv p \<longleftrightarrow> (case p of (s, r, ls, h) \<Rightarrow> \<not> rang_during_lookup h \<longrightarrow> legs_ok s r ls)"

lemma rang_Cons: "rang_during_lookup (noted e ls s s' # h) \<longleftrightarrow> (case e of Rtc i st \<Rightarrow> st = RINGING | _ \<Rightarrow> False) \<and> ls \<noteq> [] \<or> rang_during_lookup h"
  by (simp add: rang_during_lookup_def noted_def)

lemma legs_inv_step: "call_step p p' \<Longrightarrow> legs_inv p \<Longrightarrow> legs_inv p'"
proof (induction rule: call_step.induct)
  case (rtc_incoming s' sip byAci peer i s ls h)
  then show ?case using legs_ok_rtc [OF _ rtc_incoming(1)] by (simp add: legs_inv_def rang_Cons)
next
  case (rtc_progress st s' sip byAci peer i s rang ls h)
  then show ?case using legs_ok_rtc [OF _ rtc_progress(2)] by (auto simp: legs_inv_def rang_Cons)
next
  case (rtc_ringing s' sip byAci peer i s ls h)
  then show ?case using legs_ok_rtc [OF _ rtc_ringing(1), of "Some (i, False)" ls "Some (i, True)"] by (auto simp: legs_inv_def rang_Cons)
next
  case (rtc_ended s' sip byAci peer i s rang ls h)
  then show ?case using legs_ok_rtc [OF _ rtc_ended(1), of "Some (i, rang)" ls None] by (simp add: legs_inv_def rang_Cons)
next
  case (rtc_concluded s' sip byAci peer i s r ls h)
  then show ?case using legs_ok_rtc [OF _ rtc_concluded(1), of r ls r] by (simp add: legs_inv_def rang_Cons)
next
  case (invite user s t s' r ls h)
  then show ?case using legs_ok_ring [OF invite(1)] by (simp add: legs_inv_def rang_Cons)
next
  case (looked_up ls xs number ys callId r s' res s r' h)
  then show ?case using legs_ok_place [of s r ls callId res "xs @ ys"] by (simp add: legs_inv_def rang_Cons)
qed (auto simp: legs_inv_def rang_Cons legs_ok_leg legs_ok_caller)

interpretation legs: invariant_system call_start call_step legs_inv
proof unfold_locales
  show "legs_inv p" if "call_start p" for p
    using that by (auto simp: call_start_def legs_inv_def legs_ok_def idle_def)
qed (rule legs_inv_step)

text \<open>
  C20: One call at a time. In every run in which no Signal call rings while the number of an INVITE is being looked up, whatever else comes during the lookup, an account
  never has a SIP leg in both directions, and the SIP call object it has refers to the bridge the account owns, never to one already destroyed. A Signal call that rings
  during the lookup does break this (\<open>incoming_race_dangles\<close>).
\<close>

theorem one_leg_at_a_time:
  assumes "call_reachable (s, r, ls, h)" "\<not> rang_during_lookup h"
  shows "(sipCall s = None \<or> incomingSipCall s = None) \<and>
    (\<forall>c. sipCall s = Some c \<or> incomingSipCall s = Some c \<longrightarrow> bridge_ptr s = Some (sc_bridge c))"
  using legs.reachable_inv [OF assms(1)] assms(2) by (auto simp: legs_inv_def legs_ok_def)

definition sample_config :: AccountConfig where
  "sample_config = \<lparr>ac_name = ''a'', ac_configVersion = 0, ac_e164 = ''+15550100'', ac_serverUrl = [], ac_sipHost = ''pbx'',
     ac_sipExtension = ''100'', ac_sipPassword = ''pw'', ac_sipBridgeDestination = ''200'', ac_sipBridgeDid = [],
     ac_sipSrtp = ''disabled'', ac_sipTransport = ''udp'', ac_sipTlsCaFile = [], ac_sipTlsInsecure = False,
     ac_outgoingCallTarget = [], ac_signalProxy = [], ac_signalCensorshipCircumvention = False\<rparr>"

definition sample_acct :: AccountState where
  "sample_acct = \<lparr>config = sample_config, activeCallId = 0, isCallee = False, remotePeerId = [], bridge_ptr = None,
     sipCall = None, incomingSipCall = None, next_bridge = 0, actions = []\<rparr>"

abbreviation all_registered :: sip_accounts where
  "all_registered \<equiv> \<lambda>_. Some True"

abbreviation no_contact :: "string \<Rightarrow> SyncedContactRecord option result" where
  "no_contact \<equiv> \<lambda>_. Inr None"

definition incoming_acct :: AccountState where
  "incoming_acct = onCallState all_registered no_contact ''peer'' 7 INCOMING_AUDIO sample_acct"

definition ringing_acct :: AccountState where
  "ringing_acct = onCallState all_registered no_contact ''peer'' 7 RINGING incoming_acct"

definition answered_acct :: AccountState where
  "answered_acct = BridgeCall_onCallState CONFIRMED ringing_acct"

definition answered_history :: "moment list" where
  "answered_history = [noted (Leg 0 CONFIRMED) [] ringing_acct answered_acct, noted (Rtc 7 RINGING) [] incoming_acct ringing_acct,
     noted (Rtc 7 INCOMING_AUDIO) [] sample_acct incoming_acct]"

lemmas sample_defs = incoming_acct_def ringing_acct_def answered_acct_def call_defs canBridgeToSip_def bridgeTarget_def sample_acct_def sample_config_def
  caller_headers_def contact_headers_def sip_uri_def

lemma answered_reachable: "call_reachable (answered_acct, Some (7, True), [], answered_history)"
proof -
  have "call_reachable (sample_acct, None, [], [])" by (rule reach_init) (simp add: call_start_def idle_def sample_acct_def)
  from reach_step [OF this rtc_incoming [OF incoming_acct_def]]
  have "call_reachable (incoming_acct, Some (7, False), [], [noted (Rtc 7 INCOMING_AUDIO) [] sample_acct incoming_acct])" .
  from reach_step [OF this rtc_ringing [OF ringing_acct_def]]
  have r: "call_reachable (ringing_acct, Some (7, True), [], tl answered_history)" by (simp add: answered_history_def)
  have c: "sipCall ringing_acct = Some \<lparr>sc_bridge = 0, sc_dialed = True, acceptSent = False, weHungUp = False, disconnected = False\<rparr>"
    by (simp add: sample_defs)
  from reach_step [OF r leg_state [OF c _ answered_acct_def]] show ?thesis by (simp add: answered_history_def)
qed

lemma answered_actions:
  "actions incoming_acct = [Call_proceed 7]" "actions ringing_acct = [Call_proceed 7, Invite ''sip:200@pbx'' [(''X-Signal-UUID'', ''peer'')]]"
  "actions answered_acct = [Call_proceed 7, Invite ''sip:200@pbx'' [(''X-Signal-UUID'', ''peer'')], Call_accept 7]"
  by (simp_all add: sample_defs)

theorem accept_follows_answer_witness:
  "\<exists>b. mo_event (hd answered_history) = Leg b CONFIRMED \<and> mo_acts (hd answered_history) = [Call_accept 7] \<and> (\<exists>d \<in> set (tl answered_history). dials 7 b d)"
proof -
  have "mo_acts (hd answered_history) = [Call_accept 7]" by (simp add: answered_history_def noted_def answered_actions)
  moreover have "call_reachable (answered_acct, Some (7, True), [], [] @ hd answered_history # tl answered_history)"
    using answered_reachable by (simp add: answered_history_def)
  ultimately show ?thesis using accept_follows_answer [of answered_acct _ _ "[]" "hd answered_history" "tl answered_history" 7] by fastforce
qed

theorem one_leg_at_a_time_witness:
  "sipCall answered_acct \<noteq> None \<and> incomingSipCall answered_acct = None"
proof -
  have s: "sipCall answered_acct \<noteq> None" by (simp add: sample_defs)
  have "\<not> rang_during_lookup answered_history" by (simp add: rang_during_lookup_def answered_history_def noted_def)
  from one_leg_at_a_time [OF answered_reachable this] s show ?thesis by simp
qed

section \<open>Where the legs do meet\<close>

text \<open>
  \<open>onIncomingCall\<close> looks the number up on the network between ringing the SIP caller and starting the
  Signal call, and \<open>startSipDial\<close> does not look at \<open>incomingSipCall\<close>. A Signal call that comes in during the lookup is
  bridged as well: from any idle account that can bridge, the account then has both SIP calls, and the SIP caller's call object refers to
  a bridge that has been destroyed.
\<close>

theorem incoming_race_dangles:
  assumes "idle s" "canBridgeToSip sip (config s)" "dest_user user \<noteq> []" "byAci peer = Inr contact"
  shows "let (t, s1) = incoming_ring user s;
             s2 = onCallState sip byAci peer i INCOMING_AUDIO s1;
             s3 = onCallState sip byAci peer i RINGING s2
         in t = Some (dest_user user) \<and> sipCall s3 \<noteq> None \<and>
            (\<exists>c. incomingSipCall s3 = Some c \<and> bridge_ptr s3 \<noteq> Some (sc_bridge c))"
  using assms by (auto simp: idle_def call_defs canBridgeToSip_def caller_headers_def split: prod.splits)

theorem incoming_race_dangles_witness:
  "let (t, s1) = incoming_ring ''15550101'' sample_acct;
       s3 = onCallState all_registered no_contact ''peer'' 7 RINGING (onCallState all_registered no_contact ''peer'' 7 INCOMING_AUDIO s1)
   in sipCall s3 \<noteq> None \<and> incomingSipCall s3 \<noteq> None"
proof -
  have "idle sample_acct" "canBridgeToSip all_registered (config sample_acct)" "dest_user ''15550101'' \<noteq> []"
    by (simp_all add: idle_def sample_acct_def canBridgeToSip_def bridgeTarget_def sample_config_def dest_user_def)
  from incoming_race_dangles [OF this, of no_contact "''peer''" None 7] show ?thesis
    by (auto simp: Let_def split: prod.splits)
qed

text \<open>
  An INVITE that arrives while a Signal call has been proceeded with but not yet dialled out is
  refused by RingRTC, but it has already cleared \<open>isCallee\<close>: the Signal call's \<open>Ringing\<close> then dials no SIP leg,
  and the call is never bridged although the account could.
\<close>

theorem invite_loses_pending_call:
  assumes "idle s" "canBridgeToSip sip (config s)" "resolve (dest_user user) = Inr target" "target \<noteq> []" "user \<noteq> []"
  shows "let s1 = onCallState sip byAci peer i INCOMING_AUDIO s;
             s2 = onIncomingCall resolve 0 user s1;
             s3 = onCallState sip byAci peer i RINGING s2
         in actions s1 = [Call_proceed i] \<and> sipCall s3 = None \<and> filter is_invite (actions s3) = []"
  using assms by (auto simp: idle_def call_defs dest_user_def is_invite_def split: option.splits)

theorem invite_loses_pending_call_witness:
  "let s1 = onCallState all_registered no_contact ''peer'' 7 INCOMING_AUDIO sample_acct;
       s3 = onCallState all_registered no_contact ''peer'' 7 RINGING (onIncomingCall (\<lambda>_. Inr ''aci'') 0 ''15550101'' s1)
   in actions s1 = [Call_proceed 7] \<and> sipCall s3 = None"
proof -
  have "idle sample_acct" "canBridgeToSip all_registered (config sample_acct)"
    by (simp_all add: idle_def sample_acct_def canBridgeToSip_def bridgeTarget_def sample_config_def)
  from invite_loses_pending_call [OF this, of "\<lambda>_. Inr ''aci''" "''15550101''" "''aci''" no_contact "''peer''" 7] show ?thesis
    by (simp add: Let_def)
qed

section \<open>Calls that are not bridged\<close>

lemma unbridged_step:
  assumes "\<not> canBridgeToSip sip (config s)" "\<not> isCallee s" "sipCall s = None"
    and "s' = onCallState sip byAci peer i st s"
  shows "config s' = config s \<and> \<not> isCallee s' \<and> sipCall s' = None \<and>
    filter (\<lambda>a. is_accept a \<or> is_invite a) (actions s') = filter (\<lambda>a. is_accept a \<or> is_invite a) (actions s) \<and>
    filter (\<lambda>a. \<exists>j. a = Call_proceed j) (actions s') =
      filter (\<lambda>a. \<exists>j. a = Call_proceed j) (actions s) @ (if st = OUTGOING_AUDIO then [Call_proceed i] else [])"
  using assms by (cases st) (auto simp: call_defs is_accept_def is_invite_def split: option.splits)

text \<open>
  An account that cannot bridge (no destination configured, or its SIP registration down) leaves incoming calls to
  the account's other devices: through any sequence of RingRTC events it dials nothing, accepts nothing, and proceeds only
  with the calls it placed itself.
\<close>

theorem unbridged_calls_left_alone:
  assumes "\<not> canBridgeToSip sip (config s)" "\<not> isCallee s" "sipCall s = None" "actions s = []"
    and "s' = fold (\<lambda>(peer, i, st). onCallState sip byAci peer i st) events s"
  shows "filter (\<lambda>a. is_accept a \<or> is_invite a) (actions s') = [] \<and>
    filter (\<lambda>a. \<exists>j. a = Call_proceed j) (actions s') = [Call_proceed i. (peer, i, st) \<leftarrow> events, st = OUTGOING_AUDIO]"
proof -
  have "filter (\<lambda>a. is_accept a \<or> is_invite a) (actions (fold (\<lambda>(peer, i, st). onCallState sip byAci peer i st) events s)) =
      filter (\<lambda>a. is_accept a \<or> is_invite a) (actions s) \<and>
    filter (\<lambda>a. \<exists>j. a = Call_proceed j) (actions (fold (\<lambda>(peer, i, st). onCallState sip byAci peer i st) events s)) =
      filter (\<lambda>a. \<exists>j. a = Call_proceed j) (actions s) @ [Call_proceed i. (peer, i, st) \<leftarrow> events, st = OUTGOING_AUDIO]"
    if "\<not> canBridgeToSip sip (config s)" "\<not> isCallee s" "sipCall s = None" for s
    using that
  proof (induction events arbitrary: s)
    case (Cons e events)
    obtain peer i st where e: "e = (peer, i, st)" by (cases e) auto
    show ?case
      using Cons.IH [of "onCallState sip byAci peer i st s"] unbridged_step [OF Cons.prems refl, of byAci peer i st] Cons.prems
      by (simp add: e)
  qed simp
  from this [of s] assms show ?thesis by simp
qed

theorem unbridged_calls_left_alone_witness:
  "filter (\<lambda>a. is_accept a \<or> is_invite a) (actions (fold (\<lambda>(peer, i, st). onCallState (\<lambda>_. None) no_contact peer i st)
     [(''p'', 1, INCOMING_AUDIO), (''p'', 1, RINGING), (''p'', 1, ENDED)] sample_acct)) = []"
proof -
  have "\<not> canBridgeToSip (\<lambda>_. None) (config sample_acct)" "\<not> isCallee sample_acct" "sipCall sample_acct = None" "actions sample_acct = []"
    by (simp_all add: sample_acct_def canBridgeToSip_def)
  from unbridged_calls_left_alone [OF this refl, of no_contact "[(''p'', 1, INCOMING_AUDIO), (''p'', 1, RINGING), (''p'', 1, ENDED)]"]
  show ?thesis by blast
qed

text \<open>
  The dialled number reaches the resolver with exactly one plus sign, whatever the trunk put in front of it.
\<close>

lemma dest_user_normal: "u \<noteq> [] \<Longrightarrow> \<exists>n. dest_user u = CHR ''+'' # n \<and> (n = [] \<or> hd n \<noteq> CHR ''+'')"
  using hd_dropWhile [of "\<lambda>c. c = CHR ''+''" u] by (auto simp: dest_user_def)

lemma dest_user_idem: "dest_user (dest_user u) = dest_user u"
  by (auto simp: dest_user_def dropWhile_idem)

end
