(* ===== verification/DispatchQueue.thy ===== *)
theory DispatchQueue
  imports Prelude
begin

text \<open>
  Model of \<open>EnvelopeDispatchQueue\<close> (\<open>daemon/main.cpp\<close>): one worker thread that runs the work
  items queued by the socket's threads in arrival order. A step is one critical section of
  \<open>state->mutex\<close>, or the execution of one item outside it. \<open>pushed\<close> and \<open>ran\<close>
  record the history.
\<close>

section \<open>State and steps\<close>

record 'w State =
  queue :: "'w list"
  stopping :: bool

datatype 'w worker = Not_started | Idle | Working 'w | Exited

record 'w dispatch =
  qstate :: "'w State option"
  qworker :: "'w worker"
  pushed :: "'w list"
  ran :: "'w list"

definition new_queue :: "'w dispatch" where
  "new_queue = \<lparr>qstate = None, qworker = Not_started, pushed = [], ran = []\<rparr>"

definition queue_start :: "'w dispatch \<Rightarrow> 'w dispatch" where
  "queue_start d = d\<lparr>qstate := Some \<lparr>queue = [], stopping = False\<rparr>, qworker := Idle\<rparr>"

text \<open>\<open>None\<close>: the null \<open>qstate\<close> is dereferenced and the process crashes.\<close>

definition queue_push :: "'w \<Rightarrow> 'w dispatch \<Rightarrow> 'w dispatch option" where
  "queue_push w d = (case qstate d of None \<Rightarrow> None
     | Some s \<Rightarrow> Some (d\<lparr>qstate := Some (s\<lparr>queue := queue s @ [w]\<rparr>), pushed := pushed d @ [w]\<rparr>))"

text \<open>The flag \<open>stopAndJoin\<close> sets, before it waits (at most five seconds) for the worker to end.\<close>

definition request_stop :: "'w dispatch \<Rightarrow> 'w dispatch option" where
  "request_stop d = (case qstate d of None \<Rightarrow> None | Some s \<Rightarrow> Some (d\<lparr>qstate := Some (s\<lparr>stopping := True\<rparr>)\<rparr>))"

text \<open>One round of the worker's loop, in its two halves.\<close>

definition worker_step :: "'w dispatch \<Rightarrow> 'w dispatch option" where
  "worker_step d = (case (qworker d, qstate d) of
       (Idle, Some s) \<Rightarrow> (case queue s of
            w # ws \<Rightarrow> Some (d\<lparr>qworker := Working w, qstate := Some (s\<lparr>queue := ws\<rparr>)\<rparr>)
          | [] \<Rightarrow> if stopping s then Some (d\<lparr>qworker := Exited\<rparr>) else None)
     | (Working w, _) \<Rightarrow> Some (d\<lparr>qworker := Idle, ran := ran d @ [w]\<rparr>)
     | _ \<Rightarrow> None)"

inductive dispatch_step :: "'w dispatch \<Rightarrow> 'w dispatch \<Rightarrow> bool" where
  d_start: "qworker d = Not_started \<Longrightarrow> dispatch_step d (queue_start d)"
| d_push: "queue_push w d = Some d' \<Longrightarrow> dispatch_step d d'"
| d_stop: "request_stop d = Some d' \<Longrightarrow> dispatch_step d d'"
| d_worker: "worker_step d = Some d' \<Longrightarrow> dispatch_step d d'"

abbreviation dispatch_reach :: "'w dispatch \<Rightarrow> bool" where
  "dispatch_reach \<equiv> reachable (\<lambda>d. d = new_queue) dispatch_step"

fun run_worker :: "nat \<Rightarrow> 'w dispatch \<Rightarrow> 'w dispatch" where
  "run_worker 0 d = d"
| "run_worker (Suc n) d = (case worker_step d of None \<Rightarrow> d | Some d' \<Rightarrow> run_worker n d')"

text \<open>
  \<open>stopAndJoin\<close> when the worker gets \<open>n\<close> steps done before the caller stops waiting for it.
\<close>

definition stopAndJoin :: "nat \<Rightarrow> 'w dispatch \<Rightarrow> 'w dispatch option" where
  "stopAndJoin n d = map_option (run_worker n) (request_stop d)"

section \<open>Properties\<close>

definition in_flight :: "'w dispatch \<Rightarrow> 'w list" where
  "in_flight d = (case qworker d of Working w \<Rightarrow> [w] | _ \<Rightarrow> [])"

definition waiting_items :: "'w dispatch \<Rightarrow> 'w list" where
  "waiting_items d = (case qstate d of None \<Rightarrow> [] | Some s \<Rightarrow> queue s)"

definition fifo_inv :: "'w dispatch \<Rightarrow> bool" where
  "fifo_inv d \<longleftrightarrow> pushed d = ran d @ in_flight d @ waiting_items d \<and> (qworker d = Not_started \<longleftrightarrow> qstate d = None)"

lemmas dispatch_defs = fifo_inv_def in_flight_def waiting_items_def queue_start_def queue_push_def request_stop_def worker_step_def

lemma fifo_inv_step [wf_intros]: "dispatch_step d d' \<Longrightarrow> fifo_inv d \<Longrightarrow> fifo_inv d'"
  by (induction rule: dispatch_step.induct)
    (auto simp: dispatch_defs split: option.splits worker.splits list.splits if_splits)

interpretation dq: invariant_system "\<lambda>d. d = new_queue" dispatch_step fifo_inv
proof unfold_locales
  show "fifo_inv s" if "s = new_queue" for s :: "'a dispatch"
    using that by (simp add: dispatch_defs new_queue_def)
qed (rule fifo_inv_step)

lemma new_queue_reach: "dispatch_reach new_queue"
  by (rule reach_init) (rule refl)

lemmas fifo_inv_reach = dq.reachable_inv

lemma drain:
  assumes "qworker d = Idle" "qstate d = Some s" "stopping s"
  shows "\<exists>d'. run_worker (2 * length (queue s) + 1) d = d' \<and> qworker d' = Exited \<and> ran d' = ran d @ queue s \<and> pushed d' = pushed d"
  using assms
proof (induction "queue s" arbitrary: d s)
  case Nil
  then show ?case by (simp add: worker_step_def split: list.split)
next
  case (Cons w ws)
  let ?d1 = "d\<lparr>qworker := Working w, qstate := Some (s\<lparr>queue := ws\<rparr>)\<rparr>"
  let ?d2 = "?d1\<lparr>qworker := Idle, ran := ran d @ [w]\<rparr>"
  have q: "queue s = w # ws" using Cons.hyps(2) by simp
  have 1: "worker_step d = Some ?d1" using Cons.prems q by (simp add: worker_step_def)
  have 2: "worker_step ?d1 = Some ?d2" by (simp add: worker_step_def)
  have "\<exists>d'. run_worker (2 * length ws + 1) ?d2 = d' \<and> qworker d' = Exited \<and> ran d' = ran ?d2 @ ws \<and> pushed d' = pushed ?d2"
    using Cons.hyps(1) [of "s\<lparr>queue := ws\<rparr>" ?d2] Cons.prems by simp
  moreover have "run_worker (2 * length (queue s) + 1) d = run_worker (2 * length ws + 1) ?d2"
    using 1 2 q by (simp add: eval_nat_numeral)
  ultimately show ?case using q by simp
qed

text \<open>
  C15: Work items run in arrival order, each exactly once and one at a time: what has run, the item in
  work and what waits are together exactly the items pushed, in order, under every interleaving of pushes, stop
  and worker.
\<close>

theorem dispatch_fifo:
  assumes "dispatch_reach d"
  shows "pushed d = ran d @ in_flight d @ waiting_items d"
  using fifo_inv_reach [OF assms] by (simp add: fifo_inv_def)

text \<open>
  A stop drains the queue: in every reachable state with \<open>stopping\<close> set and the worker not yet gone, at most
  twice as many worker steps as there are items waiting, and two more, bring the worker to its end, with every
  item that was pushed having run.
\<close>

theorem stop_drains:
  assumes "dispatch_reach d" "qstate d = Some s" "stopping s" "qworker d \<noteq> Exited"
  shows "\<exists>n \<le> 2 * length (queue s) + 2. qworker (run_worker n d) = Exited \<and> ran (run_worker n d) = pushed d"
proof (cases "qworker d")
  case Idle
  then show ?thesis
    using drain [OF Idle assms(2,3)] fifo_inv_reach [OF assms(1)] assms(2)
    by (intro exI [of _ "2 * length (queue s) + 1"]) (auto simp: dispatch_defs)
next
  case (Working w)
  let ?d1 = "d\<lparr>qworker := Idle, ran := ran d @ [w]\<rparr>"
  have "run_worker (Suc (2 * length (queue s) + 1)) d = run_worker (2 * length (queue s) + 1) ?d1"
    using Working by (simp add: worker_step_def)
  moreover obtain d' where "run_worker (2 * length (queue s) + 1) ?d1 = d'" "qworker d' = Exited" "ran d' = ran ?d1 @ queue s"
    using drain [of ?d1 s] assms(2,3) by auto
  ultimately show ?thesis
    using Working fifo_inv_reach [OF assms(1)] assms(2)
    by (intro exI [of _ "Suc (2 * length (queue s) + 1)"]) (auto simp: dispatch_defs)
next
  case Not_started
  then show ?thesis using fifo_inv_reach [OF assms(1)] assms(2) by (simp add: fifo_inv_def)
qed (use assms in simp)

definition sample_queue :: "nat dispatch" where
  "sample_queue = \<lparr>qstate = Some \<lparr>queue = [1, 2], stopping = True\<rparr>, qworker = Idle, pushed = [1, 2], ran = []\<rparr>"

lemma sample_queue_reach: "dispatch_reach sample_queue"
proof -
  have "dispatch_reach (queue_start new_queue :: nat dispatch)"
    by (rule reach_step [OF new_queue_reach d_start]) (simp_all add: new_queue_def)
  from reach_step [OF this d_push [of 1]]
  have "dispatch_reach \<lparr>qstate = Some \<lparr>queue = [1::nat], stopping = False\<rparr>, qworker = Idle, pushed = [1], ran = []\<rparr>"
    by (simp add: queue_push_def queue_start_def new_queue_def)
  from reach_step [OF this d_push [of 2]]
  have "dispatch_reach \<lparr>qstate = Some \<lparr>queue = [1::nat, 2], stopping = False\<rparr>, qworker = Idle, pushed = [1, 2], ran = []\<rparr>"
    by (simp add: queue_push_def)
  from reach_step [OF this d_stop] show ?thesis
    by (simp add: request_stop_def sample_queue_def)
qed

theorem dispatch_fifo_witness: "pushed sample_queue = ran sample_queue @ in_flight sample_queue @ waiting_items sample_queue"
  by (rule dispatch_fifo [OF sample_queue_reach])

theorem stop_drains_witness: "\<exists>n. qworker (run_worker n sample_queue) = Exited \<and> ran (run_worker n sample_queue) = [1, 2]"
  using stop_drains [OF sample_queue_reach] by (auto simp: sample_queue_def)
end
