(* ===== verification/SyncedContacts.thy ===== *)
theory SyncedContacts
  imports Storage
begin

text \<open>
  The synced-contact table: its two partial unique indexes as an invariant,
  what \<open>saveSyncedContact\<close> leaves for both lookups, and the sync loop of
  \<open>daemon/main.cpp\<close> (\<open>syncStorageContacts\<close>) that saves a fetched batch contact by contact.
\<close>

section \<open>The sync loop\<close>

record StorageContact =
  sc_e164 :: string
  sc_aci :: string
  sc_pni :: string
  sc_profileKey :: bytes
  sc_givenName :: string
  sc_familyName :: string

definition save_contact :: "sqlite \<Rightarrow> int \<Rightarrow> string \<Rightarrow> StorageContact \<Rightarrow> db \<Rightarrow> db result" where
  "save_contact q now acct c = saveSyncedContact q now acct (sc_e164 c) (sc_aci c) (sc_pni c) (sc_profileKey c)
     (sc_givenName c) (sc_familyName c)"

text \<open>\<open>q\<close> gives the engine's faults per contact; a failing contact is skipped, the rest still saved.\<close>

fun sync_loop :: "(nat \<Rightarrow> sqlite) \<Rightarrow> int \<Rightarrow> string \<Rightarrow> nat \<Rightarrow> StorageContact list \<Rightarrow> db \<Rightarrow> db" where
  "sync_loop q now acct i [] d = d"
| "sync_loop q now acct i (c # cs) d =
     (if sc_e164 c = [] \<and> sc_aci c = [] then sync_loop q now acct (Suc i) cs d
      else case save_contact (q i) now acct c d of
          Inl _ \<Rightarrow> sync_loop q now acct (Suc i) cs d
        | Inr d' \<Rightarrow> sync_loop q now acct (Suc i) cs d')"

record sync_state =
  ss_db :: db
  ss_lastStorageSyncMs :: int

definition syncStorageContacts :: "(nat \<Rightarrow> sqlite) \<Rightarrow> int \<Rightarrow> int \<Rightarrow> string \<Rightarrow> string option \<Rightarrow>
    StorageContact list result \<Rightarrow> sync_state \<Rightarrow> sync_state" where
  "syncStorageContacts q nowMs now acct entropy_pool fetched s =
     (let s1 = s\<lparr>ss_lastStorageSyncMs := nowMs\<rparr> in
      if entropy_pool = None \<or> entropy_pool = Some [] then s1
      else case fetched of Inl _ \<Rightarrow> s1
        | Inr contacts \<Rightarrow> s1\<lparr>ss_db := sync_loop q now acct 0 contacts (ss_db s1)\<rparr>)"

section \<open>The invariant of the table\<close>

definition contacts_inv :: "db \<Rightarrow> bool" where
  "contacts_inv d \<longleftrightarrow>
     distinct (map (\<lambda>r. r ''id'') (rows_of d ''synced_contact''))
     \<and> (\<forall>r \<in> set (rows_of d ''synced_contact''). \<exists>i. r ''id'' = SInt i \<and> 0 < i \<and> i \<le> autoinc d)
     \<and> (\<forall>r \<in> set (rows_of d ''synced_contact''). \<forall>s \<in> set (rows_of d ''synced_contact'').
          r ''id'' \<noteq> s ''id'' \<longrightarrow> \<not> clash ''e164'' r s \<and> \<not> clash ''aci'' r s)"

lemma clash_sym: "clash c r s \<Longrightarrow> clash c s r"
  by (auto simp: clash_def)

lemma unique_error_None:
  "unique_error ''synced_contact'' others r = None \<longleftrightarrow>
     (\<forall>s \<in> set others. \<not> clash ''e164'' r s \<and> \<not> clash ''aci'' r s)"
  by (auto simp: unique_error_def list_ex_iff)

lemma first_error_None: "first_error es = None \<longleftrightarrow> (\<forall>e \<in> set es. e = None)"
proof -
  have "(case filter (\<lambda>e. e \<noteq> None) es of [] \<Rightarrow> None | e # _ \<Rightarrow> e) = None \<longleftrightarrow> filter (\<lambda>e. e \<noteq> None) es = []"
    using filter_set [of "\<lambda>e. e \<noteq> None" es]
    by (cases "filter (\<lambda>e. e \<noteq> None) es") (auto simp: filter_eq_Cons_iff)
  then show ?thesis
    by (auto simp: first_error_def filter_empty_conv)
qed

text \<open>One row is replaced by one that clashes with no other: the update of an existing contact.\<close>

lemma contacts_inv_update:
  assumes "contacts_inv d" "tabs d ''synced_contact'' \<noteq> None" "update_synced i vals d = Inr d'" "''id'' \<notin> fst ` set vals"
  shows "contacts_inv d' \<and> autoinc d' = autoinc d \<and> tabs d' ''synced_contact'' \<noteq> None
    \<and> (\<forall>r \<in> set (rows_of d ''synced_contact''). r ''id'' = SInt i \<longrightarrow> set_cols r vals \<in> set (rows_of d' ''synced_contact''))"
proof -
  let ?rs = "rows_of d ''synced_contact''" and ?hit = "matches [(''id'', SInt i)]"
  define f where "f = (\<lambda>r. if ?hit r then set_cols r vals else r)"
  have ids: "f r ''id'' = r ''id''" for r
    using assms(4) by (simp add: f_def)
  have d': "d' = put_rows ''synced_contact'' (map f ?rs) d"
    and ok: "\<forall>r \<in> set ?rs. ?hit r \<longrightarrow> unique_error ''synced_contact'' (filter (\<lambda>r. \<not> ?hit r) ?rs) (set_cols r vals) = None"
    using assms(3) by (auto simp: update_synced_def Let_def first_error_None f_def split: option.splits)
  have rows: "rows_of d' ''synced_contact'' = map f ?rs"
    using assms(2) by (simp add: d')
  have auto: "autoinc d' = autoinc d"
    by (simp add: d' put_rows_def split: option.split)
  have pair: "\<not> clash c (f r) (f s)" if "r \<in> set ?rs" "s \<in> set ?rs" "r ''id'' \<noteq> s ''id''" "c \<in> {''e164'', ''aci''}" for r s c
  proof -
    have nc: "\<not> clash c r s"
      using assms(1) that by (auto simp: contacts_inv_def)
    show ?thesis
    proof (cases "?hit r")
      case True
      then have "\<not> ?hit s"
        using that(3) by auto
      then show ?thesis
        using True ok that by (auto simp: unique_error_None f_def)
    next
      case False
      show ?thesis
      proof (cases "?hit s")
        case True
        then have "\<not> clash c (set_cols s vals) r"
          using False ok that by (auto simp: unique_error_None)
        then show ?thesis
          using True False clash_sym by (auto simp: f_def)
      qed (use nc False in \<open>simp add: f_def\<close>)
    qed
  qed
  have "map (\<lambda>r. r ''id'') (map f ?rs) = map (\<lambda>r. r ''id'') ?rs"
    using ids by simp
  then have "contacts_inv d'"
    using assms(1) pair ids unfolding contacts_inv_def rows auto by (auto simp: comp_def)
  then show ?thesis
    using assms(2) auto by (auto simp: rows f_def) (auto simp: d' put_rows_def)
qed

lemma contacts_inv_insert:
  assumes "contacts_inv d" "tabs d ''synced_contact'' \<noteq> None" "insert_synced mk d = Inr d'"
    and mk: "\<And>i. mk i ''id'' = SInt i" and pos: "0 \<le> autoinc d"
  shows "contacts_inv d' \<and> autoinc d' = autoinc d + 1 \<and> tabs d' ''synced_contact'' \<noteq> None
    \<and> mk (autoinc d + 1) \<in> set (rows_of d' ''synced_contact'')"
proof -
  let ?rs = "rows_of d ''synced_contact''" and ?n = "mk (autoinc d + 1)"
  have ok: "unique_error ''synced_contact'' ?rs ?n = None"
    and d': "d' = (put_rows ''synced_contact'' (?rs @ [?n]) d)\<lparr>autoinc := autoinc d + 1\<rparr>"
    using assms(3) by (auto simp: insert_synced_def sql_insert_def first_error_None split: sum.splits option.splits)
  have rows: "rows_of d' ''synced_contact'' = ?rs @ [?n]"
    using assms(2) by (auto simp: d' rows_of_def put_rows_def)
  have fresh: "r ''id'' \<noteq> SInt (autoinc d + 1)" if "r \<in> set ?rs" for r
    using assms(1) that by (fastforce simp: contacts_inv_def)
  have nc: "\<not> clash c ?n s \<and> \<not> clash c s ?n" if "s \<in> set ?rs" "c \<in> {''e164'', ''aci''}" for s c
    using ok that clash_sym by (fastforce simp: unique_error_None)
  have "contacts_inv d'"
    using assms(1) fresh nc mk pos unfolding contacts_inv_def rows
    by (auto simp: d' image_iff)
  then show ?thesis
    using assms(2) rows by (auto simp: d')
qed

lemma contact_id_inj:
  assumes "contacts_inv d" "q \<in> set (rows_of d ''synced_contact'')" "r \<in> set (rows_of d ''synced_contact'')"
    "q ''id'' = r ''id''"
  shows "q = r"
  using assms unfolding contacts_inv_def distinct_map by (meson inj_onD)

text \<open>A unique row: the row the invariant singles out is the one a lookup returns.\<close>

lemma find_unique_contact:
  assumes "contacts_inv d" "r \<in> set (rows_of d ''synced_contact'')" "c \<in> {''e164'', ''aci''}"
    and "r ''account_name'' = bindText acct" "r c = bindText v" "v \<noteq> []"
  shows "find (matches [(''account_name'', bindText acct), (c, bindText v)]) (rows_of d ''synced_contact'') = Some r"
proof -
  let ?m = "matches [(''account_name'', bindText acct), (c, bindText v)]"
  have "?m r"
    using assms(4,5) by simp
  then obtain s where s: "find ?m (rows_of d ''synced_contact'') = Some s"
    using assms(2) by (metis find_None_iff not_None_eq)
  then have "?m s" "s \<in> set (rows_of d ''synced_contact'')"
    by (auto simp: find_Some_iff in_set_conv_nth)
  then have "clash c r s"
    using assms(4-6) by (simp add: clash_def nonempty_text_def)
  then have "r ''id'' = s ''id''"
    using assms(1-3) \<open>s \<in> _\<close> by (auto simp: contacts_inv_def)
  then have "r = s"
    using contact_id_inj [OF assms(1,2) \<open>s \<in> _\<close>] by simp
  with s show ?thesis
    by simp
qed

lemma synced_values_id [simp]:
  "''id'' \<notin> fst ` set (synced_values now e164 aci pni pk gn fn)"
  "''account_name'' \<notin> fst ` set (synced_values now e164 aci pni pk gn fn)"
  by (simp_all add: synced_values_def)

lemma find_synced_row:
  assumes "find_synced q acct c v d = Inr (Some i)" "contacts_inv d"
  shows "\<exists>r \<in> set (rows_of d ''synced_contact''). r ''id'' = SInt i \<and> r ''account_name'' = bindText acct \<and> r c = bindText v"
proof -
  obtain r where r: "find (matches [(''account_name'', bindText acct), (c, bindText v)]) (rows_of d ''synced_contact'') = Some r"
    "i = columnInt (r ''id'')"
    using assms(1) by (auto simp: find_synced_def run_first_def bindR_Inr_iff split: if_splits)
  then have m: "r \<in> set (rows_of d ''synced_contact'')" "r ''account_name'' = bindText acct" "r c = bindText v"
    by (auto simp: find_Some_iff in_set_conv_nth)
  then obtain j where "r ''id'' = SInt j"
    using assms(2) by (auto simp: contacts_inv_def)
  then show ?thesis
    using r(2) m by auto
qed

lemma saveSyncedContact_row:
  assumes "contacts_inv d" "0 \<le> autoinc d" "saveSyncedContact q now acct e164 aci pni pk gn fn d = Inr d'"
  shows "contacts_inv d' \<and> 0 \<le> autoinc d' \<and> tabs d' ''synced_contact'' \<noteq> None
    \<and> (\<exists>r0. r0 ''account_name'' = bindText acct
         \<and> set_cols r0 (synced_values now e164 aci pni pk gn fn) \<in> set (rows_of d' ''synced_contact''))"
proof -
  let ?vals = "synced_values now e164 aci pni pk gn fn"
  let ?mk = "\<lambda>i. set_cols (\<lambda>_. SNull) ([(''id'', SInt i), (''account_name'', bindText acct)] @ ?vals)"
  obtain b ex where ex: "(if e164 \<noteq> [] then find_synced q acct ''e164'' e164 d else Inr None) = Inr b"
    "(if b = None \<and> aci \<noteq> [] then find_synced q acct ''aci'' aci d else Inr b) = Inr ex"
    and w: "case ex of Some i \<Rightarrow> run_write q ''updateSynced'' ''saveSyncedContact (update) failed: '' ''synced_contact''
           (update_synced i ?vals) d = Inr d'
       | None \<Rightarrow> run_write q ''insertSynced'' ''saveSyncedContact (insert) failed: '' ''synced_contact''
           (insert_synced ?mk) d = Inr d'"
    using assms(3) by (auto simp: saveSyncedContact_def Let_def bindR_Inr_iff split: option.splits)
  show ?thesis
  proof (cases ex)
    case None
    then have t: "tabs d ''synced_contact'' \<noteq> None" "insert_synced ?mk d = Inr d'"
      using w by (auto elim: run_writeE)
    note i = contacts_inv_insert [OF assms(1) t _ assms(2)]
    show ?thesis
      using i assms(2) by (intro conjI exI [of _ "set_cols (\<lambda>_. SNull) [(''id'', SInt (autoinc d + 1)), (''account_name'', bindText acct)]"])
        simp_all
  next
    case (Some i)
    then have t: "tabs d ''synced_contact'' \<noteq> None" "update_synced i ?vals d = Inr d'"
      using w by (auto elim: run_writeE)
    obtain r where r: "r \<in> set (rows_of d ''synced_contact'')" "r ''id'' = SInt i" "r ''account_name'' = bindText acct"
      using ex Some find_synced_row [OF _ assms(1)] by (metis option.distinct(1) sum.inject(2))
    show ?thesis
      using contacts_inv_update [OF assms(1) t] r assms(2) by auto
  qed
qed

section \<open>Properties\<close>

text \<open>
  C27: a contact that was saved is found again, by its number and by its ACI, with
  every field as saved, and no number and no ACI belongs to two rows of an account:
  \<open>saveSyncedContact\<close> keeps both partial unique indexes consistent.
\<close>

theorem saveSyncedContact_lookup:
  assumes "contacts_inv d" "0 \<le> autoinc d" "saveSyncedContact q now acct e164 aci pni pk gn fn d = Inr d'"
    and "Sql.readable q ''loadSyncedContact''" "Sql.readable q ''loadSyncedContactByAci''"
  shows "contacts_inv d' \<and> 0 \<le> autoinc d'
    \<and> (e164 \<noteq> [] \<longrightarrow> loadSyncedContact q acct e164 d' = Inr (Some \<lparr>c_e164 = e164, c_aci = aci, c_pni = pni,
         c_profile_key = pk, c_given_name = gn, c_family_name = fn, c_synced_at = now\<rparr>))
    \<and> (aci \<noteq> [] \<longrightarrow> loadSyncedContactByAci q acct aci d' = Inr (Some \<lparr>c_e164 = e164, c_aci = aci, c_pni = pni,
         c_profile_key = pk, c_given_name = gn, c_family_name = fn, c_synced_at = now\<rparr>))"
proof -
  let ?vals = "synced_values now e164 aci pni pk gn fn"
  obtain r0 where inv: "contacts_inv d'" "0 \<le> autoinc d'" "tabs d' ''synced_contact'' \<noteq> None"
    and r0: "r0 ''account_name'' = bindText acct" "set_cols r0 ?vals \<in> set (rows_of d' ''synced_contact'')"
    using saveSyncedContact_row [OF assms(1-3)] by blast
  have row: "readSyncedContactRow (set_cols r0 ?vals) = \<lparr>c_e164 = e164, c_aci = aci, c_pni = pni,
         c_profile_key = pk, c_given_name = gn, c_family_name = fn, c_synced_at = now\<rparr>"
    by (simp add: readSyncedContactRow_def synced_values_def)
  have key: "set_cols r0 ?vals ''account_name'' = bindText acct"
      "set_cols r0 ?vals ''e164'' = bindText e164" "set_cols r0 ?vals ''aci'' = bindText aci"
    using r0(1) by (simp_all add: synced_values_def)
  have "loadSyncedContact q acct e164 d' = Inr (Some (readSyncedContactRow (set_cols r0 ?vals)))" if "e164 \<noteq> []"
    using find_unique_contact [OF inv(1) r0(2) _ key(1,2) that] inv(3) assms(4)
    by (simp add: loadSyncedContact_def first_kv_def run_first_readable)
  moreover have "loadSyncedContactByAci q acct aci d' = Inr (Some (readSyncedContactRow (set_cols r0 ?vals)))" if "aci \<noteq> []"
    using find_unique_contact [OF inv(1) r0(2) _ key(1,3) that] inv(3) assms(5)
    by (simp add: loadSyncedContactByAci_def first_kv_def run_first_readable)
  ultimately show ?thesis
    using inv(1,2) row by simp
qed

lemma one_account_facts:
  "rows_of one_account ''synced_contact'' = []" "tabs one_account ''synced_contact'' \<noteq> None"
  "autoinc one_account = 0" "rows_of one_account ''account'' = [new_account_row ''a'' sample_account]"
proof -
  have t: "tabs fresh_db ''synced_contact'' \<noteq> None"
    by (rule fresh_db_tabs) (simp add: schema_def)
  show "rows_of one_account ''synced_contact'' = []" "rows_of one_account ''account'' = [new_account_row ''a'' sample_account]"
    using fresh_db_account by (simp_all add: one_account_def)
  show "tabs one_account ''synced_contact'' \<noteq> None"
    using t by (simp add: one_account_def)
  have "autoinc (fold create_if_missing ts d) = autoinc d" for ts d
    by (induction ts arbitrary: d) (auto simp: create_if_missing_def split: option.split)
  then show "autoinc one_account = 0"
    by (simp add: one_account_def put_rows_def fresh_db_def kSchemaSql_def empty_db_def split: option.split)
qed

definition contact_row :: row where
  "contact_row = set_cols (\<lambda>_. SNull) ([(''id'', SInt 1), (''account_name'', bindText ''a'')]
     @ synced_values 9 ''+15550101'' ''aci-2'' [] [] ''Ann'' [])"

definition one_contact :: db where
  "one_contact = (put_rows ''synced_contact'' [contact_row] one_account)\<lparr>autoinc := 1\<rparr>"

lemma save_first_contact:
  "saveSyncedContact no_faults 9 ''a'' ''+15550101'' ''aci-2'' [] [] ''Ann'' [] one_account = Inr one_contact"
  using one_account_facts
  by (simp add: saveSyncedContact_def find_synced_def run_first_readable run_write_def Stmt_def insert_synced_def
      sql_insert_def check_error_def unique_error_def fk_error_def first_error_def one_contact_def contact_row_def
      synced_values_def)

theorem saveSyncedContact_lookup_witness:
  "loadSyncedContact no_faults ''a'' ''+15550101'' one_contact = Inr (Some \<lparr>c_e164 = ''+15550101'', c_aci = ''aci-2'',
     c_pni = [], c_profile_key = [], c_given_name = ''Ann'', c_family_name = [], c_synced_at = 9\<rparr>)"
proof -
  have "contacts_inv one_account"
    by (simp add: contacts_inv_def one_account_facts)
  then show ?thesis
    using saveSyncedContact_lookup [OF _ _ save_first_contact] one_account_facts by simp
qed

text \<open>
  When the number of a contact belongs to one row and its ACI to another (a
  number that moved to a person already known by ACI alone), the row found by
  number is updated into a clash with the other: the save is refused every time, and the
  number keeps resolving to the old ACI.
\<close>

theorem moved_number_refused:
  assumes "contacts_inv d" "tabs d ''synced_contact'' \<noteq> None"
    and "r \<in> set (rows_of d ''synced_contact'')" "r ''account_name'' = bindText acct" "r ''e164'' = bindText e164"
    and "s \<in> set (rows_of d ''synced_contact'')" "s ''account_name'' = bindText acct" "s ''aci'' = bindText aci"
    and "e164 \<noteq> []" "aci \<noteq> []" "r ''id'' \<noteq> s ''id''"
  shows "saveSyncedContact no_faults now acct e164 aci pni pk gn fn d = Inl (Runtime_error
    (''saveSyncedContact (update) failed: '' @ ''UNIQUE constraint failed: synced_contact.account_name, synced_contact.aci''))"
proof -
  let ?rs = "rows_of d ''synced_contact''" and ?vals = "synced_values now e164 aci pni pk gn fn"
  obtain i where i: "r ''id'' = SInt i"
    using assms(1,3) by (auto simp: contacts_inv_def)
  have f: "find_synced no_faults acct ''e164'' e164 d = Inr (Some i)"
    using find_unique_contact [OF assms(1,3) _ assms(4,5,9)] assms(2) i
    by (simp add: find_synced_def run_first_readable)
  let ?hit = "\<lambda>q :: row. q ''id'' = SInt i" and ?others = "filter (\<lambda>q :: row. q ''id'' \<noteq> SInt i) ?rs"
  have "\<not> clash ''e164'' (set_cols q ?vals) t" if "?hit q" "q \<in> set ?rs" "t \<in> set ?others" for q t
  proof -
    have "q = r"
      using contact_id_inj [OF assms(1) that(2) assms(3)] that(1) i by simp
    moreover have "\<not> clash ''e164'' r t"
      using assms(1,3) that i by (auto simp: contacts_inv_def)
    ultimately show ?thesis
      using assms(4,5) by (simp add: clash_def synced_values_def)
  qed
  moreover have "clash ''aci'' (set_cols q ?vals) s" if "?hit q" "q \<in> set ?rs" for q
  proof -
    have "q = r"
      using contact_id_inj [OF assms(1) that(2) assms(3)] that(1) i by simp
    then show ?thesis
      using assms(4,7,8,10) by (simp add: clash_def synced_values_def nonempty_text_def)
  qed
  moreover have "s \<in> set ?others"
    using assms(6,11) i by auto
  ultimately have u: "unique_error ''synced_contact'' ?others (set_cols q ?vals) =
      Some ''UNIQUE constraint failed: synced_contact.account_name, synced_contact.aci''" if "?hit q" "q \<in> set ?rs" for q
    using that by (auto simp: unique_error_def list_ex_iff)
  obtain q qs where q: "filter ?hit ?rs = q # qs" "?hit q" "q \<in> set ?rs"
  proof (cases "filter ?hit ?rs")
    case Nil
    then show ?thesis
      using assms(3) i by (simp add: filter_empty_conv)
  next
    case (Cons x xs)
    have "x \<in> set (filter ?hit ?rs)"
      unfolding Cons by simp
    then have "?hit x" "x \<in> set ?rs"
      by simp_all
    with Cons show ?thesis
      by (rule that)
  qed
  have "update_synced i ?vals d = Inl ''UNIQUE constraint failed: synced_contact.account_name, synced_contact.aci''"
  proof -
    have "matches [(''id'', SInt i)] = ?hit"
      by (simp add: fun_eq_iff)
    then show ?thesis
      using q u by (simp add: update_synced_def Let_def first_error_def)
  qed
  then show ?thesis
    using assms(2,9) f by (simp add: saveSyncedContact_def run_write_def Stmt_def Let_def)
qed

definition two_contacts :: db where
  "two_contacts = (put_rows ''synced_contact'' [contact_row,
     contact_row(''id'' := SInt 2, ''e164'' := SText [], ''aci'' := SText ''aci-3'')] one_account)\<lparr>autoinc := 2\<rparr>"

theorem moved_number_refused_witness:
  "saveSyncedContact no_faults 10 ''a'' ''+15550101'' ''aci-3'' [] [] [] [] two_contacts = Inl (Runtime_error
    (''saveSyncedContact (update) failed: '' @ ''UNIQUE constraint failed: synced_contact.account_name, synced_contact.aci''))"
proof -
  have rows: "rows_of two_contacts ''synced_contact'' = [contact_row,
     contact_row(''id'' := SInt 2, ''e164'' := SText [], ''aci'' := SText ''aci-3'')]"
    and tb: "tabs two_contacts ''synced_contact'' \<noteq> None" and ai: "autoinc two_contacts = 2"
    using one_account_facts by (auto simp: two_contacts_def put_rows_def rows_of_def)
  have cr: "contact_row ''id'' = SInt 1" "contact_row ''account_name'' = bindText ''a''"
    "contact_row ''e164'' = bindText ''+15550101''" "contact_row ''aci'' = bindText ''aci-2''"
    by (simp_all add: contact_row_def synced_values_def)
  have inv: "contacts_inv two_contacts"
    by (simp add: contacts_inv_def rows cr clash_def nonempty_text_def ai bindText_def)
  show ?thesis
    by (rule moved_number_refused [OF inv tb, of contact_row _ _ "contact_row(''id'' := SInt 2, ''e164'' := SText [], ''aci'' := SText ''aci-3'')"])
      (simp_all add: rows cr, simp add: bindText_def)
qed

lemma sync_loop_inv:
  assumes "contacts_inv d" "0 \<le> autoinc d"
  shows "contacts_inv (sync_loop q now acct i cs d) \<and> 0 \<le> autoinc (sync_loop q now acct i cs d)"
  using assms
proof (induction q now acct i cs d rule: sync_loop.induct)
  case (2 q now acct i c cs d)
  show ?case
  proof (cases "sc_e164 c = [] \<and> sc_aci c = []")
    case False
    show ?thesis
    proof (cases "save_contact (q i) now acct c d")
      case (Inr d')
      then have "contacts_inv d' \<and> 0 \<le> autoinc d'"
        using saveSyncedContact_row [OF 2(4,5) Inr [unfolded save_contact_def]] by simp
      then show ?thesis
        using 2(3) [OF False Inr] False Inr by auto
    next
      case (Inl e)
      then show ?thesis
        using 2(2) [OF False Inl 2(4,5)] False Inl by auto
    qed
  next
    case True
    then show ?thesis
      using 2(1) [OF True 2(4,5)] by simp
  qed
qed simp

text \<open>
  A storage sync keeps the contact table consistent whatever batch was fetched
  and whichever saves fail, always records the time of the attempt, and does
  nothing else for an account without an entropy pool or when the fetch failed.
\<close>

theorem sync_keeps_contacts_consistent:
  assumes "contacts_inv (ss_db s)" "0 \<le> autoinc (ss_db s)"
  shows "contacts_inv (ss_db (syncStorageContacts q nowMs now acct pool fetched s))
    \<and> ss_lastStorageSyncMs (syncStorageContacts q nowMs now acct pool fetched s) = nowMs
    \<and> ((pool = None \<or> pool = Some [] \<or> isl fetched) \<longrightarrow>
         ss_db (syncStorageContacts q nowMs now acct pool fetched s) = ss_db s)"
  using assms sync_loop_inv by (auto simp: syncStorageContacts_def Let_def split: sum.split)

theorem sync_keeps_contacts_consistent_witness:
  "contacts_inv (ss_db (syncStorageContacts (\<lambda>_. no_faults) 5 9 ''a'' (Some ''pool'')
     (Inr [\<lparr>sc_e164 = ''+15550101'', sc_aci = ''aci-2'', sc_pni = [], sc_profileKey = [], sc_givenName = [], sc_familyName = []\<rparr>])
     \<lparr>ss_db = one_account, ss_lastStorageSyncMs = 0\<rparr>))"
  by (rule sync_keeps_contacts_consistent [THEN conjunct1]) (simp_all add: contacts_inv_def one_account_facts)

end
