(* ===== verification/Push.thy ===== *)
theory Push
  imports Calls DispatchQueue SyncedContacts
begin

text \<open>
  Model of \<open>onPush\<close> (\<open>daemon/main.cpp\<close>): what the daemon does with an envelope the server pushes. It decrypts on
  the socket's thread and hands everything that may block to the dispatch queue, as work items. The
  protobuf parsers are parameters.
\<close>

section \<open>Envelopes and work items\<close>

datatype envelope_type = UNIDENTIFIED_SENDER | DOUBLE_RATCHET | PREKEY_MESSAGE | Other_type

record Envelope =
  en_type :: envelope_type
  en_content :: bytes
  en_sourceServiceIdBinary :: bytes
  en_sourceDeviceId :: uint32
  en_serverTimestamp :: uint64
  en_clientTimestamp :: uint64

text \<open>The fields of \<open>Content\<close> that are read: the text message (its body, whether it is a group's), the key in a
  \<open>SyncMessage.Keys\<close>, the call message.\<close>

record received =
  rc_data :: "(string \<times> bool) option"
  rc_entropy_pool :: "string option"
  rc_call :: "CallMessage option"

datatype work =
    Send_decryption_error string uint32 bytes byte uint64
  | Sync_contacts
  | Handle_call_message string uint32 uint32 CallMessage

record inbox =
  ib_db :: db
  ib_account :: AccountRecord
  ib_call :: AccountState
  ib_queue :: "work dispatch"
  ib_dtmf :: "string list"
  ib_crashed :: bool

record parsers =
  p_envelope :: "bytes \<Rightarrow> Envelope option"
  p_content :: "bytes \<Rightarrow> received option"
  p_service_id :: "bytes \<Rightarrow> string result"

definition resolveServiceId :: "parsers \<Rightarrow> bytes \<Rightarrow> string result" where
  "resolveServiceId p binary = (if binary = [] then Inr [] else p_service_id p binary)"

abbreviation CiphertextMessageTypeWhisper :: byte where
  "CiphertextMessageTypeWhisper \<equiv> 2"

section \<open>Decryption\<close>

datatype decrypted = Ignored | Undecryptable "work option" | Plaintext bytes string uint32

text \<open>The \<open>try\<close> block with its handler; what the handler queues is part of the result.\<close>

definition caught :: "work option \<Rightarrow> exn \<Rightarrow> decrypted result" where
  "caught w e = (if e = Pj_error then Inl e else Inr (Undecryptable w))"

definition decrypt_identified :: "libsignal \<Rightarrow> address \<Rightarrow> string \<Rightarrow> Envelope \<Rightarrow> (db, decrypted) effect" where
  "decrypt_identified ls local sid en d =
     (let ty = (if en_type en = PREKEY_MESSAGE then CiphertextMessageTypePreKey else CiphertextMessageTypeWhisper) in
      case decryptCiphertext ls local (sid, en_sourceDeviceId en) ty (en_content en) d of
        (Inr pt, d') \<Rightarrow> (Inr (Plaintext pt sid (en_sourceDeviceId en)), d')
      | (Inl x, d') \<Rightarrow> (caught (if sid = [] then None
          else Some (Send_decryption_error sid (en_sourceDeviceId en) (en_content en) ty (en_clientTimestamp en))) x, d'))"

definition decrypt_envelope :: "libsignal \<Rightarrow> parsers \<Rightarrow> address \<Rightarrow> Envelope \<Rightarrow> (db, decrypted) effect" where
  "decrypt_envelope ls p local en d = (case en_type en of
       UNIDENTIFIED_SENDER \<Rightarrow> (case decryptSealedSender ls local (en_content en) (en_serverTimestamp en) d of
           (Inr r, d') \<Rightarrow> (Inr (Plaintext (ss_plaintext r) (ss_senderServiceId r) (ss_senderDeviceId r)), d')
         | (Inl x, d') \<Rightarrow> (caught None x, d'))
     | Other_type \<Rightarrow> (Inr Ignored, d)
     | _ \<Rightarrow> (case resolveServiceId p (en_sourceServiceIdBinary en) of
           Inl x \<Rightarrow> (caught None x, d)
         | Inr sid \<Rightarrow> decrypt_identified ls local sid en d))"

section \<open>Dispatch\<close>

definition enqueue :: "work \<Rightarrow> (inbox, unit) effect" where
  "enqueue w s = (Inr (), case queue_push w (ib_queue s) of None \<Rightarrow> s\<lparr>ib_crashed := True\<rparr> | Some q \<Rightarrow> s\<lparr>ib_queue := q\<rparr>)"

definition is_dtmf :: "string \<Rightarrow> bool" where
  "is_dtmf txt \<longleftrightarrow> 1 \<le> length txt \<and> length txt \<le> 32 \<and>
     (\<forall>c \<in> set txt. is_digit c \<or> c \<in> set ''ABCDabcd*#'')"

definition forward_dtmf :: "string \<Rightarrow> received \<Rightarrow> inbox \<Rightarrow> inbox" where
  "forward_dtmf sid c s = (case rc_data c of None \<Rightarrow> s
     | Some (txt, is_group) \<Rightarrow>
         if \<not> is_group \<and> is_dtmf txt \<and> sid = remotePeerId (ib_call s) \<and>
            (sipCall (ib_call s) \<noteq> None \<or> incomingSipCall (ib_call s) \<noteq> None)
         then s\<lparr>ib_dtmf := ib_dtmf s @ [txt]\<rparr> else s)"

definition save_keys :: "sqlite \<Rightarrow> received \<Rightarrow> (inbox, unit) effect" where
  "save_keys q c s = (case rc_entropy_pool c of None \<Rightarrow> returnS () s
     | Some pool \<Rightarrow>
         let s = s\<lparr>ib_account := (ib_account s)\<lparr>a_account_entropy_pool := Some pool\<rparr>\<rparr> in
         (case saveAccount q (ac_name (config (ib_call s))) (ib_account s) (ib_db s) of
            Inl x \<Rightarrow> (Inl x, s)
          | Inr d \<Rightarrow> enqueue Sync_contacts (s\<lparr>ib_db := d\<rparr>)))"

definition queue_call :: "string \<Rightarrow> uint32 \<Rightarrow> received \<Rightarrow> (inbox, unit) effect" where
  "queue_call sid dev c s = (case rc_call c of None \<Rightarrow> returnS () s
     | Some m \<Rightarrow> enqueue (Handle_call_message sid dev (word_of_int (a_device_id (ib_account s))) m) s)"

definition handle_plaintext :: "sqlite \<Rightarrow> parsers \<Rightarrow> bytes \<Rightarrow> string \<Rightarrow> uint32 \<Rightarrow> (inbox, unit) effect" where
  "handle_plaintext q p pt sid dev s = (case p_content p pt of None \<Rightarrow> returnS () s
     | Some c \<Rightarrow> bindS (save_keys q c) (\<lambda>_. queue_call sid dev c) (forward_dtmf sid c s))"

definition local_address :: "inbox \<Rightarrow> address" where
  "local_address s = (a_aci (ib_account s), word_of_int (a_device_id (ib_account s)))"

definition onPush :: "libsignal \<Rightarrow> sqlite \<Rightarrow> parsers \<Rightarrow> string \<Rightarrow> string \<Rightarrow> bytes \<Rightarrow> (inbox, unit) effect" where
  "onPush ls q p verb path bd s =
     (if verb \<noteq> ''PUT'' \<or> path \<noteq> ''/api/v1/message'' \<or> bd = [] then returnS () s
      else case p_envelope p bd of None \<Rightarrow> returnS () s
        | Some en \<Rightarrow> (case decrypt_envelope ls p (local_address s) en (ib_db s) of
             (Inl x, d) \<Rightarrow> (Inl x, s\<lparr>ib_db := d\<rparr>)
           | (Inr Ignored, d) \<Rightarrow> returnS () (s\<lparr>ib_db := d\<rparr>)
           | (Inr (Undecryptable None), d) \<Rightarrow> returnS () (s\<lparr>ib_db := d\<rparr>)
           | (Inr (Undecryptable (Some w)), d) \<Rightarrow> enqueue w (s\<lparr>ib_db := d\<rparr>)
           | (Inr (Plaintext pt sid dev), d) \<Rightarrow> handle_plaintext q p pt sid dev (s\<lparr>ib_db := d\<rparr>)))"

section \<open>Properties\<close>

lemma enqueue_frame [simp]:
  "ib_dtmf (snd (enqueue w s)) = ib_dtmf s" "ib_call (snd (enqueue w s)) = ib_call s" "ib_account (snd (enqueue w s)) = ib_account s"
  by (simp_all add: enqueue_def split: option.split)

lemma enqueue_eq: "enqueue w s = (Inr (), snd (enqueue w s))"
  by (simp add: enqueue_def)

text \<open>
  An identified envelope that cannot be decrypted is answered, not dropped: exactly one
  work item is queued for it, behind what is queued already, and it is the decryption error reply to the sender with the envelope's
  own ciphertext, message type and client time stamp; nothing else of the account changes. An undecryptable sealed-sender
  envelope queues nothing.
\<close>

theorem undecryptable_envelope_answered:
  assumes "p_envelope p bd = Some en" "bd \<noteq> []" "qstate (ib_queue s) = Some st"
    and "resolveServiceId p (en_sourceServiceIdBinary en) = Inr sid" "sid \<noteq> []" "x \<noteq> Pj_error"
    and "ty = (if en_type en = PREKEY_MESSAGE then CiphertextMessageTypePreKey else CiphertextMessageTypeWhisper)"
    and "w = Send_decryption_error sid (en_sourceDeviceId en) (en_content en) ty (en_clientTimestamp en)"
  shows "(en_type en \<in> {DOUBLE_RATCHET, PREKEY_MESSAGE} \<and>
      decryptCiphertext ls (local_address s) (sid, en_sourceDeviceId en) ty (en_content en) (ib_db s) = (Inl x, d) \<longrightarrow>
      onPush ls q p ''PUT'' ''/api/v1/message'' bd s = (Inr (), s\<lparr>ib_db := d, ib_queue := (ib_queue s)
        \<lparr>qstate := Some (st\<lparr>queue := queue st @ [w]\<rparr>), pushed := pushed (ib_queue s) @ [w]\<rparr>\<rparr>)) \<and>
    (en_type en = UNIDENTIFIED_SENDER \<and>
      decryptSealedSender ls (local_address s) (en_content en) (en_serverTimestamp en) (ib_db s) = (Inl x, d) \<longrightarrow>
      onPush ls q p ''PUT'' ''/api/v1/message'' bd s = (Inr (), s\<lparr>ib_db := d\<rparr>))"
  using assms
  by (auto simp: onPush_def decrypt_envelope_def decrypt_identified_def caught_def enqueue_def queue_push_def Let_def
      split: envelope_type.splits)

definition deaf :: libsignal where
  "deaf = transparent\<lparr>decrypt_message := (\<lambda>_ _ _ d. (Inl (Runtime_error ''old counter''), d))\<rparr>"

definition sample_envelope :: Envelope where
  "sample_envelope = \<lparr>en_type = DOUBLE_RATCHET, en_content = [7, 8], en_sourceServiceIdBinary = [1], en_sourceDeviceId = 2,
     en_serverTimestamp = 0, en_clientTimestamp = 44\<rparr>"

definition sample_parsers :: parsers where
  "sample_parsers = \<lparr>p_envelope = (\<lambda>_. Some sample_envelope), p_content = (\<lambda>_. None), p_service_id = (\<lambda>_. Inr ''peer'')\<rparr>"

definition sample_inbox :: inbox where
  "sample_inbox = \<lparr>ib_db = fresh_db, ib_account = sample_account, ib_call = sample_acct, ib_queue = queue_start new_queue,
     ib_dtmf = [], ib_crashed = False\<rparr>"

theorem undecryptable_envelope_answered_witness:
  "pushed (ib_queue (snd (onPush deaf no_faults sample_parsers ''PUT'' ''/api/v1/message'' [1] sample_inbox))) =
     [Send_decryption_error ''peer'' 2 [7, 8] 2 44]"
proof -
  have d: "decryptCiphertext deaf l a 2 c fresh_db = (Inl (Runtime_error ''old counter''), fresh_db)" for l a c
    by (simp add: decryptCiphertext_def deaf_def bindS_def)
  show ?thesis
    using undecryptable_envelope_answered [of sample_parsers "[1]" sample_envelope sample_inbox "\<lparr>queue = [], stopping = False\<rparr>"
        "''peer''" "Runtime_error ''old counter''" 2 _ deaf fresh_db no_faults] d
    by (simp add: sample_parsers_def sample_envelope_def sample_inbox_def queue_start_def new_queue_def resolveServiceId_def)
qed

lemma enqueue_dtmf: "enqueue w s = (r, s') \<Longrightarrow> ib_dtmf s' = ib_dtmf s"
  by (auto simp: enqueue_def split: option.splits)

lemma keys_call_dtmf: "bindS (save_keys q c) (\<lambda>_. queue_call sid dev c) s = (r, s') \<Longrightarrow> ib_dtmf s' = ib_dtmf s"
  by (auto simp: save_keys_def queue_call_def Let_def dest!: enqueue_dtmf split: option.splits sum.splits elim!: bindS_cases)

lemma unseal_certificate:
  assumes "decryptSealedSender ls local sealed ts d = (Inr x, d')"
  shows "\<exists>u d1. decrypt_to_usmc ls sealed d = (Inr u, d1) \<and>
    certificate_validate ls (u_cert u) (map base64Decode kTrustRootsBase64) ts = Inr True \<and>
    u_cert u = (ss_senderServiceId x, ss_senderDeviceId x)"
  using assms by (auto simp: decryptSealedSender_def liftR_def split: if_splits elim!: bindS_cases)

text \<open>
  Touch tones reach the PBX only from the party on the call: whenever an envelope makes the daemon send DTMF, it is
  one text of 1 to 32 characters of the DTMF alphabet, a SIP call is up, and the envelope decrypted as coming from the peer of
  the current call; if it came by sealed sender, with a certificate that validated against the pinned trust roots.
\<close>

theorem dtmf_only_from_peer:
  assumes "onPush ls q p verb path bd s = (r, s')" "ib_dtmf s' \<noteq> ib_dtmf s"
  shows "\<exists>txt en pt dev d. ib_dtmf s' = ib_dtmf s @ [txt] \<and> is_dtmf txt \<and> p_envelope p bd = Some en \<and>
    (sipCall (ib_call s) \<noteq> None \<or> incomingSipCall (ib_call s) \<noteq> None) \<and>
    decrypt_envelope ls p (local_address s) en (ib_db s) = (Inr (Plaintext pt (remotePeerId (ib_call s)) dev), d) \<and>
    (en_type en = UNIDENTIFIED_SENDER \<longrightarrow> (\<exists>u d1. decrypt_to_usmc ls (en_content en) (ib_db s) = (Inr u, d1) \<and>
       certificate_validate ls (u_cert u) (map base64Decode kTrustRootsBase64) (en_serverTimestamp en) = Inr True \<and>
       u_cert u = (remotePeerId (ib_call s), dev)))"
proof -
  obtain en pt sid dev d c where en: "p_envelope p bd = Some en"
    and dec: "decrypt_envelope ls p (local_address s) en (ib_db s) = (Inr (Plaintext pt sid dev), d)"
    and c: "ib_dtmf s' = ib_dtmf (forward_dtmf sid c (s\<lparr>ib_db := d\<rparr>))"
    using assms by (auto simp: onPush_def handle_plaintext_def dest: keys_call_dtmf enqueue_dtmf
        split: if_splits option.splits prod.splits sum.splits decrypted.splits)
  then have sid: "sid = remotePeerId (ib_call s)" and rest: "\<exists>txt. ib_dtmf s' = ib_dtmf s @ [txt] \<and> is_dtmf txt"
      "sipCall (ib_call s) \<noteq> None \<or> incomingSipCall (ib_call s) \<noteq> None"
    using assms(2) by (auto simp: forward_dtmf_def split: option.splits prod.splits if_splits)
  have "\<exists>u d1. decrypt_to_usmc ls (en_content en) (ib_db s) = (Inr u, d1) \<and>
       certificate_validate ls (u_cert u) (map base64Decode kTrustRootsBase64) (en_serverTimestamp en) = Inr True \<and>
       u_cert u = (sid, dev)" if "en_type en = UNIDENTIFIED_SENDER"
    using dec that unseal_certificate
    by (fastforce simp: decrypt_envelope_def caught_def split: prod.splits sum.splits if_splits)
  with en dec sid rest show ?thesis by blast
qed


definition tone_parsers :: parsers where
  "tone_parsers = sample_parsers\<lparr>p_content := (\<lambda>_. Some \<lparr>rc_data = Some (''12#'', False), rc_entropy_pool = None, rc_call = None\<rparr>)\<rparr>"

definition call_inbox :: inbox where
  "call_inbox = sample_inbox\<lparr>ib_call := sample_acct\<lparr>remotePeerId := ''peer'', sipCall := Some (new_call 0)\<rparr>\<rparr>"

lemma tone_push:
  "onPush transparent no_faults tone_parsers ''PUT'' ''/api/v1/message'' [1] call_inbox = (Inr (), call_inbox\<lparr>ib_dtmf := [''12#'']\<rparr>)"
  by (simp add: onPush_def tone_parsers_def sample_parsers_def sample_envelope_def decrypt_envelope_def resolveServiceId_def
      decrypt_identified_def decryptCiphertext_def transparent_def bindS_def handle_plaintext_def save_keys_def queue_call_def
      forward_dtmf_def is_dtmf_def is_digit_def call_inbox_def sample_inbox_def)

theorem dtmf_only_from_peer_witness:
  "\<exists>txt. ib_dtmf (snd (onPush transparent no_faults tone_parsers ''PUT'' ''/api/v1/message'' [1] call_inbox)) = [txt] \<and> is_dtmf txt"
proof -
  have "ib_dtmf call_inbox = []" "ib_dtmf (call_inbox\<lparr>ib_dtmf := [''12#'']\<rparr>) \<noteq> ib_dtmf call_inbox"
    by (simp_all add: call_inbox_def sample_inbox_def)
  with dtmf_only_from_peer [OF tone_push] show ?thesis by (auto simp: tone_push)
qed

end
