(* ===== verification/PreKeys.thy ===== *)
theory PreKeys
  imports CallSignaling
begin

text \<open>
  Model of \<open>signal/PreKeys.cpp\<close> and of the key and attribute refresh of \<open>daemon/main.cpp\<close>
  (\<open>refreshPrekeys\<close>, \<open>refreshAccountAttributes\<close>). The random key pairs, the signature and the
  record serializers are parameters.
\<close>

section \<open>Generating\<close>

record WirePreKey =
  w_keyId :: int
  w_publicKey :: bytes
  w_signature :: bytes

text \<open>
  \<open>sign\<close> deserializes the identity's private key and signs; the two record functions build and serialize a
  record from the 32-bit key id, the time stamp, the new key pair (private, public) and the signature.
\<close>

record keylib =
  sign :: "bytes \<Rightarrow> bytes \<Rightarrow> bytes result"
  signed_record :: "uint32 \<Rightarrow> uint64 \<Rightarrow> bytes \<times> bytes \<Rightarrow> bytes \<Rightarrow> bytes result"
  kyber_record :: "uint32 \<Rightarrow> uint64 \<Rightarrow> bytes \<times> bytes \<Rightarrow> bytes \<Rightarrow> bytes result"

definition generateSignedPreKey ::
  "keylib \<Rightarrow> bytes \<times> bytes \<Rightarrow> uint64 \<Rightarrow> bytes \<Rightarrow> int \<Rightarrow> (WirePreKey \<times> PrekeyRecord) result" where
  "generateSignedPreKey kl keyPair timestamp identityPrivateKey keyId =
     bindR (sign kl identityPrivateKey (snd keyPair)) (\<lambda>signature.
     bindR (signed_record kl (word_of_int keyId) timestamp keyPair signature) (\<lambda>record.
       Inr (\<lparr>w_keyId = keyId, w_publicKey = snd keyPair, w_signature = signature\<rparr>, \<lparr>p_key_id = keyId, p_record = record\<rparr>)))"

definition generateKyberPreKey ::
  "keylib \<Rightarrow> bytes \<times> bytes \<Rightarrow> uint64 \<Rightarrow> bytes \<Rightarrow> int \<Rightarrow> (WirePreKey \<times> PrekeyRecord) result" where
  "generateKyberPreKey kl keyPair timestamp identityPrivateKey keyId =
     bindR (sign kl identityPrivateKey (snd keyPair)) (\<lambda>signature.
     bindR (kyber_record kl (word_of_int keyId) timestamp keyPair signature) (\<lambda>record.
       Inr (\<lparr>w_keyId = keyId, w_publicKey = snd keyPair, w_signature = signature\<rparr>, \<lparr>p_key_id = keyId, p_record = record\<rparr>)))"

section \<open>Uploading\<close>

definition wire_json :: "WirePreKey \<Rightarrow> json" where
  "wire_json w = JObj [(''keyId'', JNum (w_keyId w)), (''publicKey'', JStr (base64Encode (w_publicKey w))),
     (''signature'', JStr (base64Encode (w_signature w)))]"

definition upload_request :: "string \<Rightarrow> WirePreKey \<Rightarrow> WirePreKey \<Rightarrow> request" where
  "upload_request identity signedKey kyberKey =
     \<lparr>r_method = ''PUT'', r_path = ''/v2/keys?identity='' @ identity,
      r_body = Some (JObj [(''preKeys'', JArr []), (''signedPreKey'', wire_json signedKey),
        (''pqLastResortPreKey'', wire_json kyberKey), (''pqPreKeys'', JArr [])])\<rparr>"

text \<open>The random material of one refresh: an EC and a Kyber key pair and the clock at each.\<close>

type_synonym fresh = "(bytes \<times> bytes) \<times> uint64 \<times> (bytes \<times> bytes) \<times> uint64"

definition refreshOne :: "env \<Rightarrow> keylib \<Rightarrow> fresh \<Rightarrow> int \<Rightarrow> string \<Rightarrow> bytes \<Rightarrow> (sender, unit) effect" where
  "refreshOne e kl fr keyId identity identityPrivateKey = (case fr of (ec, t1, kyber, t2) \<Rightarrow>
     bindS (liftR (\<lambda>_. generateSignedPreKey kl ec t1 identityPrivateKey keyId)) (\<lambda>(sw, sr).
     bindS (liftR (\<lambda>_. generateKyberPreKey kl kyber t2 identityPrivateKey keyId)) (\<lambda>(kw, kr).
     bindS (on_db (updR (saveSignedPrekey (e_q e) (e_acct e) identity sr))) (\<lambda>_.
     bindS (on_db (updR (saveKyberPrekey (e_q e) (e_acct e) identity kr))) (\<lambda>_.
     bindS (socket_request (e_sv e) (upload_request identity sw kw)) (\<lambda>_. returnS ()))))))"

definition key_id_at :: "int \<Rightarrow> int" where
  "key_id_at seconds = seconds mod 0xfffffe"

definition refresh_if :: "env \<Rightarrow> keylib \<Rightarrow> fresh \<Rightarrow> int \<Rightarrow> string \<Rightarrow> IdentityKeypairRecord option \<Rightarrow> (sender, unit) effect" where
  "refresh_if e kl fr keyId identity keypair =
     (case keypair of None \<Rightarrow> returnS () | Some k \<Rightarrow> refreshOne e kl fr keyId identity (k_private_key k))"

definition refreshPrekeys :: "env \<Rightarrow> keylib \<Rightarrow> fresh \<Rightarrow> fresh \<Rightarrow> int \<Rightarrow> (sender, unit) effect" where
  "refreshPrekeys e kl fr_aci fr_pni seconds =
     (let keyId = key_id_at seconds in
      bindS (on_db (liftR (loadIdentityKeypair (e_q e) (e_acct e) ''aci''))) (\<lambda>aciKeypair.
      bindS (on_db (liftR (loadIdentityKeypair (e_q e) (e_acct e) ''pni''))) (\<lambda>pniKeypair.
      bindS (refresh_if e kl fr_aci keyId ''aci'' aciKeypair) (\<lambda>_.
        refresh_if e kl fr_pni keyId ''pni'' pniKeypair))))"

definition attributes_request :: "AccountRecord \<Rightarrow> request" where
  "attributes_request a =
     \<lparr>r_method = ''PUT'', r_path = ''/v1/accounts/attributes/'',
      r_body = Some (JObj [(''fetchesMessages'', JBool True), (''registrationId'', JNum (a_registration_id a)),
        (''pniRegistrationId'', JNum (a_pni_registration_id a)), (''name'', JNull),
        (''capabilities'', JObj [(''storage'', JBool False), (''versionedExpirationTimer'', JBool False),
           (''attachmentBackfill'', JBool False), (''spqr'', JBool True), (''usernameChangeSyncMessage'', JBool True)]),
        (''unrestrictedUnidentifiedAccess'', JBool True), (''discoverableByPhoneNumber'', JBool True)])\<rparr>"

definition refreshAccountAttributes :: "env \<Rightarrow> AccountRecord \<Rightarrow> (sender, unit) effect" where
  "refreshAccountAttributes e a =
     (if a_flow a \<noteq> Some ''standalone'' then returnS ()
      else bindS (socket_request (e_sv e) (attributes_request a)) (\<lambda>_. returnS ()))"

section \<open>Properties\<close>

lemma upsert_kv_other_table:
  assumes "upsert_kv q label n kcol acct k vals d = Inr d'" "m \<noteq> n"
  shows "first_kv q2 l2 m kc a k2 dec d' = first_kv q2 l2 m kc a k2 dec d"
proof -
  have u: "sql_upsert n [''account_name'', kcol] vals (kv_row acct kcol k vals) d = Inr d'"
    using assms(1) by (auto simp: upsert_kv_def elim: run_writeE)
  then have "rows_of d' m = rows_of d m"
    using assms(2) by (auto simp: sql_upsert_def Let_def split: option.splits if_splits)
  then show ?thesis
    using run_first_cong [of d' m d _ q2 l2] sql_upsert_tabs [OF u] by (simp add: first_kv_def)
qed

lemma load_signed_after_kyber:
  "saveKyberPrekey q acct i r d = Inr d' \<Longrightarrow> loadSignedPrekey q2 a j d' = loadSignedPrekey q2 a j d"
  unfolding saveKyberPrekey_def loadSignedPrekey_def by (erule upsert_kv_other_table) simp

lemma load_kyber_after_signed:
  "saveSignedPrekey q acct i r d = Inr d' \<Longrightarrow> loadKyberPrekey q2 a j d' = loadKyberPrekey q2 a j d"
  unfolding saveSignedPrekey_def loadKyberPrekey_def by (erule upsert_kv_other_table) simp

text \<open>What one refresh leaves behind, in terms of the store contracts.\<close>

lemma refreshOne_stores:
  assumes "refreshOne e kl (ec, t1, ky, t2) keyId identity priv s = (Inr (), s')"
    and "Sql.readable (e_q e) ''loadSignedPrekey''" "Sql.readable (e_q e) ''loadKyberPrekey''"
  obtains sw sr kw kr where
    "generateSignedPreKey kl ec t1 priv keyId = Inr (sw, sr)" "generateKyberPreKey kl ky t2 priv keyId = Inr (kw, kr)"
    "sd_log s' = sd_log s @ [upload_request identity sw kw]"
    "loadSignedPrekey (e_q e) (e_acct e) identity (sd_db s') = Inr (Some sr)"
    "loadKyberPrekey (e_q e) (e_acct e) identity (sd_db s') = Inr (Some kr)"
    "\<And>j. j \<noteq> identity \<Longrightarrow> loadSignedPrekey (e_q e) (e_acct e) j (sd_db s') = loadSignedPrekey (e_q e) (e_acct e) j (sd_db s)"
    "\<And>j. j \<noteq> identity \<Longrightarrow> loadKyberPrekey (e_q e) (e_acct e) j (sd_db s') = loadKyberPrekey (e_q e) (e_acct e) j (sd_db s)"
proof -
  from assms(1) obtain sw sr kw kr d1 d2 where
    gen: "generateSignedPreKey kl ec t1 priv keyId = Inr (sw, sr)" "generateKyberPreKey kl ky t2 priv keyId = Inr (kw, kr)"
    and sv: "saveSignedPrekey (e_q e) (e_acct e) identity sr (sd_db s) = Inr d1"
      "saveKyberPrekey (e_q e) (e_acct e) identity kr d1 = Inr d2"
    and fin: "sd_log s' = sd_log s @ [upload_request identity sw kw]" "sd_db s' = d2"
    by (auto simp: refreshOne_def liftR_def on_db_def updR_def socket_request_def split: sum.splits prod.splits elim!: bindS_cases)
  show thesis
    using gen fin sv signed_prekeys.load_saved [OF sv(1) assms(2)] kyber_prekeys.load_saved [OF sv(2) assms(3)]
      signed_prekeys.load_other [OF sv(1)] kyber_prekeys.load_other [OF sv(2)]
      load_signed_after_kyber [OF sv(2)] load_kyber_after_signed [OF sv(1)]
    by (intro that [of sw sr kw kr]) auto
qed

lemma generated_signed:
  assumes "generateSignedPreKey kl kp t priv i = Inr (w, r)"
  shows "w_keyId w = i" "w_publicKey w = snd kp" "sign kl priv (snd kp) = Inr (w_signature w)" "p_key_id r = i"
    "signed_record kl (word_of_int i) t kp (w_signature w) = Inr (p_record r)"
  using assms by (auto simp: generateSignedPreKey_def bindR_Inr_iff)

lemma generated_kyber:
  assumes "generateKyberPreKey kl kp t priv i = Inr (w, r)"
  shows "w_publicKey w = snd kp" "sign kl priv (snd kp) = Inr (w_signature w)"
  using assms by (auto simp: generateKyberPreKey_def bindR_Inr_iff)

lemma key_id_small: "0 \<le> key_id_at t \<and> key_id_at t < 2 ^ 24"
  using pos_mod_bound [of "0xfffffe" t] pos_mod_sign [of "0xfffffe" t] by (simp add: key_id_at_def)

text \<open>
  What is advertised is what can be decrypted with: after \<open>refreshPrekeys\<close> succeeded for an account with both identity keys, the
  daemon has uploaded one signed and one Kyber prekey for each identity, under a key id below \<open>2^24\<close>, each signed with
  that identity's key, and libsignal's store callback finds for that key id the record made from the very key pair whose public half was uploaded.
\<close>

theorem refreshed_prekeys_match_upload:
  assumes "refreshPrekeys e kl ((ec, t1, ky, t2)) ((ec', t1', ky', t2')) now s = (Inr (), s')"
    and "Sql.readable (e_q e) ''loadSignedPrekey''" "Sql.readable (e_q e) ''loadKyberPrekey''"
    and "loadIdentityKeypair (e_q e) (e_acct e) ''aci'' (sd_db s) = Inr (Some aci)"
    and "loadIdentityKeypair (e_q e) (e_acct e) ''pni'' (sd_db s) = Inr (Some pni)"
  shows "\<exists>sw kw sr sw' kw'. sd_log s' = sd_log s @ [upload_request ''aci'' sw kw, upload_request ''pni'' sw' kw'] \<and>
      w_keyId sw = key_id_at now \<and> 0 \<le> key_id_at now \<and> key_id_at now < 2 ^ 24 \<and>
      w_publicKey sw = snd ec \<and> sign kl (k_private_key aci) (snd ec) = Inr (w_signature sw) \<and>
      w_publicKey kw = snd ky \<and> sign kl (k_private_key aci) (snd ky) = Inr (w_signature kw) \<and>
      w_publicKey sw' = snd ec' \<and> sign kl (k_private_key pni) (snd ec') = Inr (w_signature sw') \<and>
      signed_record kl (word_of_int (key_id_at now)) t1 ec (w_signature sw) = Inr sr \<and>
      load_signed_pre_key (e_q e) des (e_acct e) ''aci'' (word_of_int (key_id_at now)) (sd_db s') =
        (case des sr of Inl _ \<Rightarrow> (-1, None, sd_db s') | Inr h \<Rightarrow> (0, Some h, sd_db s'))"
proof -
  let ?k = "key_id_at now"
  obtain s1 where a: "refreshOne e kl (ec, t1, ky, t2) ?k ''aci'' (k_private_key aci) s = (Inr (), s1)"
    and b: "refreshOne e kl (ec', t1', ky', t2') ?k ''pni'' (k_private_key pni) s1 = (Inr (), s')"
    using assms(1,4,5)
    by (auto simp: refreshPrekeys_def refresh_if_def Let_def on_db_def liftR_def elim!: bindS_cases)
  obtain sw sr kw kr where A: "generateSignedPreKey kl ec t1 (k_private_key aci) ?k = Inr (sw, sr)"
      "generateKyberPreKey kl ky t2 (k_private_key aci) ?k = Inr (kw, kr)" "sd_log s1 = sd_log s @ [upload_request ''aci'' sw kw]"
      "loadSignedPrekey (e_q e) (e_acct e) ''aci'' (sd_db s1) = Inr (Some sr)"
    by (rule refreshOne_stores [OF a assms(2,3)])
  obtain sw' sr' kw' kr' where B: "generateSignedPreKey kl ec' t1' (k_private_key pni) ?k = Inr (sw', sr')"
      "sd_log s' = sd_log s1 @ [upload_request ''pni'' sw' kw']"
      "loadSignedPrekey (e_q e) (e_acct e) ''aci'' (sd_db s') = loadSignedPrekey (e_q e) (e_acct e) ''aci'' (sd_db s1)"
    by (rule refreshOne_stores [OF b assms(2,3)]) simp
  have u: "uint (word_of_int ?k :: uint32) = ?k"
    using key_id_small [of now] by (simp add: uint_word_of_int)
  have "load_signed_pre_key (e_q e) des (e_acct e) ''aci'' (word_of_int ?k) (sd_db s') =
        (case des (p_record sr) of Inl _ \<Rightarrow> (-1, None, sd_db s') | Inr h \<Rightarrow> (0, Some h, sd_db s'))"
    using A(1,4) B(3) u
    by (simp add: load_signed_pre_key_def guardCallback_def liftR_def generated_signed(4) [OF A(1)] split: sum.split)
  then show ?thesis
    using generated_signed [OF A(1)] generated_kyber [OF A(2)] generated_signed [OF B(1)] A(3) B(2) key_id_small [of now]
    by (intro exI [of _ sw] exI [of _ kw] exI [of _ "p_record sr"] exI [of _ sw'] exI [of _ kw']) simp
qed


section \<open>A refresh that succeeds\<close>

lemma upsert_kv_ok:
  assumes "tabs d n \<noteq> None" "n \<noteq> ''account''" "list_ex (matches [(''account_name'', bindText acct)]) (rows_of d ''account'')"
    and "k \<in> {''aci'', ''pni''}" "''account_name'' \<notin> fst ` set vals" "''identity'' \<notin> fst ` set vals"
  shows "\<exists>d'. upsert_kv no_faults label n ''identity'' acct k vals d = Inr d' \<and>
    rows_of d' ''account'' = rows_of d ''account'' \<and> (\<forall>m. tabs d' m = None \<longleftrightarrow> tabs d m = None)"
proof -
  have "kv_row acct ''identity'' k vals ''account_name'' = bindText acct" "kv_row acct ''identity'' k vals ''identity'' = bindText k"
    using assms(5,6) by (simp_all add: kv_row_def)
  then have "check_error n (kv_row acct ''identity'' k vals) = None" "fk_error d n (kv_row acct ''identity'' k vals) = None"
    using assms(3,4) by (auto simp: check_error_def fk_error_def bindText_def)
  then show ?thesis
    using assms(1,2) by (auto simp: upsert_kv_def run_write_def Stmt_def sql_upsert_def Let_def)
qed

definition key_db :: db where
  "key_db = put_rows ''identity_keypair''
     [kv_row ''a'' ''identity'' ''aci'' [(''private_key'', bindBlob [1]), (''public_key'', bindBlob [2])],
      kv_row ''a'' ''identity'' ''pni'' [(''private_key'', bindBlob [3]), (''public_key'', bindBlob [4])]] one_account"

definition toy_keys :: keylib where
  "toy_keys = \<lparr>sign = (\<lambda>k m. Inr (k @ m)), signed_record = (\<lambda>i t kp g. Inr (fst kp)), kyber_record = (\<lambda>i t kp g. Inr (fst kp))\<rparr>"

definition prekey_ready :: "db \<Rightarrow> bool" where
  "prekey_ready d \<longleftrightarrow> tabs d ''signed_prekey'' \<noteq> None \<and> tabs d ''kyber_prekey'' \<noteq> None \<and>
     list_ex (matches [(''account_name'', bindText ''a'')]) (rows_of d ''account'')"

lemma save_prekeys_ok:
  assumes "prekey_ready d" "k \<in> {''aci'', ''pni''}"
  shows "\<exists>d'. saveSignedPrekey no_faults ''a'' k r d = Inr d' \<and> prekey_ready d'"
    and "\<exists>d'. saveKyberPrekey no_faults ''a'' k r d = Inr d' \<and> prekey_ready d'"
proof -
  have t: "tabs d ''signed_prekey'' \<noteq> None" "tabs d ''kyber_prekey'' \<noteq> None"
    and a: "list_ex (matches [(''account_name'', bindText ''a'')]) (rows_of d ''account'')"
    using assms(1) by (simp_all add: prekey_ready_def)
  show "\<exists>d'. saveSignedPrekey no_faults ''a'' k r d = Inr d' \<and> prekey_ready d'"
    using upsert_kv_ok [OF t(1) _ a assms(2), of "[(''key_id'', SInt (p_key_id r)), (''record'', bindBlob (p_record r))]" "''saveSignedPrekey''"]
      t a unfolding saveSignedPrekey_def prekey_ready_def by (auto simp del: not_None_eq)
  show "\<exists>d'. saveKyberPrekey no_faults ''a'' k r d = Inr d' \<and> prekey_ready d'"
    using upsert_kv_ok [OF t(2) _ a assms(2), of "[(''key_id'', SInt (p_key_id r)), (''record'', bindBlob (p_record r))]" "''saveKyberPrekey''"]
      t a unfolding saveKyberPrekey_def prekey_ready_def by (auto simp del: not_None_eq)
qed

lemma refreshOne_ok:
  assumes "prekey_ready (sd_db s)" "k \<in> {''aci'', ''pni''}"
  shows "\<exists>s'. refreshOne sample_env toy_keys fr i k p s = (Inr (), s') \<and> prekey_ready (sd_db s')"
proof -
  obtain ec t1 ky t2 where fr: "fr = (ec, t1, ky, t2)" by (cases fr)
  obtain d1 where d1: "saveSignedPrekey no_faults ''a'' k \<lparr>p_key_id = i, p_record = fst ec\<rparr> (sd_db s) = Inr d1" "prekey_ready d1"
    using save_prekeys_ok(1) [OF assms] by blast
  obtain d2 where d2: "saveKyberPrekey no_faults ''a'' k \<lparr>p_key_id = i, p_record = fst ky\<rparr> d1 = Inr d2" "prekey_ready d2"
    using save_prekeys_ok(2) [OF d1(2) assms(2)] by blast
  show ?thesis
    using d1 d2 by (simp add: fr refreshOne_def sample_env_def toy_keys_def generateSignedPreKey_def generateKyberPreKey_def
        liftR_def on_db_def updR_def bindS_def socket_request_def sample_server_def)
qed

lemma key_db_facts:
  "prekey_ready key_db"
  "loadIdentityKeypair no_faults ''a'' ''aci'' key_db = Inr (Some \<lparr>k_private_key = [1], k_public_key = [2]\<rparr>)"
  "loadIdentityKeypair no_faults ''a'' ''pni'' key_db = Inr (Some \<lparr>k_private_key = [3], k_public_key = [4]\<rparr>)"
  using fresh_db_tabs [of "''identity_keypair''"] fresh_db_tabs [of "''signed_prekey''"] fresh_db_tabs [of "''kyber_prekey''"] fresh_db_account
  by (simp_all add: prekey_ready_def key_db_def one_account_def schema_def loadIdentityKeypair_def first_kv_def run_first_readable
      kv_row_def new_account_row_def)

theorem refreshed_prekeys_match_upload_witness:
  "let s = \<lparr>sd_db = key_db, sd_cache = Map.empty, sd_log = []\<rparr>;
       r = refreshPrekeys sample_env toy_keys (([5], [6]), 0, ([7], [8]), 0) (([9], [10]), 0, ([11], [12]), 0) 1786500000 s in
   fst r = Inr () \<and> (\<exists>sw kw sw' kw'. sd_log (snd r) = [upload_request ''aci'' sw kw, upload_request ''pni'' sw' kw'] \<and>
     w_publicKey sw = [6] \<and> w_signature sw = [1, 6])"
proof -
  let ?s = "\<lparr>sd_db = key_db, sd_cache = Map.empty, sd_log = []\<rparr>"
  let ?fa = "(([5], [6]), 0, ([7], [8]), 0)" and ?fp = "(([9], [10]), 0, ([11], [12]), 0)"
  let ?k = "key_id_at 1786500000"
  have e: "e_q sample_env = no_faults" "e_acct sample_env = ''a''" by (simp_all add: sample_env_def)
  obtain s1 where s1: "refreshOne sample_env toy_keys ?fa ?k ''aci'' [1] ?s = (Inr (), s1)" "prekey_ready (sd_db s1)"
    using refreshOne_ok [of ?s "''aci''" ?fa ?k "[1]"] key_db_facts(1) by auto
  obtain s2 where s2: "refreshOne sample_env toy_keys ?fp ?k ''pni'' [3] s1 = (Inr (), s2)"
    using refreshOne_ok [OF s1(2), of "''pni''" ?fp ?k "[3]"] by auto
  have run: "refreshPrekeys sample_env toy_keys ?fa ?fp 1786500000 ?s = (Inr (), s2)"
    using s1 s2 key_db_facts by (simp add: refreshPrekeys_def refresh_if_def on_db_def liftR_def bindS_def Let_def e)
  show ?thesis
    using refreshed_prekeys_match_upload [OF run, of "\<lparr>k_private_key = [1], k_public_key = [2]\<rparr>"
        "\<lparr>k_private_key = [3], k_public_key = [4]\<rparr>" Inr] key_db_facts(2,3) run
    by (fastforce simp: e toy_keys_def Let_def)
qed

end
