(* ===== verification/Daemon.thy ===== *)
theory Daemon
  imports Push PreKeys
begin

text \<open>
  Model of the life of accounts in \<open>daemon/main.cpp\<close>: \<open>setupAccount\<close>, \<open>teardownAccount\<close>,
  \<open>reloadConfig\<close> and the watchdogs of the main loop. What the stages of a setup come to (opening
  the storage, connecting, uploading keys, PJSIP) is given by a record of outcomes, since
  those stages have models of their own. PJSIP transports, RingRTC call managers and the
  pointers kept in \<open>g_portToAccount\<close> are tracked by number, so that leaks and dangling pointers are
  visible.
\<close>

section \<open>State\<close>

text \<open>
  \<open>sa_closes\<close> is no field of the code's but PJSIP's answer to the one \<open>transportClose\<close> the account's transport ever gets: whether it is closed, or the call throws.
\<close>

record sip_account =
  sa_registered :: bool
  sa_transportId :: int
  sa_unregisteredSinceMs :: int
  sa_closes :: bool

record running =
  rn_id :: nat
  rn_config :: AccountConfig
  rn_queue :: "work dispatch"
  rn_manager :: bool
  rn_socket :: "Impl option"
  rn_socketConnected :: bool
  rn_lastReconnectMs :: int
  rn_deauthorizedAlerted :: bool
  rn_lastStorageSyncMs :: int

text \<open>
  A \<open>std::map\<close> is an association list in the order of its keys. \<open>managers\<close> and \<open>transports\<close> are the live ones, \<open>unclosed\<close> the
  transports whose closing failed (of which only a line in the log remains), \<open>outgoing\<close> the calls placed at setup.
\<close>

record daemon =
  g_accounts :: "(string \<times> running) list"
  g_sipAccounts :: "(string \<times> sip_account) list"
  g_portToAccount :: "(int \<times> nat) list"
  g_ep :: bool
  g_global :: GlobalConfig
  managers :: "nat list"
  transports :: "int list"
  unclosed :: "int list"
  outgoing :: "(nat \<times> string) list"
  next_id :: nat

definition erase :: "'k \<Rightarrow> ('k \<times> 'v) list \<Rightarrow> ('k \<times> 'v) list" where
  "erase k m = filter (\<lambda>p. fst p \<noteq> k) m"

definition store :: "'k :: linorder \<Rightarrow> 'v \<Rightarrow> ('k \<times> 'v) list \<Rightarrow> ('k \<times> 'v) list" where
  "store k v m = insort_key fst (k, v) (erase k m)"

section \<open>Setting an account up\<close>

text \<open>
  The outcomes of one setup: the endpoint can be created, \<open>Storage\<close> and \<open>loadAccount\<close>, the call manager, \<open>set_proxy\<close>,
  the connect attempt, \<open>refreshPrekeys\<close>, \<open>refreshAccountAttributes\<close>, the time of the first contact sync, the transport and the port it got,
  \<open>pj::Account::create\<close>, whether the registration came through, whether PJSIP will close the transport when it is asked to, and what \<open>outgoing_call_target\<close> resolves to.
\<close>

record boot =
  bo_endpoint :: bool
  bo_account :: "AccountRecord result"
  bo_manager :: bool
  bo_proxy :: "string \<times> int \<Rightarrow> unit result"
  bo_connect :: "outcome \<times> ffi_error option"
  bo_prekeys :: "unit result"
  bo_attributes :: "unit result"
  bo_syncedAt :: int
  bo_transport :: "int option"
  bo_port :: "int option"
  bo_create :: "unit result"
  bo_registered :: bool
  bo_closes :: bool
  bo_resolved :: "string result"

datatype verdict = Up | Skipped | Crashed

definition fresh_account :: "nat \<Rightarrow> AccountConfig \<Rightarrow> running" where
  "fresh_account i cfg = \<lparr>rn_id = i, rn_config = cfg, rn_queue = new_queue, rn_manager = False, rn_socket = None,
     rn_socketConnected = True, rn_lastReconnectMs = 0, rn_deauthorizedAlerted = False, rn_lastStorageSyncMs = 0\<rparr>"

definition ensureSharedEndpoint :: "boot \<Rightarrow> daemon \<Rightarrow> daemon" where
  "ensureSharedEndpoint bo d = (if g_ep d then d else d\<lparr>g_ep := bo_endpoint bo\<rparr>)"

definition put_account :: "running \<Rightarrow> daemon \<Rightarrow> daemon" where
  "put_account r d = d\<lparr>g_accounts := store (ac_name (rn_config r)) r (g_accounts d)\<rparr>"

text \<open>
  The stages before the dispatch queue is started, and those from there to the first contact sync. Each works on the account's
  own state and may throw; the sync itself and \<open>sendKeysRequest\<close> are caught where they are called.
\<close>

definition before_queue :: "boot \<Rightarrow> (running, unit) effect" where
  "before_queue bo =
     bindS (liftR (\<lambda>_. bo_account bo)) (\<lambda>_ r.
       if \<not> bo_manager bo then throwS (Runtime_error ''could not create RingRTC call manager'') r
       else let r = r\<lparr>rn_manager := True\<rparr> in
         (case AuthSocket_new (bo_proxy bo) (ac_signalProxy (rn_config r)) (ac_signalCensorshipCircumvention (rn_config r)) of
            Inl x \<Rightarrow> (Inl x, r)
          | Inr sock \<Rightarrow> (Inr (), r\<lparr>rn_socket := Some sock\<rparr>)))"

definition after_queue :: "boot \<Rightarrow> (running, unit) effect" where
  "after_queue bo =
     bindS (\<lambda>r. case rn_socket r of None \<Rightarrow> (Inr (), r)
         | Some sock \<Rightarrow> (case connect (fst (bo_connect bo)) (snd (bo_connect bo)) sock of (x, sock') \<Rightarrow> (x, r\<lparr>rn_socket := Some sock'\<rparr>))) (\<lambda>_.
     bindS (liftR (\<lambda>_. bo_prekeys bo)) (\<lambda>_.
     bindS (liftR (\<lambda>_. bo_attributes bo)) (\<lambda>_ r. (Inr (), r\<lparr>rn_lastStorageSyncMs := bo_syncedAt bo\<rparr>))))"

text \<open>
  The handler of \<open>setupAccount\<close>: stop the queue (a null \<open>state_\<close> crashes), destroy the call
  manager, close the socket, forget the account.
\<close>

definition setup_failed :: "nat \<Rightarrow> running \<Rightarrow> daemon \<Rightarrow> verdict \<times> daemon" where
  "setup_failed n r d = (case stopAndJoin n (rn_queue r) of
       None \<Rightarrow> (Crashed, d)
     | Some _ \<Rightarrow> (Skipped, d\<lparr>managers := (if rn_manager r then removeAll (rn_id r) (managers d) else managers d),
          g_accounts := erase (ac_name (rn_config r)) (g_accounts d)\<rparr>))"

definition setup_threw :: "nat \<Rightarrow> exn \<Rightarrow> running \<Rightarrow> daemon \<Rightarrow> verdict \<times> daemon" where
  "setup_threw n x r d = (if x = Pj_error then (Crashed, d) else setup_failed n r d)"

definition setup_sip :: "nat \<Rightarrow> boot \<Rightarrow> running \<Rightarrow> daemon \<Rightarrow> verdict \<times> daemon" where
  "setup_sip n bo r d =
     (if \<not> hasSip (rn_config r) then (Up, d)
      else let d = ensureSharedEndpoint bo d in
        case (if g_ep d then bo_transport bo else None) of
          None \<Rightarrow> (Up, d)
        | Some t \<Rightarrow>
           let d = d\<lparr>transports := t # transports d,
                 g_portToAccount := (case bo_port bo of None \<Rightarrow> g_portToAccount d | Some p \<Rightarrow> store p (rn_id r) (g_portToAccount d))\<rparr> in
           (case bo_create bo of
              Inl x \<Rightarrow> setup_threw n x r d
            | Inr _ \<Rightarrow> (Up, d\<lparr>g_sipAccounts := store (ac_name (rn_config r))
                 \<lparr>sa_registered = bo_registered bo, sa_transportId = t, sa_unregisteredSinceMs = 0, sa_closes = bo_closes bo\<rparr> (g_sipAccounts d)\<rparr>)))"

text \<open>The configured outgoing call, placed when its target resolves; a failure to resolve is only logged.\<close>

definition setup_outgoing :: "boot \<Rightarrow> running \<Rightarrow> daemon \<Rightarrow> daemon" where
  "setup_outgoing bo r d =
     (if ac_outgoingCallTarget (rn_config r) = [] then d
      else case bo_resolved bo of Inl _ \<Rightarrow> d
        | Inr target \<Rightarrow> if target = [] then d else d\<lparr>outgoing := (rn_id r, target) # outgoing d\<rparr>)"

definition add_manager :: "running \<Rightarrow> daemon \<Rightarrow> daemon" where
  "add_manager r d = (if rn_manager r then d\<lparr>managers := rn_id r # managers d\<rparr> else d)"

definition setupAccount :: "nat \<Rightarrow> boot \<Rightarrow> AccountConfig \<Rightarrow> daemon \<Rightarrow> verdict \<times> daemon" where
  "setupAccount n bo cfg d =
     (let d = (if hasSip cfg then ensureSharedEndpoint bo d else d);
          r = fresh_account (next_id d) cfg;
          d = d\<lparr>next_id := next_id d + 1\<rparr> in
      case before_queue bo r of
        (Inl x, r) \<Rightarrow> setup_threw n x r (put_account r (add_manager r d))
      | (Inr _, r) \<Rightarrow>
          let d = add_manager r d; r = r\<lparr>rn_queue := queue_start (rn_queue r)\<rparr> in
          (case after_queue bo r of
             (Inl x, r) \<Rightarrow> setup_threw n x r (put_account r d)
           | (Inr _, r) \<Rightarrow> (case setup_sip n bo r (put_account r d) of
                 (Up, d) \<Rightarrow> (Up, setup_outgoing bo r d)
               | failed \<Rightarrow> failed)))"

section \<open>Tearing down and reloading\<close>

text \<open>
  \<open>None\<close>: the daemon crashed. The account's SIP call, if any, is stopped as in \<open>Calls\<close>. A transport PJSIP fails to close keeps its slot, and the
  teardown goes on.
\<close>

definition close_transport :: "string \<Rightarrow> daemon \<Rightarrow> daemon" where
  "close_transport name d = (case map_of (g_sipAccounts d) name of None \<Rightarrow> d
     | Some sa \<Rightarrow> if \<not> g_ep d then d
         else if sa_closes sa then d\<lparr>transports := removeAll (sa_transportId sa) (transports d)\<rparr>
         else d\<lparr>unclosed := sa_transportId sa # unclosed d\<rparr>)"

definition teardownAccount :: "nat \<Rightarrow> string \<Rightarrow> daemon \<Rightarrow> daemon option" where
  "teardownAccount n name d = (case map_of (g_accounts d) name of None \<Rightarrow> Some d
     | Some r \<Rightarrow> (case stopAndJoin n (rn_queue r) of None \<Rightarrow> None
        | Some _ \<Rightarrow>
            let d = close_transport name (d\<lparr>managers := removeAll (rn_id r) (managers d)\<rparr>)
            in Some (d\<lparr>g_sipAccounts := erase name (g_sipAccounts d), g_accounts := erase name (g_accounts d)\<rparr>)))"

fun teardown_all :: "nat \<Rightarrow> string list \<Rightarrow> daemon \<Rightarrow> daemon option" where
  "teardown_all n [] d = Some d"
| "teardown_all n (x # xs) d = Option.bind (teardownAccount n x d) (teardown_all n xs)"

definition setup_alive :: "nat \<Rightarrow> boot \<Rightarrow> AccountConfig \<Rightarrow> daemon \<Rightarrow> daemon option" where
  "setup_alive n bo cfg d = (case setupAccount n bo cfg d of (Crashed, _) \<Rightarrow> None | (_, d) \<Rightarrow> Some d)"

definition reload_one :: "nat \<Rightarrow> (AccountConfig \<Rightarrow> boot) \<Rightarrow> AccountConfig \<Rightarrow> daemon \<Rightarrow> daemon option" where
  "reload_one n bo cfg d = (case map_of (g_accounts d) (ac_name cfg) of
       None \<Rightarrow> setup_alive n (bo cfg) cfg d
     | Some r \<Rightarrow> if ac_configVersion (rn_config r) = ac_configVersion cfg then Some d
                 else Option.bind (teardownAccount n (ac_name cfg) d) (setup_alive n (bo cfg) cfg))"

fun reload_all :: "nat \<Rightarrow> (AccountConfig \<Rightarrow> boot) \<Rightarrow> AccountConfig list \<Rightarrow> daemon \<Rightarrow> daemon option" where
  "reload_all n bo [] d = Some d"
| "reload_all n bo (c # cs) d = Option.bind (reload_one n bo c d) (reload_all n bo cs)"

text \<open>\<open>newByName\<close>: in the order of the names, the first configuration of a name counts.\<close>

fun new_by_name :: "AccountConfig list \<Rightarrow> AccountConfig list" where
  "new_by_name [] = []"
| "new_by_name (c # cs) = insort_key ac_name c (filter (\<lambda>c'. ac_name c' \<noteq> ac_name c) (new_by_name cs))"

definition reloadConfig :: "nat \<Rightarrow> (AccountConfig \<Rightarrow> boot) \<Rightarrow> DaemonConfig result \<Rightarrow> daemon \<Rightarrow> daemon option" where
  "reloadConfig n bo loaded d = (case loaded of Inl _ \<Rightarrow> Some d
     | Inr cfg \<Rightarrow>
        let d = d\<lparr>g_global := dc_global cfg\<rparr>; new = new_by_name (dc_accounts cfg) in
        Option.bind (teardown_all n (filter (\<lambda>x. x \<notin> ac_name ` set new) (map fst (g_accounts d))) d) (reload_all n bo new))"


section \<open>Library facts\<close>

lemma map_of_erase [simp]: "map_of (erase k m) x = (if x = k then None else map_of m x)"
  by (induction m) (auto simp: erase_def)

lemma map_of_insort_key: "k \<notin> fst ` set m \<Longrightarrow> map_of (insort_key fst (k, v) m) x = (if x = k then Some v else map_of m x)"
  by (induction m) auto

lemma map_of_store [simp]: "map_of (store k v m) x = (if x = k then Some v else map_of m x)"
proof -
  have "k \<notin> fst ` set (erase k m)" by (auto simp: erase_def)
  then show ?thesis by (simp add: store_def map_of_insort_key)
qed

lemma sorted_store: "sorted (map fst m) \<Longrightarrow> sorted (map fst (store k v m))"
  by (simp add: store_def erase_def sorted_insort_key sorted_map_same sorted_filter)

lemma distinct_store: "distinct (map fst m) \<Longrightarrow> distinct (map fst (store k v m))"
proof -
  have "distinct (map fst (insort_key fst (k, v) ys))" if "distinct (map fst ys)" "k \<notin> fst ` set ys" for ys :: "('a \<times> 'b) list"
    using that by (induction ys) (auto simp: set_insort_key)
  from this [of "erase k m"] show "distinct (map fst m) \<Longrightarrow> distinct (map fst (store k v m))"
    by (auto simp: store_def erase_def distinct_map_filter)
qed

lemma set_store: "set (store k v m) = insert (k, v) {p \<in> set m. fst p \<noteq> k}"
  by (auto simp: store_def erase_def set_insort_key)

lemma set_erase: "set (erase k m) = {p \<in> set m. fst p \<noteq> k}"
  by (auto simp: erase_def)

lemma stopAndJoin_None [simp]: "stopAndJoin n q = None \<longleftrightarrow> qstate q = None"
  by (simp add: stopAndJoin_def request_stop_def split: option.split)

lemma new_by_name_iff:
  "c \<in> set (new_by_name xs) \<longleftrightarrow> find (\<lambda>c'. ac_name c' = ac_name c) xs = Some c"
  by (induction xs) (auto simp: set_insort_key)

lemma new_by_name_distinct: "distinct (map ac_name (new_by_name xs))"
proof (induction xs)
  case (Cons x xs)
  have "distinct (map ac_name (insort_key ac_name x ys))"
    if "distinct (map ac_name ys)" "ac_name x \<notin> ac_name ` set ys" for ys
    using that by (induction ys) (auto simp: set_insort_key)
  from this [of "filter (\<lambda>c'. ac_name c' \<noteq> ac_name x) (new_by_name xs)"] Cons show ?case
    by (force simp: distinct_map_filter)
qed simp

lemma new_by_name_names: "ac_name ` set (new_by_name xs) = ac_name ` set xs"
proof (induction xs)
  case (Cons x xs)
  have "ac_name ` set (new_by_name (x # xs)) = insert (ac_name x) (ac_name ` set (new_by_name xs))"
    by (force simp: set_insort_key image_iff)
  with Cons show ?case by simp
qed simp

section \<open>A setup that succeeds\<close>

definition good_boot :: "boot \<Rightarrow> AccountConfig \<Rightarrow> bool" where
  "good_boot bo cfg \<longleftrightarrow> \<not> isl (bo_account bo) \<and> bo_manager bo \<and>
     \<not> isl (AuthSocket_new (bo_proxy bo) (ac_signalProxy cfg) (ac_signalCensorshipCircumvention cfg)) \<and>
     (\<exists>h. bo_connect bo = (Completed (Inr h), None)) \<and> bo_prekeys bo = Inr () \<and> bo_attributes bo = Inr () \<and> bo_create bo = Inr ()"

lemma before_queue_good:
  assumes "good_boot bo (rn_config r)"
  shows "\<exists>sock. before_queue bo r = (Inr (), r\<lparr>rn_manager := True, rn_socket := Some sock\<rparr>)"
  using assms by (cases "bo_account bo")
    (auto simp: before_queue_def good_boot_def bindS_def liftR_def Let_def split: sum.splits)

lemma after_queue_good:
  assumes "good_boot bo cfg" "rn_socket r = Some sock"
  shows "\<exists>sock'. after_queue bo r = (Inr (), r\<lparr>rn_socket := Some sock', rn_lastStorageSyncMs := bo_syncedAt bo\<rparr>)"
  using assms by (auto simp: after_queue_def good_boot_def bindS_def liftR_def connect_def doConnect_def checkError_def Let_def)

lemma setup_sip_accounts: "\<exists>d'. setup_sip n bo r d = (Up, d') \<and> g_accounts d' = g_accounts d \<and> g_global d' = g_global d" if "bo_create bo = Inr ()"
  using that by (auto simp: setup_sip_def ensureSharedEndpoint_def Let_def split: option.splits)

lemma setup_outgoing_same [simp]:
  "g_accounts (setup_outgoing bo r d) = g_accounts d" "g_global (setup_outgoing bo r d) = g_global d"
  by (simp_all add: setup_outgoing_def split: sum.split)

lemma setup_good:
  assumes "good_boot bo cfg"
  shows "\<exists>r. fst (setupAccount n bo cfg d) = Up \<and> rn_config r = cfg \<and> qstate (rn_queue r) \<noteq> None \<and>
    g_accounts (snd (setupAccount n bo cfg d)) = store (ac_name cfg) r (g_accounts d) \<and>
    g_global (snd (setupAccount n bo cfg d)) = g_global d"
proof -
  define d0 where "d0 = (if hasSip cfg then ensureSharedEndpoint bo d else d)"
  define r0 where "r0 = fresh_account (next_id d0) cfg"
  have same: "g_accounts d0 = g_accounts d" "g_global d0 = g_global d"
    by (simp_all add: d0_def ensureSharedEndpoint_def)
  obtain sock where b: "before_queue bo r0 = (Inr (), r0\<lparr>rn_manager := True, rn_socket := Some sock\<rparr>)"
    using before_queue_good [of bo r0] assms by (auto simp: r0_def fresh_account_def)
  define r1 where "r1 = r0\<lparr>rn_manager := True, rn_socket := Some sock, rn_queue := queue_start (rn_queue r0)\<rparr>"
  obtain sock' where a: "after_queue bo r1 = (Inr (), r1\<lparr>rn_socket := Some sock', rn_lastStorageSyncMs := bo_syncedAt bo\<rparr>)"
    using after_queue_good [OF assms, of r1 sock] by (auto simp: r1_def)
  have cfg: "rn_config r1 = cfg" by (simp add: r1_def r0_def fresh_account_def)
  have "bo_create bo = Inr ()" using assms by (simp add: good_boot_def)
  define r2 where "r2 = r1\<lparr>rn_socket := Some sock', rn_lastStorageSyncMs := bo_syncedAt bo\<rparr>"
  define d1 where "d1 = put_account r2 (add_manager (r0\<lparr>rn_manager := True, rn_socket := Some sock\<rparr>) (d0\<lparr>next_id := next_id d0 + 1\<rparr>))"
  obtain d' where d': "setup_sip n bo r2 d1 = (Up, d')" "g_accounts d' = g_accounts d1" "g_global d' = g_global d1"
    using setup_sip_accounts [OF \<open>bo_create bo = Inr ()\<close>] by blast
  have run: "setupAccount n bo cfg d = (Up, setup_outgoing bo r2 d')"
    using b a d'(1) unfolding setupAccount_def Let_def d0_def [symmetric] r0_def [symmetric] by (simp add: r1_def r2_def d1_def)
  show ?thesis
    unfolding run using d'(2,3) same cfg
    by (intro exI [of _ r2]) (simp add: d1_def r2_def put_account_def add_manager_def r1_def queue_start_def)
qed

section \<open>Reloading\<close>

definition started :: "daemon \<Rightarrow> bool" where
  "started d \<longleftrightarrow> (\<forall>x r. map_of (g_accounts d) x = Some r \<longrightarrow> qstate (rn_queue r) \<noteq> None)"

lemma teardown_started:
  assumes "started d"
  shows "\<exists>d'. teardownAccount n x d = Some d' \<and> map_of (g_accounts d') = (map_of (g_accounts d))(x := None) \<and>
    g_global d' = g_global d \<and> started d'"
proof (cases "map_of (g_accounts d) x")
  case None
  then show ?thesis using assms by (auto simp: teardownAccount_def fun_eq_iff)
next
  case (Some r)
  then have "qstate (rn_queue r) \<noteq> None" using assms by (auto simp: started_def)
  then obtain q where q: "stopAndJoin n (rn_queue r) = Some q" by (metis stopAndJoin_None not_None_eq)
  have g: "g_accounts (close_transport x d1) = g_accounts d1" "g_global (close_transport x d1) = g_global d1" for d1
    by (simp_all add: close_transport_def split: option.split)
  show ?thesis
    using Some q assms by (auto simp: teardownAccount_def Let_def g started_def fun_eq_iff)
qed

lemma teardown_all_started:
  assumes "started d"
  shows "\<exists>d'. teardown_all n xs d = Some d' \<and> map_of (g_accounts d') = (\<lambda>x. if x \<in> set xs then None else map_of (g_accounts d) x) \<and>
    g_global d' = g_global d \<and> started d'"
  using assms
proof (induction xs arbitrary: d)
  case (Cons x xs)
  obtain d1 where d1: "teardownAccount n x d = Some d1" "map_of (g_accounts d1) = (map_of (g_accounts d))(x := None)"
      "g_global d1 = g_global d" "started d1"
    using teardown_started [OF Cons.prems] by blast
  from Cons.IH [OF d1(4)] show ?case using d1 by (auto simp: fun_eq_iff)
qed auto

definition kept :: "AccountConfig \<Rightarrow> daemon \<Rightarrow> bool" where
  "kept c d \<longleftrightarrow> (\<exists>r. map_of (g_accounts d) (ac_name c) = Some r \<and> ac_configVersion (rn_config r) = ac_configVersion c)"

lemma reload_one_good:
  assumes "started d" "good_boot (bo c) c"
  shows "\<exists>d' r. reload_one n bo c d = Some d' \<and> map_of (g_accounts d') = (map_of (g_accounts d))(ac_name c \<mapsto> r) \<and>
    (if kept c d then map_of (g_accounts d) (ac_name c) = Some r else rn_config r = c) \<and> g_global d' = g_global d \<and> started d'"
proof -
  have up: "\<exists>d' r. setup_alive n (bo c) c d1 = Some d' \<and> map_of (g_accounts d') = (map_of (g_accounts d1))(ac_name c \<mapsto> r) \<and>
     rn_config r = c \<and> g_global d' = g_global d1 \<and> started d'" if "started d1" for d1
  proof -
    obtain r where r: "fst (setupAccount n (bo c) c d1) = Up" "rn_config r = c" "qstate (rn_queue r) \<noteq> None"
      "g_accounts (snd (setupAccount n (bo c) c d1)) = store (ac_name c) r (g_accounts d1)"
      "g_global (snd (setupAccount n (bo c) c d1)) = g_global d1"
      using setup_good [OF assms(2)] by blast
    obtain d' where d': "setupAccount n (bo c) c d1 = (Up, d')" using r(1) by (metis prod.collapse)
    show ?thesis
      using r that unfolding d' setup_alive_def
      by (intro exI [of _ d'] exI [of _ r]) (auto simp: fun_eq_iff started_def)
  qed
  show ?thesis
  proof (cases "kept c d")
    case True
    then obtain r where "map_of (g_accounts d) (ac_name c) = Some r" "ac_configVersion (rn_config r) = ac_configVersion c"
      by (auto simp: kept_def)
    then show ?thesis using True assms(1) by (auto simp: reload_one_def fun_eq_iff)
  next
    case False
    obtain d1 where "teardownAccount n (ac_name c) d = Some d1" "map_of (g_accounts d1) = (map_of (g_accounts d))(ac_name c := None)"
        "g_global d1 = g_global d" "started d1"
      using teardown_started [OF assms(1)] by blast
    then show ?thesis
      using up [of d1] up [OF assms(1)] False
      by (cases "map_of (g_accounts d) (ac_name c)") (auto simp: reload_one_def kept_def)
  qed
qed


lemma reload_all_good:
  assumes "started d" "\<forall>c \<in> set cs. good_boot (bo c) c" "distinct (map ac_name cs)"
  shows "\<exists>d'. reload_all n bo cs d = Some d' \<and> g_global d' = g_global d \<and> started d' \<and>
    (\<forall>x. x \<notin> ac_name ` set cs \<longrightarrow> map_of (g_accounts d') x = map_of (g_accounts d) x) \<and>
    (\<forall>c \<in> set cs. \<exists>r. map_of (g_accounts d') (ac_name c) = Some r \<and>
       (if kept c d then map_of (g_accounts d) (ac_name c) = Some r else rn_config r = c))"
  using assms
proof (induction cs arbitrary: d)
  case (Cons c cs)
  obtain d1 r where d1: "reload_one n bo c d = Some d1" "map_of (g_accounts d1) = (map_of (g_accounts d))(ac_name c \<mapsto> r)"
      "if kept c d then map_of (g_accounts d) (ac_name c) = Some r else rn_config r = c" "g_global d1 = g_global d" "started d1"
    using reload_one_good [OF Cons.prems(1), of bo c n] Cons.prems(2) by auto
  obtain d' where d': "reload_all n bo cs d1 = Some d'" "g_global d' = g_global d1" "started d'"
    "\<forall>x. x \<notin> ac_name ` set cs \<longrightarrow> map_of (g_accounts d') x = map_of (g_accounts d1) x"
    "\<forall>c \<in> set cs. \<exists>r. map_of (g_accounts d') (ac_name c) = Some r \<and>
       (if kept c d1 then map_of (g_accounts d1) (ac_name c) = Some r else rn_config r = c)"
    using Cons.IH [OF d1(5)] Cons.prems(2,3) by auto
  have other: "map_of (g_accounts d1) (ac_name c') = map_of (g_accounts d) (ac_name c') \<and> kept c' d1 = kept c' d" if "c' \<in> set cs" for c'
  proof -
    have "ac_name c' \<noteq> ac_name c" using that Cons.prems(3) by (metis distinct.simps(2) image_eqI image_set list.simps(9))
    then show ?thesis using d1(2) by (simp add: kept_def)
  qed
  have "map_of (g_accounts d') (ac_name c) = Some r"
    using d'(4) d1(2) Cons.prems(3) by simp
  moreover have "\<forall>c' \<in> set cs. \<exists>r. map_of (g_accounts d') (ac_name c') = Some r \<and>
       (if kept c' d then map_of (g_accounts d) (ac_name c') = Some r else rn_config r = c')"
    using d'(5) other by (intro ballI) metis
  ultimately show ?case
    using d1 d'(1-4) by (intro exI [of _ d']) simp
qed auto

lemma reload_result:
  assumes "started d" "\<forall>c \<in> set (dc_accounts cfg). good_boot (bo c) c"
  shows "\<exists>d'. reloadConfig n bo (Inr cfg) d = Some d' \<and> g_global d' = dc_global cfg \<and> started d' \<and>
    dom (map_of (g_accounts d')) = ac_name ` set (dc_accounts cfg) \<and>
    (\<forall>c x. find (\<lambda>c. ac_name c = x) (dc_accounts cfg) = Some c \<longrightarrow>
       (\<exists>r. map_of (g_accounts d') x = Some r \<and> (if kept c d then map_of (g_accounts d) x = Some r else rn_config r = c)))"
proof -
  let ?new = "new_by_name (dc_accounts cfg)"
  let ?d0 = "d\<lparr>g_global := dc_global cfg\<rparr>"
  let ?gone = "filter (\<lambda>x. x \<notin> ac_name ` set ?new) (map fst (g_accounts ?d0))"
  have acc: "g_accounts ?d0 = g_accounts d" by simp
  have "started ?d0" using assms(1) by (simp add: started_def)
  then obtain d1 where d1: "teardown_all n ?gone ?d0 = Some d1" "g_global d1 = dc_global cfg" "started d1"
    "map_of (g_accounts d1) = (\<lambda>x. if x \<in> set ?gone then None else map_of (g_accounts d) x)"
    using teardown_all_started [of ?d0 n ?gone] unfolding acc by auto
  have "\<forall>c \<in> set ?new. good_boot (bo c) c"
    using assms(2) by (auto simp: new_by_name_iff find_Some_iff)
  then obtain d' where d': "reload_all n bo ?new d1 = Some d'" "g_global d' = g_global d1" "started d'"
    "\<forall>x. x \<notin> ac_name ` set ?new \<longrightarrow> map_of (g_accounts d') x = map_of (g_accounts d1) x"
    "\<forall>c \<in> set ?new. \<exists>r. map_of (g_accounts d') (ac_name c) = Some r \<and>
       (if kept c d1 then map_of (g_accounts d1) (ac_name c) = Some r else rn_config r = c)"
    using reload_all_good [OF d1(3), of ?new bo n] new_by_name_distinct by blast
  have same: "map_of (g_accounts d1) (ac_name c) = map_of (g_accounts d) (ac_name c) \<and> kept c d1 = kept c d" if "c \<in> set ?new" for c
    using d1(4) that by (simp add: kept_def)
  have none: "map_of (g_accounts d') x = None" if "x \<notin> ac_name ` set ?new" for x
    using d'(4) d1(4) that by (simp add: dom_map_of_conv_image_fst [symmetric]) (metis domIff)
  have "dom (map_of (g_accounts d')) = ac_name ` set ?new"
    using none d'(5) by (fastforce simp: dom_def)
  moreover have "\<exists>r. map_of (g_accounts d') x = Some r \<and> (if kept c d then map_of (g_accounts d) x = Some r else rn_config r = c)"
    if f: "find (\<lambda>c. ac_name c = x) (dc_accounts cfg) = Some c" for c x
  proof -
    have x: "x = ac_name c" using f by (auto simp: find_Some_iff)
    then have "c \<in> set ?new" using f by (simp add: new_by_name_iff)
    with d'(5) same x show ?thesis by metis
  qed
  moreover have "reloadConfig n bo (Inr cfg) d = Some d'"
    using d1(1) d'(1) by (simp add: reloadConfig_def Let_def)
  ultimately show ?thesis
    using d'(2,3) d1(2) by (simp add: new_by_name_names)
qed

text \<open>
  C12: A reload brings the daemon to the configuration. When the accounts that need it can be set up, reloading
  never crashes and afterwards exactly the configured accounts run; an account whose \<open>config_version\<close> has not changed is the very
  same running instance as before, untouched, and every other one runs with its new configuration (of accounts listed twice, the first).
\<close>

theorem reload_converges:
  assumes "started d" "\<forall>c \<in> set (dc_accounts cfg). good_boot (bo c) c"
  shows "\<exists>d'. reloadConfig n bo (Inr cfg) d = Some d' \<and> g_global d' = dc_global cfg \<and> started d' \<and>
    dom (map_of (g_accounts d')) = ac_name ` set (dc_accounts cfg) \<and>
    (\<forall>c x. find (\<lambda>c. ac_name c = x) (dc_accounts cfg) = Some c \<longrightarrow>
       (\<exists>r. map_of (g_accounts d') x = Some r \<and> (if kept c d then map_of (g_accounts d) x = Some r else rn_config r = c)))"
  by (rule reload_result [OF assms])

definition working_boot :: boot where
  "working_boot = \<lparr>bo_endpoint = True, bo_account = Inr sample_account, bo_manager = True, bo_proxy = (\<lambda>_. Inr ()),
     bo_connect = (Completed (Inr 1), None), bo_prekeys = Inr (), bo_attributes = Inr (), bo_syncedAt = 0, bo_transport = Some 3, bo_port = Some 39445,
     bo_create = Inr (), bo_registered = True, bo_closes = True, bo_resolved = Inr ''ACI-9''\<rparr>"

definition empty_daemon :: daemon where
  "empty_daemon = \<lparr>g_accounts = [], g_sipAccounts = [], g_portToAccount = [], g_ep = False, g_global = default_global, managers = [],
     transports = [], unclosed = [], outgoing = [], next_id = 0\<rparr>"

definition two_accounts :: DaemonConfig where
  "two_accounts = \<lparr>dc_global = default_global, dc_accounts = [sample_config, sample_config\<lparr>ac_name := ''b''\<rparr>]\<rparr>"

lemma working_boot_good: "ac_signalProxy c = [] \<Longrightarrow> good_boot working_boot c"
  by (simp add: good_boot_def working_boot_def AuthSocket_new_def applyProxyConfig_def bindS_def liftR_def)

theorem reload_converges_witness:
  "\<exists>d'. reloadConfig 0 (\<lambda>_. working_boot) (Inr two_accounts) empty_daemon = Some d' \<and> dom (map_of (g_accounts d')) = {''a'', ''b''}"
proof -
  have "started empty_daemon" "\<forall>c \<in> set (dc_accounts two_accounts). good_boot working_boot c"
    by (auto simp: started_def empty_daemon_def two_accounts_def sample_config_def intro!: working_boot_good)
  from reload_converges [OF this, of 0] show ?thesis
    by (auto simp: two_accounts_def sample_config_def)
qed

section \<open>Setups that fail\<close>

text \<open>
  A setup that fails before the dispatch queue is started takes the whole daemon down: the error handler stops a queue that has
  no state yet. One malformed \<open>signal_proxy\<close> port in the database, which the configuration check accepts, is enough: \<open>std::stoi\<close>
  throws in the constructor of the socket, and no account of the process survives.
\<close>

theorem early_setup_failure_crashes:
  assumes "bo_account bo = Inr a" "bo_manager bo" "ac_signalProxy cfg = host @ '':'' @ port" "CHR '':'' \<notin> set port" "stoi port = Inl x" "x \<noteq> Pj_error"
  shows "fst (setupAccount n bo cfg d) = Crashed"
proof -
  have "host @ CHR '':'' # port \<noteq> []" by simp
  then have "AuthSocket_new (bo_proxy bo) (ac_signalProxy cfg) (ac_signalCensorshipCircumvention cfg) = Inl x"
    using assms(3-5) by (simp add: AuthSocket_new_def applyProxyConfig_def proxy_target_def rsplit_append bindS_def liftR_def)
  then show ?thesis
    using assms(1,2,6)
    by (simp add: setupAccount_def before_queue_def bindS_def liftR_def Let_def fresh_account_def setup_threw_def setup_failed_def
        new_queue_def stopAndJoin_def request_stop_def)
qed

lemma stoi_abc: "stoi ''abc'' = Inl Invalid_argument"
  by code_simp

theorem early_setup_failure_crashes_witness:
  "fst (setupAccount 0 working_boot (sample_config\<lparr>ac_signalProxy := ''relay:abc''\<rparr>) empty_daemon) = Crashed"
  using early_setup_failure_crashes [of working_boot sample_account "sample_config\<lparr>ac_signalProxy := ''relay:abc''\<rparr>" "''relay''" "''abc''"
      Invalid_argument 0 empty_daemon] stoi_abc
  by (simp add: working_boot_def)

text \<open>
  A \<open>pj::Error\<close> of the SIP account creation is no \<open>std::exception\<close> and leaves \<open>setupAccount\<close> uncaught: the
  daemon goes down instead of skipping the account.
\<close>

theorem sip_create_error_crashes:
  assumes "good_boot (bo\<lparr>bo_create := Inr ()\<rparr>) cfg" "bo_create bo = Inl Pj_error" "hasSip cfg" "g_ep d" "bo_transport bo = Some t"
  shows "fst (setupAccount n bo cfg d) = Crashed"
proof -
  define r0 where "r0 = fresh_account (next_id d) cfg"
  let ?bo = "bo\<lparr>bo_create := Inr ()\<rparr>"
  have same: "before_queue bo = before_queue ?bo" "after_queue bo = after_queue ?bo" "bo_syncedAt ?bo = bo_syncedAt bo"
    by (simp_all add: before_queue_def after_queue_def cong: if_cong option.case_cong)
  obtain sock where b: "before_queue bo r0 = (Inr (), r0\<lparr>rn_manager := True, rn_socket := Some sock\<rparr>)"
    using before_queue_good [of ?bo r0] assms(1) same by (auto simp: r0_def fresh_account_def)
  define r1 where "r1 = r0\<lparr>rn_manager := True, rn_socket := Some sock, rn_queue := queue_start (rn_queue r0)\<rparr>"
  obtain sock' where a: "after_queue bo r1 = (Inr (), r1\<lparr>rn_socket := Some sock', rn_lastStorageSyncMs := bo_syncedAt bo\<rparr>)"
    using after_queue_good [OF assms(1), of r1 sock] same by (auto simp: r1_def)
  have cfg: "rn_config r1 = cfg" by (simp add: r1_def r0_def fresh_account_def)
  have ep: "ensureSharedEndpoint bo d = d" using assms(4) by (simp add: ensureSharedEndpoint_def)
  show ?thesis
    using b a cfg assms(2-5) ep unfolding setupAccount_def Let_def r0_def [symmetric]
    by (simp add: r1_def [symmetric] setup_sip_def setup_threw_def ensureSharedEndpoint_def put_account_def add_manager_def Let_def
        r0_def [symmetric] split: option.splits)
qed


theorem sip_create_error_crashes_witness:
  "fst (setupAccount 0 (working_boot\<lparr>bo_create := Inl Pj_error\<rparr>) sample_config (empty_daemon\<lparr>g_ep := True\<rparr>)) = Crashed"
  using sip_create_error_crashes [of "working_boot\<lparr>bo_create := Inl Pj_error\<rparr>" sample_config "empty_daemon\<lparr>g_ep := True\<rparr>" 3 0]
    working_boot_good [of sample_config]
  by (simp add: working_boot_def sample_config_def hasSip_def)

end
