(* ===== verification/Lifetimes.thy ===== *)
theory Lifetimes
  imports Daemon
begin

text \<open>
  What the daemon owns over the life of its accounts: every account instance has an identity of its own, its call
  manager and its SIP transport live exactly as long as it does. Both setup and teardown are summarised by one lemma
  each, on which the invariants here and those of the main loop rest.
\<close>

section \<open>What a setup leaves\<close>

text \<open>A deauthorized socket is never connected.\<close>

definition quiet :: "running \<Rightarrow> bool" where
  "quiet r \<longleftrightarrow> (\<forall>s. rn_socket r = Some s \<longrightarrow> deauthorized s \<longrightarrow> \<not> connected s)"

definition quiet_socket :: "Impl \<Rightarrow> bool" where
  "quiet_socket s \<longleftrightarrow> (deauthorized s \<longrightarrow> \<not> connected s)"

lemma quiet_socket_step: "quiet_socket s \<Longrightarrow> quiet_socket (socket_step ev s)"
  by (cases ev)
    (auto simp: quiet_socket_def connect_def reconnect_def doConnect_def bindS_def checkError_def close_def returnS_def
       onConnectionInterrupted_def disconnectAndDestroyBestEffort_def Let_def
       split: outcome.splits sum.splits option.splits prod.splits if_splits)

lemma quiet_iff: "quiet r \<longleftrightarrow> (\<forall>s. rn_socket r = Some s \<longrightarrow> quiet_socket s)"
  by (simp add: quiet_def quiet_socket_def)

lemma erase_store [simp]: "erase k (store k v m) = erase k m"
proof -
  have "filter (\<lambda>p. fst p \<noteq> k) (insort_key fst (k, v) ys) = filter (\<lambda>p. fst p \<noteq> k) ys" for ys :: "('a \<times> 'b) list"
    by (induction ys) auto
  then show ?thesis by (simp add: store_def erase_def)
qed

text \<open>The account a setup works on, whatever becomes of it.\<close>

definition newborn :: "nat \<Rightarrow> AccountConfig \<Rightarrow> running \<Rightarrow> bool" where
  "newborn i cfg r \<longleftrightarrow> rn_id r = i \<and> rn_config r = cfg \<and> rn_lastReconnectMs r = 0 \<and> quiet r"

lemma before_queue_newborn:
  "newborn i cfg r \<Longrightarrow> newborn i cfg (snd (before_queue bo r)) \<and> (fst (before_queue bo r) = Inr () \<longrightarrow> rn_manager (snd (before_queue bo r))) \<and>
     qstate (rn_queue (snd (before_queue bo r))) = qstate (rn_queue r)"
  by (auto simp: before_queue_def newborn_def quiet_def bindS_def liftR_def Let_def throwS_def single_session_new
      dest!: single_session_new split: sum.splits prod.splits)

lemma after_queue_newborn:
  assumes "newborn i cfg r"
  shows "newborn i cfg (snd (after_queue bo r)) \<and> rn_manager (snd (after_queue bo r)) = rn_manager r \<and>
    rn_queue (snd (after_queue bo r)) = rn_queue r"
proof -
  have "quiet_socket (snd (connect (fst (bo_connect bo)) (snd (bo_connect bo)) s))" if "rn_socket r = Some s" for s
    using quiet_socket_step [of s "Connect (fst (bo_connect bo)) (snd (bo_connect bo))"] assms that
    by (simp add: newborn_def quiet_iff)
  then show ?thesis
    using assms
    by (auto simp: after_queue_def newborn_def quiet_iff bindS_def liftR_def split: option.splits sum.splits prod.splits)
qed


text \<open>PJSIP's own failures are \<open>pj::Error\<close>s; the account's \<open>create\<close> throws nothing else.\<close>

definition pj_only :: "boot \<Rightarrow> bool" where
  "pj_only bo \<longleftrightarrow> bo_create bo = Inr () \<or> bo_create bo = Inl Pj_error"

text \<open>The daemon after a setup that came up, and after one that was skipped.\<close>

definition came_up :: "boot \<Rightarrow> AccountConfig \<Rightarrow> daemon \<Rightarrow> running \<Rightarrow> daemon \<Rightarrow> bool" where
  "came_up bo cfg d r d' \<longleftrightarrow> rn_manager r \<and> qstate (rn_queue r) \<noteq> None \<and>
     g_accounts d' = store (ac_name cfg) r (g_accounts d) \<and> managers d' = next_id d # managers d \<and> unclosed d' = unclosed d \<and>
     (transports d' = transports d \<and> g_sipAccounts d' = g_sipAccounts d \<or>
      (\<exists>sa. bo_transport bo = Some (sa_transportId sa) \<and> g_ep d' \<and> transports d' = sa_transportId sa # transports d \<and>
         g_sipAccounts d' = store (ac_name cfg) sa (g_sipAccounts d)))"

definition was_skipped :: "AccountConfig \<Rightarrow> daemon \<Rightarrow> daemon \<Rightarrow> bool" where
  "was_skipped cfg d d' \<longleftrightarrow> g_accounts d' = erase (ac_name cfg) (g_accounts d) \<and>
     set (managers d') - {next_id d} = set (managers d) - {next_id d} \<and> (next_id d \<in> set (managers d') \<longrightarrow> next_id d \<in> set (managers d)) \<and>
     transports d' = transports d \<and> g_sipAccounts d' = g_sipAccounts d \<and> unclosed d' = unclosed d"

lemma setup_failed_result:
  "setup_failed n r d = (v, d') \<Longrightarrow> v \<noteq> Crashed \<Longrightarrow> v = Skipped \<and>
     d' = d\<lparr>managers := (if rn_manager r then removeAll (rn_id r) (managers d) else managers d),
          g_accounts := erase (ac_name (rn_config r)) (g_accounts d)\<rparr>"
  by (auto simp: setup_failed_def split: option.splits)

lemma setup_threw_result:
  "setup_threw n x r (put_account r (add_manager r d)) = (v, d') \<Longrightarrow> v \<noteq> Crashed \<Longrightarrow> rn_id r = next_id d0 \<Longrightarrow> rn_config r = cfg \<Longrightarrow>
   g_accounts d = g_accounts d0 \<Longrightarrow> managers d = managers d0 \<Longrightarrow> transports d = transports d0 \<Longrightarrow> g_sipAccounts d = g_sipAccounts d0 \<Longrightarrow>
   unclosed d = unclosed d0 \<Longrightarrow> v = Skipped \<and> was_skipped cfg d0 d' \<and> next_id d' = next_id d \<and> g_global d' = g_global d \<and> g_ep d' = g_ep d"
  by (auto simp: setup_threw_def was_skipped_def put_account_def add_manager_def dest!: setup_failed_result split: if_splits)

lemma setup_sip_result:
  "setup_sip n bo r d = (v, d') \<Longrightarrow> v \<noteq> Crashed \<Longrightarrow> pj_only bo \<Longrightarrow>
     v = Up \<and> g_accounts d' = g_accounts d \<and> managers d' = managers d \<and> unclosed d' = unclosed d \<and> next_id d' = next_id d \<and> g_global d' = g_global d \<and> (g_ep d \<longrightarrow> g_ep d') \<and>
     (transports d' = transports d \<and> g_sipAccounts d' = g_sipAccounts d \<or>
      (\<exists>sa. bo_transport bo = Some (sa_transportId sa) \<and> g_ep d' \<and> transports d' = sa_transportId sa # transports d \<and>
         g_sipAccounts d' = store (ac_name (rn_config r)) sa (g_sipAccounts d)))"
  by (auto simp: setup_sip_def ensureSharedEndpoint_def setup_threw_def pj_only_def Let_def split: if_splits option.splits
      intro!: exI [of _ "\<lparr>sa_registered = bo_registered bo, sa_transportId = the (bo_transport bo), sa_unregisteredSinceMs = 0, sa_closes = bo_closes bo\<rparr>"])

lemma setup_outgoing_frame [simp]:
  "managers (setup_outgoing bo r d) = managers d" "transports (setup_outgoing bo r d) = transports d"
  "g_sipAccounts (setup_outgoing bo r d) = g_sipAccounts d" "next_id (setup_outgoing bo r d) = next_id d"
  "g_ep (setup_outgoing bo r d) = g_ep d" "unclosed (setup_outgoing bo r d) = unclosed d"
  by (simp_all add: setup_outgoing_def split: sum.split)

lemma setup_summary:
  assumes "setupAccount n bo cfg d = (v, d')" "v \<noteq> Crashed" "pj_only bo"
  shows "next_id d' = next_id d + 1 \<and> g_global d' = g_global d \<and> (g_ep d \<longrightarrow> g_ep d') \<and>
    (v = Skipped \<and> was_skipped cfg d d' \<or> v = Up \<and> (\<exists>r. newborn (next_id d) cfg r \<and> came_up bo cfg d r d'))"
proof -
  define d0 where "d0 = (if hasSip cfg then ensureSharedEndpoint bo d else d)"
  define d1 where "d1 = d0\<lparr>next_id := next_id d0 + 1\<rparr>"
  have d0: "g_accounts d0 = g_accounts d" "managers d0 = managers d" "transports d0 = transports d" "g_sipAccounts d0 = g_sipAccounts d"
    "next_id d0 = next_id d" "unclosed d0 = unclosed d" "g_global d0 = g_global d" "g_ep d \<longrightarrow> g_ep d0"
    by (simp_all add: d0_def ensureSharedEndpoint_def)
  define r0 where "r0 = fresh_account (next_id d0) cfg"
  have n0: "newborn (next_id d) cfg r0" by (simp add: r0_def newborn_def fresh_account_def quiet_def d0)
  obtain x r1 where b: "before_queue bo r0 = (x, r1)" by (meson surj_pair)
  have n1: "newborn (next_id d) cfg r1" "x = Inr () \<Longrightarrow> rn_manager r1" using before_queue_newborn [OF n0, of bo] b by auto
  note run = assms(1) [unfolded setupAccount_def Let_def, folded d0_def, folded r0_def, folded d1_def]
  show ?thesis
  proof (cases x)
    case (Inl e)
    have "setup_threw n e r1 (put_account r1 (add_manager r1 d1)) = (v, d')" using run b Inl by simp
    from setup_threw_result [OF this assms(2), of d cfg] n1 d0 show ?thesis by (simp add: d1_def newborn_def)
  next
    case (Inr u)
    define r2 where "r2 = r1\<lparr>rn_queue := queue_start (rn_queue r1)\<rparr>"
    have n2: "newborn (next_id d) cfg r2" "rn_manager r2" "qstate (rn_queue r2) \<noteq> None"
      using n1 Inr by (simp_all add: r2_def newborn_def quiet_def queue_start_def)
    obtain y r3 where a: "after_queue bo r2 = (y, r3)" by (meson surj_pair)
    have n3: "newborn (next_id d) cfg r3" "rn_manager r3" "qstate (rn_queue r3) \<noteq> None" "rn_id r3 = rn_id r1"
      using after_queue_newborn [OF n2(1), of bo] a n1 n2 by (auto simp: newborn_def)
    have m: "add_manager r1 d1 = add_manager r3 d1" using n1 n3 Inr by (simp add: add_manager_def)
    note run' = run [unfolded b Inr, simplified, folded r2_def, unfolded a m]
    show ?thesis
    proof (cases y)
      case (Inl e)
      have "setup_threw n e r3 (put_account r3 (add_manager r3 d1)) = (v, d')" using run' Inl by simp
      from setup_threw_result [OF this assms(2), of d cfg] n3 d0 show ?thesis by (simp add: d1_def newborn_def)
    next
      case (Inr u')
      obtain v' d2 where s: "setup_sip n bo r3 (put_account r3 (add_manager r3 d1)) = (v', d2)" by (meson surj_pair)
      have "v' = Up" "v = Up" "d' = setup_outgoing bo r3 d2"
        using run' Inr s assms(2) setup_sip_result [OF s _ assms(3)] by (cases v'; auto)+
      with setup_sip_result [OF s _ assms(3)] n3 d0 show ?thesis
        by (fastforce simp: came_up_def put_account_def add_manager_def d1_def newborn_def)
    qed
  qed
qed

lemma teardown_summary:
  assumes "teardownAccount n name d = Some d'"
  shows "next_id d' = next_id d \<and> g_global d' = g_global d \<and> g_ep d' = g_ep d \<and> g_accounts d' = erase name (g_accounts d)"
  using assms by (auto simp: teardownAccount_def close_transport_def Let_def erase_def filter_id_conv map_of_eq_None_iff
      split: option.splits if_splits intro!: filter_True [symmetric])


lemma teardown_resources:
  assumes "teardownAccount n name d = Some d'" "map_of (g_accounts d) name = Some r"
  shows "managers d' = removeAll (rn_id r) (managers d) \<and> g_sipAccounts d' = erase name (g_sipAccounts d) \<and>
    transports d' = (case map_of (g_sipAccounts d) name of None \<Rightarrow> transports d
      | Some sa \<Rightarrow> if g_ep d \<and> sa_closes sa then removeAll (sa_transportId sa) (transports d) else transports d) \<and>
    unclosed d' = (case map_of (g_sipAccounts d) name of None \<Rightarrow> unclosed d
      | Some sa \<Rightarrow> if g_ep d \<and> \<not> sa_closes sa then sa_transportId sa # unclosed d else unclosed d)"
  using assms by (auto simp: teardownAccount_def close_transport_def Let_def split: option.splits if_splits)

section \<open>Ownership\<close>

definition accounts_owned :: "daemon \<Rightarrow> bool" where
  "accounts_owned d \<longleftrightarrow> distinct (map fst (g_accounts d)) \<and> inj_on (\<lambda>p. rn_id (snd p)) (set (g_accounts d)) \<and>
     (\<forall>p \<in> set (g_accounts d). rn_id (snd p) < next_id d) \<and> set (managers d) = (\<lambda>p. rn_id (snd p)) ` set (g_accounts d)"

definition sip_owned :: "daemon \<Rightarrow> bool" where
  "sip_owned d \<longleftrightarrow> distinct (map fst (g_sipAccounts d)) \<and> inj_on (\<lambda>p. sa_transportId (snd p)) (set (g_sipAccounts d)) \<and>
     set (transports d) = (\<lambda>p. sa_transportId (snd p)) ` set (g_sipAccounts d) \<union> set (unclosed d) \<and>
     (\<lambda>p. sa_transportId (snd p)) ` set (g_sipAccounts d) \<inter> set (unclosed d) = {} \<and> (g_sipAccounts d \<noteq> [] \<longrightarrow> g_ep d)"

definition owned :: "daemon \<Rightarrow> bool" where
  "owned d \<longleftrightarrow> accounts_owned d \<and> sip_owned d \<and> fst ` set (g_sipAccounts d) \<subseteq> fst ` set (g_accounts d)"

lemma distinct_erase: "distinct (map fst m) \<Longrightarrow> distinct (map fst (erase k m))"
  by (simp add: erase_def distinct_map_filter)

lemma erase_absent: "k \<notin> fst ` set m \<Longrightarrow> erase k m = m"
  by (force simp: erase_def filter_id_conv)

lemma image_erase:
  assumes "distinct (map fst m)" "inj_on f (set m)" "(k, v) \<in> set m"
  shows "f ` set (erase k m) = f ` set m - {f (k, v)}"
proof -
  have "fst p = k \<longleftrightarrow> p = (k, v)" if "p \<in> set m" for p
    using that assms(1,3) eq_key_imp_eq_value [of m k v "snd p"] by (metis fst_conv prod.collapse)
  then have "set (erase k m) = set m - {(k, v)}" by (auto simp: set_erase)
  then show ?thesis using assms(2,3) by (auto simp: inj_on_def)
qed

lemma owned_skip:
  assumes "owned d" "was_skipped cfg d d'" "next_id d' = next_id d + 1" "g_ep d \<longrightarrow> g_ep d'" "ac_name cfg \<notin> fst ` set (g_accounts d)"
  shows "owned d'"
proof -
  have "g_accounts d' = g_accounts d" "g_sipAccounts d' = g_sipAccounts d" "transports d' = transports d" "unclosed d' = unclosed d"
    using assms(2,5) by (simp_all add: was_skipped_def erase_absent)
  moreover have "next_id d \<notin> set (managers d)" using assms(1) by (auto simp: owned_def accounts_owned_def)
  then have "set (managers d') = set (managers d)" using assms(2) by (auto simp: was_skipped_def)
  ultimately show ?thesis using assms(1,3,4) by (auto simp: owned_def accounts_owned_def sip_owned_def)
qed

lemma owned_up:
  assumes "owned d" "came_up bo cfg d r d'" "newborn (next_id d) cfg r" "next_id d' = next_id d + 1" "g_ep d \<longrightarrow> g_ep d'"
    "ac_name cfg \<notin> fst ` set (g_accounts d)" "\<forall>t. bo_transport bo = Some t \<longrightarrow> t \<notin> set (transports d)"
  shows "owned d'"
proof -
  let ?a = "ac_name cfg"
  have acc: "set (g_accounts d') = insert (?a, r) (set (g_accounts d))"
    using assms(2,6) by (auto simp: came_up_def set_store image_iff)
  have "distinct (map fst (g_accounts d'))" using assms(1,2) by (simp add: came_up_def owned_def accounts_owned_def distinct_store)
  moreover have "inj_on (\<lambda>p. rn_id (snd p)) (set (g_accounts d'))" "\<forall>p \<in> set (g_accounts d'). rn_id (snd p) < next_id d'"
    "set (managers d') = (\<lambda>p. rn_id (snd p)) ` set (g_accounts d')"
    unfolding acc using assms(1-4) by (auto simp: owned_def accounts_owned_def came_up_def newborn_def)
  moreover have sip: "transports d' = transports d \<and> g_sipAccounts d' = g_sipAccounts d \<or>
      (\<exists>sa. sa_transportId sa \<notin> set (transports d) \<and> g_ep d' \<and> transports d' = sa_transportId sa # transports d \<and>
         g_sipAccounts d' = store ?a sa (g_sipAccounts d) \<and> set (g_sipAccounts d') = insert (?a, sa) (set (g_sipAccounts d)))"
  proof -
    have "?a \<notin> fst ` set (g_sipAccounts d)" using assms(1,6) by (auto simp: owned_def)
    then have "set (store ?a sa (g_sipAccounts d)) = insert (?a, sa) (set (g_sipAccounts d))" for sa
      by (auto simp: set_store image_iff)
    then show ?thesis using assms(2,7) unfolding came_up_def by metis
  qed
  have un: "unclosed d' = unclosed d" using assms(2) by (simp add: came_up_def)
  have "sip_owned d'"
    using sip
  proof (elim disjE exE)
    assume "transports d' = transports d \<and> g_sipAccounts d' = g_sipAccounts d"
    then show ?thesis using assms(1,5) un by (auto simp: owned_def sip_owned_def)
  next
    fix sa
    assume sa: "sa_transportId sa \<notin> set (transports d) \<and> g_ep d' \<and> transports d' = sa_transportId sa # transports d \<and>
         g_sipAccounts d' = store ?a sa (g_sipAccounts d) \<and> set (g_sipAccounts d') = insert (?a, sa) (set (g_sipAccounts d))"
    have o: "sip_owned d" using assms(1) by (simp add: owned_def)
    have "distinct (map fst (g_sipAccounts d'))" using sa o by (simp add: sip_owned_def distinct_store)
    moreover have "inj_on (\<lambda>p. sa_transportId (snd p)) (set (g_sipAccounts d'))" using sa o by (auto simp: sip_owned_def)
    moreover have "(\<lambda>p. sa_transportId (snd p)) ` set (g_sipAccounts d') = insert (sa_transportId sa) ((\<lambda>p. sa_transportId (snd p)) ` set (g_sipAccounts d))"
      by (simp only: sa [THEN conjunct2, THEN conjunct2, THEN conjunct2, THEN conjunct2] image_insert snd_conv)
    then have "set (transports d') = (\<lambda>p. sa_transportId (snd p)) ` set (g_sipAccounts d') \<union> set (unclosed d')"
      "(\<lambda>p. sa_transportId (snd p)) ` set (g_sipAccounts d') \<inter> set (unclosed d') = {}"
      using sa o un by (simp_all add: sip_owned_def)
    ultimately show ?thesis using sa by (simp add: sip_owned_def)
  qed
  moreover have "fst ` set (g_sipAccounts d') \<subseteq> fst ` set (g_accounts d')"
  proof -
    have "set (g_sipAccounts d') = set (g_sipAccounts d) \<or> (\<exists>sa. set (g_sipAccounts d') = insert (?a, sa) (set (g_sipAccounts d)))"
      using sip by metis
    then have "fst ` set (g_sipAccounts d') \<subseteq> insert ?a (fst ` set (g_sipAccounts d))"
    proof (elim disjE exE)
      show ?thesis if "set (g_sipAccounts d') = insert (?a, sa) (set (g_sipAccounts d))" for sa
        unfolding that by simp
    qed (simp add: subset_insertI)
    also have "\<dots> \<subseteq> insert ?a (fst ` set (g_accounts d))" using assms(1) unfolding owned_def by (meson insert_mono)
    finally show ?thesis unfolding acc by simp
  qed
  ultimately show ?thesis by (simp add: owned_def accounts_owned_def)
qed

lemma owned_teardown:
  assumes "owned d" "teardownAccount n name d = Some d'"
  shows "owned d'"
proof (cases "map_of (g_accounts d) name")
  case None
  then show ?thesis using assms by (simp add: teardownAccount_def)
next
  case (Some r)
  note s = teardown_summary [OF assms(2)] and t = teardown_resources [OF assms(2) Some]
  have o: "accounts_owned d" "sip_owned d" and sub: "fst ` set (g_sipAccounts d) \<subseteq> fst ` set (g_accounts d)"
    using assms(1) by (simp_all add: owned_def)
  have "set (managers d') = (\<lambda>p. rn_id (snd p)) ` set (g_accounts d')"
    using o(1) s t image_erase [of "g_accounts d" "\<lambda>p. rn_id (snd p)" name r] map_of_SomeD [OF Some]
    by (simp add: accounts_owned_def)
  then have "accounts_owned d'"
    using o(1) s by (simp add: accounts_owned_def distinct_erase set_erase inj_on_def)
  moreover have "sip_owned d'"
  proof (cases "map_of (g_sipAccounts d) name")
    case None
    then have "erase name (g_sipAccounts d) = g_sipAccounts d" by (simp add: erase_absent map_of_eq_None_iff)
    then show ?thesis using None o(2) t s by (simp add: sip_owned_def)
  next
    case (Some sa)
    then have "g_ep d" using o(2) by (auto simp: sip_owned_def)
    let ?ids = "(\<lambda>p. sa_transportId (snd p)) ` set (g_sipAccounts d)"
    have ids: "(\<lambda>p. sa_transportId (snd p)) ` set (g_sipAccounts d') = ?ids - {sa_transportId sa}" "sa_transportId sa \<in> ?ids"
      using o(2) t image_erase [of "g_sipAccounts d" "\<lambda>p. sa_transportId (snd p)" name sa] map_of_SomeD [OF Some]
      by (force simp: sip_owned_def)+
    have "set (transports d') = (\<lambda>p. sa_transportId (snd p)) ` set (g_sipAccounts d') \<union> set (unclosed d')"
      "(\<lambda>p. sa_transportId (snd p)) ` set (g_sipAccounts d') \<inter> set (unclosed d') = {}"
      unfolding ids(1) using o(2) t ids(2) Some \<open>g_ep d\<close> by (auto simp: sip_owned_def split: if_splits)
    then show ?thesis using o(2) t s \<open>g_ep d\<close> by (simp add: sip_owned_def distinct_erase set_erase inj_on_def)
  qed
  moreover have "fst ` set (g_sipAccounts d') \<subseteq> fst ` set (g_accounts d')"
    using sub s t by (force simp: set_erase)
  ultimately show ?thesis by (simp add: owned_def)
qed


section \<open>Nothing leaks\<close>

text \<open>
  The changes \<open>main\<close> and \<open>reloadConfig\<close> make: an account that is not running is set up, a running one torn down. PJSIP
  hands out a transport id only while it is free.
\<close>

inductive life_step :: "daemon \<Rightarrow> daemon \<Rightarrow> bool" where
  life_setup: "\<lbrakk>setupAccount n bo cfg d = (v, d'); v \<noteq> Crashed; pj_only bo; ac_name cfg \<notin> fst ` set (g_accounts d);
     \<forall>t. bo_transport bo = Some t \<longrightarrow> t \<notin> set (transports d)\<rbrakk> \<Longrightarrow> life_step d d'"
| life_teardown: "teardownAccount n name d = Some d' \<Longrightarrow> life_step d d'"

definition nothing_running :: "daemon \<Rightarrow> bool" where
  "nothing_running d \<longleftrightarrow> g_accounts d = [] \<and> g_sipAccounts d = [] \<and> managers d = [] \<and> transports d = [] \<and> unclosed d = []"

lemma owned_step:
  assumes "life_step d d'" "owned d"
  shows "owned d'"
  using assms
proof (cases rule: life_step.cases)
  case (life_setup n bo cfg v)
  with setup_summary [OF life_setup(1-3)] assms(2) show ?thesis
    by (metis owned_skip owned_up)
qed (auto intro: owned_teardown)

interpretation life: invariant_system nothing_running life_step owned
proof
  show "owned d" if "nothing_running d" for d
    using that by (simp add: nothing_running_def owned_def accounts_owned_def sip_owned_def)
qed (rule owned_step)


definition one_running :: daemon where
  "one_running = snd (setupAccount 0 working_boot sample_config empty_daemon)"

lemma one_running_reachable: "reachable nothing_running life_step one_running"
proof (rule reach_step)
  show "reachable nothing_running life_step empty_daemon"
    by (rule reach_init) (simp add: nothing_running_def empty_daemon_def)
  have "good_boot working_boot sample_config" by (rule working_boot_good) (simp add: sample_config_def)
  then have "fst (setupAccount 0 working_boot sample_config empty_daemon) = Up" using setup_good by blast
  then show "life_step empty_daemon one_running"
    unfolding one_running_def
    by (intro life_setup [of 0 working_boot sample_config empty_daemon Up])
      (auto simp: prod_eq_iff pj_only_def working_boot_def empty_daemon_def)
qed






lemma one_running_started: "\<exists>r. started one_running \<and> map_of (g_accounts one_running) ''a'' = Some r \<and> rn_config r = sample_config"
proof -
  have "good_boot working_boot sample_config" by (rule working_boot_good) (simp add: sample_config_def)
  from setup_good [OF this, of 0 empty_daemon] show ?thesis
    by (auto simp: one_running_def started_def store_def erase_def empty_daemon_def sample_config_def split: if_splits)
qed

text \<open>
  The routing table of incoming calls is the exception. Tearing an account down leaves its port in \<open>g_portToAccount\<close>, which
  then names an account that no longer exists; an INVITE on that port is routed to it.
\<close>

theorem teardown_leaves_port:
  assumes "teardownAccount n name d = Some d'" "map_of (g_accounts d) name = Some r" "map_of (g_portToAccount d) p = Some (rn_id r)"
    "owned d"
  shows "map_of (g_portToAccount d') p = Some (rn_id r) \<and> rn_id r \<notin> (\<lambda>p. rn_id (snd p)) ` set (g_accounts d') \<and>
    resolve_account (map_of (g_portToAccount d')) (Some p) other = rn_id r"
proof -
  have "g_portToAccount d' = g_portToAccount d"
    using assms(1,2) by (auto simp: teardownAccount_def close_transport_def Let_def split: option.splits)
  moreover have "rn_id r \<notin> (\<lambda>p. rn_id (snd p)) ` set (g_accounts d')"
    using image_erase [of "g_accounts d" "\<lambda>p. rn_id (snd p)" name r] map_of_SomeD [OF assms(2)] assms(4) teardown_summary [OF assms(1)]
    by (simp add: owned_def accounts_owned_def)
  ultimately show ?thesis using assms(3) by (simp add: resolve_account_def)
qed

theorem teardown_leaves_port_witness:
  "\<exists>d' p. teardownAccount 0 ''a'' one_running = Some d' \<and> resolve_account (map_of (g_portToAccount d')) (Some p) 7 = 0 \<and> g_accounts d' = []"
proof -
  have g: "good_boot working_boot sample_config" by (rule working_boot_good) (simp add: sample_config_def)
  obtain r where r: "g_accounts one_running = [(''a'', r)]" "qstate (rn_queue r) \<noteq> None"
    using setup_good [OF g, of 0 empty_daemon] by (auto simp: one_running_def store_def erase_def empty_daemon_def sample_config_def)
  have "started one_running" using r by (auto simp: started_def split: if_splits)
  then obtain d' where d': "teardownAccount 0 ''a'' one_running = Some d'"
    using teardown_started by blast
  have p: "map_of (g_portToAccount one_running) 39445 = Some 0" "map_of (map (\<lambda>(x, r). (x, rn_id r)) (g_accounts one_running)) ''a'' = Some 0"
    by code_simp+
  have "rn_id r = 0" using p(2) r(1) by simp
  with teardown_leaves_port [OF d', of r 39445 7] p(1) r(1) life.reachable_inv [OF one_running_reachable] d' teardown_summary [OF d']
  show ?thesis by (auto simp: erase_def)
qed

end
