(* ===== verification/Watchdogs.thy ===== *)
theory Watchdogs
  imports Lifetimes
begin

text \<open>
  Model of the main loop of \<open>daemon/main.cpp\<close>: one pass reloads the configuration when asked to or when it is time, then runs
  the SIP registration watchdog, the websocket watchdog and the contact sync timer. What the pass asks PJSIP and
  libsignal to do is logged with its time. A pass sees each socket at one instant.
\<close>

section \<open>One pass\<close>

definition kSocketReconnectIntervalMs :: int where
  "kSocketReconnectIntervalMs = 5000"

datatype loop_event =
    Set_registration string bool
  | Reconnecting nat
  | Alert string
  | Storage_sync string

text \<open>
  The inputs of a pass: \<open>nowMs\<close>; what a reload finds (on SIGHUP, if there was one, and on the poll) and how the setups it makes
  go; how a reconnect attempt ends; when a contact sync starts.
\<close>

record tick =
  tk_now :: int
  tk_hup :: "(DaemonConfig result \<times> (AccountConfig \<Rightarrow> boot)) option"
  tk_poll :: "DaemonConfig result \<times> (AccountConfig \<Rightarrow> boot)"
  tk_connect :: "string \<Rightarrow> outcome \<times> ffi_error option"
  tk_syncAt :: "string \<Rightarrow> int"

record main_loop =
  ml_daemon :: daemon
  ml_lastConfigPollMs :: int
  ml_log :: "(int \<times> loop_event) list"

text \<open>\<open>BridgeAccount::onRegState\<close>.\<close>

definition onRegState :: "bool \<Rightarrow> int \<Rightarrow> sip_account \<Rightarrow> sip_account" where
  "onRegState active now sa =
     (let sa = sa\<lparr>sa_registered := active\<rparr> in
      if active then sa\<lparr>sa_unregisteredSinceMs := 0\<rparr>
      else if sa_unregisteredSinceMs sa = 0 then sa\<lparr>sa_unregisteredSinceMs := now\<rparr> else sa)"

definition account_deauthorized :: "daemon \<Rightarrow> string \<Rightarrow> bool" where
  "account_deauthorized d name = (case map_of (g_accounts d) name of None \<Rightarrow> False
     | Some r \<Rightarrow> (case rn_socket r of None \<Rightarrow> False | Some s \<Rightarrow> isDeauthorized s))"

definition overdue :: "int \<Rightarrow> uint32 \<Rightarrow> int \<Rightarrow> bool" where
  "overdue now sec since \<longleftrightarrow> now - since \<ge> uint sec * 1000"

definition watch_registration :: "int \<Rightarrow> daemon \<Rightarrow> string \<times> sip_account \<Rightarrow> (string \<times> sip_account) \<times> loop_event list" where
  "watch_registration now d p =
     (let sa = snd p in
      if account_deauthorized d (fst p) then (p, [])
      else if sa_unregisteredSinceMs sa \<noteq> 0 \<and> overdue now (sipRegWatchdogSec (g_global d)) (sa_unregisteredSinceMs sa)
      then ((fst p, sa\<lparr>sa_unregisteredSinceMs := now\<rparr>), [Set_registration (fst p) True])
      else (p, []))"

definition registration_watchdog :: "int \<Rightarrow> daemon \<Rightarrow> daemon \<times> loop_event list" where
  "registration_watchdog now d =
     (let ws = map (watch_registration now d) (g_sipAccounts d)
      in (d\<lparr>g_sipAccounts := map fst ws\<rparr>, concat (map snd ws)))"

text \<open>The websocket watchdog for one account: \<open>sip\<close> says whether it has a SIP account.\<close>

definition try_reconnect :: "int \<Rightarrow> outcome \<times> ffi_error option \<Rightarrow> bool \<Rightarrow> string \<Rightarrow> Impl \<Rightarrow> running \<Rightarrow> running \<times> loop_event list" where
  "try_reconnect now conn sip name sock r =
     (let r = r\<lparr>rn_lastReconnectMs := now\<rparr> in
      case reconnect (fst conn) (snd conn) sock of
        (Inl _, sock') \<Rightarrow> (r\<lparr>rn_socket := Some sock'\<rparr>, [Reconnecting (rn_id r)])
      | (Inr _, sock') \<Rightarrow> (r\<lparr>rn_socket := Some sock', rn_socketConnected := True, rn_deauthorizedAlerted := False\<rparr>,
            Reconnecting (rn_id r) # (if sip then [Set_registration name True] else [])))"

definition watch_socket :: "int \<Rightarrow> outcome \<times> ffi_error option \<Rightarrow> bool \<Rightarrow> string \<Rightarrow> running \<Rightarrow> running \<times> loop_event list" where
  "watch_socket now conn sip name r = (case rn_socket r of None \<Rightarrow> (r, [])
     | Some sock \<Rightarrow>
        let nowConnected = isConnected sock;
            dropped = (if rn_socketConnected r \<and> \<not> nowConnected \<and> sip then [Set_registration name False] else []);
            r = r\<lparr>rn_socketConnected := nowConnected\<rparr> in
        if \<not> nowConnected \<and> isDeauthorized sock
        then (r\<lparr>rn_deauthorizedAlerted := True\<rparr>, dropped @ (if rn_deauthorizedAlerted r then [] else [Alert name]))
        else if \<not> nowConnected \<and> now - rn_lastReconnectMs r \<ge> kSocketReconnectIntervalMs
        then (case try_reconnect now conn sip name sock r of (r, evs) \<Rightarrow> (r, dropped @ evs))
        else (r, dropped))"

definition for_accounts :: "(string \<Rightarrow> running \<Rightarrow> running \<times> loop_event list) \<Rightarrow> daemon \<Rightarrow> daemon \<times> loop_event list" where
  "for_accounts f d =
     (d\<lparr>g_accounts := map (\<lambda>(x, r). (x, fst (f x r))) (g_accounts d)\<rparr>, concat (map (\<lambda>(x, r). snd (f x r)) (g_accounts d)))"

definition socket_watchdog :: "tick \<Rightarrow> daemon \<Rightarrow> daemon \<times> loop_event list" where
  "socket_watchdog tk d =
     for_accounts (\<lambda>name r. watch_socket (tk_now tk) (tk_connect tk name) (map_of (g_sipAccounts d) name \<noteq> None) name r) d"

definition storage_timer :: "tick \<Rightarrow> daemon \<Rightarrow> daemon \<times> loop_event list" where
  "storage_timer tk d =
     for_accounts (\<lambda>name r. if overdue (tk_now tk) (storageSyncIntervalSec (g_global d)) (rn_lastStorageSyncMs r)
       then (r\<lparr>rn_lastStorageSyncMs := tk_syncAt tk name\<rparr>, [Storage_sync name]) else (r, [])) d"

text \<open>The reloads of a pass, and the pass. \<open>None\<close>: the daemon crashed in a reload.\<close>

definition reload_on_signal :: "nat \<Rightarrow> tick \<Rightarrow> daemon \<Rightarrow> daemon option" where
  "reload_on_signal n tk d = (case tk_hup tk of None \<Rightarrow> Some d | Some (cfg, bo) \<Rightarrow> reloadConfig n bo cfg d)"

definition config_poll :: "nat \<Rightarrow> tick \<Rightarrow> int \<Rightarrow> daemon \<Rightarrow> (int \<times> daemon) option" where
  "config_poll n tk lastPoll d =
     (if overdue (tk_now tk) (configPollIntervalSec (g_global d)) lastPoll
      then map_option (Pair (tk_now tk)) (reloadConfig n (snd (tk_poll tk)) (fst (tk_poll tk)) d)
      else Some (lastPoll, d))"

definition watchdogs :: "tick \<Rightarrow> daemon \<Rightarrow> daemon \<times> loop_event list" where
  "watchdogs tk d =
     (let (d, e1) = registration_watchdog (tk_now tk) d; (d, e2) = socket_watchdog tk d; (d, e3) = storage_timer tk d
      in (d, e1 @ e2 @ e3))"

definition loop_pass :: "nat \<Rightarrow> tick \<Rightarrow> main_loop \<Rightarrow> main_loop option" where
  "loop_pass n tk l =
     Option.bind (reload_on_signal n tk (ml_daemon l)) (\<lambda>d.
     Option.bind (config_poll n tk (ml_lastConfigPollMs l) d) (\<lambda>(lastPoll, d).
       let (d, evs) = watchdogs tk d
       in Some \<lparr>ml_daemon = d, ml_lastConfigPollMs = lastPoll, ml_log = ml_log l @ map (Pair (tk_now tk)) evs\<rparr>))"


section \<open>Reloads\<close>

text \<open>
  A reload is made of setups and teardowns: what both keep, and what does not depend on the global settings, every reload keeps.
\<close>

locale life_invariant =
  fixes P :: "daemon \<Rightarrow> bool"
  assumes setup_keeps: "\<lbrakk>setupAccount n bo cfg d = (v, d'); v \<noteq> Crashed; pj_only bo; P d\<rbrakk> \<Longrightarrow> P d'"
    and teardown_keeps: "\<lbrakk>teardownAccount n name d = Some d'; P d\<rbrakk> \<Longrightarrow> P d'"
    and global_keeps: "P d \<Longrightarrow> P (d\<lparr>g_global := g\<rparr>)"
begin

lemma setup_alive_keeps: "setup_alive n bo cfg d = Some d' \<Longrightarrow> pj_only bo \<Longrightarrow> P d \<Longrightarrow> P d'"
  using setup_keeps [of n bo cfg d] by (auto simp: setup_alive_def split: prod.splits verdict.splits)

lemma teardown_all_keeps: "teardown_all n xs d = Some d' \<Longrightarrow> P d \<Longrightarrow> P d'"
  by (induction xs arbitrary: d) (auto intro: teardown_keeps split: bind_splits)

lemma reload_all_keeps: "reload_all n bo cs d = Some d' \<Longrightarrow> \<forall>c. pj_only (bo c) \<Longrightarrow> P d \<Longrightarrow> P d'"
proof (induction cs arbitrary: d)
  case (Cons c cs)
  from Cons.prems obtain d1 where d1: "reload_one n bo c d = Some d1" "reload_all n bo cs d1 = Some d'"
    by (auto split: bind_splits)
  have "P d1" using d1(1) Cons.prems
    by (auto simp: reload_one_def split: option.splits if_splits bind_splits intro: setup_alive_keeps teardown_keeps)
  with Cons d1(2) show ?case by blast
qed simp

lemma reload_keeps: "reloadConfig n bo loaded d = Some d' \<Longrightarrow> \<forall>c. pj_only (bo c) \<Longrightarrow> P d \<Longrightarrow> P d'"
  using global_keeps by (fastforce simp: reloadConfig_def Let_def split: sum.splits bind_splits dest: teardown_all_keeps reload_all_keeps)

end

section \<open>The spacing of reconnect attempts\<close>

definition reconnects :: "nat \<Rightarrow> (int \<times> loop_event) list \<Rightarrow> int list" where
  "reconnects k l = map fst (filter (\<lambda>e. snd e = Reconnecting k) l)"

lemma reconnects_append [simp]: "reconnects k (l @ l') = reconnects k l @ reconnects k l'"
  by (simp add: reconnects_def)

lemma reconnects_at: "reconnects k (map (Pair t) evs) = replicate (count_list evs (Reconnecting k)) t"
  by (induction evs) (auto simp: reconnects_def)

definition tracked :: "(int \<times> loop_event) list \<Rightarrow> daemon \<Rightarrow> bool" where
  "tracked l d \<longleftrightarrow> distinct (map fst (g_accounts d)) \<and> inj_on (\<lambda>p. rn_id (snd p)) (set (g_accounts d)) \<and>
     (\<forall>p \<in> set (g_accounts d). rn_id (snd p) < next_id d \<and> quiet (snd p) \<and>
        (\<forall>t \<in> set (reconnects (rn_id (snd p)) l). t \<le> rn_lastReconnectMs (snd p))) \<and>
     (\<forall>k \<ge> next_id d. reconnects k l = [])"

lemma tracked_erase: "tracked l d \<Longrightarrow> g_accounts d' = erase x (g_accounts d) \<Longrightarrow> next_id d' \<ge> next_id d \<Longrightarrow> tracked l d'"
  unfolding tracked_def by (auto simp: distinct_erase set_erase inj_on_def)

lemma tracked_store:
  assumes "tracked l d" "g_accounts d' = store x r (g_accounts d)" "next_id d' = next_id d + 1" "newborn (next_id d) cfg r"
  shows "tracked l d'"
proof -
  have acc: "set (g_accounts d') \<subseteq> insert (x, r) (set (g_accounts d))" using assms(2) by (auto simp: set_store)
  have "distinct (map fst (g_accounts d'))" using assms(1,2) by (simp add: tracked_def distinct_store)
  moreover have "inj_on (\<lambda>p. rn_id (snd p)) (insert (x, r) (set (g_accounts d)))"
    using assms(1,4) by (auto simp: tracked_def newborn_def)
  then have "inj_on (\<lambda>p. rn_id (snd p)) (set (g_accounts d'))" using acc by (rule inj_on_subset)
  moreover have "rn_id (snd p) < next_id d' \<and> quiet (snd p) \<and> (\<forall>t \<in> set (reconnects (rn_id (snd p)) l). t \<le> rn_lastReconnectMs (snd p))"
    if "p \<in> set (g_accounts d')" for p
    using subsetD [OF acc that] assms(1,3,4) unfolding tracked_def newborn_def
    by (metis insertE less_Suc_eq Suc_eq_plus1 order_refl snd_conv list.set(1) empty_iff)
  ultimately show ?thesis using assms(1,3) by (simp add: tracked_def)
qed

interpretation tracking: life_invariant "tracked l" for l
proof
  show "tracked l d'" if "setupAccount n bo cfg d = (v, d')" "v \<noteq> Crashed" "pj_only bo" "tracked l d" for n bo cfg d v d'
    using setup_summary [OF that(1-3)] that(4)
    by (auto simp: was_skipped_def came_up_def intro: tracked_erase tracked_store)
  show "tracked l d'" if "teardownAccount n name d = Some d'" "tracked l d" for n name d d'
    using teardown_summary [OF that(1)] that(2) by (auto intro: tracked_erase)
  show "tracked l (d\<lparr>g_global := g\<rparr>)" if "tracked l d" for d g
    using that by (simp add: tracked_def)
qed


definition spaced :: "int list \<Rightarrow> bool" where
  "spaced ts \<longleftrightarrow> sorted_wrt (\<lambda>a b. a + kSocketReconnectIntervalMs \<le> b) ts"

text \<open>The attempts one pass makes for an account: none, or one when the last is long enough ago.\<close>

definition attempts :: "int \<Rightarrow> running \<Rightarrow> running \<times> loop_event list \<Rightarrow> bool" where
  "attempts now r res \<longleftrightarrow> rn_id (fst res) = rn_id r \<and> quiet (fst res) \<and> (\<forall>k. k \<noteq> rn_id r \<longrightarrow> count_list (snd res) (Reconnecting k) = 0) \<and>
     (count_list (snd res) (Reconnecting (rn_id r)) = 0 \<and> rn_lastReconnectMs (fst res) = rn_lastReconnectMs r \<or>
      count_list (snd res) (Reconnecting (rn_id r)) = 1 \<and> rn_lastReconnectMs (fst res) = now \<and>
      rn_lastReconnectMs r + kSocketReconnectIntervalMs \<le> now)"

lemma quiet_reconnect: "quiet_socket s \<Longrightarrow> reconnect out il s = (x, s') \<Longrightarrow> quiet_socket s'"
  using quiet_socket_step [of s "Reconnect out il"] by simp

lemma try_reconnect_attempts:
  assumes "quiet_socket sock" "rn_lastReconnectMs r + kSocketReconnectIntervalMs \<le> now"
  shows "attempts now r (try_reconnect now conn sip name sock r)"
  using assms quiet_reconnect [OF assms(1)]
  by (auto simp: try_reconnect_def attempts_def quiet_iff Let_def split: prod.splits sum.splits)

lemma attempts_more: "attempts now (r\<lparr>rn_socketConnected := c\<rparr>) (r', evs) \<Longrightarrow>
  (\<And>k. count_list evs' (Reconnecting k) = 0) \<Longrightarrow> attempts now r (r', evs' @ evs)"
  by (simp add: attempts_def)

lemma watch_socket_attempts:
  assumes "quiet r"
  shows "attempts now r (watch_socket now conn sip name r)"
proof (cases "rn_socket r")
  case None
  then show ?thesis using assms by (simp add: watch_socket_def attempts_def)
next
  case (Some sock)
  then have q: "quiet_socket sock" using assms by (simp add: quiet_iff)
  let ?r = "r\<lparr>rn_socketConnected := isConnected sock\<rparr>"
  define evs where "evs = (if rn_socketConnected r \<and> \<not> isConnected sock \<and> sip then [Set_registration name False] else [])"
  have e: "count_list evs (Reconnecting k) = 0" for k by (simp add: evs_def)
  have "attempts now ?r (try_reconnect now conn sip name sock ?r)" if "now - rn_lastReconnectMs r \<ge> kSocketReconnectIntervalMs"
    using that by (intro try_reconnect_attempts q) simp
  with Some assms e show ?thesis
    by (cases "try_reconnect now conn sip name sock ?r")
      (auto simp: watch_socket_def Let_def evs_def [symmetric] attempts_more, auto simp: attempts_def quiet_def)
qed

lemma count_concat_one:
  assumes "distinct xs" "p \<in> set xs" "\<forall>q \<in> set xs. q \<noteq> p \<longrightarrow> count_list (f q) e = 0"
  shows "count_list (concat (map f xs)) e = count_list (f p) e"
  using assms by (induction xs) (auto simp: count_list_0_iff)

lemma count_concat_none: "\<forall>q \<in> set xs. count_list (f q) e = 0 \<Longrightarrow> count_list (concat (map f xs)) e = 0"
  by (induction xs) auto

lemma tracked_pass:
  fixes f :: "string \<Rightarrow> running \<Rightarrow> running \<times> loop_event list"
  assumes tr: "tracked l d" and sp: "\<forall>k. spaced (reconnects k l)"
    and f: "\<forall>(x, r) \<in> set (g_accounts d). attempts now r (f x r)"
    and d': "for_accounts f d = (d', evs)"
  shows "tracked (l @ map (Pair now) evs) d' \<and> (\<forall>k. spaced (reconnects k (l @ map (Pair now) evs)))"
proof -
  let ?A = "g_accounts d"
  have evs: "evs = concat (map (\<lambda>p. snd (f (fst p) (snd p))) ?A)" and acc: "g_accounts d' = map (\<lambda>p. (fst p, fst (f (fst p) (snd p)))) ?A"
    and nid: "next_id d' = next_id d"
    using d' unfolding for_accounts_def case_prod_beta' by auto
  have at: "attempts now (snd p) (f (fst p) (snd p))" if "p \<in> set ?A" for p using f that by auto
  have inj: "inj_on (\<lambda>p. rn_id (snd p)) (set ?A)" and dist: "distinct ?A"
    using tr by (auto simp: tracked_def distinct_map)
  have own: "reconnects (rn_id (snd p)) (map (Pair now) evs) = replicate (count_list (snd (f (fst p) (snd p))) (Reconnecting (rn_id (snd p)))) now"
    if "p \<in> set ?A" for p
  proof -
    have "count_list evs (Reconnecting (rn_id (snd p))) = count_list (snd (f (fst p) (snd p))) (Reconnecting (rn_id (snd p)))"
      unfolding evs
    proof (intro count_concat_one dist that ballI impI)
      fix q
      assume q: "q \<in> set ?A" "q \<noteq> p"
      then have "rn_id (snd q) \<noteq> rn_id (snd p)" using inj that by (meson inj_onD)
      then show "count_list (snd (f (fst q) (snd q))) (Reconnecting (rn_id (snd p))) = 0"
        using at [OF q(1)] unfolding attempts_def by metis
    qed
    then show ?thesis by (simp add: reconnects_at)
  qed
  have other: "reconnects k (map (Pair now) evs) = []" if "\<forall>p \<in> set ?A. rn_id (snd p) \<noteq> k" for k
  proof -
    have "count_list evs (Reconnecting k) = 0"
      unfolding evs using that at unfolding attempts_def by (intro count_concat_none) metis
    then show ?thesis by (simp add: reconnects_at)
  qed
  have "distinct (map fst (g_accounts d'))" using tr by (simp add: acc tracked_def comp_def)
  moreover have "inj_on (\<lambda>p. rn_id (snd p)) (set (g_accounts d'))"
  proof (rule inj_onI)
    fix q q'
    assume q: "q \<in> set (g_accounts d')" "q' \<in> set (g_accounts d')" "rn_id (snd q) = rn_id (snd q')"
    then obtain p p' where p: "p \<in> set ?A" "q = (fst p, fst (f (fst p) (snd p)))" "p' \<in> set ?A" "q' = (fst p', fst (f (fst p') (snd p')))"
      by (auto simp: acc)
    then have "rn_id (snd p) = rn_id (snd p')" using q(3) at [OF p(1)] at [OF p(3)] by (simp add: attempts_def)
    then have "p = p'" using inj p(1,3) by (meson inj_onD)
    then show "q = q'" using p by simp
  qed
  moreover have "rn_id (snd q) < next_id d' \<and> quiet (snd q) \<and>
      (\<forall>t \<in> set (reconnects (rn_id (snd q)) (l @ map (Pair now) evs)). t \<le> rn_lastReconnectMs (snd q))" if "q \<in> set (g_accounts d')" for q
  proof -
    from that obtain p where p: "p \<in> set ?A" "q = (fst p, fst (f (fst p) (snd p)))" by (auto simp: acc)
    have "\<forall>t \<in> set (reconnects (rn_id (snd p)) l). t \<le> rn_lastReconnectMs (snd p)" "rn_id (snd p) < next_id d"
      using tr p(1) by (auto simp: tracked_def)
    then show ?thesis using at [OF p(1)] own [OF p(1)] p(2) nid
      by (fastforce simp: attempts_def kSocketReconnectIntervalMs_def)
  qed
  moreover have "reconnects k (l @ map (Pair now) evs) = []" if "k \<ge> next_id d'" for k
    using that tr other [of k] nid by (fastforce simp: tracked_def)
  moreover have "spaced (reconnects k (l @ map (Pair now) evs))" for k
  proof (cases "\<exists>p \<in> set ?A. rn_id (snd p) = k")
    case True
    then obtain p where p: "p \<in> set ?A" "rn_id (snd p) = k" by blast
    then have "\<forall>t \<in> set (reconnects k l). t \<le> rn_lastReconnectMs (snd p)" using tr by (auto simp: tracked_def)
    then show ?thesis using sp at [OF p(1)] own [OF p(1)] p(2)
      by (fastforce simp: attempts_def spaced_def sorted_wrt_append)
  next
    case False
    then show ?thesis using sp other [of k] by simp
  qed
  ultimately show ?thesis by (simp add: tracked_def)
qed


lemma registration_watchdog_frame:
  assumes "registration_watchdog now d = (d', evs)"
  shows "g_accounts d' = g_accounts d \<and> next_id d' = next_id d \<and> g_global d' = g_global d \<and> map fst (g_sipAccounts d') = map fst (g_sipAccounts d) \<and>
    set evs \<subseteq> {Set_registration x True |x. \<not> account_deauthorized d x}"
proof -
  have "fst (fst (watch_registration now d p)) = fst p" for p by (simp add: watch_registration_def Let_def)
  moreover have "set (snd (watch_registration now d p)) \<subseteq> {Set_registration x True |x. \<not> account_deauthorized d x}" for p
    by (auto simp: watch_registration_def Let_def)
  ultimately show ?thesis
    using assms by (auto simp: registration_watchdog_def Let_def) blast
qed

lemma no_reconnects: "\<forall>e \<in> set evs. \<forall>k. e \<noteq> Reconnecting k \<Longrightarrow> reconnects k (map (Pair now) evs) = []"
  by (auto simp: reconnects_def filter_empty_conv)

lemma timer_attempts: "quiet r \<Longrightarrow> attempts now r (if c then (r\<lparr>rn_lastStorageSyncMs := t\<rparr>, [Storage_sync x]) else (r, []))"
  by (simp add: attempts_def quiet_def)

lemma tracked_quiet: "tracked l d \<Longrightarrow> (x, r) \<in> set (g_accounts d) \<Longrightarrow> quiet r"
  by (auto simp: tracked_def)

lemma tracked_same_accounts:
  "tracked l d \<Longrightarrow> g_accounts d' = g_accounts d \<Longrightarrow> next_id d' = next_id d \<Longrightarrow> (\<forall>k. reconnects k l' = []) \<Longrightarrow> tracked (l @ l') d'"
  by (simp add: tracked_def)

lemma watchdogs_tracked:
  assumes "tracked l d" "\<forall>k. spaced (reconnects k l)" "watchdogs tk d = (d', evs)"
  shows "tracked (l @ map (Pair (tk_now tk)) evs) d' \<and> (\<forall>k. spaced (reconnects k (l @ map (Pair (tk_now tk)) evs)))"
proof -
  let ?at = "map (Pair (tk_now tk))"
  obtain d1 e1 where d1: "registration_watchdog (tk_now tk) d = (d1, e1)" by (meson surj_pair)
  obtain d2 e2 where d2: "socket_watchdog tk d1 = (d2, e2)" by (meson surj_pair)
  obtain d3 e3 where d3: "storage_timer tk d2 = (d3, e3)" by (meson surj_pair)
  have r: "d' = d3" "evs = e1 @ e2 @ e3" using assms(3) by (auto simp: watchdogs_def d1 d2 d3)
  note f = registration_watchdog_frame [OF d1]
  have none: "reconnects k (?at e1) = []" for k using f by (intro no_reconnects) auto
  have t1: "tracked (l @ ?at e1) d1" using assms(1) f none by (intro tracked_same_accounts) auto
  have t2: "tracked ((l @ ?at e1) @ ?at e2) d2 \<and> (\<forall>k. spaced (reconnects k ((l @ ?at e1) @ ?at e2)))"
    using t1 assms(2) none d2 unfolding socket_watchdog_def
    by (intro tracked_pass) (auto intro: watch_socket_attempts tracked_quiet)
  have "tracked (((l @ ?at e1) @ ?at e2) @ ?at e3) d3 \<and> (\<forall>k. spaced (reconnects k (((l @ ?at e1) @ ?at e2) @ ?at e3)))"
  proof (intro tracked_pass)
    show "\<forall>(x, r) \<in> set (g_accounts d2). attempts (tk_now tk) r
       (if overdue (tk_now tk) (storageSyncIntervalSec (g_global d2)) (rn_lastStorageSyncMs r)
        then (r\<lparr>rn_lastStorageSyncMs := tk_syncAt tk x\<rparr>, [Storage_sync x]) else (r, []))"
      using t2 tracked_quiet by (blast intro: timer_attempts)
  qed (use t2 d3 in \<open>simp_all add: storage_timer_def\<close>)
  then show ?thesis by (simp add: r)
qed

section \<open>Runs of the main loop\<close>

text \<open>
  Between two passes PJSIP reports registration states and libsignal interruptions. The first pass starts from the accounts
  \<open>main\<close> has set up.
\<close>

inductive loop_step :: "main_loop \<Rightarrow> main_loop \<Rightarrow> bool" where
  pass: "\<lbrakk>loop_pass n tk l = Some l'; \<forall>c. pj_only (snd (tk_poll tk) c); \<forall>cfg bo. tk_hup tk = Some (cfg, bo) \<longrightarrow> (\<forall>c. pj_only (bo c))\<rbrakk>
    \<Longrightarrow> loop_step l l'"
| reg_state: "\<lbrakk>ml_daemon l = d; map_of (g_sipAccounts d) name = Some sa\<rbrakk>
    \<Longrightarrow> loop_step l (l\<lparr>ml_daemon := d\<lparr>g_sipAccounts := store name (onRegState active now sa) (g_sipAccounts d)\<rparr>\<rparr>)"
| interrupted: "\<lbrakk>ml_daemon l = d; map_of (g_accounts d) name = Some r; rn_socket r = Some sock\<rbrakk>
    \<Longrightarrow> loop_step l (l\<lparr>ml_daemon := d\<lparr>g_accounts := store name (r\<lparr>rn_socket := Some (socket_step (Interrupted code) sock)\<rparr>) (g_accounts d)\<rparr>\<rparr>)"

definition loop_init :: "main_loop \<Rightarrow> bool" where
  "loop_init l \<longleftrightarrow> reachable nothing_running life_step (ml_daemon l) \<and> ml_log l = []"

definition loop_inv :: "main_loop \<Rightarrow> bool" where
  "loop_inv l \<longleftrightarrow> tracked (ml_log l) (ml_daemon l) \<and> (\<forall>k. spaced (reconnects k (ml_log l)))"

lemma tracked_life:
  "reachable nothing_running life_step d \<Longrightarrow> tracked [] d"
proof (induction rule: reachable.induct)
  case (reach_step d d')
  from reach_step(2) show ?case
    by (cases rule: life_step.cases) (use reach_step.IH in \<open>auto intro: tracking.setup_keeps tracking.teardown_keeps\<close>)
qed (simp add: nothing_running_def tracked_def reconnects_def)

lemma tracked_replace:
  assumes "tracked l d" "map_of (g_accounts d) x = Some r" "rn_id r' = rn_id r" "rn_lastReconnectMs r' = rn_lastReconnectMs r" "quiet r'"
  shows "tracked l (d\<lparr>g_accounts := store x r' (g_accounts d)\<rparr>)"
proof -
  have mem: "(x, r) \<in> set (g_accounts d)" using assms(2) by (rule map_of_SomeD)
  have inj: "inj_on (\<lambda>p. rn_id (snd p)) (set (g_accounts d))" using assms(1) by (simp add: tracked_def)
  have acc: "set (store x r' (g_accounts d)) = insert (x, r') {p \<in> set (g_accounts d). fst p \<noteq> x}" by (rule set_store)
  have "rn_id (snd p) \<noteq> rn_id r'" if "p \<in> set (g_accounts d)" "fst p \<noteq> x" for p
    using inj_onD [OF inj, of p "(x, r)"] that mem assms(3) by auto
  then have "rn_id r' \<notin> (\<lambda>p. rn_id (snd p)) ` {p \<in> set (g_accounts d). fst p \<noteq> x}" by fastforce
  moreover have "inj_on (\<lambda>p. rn_id (snd p)) {p \<in> set (g_accounts d). fst p \<noteq> x}" using inj by (rule inj_on_subset) auto
  ultimately have "inj_on (\<lambda>p. rn_id (snd p)) (set (store x r' (g_accounts d)))"
    unfolding acc by (simp add: inj_on_insert image_iff)
  moreover have "\<forall>p \<in> set (store x r' (g_accounts d)). rn_id (snd p) < next_id d \<and> quiet (snd p) \<and>
        (\<forall>t \<in> set (reconnects (rn_id (snd p)) l). t \<le> rn_lastReconnectMs (snd p))"
    using assms mem unfolding acc tracked_def by fastforce
  ultimately show ?thesis using assms(1) by (simp add: tracked_def distinct_store)
qed

lemma loop_inv_step:
  assumes "loop_step l l'" "loop_inv l"
  shows "loop_inv l'"
  using assms
proof (cases rule: loop_step.cases)
  case (pass n tk)
  obtain d1 lp d2 d3 evs where r: "reload_on_signal n tk (ml_daemon l) = Some d1" "config_poll n tk (ml_lastConfigPollMs l) d1 = Some (lp, d2)"
    "watchdogs tk d2 = (d3, evs)" "ml_daemon l' = d3" "ml_log l' = ml_log l @ map (Pair (tk_now tk)) evs"
    using pass(1) by (auto simp: loop_pass_def Let_def split: bind_splits prod.splits)
  have "tracked (ml_log l) d1"
    using r(1) pass(3) assms(2) by (auto simp: reload_on_signal_def loop_inv_def split: option.splits intro: tracking.reload_keeps)
  then have "tracked (ml_log l) d2"
    using r(2) pass(2) by (auto simp: config_poll_def split: if_splits intro: tracking.reload_keeps)
  from watchdogs_tracked [OF this _ r(3)] assms(2) r(4,5) show ?thesis by (simp add: loop_inv_def)
next
  case (reg_state d name sa active now)
  then show ?thesis using assms(2) by (simp add: loop_inv_def tracked_def)
next
  case (interrupted d name r sock code)
  have q: "quiet_socket sock"
    using assms(2) interrupted map_of_SomeD [OF interrupted(3)] tracked_quiet by (fastforce simp: loop_inv_def quiet_iff)
  then show ?thesis
    using assms(2) interrupted quiet_socket_step [OF q, of "Interrupted code"]
    by (auto simp: loop_inv_def quiet_iff intro!: tracked_replace)
qed

interpretation main: invariant_system loop_init loop_step loop_inv
proof
  show "loop_inv l" if "loop_init l" for l
    using that tracked_life by (simp add: loop_init_def loop_inv_def reconnects_def spaced_def)
qed (rule loop_inv_step)


section \<open>Properties\<close>

text \<open>
  C31: The websocket of a running account is never redialled more often than every five seconds, from when the account is set up until it is torn down. In every run of the main
  loop, through drops, failing attempts and reloads of this and other accounts, two attempts of one running account are at least \<open>kSocketReconnectIntervalMs\<close> apart.
\<close>

theorem reconnect_attempts_spaced:
  assumes "reachable loop_init loop_step l" "i < j" "j < length (reconnects k (ml_log l))"
  shows "reconnects k (ml_log l) ! i + 5000 \<le> reconnects k (ml_log l) ! j"
  using main.reachable_inv [OF assms(1)] assms(2,3)
  by (auto simp: loop_inv_def spaced_def sorted_wrt_iff_nth_less kSocketReconnectIntervalMs_def)

text \<open>
  The spacing is that of one running account: an account a reload sets up anew is a new one and remembers no attempt, so its first attempt may
  follow the last one made before the reload at any distance.
\<close>

theorem rebuilt_account_starts_anew:
  assumes "setupAccount n bo cfg d = (Up, d')" "pj_only bo"
  shows "\<exists>r. map_of (g_accounts d') (ac_name cfg) = Some r \<and> rn_id r = next_id d \<and> rn_lastReconnectMs r = 0"
  using setup_summary [OF assms(1) _ assms(2)] by (auto simp: came_up_def newborn_def)

lemma watch_socket_names:
  "set (snd (watch_socket now conn sip name r)) \<subseteq> {Set_registration name True, Set_registration name False, Reconnecting (rn_id r), Alert name}"
  by (auto simp: watch_socket_def try_reconnect_def Let_def split: option.splits prod.splits sum.splits if_splits)

lemma watch_socket_deauthorized:
  assumes "rn_socket r = Some s" "isDeauthorized s" "quiet r"
  shows "rn_socket (fst (watch_socket now conn sip name r)) = Some s \<and> rn_deauthorizedAlerted (fst (watch_socket now conn sip name r)) \<and>
    Set_registration name True \<notin> set (snd (watch_socket now conn sip name r)) \<and>
    Reconnecting (rn_id r) \<notin> set (snd (watch_socket now conn sip name r)) \<and>
    (Alert name \<in> set (snd (watch_socket now conn sip name r)) \<longleftrightarrow> \<not> rn_deauthorizedAlerted r)"
  using assms by (auto simp: watch_socket_def isDeauthorized_def isConnected_def quiet_def Let_def)

lemma map_of_for_accounts:
  "for_accounts f d = (d', evs) \<Longrightarrow> map_of (g_accounts d') x = map_option (\<lambda>r. fst (f x r)) (map_of (g_accounts d) x)"
proof -
  have "map_of (map (\<lambda>(x, r). (x, fst (f x r))) m) x = map_option (\<lambda>r. fst (f x r)) (map_of m x)" for m
    by (induction m) auto
  then show "for_accounts f d = (d', evs) \<Longrightarrow> ?thesis" by (auto simp: for_accounts_def)
qed

text \<open>
  An account whose credentials Signal has rejected is left alone: however often the watchdogs run, they neither
  redial its websocket nor register its SIP account, say so exactly once, and change nothing about its socket. Only a rebuild of the account ends this.
\<close>

theorem deauthorized_left_alone:
  assumes "reachable loop_init loop_step l" "map_of (g_accounts (ml_daemon l)) name = Some r" "rn_socket r = Some s" "isDeauthorized s"
    "watchdogs tk (ml_daemon l) = (d', evs)"
  shows "Set_registration name True \<notin> set evs \<and> Reconnecting (rn_id r) \<notin> set evs \<and> (Alert name \<in> set evs \<longleftrightarrow> \<not> rn_deauthorizedAlerted r) \<and>
    (\<exists>r'. map_of (g_accounts d') name = Some r' \<and> rn_socket r' = Some s \<and> rn_deauthorizedAlerted r')"
proof -
  let ?d = "ml_daemon l"
  have tr: "tracked (ml_log l) ?d" using main.reachable_inv [OF assms(1)] by (simp add: loop_inv_def)
  obtain d1 e1 where d1: "registration_watchdog (tk_now tk) ?d = (d1, e1)" by (meson surj_pair)
  obtain d2 e2 where d2: "socket_watchdog tk d1 = (d2, e2)" by (meson surj_pair)
  obtain d3 e3 where d3: "storage_timer tk d2 = (d3, e3)" by (meson surj_pair)
  have evs: "d' = d3" "evs = e1 @ e2 @ e3" using assms(5) by (auto simp: watchdogs_def d1 d2 d3)
  note f = registration_watchdog_frame [OF d1]
  have dead: "account_deauthorized ?d name" using assms(2-4) by (simp add: account_deauthorized_def)
  have mem: "(name, r) \<in> set (g_accounts ?d)" using assms(2) by (rule map_of_SomeD)
  have inj: "x = name \<longleftrightarrow> rn_id r' = rn_id r" "x = name \<Longrightarrow> r' = r" if "(x, r') \<in> set (g_accounts ?d)" for x r'
  proof -
    have "distinct (map fst (g_accounts ?d))" and i: "inj_on (\<lambda>p. rn_id (snd p)) (set (g_accounts ?d))" using tr by (auto simp: tracked_def)
    then show "x = name \<Longrightarrow> r' = r" using that mem by (auto dest: eq_key_imp_eq_value)
    then show "x = name \<longleftrightarrow> rn_id r' = rn_id r" using inj_onD [OF i, of "(x, r')" "(name, r)"] that mem by auto
  qed
  let ?w = "\<lambda>x r. watch_socket (tk_now tk) (tk_connect tk x) (map_of (g_sipAccounts d1) x \<noteq> None) x r"
  note w = watch_socket_deauthorized [OF assms(3,4) tracked_quiet [OF tr mem], of "tk_now tk" "tk_connect tk name" "map_of (g_sipAccounts d1) name \<noteq> None" name]
  have e2: "e2 = concat (map (\<lambda>(x, r). snd (?w x r)) (g_accounts ?d))"
    using d2 f by (auto simp: socket_watchdog_def for_accounts_def)
  have own: "e \<in> set e2 \<longleftrightarrow> e \<in> set (snd (?w name r))"
    if "e = Set_registration name b \<or> e = Alert name \<or> e = Reconnecting (rn_id r)" for e b
  proof
    assume "e \<in> set e2"
    then obtain x r' where x: "(x, r') \<in> set (g_accounts ?d)" "e \<in> set (snd (?w x r'))" by (auto simp: e2)
    then have "x = name" using that subsetD [OF watch_socket_names x(2)] inj(1) [OF x(1)] by auto
    then show "e \<in> set (snd (?w name r))" using x inj(2) by auto
  next
    assume "e \<in> set (snd (?w name r))"
    then show "e \<in> set e2" using mem by (force simp: e2)
  qed
  have e3: "set e3 \<subseteq> range Storage_sync" using d3 by (auto simp: storage_timer_def for_accounts_def split: if_splits)
  have "map_of (g_accounts d2) name = Some (fst (?w name r))"
    using d2 f assms(2) by (simp add: socket_watchdog_def map_of_for_accounts)
  then have "\<exists>r'. map_of (g_accounts d3) name = Some r' \<and> rn_socket r' = Some s \<and> rn_deauthorizedAlerted r'"
    using d3 w by (simp add: storage_timer_def map_of_for_accounts)
  moreover have "Set_registration name True \<notin> set evs" "Reconnecting (rn_id r) \<notin> set evs" "Alert name \<in> set evs \<longleftrightarrow> \<not> rn_deauthorizedAlerted r"
    using f dead e3 w own [of "Set_registration name True" True] own [of "Reconnecting (rn_id r)" True] own [of "Alert name" True] evs(2)
    by auto
  ultimately show ?thesis using evs(1) by blast
qed


section \<open>A run: an outage, two failing attempts, deauthorization\<close>

definition idle_tick :: "int \<Rightarrow> tick" where
  "idle_tick t = \<lparr>tk_now = t, tk_hup = None, tk_poll = (Inl (Runtime_error ''no file''), \<lambda>_. working_boot),
     tk_connect = (\<lambda>_. (Timed_out, None)), tk_syncAt = (\<lambda>_. t)\<rparr>"

definition up_loop :: main_loop where
  "up_loop = \<lparr>ml_daemon = one_running, ml_lastConfigPollMs = 0, ml_log = []\<rparr>"

definition interrupt_a :: "nat \<Rightarrow> main_loop \<Rightarrow> main_loop" where
  "interrupt_a code l = (let d = ml_daemon l; r = the (map_of (g_accounts d) ''a'') in
     l\<lparr>ml_daemon := d\<lparr>g_accounts := store ''a'' (r\<lparr>rn_socket := Some (socket_step (Interrupted (Some code)) (the (rn_socket r)))\<rparr>) (g_accounts d)\<rparr>\<rparr>)"

definition down_loop :: main_loop where
  "down_loop = the (loop_pass 0 (idle_tick 10500) (the (loop_pass 0 (idle_tick 5000) (interrupt_a 146 up_loop))))"

definition dead_loop :: main_loop where
  "dead_loop = interrupt_a 172 down_loop"

lemma up_reachable: "reachable loop_init loop_step up_loop"
  by (rule reach_init) (simp add: loop_init_def up_loop_def one_running_reachable)

lemma interrupt_reachable:
  assumes "reachable loop_init loop_step l" "map_of (g_accounts (ml_daemon l)) ''a'' = Some r" "rn_socket r = Some s"
  shows "reachable loop_init loop_step (interrupt_a code l)"
  by (rule reach_step [OF assms(1)]) (use loop_step.interrupted [OF refl assms(2,3), of "Some code"] assms(2,3) in \<open>simp add: interrupt_a_def Let_def\<close>)

lemma idle_reachable:
  assumes "reachable loop_init loop_step l" "loop_pass 0 (idle_tick t) l \<noteq> None"
  shows "reachable loop_init loop_step (the (loop_pass 0 (idle_tick t) l))"
proof (rule reach_step [OF assms(1)])
  obtain l' where "loop_pass 0 (idle_tick t) l = Some l'" using assms(2) by blast
  then show "loop_step l (the (loop_pass 0 (idle_tick t) l))"
    by (intro loop_step.pass [of 0 "idle_tick t"]) (simp_all add: idle_tick_def pj_only_def working_boot_def)
qed

definition a_socket :: "main_loop \<Rightarrow> Impl option" where
  "a_socket l = Option.bind (map_of (g_accounts (ml_daemon l)) ''a'') rn_socket"

lemma a_socketD: "a_socket l \<noteq> None \<Longrightarrow> \<exists>r s. map_of (g_accounts (ml_daemon l)) ''a'' = Some r \<and> rn_socket r = Some s"
  by (auto simp: a_socket_def split: bind_splits)

lemma down_evaluates:
  "a_socket up_loop \<noteq> None" "loop_pass 0 (idle_tick 5000) (interrupt_a 146 up_loop) \<noteq> None"
  "loop_pass 0 (idle_tick 10500) (the (loop_pass 0 (idle_tick 5000) (interrupt_a 146 up_loop))) \<noteq> None"
  "a_socket down_loop \<noteq> None" "reconnects 0 (ml_log down_loop) = [5000, 10500]" "map_option isDeauthorized (a_socket dead_loop) = Some True"
  by code_simp+

lemma down_reachable: "reachable loop_init loop_step down_loop"
  unfolding down_loop_def using a_socketD [OF down_evaluates(1)] down_evaluates(2,3)
  by (auto intro!: idle_reachable interrupt_reachable up_reachable)

lemma dead_reachable: "reachable loop_init loop_step dead_loop"
  unfolding dead_loop_def using a_socketD [OF down_evaluates(4)] by (auto intro!: interrupt_reachable down_reachable)

theorem reconnect_attempts_spaced_witness:
  "reconnects 0 (ml_log down_loop) ! 0 + 5000 \<le> reconnects 0 (ml_log down_loop) ! 1"
  using reconnect_attempts_spaced [OF down_reachable, of 0 1 0] by (simp add: down_evaluates(5))

theorem deauthorized_left_alone_witness:
  "Set_registration ''a'' True \<notin> set (snd (watchdogs (idle_tick 900000) (ml_daemon dead_loop)))"
proof -
  obtain r s where r: "map_of (g_accounts (ml_daemon dead_loop)) ''a'' = Some r" "rn_socket r = Some s" "isDeauthorized s"
    using down_evaluates(6) by (auto simp: a_socket_def split: bind_splits)
  then show ?thesis
    using deauthorized_left_alone [OF dead_reachable r(1-3), of "idle_tick 900000"] by (metis prod.collapse)
qed


section \<open>An outage that lasts\<close>

lemma reconnect_failed: "reconnect out il s = (Inl x, s') \<Longrightarrow> \<not> isConnected s'"
  by (auto simp: reconnect_def doConnect_def checkError_def isConnected_def disconnectAndDestroyBestEffort_def Let_def
      split: outcome.splits sum.splits option.splits if_splits)

lemma watch_socket_down:
  assumes "rn_socket r = Some s" "\<not> isConnected s" "isl (fst (reconnect (fst conn) (snd conn) s))"
  shows "\<exists>s'. rn_socket (fst (watch_socket now conn sip name r)) = Some s' \<and> \<not> isConnected s'"
  using assms reconnect_failed
  by (auto simp: watch_socket_def try_reconnect_def Let_def split: prod.splits sum.splits)

text \<open>
  The registration watchdog undoes what the websocket watchdog did. When the websocket has been down for \<open>sipRegWatchdogSec\<close> without
  being deauthorized, the SIP account is registered again although the account's websocket is still down, and stays down after the pass: the PBX
  sees an account no Signal call can reach.
\<close>

theorem outage_reregisters:
  assumes "map_of (g_accounts d) name = Some r" "rn_socket r = Some s" "\<not> isConnected s" "\<not> isDeauthorized s"
    "map_of (g_sipAccounts d) name = Some sa" "sa_unregisteredSinceMs sa \<noteq> 0"
    "tk_now tk - sa_unregisteredSinceMs sa \<ge> uint (sipRegWatchdogSec (g_global d)) * 1000"
    "isl (fst (reconnect (fst (tk_connect tk name)) (snd (tk_connect tk name)) s))"
    "watchdogs tk d = (d', evs)"
  shows "Set_registration name True \<in> set evs \<and>
    (\<exists>r' s'. map_of (g_accounts d') name = Some r' \<and> rn_socket r' = Some s' \<and> \<not> isConnected s')"
proof -
  obtain d1 e1 where d1: "registration_watchdog (tk_now tk) d = (d1, e1)" by (meson surj_pair)
  obtain d2 e2 where d2: "socket_watchdog tk d1 = (d2, e2)" by (meson surj_pair)
  obtain d3 e3 where d3: "storage_timer tk d2 = (d3, e3)" by (meson surj_pair)
  have evs: "d' = d3" "evs = e1 @ e2 @ e3" using assms(9) by (auto simp: watchdogs_def d1 d2 d3)
  have "(name, sa) \<in> set (g_sipAccounts d)" using assms(5) by (rule map_of_SomeD)
  moreover have "snd (watch_registration (tk_now tk) d (name, sa)) = [Set_registration name True]"
    using assms(1,2,4,6,7) by (simp add: watch_registration_def account_deauthorized_def overdue_def)
  ultimately have "Set_registration name True \<in> set e1"
    using d1 by (force simp: registration_watchdog_def Let_def)
  moreover have "map_of (g_accounts d1) name = Some r" using registration_watchdog_frame [OF d1] assms(1) by simp
  then obtain r2 s2 where "map_of (g_accounts d2) name = Some r2" "rn_socket r2 = Some s2" "\<not> isConnected s2"
    using watch_socket_down [OF assms(2,3,8)] d2 by (simp add: socket_watchdog_def map_of_for_accounts) meson
  then have "\<exists>r' s'. map_of (g_accounts d3) name = Some r' \<and> rn_socket r' = Some s' \<and> \<not> isConnected s'"
    using d3 by (simp add: storage_timer_def map_of_for_accounts)
  ultimately show ?thesis using evs by simp
qed

definition outage :: daemon where
  "outage = (let d = ml_daemon down_loop; sa = the (map_of (g_sipAccounts d) ''a'')
     in d\<lparr>g_sipAccounts := store ''a'' (onRegState False 5100 sa) (g_sipAccounts d)\<rparr>)"

lemma outage_evaluates:
  "a_socket (down_loop\<lparr>ml_daemon := outage\<rparr>) = a_socket down_loop" "map_option isConnected (a_socket down_loop) = Some False"
  "map_option isDeauthorized (a_socket down_loop) = Some False"
  "map_option sa_unregisteredSinceMs (map_of (g_sipAccounts outage) ''a'') = Some 5100" "uint (sipRegWatchdogSec (g_global outage)) = 60"
  by code_simp+

theorem outage_reregisters_witness:
  "Set_registration ''a'' True \<in> set (snd (watchdogs (idle_tick 65100) outage))"
proof -
  obtain r s where r: "map_of (g_accounts outage) ''a'' = Some r" "rn_socket r = Some s" "\<not> isConnected s" "\<not> isDeauthorized s"
    using outage_evaluates(1-3) by (auto simp: a_socket_def split: bind_splits)
  obtain sa where sa: "map_of (g_sipAccounts outage) ''a'' = Some sa" "sa_unregisteredSinceMs sa = 5100"
    using outage_evaluates(4) by auto
  have "isl (fst (reconnect (fst (tk_connect (idle_tick 65100) ''a'')) (snd (tk_connect (idle_tick 65100) ''a'')) s))"
    by (simp add: idle_tick_def reconnect_def doConnect_def Let_def)
  from outage_reregisters [OF r(1-4) sa(1) _ _ this, of "fst (watchdogs (idle_tick 65100) outage)" "snd (watchdogs (idle_tick 65100) outage)"]
  show ?thesis using sa(2) outage_evaluates(5) by (simp add: idle_tick_def)
qed

section \<open>The end of an outage\<close>

text \<open>A pass that reloads nothing, several passes in a row, and what they asked for one account, with the time.\<close>

definition no_reload :: "tick \<Rightarrow> main_loop \<Rightarrow> bool" where
  "no_reload tk l \<longleftrightarrow> tk_hup tk = None \<and> \<not> overdue (tk_now tk) (configPollIntervalSec (g_global (ml_daemon l))) (ml_lastConfigPollMs l)"

fun loop_passes :: "nat \<Rightarrow> tick list \<Rightarrow> main_loop \<Rightarrow> main_loop option" where
  "loop_passes n [] l = Some l"
| "loop_passes n (tk # tks) l = Option.bind (loop_pass n tk l) (loop_passes n tks)"

definition for_account :: "string \<Rightarrow> nat \<Rightarrow> loop_event \<Rightarrow> bool" where
  "for_account name k e \<longleftrightarrow> e \<in> {Set_registration name True, Set_registration name False, Reconnecting k}"

definition account_events :: "string \<Rightarrow> nat \<Rightarrow> (int \<times> loop_event) list \<Rightarrow> (int \<times> loop_event) list" where
  "account_events name k l = filter (\<lambda>p. for_account name k (snd p)) l"

lemma account_events_at: "account_events name k (map (Pair t) evs) = map (Pair t) (filter (for_account name k) evs)"
  by (induction evs) (auto simp: account_events_def)

lemma account_events_append [simp]: "account_events name k (l @ l') = account_events name k l @ account_events name k l'"
  by (simp add: account_events_def)

lemma filter_for_accounts:
  assumes "distinct (map fst m)" "map_of m name = Some r" "\<And>x r'. (x, r') \<in> set m \<Longrightarrow> x \<noteq> name \<Longrightarrow> filter P (f x r') = []"
  shows "filter P (concat (map (\<lambda>(x, r). f x r) m)) = filter P (f name r)"
  using assms
proof (induction m)
  case (Cons p m)
  obtain x r' where p: "p = (x, r')" by (cases p)
  show ?case
  proof (cases "x = name")
    case True
    then have "\<forall>(y, q) \<in> set m. filter P (f y q) = []" using Cons.prems(1,3) p by force
    then have "filter P (concat (map (\<lambda>(x, r). f x r) m)) = []" by (induction m) auto
    then show ?thesis using Cons.prems(2) p True by simp
  next
    case False
    then show ?thesis using Cons p by simp
  qed
qed simp

lemma quiet_pass:
  assumes inv: "loop_inv l" and nr: "no_reload tk l" and r: "map_of (g_accounts (ml_daemon l)) name = Some r"
    and w: "watch_socket (tk_now tk) (tk_connect tk name) (map_of (g_sipAccounts (ml_daemon l)) name \<noteq> None) name r = (w, evs)"
  obtains l' r' pre e1 where "loop_pass n tk l = Some l'" "loop_inv l'" "\<And>tk. no_reload tk l' = no_reload tk l"
    "map_of (g_accounts (ml_daemon l')) name = Some r'" "rn_id r' = rn_id w" "rn_socket r' = rn_socket w" "rn_socketConnected r' = rn_socketConnected w"
    "rn_lastReconnectMs r' = rn_lastReconnectMs w" "map_of (g_sipAccounts (ml_daemon l')) name = None \<longleftrightarrow> map_of (g_sipAccounts (ml_daemon l)) name = None"
    "ml_log l' = ml_log l @ map (Pair (tk_now tk)) pre" "filter (for_account name (rn_id r)) pre = e1 @ filter (for_account name (rn_id r)) evs" "set e1 \<subseteq> {Set_registration name True}"
proof -
  let ?d = "ml_daemon l" and ?P = "for_account name (rn_id r)"
  obtain d1 e1 where d1: "registration_watchdog (tk_now tk) ?d = (d1, e1)" by (meson surj_pair)
  obtain d2 e2 where d2: "socket_watchdog tk d1 = (d2, e2)" by (meson surj_pair)
  obtain d3 e3 where d3: "storage_timer tk d2 = (d3, e3)" by (meson surj_pair)
  have wd: "watchdogs tk ?d = (d3, e1 @ e2 @ e3)" by (simp add: watchdogs_def d1 d2 d3)
  let ?l' = "\<lparr>ml_daemon = d3, ml_lastConfigPollMs = ml_lastConfigPollMs l, ml_log = ml_log l @ map (Pair (tk_now tk)) (e1 @ e2 @ e3)\<rparr>"
  have pass: "loop_pass n tk l = Some ?l'"
    using nr by (simp add: loop_pass_def reload_on_signal_def config_poll_def no_reload_def wd)
  have tr: "tracked (ml_log l) ?d" "\<forall>k. spaced (reconnects k (ml_log l))" using inv by (simp_all add: loop_inv_def)
  have inv': "loop_inv ?l'" using watchdogs_tracked [OF tr wd] by (simp add: loop_inv_def)
  note f = registration_watchdog_frame [OF d1]
  have sip: "map_of (g_sipAccounts d1) x = None \<longleftrightarrow> map_of (g_sipAccounts ?d) x = None" for x
    using f by (metis list.set_map map_of_eq_None_iff)
  have g: "g_sipAccounts d3 = g_sipAccounts d1" "g_global d3 = g_global ?d" using d2 d3 f by (auto simp: socket_watchdog_def storage_timer_def for_accounts_def)
  let ?w = "\<lambda>x r. watch_socket (tk_now tk) (tk_connect tk x) (map_of (g_sipAccounts d1) x \<noteq> None) x r"
  have own: "?w name r = (w, evs)" using w sip by simp
  have m2: "map_of (g_accounts d2) name = Some w" using d2 f r own by (simp add: socket_watchdog_def map_of_for_accounts)
  have mem: "(name, r) \<in> set (g_accounts ?d)" using r by (rule map_of_SomeD)
  have ids: "rn_id r' \<noteq> rn_id r" if "(x, r') \<in> set (g_accounts ?d)" "x \<noteq> name" for x r'
  proof -
    have "inj_on (\<lambda>p. rn_id (snd p)) (set (g_accounts ?d))" using tr(1) by (simp add: tracked_def)
    from inj_onD [OF this, of "(x, r')" "(name, r)"] that mem show ?thesis by auto
  qed
  have "e2 = concat (map (\<lambda>(x, r). snd (?w x r)) (g_accounts ?d))" using d2 f by (auto simp: socket_watchdog_def for_accounts_def)
  moreover have "filter ?P (snd (?w x r')) = []" if "(x, r') \<in> set (g_accounts ?d)" "x \<noteq> name" for x r'
  proof -
    have "\<not> for_account name (rn_id r) e" if "e \<in> set (snd (?w x r'))" for e
      using subsetD [OF watch_socket_names that] ids [OF \<open>(x, r') \<in> _\<close> \<open>x \<noteq> name\<close>] \<open>x \<noteq> name\<close> by (auto simp: for_account_def)
    then show ?thesis by (simp add: filter_empty_conv)
  qed
  ultimately have e2: "filter ?P e2 = filter ?P evs"
    using filter_for_accounts [of "g_accounts ?d" name r ?P "\<lambda>x r. snd (?w x r)"] tr(1) r own by (simp add: tracked_def)
  have "set e3 \<subseteq> range Storage_sync" using d3 by (auto simp: storage_timer_def for_accounts_def split: if_splits)
  then have "filter ?P e3 = []" by (fastforce simp: filter_empty_conv for_account_def)
  moreover have "set (filter ?P e1) \<subseteq> {Set_registration name True}" using f by (auto simp: for_account_def)
  ultimately have e: "filter ?P (e1 @ e2 @ e3) = filter ?P e1 @ filter ?P evs" "set (filter ?P e1) \<subseteq> {Set_registration name True}" using e2 by auto
  obtain r' where "map_of (g_accounts d3) name = Some r'" "rn_id r' = rn_id w" "rn_socket r' = rn_socket w" "rn_socketConnected r' = rn_socketConnected w"
    "rn_lastReconnectMs r' = rn_lastReconnectMs w"
    using d3 m2 by (simp add: storage_timer_def map_of_for_accounts)
  then show thesis
    using pass inv' sip g e by (intro that [of ?l' r' "e1 @ e2 @ e3" "filter ?P e1"]) (simp_all add: no_reload_def)
qed

definition account_up :: "string \<Rightarrow> nat \<Rightarrow> main_loop \<Rightarrow> bool" where
  "account_up name k l \<longleftrightarrow> (\<exists>r s. map_of (g_accounts (ml_daemon l)) name = Some r \<and> rn_id r = k \<and> rn_socket r = Some s \<and> isConnected s \<and> rn_socketConnected r)"

lemma passes_up:
  assumes "loop_inv l" "\<forall>tk \<in> set tks. no_reload tk l" "account_up name k l"
  shows "\<exists>l' new. loop_passes n tks l = Some l' \<and> account_up name k l' \<and> ml_log l' = ml_log l @ new \<and>
    set (map snd (account_events name k new)) \<subseteq> {Set_registration name True}"
  using assms
proof (induction tks arbitrary: l)
  case Nil
  then show ?case by (simp add: account_events_def)
next
  case (Cons tk tks)
  obtain r s where r: "map_of (g_accounts (ml_daemon l)) name = Some r" "rn_id r = k" "rn_socket r = Some s" "isConnected s" "rn_socketConnected r"
    using Cons.prems(3) by (auto simp: account_up_def)
  then have w: "watch_socket (tk_now tk) (tk_connect tk name) (map_of (g_sipAccounts (ml_daemon l)) name \<noteq> None) name r = (r\<lparr>rn_socketConnected := True\<rparr>, [])"
    by (simp add: watch_socket_def)
  have nr: "no_reload tk l" using Cons.prems(2) by simp
  obtain l1 r1 pre e1 where l1: "loop_pass n tk l = Some l1" "loop_inv l1" "\<And>tk. no_reload tk l1 = no_reload tk l"
    "map_of (g_accounts (ml_daemon l1)) name = Some r1" "rn_id r1 = rn_id (r\<lparr>rn_socketConnected := True\<rparr>)" "rn_socket r1 = rn_socket (r\<lparr>rn_socketConnected := True\<rparr>)"
    "rn_socketConnected r1 = rn_socketConnected (r\<lparr>rn_socketConnected := True\<rparr>)"
    "ml_log l1 = ml_log l @ map (Pair (tk_now tk)) pre" "filter (for_account name (rn_id r)) pre = e1 @ filter (for_account name (rn_id r)) []" "set e1 \<subseteq> {Set_registration name True}"
    by (rule quiet_pass [OF Cons.prems(1) nr r(1) w, of n]; rule that; assumption?)
  have "account_up name k l1" using l1(4-7) r(2-4) by (simp add: account_up_def)
  then obtain l' new where l': "loop_passes n tks l1 = Some l'" "account_up name k l'" "ml_log l' = ml_log l1 @ new"
    "set (map snd (account_events name k new)) \<subseteq> {Set_registration name True}"
    using Cons.IH [OF l1(2)] Cons.prems(2) l1(3) by auto
  have "set (map snd (account_events name k (map (Pair (tk_now tk)) pre @ new))) \<subseteq> {Set_registration name True}"
    using l1(9,10) r(2) l'(4) by (simp add: account_events_at comp_def)
  moreover have "loop_passes n (tk # tks) l = Some l'" "ml_log l' = ml_log l @ map (Pair (tk_now tk)) pre @ new" using l1(1,8) l'(1,3) by simp_all
  ultimately show ?case using l'(2) by blast
qed

lemma reconnect_accepted: "reconnect (Completed (Inr h)) None s = (Inr (), s') \<Longrightarrow> isConnected s'"
  by (auto simp: reconnect_def doConnect_def checkError_def isConnected_def Let_def)

lemma watch_socket_dials:
  assumes "rn_socket r = Some s" "\<not> isConnected s" "\<not> isDeauthorized s" "now - rn_lastReconnectMs r \<ge> kSocketReconnectIntervalMs"
  obtains r' s' where "watch_socket now (Completed (Inr h), None) sip name r = (r', (if rn_socketConnected r \<and> sip then [Set_registration name False] else []) @
      Reconnecting (rn_id r) # (if sip then [Set_registration name True] else []))"
    "rn_id r' = rn_id r" "rn_socket r' = Some s'" "isConnected s'" "rn_socketConnected r'"
proof -
  obtain s' where s': "reconnect (Completed (Inr h)) None s = (Inr (), s')" by (simp add: reconnect_def doConnect_def checkError_def Let_def)
  show thesis
    using that assms reconnect_accepted [OF s'] by (simp add: watch_socket_def try_reconnect_def Let_def s')
qed

text \<open>
  C32: A dropped websocket comes back together with the SIP registration. However many passes of the main loop follow the drop, as long as they reload nothing, the server accepts the
  connection whenever it is dialled and the connection is not lost again, the loop survives them and leaves the same account connected, having dialled
  exactly once, in the first pass at least five seconds after the last attempt; if the account has SIP and had been seen connected, its registration was taken
  down before, and if it has SIP, it was registered anew right after the dial and never taken down since.
\<close>

theorem websocket_watchdog_recovers:
  assumes "reachable loop_init loop_step l" "map_of (g_accounts (ml_daemon l)) name = Some r" "rn_socket r = Some s" "\<not> isConnected s" "\<not> isDeauthorized s"
    and "\<forall>tk \<in> set tks. no_reload tk l \<and> (\<exists>h. tk_connect tk name = (Completed (Inr h), None))"
    and "find (\<lambda>tk. tk_now tk - rn_lastReconnectMs r \<ge> kSocketReconnectIntervalMs) tks = Some tk"
  shows "\<exists>l' new before after. loop_passes n tks l = Some l' \<and> account_up name (rn_id r) l' \<and> ml_log l' = ml_log l @ new \<and>
    account_events name (rn_id r) new = before @ (tk_now tk, Reconnecting (rn_id r)) #
      (if map_of (g_sipAccounts (ml_daemon l)) name \<noteq> None then [(tk_now tk, Set_registration name True)] else []) @ after \<and>
    set (map snd before) \<subseteq> {Set_registration name True, Set_registration name False} \<and>
    (rn_socketConnected r \<and> map_of (g_sipAccounts (ml_daemon l)) name \<noteq> None \<longrightarrow> Set_registration name False \<in> set (map snd before)) \<and>
    set (map snd after) \<subseteq> {Set_registration name True}"
proof -
  have "loop_inv l" using main.reachable_inv [OF assms(1)] .
  then show ?thesis
    using assms(2-7)
  proof (induction tks arbitrary: l r)
    case (Cons tk1 tks)
    let ?sip = "map_of (g_sipAccounts (ml_daemon l)) name \<noteq> None"
    let ?drop = "if rn_socketConnected r \<and> ?sip then [Set_registration name False] else []"
    obtain h where h: "no_reload tk1 l" "tk_connect tk1 name = (Completed (Inr h), None)" using Cons.prems(6) by auto
    show ?case
    proof (cases "tk_now tk1 - rn_lastReconnectMs r \<ge> kSocketReconnectIntervalMs")
      case True
      then have tk: "tk = tk1" using Cons.prems(7) by simp
      obtain w s' where w: "watch_socket (tk_now tk1) (tk_connect tk1 name) ?sip name r = (w, ?drop @ Reconnecting (rn_id r) # (if ?sip then [Set_registration name True] else []))"
        "rn_id w = rn_id r" "rn_socket w = Some s'" "isConnected s'" "rn_socketConnected w"
        using watch_socket_dials [OF Cons.prems(3-5) True, of h ?sip name] h(2) by metis
      obtain l1 r1 pre e1 where l1: "loop_pass n tk1 l = Some l1" "loop_inv l1" "\<And>tk. no_reload tk l1 = no_reload tk l"
        "map_of (g_accounts (ml_daemon l1)) name = Some r1" "rn_id r1 = rn_id w" "rn_socket r1 = rn_socket w" "rn_socketConnected r1 = rn_socketConnected w"
        "ml_log l1 = ml_log l @ map (Pair (tk_now tk1)) pre"
        "filter (for_account name (rn_id r)) pre = e1 @ filter (for_account name (rn_id r)) (?drop @ Reconnecting (rn_id r) # (if ?sip then [Set_registration name True] else []))"
        "set e1 \<subseteq> {Set_registration name True}"
        by (rule quiet_pass [OF Cons.prems(1) h(1) Cons.prems(2) w(1), of n]; rule that; assumption?)
      have "account_up name (rn_id r) l1" using l1(4-7) w by (simp add: account_up_def)
      then obtain l' new where l': "loop_passes n tks l1 = Some l'" "account_up name (rn_id r) l'" "ml_log l' = ml_log l1 @ new"
        "set (map snd (account_events name (rn_id r) new)) \<subseteq> {Set_registration name True}"
        using passes_up [OF l1(2), of tks name "rn_id r" n] Cons.prems(6) l1(3) by auto
      let ?at = "map (Pair (tk_now tk1))"
      have "account_events name (rn_id r) (?at pre @ new) = ?at (e1 @ ?drop) @ (tk_now tk, Reconnecting (rn_id r)) #
          (if ?sip then [(tk_now tk, Set_registration name True)] else []) @ account_events name (rn_id r) new"
        by (simp add: account_events_at l1(9) tk for_account_def)
      moreover have "set (map snd (?at (e1 @ ?drop))) \<subseteq> {Set_registration name True, Set_registration name False}"
        "rn_socketConnected r \<and> ?sip \<longrightarrow> Set_registration name False \<in> set (map snd (?at (e1 @ ?drop)))"
        using l1(10) by (auto simp: comp_def)
      moreover have "loop_passes n (tk1 # tks) l = Some l'" "ml_log l' = ml_log l @ ?at pre @ new" using l1(1,8) l'(1,3) by simp_all
      ultimately show ?thesis using l'(2,4) by blast
    next
      case False
      have w: "watch_socket (tk_now tk1) (tk_connect tk1 name) ?sip name r = (r\<lparr>rn_socketConnected := False\<rparr>, ?drop)"
        using False Cons.prems(3-5) by (simp add: watch_socket_def)
      obtain l1 r1 pre e1 where l1: "loop_pass n tk1 l = Some l1" "loop_inv l1" "\<And>tk. no_reload tk l1 = no_reload tk l"
        "map_of (g_accounts (ml_daemon l1)) name = Some r1" "rn_id r1 = rn_id (r\<lparr>rn_socketConnected := False\<rparr>)" "rn_socket r1 = rn_socket (r\<lparr>rn_socketConnected := False\<rparr>)"
        "rn_socketConnected r1 = rn_socketConnected (r\<lparr>rn_socketConnected := False\<rparr>)" "rn_lastReconnectMs r1 = rn_lastReconnectMs (r\<lparr>rn_socketConnected := False\<rparr>)"
        "map_of (g_sipAccounts (ml_daemon l1)) name = None \<longleftrightarrow> map_of (g_sipAccounts (ml_daemon l)) name = None"
        "ml_log l1 = ml_log l @ map (Pair (tk_now tk1)) pre" "filter (for_account name (rn_id r)) pre = e1 @ filter (for_account name (rn_id r)) ?drop"
        "set e1 \<subseteq> {Set_registration name True}"
        by (rule quiet_pass [OF Cons.prems(1) h(1) Cons.prems(2) w, of n]; rule that; assumption?)
      have r1: "rn_id r1 = rn_id r" "rn_socket r1 = Some s" "rn_lastReconnectMs r1 = rn_lastReconnectMs r" using l1(5,6,8) Cons.prems(3) by simp_all
      have rest: "\<forall>tk \<in> set tks. no_reload tk l1 \<and> (\<exists>h. tk_connect tk name = (Completed (Inr h), None))"
        "find (\<lambda>tk. tk_now tk - rn_lastReconnectMs r1 \<ge> kSocketReconnectIntervalMs) tks = Some tk"
        using Cons.prems(6,7) False l1(3) r1(3) by auto
      obtain l' new before after where l': "loop_passes n tks l1 = Some l'" "account_up name (rn_id r) l'" "ml_log l' = ml_log l1 @ new"
        "account_events name (rn_id r) new = before @ (tk_now tk, Reconnecting (rn_id r)) # (if ?sip then [(tk_now tk, Set_registration name True)] else []) @ after"
        "set (map snd before) \<subseteq> {Set_registration name True, Set_registration name False}" "set (map snd after) \<subseteq> {Set_registration name True}"
        using Cons.IH [OF l1(2,4) r1(2) Cons.prems(4,5) rest] unfolding r1(1) l1(9) by blast
      let ?at = "map (Pair (tk_now tk1))"
      have "account_events name (rn_id r) (?at pre @ new) = (?at (e1 @ ?drop) @ before) @ (tk_now tk, Reconnecting (rn_id r)) #
          (if ?sip then [(tk_now tk, Set_registration name True)] else []) @ after"
        by (simp add: account_events_at l1(11) l'(4) for_account_def)
      moreover have "set (map snd (?at (e1 @ ?drop) @ before)) \<subseteq> {Set_registration name True, Set_registration name False}"
        "rn_socketConnected r \<and> ?sip \<longrightarrow> Set_registration name False \<in> set (map snd (?at (e1 @ ?drop) @ before))"
        using l1(12) l'(5) by (auto simp: comp_def)
      moreover have "loop_passes n (tk1 # tks) l = Some l'" "ml_log l' = ml_log l @ ?at pre @ new" using l1(1,10) l'(1,3) by simp_all
      ultimately show ?thesis using l'(2,6) by blast
    qed
  qed simp
qed

definition answering_tick :: "int \<Rightarrow> tick" where
  "answering_tick t = (idle_tick t)\<lparr>tk_connect := \<lambda>_. (Completed (Inr 9), None)\<rparr>"

theorem websocket_watchdog_recovers_witness:
  "\<exists>l' new before after. loop_passes 0 [answering_tick 12000, answering_tick 16000, answering_tick 22000] down_loop = Some l' \<and> account_up ''a'' 0 l' \<and>
     account_events ''a'' 0 new = before @ [(16000, Reconnecting 0), (16000, Set_registration ''a'' True)] @ after \<and> ml_log l' = ml_log down_loop @ new"
proof -
  obtain r s where r: "map_of (g_accounts (ml_daemon down_loop)) ''a'' = Some r" "rn_socket r = Some s" "\<not> isConnected s" "\<not> isDeauthorized s"
    using outage_evaluates(2,3) by (auto simp: a_socket_def split: bind_splits)
  have ev: "map_option rn_lastReconnectMs (map_of (g_accounts (ml_daemon down_loop)) ''a'') = Some 10500"
    "map_option rn_id (map_of (g_accounts (ml_daemon down_loop)) ''a'') = Some 0" "map_of (g_sipAccounts (ml_daemon down_loop)) ''a'' \<noteq> None"
    "ml_lastConfigPollMs down_loop = 0" "uint (configPollIntervalSec (g_global (ml_daemon down_loop))) = 30"
    by code_simp+
  have last: "rn_lastReconnectMs r = 10500" "rn_id r = 0" using ev(1,2) r(1) by simp_all
  let ?ts = "[answering_tick 12000, answering_tick 16000, answering_tick 22000]"
  have "\<forall>tk \<in> set ?ts. no_reload tk down_loop \<and> (\<exists>h. tk_connect tk ''a'' = (Completed (Inr h), None))"
    using ev(4,5) by (simp add: answering_tick_def idle_tick_def no_reload_def overdue_def)
  moreover have "find (\<lambda>tk. tk_now tk - rn_lastReconnectMs r \<ge> kSocketReconnectIntervalMs) ?ts = Some (answering_tick 16000)"
    by (simp add: last answering_tick_def idle_tick_def kSocketReconnectIntervalMs_def)
  ultimately show ?thesis
    using websocket_watchdog_recovers [OF down_reachable r, of ?ts "answering_tick 16000" 0] ev(3) last
    by (simp add: answering_tick_def idle_tick_def) metis
qed

end
