(* ===== verification/StorageServiceSync.thy ===== *)
theory StorageServiceSync
  imports CallSignaling Resolver SyncedContacts
begin

text \<open>
  Model of \<open>daemon/StorageServiceSync.cpp\<close> and of the HTTP client under it (\<open>util/RegistrationClient.cpp\<close>): how the contact
  records of an account are fetched from Signal's storage service and decrypted. OpenSSL, libsignal, curl, the JSON
  parser and the protobuf parsers are parameters; every request is logged.
\<close>

section \<open>HTTP requests\<close>

text \<open>The options \<open>doRequest\<close> sets on the curl handle.\<close>

record http_out =
  ho_url :: string
  ho_method :: string
  ho_body :: "bytes option"
  ho_contentType :: "string option"
  ho_userpwd :: "string option"

definition http_options :: "string \<Rightarrow> string \<Rightarrow> string \<Rightarrow> bytes \<Rightarrow> string \<Rightarrow> string \<Rightarrow> string \<Rightarrow> http_out" where
  "http_options serverHost method path bd contentType user pass =
     \<lparr>ho_url = ''https://'' @ serverHost @ path, ho_method = method,
      ho_body = (if method = ''GET'' then None else Some bd),
      ho_contentType = (if bd = [] then None else Some contentType),
      ho_userpwd = (if user = [] then None else Some (user @ '':'' @ pass))\<rparr>"

datatype sync_request = Chat request | Http http_out

record storage_env =
  se_chat :: "nat \<Rightarrow> request \<Rightarrow> Response result"
  se_http :: "nat \<Rightarrow> http_out \<Rightarrow> string + Response"
  se_parse :: "string \<Rightarrow> json result"
  se_svr_key :: "string \<Rightarrow> bytes result"
  se_storage_key :: "bytes \<Rightarrow> bytes result"
  se_hmac :: "bytes \<Rightarrow> bytes \<Rightarrow> bytes option"
  se_hkdf :: "bytes \<Rightarrow> bytes \<Rightarrow> bytes result"
  se_gcm_open :: "bytes \<Rightarrow> bytes \<Rightarrow> bytes \<Rightarrow> bytes \<Rightarrow> bytes option"
  se_manifest :: "bytes \<Rightarrow> (uint64 \<times> bytes) option"
  se_manifest_record :: "bytes \<Rightarrow> ((bytes \<times> nat) list \<times> bytes) option"
  se_read_operation :: "bytes list \<Rightarrow> bytes"
  se_items :: "bytes \<Rightarrow> (bytes \<times> bytes) list option"

type_synonym sync_log = "sync_request list"

definition http_doRequest ::
  "storage_env \<Rightarrow> string \<Rightarrow> string \<Rightarrow> string \<Rightarrow> bytes \<Rightarrow> string \<Rightarrow> string \<Rightarrow> string \<Rightarrow> (sync_log, Response) effect" where
  "http_doRequest e serverHost method path bd contentType user pass l =
     (let opts = http_options serverHost method path bd contentType user pass; l' = l @ [Http opts] in
      case se_http e (length l) opts of
        Inl error \<Rightarrow> (Inl (Runtime_error (''HTTP request to '' @ path @ '' failed: '' @ error)), l')
      | Inr r \<Rightarrow> (Inr r, l'))"

definition http_request_json ::
  "storage_env \<Rightarrow> string \<Rightarrow> string \<Rightarrow> string \<Rightarrow> bytes \<Rightarrow> string \<Rightarrow> string \<Rightarrow> (sync_log, Response) effect" where
  "http_request_json e serverHost method path jsonBody user pass =
     http_doRequest e serverHost method path jsonBody ''application/json'' user pass"

definition requestRaw ::
  "storage_env \<Rightarrow> string \<Rightarrow> string \<Rightarrow> string \<Rightarrow> bytes \<Rightarrow> string \<Rightarrow> string \<Rightarrow> string \<Rightarrow> (sync_log, Response) effect" where
  "requestRaw e serverHost method path bd contentType user pass =
     http_doRequest e serverHost method path bd contentType user pass"

definition chat_request :: "storage_env \<Rightarrow> request \<Rightarrow> (sync_log, Response) effect" where
  "chat_request e req l = (se_chat e (length l) req, l @ [Chat req])"

section \<open>Keys\<close>

definition kStorageHost :: string where
  "kStorageHost = ''storage.signal.org''"

definition str_bytes :: "string \<Rightarrow> bytes" where
  "str_bytes s = map chr_byte s"

definition hmacSha256 :: "storage_env \<Rightarrow> bytes \<Rightarrow> string \<Rightarrow> bytes result" where
  "hmacSha256 e key data = (case se_hmac e key (str_bytes data) of None \<Rightarrow> Inl (Runtime_error ''HMAC-SHA256 failed'') | Some m \<Rightarrow> Inr m)"

definition aesGcmDecrypt :: "storage_env \<Rightarrow> bytes \<Rightarrow> bytes \<Rightarrow> bytes result" where
  "aesGcmDecrypt e key blob =
     (if length blob < 12 + 16 then Inl (Runtime_error ''storage record too short to be a valid AES-GCM blob'')
      else let ciphertextLen = length blob - 12 - 16;
               iv = take 12 blob; ciphertext = take ciphertextLen (drop 12 blob); tag = take 16 (drop (12 + ciphertextLen) blob) in
        case se_gcm_open e key iv ciphertext tag of
          None \<Rightarrow> Inl (Runtime_error ''storage record AES-256-GCM decrypt/auth failed (wrong key, or tampered)'')
        | Some plaintext \<Rightarrow> Inr plaintext)"

definition deriveStorageServiceKey :: "storage_env \<Rightarrow> string \<Rightarrow> bytes result" where
  "deriveStorageServiceKey e pool = bindR (se_svr_key e pool) (se_storage_key e)"

definition deriveManifestKey :: "storage_env \<Rightarrow> bytes \<Rightarrow> uint64 \<Rightarrow> bytes result" where
  "deriveManifestKey e key version = hmacSha256 e key (''Manifest_'' @ to_string (unat version))"

definition deriveItemKey :: "storage_env \<Rightarrow> bytes \<Rightarrow> bytes \<Rightarrow> bytes result" where
  "deriveItemKey e key rawId = hmacSha256 e key (''Item_'' @ base64Encode rawId)"

definition deriveItemKeyFromRecordIkm :: "storage_env \<Rightarrow> bytes \<Rightarrow> bytes \<Rightarrow> bytes result" where
  "deriveItemKeyFromRecordIkm e recordIkm rawId = se_hkdf e recordIkm (str_bytes ''20240801_SIGNAL_STORAGE_SERVICE_ITEM_'' @ rawId)"

section \<open>Contact records\<close>

record ContactRecord =
  cr_aci :: string
  cr_pni :: string
  cr_aciBinary :: bytes
  cr_pniBinary :: bytes
  cr_e164 :: string
  cr_profileKey :: bytes
  cr_givenName :: string
  cr_familyName :: string

definition uuidBytesToStringOrEmpty :: "bytes \<Rightarrow> string" where
  "uuidBytesToStringOrEmpty bs = (if length bs \<noteq> 16 then [] else uuid_text bs)"

definition contact_of_record :: "ContactRecord \<Rightarrow> StorageContact" where
  "contact_of_record c =
     \<lparr>sc_e164 = cr_e164 c,
      sc_aci = (if cr_aciBinary c \<noteq> [] then uuidBytesToStringOrEmpty (cr_aciBinary c) else cr_aci c),
      sc_pni = (if cr_pniBinary c \<noteq> [] then uuidBytesToStringOrEmpty (cr_pniBinary c) else cr_pni c),
      sc_profileKey = cr_profileKey c, sc_givenName = cr_givenName c, sc_familyName = cr_familyName c\<rparr>"

section \<open>The fetch\<close>

text \<open>
  \<open>parse_record\<close> is \<open>StorageRecord::ParseFromArray\<close>: \<open>None\<close> on failure, \<open>Some None\<close> for a record without a contact. An item whose
  key cannot be derived ends the whole fetch, one that cannot be decrypted is skipped.
\<close>

type_synonym record_parser = "bytes \<Rightarrow> ContactRecord option option"

definition item_key :: "storage_env \<Rightarrow> bytes \<Rightarrow> bytes \<Rightarrow> bytes \<Rightarrow> bytes result" where
  "item_key e storageServiceKey recordIkm rawId =
     (if recordIkm = [] then deriveItemKey e storageServiceKey rawId else deriveItemKeyFromRecordIkm e recordIkm rawId)"

definition item_contact :: "storage_env \<Rightarrow> record_parser \<Rightarrow> bytes \<Rightarrow> bytes \<Rightarrow> StorageContact option" where
  "item_contact e parse_record itemKey blob = (case aesGcmDecrypt e itemKey blob of
       Inl _ \<Rightarrow> None
     | Inr plaintext \<Rightarrow> (case parse_record plaintext of Some (Some c) \<Rightarrow> Some (contact_of_record c) | _ \<Rightarrow> None))"

fun collect_contacts ::
  "storage_env \<Rightarrow> record_parser \<Rightarrow> bytes \<Rightarrow> bytes \<Rightarrow> (bytes \<times> bytes) list \<Rightarrow> StorageContact list result" where
  "collect_contacts e pr key ikm [] = Inr []"
| "collect_contacts e pr key ikm ((rawId, blob) # items) =
     bindR (item_key e key ikm rawId) (\<lambda>itemKey.
     bindR (collect_contacts e pr key ikm items) (\<lambda>rest.
       Inr (case item_contact e pr itemKey blob of None \<Rightarrow> rest | Some c \<Rightarrow> c # rest)))"

definition expect_200 :: "string \<Rightarrow> Response \<Rightarrow> ('s, unit) effect" where
  "expect_200 what r = (if status r = 200 then returnS () else throwS (Runtime_error (what @ '' -> status '' @ to_string (status r))))"

definition parsed :: "string \<Rightarrow> 'a option \<Rightarrow> 'a result" where
  "parsed what x = (case x of None \<Rightarrow> Inl (Runtime_error (''failed to parse '' @ what @ '' protobuf'')) | Some y \<Rightarrow> Inr y)"

abbreviation CONTACT :: nat where "CONTACT \<equiv> 1"

definition read_keys :: "(bytes \<times> nat) list \<Rightarrow> bytes list" where
  "read_keys identifiers = map fst (filter (\<lambda>i. snd i = CONTACT) identifiers)"

definition storage_credentials :: "storage_env \<Rightarrow> (sync_log, string \<times> string) effect" where
  "storage_credentials e =
     bindS (chat_request e \<lparr>r_method = ''GET'', r_path = ''/v1/storage/auth'', r_body = None\<rparr>) (\<lambda>r.
     bindS (expect_200 ''GET /v1/storage/auth'' r) (\<lambda>_.
     liftR (\<lambda>_. bindR (se_parse e (body_text r)) (\<lambda>j.
       bindR (bindR (json_at j ''username'') get_string) (\<lambda>u.
       bindR (bindR (json_at j ''password'') get_string) (\<lambda>p. Inr (u, p)))))))"

definition fetch_manifest :: "storage_env \<Rightarrow> bytes \<Rightarrow> string \<times> string \<Rightarrow> (sync_log, (bytes \<times> nat) list \<times> bytes) effect" where
  "fetch_manifest e storageServiceKey cred =
     bindS (http_request_json e kStorageHost ''GET'' ''/v1/storage/manifest'' [] (fst cred) (snd cred)) (\<lambda>r.
     bindS (expect_200 ''GET /v1/storage/manifest'' r) (\<lambda>_.
     liftR (\<lambda>_. bindR (parsed ''StorageManifest'' (se_manifest e (body r))) (\<lambda>(version, blob).
       bindR (deriveManifestKey e storageServiceKey version) (\<lambda>manifestKey.
       bindR (aesGcmDecrypt e manifestKey blob) (\<lambda>plaintext.
         parsed ''ManifestRecord'' (se_manifest_record e plaintext)))))))"

definition fetch_items :: "storage_env \<Rightarrow> bytes list \<Rightarrow> string \<times> string \<Rightarrow> (sync_log, (bytes \<times> bytes) list) effect" where
  "fetch_items e keys cred =
     bindS (requestRaw e kStorageHost ''PUT'' ''/v1/storage/read'' (se_read_operation e keys) ''application/x-protobuf'' (fst cred) (snd cred)) (\<lambda>r.
     bindS (expect_200 ''PUT /v1/storage/read'' r) (\<lambda>_.
     liftR (\<lambda>_. parsed ''StorageItems'' (se_items e (body r)))))"

definition fetchStorageContacts :: "storage_env \<Rightarrow> record_parser \<Rightarrow> string \<Rightarrow> (sync_log, StorageContact list) effect" where
  "fetchStorageContacts e pr pool =
     (if pool = [] then throwS (Runtime_error ''no account_entropy_pool stored for this account - cannot derive storage key'')
      else bindS (liftR (\<lambda>_. deriveStorageServiceKey e pool)) (\<lambda>key.
        bindS (storage_credentials e) (\<lambda>cred.
        bindS (fetch_manifest e key cred) (\<lambda>(identifiers, recordIkm).
          if read_keys identifiers = [] then returnS []
          else bindS (fetch_items e (read_keys identifiers) cred) (\<lambda>items.
            liftR (\<lambda>_. collect_contacts e pr key recordIkm items))))))"


section \<open>Properties\<close>

text \<open>
  \<open>aesGcmDecrypt\<close> takes a blob apart the way it was put together: for a 12 byte nonce and a 16 byte tag around any ciphertext, also an
  empty one, the cipher is opened with exactly those parts, and no blob shorter than both together reaches the cipher.
\<close>

theorem aesGcmDecrypt_splits:
  "(length iv = 12 \<and> length tag = 16 \<longrightarrow> aesGcmDecrypt e key (iv @ ct @ tag) =
      (case se_gcm_open e key iv ct tag of
         None \<Rightarrow> Inl (Runtime_error ''storage record AES-256-GCM decrypt/auth failed (wrong key, or tampered)'') | Some p \<Rightarrow> Inr p)) \<and>
   (length blob < 28 \<longrightarrow> isl (aesGcmDecrypt e key blob))"
  by (auto simp: aesGcmDecrypt_def Let_def)

lemma to_string_eq_iff: "to_string m = to_string n \<longleftrightarrow> m = n"
  by (metis nat_of_digits_to_string)

lemma base64Encode_inj: "base64Encode a = base64Encode b \<longleftrightarrow> a = b"
  by (metis append_Nil decode_loop_encode)

lemma str_bytes_inj: "str_bytes a = str_bytes b \<longleftrightarrow> a = b"
  unfolding str_bytes_def by (rule inj_eq, rule inj_mapI) (metis byte_chr_chr_byte injI)

text \<open>
  The keys of the storage service are separated: as long as HMAC and HKDF do not collide, two manifest versions, two
  records, or a manifest and a record never share a key under one service key.
\<close>

theorem storage_keys_separated:
  assumes "\<forall>k. inj (se_hmac e k)" "\<forall>k. inj (se_hkdf e k)" "\<forall>k d. se_hmac e k d \<noteq> None"
  shows "(deriveManifestKey e key v = deriveManifestKey e key v' \<longleftrightarrow> v = v') \<and>
    (item_key e key ikm i = item_key e key ikm i' \<longleftrightarrow> i = i') \<and>
    deriveManifestKey e key v \<noteq> deriveItemKey e key i"
proof -
  have "hmacSha256 e key a = hmacSha256 e key b \<longleftrightarrow> a = b" for a b
  proof -
    obtain x y where "se_hmac e key (str_bytes a) = Some x" "se_hmac e key (str_bytes b) = Some y"
      using assms(3) by blast
    then show ?thesis using inj_eq [OF spec [OF assms(1)], of key "str_bytes a" "str_bytes b"]
      by (simp add: hmacSha256_def str_bytes_inj)
  qed
  moreover have "se_hkdf e ikm a = se_hkdf e ikm b \<longleftrightarrow> a = b" for a b
    using assms(2) by (simp add: inj_eq)
  ultimately show ?thesis
    by (simp add: deriveManifestKey_def deriveItemKey_def deriveItemKeyFromRecordIkm_def item_key_def
        to_string_eq_iff base64Encode_inj word_unat_eq_iff)
qed

section \<open>What a fetch returns\<close>

lemma collect_contacts_spec:
  assumes "\<forall>(i, b) \<in> set items. item_key e key ikm i = Inr (k i)"
  shows "collect_contacts e pr key ikm items = Inr (List.map_filter (\<lambda>(i, b). item_contact e pr (k i) b) items)"
  using assms by (induction items) (auto simp: map_filter_simps split: option.split)


lemma collect_contacts_InrD:
  assumes "collect_contacts e pr key ikm items = Inr cs"
  shows "\<exists>k. (\<forall>(i, b) \<in> set items. item_key e key ikm i = Inr (k i)) \<and>
    cs = List.map_filter (\<lambda>(i, b). item_contact e pr (k i) b) items"
proof -
  have "\<forall>(i, b) \<in> set items. \<not> isl (item_key e key ikm i)"
    using assms by (induction items arbitrary: cs) (auto simp: bindR_Inr_iff, fastforce)
  then have k: "\<forall>(i, b) \<in> set items. item_key e key ikm i = Inr (projr (item_key e key ikm i))"
    by (auto simp: isl_def)
  from collect_contacts_spec [OF k] assms k show ?thesis by auto
qed

abbreviation auth_request :: sync_request where
  "auth_request \<equiv> Chat \<lparr>r_method = ''GET'', r_path = ''/v1/storage/auth'', r_body = None\<rparr>"

lemma expect_200_run: "expect_200 what r l = (x, l') \<Longrightarrow> l' = l \<and> (x = Inr () \<longrightarrow> status r = 200)"
  by (auto simp: expect_200_def split: if_splits)

lemma storage_credentials_run:
  assumes "storage_credentials e l = (Inr cred, l')"
  shows "l' = l @ [auth_request]"
  using assms by (auto simp: storage_credentials_def chat_request_def liftR_def elim!: bindS_cases dest!: expect_200_run)

lemma fetch_manifest_run:
  assumes "fetch_manifest e key cred l = (Inr m, l')"
  shows "l' = l @ [Http (http_options kStorageHost ''GET'' ''/v1/storage/manifest'' [] ''application/json'' (fst cred) (snd cred))]"
  using assms by (auto simp: fetch_manifest_def http_request_json_def http_doRequest_def liftR_def Let_def elim!: bindS_cases
      dest!: expect_200_run split: sum.splits)

lemma fetch_items_run:
  assumes "fetch_items e keys cred l = (Inr items, l')"
  shows "l' = l @ [Http (http_options kStorageHost ''PUT'' ''/v1/storage/read'' (se_read_operation e keys) ''application/x-protobuf'' (fst cred) (snd cred))]"
  using assms by (auto simp: fetch_items_def requestRaw_def http_doRequest_def liftR_def Let_def elim!: bindS_cases
      dest!: expect_200_run split: sum.splits)

text \<open>
  What a fetch returns and what it asks for. It makes the credentials request on the chat socket, one manifest request, and, only when the
  manifest names contact records, one read request for exactly those, all to the storage host with the credentials just
  received. It returns, in order, the contact of every record that can be decrypted and parsed: a record that cannot costs only itself.
\<close>

theorem fetch_contacts_spec:
  assumes "fetchStorageContacts e pr pool l = (Inr contacts, l')"
  shows "\<exists>key cred ids ikm. deriveStorageServiceKey e pool = Inr key \<and>
     storage_credentials e l = (Inr cred, l @ [auth_request]) \<and>
     (let manifest = http_options kStorageHost ''GET'' ''/v1/storage/manifest'' [] ''application/json'' (fst cred) (snd cred);
          read = http_options kStorageHost ''PUT'' ''/v1/storage/read'' (se_read_operation e (read_keys ids)) ''application/x-protobuf'' (fst cred) (snd cred) in
      fetch_manifest e key cred (l @ [auth_request]) = (Inr (ids, ikm), l @ [auth_request, Http manifest]) \<and>
      (if read_keys ids = [] then contacts = [] \<and> l' = l @ [auth_request, Http manifest]
       else l' = l @ [auth_request, Http manifest, Http read] \<and>
         (\<exists>items k. fetch_items e (read_keys ids) cred (l @ [auth_request, Http manifest]) = (Inr items, l') \<and>
            (\<forall>(i, b) \<in> set items. item_key e key ikm i = Inr (k i)) \<and>
            contacts = List.map_filter (\<lambda>(i, b). item_contact e pr (k i) b) items)))"
proof -
  from assms obtain key cred l1 ids ikm l2 where r: "pool \<noteq> []" "deriveStorageServiceKey e pool = Inr key"
    "storage_credentials e l = (Inr cred, l1)" "fetch_manifest e key cred l1 = (Inr (ids, ikm), l2)"
    "(if read_keys ids = [] then returnS [] else bindS (fetch_items e (read_keys ids) cred) (\<lambda>items. liftR (\<lambda>_. collect_contacts e pr key ikm items))) l2
       = (Inr contacts, l')"
    by (auto simp: fetchStorageContacts_def liftR_def elim!: bindS_cases split: if_splits)
  have l: "l1 = l @ [auth_request]" "l2 = l1 @ [Http (http_options kStorageHost ''GET'' ''/v1/storage/manifest'' [] ''application/json'' (fst cred) (snd cred))]"
    using storage_credentials_run [OF r(3)] fetch_manifest_run [OF r(4)] by simp_all
  show ?thesis
  proof (cases "read_keys ids = []")
    case True
    then show ?thesis using r l by (auto simp: Let_def)
  next
    case False
    then obtain items where i: "fetch_items e (read_keys ids) cred l2 = (Inr items, l')" "collect_contacts e pr key ikm items = Inr contacts"
      using r(5) by (auto simp: liftR_def elim!: bindS_cases)
    have "l' = l2 @ [Http (http_options kStorageHost ''PUT'' ''/v1/storage/read'' (se_read_operation e (read_keys ids)) ''application/x-protobuf'' (fst cred) (snd cred))]"
      by (rule fetch_items_run [OF i(1)])
    then show ?thesis
      using r(2-4) l i(1) collect_contacts_InrD [OF i(2)] False
      by (intro exI [of _ key] exI [of _ cred] exI [of _ ids] exI [of _ ikm]) (simp add: Let_def)
  qed
qed


section \<open>A small storage service\<close>

text \<open>
  Two contact records, the first with a truncated blob, and a sticker pack that is not asked for. The cipher opens a
  blob whose tag starts with a zero.
\<close>

definition toy_answer :: "bytes \<Rightarrow> Response" where
  "toy_answer b = \<lparr>status = 200, body = b\<rparr>"

definition toy_storage :: storage_env where
  "toy_storage = \<lparr>se_chat = (\<lambda>_ _. Inr (toy_answer [1])), se_http = (\<lambda>n _. Inr (toy_answer (if n = 1 then [2] else [3]))),
     se_parse = (\<lambda>_. Inr (JObj [(''password'', JStr ''pw''), (''username'', JStr ''me'')])),
     se_svr_key = (\<lambda>p. Inr (str_bytes p)), se_storage_key = Inr, se_hmac = (\<lambda>k d. Some (0 # k @ d)), se_hkdf = (\<lambda>k i. Inr (1 # k @ i)),
     se_gcm_open = (\<lambda>k iv ct tag. if hd tag = 0 then Some ct else None),
     se_manifest = (\<lambda>_. Some (7, replicate 28 0)), se_manifest_record = (\<lambda>_. Some ([([10], 1), ([11], 6), ([12], 1)], [])),
     se_read_operation = concat, se_items = (\<lambda>_. Some [([10], [0, 0]), ([12], replicate 12 0 @ [5] @ replicate 16 0)])\<rparr>"

definition toy_contact :: ContactRecord where
  "toy_contact = \<lparr>cr_aci = [], cr_pni = [], cr_aciBinary = replicate 16 0x2a, cr_pniBinary = [], cr_e164 = ''+15550123'',
     cr_profileKey = [], cr_givenName = ''Ann'', cr_familyName = []\<rparr>"

definition toy_parser :: record_parser where
  "toy_parser b = (if b = [5] then Some (Some toy_contact) else None)"

lemma toy_run: "fst (fetchStorageContacts toy_storage toy_parser ''pool'' []) = Inr [contact_of_record toy_contact]"
  by code_simp

theorem aesGcmDecrypt_splits_witness:
  "aesGcmDecrypt toy_storage [] (replicate 12 1 @ [9, 9] @ replicate 16 0) = Inr [9, 9] \<and> isl (aesGcmDecrypt toy_storage [] (replicate 27 0))"
  using aesGcmDecrypt_splits [of "replicate 12 1" "replicate 16 0" toy_storage "[]" "[9, 9]" "replicate 27 0"]
  by (simp add: toy_storage_def numeral_eq_Suc)

theorem storage_keys_separated_witness: "deriveManifestKey toy_storage [3] 1 \<noteq> deriveManifestKey toy_storage [3] 2"
  using storage_keys_separated [of toy_storage "[3]" 1 2 "[]" "[]" "[]"] by (simp add: toy_storage_def inj_def)

theorem fetch_contacts_spec_witness:
  "\<exists>cred. storage_credentials toy_storage [] = (Inr cred, [auth_request]) \<and> cred = (''me'', ''pw'')"
proof -
  obtain l' where "fetchStorageContacts toy_storage toy_parser ''pool'' [] = (Inr [contact_of_record toy_contact], l')"
    using toy_run by (metis prod.collapse)
  from fetch_contacts_spec [OF this] show ?thesis
    by (auto simp: storage_credentials_def chat_request_def toy_storage_def bindS_def liftR_def expect_200_def toy_answer_def json_at_def get_string_def)
qed

end
