(* ===== verification/Gendb.thy ===== *)
theory Gendb
  imports Config PreKeys
begin

text \<open>
  Model of \<open>gendb/main.cpp\<close>, the command line tool that keeps the account database, and of \<open>gendb/AccountFinisher.cpp\<close>:
  argument parsing, bootstrapping of the configuration file, the configuration commands, removal and deletion of accounts. The
  registration and linking dialogues with Signal's servers are in \<open>Registration\<close>.
\<close>

section \<open>Strings and files\<close>

definition base64NoPadding :: "bytes \<Rightarrow> string" where
  "base64NoPadding d = rev (dropWhile (\<lambda>c. c = CHR ''='') (rev (base64Encode d)))"

definition dirName :: "string \<Rightarrow> string" where
  "dirName path = (case rsplit (CHR ''/'') path of None \<Rightarrow> ''.'' | Some (dir, _) \<Rightarrow> dir)"

definition pidFilePath :: "GlobalConfig \<Rightarrow> string" where
  "pidFilePath g = dirName (dbPath g) @ ''/signal2sip.pid''"

definition unquote :: "string \<Rightarrow> string" where
  "unquote s = (if 2 \<le> length s \<and> (hd s = CHR 0x22 \<and> last s = CHR 0x22 \<or> hd s = CHR 0x27 \<and> last s = CHR 0x27)
     then butlast (tl s) else s)"

definition cleanCaptchaToken :: "string \<Rightarrow> string" where
  "cleanCaptchaToken tok =
     (let tok = trim (unquote (trim tok)); pre = ''signalcaptcha://'';
          tok = (if take (length pre) tok = pre then drop (length pre) tok else tok)
      in rev (dropWhile (\<lambda>c. c = CHR ''/'') (rev tok)))"

section \<open>Arguments\<close>

record ParsedArgs =
  pa_accountName :: string
  pa_command :: string
  pa_positional :: "string list"
  pa_e164 :: string
  pa_configPath :: string

fun split_options :: "string list \<Rightarrow> string \<times> string \<Rightarrow> string list \<times> (string \<times> string)" where
  "split_options [] opts = ([], opts)"
| "split_options [a] opts = ([a], opts)"
| "split_options (a # b # rest) (e164, path) =
     (if a = ''--e164'' then split_options rest (b, path)
      else if a = ''--config'' then split_options rest (e164, b)
      else let (xs, opts) = split_options (b # rest) (e164, path) in (a # xs, opts))"

definition parseArgs :: "string list \<Rightarrow> ParsedArgs result" where
  "parseArgs argv =
     (let (rest, e164, path) = split_options (tl argv) ([], []) in
      if rest = [''list''] then Inr \<lparr>pa_accountName = [], pa_command = ''list'', pa_positional = [], pa_e164 = e164, pa_configPath = path\<rparr>
      else case rest of
          name # cmd # pos \<Rightarrow> Inr \<lparr>pa_accountName = name, pa_command = cmd, pa_positional = pos, pa_e164 = e164, pa_configPath = path\<rparr>
        | _ \<Rightarrow> Inl (Runtime_error ''missing <account-name> <command>''))"

section \<open>The world of the tool\<close>

text \<open>
  Text files, databases, the requests sent to Signal, the processes signalled and the lines printed by the configuration
  commands. \<open>gc_exe\<close> is the link \<open>/proc/<pid>/exe\<close>, \<open>gc_kill\<close> whether \<open>kill\<close> succeeds, \<open>gc_writable\<close> whether a file can be opened for writing,
  \<open>gc_random\<close> the random bytes handed out, \<open>gc_connect\<close> and \<open>gc_server\<close> the chat server.
\<close>

record gendb =
  gd_files :: files
  gd_disk :: disk
  gd_requests :: "request list"
  gd_signalled :: "int list"
  gd_out :: "string list"

record gendb_env =
  gc_q :: sqlite
  gc_exe :: "int \<Rightarrow> string option"
  gc_kill :: "int \<Rightarrow> bool"
  gc_writable :: "string \<Rightarrow> bool"
  gc_random :: "nat \<Rightarrow> bytes"
  gc_connect :: "unit result"
  gc_server :: server

definition open_storage :: "gendb_env \<Rightarrow> GlobalConfig \<Rightarrow> (gendb, unit) effect" where
  "open_storage e g w = (case Storage (gc_q e) (dbPath g) (dbKey g) (gd_disk w) of (x, disk) \<Rightarrow> (x, w\<lparr>gd_disk := disk\<rparr>))"

definition in_db :: "GlobalConfig \<Rightarrow> (db, 'a) effect \<Rightarrow> (gendb, 'a) effect" where
  "in_db g m w = (case gd_disk w (dbPath g) of
       None \<Rightarrow> throwS (Runtime_error ''database is not open'') w
     | Some f \<Rightarrow> (case m (f_db f) of (x, d) \<Rightarrow> (x, w\<lparr>gd_disk := (gd_disk w)(dbPath g \<mapsto> f\<lparr>f_db := d\<rparr>)\<rparr>)))"

definition say :: "string \<Rightarrow> (gendb, unit) effect" where
  "say line w = returnS () (w\<lparr>gd_out := gd_out w @ [line]\<rparr>)"

definition quoted :: "string \<Rightarrow> string" where
  "quoted s = [CHR 0x27] @ s @ [CHR 0x27]"

definition no_saved_account :: "string \<Rightarrow> string" where
  "no_saved_account name = ''account '' @ quoted name @ '' has no saved account in the database''"

text \<open>\<open>Storage storage(...)\<close>, the \<open>hasAccount\<close> check and \<open>loadAccount\<close>, as every command on an existing account begins.\<close>

definition open_account :: "gendb_env \<Rightarrow> GlobalConfig \<Rightarrow> string \<Rightarrow> string \<Rightarrow> (gendb, AccountRecord) effect" where
  "open_account e g name complaint =
     bindS (open_storage e g) (\<lambda>_.
     bindS (in_db g (liftR (hasAccount (gc_q e) name))) (\<lambda>present.
       if \<not> present then throwS (Runtime_error complaint)
       else in_db g (liftR (loadAccount (gc_q e) name))))"

section \<open>Configuration commands\<close>

record ConfigField =
  cf_name :: string
  cf_get :: "AccountRecord \<Rightarrow> string"
  cf_set :: "string \<Rightarrow> AccountRecord \<Rightarrow> AccountRecord result"

definition text_field :: "string \<Rightarrow> (AccountRecord \<Rightarrow> string) \<Rightarrow> (string \<Rightarrow> AccountRecord \<Rightarrow> AccountRecord) \<Rightarrow> ConfigField" where
  "text_field name get put = \<lparr>cf_name = name, cf_get = get, cf_set = (\<lambda>v a. Inr (put v a))\<rparr>"

definition choice_field :: "string \<Rightarrow> string list \<Rightarrow> string \<Rightarrow> (AccountRecord \<Rightarrow> string) \<Rightarrow> (string \<Rightarrow> AccountRecord \<Rightarrow> AccountRecord) \<Rightarrow> ConfigField" where
  "choice_field name choices listed get put = \<lparr>cf_name = name, cf_get = get,
     cf_set = (\<lambda>v a. if v \<in> set choices then Inr (put v a) else Inl (Runtime_error (name @ '' must be '' @ listed @ '', got '' @ quoted v)))\<rparr>"

definition flag_field :: "string \<Rightarrow> (AccountRecord \<Rightarrow> bool) \<Rightarrow> (bool \<Rightarrow> AccountRecord \<Rightarrow> AccountRecord) \<Rightarrow> ConfigField" where
  "flag_field name get put = \<lparr>cf_name = name, cf_get = (\<lambda>a. if get a then ''yes'' else ''no''),
     cf_set = (\<lambda>v a. Inr (put (v = ''yes'' \<or> v = ''true'' \<or> v = ''1'') a))\<rparr>"

definition configFields :: "ConfigField list" where
  "configFields =
     [text_field ''server_url'' a_server_url (\<lambda>v a. a\<lparr>a_server_url := v\<rparr>),
      text_field ''sip_host'' a_sip_host (\<lambda>v a. a\<lparr>a_sip_host := v\<rparr>),
      text_field ''sip_extension'' a_sip_extension (\<lambda>v a. a\<lparr>a_sip_extension := v\<rparr>),
      text_field ''sip_password'' a_sip_password (\<lambda>v a. a\<lparr>a_sip_password := v\<rparr>),
      text_field ''sip_bridge_destination'' a_sip_bridge_destination (\<lambda>v a. a\<lparr>a_sip_bridge_destination := v\<rparr>),
      text_field ''sip_bridge_did'' a_sip_bridge_did (\<lambda>v a. a\<lparr>a_sip_bridge_did := v\<rparr>),
      choice_field ''sip_srtp'' [''disabled'', ''optional'', ''mandatory''] ''disabled/optional/mandatory'' a_sip_srtp (\<lambda>v a. a\<lparr>a_sip_srtp := v\<rparr>),
      choice_field ''sip_transport'' [''udp'', ''tls''] ''udp/tls'' a_sip_transport (\<lambda>v a. a\<lparr>a_sip_transport := v\<rparr>),
      text_field ''sip_tls_ca_file'' a_sip_tls_ca_file (\<lambda>v a. a\<lparr>a_sip_tls_ca_file := v\<rparr>),
      flag_field ''sip_tls_insecure'' a_sip_tls_insecure (\<lambda>v a. a\<lparr>a_sip_tls_insecure := v\<rparr>),
      text_field ''outgoing_call_target'' a_outgoing_call_target (\<lambda>v a. a\<lparr>a_outgoing_call_target := v\<rparr>),
      text_field ''signal_proxy'' a_signal_proxy (\<lambda>v a. a\<lparr>a_signal_proxy := v\<rparr>),
      flag_field ''signal_censorship_circumvention'' a_signal_censorship_circumvention (\<lambda>v a. a\<lparr>a_signal_censorship_circumvention := v\<rparr>)]"

definition findConfigField :: "string \<Rightarrow> ConfigField result" where
  "findConfigField name = (case find (\<lambda>f. cf_name f = name) configFields of
       Some f \<Rightarrow> Inr f
     | None \<Rightarrow> Inl (Runtime_error (''unknown config field '' @ quoted name @ '' - known fields: server_url, sip_host, sip_extension, sip_password, sip_bridge_destination, '' @
         ''sip_bridge_did, sip_srtp, sip_transport, sip_tls_ca_file, sip_tls_insecure, outgoing_call_target, signal_proxy, signal_censorship_circumvention'')))"

text \<open>\<open>pidFile >> pid\<close> reads like \<open>strtol\<close> and leaves 0 when there is no number.\<close>

definition read_pid :: "string \<Rightarrow> int" where
  "read_pid txt = (case strtol txt of None \<Rightarrow> 0 | Some (neg, m) \<Rightarrow> if neg then - int m else int m)"

definition kDaemonName :: string where
  "kDaemonName = ''signal2sip-daemon''"

definition is_daemon_exe :: "string \<Rightarrow> bool" where
  "is_daemon_exe exe \<longleftrightarrow> length kDaemonName \<le> length exe \<and> drop (length exe - length kDaemonName) exe = kDaemonName"

definition int_to_string :: "int \<Rightarrow> string" where
  "int_to_string i = (if i < 0 then CHR ''-'' # to_string (nat (- i)) else to_string (nat i))"

definition signalled_line :: "int \<Rightarrow> string" where
  "signalled_line pid = ''[gendb] signaled running signal2sip-daemon (pid '' @ int_to_string pid @ '') to reload now''"

definition signalDaemonBestEffort :: "gendb_env \<Rightarrow> GlobalConfig \<Rightarrow> (gendb, unit) effect" where
  "signalDaemonBestEffort e g w = (case gd_files w (pidFilePath g) of None \<Rightarrow> returnS () w
     | Some txt \<Rightarrow> let pid = read_pid txt in
         if pid \<le> 0 then returnS () w
         else case gc_exe e pid of None \<Rightarrow> returnS () w
           | Some exe \<Rightarrow> if exe = [] \<or> \<not> is_daemon_exe exe then returnS () w
               else if gc_kill e pid then say (signalled_line pid) (w\<lparr>gd_signalled := gd_signalled w @ [pid]\<rparr>)
               else returnS () w)"

fun say_all :: "string list \<Rightarrow> (gendb, unit) effect" where
  "say_all [] = returnS ()"
| "say_all (l # ls) = bindS (say l) (\<lambda>_. say_all ls)"

definition config_lines :: "AccountRecord \<Rightarrow> string list" where
  "config_lines a = map (\<lambda>f. cf_name f @ ''='' @ cf_get f a) configFields @
     [''enabled='' @ (if a_enabled a then ''yes'' else ''no''), ''config_version='' @ int_to_string (a_config_version a)]"

definition cmdConfigGet :: "gendb_env \<Rightarrow> GlobalConfig \<Rightarrow> string \<Rightarrow> string \<Rightarrow> (gendb, unit) effect" where
  "cmdConfigGet e g name field =
     bindS (open_account e g name (no_saved_account name)) (\<lambda>a.
       if field \<noteq> [] then bindS (liftR (\<lambda>_. findConfigField field)) (\<lambda>f. say (field @ ''='' @ cf_get f a))
       else say_all (config_lines a))"

definition cmdConfigSet :: "gendb_env \<Rightarrow> GlobalConfig \<Rightarrow> string \<Rightarrow> string \<Rightarrow> string \<Rightarrow> (gendb, unit) effect" where
  "cmdConfigSet e g name field val =
     bindS (open_account e g name (no_saved_account name)) (\<lambda>a.
     bindS (liftR (\<lambda>_. bindR (findConfigField field) (\<lambda>f. cf_set f val a))) (\<lambda>a.
     bindS (in_db g (updR (saveAccountConfig (gc_q e) name a))) (\<lambda>_.
     bindS (say (''[config] '' @ name @ '': '' @ field @ ''='' @ val)) (\<lambda>_.
       signalDaemonBestEffort e g))))"

definition cmdSetEnabled :: "gendb_env \<Rightarrow> GlobalConfig \<Rightarrow> string \<Rightarrow> bool \<Rightarrow> (gendb, unit) effect" where
  "cmdSetEnabled e g name enabled =
     bindS (open_account e g name (no_saved_account name)) (\<lambda>a.
     bindS (in_db g (updR (saveAccountConfig (gc_q e) name (a\<lparr>a_enabled := enabled\<rparr>)))) (\<lambda>_.
     bindS (say (''['' @ (if enabled then ''enable'' else ''disable'') @ ''] account '' @ quoted name @ '' is now '' @ (if enabled then ''enabled'' else ''disabled''))) (\<lambda>_.
       signalDaemonBestEffort e g)))"

definition summary_line :: "AccountSummary \<Rightarrow> string" where
  "summary_line s = s_account_name s @ [CHR 9] @ ''e164='' @ s_e164 s @ [CHR 9] @ (if s_enabled s then ''enabled'' else ''disabled'') @ [CHR 9] @
     ''config_version='' @ int_to_string (s_config_version s)"

definition cmdListAccounts :: "gendb_env \<Rightarrow> GlobalConfig \<Rightarrow> (gendb, unit) effect" where
  "cmdListAccounts e g w = (case listAllAccounts (gc_q e) (dbPath g) (dbKey g) (gd_disk w) of
       (Inl x, disk) \<Rightarrow> (Inl x, w\<lparr>gd_disk := disk\<rparr>)
     | (Inr ss, disk) \<Rightarrow> say_all (if ss = [] then [''(no accounts)''] else map summary_line ss) (w\<lparr>gd_disk := disk\<rparr>))"


section \<open>Removing accounts\<close>

definition cmdUnlink :: "gendb_env \<Rightarrow> GlobalConfig \<Rightarrow> string \<Rightarrow> (gendb, unit) effect" where
  "cmdUnlink e g name =
     bindS (open_account e g name (no_saved_account name @ '' - nothing to unlink'')) (\<lambda>_.
       in_db g (deleteAccount (gc_q e) name))"

text \<open>A request on the tool's own chat socket, and \<open>connect\<close>; \<open>socket.close()\<close> has no effect here.\<close>

definition gendb_request :: "gendb_env \<Rightarrow> request \<Rightarrow> (gendb, Response) effect" where
  "gendb_request e req w = (gc_server e (length (gd_requests w)) req, w\<lparr>gd_requests := gd_requests w @ [req]\<rparr>)"

definition disableRegistrationLockBestEffort :: "gendb_env \<Rightarrow> (gendb, unit) effect" where
  "disableRegistrationLockBestEffort e =
     catch_std (bindS (gendb_request e \<lparr>r_method = ''DELETE'', r_path = ''/v1/accounts/registration_lock'', r_body = None\<rparr>) (\<lambda>_. returnS ()))"

definition cmdDeleteAccount :: "gendb_env \<Rightarrow> GlobalConfig \<Rightarrow> string \<Rightarrow> (gendb, unit) effect" where
  "cmdDeleteAccount e g name =
     bindS (open_account e g name (no_saved_account name)) (\<lambda>_.
     bindS (liftR (\<lambda>_. gc_connect e)) (\<lambda>_.
     bindS (disableRegistrationLockBestEffort e) (\<lambda>_.
     bindS (gendb_request e \<lparr>r_method = ''DELETE'', r_path = ''/v1/accounts/me'', r_body = None\<rparr>) (\<lambda>r.
       if status r div 100 = 2 then in_db g (deleteAccount (gc_q e) name)
       else if status r = 0 then returnS ()
       else throwS (Runtime_error (''DELETE /v1/accounts/me failed with status '' @ to_string (status r)))))))"

definition capabilitiesJson :: json where
  "capabilitiesJson = JObj [(''attachmentBackfill'', JBool False), (''spqr'', JBool True), (''storage'', JBool False),
     (''usernameChangeSyncMessage'', JBool True), (''versionedExpirationTimer'', JBool False)]"

text \<open>\<open>encrypt_name\<close> is \<open>encryptDeviceName\<close> of this device's name.\<close>

definition device_name :: "gendb_env \<Rightarrow> (bytes \<Rightarrow> string result) \<Rightarrow> string \<Rightarrow> AccountRecord \<Rightarrow> db \<Rightarrow> json result" where
  "device_name e encrypt_name name a d =
     (if a_flow a = Some ''linked''
      then bindR (loadIdentityKeypair (gc_q e) name ''aci'' d) (\<lambda>kp. case kp of None \<Rightarrow> Inr JNull
        | Some k \<Rightarrow> bindR (encrypt_name (k_private_key k)) (\<lambda>n. Inr (JStr n)))
      else Inr JNull)"

definition fetches_body :: "bool \<Rightarrow> json \<Rightarrow> AccountRecord \<Rightarrow> json" where
  "fetches_body fetchesMessages nm a = JObj [(''capabilities'', capabilitiesJson), (''discoverableByPhoneNumber'', JBool True),
     (''fetchesMessages'', JBool fetchesMessages), (''name'', nm), (''pniRegistrationId'', JNum (a_pni_registration_id a)),
     (''registrationId'', JNum (a_registration_id a)), (''unrestrictedUnidentifiedAccess'', JBool True)]"

definition putFetchesMessages :: "gendb_env \<Rightarrow> (bytes \<Rightarrow> string result) \<Rightarrow> GlobalConfig \<Rightarrow> string \<Rightarrow> AccountRecord \<Rightarrow> bool \<Rightarrow> (gendb, unit) effect" where
  "putFetchesMessages e encrypt_name g name a fetchesMessages =
     bindS (liftR (\<lambda>_. gc_connect e)) (\<lambda>_.
     bindS (in_db g (liftR (device_name e encrypt_name name a))) (\<lambda>nm.
     bindS (gendb_request e \<lparr>r_method = ''PUT'', r_path = ''/v1/accounts/attributes/'', r_body = Some (fetches_body fetchesMessages nm a)\<rparr>) (\<lambda>r.
       if status r div 100 \<noteq> 2
       then throwS (Runtime_error (''PUT /v1/accounts/attributes/ failed with status '' @ to_string (status r)))
       else returnS ())))"

definition cmdDeactivate :: "gendb_env \<Rightarrow> (bytes \<Rightarrow> string result) \<Rightarrow> GlobalConfig \<Rightarrow> string \<Rightarrow> (gendb, unit) effect" where
  "cmdDeactivate e encrypt_name g name =
     bindS (open_account e g name (no_saved_account name)) (\<lambda>a. putFetchesMessages e encrypt_name g name a False)"

definition cmdReactivate :: "gendb_env \<Rightarrow> (bytes \<Rightarrow> string result) \<Rightarrow> GlobalConfig \<Rightarrow> string \<Rightarrow> (gendb, unit) effect" where
  "cmdReactivate e encrypt_name g name =
     bindS (open_account e g name (no_saved_account name)) (\<lambda>a. putFetchesMessages e encrypt_name g name a True)"

section \<open>Checks on new accounts\<close>

definition resolveAccount :: "DaemonConfig \<Rightarrow> string \<Rightarrow> AccountConfig option" where
  "resolveAccount cfg name = find (\<lambda>a. ac_name a = name) (dc_accounts cfg)"

definition requireNoExistingAccount :: "gendb_env \<Rightarrow> GlobalConfig \<Rightarrow> string \<Rightarrow> (gendb, unit) effect" where
  "requireNoExistingAccount e g name =
     bindS (in_db g (liftR (hasAccount (gc_q e) name))) (\<lambda>present.
       if present then throwS (Runtime_error (''account '' @ quoted name @
         '' already has a saved account in the database - use a different [account.<name>] section for a new number''))
       else returnS ())"

definition requireE164NotUsedByOtherAccount :: "DaemonConfig \<Rightarrow> string \<Rightarrow> string \<Rightarrow> unit result" where
  "requireE164NotUsedByOtherAccount cfg name e164 = (case find (\<lambda>a. ac_name a \<noteq> name \<and> ac_e164 a = e164) (dc_accounts cfg) of
       None \<Rightarrow> Inr ()
     | Some a \<Rightarrow> Inl (Runtime_error (''e164 '' @ e164 @ '' is already configured under a different account ('' @ quoted (ac_name a) @
         '') in this config - registering/linking it again here would re-register that number on the real Signal server, likely kicking the existing device off it'')))"

section \<open>Bootstrapping the configuration file\<close>

definition kDefaultDbPath :: string where
  "kDefaultDbPath = ''/var/lib/signal2sip/signal2sip.db''"

definition nl :: string where
  "nl = [CHR 10]"

definition bootstrap_text :: "bool \<Rightarrow> string \<Rightarrow> bool \<Rightarrow> string \<Rightarrow> string" where
  "bootstrap_text dbPathMissing path dbKeyMissing key =
     nl @ ''[global]'' @ nl @ (if dbPathMissing then ''db_path='' @ path @ nl else []) @ (if dbKeyMissing then ''db_key='' @ key @ nl else [])"

definition bootstrapGlobalConfigIfNeeded :: "gendb_env \<Rightarrow> string \<Rightarrow> (gendb, unit) effect" where
  "bootstrapGlobalConfigIfNeeded e configPath =
     bindS (liftR (\<lambda>w. loadGlobalConfigLenient (gd_files w) configPath)) (\<lambda>existing w.
       let dbPathMissing = (dbPath existing = []); dbKeyMissing = (dbKey existing = []);
           path = (if dbPathMissing then kDefaultDbPath else dbPath existing) in
       if \<not> dbPathMissing \<and> \<not> dbKeyMissing then returnS () w
       else if dbKeyMissing \<and> (gd_disk w path \<noteq> None \<or> gd_files w path \<noteq> None)
       then throwS (Runtime_error (''[global] db_key is missing in '' @ configPath @ '' but '' @ path @ '' already exists - refusing to invent a new passphrase for a database that '' @
              ''might already hold real data; set the correct db_key by hand instead'')) w
       else if \<not> gc_writable e configPath then throwS (Runtime_error (''cannot write to config file: '' @ configPath)) w
       else returnS () (w\<lparr>gd_files := (gd_files w)(configPath \<mapsto>
          (case gd_files w configPath of None \<Rightarrow> [] | Some s \<Rightarrow> s) @ bootstrap_text dbPathMissing path dbKeyMissing (base64NoPadding (gc_random e 32)))\<rparr>))"

section \<open>Saving a finished account\<close>

record FinishedAccount =
  fa_e164 :: string
  fa_aci :: string
  fa_pni :: string
  fa_password :: string
  fa_deviceId :: int
  fa_registrationId :: int
  fa_pniRegistrationId :: int
  fa_aciIdentity :: IdentityKeypairRecord
  fa_pniIdentity :: IdentityKeypairRecord
  fa_aciSigned :: PrekeyRecord
  fa_pniSigned :: PrekeyRecord
  fa_aciKyber :: PrekeyRecord
  fa_pniKyber :: PrekeyRecord
  fa_flow :: string
  fa_accountEntropyPool :: "string option"
  fa_mediaRootBackupKey :: "bytes option"
  fa_profileKey :: "bytes option"


definition finished_record :: "int \<Rightarrow> FinishedAccount \<Rightarrow> AccountRecord" where
  "finished_record now fa =
     \<lparr>a_e164 = fa_e164 fa, a_aci = fa_aci fa, a_pni = fa_pni fa, a_password = fa_password fa, a_device_id = fa_deviceId fa,
      a_registration_id = fa_registrationId fa, a_pni_registration_id = fa_pniRegistrationId fa, a_flow = Some (fa_flow fa),
      a_account_entropy_pool = fa_accountEntropyPool fa, a_media_root_backup_key = fa_mediaRootBackupKey fa, a_profile_key = fa_profileKey fa,
      a_registered_at = (if fa_flow fa = ''standalone'' then Some now else None), a_linked_at = (if fa_flow fa = ''standalone'' then None else Some now),
      a_prekeys_refreshed_at = None, a_server_url = [], a_sip_host = [], a_sip_extension = [], a_sip_password = [], a_sip_bridge_destination = [],
      a_sip_bridge_did = [], a_sip_srtp = ''disabled'', a_sip_transport = ''udp'', a_sip_tls_ca_file = [], a_sip_tls_insecure = False,
      a_outgoing_call_target = [], a_signal_proxy = [], a_signal_censorship_circumvention = False, a_enabled = True, a_config_version = 0\<rparr>"

definition saveFinishedAccount :: "sqlite \<Rightarrow> int \<Rightarrow> string \<Rightarrow> FinishedAccount \<Rightarrow> (db, unit) effect" where
  "saveFinishedAccount q now name fa =
     bindS (updR (saveAccount q name (finished_record now fa))) (\<lambda>_.
     bindS (updR (saveIdentityKeypair q name ''aci'' (fa_aciIdentity fa))) (\<lambda>_.
     bindS (updR (saveIdentityKeypair q name ''pni'' (fa_pniIdentity fa))) (\<lambda>_.
     bindS (updR (saveSignedPrekey q name ''aci'' (fa_aciSigned fa))) (\<lambda>_.
     bindS (updR (saveSignedPrekey q name ''pni'' (fa_pniSigned fa))) (\<lambda>_.
     bindS (updR (saveKyberPrekey q name ''aci'' (fa_aciKyber fa))) (\<lambda>_.
       updR (saveKyberPrekey q name ''pni'' (fa_pniKyber fa))))))))"


section \<open>Configuration fields\<close>

definition flag_names :: "string list" where
  "flag_names = [''sip_tls_insecure'', ''signal_censorship_circumvention'']"

definition normal_value :: "string \<Rightarrow> string \<Rightarrow> string" where
  "normal_value field v = (if field \<in> set flag_names then if v \<in> {''yes'', ''true'', ''1''} then ''yes'' else ''no'' else v)"

lemmas field_defs = configFields_def text_field_def choice_field_def flag_field_def

lemma configFields_names: "map cf_name configFields =
    [''server_url'', ''sip_host'', ''sip_extension'', ''sip_password'', ''sip_bridge_destination'', ''sip_bridge_did'', ''sip_srtp'',
     ''sip_transport'', ''sip_tls_ca_file'', ''sip_tls_insecure'', ''outgoing_call_target'', ''signal_proxy'', ''signal_censorship_circumvention'']"
  by (simp add: field_defs)

lemma findConfigField_Inr: "findConfigField name = Inr f \<longleftrightarrow> f \<in> set configFields \<and> cf_name f = name"
proof -
  have d: "distinct (map cf_name configFields)" unfolding configFields_names by simp
  have "find (\<lambda>f. cf_name f = name) configFields = Some f \<longleftrightarrow> f \<in> set configFields \<and> cf_name f = name"
    using d by (auto simp: find_Some_iff in_set_conv_nth distinct_conv_nth)
  then show ?thesis by (auto simp: findConfigField_def split: option.splits)
qed

text \<open>The value a field shows, by its name, and the record an accepted value leaves.\<close>

definition shown :: "string \<Rightarrow> AccountRecord \<Rightarrow> string" where
  "shown n a = (if n = ''server_url'' then a_server_url a else if n = ''sip_host'' then a_sip_host a else if n = ''sip_extension'' then a_sip_extension a
     else if n = ''sip_password'' then a_sip_password a else if n = ''sip_bridge_destination'' then a_sip_bridge_destination a
     else if n = ''sip_bridge_did'' then a_sip_bridge_did a else if n = ''sip_srtp'' then a_sip_srtp a else if n = ''sip_transport'' then a_sip_transport a
     else if n = ''sip_tls_ca_file'' then a_sip_tls_ca_file a else if n = ''sip_tls_insecure'' then (if a_sip_tls_insecure a then ''yes'' else ''no'')
     else if n = ''outgoing_call_target'' then a_outgoing_call_target a else if n = ''signal_proxy'' then a_signal_proxy a
     else if a_signal_censorship_circumvention a then ''yes'' else ''no'')"

lemma cf_get_shown: "f \<in> set configFields \<Longrightarrow> cf_get f a = shown (cf_name f) a"
  unfolding field_defs set_simps insert_iff empty_iff simp_thms by (elim disjE) (simp_all add: shown_def)

definition stored_as :: "string \<Rightarrow> string \<Rightarrow> AccountRecord \<Rightarrow> AccountRecord" where
  "stored_as n v a = (let b = (v = ''yes'' \<or> v = ''true'' \<or> v = ''1'') in
     if n = ''server_url'' then a\<lparr>a_server_url := v\<rparr> else if n = ''sip_host'' then a\<lparr>a_sip_host := v\<rparr> else if n = ''sip_extension'' then a\<lparr>a_sip_extension := v\<rparr>
     else if n = ''sip_password'' then a\<lparr>a_sip_password := v\<rparr> else if n = ''sip_bridge_destination'' then a\<lparr>a_sip_bridge_destination := v\<rparr>
     else if n = ''sip_bridge_did'' then a\<lparr>a_sip_bridge_did := v\<rparr> else if n = ''sip_srtp'' then a\<lparr>a_sip_srtp := v\<rparr> else if n = ''sip_transport'' then a\<lparr>a_sip_transport := v\<rparr>
     else if n = ''sip_tls_ca_file'' then a\<lparr>a_sip_tls_ca_file := v\<rparr> else if n = ''sip_tls_insecure'' then a\<lparr>a_sip_tls_insecure := b\<rparr>
     else if n = ''outgoing_call_target'' then a\<lparr>a_outgoing_call_target := v\<rparr> else if n = ''signal_proxy'' then a\<lparr>a_signal_proxy := v\<rparr>
     else a\<lparr>a_signal_censorship_circumvention := b\<rparr>)"

definition accepted :: "string \<Rightarrow> string \<Rightarrow> bool" where
  "accepted n v \<longleftrightarrow> (n = ''sip_srtp'' \<longrightarrow> v \<in> {''disabled'', ''optional'', ''mandatory''}) \<and> (n = ''sip_transport'' \<longrightarrow> v \<in> {''udp'', ''tls''})"

lemma cf_set_stored: "f \<in> set configFields \<Longrightarrow> cf_set f v a = Inr a' \<longleftrightarrow> accepted (cf_name f) v \<and> a' = stored_as (cf_name f) v a"
  unfolding field_defs set_simps insert_iff empty_iff simp_thms by (elim disjE) (auto simp: stored_as_def accepted_def)

lemma shown_stored: "n \<in> set (map cf_name configFields) \<Longrightarrow> shown m (stored_as n v a) = (if m = n then normal_value n v else shown m a)"
  if "m \<in> set (map cf_name configFields)"
  using that unfolding configFields_names set_simps insert_iff empty_iff simp_thms
  by (elim disjE) (simp_all add: stored_as_def shown_def normal_value_def flag_names_def Let_def)

lemma stored_shown: "n \<in> set (map cf_name configFields) \<Longrightarrow> stored_as n (normal_value n v) (stored_as n v a) = stored_as n v a"
  unfolding configFields_names set_simps insert_iff empty_iff simp_thms
  by (elim disjE) (simp_all add: stored_as_def normal_value_def flag_names_def Let_def)

lemma stored_frame: "default_config (stored_as n v a) = default_config a \<and> a_enabled (stored_as n v a) = a_enabled a \<and>
    a_config_version (stored_as n v a) = a_config_version a"
  by (simp add: stored_as_def default_config_def Let_def)

text \<open>
  The configuration fields are independent of each other and of everything else in an account: what \<open>config set\<close> stores under a
  field is what \<open>config get\<close> shows under it (flags as yes or no), every other field, the identity and
  the enabled flag stay as they were, and setting a field to what it shows changes nothing.
\<close>

theorem config_fields_independent:
  assumes "findConfigField field = Inr f" "cf_set f v a = Inr a'"
  shows "cf_get f a' = normal_value field v \<and> cf_set f (cf_get f a') a' = Inr a' \<and>
    (\<forall>f' \<in> set configFields. cf_name f' \<noteq> field \<longrightarrow> cf_get f' a' = cf_get f' a) \<and>
    default_config a' = default_config a \<and> a_enabled a' = a_enabled a \<and> a_config_version a' = a_config_version a"
proof -
  have f: "f \<in> set configFields" "cf_name f = field" using assms(1) by (simp_all add: findConfigField_Inr)
  have n: "field \<in> set (map cf_name configFields)" using f by auto
  have a': "accepted field v" "a' = stored_as field v a" using cf_set_stored [OF f(1)] assms(2) f(2) by auto
  have "accepted field (normal_value field v)" using a'(1) by (auto simp: accepted_def normal_value_def flag_names_def)
  then have "cf_set f (cf_get f a') a' = Inr a'"
    using cf_set_stored [OF f(1)] cf_get_shown [OF f(1)] f(2) a'(2) n by (simp add: shown_stored stored_shown)
  then show ?thesis
    using cf_get_shown f n a'(2) stored_frame by (auto simp: shown_stored)
qed

theorem config_fields_independent_witness:
  "\<exists>f a'. findConfigField ''sip_srtp'' = Inr f \<and> cf_set f ''optional'' sample_account = Inr a' \<and> cf_get f a' = ''optional''"
proof -
  obtain f where f: "findConfigField ''sip_srtp'' = Inr f" by (simp add: findConfigField_def field_defs)
  have "\<exists>a'. cf_set f ''optional'' sample_account = Inr a'"
    using f by (auto simp: findConfigField_Inr field_defs)
  then obtain a' where a': "cf_set f ''optional'' sample_account = Inr a'" by blast
  from config_fields_independent [OF f a'] f a' show ?thesis by (auto simp: normal_value_def flag_names_def)
qed

end
