(* ===== verification/GendbSafety.thy ===== *)
theory GendbSafety
  imports Gendb "HOL-Library.Sublist"
begin

text \<open>
  What the commands of \<open>gendb\<close> do to the database and to the configuration file.
\<close>

section \<open>Commands on an account\<close>

lemma open_account_frame:
  assumes "open_account e g name c w = (x, w')"
  shows "gd_files w' = gd_files w \<and> gd_requests w' = gd_requests w \<and> gd_signalled w' = gd_signalled w \<and> gd_out w' = gd_out w \<and>
    gd_disk w' = snd (Storage (gc_q e) (dbPath g) (dbKey g) (gd_disk w))"
  using assms
  by (auto simp: open_account_def open_storage_def in_db_def liftR_def fun_upd_idem elim!: bindS_cases
      split: prod.splits option.splits if_splits)

lemma open_account_loaded:
  assumes "open_account e g name c w = (Inr a, w')"
  shows "\<exists>f. gd_disk w' (dbPath g) = Some f \<and> loadAccount (gc_q e) name (f_db f) = Inr a"
  using assms
  by (auto simp: open_account_def in_db_def liftR_def elim!: bindS_cases split: prod.splits option.splits if_splits)

lemma disableRegistrationLock_frame:
  assumes "disableRegistrationLockBestEffort e w = (x, w')"
  shows "gd_disk w' = gd_disk w \<and> gd_files w' = gd_files w \<and>
    gd_requests w' = gd_requests w @ [\<lparr>r_method = ''DELETE'', r_path = ''/v1/accounts/registration_lock'', r_body = None\<rparr>]"
  using assms by (auto simp: disableRegistrationLockBestEffort_def catch_std_def gendb_request_def bindS_def split: prod.splits sum.splits if_splits)

text \<open>
  C26: \<open>delete-account\<close> never throws local data away on a guess. Unless Signal's server has answered the deletion with a success
  status, the database is exactly as opening it left it: when the connection fails, when the request gets no answer (the ambiguous
  status 0), when the server refuses, and when there is no such account. And the deletion is asked for at most once, after the registration lock.
\<close>

theorem delete_account_only_confirmed:
  assumes "cmdDeleteAccount e g name w = (x, w')"
  shows "(gd_disk w' = snd (Storage (gc_q e) (dbPath g) (dbKey g) (gd_disk w)) \<or>
      (\<exists>n r. gc_server e n \<lparr>r_method = ''DELETE'', r_path = ''/v1/accounts/me'', r_body = None\<rparr> = Inr r \<and> status r div 100 = 2)) \<and>
    prefix (gd_requests w') (gd_requests w @ [\<lparr>r_method = ''DELETE'', r_path = ''/v1/accounts/registration_lock'', r_body = None\<rparr>,
      \<lparr>r_method = ''DELETE'', r_path = ''/v1/accounts/me'', r_body = None\<rparr>])"
  using assms unfolding cmdDeleteAccount_def
  by (auto simp: liftR_def gendb_request_def in_db_def elim!: bindS_cases dest!: open_account_frame disableRegistrationLock_frame
      split: if_splits option.splits prod.splits)


text \<open>A tool whose machine works, on a disk with one account.\<close>

definition calm :: gendb_env where
  "calm = \<lparr>gc_q = no_faults, gc_exe = (\<lambda>_. None), gc_kill = (\<lambda>_. True), gc_writable = (\<lambda>_. True), gc_random = (\<lambda>n. replicate n 7), gc_connect = Inr (),
     gc_server = (\<lambda>n _. if n = 1 then Inr \<lparr>status = 0, body = []\<rparr> else Inr \<lparr>status = 204, body = []\<rparr>)\<rparr>"

definition one_world :: gendb where
  "one_world = \<lparr>gd_files = Map.empty, gd_disk = sample_disk, gd_requests = [], gd_signalled = [], gd_out = []\<rparr>"

lemma one_world_opens: "Storage no_faults (dbPath sample_global) (dbKey sample_global) sample_disk = (Inr (), sample_disk)"
  unfolding Storage_def
  by (rule open_current [where f = "\<lparr>f_key = ''k'', f_db = one_account\<rparr>"]) (simp_all add: sample_disk_def sample_global_def db_current_one_account)

theorem delete_account_only_confirmed_witness:
  "gd_disk (snd (cmdDeleteAccount (calm\<lparr>gc_connect := Inl (Runtime_error ''no route'')\<rparr>) sample_global ''a'' one_world)) = sample_disk \<or>
   (\<exists>n r. gc_server calm n \<lparr>r_method = ''DELETE'', r_path = ''/v1/accounts/me'', r_body = None\<rparr> = Inr r \<and> status r div 100 = 2)"
  using delete_account_only_confirmed [of "calm\<lparr>gc_connect := Inl (Runtime_error ''no route'')\<rparr>" sample_global "''a''" one_world
      "fst (cmdDeleteAccount (calm\<lparr>gc_connect := Inl (Runtime_error ''no route'')\<rparr>) sample_global ''a'' one_world)"
      "snd (cmdDeleteAccount (calm\<lparr>gc_connect := Inl (Runtime_error ''no route'')\<rparr>) sample_global ''a'' one_world)"] one_world_opens
  by (simp add: calm_def one_world_def)

text \<open>What a successful \<open>config set\<close>, \<open>enable\<close> or \<open>disable\<close> leaves in the database.\<close>

lemma signal_frame:
  assumes "signalDaemonBestEffort e g w = (x, w')"
  shows "x = Inr () \<and> gd_disk w' = gd_disk w \<and> gd_files w' = gd_files w"
  using assms by (auto simp: signalDaemonBestEffort_def say_def Let_def split: option.splits if_splits)

lemma in_db_updR:
  assumes "in_db g (updR m) w = (Inr u, w')"
  shows "\<exists>f d. gd_disk w (dbPath g) = Some f \<and> m (f_db f) = Inr d \<and> w' = w\<lparr>gd_disk := (gd_disk w)(dbPath g \<mapsto> f\<lparr>f_db := d\<rparr>)\<rparr>"
  using assms by (auto simp: in_db_def updR_def split: option.splits sum.splits prod.splits)

lemma config_set_run:
  assumes "cmdConfigSet e g name field v w = (Inr (), w')"
  shows "\<exists>f0 a fld a' d. snd (Storage (gc_q e) (dbPath g) (dbKey g) (gd_disk w)) (dbPath g) = Some f0 \<and> loadAccount (gc_q e) name (f_db f0) = Inr a \<and>
     findConfigField field = Inr fld \<and> cf_set fld v a = Inr a' \<and> saveAccountConfig (gc_q e) name a' (f_db f0) = Inr d \<and>
     gd_disk w' = (snd (Storage (gc_q e) (dbPath g) (dbKey g) (gd_disk w)))(dbPath g \<mapsto> f0\<lparr>f_db := d\<rparr>)"
proof -
  from assms obtain a w1 a' w2 where r: "open_account e g name (no_saved_account name) w = (Inr a, w1)"
    "bindR (findConfigField field) (\<lambda>f. cf_set f v a) = Inr a'" "in_db g (updR (saveAccountConfig (gc_q e) name a')) w1 = (Inr (), w2)"
    "signalDaemonBestEffort e g (w2\<lparr>gd_out := gd_out w2 @ [''[config] '' @ name @ '': '' @ field @ ''='' @ v]\<rparr>) = (Inr (), w')"
    unfolding cmdConfigSet_def by (auto simp: liftR_def say_def elim!: bindS_cases)
  obtain fld where fld: "findConfigField field = Inr fld" "cf_set fld v a = Inr a'" using r(2) by (auto simp: bindR_Inr_iff)
  obtain f0 where f0: "gd_disk w1 (dbPath g) = Some f0" "loadAccount (gc_q e) name (f_db f0) = Inr a" using open_account_loaded [OF r(1)] by blast
  obtain d where d: "saveAccountConfig (gc_q e) name a' (f_db f0) = Inr d" "gd_disk w2 = (gd_disk w1)(dbPath g \<mapsto> f0\<lparr>f_db := d\<rparr>)"
    using in_db_updR [OF r(3)] f0(1) by auto
  show ?thesis
    using f0 fld d open_account_frame [OF r(1)] signal_frame [OF r(4)] by auto
qed

lemma config_set_result:
  assumes "cmdConfigSet e g name field v w = (Inr (), w')" "Sql.readable (gc_q e) ''loadAccount''"
    "Storage (gc_q e) (dbPath g) (dbKey g) (gd_disk w) = (Inr (), gd_disk w)" "other \<noteq> name"
  shows "\<exists>f f' fld a a'. gd_disk w (dbPath g) = Some f \<and> gd_disk w' (dbPath g) = Some f' \<and> f_key f' = f_key f \<and>
    loadAccount (gc_q e) name (f_db f) = Inr a \<and> loadAccount (gc_q e) name (f_db f') = Inr a' \<and> findConfigField field = Inr fld \<and>
    cf_get fld a' = normal_value field v \<and> a_config_version a' = a_config_version a + 1 \<and> a_enabled a' = a_enabled a \<and>
    default_config a' = default_config a \<and> (\<forall>f2 \<in> set configFields. cf_name f2 \<noteq> field \<longrightarrow> cf_get f2 a' = cf_get f2 a) \<and>
    loadAccount (gc_q e) other (f_db f') = loadAccount (gc_q e) other (f_db f)"
proof -
  obtain f0 a fld a1 d where r: "gd_disk w (dbPath g) = Some f0" "loadAccount (gc_q e) name (f_db f0) = Inr a"
     "findConfigField field = Inr fld" "cf_set fld v a = Inr a1" "saveAccountConfig (gc_q e) name a1 (f_db f0) = Inr d"
     "gd_disk w' = (gd_disk w)(dbPath g \<mapsto> f0\<lparr>f_db := d\<rparr>)"
    using config_set_run [OF assms(1)] assms(3) by auto
  have fld: "fld \<in> set configFields" "cf_name fld = field" using r(3) by (simp_all add: findConfigField_Inr)
  have n: "field \<in> set (map cf_name configFields)" using fld by auto
  have a1: "a1 = stored_as field v a" using cf_set_stored [OF fld(1)] r(4) fld(2) by auto
  note sr = saveAccountConfig_row [OF r(5)]
  then obtain row where row: "account_row name (f_db f0) = Some row" "account_row name d = Some (config_update a1 row)" by blast
  have a: "a = account_of_row row" using r(2) row(1) sr assms(2) by (simp add: loadAccount_row)
  define a' where "a' = with_config a (a1\<lparr>a_config_version := a_config_version a + 1\<rparr>)"
  have la': "loadAccount (gc_q e) name d = Inr a'" using row(2) sr assms(2) by (simp add: loadAccount_row account_of_config a'_def a)
  have oth: "loadAccount (gc_q e) other d = loadAccount (gc_q e) other (f_db f0)" using sr assms(2,4) by (simp add: loadAccount_row)
  have sh: "shown m a' = shown m a1" for m by (simp add: shown_def a'_def with_config_def)
  have "a_config_version a' = a_config_version a + 1" "a_enabled a' = a_enabled a" "default_config a' = default_config a"
    using stored_frame [of field v a] by (simp_all add: a'_def with_config_def a1 default_config_def)
  moreover have "cf_get fld a' = normal_value field v" "\<forall>f2 \<in> set configFields. cf_name f2 \<noteq> field \<longrightarrow> cf_get f2 a' = cf_get f2 a"
    using fld n by (auto simp: cf_get_shown sh a1 shown_stored)
  ultimately show ?thesis using r(1,2,3,6) la' oth by auto
qed

text \<open>
  A setting changed with \<open>config set\<close> is in the database exactly as given, under a higher \<open>config_version\<close> (which is what makes a
  running daemon rebuild the account), and nothing else of this or any other account has changed.
\<close>

theorem config_set_persists:
  assumes "cmdConfigSet e g name field v w = (Inr (), w')" "Sql.readable (gc_q e) ''loadAccount''"
    "Storage (gc_q e) (dbPath g) (dbKey g) (gd_disk w) = (Inr (), gd_disk w)" "other \<noteq> name"
  shows "\<exists>f f' fld a a'. gd_disk w (dbPath g) = Some f \<and> gd_disk w' (dbPath g) = Some f' \<and> f_key f' = f_key f \<and>
    loadAccount (gc_q e) name (f_db f) = Inr a \<and> loadAccount (gc_q e) name (f_db f') = Inr a' \<and> findConfigField field = Inr fld \<and>
    cf_get fld a' = normal_value field v \<and> a_config_version a' = a_config_version a + 1 \<and> a_enabled a' = a_enabled a \<and>
    default_config a' = default_config a \<and> (\<forall>f2 \<in> set configFields. cf_name f2 \<noteq> field \<longrightarrow> cf_get f2 a' = cf_get f2 a) \<and>
    loadAccount (gc_q e) other (f_db f') = loadAccount (gc_q e) other (f_db f)"
  by (rule config_set_result [OF assms])

lemma one_account_tab: "tabs one_account ''account'' \<noteq> None"
  by (rule db_current_account [OF db_current_one_account])

lemma one_account_loaded: "loadAccount no_faults ''a'' one_account = Inr (default_config sample_account)"
  using one_account_tab by (simp add: loadAccount_row account_row_def one_account_rows account_of_new_row)

lemma open_one: "open_account calm sample_global ''a'' c one_world = (Inr (default_config sample_account), one_world)"
proof -
  have "sample_disk ''p'' = Some \<lparr>f_key = ''k'', f_db = one_account\<rparr>" by (simp add: sample_disk_def)
  moreover have "hasAccount no_faults ''a'' one_account = Inr True"
    using one_account_tab by (simp add: hasAccount_def Stmt_def one_account_rows)
  ultimately show ?thesis
    using one_world_opens one_account_loaded
    by (simp add: open_account_def open_storage_def in_db_def liftR_def bindS_def calm_def one_world_def sample_global_def fun_upd_idem)
qed

lemma one_world_sel [simp]:
  "gc_q calm = no_faults" "dbPath sample_global = ''p''" "gd_disk one_world ''p'' = Some \<lparr>f_key = ''k'', f_db = one_account\<rparr>"
  "gd_files one_world x = None"
  by (simp_all add: calm_def sample_global_def one_world_def sample_disk_def)

lemma config_set_runs: "fst (cmdConfigSet calm sample_global ''a'' ''sip_host'' ''pbx2'' one_world) = Inr ()"
proof -
  obtain fld where fld: "findConfigField ''sip_host'' = Inr fld" by (simp add: findConfigField_def field_defs)
  then have st: "cf_set fld ''pbx2'' a = Inr (stored_as ''sip_host'' ''pbx2'' a)" for a
    using cf_set_stored [of fld] by (auto simp: findConfigField_Inr accepted_def)
  obtain d where "saveAccountConfig no_faults ''a'' (stored_as ''sip_host'' ''pbx2'' (default_config sample_account)) one_account = Inr d"
    using one_account_tab by (simp add: saveAccountConfig_def run_write_def Stmt_def one_account_rows Let_def)
  then show ?thesis
    using fld st by (simp add: cmdConfigSet_def bindS_def open_one liftR_def in_db_def updR_def say_def signalDaemonBestEffort_def)
qed

theorem config_set_persists_witness:
  "\<exists>f' a'. gd_disk (snd (cmdConfigSet calm sample_global ''a'' ''sip_host'' ''pbx2'' one_world)) ''p'' = Some f' \<and>
     loadAccount no_faults ''a'' (f_db f') = Inr a' \<and> a_sip_host a' = ''pbx2''"
proof -
  obtain w' where w': "cmdConfigSet calm sample_global ''a'' ''sip_host'' ''pbx2'' one_world = (Inr (), w')"
    using config_set_runs by (metis prod.collapse)
  from config_set_persists [OF w', of "''b''"] obtain f' fld a' where
    "gd_disk w' ''p'' = Some f'" "loadAccount no_faults ''a'' (f_db f') = Inr a'" "findConfigField ''sip_host'' = Inr fld"
    "cf_get fld a' = normal_value ''sip_host'' ''pbx2''"
    using one_world_opens by (auto simp: calm_def one_world_def Sql.readable_def sample_global_def)
  then show ?thesis
    using w' cf_get_shown [of fld a'] by (auto simp: findConfigField_Inr shown_def normal_value_def flag_names_def)
qed

section \<open>Captcha tokens\<close>

lemma trim_nonblank: "s \<noteq> [] \<Longrightarrow> \<not> is_blank (hd s) \<Longrightarrow> \<not> is_blank (last s) \<Longrightarrow> trim (ws @ s @ ws') = s"
  if "\<forall>c \<in> set ws. is_blank c" "\<forall>c \<in> set ws'. is_blank c"
proof -
  assume s: "s \<noteq> []" "\<not> is_blank (hd s)" "\<not> is_blank (last s)"
  have "dropWhile is_blank (ws @ s @ ws') = s @ ws'"
    using that(1) s by (cases s) (auto simp: dropWhile_append3)
  moreover have "dropWhile is_blank (rev ws' @ rev s) = rev s"
    using that(2) s by (cases "rev s") (auto simp: dropWhile_append3 hd_rev [symmetric])
  ultimately show ?thesis by (simp add: trim_def)
qed

definition quotes :: "string set" where
  "quotes = {[], [CHR 0x22], [CHR 0x27]}"

definition token_chars :: "string \<Rightarrow> bool" where
  "token_chars t \<longleftrightarrow> t \<noteq> [] \<and> (\<forall>c \<in> set t. \<not> is_blank c \<and> c \<noteq> CHR 0x22 \<and> c \<noteq> CHR 0x27 \<and> c \<noteq> CHR '':'') \<and> last t \<noteq> CHR ''/''"

text \<open>
  However a captcha token was copied, the token is what is submitted: white space around it, one pair of quotes, white space inside
  them, the \<open>signalcaptcha://\<close> scheme and trailing slashes are all removed, and nothing else.
\<close>

theorem captcha_token_cleaned:
  assumes "token_chars t" "pre \<in> {[], ''signalcaptcha://''}" "q \<in> quotes" "\<forall>c \<in> set w1 \<union> set w2 \<union> set w3 \<union> set w4. is_blank c"
  shows "cleanCaptchaToken (w1 @ q @ (if q = [] then [] else w2) @ pre @ t @ replicate n (CHR ''/'') @ (if q = [] then [] else w3) @ q @ w4) = t"
proof -
  let ?core = "pre @ t @ replicate n (CHR ''/'')"
  define sch where "sch = ''signalcaptcha://''"
  have t: "t \<noteq> []" "\<forall>c \<in> set t. \<not> is_blank c \<and> c \<noteq> CHR 0x22 \<and> c \<noteq> CHR 0x27" "last t \<noteq> CHR ''/''" "CHR '':'' \<notin> set t"
    using assms(1) by (auto simp: token_chars_def)
  have core: "?core \<noteq> []" "\<forall>c \<in> set ?core. \<not> is_blank c \<and> c \<noteq> CHR 0x22 \<and> c \<noteq> CHR 0x27"
  proof -
    have "\<forall>c \<in> set pre. \<not> is_blank c \<and> c \<noteq> CHR 0x22 \<and> c \<noteq> CHR 0x27" using assms(2) by (elim insertE emptyE) (simp_all add: is_blank_def)
    moreover have "\<not> is_blank (CHR ''/'')" by (simp add: is_blank_def)
    moreover have "set (replicate n (CHR ''/'')) \<subseteq> {CHR ''/''}" by (simp add: set_replicate_conv_if)
    ultimately show "?core \<noteq> []" "\<forall>c \<in> set ?core. \<not> is_blank c \<and> c \<noteq> CHR 0x22 \<and> c \<noteq> CHR 0x27"
      using t(1,2) unfolding set_append ball_Un by (simp, simp add: subset_iff)
  qed
  then have ends: "\<not> is_blank (hd ?core)" "\<not> is_blank (last ?core)" "hd ?core \<noteq> CHR 0x22" "hd ?core \<noteq> CHR 0x27"
    using hd_in_set [OF core(1)] last_in_set [OF core(1)] by blast+
  have un: "trim (unquote (trim (w1 @ q @ (if q = [] then [] else w2) @ ?core @ (if q = [] then [] else w3) @ q @ w4))) = ?core"
  proof (cases "q = []")
    case True
    have "trim (w1 @ ?core @ w4) = ?core" using assms(4) ends core by (intro trim_nonblank) auto
    moreover have "unquote ?core = ?core" using ends(3,4) by (simp add: unquote_def)
    moreover have "trim ?core = ?core" using ends core(1) by (intro trim_id) simp
    ultimately show ?thesis using True by simp
  next
    case False
    then obtain c where q: "q = [c]" "c = CHR 0x22 \<or> c = CHR 0x27" using assms(3) by (auto simp: quotes_def)
    then have c: "\<not> is_blank c" by (auto simp: is_blank_def)
    let ?inner = "[c] @ w2 @ ?core @ w3 @ [c]"
    have "trim (w1 @ ?inner @ w4) = ?inner"
      using assms(4) c by (intro trim_nonblank) auto
    moreover have "unquote ?inner = w2 @ ?core @ w3" using q(2) by (auto simp: unquote_def butlast_append)
    moreover have "trim (w2 @ ?core @ w3) = ?core" using assms(4) ends core by (intro trim_nonblank) auto
    ultimately show ?thesis using q by simp
  qed
  have strip: "rev (dropWhile (\<lambda>c. c = CHR ''/'') (rev (t @ replicate n (CHR ''/'')))) = t"
    using t(1,3) by (cases "rev t") (auto simp: dropWhile_append3 hd_rev [symmetric])
  have no: "take (length sch) (t @ replicate n (CHR ''/'')) \<noteq> sch"
  proof
    assume eq: "take (length sch) (t @ replicate n (CHR ''/'')) = sch"
    have "CHR '':'' \<in> set sch" by (simp add: sch_def)
    then have "CHR '':'' \<in> set (t @ replicate n (CHR ''/''))" by (metis eq in_set_takeD)
    then show False using t(4) by (auto split: if_splits)
  qed
  have "pre = [] \<or> pre = sch" using assms(2) by (auto simp: sch_def)
  then have "(let tok = ?core; pre' = sch;
        tok = (if take (length pre') tok = pre' then drop (length pre') tok else tok) in rev (dropWhile (\<lambda>c. c = CHR ''/'') (rev tok))) = t"
  proof (elim disjE)
    show ?thesis if "pre = []" using that strip no by (simp only: Let_def append_Nil if_False)
    show ?thesis if "pre = sch" using that strip by (simp add: Let_def del: rev_append)
  qed
  then show ?thesis
    unfolding cleanCaptchaToken_def un [simplified append_assoc] sch_def using un by (simp only: Let_def append_assoc)
qed


theorem captcha_token_cleaned_witness:
  "cleanCaptchaToken ('' '' @ [CHR 0x22] @ ''signalcaptcha://tok.1/'' @ [CHR 0x22, CHR 10]) = ''tok.1''"
  using captcha_token_cleaned [of "''tok.1''" "''signalcaptcha://''" "[CHR 0x22]" "'' ''" "[]" "[]" "[CHR 10]" 1]
  by (simp add: token_chars_def quotes_def is_blank_def)

section \<open>Bootstrapping\<close>

lemma getlines_append_nl:
  "\<exists>pad. (pad = [] \<or> pad = [[]]) \<and> getlines cur (s @ CHR 10 # t) = getlines cur s @ pad @ getlines [] t"
proof (induction s arbitrary: cur)
  case Nil
  show ?case by (cases "cur = []") auto
next
  case (Cons c s)
  show ?case using Cons.IH [of "[]"] Cons.IH [of "cur @ [c]"] by auto
qed

lemma parse_blank: "parse_line [] st = st"
  by (simp add: parse_line_def trim_def Let_def split: prod.split)

lemma parse_lines_append_nl: "fold parse_line (lines_of (s @ CHR 10 # t)) st = fold parse_line (lines_of t) (fold parse_line (lines_of s) st)"
  using getlines_append_nl [of "[]" s t] by (auto simp: lines_of_def parse_blank)

lemma parse_tight:
  assumes "clean_key k" "clean v" "v \<noteq> []"
  shows "parse_line (k @ CHR ''='' # v) (sec, m) = (sec, ini_put sec k v m)"
proof -
  have k: "k \<noteq> []" "\<not> is_blank (hd k)" "CHR ''='' \<notin> set k" "trim k = k"
    using assms(1) trim_blank_ends [of k] by (auto simp: clean_key_def clean_def)
  have "\<not> is_blank (last v)" "trim v = v" using assms(2,3) trim_blank_ends [of v] by (auto simp: clean_def)
  then have t: "trim (k @ CHR ''='' # v) = k @ CHR ''='' # v" using k assms(3) by (intro trim_id) simp
  have tk: "takeWhile (\<lambda>c. c \<noteq> CHR ''='') (k @ CHR ''='' # v) = k" "dropWhile (\<lambda>c. c \<noteq> CHR ''='') (k @ CHR ''='' # v) = CHR ''='' # v"
    using k(3) by (auto simp: takeWhile_append dropWhile_append)
  have "hd (k @ CHR ''='' # v) = hd k" using k(1) by simp
  moreover have "hd k \<notin> {CHR '';'', CHR ''#'', CHR ''[''}" using assms(1) by (simp add: clean_key_def)
  ultimately show ?thesis using tk t k(1,4) \<open>trim v = v\<close> by (simp add: parse_line_def Let_def)
qed

lemma parse_global_header: "parse_line ''[global]'' (sec, m) = (''global'', m)"
proof -
  have "trim ''[global]'' = ''[global]''" by (rule trim_id) (simp add: is_blank_def)
  then show ?thesis by (simp add: parse_line_def Let_def)
qed

lemma base64NoPadding_clean:
  assumes "ks \<noteq> []"
  shows "clean (base64NoPadding ks) \<and> base64NoPadding ks \<noteq> []"
proof -
  obtain bd k where b: "base64Encode ks = bd @ replicate k (CHR ''='')" "set bd \<subseteq> set kAlphabet"
    "k = (3 - length ks mod 3) mod 3" "length (base64Encode ks) = (length ks + 2) div 3 * 4"
    using base64Encode_shape by blast
  have al: "\<forall>c \<in> set kAlphabet. \<not> is_blank c \<and> c \<noteq> CHR ''=''" by (simp add: kAlphabet_def is_blank_def)
  have "length bd = (length ks + 2) div 3 * 4 - k" "k < 3" using b by (simp_all, metis length_append length_replicate add_diff_cancel_right')
  moreover have "(length ks + 2) div 3 * 4 \<ge> 4" using assms by (cases ks) auto
  ultimately have "bd \<noteq> []" by auto
  moreover have "base64NoPadding ks = bd"
    using al b(1,2) \<open>bd \<noteq> []\<close> by (cases "rev bd") (auto simp: base64NoPadding_def dropWhile_append3)
  moreover have "clean bd"
    unfolding clean_def
  proof
    have "is_blank (CHR 10)" by (simp add: is_blank_def)
    then show "CHR 10 \<notin> set bd" using al b(2) by blast
    have "hd bd \<in> set kAlphabet" "last bd \<in> set kAlphabet" using b(2) \<open>bd \<noteq> []\<close> by auto
    then show "trim bd = bd" using al by (intro trim_id) simp
  qed
  ultimately show ?thesis by simp
qed


lemma parse_bootstrap:
  assumes "clean path" "path \<noteq> []" "clean key" "key \<noteq> []"
  shows "parse_text (old @ bootstrap_text p path k key) =
    (let m = parse_text old; m = (if p then ini_put ''global'' ''db_path'' path m else m) in if k then ini_put ''global'' ''db_key'' key m else m)"
proof -
  let ?rest = "(if p then ''db_path='' @ path @ nl else []) @ (if k then ''db_key='' @ key @ nl else [])"
  have keys: "clean_key ''db_path''" "clean_key ''db_key''" by (simp_all add: clean_key_def clean_def trim_def is_blank_def)
  have lp: "lines_of (''db_path='' @ path @ nl @ s) = (''db_path='' @ path) # lines_of s" for s
    using lines_of_line [of "''db_path='' @ path" s] assms(1) by (simp add: nl_def clean_def)
  have lk: "lines_of (''db_key='' @ key @ nl @ s) = (''db_key='' @ key) # lines_of s" for s
    using lines_of_line [of "''db_key='' @ key" s] assms(3) by (simp add: nl_def clean_def)
  have lh: "lines_of (''[global]'' @ nl @ s) = ''[global]'' # lines_of s" for s
    using lines_of_line [of "''[global]''" s] by (simp add: nl_def)
  have pp: "parse_line (''db_path='' @ path) (''global'', m) = (''global'', ini_put ''global'' ''db_path'' path m)" for m
    using parse_tight [OF keys(1) assms(1,2), of "''global''" m] by simp
  have pk: "parse_line (''db_key='' @ key) (''global'', m) = (''global'', ini_put ''global'' ''db_key'' key m)" for m
    using parse_tight [OF keys(2) assms(3,4), of "''global''" m] by simp
  obtain sec m where st: "fold parse_line (lines_of old) ([], Map.empty) = (sec, m)" by (meson surj_pair)
  have "fold parse_line (lines_of (old @ bootstrap_text p path k key)) ([], Map.empty) = fold parse_line (lines_of ?rest) (''global'', m)"
  proof -
    have "bootstrap_text p path k key = CHR 10 # (''[global]'' @ nl @ ?rest)" by (simp add: bootstrap_text_def nl_def)
    then show ?thesis by (simp only: parse_lines_append_nl lh st fold_simps parse_global_header)
  qed
  moreover have "fold parse_line (lines_of ?rest) (''global'', m) =
      (''global'', let m = (if p then ini_put ''global'' ''db_path'' path m else m) in if k then ini_put ''global'' ''db_key'' key m else m)"
    using lp [of "if k then ''db_key='' @ key @ nl else []"] lp [of "[]"] lk [of "[]"] pp pk by (cases p; cases k) (simp_all add: Let_def)
  ultimately show ?thesis using st by (simp add: parse_text_def)
qed

lemma kDefaultDbPath_clean: "clean kDefaultDbPath \<and> kDefaultDbPath \<noteq> []"
  by (simp add: kDefaultDbPath_def clean_def trim_def is_blank_def)

text \<open>
  A first run leaves a configuration that works and never endangers data. When bootstrapping succeeds, both settings can be
  read back: a path or key that was already configured unchanged, a missing path as the default, a missing key as the one just generated. A key
  is invented only for a database that does not exist yet, a second run changes nothing, and no other file is touched.
\<close>

theorem bootstrap_sound:
  assumes "bootstrapGlobalConfigIfNeeded e path w = (Inr (), w')" "loadGlobalConfigLenient (gd_files w) path = Inr old" "gc_random e 32 \<noteq> []"
  shows "\<exists>new. loadGlobalConfigLenient (gd_files w') path = Inr new \<and>
    dbPath new = (if dbPath old = [] then kDefaultDbPath else dbPath old) \<and>
    dbKey new = (if dbKey old = [] then base64NoPadding (gc_random e 32) else dbKey old) \<and>
    (dbKey old = [] \<longrightarrow> gd_disk w (dbPath new) = None) \<and>
    bootstrapGlobalConfigIfNeeded e path w' = (Inr (), w') \<and> gd_disk w' = gd_disk w \<and> (\<forall>p. p \<noteq> path \<longrightarrow> gd_files w' p = gd_files w p)"
proof (cases "dbPath old \<noteq> [] \<and> dbKey old \<noteq> []")
  case True
  then have "w' = w" using assms(1,2) by (simp add: bootstrapGlobalConfigIfNeeded_def bindS_def liftR_def)
  with True assms(1,2) show ?thesis by auto
next
  case False
  let ?p = "dbPath old = []" and ?k = "dbKey old = []" and ?key = "base64NoPadding (gc_random e 32)"
  define pth where "pth = (if ?p then kDefaultDbPath else dbPath old)"
  define prior where "prior = (case gd_files w path of None \<Rightarrow> [] | Some s \<Rightarrow> s)"
  have w': "w' = w\<lparr>gd_files := (gd_files w)(path \<mapsto> prior @ bootstrap_text ?p pth ?k ?key)\<rparr>" and ex: "?k \<longrightarrow> gd_disk w pth = None"
    using assms(1,2) False
    by (auto simp: bootstrapGlobalConfigIfNeeded_def bindS_def liftR_def Let_def pth_def [symmetric] prior_def [symmetric] split: if_splits)
  have old: "dbPath old = getOr (parse_text prior) ''global'' ''db_path'' []" "dbKey old = getOr (parse_text prior) ''global'' ''db_key'' []"
    using assms(2) by (auto simp: loadGlobalConfigLenient_def parseIni_def fileExists_def prior_def default_global_def parse_text_def getOr_empty
        split: option.splits if_splits)
  have key: "clean ?key" "?key \<noteq> []" using base64NoPadding_clean [OF assms(3)] by auto
  have m: "parse_text (prior @ bootstrap_text ?p pth ?k ?key) =
     (let m = parse_text prior; m = (if ?p then ini_put ''global'' ''db_path'' kDefaultDbPath m else m) in if ?k then ini_put ''global'' ''db_key'' ?key m else m)"
  proof -
    have "bootstrap_text ?p pth ?k ?key = bootstrap_text ?p kDefaultDbPath ?k ?key" by (simp add: pth_def bootstrap_text_def)
    then show ?thesis using parse_bootstrap [of kDefaultDbPath ?key prior ?p ?k] kDefaultDbPath_clean key by metis
  qed
  define new where "new = default_global\<lparr>dbPath := pth, dbKey := (if ?k then ?key else dbKey old)\<rparr>"
  have new: "loadGlobalConfigLenient (gd_files w') path = Inr new"
  proof -
    let ?m = "parse_text (prior @ bootstrap_text ?p pth ?k ?key)"
    have "getOr ?m ''global'' ''db_path'' [] = pth" "getOr ?m ''global'' ''db_key'' [] = (if ?k then ?key else dbKey old)"
      unfolding m Let_def using kDefaultDbPath_clean key by (simp_all add: getOr_ini_put old [symmetric] pth_def)
    then show ?thesis by (simp add: loadGlobalConfigLenient_def fileExists_def parseIni_def w' new_def)
  qed
  moreover have "dbPath new \<noteq> []" "dbKey new \<noteq> []" using key kDefaultDbPath_clean by (auto simp: new_def pth_def)
  then have "bootstrapGlobalConfigIfNeeded e path w' = (Inr (), w')"
    using new by (simp add: bootstrapGlobalConfigIfNeeded_def bindS_def liftR_def)
  ultimately show ?thesis using ex by (intro exI [of _ new]) (simp add: new_def pth_def w')
qed


definition first_run :: gendb where
  "first_run = \<lparr>gd_files = Map.empty, gd_disk = Map.empty, gd_requests = [], gd_signalled = [], gd_out = []\<rparr>"

theorem bootstrap_sound_witness:
  "\<exists>w' new. bootstrapGlobalConfigIfNeeded calm ''signal2sip.conf'' first_run = (Inr (), w') \<and>
     loadGlobalConfigLenient (gd_files w') ''signal2sip.conf'' = Inr new \<and> dbPath new = ''/var/lib/signal2sip/signal2sip.db'' \<and> dbKey new \<noteq> []"
proof -
  have l: "loadGlobalConfigLenient (gd_files first_run) ''signal2sip.conf'' = Inr default_global"
    by (simp add: first_run_def loadGlobalConfigLenient_def fileExists_def)
  then obtain w' where w': "bootstrapGlobalConfigIfNeeded calm ''signal2sip.conf'' first_run = (Inr (), w')"
    by (simp add: bootstrapGlobalConfigIfNeeded_def bindS_def liftR_def default_global_def first_run_def calm_def)
  have r: "gc_random calm 32 \<noteq> []" by (simp add: calm_def)
  from bootstrap_sound [OF w' l r] w' base64NoPadding_clean [OF r] show ?thesis
    by (auto simp: default_global_def kDefaultDbPath_def)
qed

section \<open>Numbers already in use\<close>

text \<open>
  The guard against registering a number twice looks only at the accounts the daemon would run: the number of a disabled account (or of one
  whose configuration is invalid) is accepted for a second account, although its row is in the database.
\<close>

theorem disabled_number_not_guarded:
  assumes "bindR (parseIni fs path) load_global = Inr g" "disk (dbPath g) = Some f" "f_key f = dbKey g" "db_current (f_db f)" "named_rows (f_db f)"
    "\<forall>r \<in> set (rows_of (f_db f) ''account''). a_e164 (account_of_row r) = e164 \<longrightarrow> \<not> a_enabled (account_of_row r)"
  shows "\<exists>cfg. DaemonConfig_load no_faults fs path disk = (Inr cfg, disk) \<and> requireE164NotUsedByOtherAccount cfg name e164 = Inr ()"
proof -
  have "DaemonConfig_load no_faults fs path disk = (Inr \<lparr>dc_global = g, dc_accounts = loaded_configs (f_db f)\<rparr>, disk)"
    using load_current [OF assms(1), of disk f] assms(2-4) by simp
  moreover have "ac_e164 c \<noteq> e164" if mem: "c \<in> set (loaded_configs (f_db f))" for c
  proof -
    obtain x where "configured x (f_db f) = Some c" using mem unfolding loaded_iff [OF assms(5) db_current_account [OF assms(4)]] ..
    then obtain r where r: "account_row x (f_db f) = Some r" "a_enabled (account_of_row r)" "accountConfigFromRecord x (account_of_row r) = Inr c"
      by (cases "account_row x (f_db f)") (simp_all add: configured_def split: if_splits sum.splits)
    then have "r \<in> set (rows_of (f_db f) ''account'')" by (auto simp: account_row_def find_Some_iff in_set_conv_nth)
    moreover have "ac_e164 c = a_e164 (account_of_row r)" using r(3) by (auto simp: accountConfigFromRecord_def Let_def split: if_splits)
    ultimately show ?thesis using r(2) assms(6) by auto
  qed
  then have "find (\<lambda>a. ac_name a \<noteq> name \<and> ac_e164 a = e164) (loaded_configs (f_db f)) = None" by (auto simp: find_None_iff)
  ultimately show ?thesis by (simp add: requireE164NotUsedByOtherAccount_def)
qed

definition disabled_row :: row where
  "disabled_row = config_update (sample_account\<lparr>a_enabled := False\<rparr>) (new_account_row ''a'' sample_account)"

definition disabled_disk :: disk where
  "disabled_disk = [''p'' \<mapsto> \<lparr>f_key = ''k'', f_db = put_rows ''account'' [disabled_row] fresh_db\<rparr>]"

theorem disabled_number_not_guarded_witness:
  "\<exists>cfg. DaemonConfig_load no_faults sample_files ''c'' disabled_disk = (Inr cfg, disabled_disk) \<and>
     requireE164NotUsedByOtherAccount cfg ''b'' ''+15550100'' = Inr ()"
proof -
  have rows: "rows_of (put_rows ''account'' [disabled_row] fresh_db) ''account'' = [disabled_row]" using fresh_db_account by simp
  have "\<not> a_enabled (account_of_row disabled_row)" by (simp add: disabled_row_def account_of_config with_config_def)
  moreover have "disabled_row ''account_name'' = bindText ''a''" by (simp add: disabled_row_def)
  ultimately show ?thesis
    using disabled_number_not_guarded [OF sample_load_global, of disabled_disk "\<lparr>f_key = ''k'', f_db = put_rows ''account'' [disabled_row] fresh_db\<rparr>" "''+15550100''" "''b''"]
      db_current_fresh rows by (auto simp: disabled_disk_def sample_global_def named_rows_def)
qed


section \<open>Saving a new account\<close>

lemma upsert_kv_account: "upsert_kv q label n kcol acct k vals d = Inr d' \<Longrightarrow> n \<noteq> ''account'' \<Longrightarrow> loadAccount q2 a d' = loadAccount q2 a d"
proof -
  assume u0: "upsert_kv q label n kcol acct k vals d = Inr d'" and n: "n \<noteq> ''account''"
  have u: "sql_upsert n [''account_name'', kcol] vals (kv_row acct kcol k vals) d = Inr d'"
    using u0 by (auto simp: upsert_kv_def elim: run_writeE)
  then show ?thesis
    using n sql_upsert_tabs [OF u] sql_upsert_other_table [OF u]
    by (simp add: loadAccount_def cong: run_first_cong)
qed

lemmas store_frames =
  upsert_kv_account upsert_kv_other_table

lemma frame_signed:
  assumes "saveSignedPrekey q acct i r d = Inr d'"
  shows "loadAccount q2 a d' = loadAccount q2 a d" "loadIdentityKeypair q2 a j d' = loadIdentityKeypair q2 a j d" "loadKyberPrekey q2 a j d' = loadKyberPrekey q2 a j d"
  using assms unfolding saveSignedPrekey_def loadIdentityKeypair_def loadKyberPrekey_def by (simp_all add: store_frames)

lemma frame_kyber:
  assumes "saveKyberPrekey q acct i r d = Inr d'"
  shows "loadAccount q2 a d' = loadAccount q2 a d" "loadIdentityKeypair q2 a j d' = loadIdentityKeypair q2 a j d" "loadSignedPrekey q2 a j d' = loadSignedPrekey q2 a j d"
  using assms unfolding saveKyberPrekey_def loadIdentityKeypair_def loadSignedPrekey_def by (simp_all add: store_frames)

lemma frame_identity:
  assumes "saveIdentityKeypair q acct i r d = Inr d'"
  shows "loadAccount q2 a d' = loadAccount q2 a d"
  using assms unfolding saveIdentityKeypair_def by (simp add: store_frames)

lemma finished_loads:
  assumes "saveFinishedAccount q now name fa d = (Inr (), d')" "isl (loadAccount q name d)" "Sql.readable q ''loadAccount''"
    "Sql.readable q ''loadIdentityKeypair''" "Sql.readable q ''loadSignedPrekey''" "Sql.readable q ''loadKyberPrekey''"
  shows "loadAccount q name d' = Inr (finished_record now fa) \<and>
    loadIdentityKeypair q name ''aci'' d' = Inr (Some (fa_aciIdentity fa)) \<and> loadIdentityKeypair q name ''pni'' d' = Inr (Some (fa_pniIdentity fa)) \<and>
    loadSignedPrekey q name ''aci'' d' = Inr (Some (fa_aciSigned fa)) \<and> loadSignedPrekey q name ''pni'' d' = Inr (Some (fa_pniSigned fa)) \<and>
    loadKyberPrekey q name ''aci'' d' = Inr (Some (fa_aciKyber fa)) \<and> loadKyberPrekey q name ''pni'' d' = Inr (Some (fa_pniKyber fa))"
proof -
  from assms(1) obtain d1 d2 d3 d4 d5 d6 where
    s: "saveAccount q name (finished_record now fa) d = Inr d1" "saveIdentityKeypair q name ''aci'' (fa_aciIdentity fa) d1 = Inr d2"
    "saveIdentityKeypair q name ''pni'' (fa_pniIdentity fa) d2 = Inr d3" "saveSignedPrekey q name ''aci'' (fa_aciSigned fa) d3 = Inr d4"
    "saveSignedPrekey q name ''pni'' (fa_pniSigned fa) d4 = Inr d5" "saveKyberPrekey q name ''aci'' (fa_aciKyber fa) d5 = Inr d6"
    "saveKyberPrekey q name ''pni'' (fa_pniKyber fa) d6 = Inr d'"
    by (auto simp: saveFinishedAccount_def updR_def elim!: bindS_cases split: sum.splits)
  have "account_row name d = None"
    using assms(2,3) saveAccount_row [OF s(1)] by (cases "account_row name d") (auto simp: loadAccount_row)
  then have "loadAccount q name d1 = Inr (default_config (finished_record now fa))"
    using saveAccount_row [OF s(1)] assms(3) by (simp add: loadAccount_row account_of_new_row)
  moreover have "default_config (finished_record now fa) = finished_record now fa" by (simp add: default_config_def finished_record_def)
  ultimately have "loadAccount q name d' = Inr (finished_record now fa)"
    by (simp add: frame_kyber [OF s(7)] frame_kyber [OF s(6)] frame_signed [OF s(5)] frame_signed [OF s(4)] frame_identity [OF s(3)] frame_identity [OF s(2)])
  moreover have "loadIdentityKeypair q name i d' = loadIdentityKeypair q name i d3" for i
    by (simp add: frame_kyber [OF s(7)] frame_kyber [OF s(6)] frame_signed [OF s(5)] frame_signed [OF s(4)])
  moreover have "loadSignedPrekey q name i d' = loadSignedPrekey q name i d5" for i
    by (simp add: frame_kyber [OF s(7)] frame_kyber [OF s(6)])
  ultimately show ?thesis
    using identity_keys.load_saved [OF s(2) assms(4)] identity_keys.load_saved [OF s(3) assms(4)] identity_keys.load_other [OF s(3), of name "''aci''"]
      signed_prekeys.load_saved [OF s(4) assms(5)] signed_prekeys.load_saved [OF s(5) assms(5)] signed_prekeys.load_other [OF s(5), of name "''aci''"]
      kyber_prekeys.load_saved [OF s(6) assms(6)] kyber_prekeys.load_saved [OF s(7) assms(6)] kyber_prekeys.load_other [OF s(7), of name "''aci''"]
    by simp
qed

text \<open>
  A registered or linked account is complete in the database: when \<open>saveFinishedAccount\<close> succeeds for a new name, the identity
  loads back exactly as the server gave it, with the default configuration and enabled, both identity key pairs and the four prekeys load back too.
\<close>

theorem finished_account_saved:
  assumes "saveFinishedAccount q now name fa d = (Inr (), d')" "isl (loadAccount q name d)" "Sql.readable q ''loadAccount''"
    "Sql.readable q ''loadIdentityKeypair''" "Sql.readable q ''loadSignedPrekey''" "Sql.readable q ''loadKyberPrekey''"
  shows "loadAccount q name d' = Inr (finished_record now fa) \<and>
    loadIdentityKeypair q name ''aci'' d' = Inr (Some (fa_aciIdentity fa)) \<and> loadIdentityKeypair q name ''pni'' d' = Inr (Some (fa_pniIdentity fa)) \<and>
    loadSignedPrekey q name ''aci'' d' = Inr (Some (fa_aciSigned fa)) \<and> loadSignedPrekey q name ''pni'' d' = Inr (Some (fa_pniSigned fa)) \<and>
    loadKyberPrekey q name ''aci'' d' = Inr (Some (fa_aciKyber fa)) \<and> loadKyberPrekey q name ''pni'' d' = Inr (Some (fa_pniKyber fa))"
  by (rule finished_loads [OF assms])

definition sample_finished :: FinishedAccount where
  "sample_finished = \<lparr>fa_e164 = ''+15550199'', fa_aci = ''aci-9'', fa_pni = ''pni-9'', fa_password = ''pw'', fa_deviceId = 1, fa_registrationId = 5,
     fa_pniRegistrationId = 6, fa_aciIdentity = \<lparr>k_private_key = [1], k_public_key = [2]\<rparr>, fa_pniIdentity = \<lparr>k_private_key = [3], k_public_key = [4]\<rparr>,
     fa_aciSigned = \<lparr>p_key_id = 1, p_record = [5]\<rparr>, fa_pniSigned = \<lparr>p_key_id = 1, p_record = [6]\<rparr>, fa_aciKyber = \<lparr>p_key_id = 1, p_record = [7]\<rparr>,
     fa_pniKyber = \<lparr>p_key_id = 1, p_record = [8]\<rparr>, fa_flow = ''standalone'', fa_accountEntropyPool = None, fa_mediaRootBackupKey = None, fa_profileKey = None\<rparr>"

lemma finished_runs: "fst (saveFinishedAccount no_faults 3 ''n'' sample_finished fresh_db) = Inr ()" "isl (loadAccount no_faults ''n'' fresh_db)"
  by code_simp+

theorem finished_account_saved_witness:
  "loadKyberPrekey no_faults ''n'' ''pni'' (snd (saveFinishedAccount no_faults 3 ''n'' sample_finished fresh_db)) = Inr (Some \<lparr>p_key_id = 1, p_record = [8]\<rparr>)"
proof -
  have "saveFinishedAccount no_faults 3 ''n'' sample_finished fresh_db = (Inr (), snd (saveFinishedAccount no_faults 3 ''n'' sample_finished fresh_db))"
    using finished_runs(1) by (metis prod.collapse)
  from finished_account_saved [OF this finished_runs(2)] show ?thesis by (simp add: Sql.readable_def sample_finished_def)
qed

end
