(* ===== verification/Checksums.thy ===== *)
theory Checksums
  imports Base64
begin

text \<open>
  Model of the byte formats in \<open>gendb/ProvisioningClient.cpp\<close> below the QR image: \<open>crc32Of\<close> with its table, \<open>putBE32\<close>,
  \<open>writePngChunk\<close> and \<open>zlibStoreUncompressed\<close>. The reference definitions are those of the formats: the CRC as bitwise
  division, Adler-32 as sums modulo 65521, and readers for stored deflate blocks and PNG chunks.
\<close>

section \<open>The code\<close>

definition crc_step :: "uint32 \<Rightarrow> uint32" where
  "crc_step c = (if c AND 1 \<noteq> 0 then 0xEDB88320 XOR drop_bit 1 c else drop_bit 1 c)"

definition crc_table :: "uint32 list" where
  "crc_table = map (\<lambda>n. (crc_step ^^ 8) (word_of_nat n)) [0..<256]"

definition crc_byte :: "uint32 \<Rightarrow> byte \<Rightarrow> uint32" where
  "crc_byte crc d = crc_table ! unat ((crc XOR ucast d) AND 0xFF) XOR drop_bit 8 crc"

definition crc32Of :: "bytes \<Rightarrow> uint32" where
  "crc32Of data = foldl crc_byte 0xFFFFFFFF data XOR 0xFFFFFFFF"

definition putBE32 :: "uint32 \<Rightarrow> bytes" where
  "putBE32 v = [ucast (drop_bit 24 v), ucast (drop_bit 16 v), ucast (drop_bit 8 v), ucast v]"

definition writePngChunk :: "string \<Rightarrow> bytes \<Rightarrow> bytes" where
  "writePngChunk typ data = (let typeAndData = map chr_byte typ @ data in
     putBE32 (word_of_nat (length data)) @ typeAndData @ putBE32 (crc32Of typeAndData))"

function zlib_blocks :: "bytes \<Rightarrow> bytes" where
  "zlib_blocks data =
     (let chunk = take 65535 data; isLast = length data \<le> 65535;
          len = (word_of_nat (length chunk) :: 16 word); nlen = NOT len in
      [if isLast then 1 else 0, ucast len, ucast (drop_bit 8 len), ucast nlen, ucast (drop_bit 8 nlen)] @ chunk @
      (if isLast then [] else zlib_blocks (drop 65535 data)))"
  by auto
termination by (relation "measure length") auto

declare zlib_blocks.simps [simp del]

definition adler_step :: "uint32 \<times> uint32 \<Rightarrow> byte \<Rightarrow> uint32 \<times> uint32" where
  "adler_step s d = (let a = (fst s + ucast d) mod 65521 in (a, (snd s + a) mod 65521))"

definition zlib_adler :: "bytes \<Rightarrow> uint32" where
  "zlib_adler data = (let s = foldl adler_step (1, 0) data in push_bit 16 (snd s) OR fst s)"

definition zlibStoreUncompressed :: "bytes \<Rightarrow> bytes" where
  "zlibStoreUncompressed data = [0x78, 0x01] @ zlib_blocks data @ putBE32 (zlib_adler data)"

section \<open>The CRC\<close>

text \<open>The CRC of a bit stream is the remainder of a division by the generator polynomial, one bit at a time, the lowest bit of a byte first.\<close>

definition divide_bit :: "uint32 \<Rightarrow> bool \<Rightarrow> uint32" where
  "divide_bit c b = (if bit c 0 \<noteq> b then 0xEDB88320 XOR drop_bit 1 c else drop_bit 1 c)"

definition byte_bits :: "byte \<Rightarrow> bool list" where
  "byte_bits d = map (bit d) [0..<8]"

definition crc_of_bits :: "bool list \<Rightarrow> uint32" where
  "crc_of_bits bs = NOT (foldl divide_bit (NOT 0) bs)"

lemma crc_step_divide: "crc_step c = divide_bit c False"
  by (simp add: crc_step_def divide_bit_def and_one_eq odd_iff_mod_2_eq_one bit_0)

lemma divide_bit_xor: "divide_bit (a XOR b) x = divide_bit a x XOR crc_step b"
  unfolding crc_step_divide divide_bit_def by (simp add: bit_xor_iff xor.assoc xor.left_commute)

lemma crc_step_xor: "crc_step (a XOR b) = crc_step a XOR crc_step b"
  using divide_bit_xor [of a b False] by (simp add: crc_step_divide)

lemma crc_steps_xor: "(crc_step ^^ n) (a XOR b) = (crc_step ^^ n) a XOR (crc_step ^^ n) b"
  by (induction n) (simp_all add: crc_step_xor)

lemma crc_steps_shift:
  assumes "\<forall>i < n. \<not> bit c i"
  shows "(crc_step ^^ n) c = drop_bit n c"
  using assms
proof (induction n)
  case (Suc n)
  then have "(crc_step ^^ n) c = drop_bit n c" by simp
  moreover have "\<not> bit (drop_bit n c) 0" using Suc.prems by (simp add: bit_drop_bit_eq)
  moreover have "crc_step x = drop_bit 1 x" if "\<not> bit x 0" for x
    using that by (simp add: crc_step_divide divide_bit_def)
  ultimately show ?case by simp
qed simp

lemma and_byte: "(c :: uint32) AND 0xFF = take_bit 8 c"
  by (simp add: take_bit_eq_mask mask_eq_exp_minus_1)

lemma all_ones: "(0xFFFFFFFF :: uint32) = - 1"
  by simp

lemma low_high: "(c :: uint32) = take_bit 8 c XOR push_bit 8 (drop_bit 8 c)"
  by (rule bit_word_eqI) (auto simp: bit_simps)

lemma crc_table_steps: "crc_table ! unat (c AND 0xFF) XOR drop_bit 8 c = (crc_step ^^ 8) c"
proof -
  have less: "unat (take_bit 8 c) < 256"
    using take_bit_nat_less_exp [of 8 "unat c"] by (simp add: unsigned_take_bit_eq)
  have "(crc_step ^^ 8) (push_bit 8 (drop_bit 8 c)) = drop_bit 8 (push_bit 8 (drop_bit 8 c))"
    by (rule crc_steps_shift) (simp add: bit_push_bit_iff)
  also have "\<dots> = drop_bit 8 c"
    by (rule bit_word_eqI) (auto simp: bit_simps dest: bit_imp_le_length)
  finally have high: "(crc_step ^^ 8) (push_bit 8 (drop_bit 8 c)) = drop_bit 8 c" .
  have "(crc_step ^^ 8) c = (crc_step ^^ 8) (take_bit 8 c) XOR (crc_step ^^ 8) (push_bit 8 (drop_bit 8 c))"
    by (subst low_high) (rule crc_steps_xor)
  moreover have "crc_table ! unat (take_bit 8 c) = (crc_step ^^ 8) (take_bit 8 c)"
    unfolding crc_table_def using less by (subst nth_map) (simp_all del: upt.simps upt_conv_Cons_Cons)
  ultimately show ?thesis using high by (simp only: and_byte)
qed

lemma crc_byte_steps: "crc_byte c d = (crc_step ^^ 8) (c XOR ucast d)"
proof -
  have "drop_bit 8 (c XOR ucast d) = drop_bit 8 c"
    by (rule bit_word_eqI) (auto simp: bit_simps)
  then show ?thesis using crc_table_steps [of "c XOR ucast d"] by (simp add: crc_byte_def)
qed

lemma divide_bits_steps:
  "n \<le> 8 \<Longrightarrow> foldl divide_bit c (map (bit d) [0..<n]) XOR drop_bit n (ucast (d :: byte)) = (crc_step ^^ n) (c XOR ucast d)"
proof (induction n)
  case (Suc n)
  let ?x = "foldl divide_bit c (map (bit d) [0..<n])"
  have "(crc_step ^^ Suc n) (c XOR ucast d) = crc_step (?x XOR drop_bit n (ucast d))"
    using Suc by simp
  also have "\<dots> = divide_bit ?x (bit d n) XOR drop_bit (Suc n) (ucast d)"
    using Suc.prems by (auto simp: crc_step_divide divide_bit_def bit_simps xor.assoc xor.left_commute add.commute)
  finally show ?case by simp
qed simp

lemma divide_byte: "foldl divide_bit c (byte_bits d) = crc_byte c d"
proof -
  have "drop_bit 8 (ucast d :: uint32) = 0" by (rule bit_word_eqI) (auto simp: bit_simps)
  then show ?thesis using divide_bits_steps [of 8 c d] by (simp add: byte_bits_def crc_byte_steps)
qed

lemma crc_shared: "crc32Of data = crc_of_bits (concat (map byte_bits data))"
proof -
  have "foldl crc_byte c data = foldl divide_bit c (concat (map byte_bits data))" for c
    by (induction data arbitrary: c) (simp_all add: divide_byte)
  moreover have "x XOR 0xFFFFFFFF = NOT x" for x :: uint32
    unfolding all_ones by (rule bit_word_eqI) (simp add: bit_xor_iff bit_not_iff)
  ultimately show ?thesis by (simp add: crc32Of_def crc_of_bits_def all_ones)
qed

text \<open>
  C8: the table-driven CRC of the PNG writer is the CRC-32 of the standard: on every input \<open>crc32Of\<close> is the remainder of
  the bitwise division of the whole message by the generator polynomial.
\<close>

theorem crc32_is_division: "crc32Of data = crc_of_bits (concat (map byte_bits data))"
  by (rule crc_shared)

lemma xor_cancel: "(a :: uint32) XOR c = b XOR c \<longleftrightarrow> a = b" "c XOR a = c XOR b \<longleftrightarrow> a = b"
  by (auto simp: bit_eq_iff bit_xor_iff)

lemma crc_step_inj: "crc_step a = crc_step b \<longleftrightarrow> a = b"
proof
  assume eq: "crc_step a = crc_step b"
  have top: "bit (crc_step x) 31 \<longleftrightarrow> bit x 0" for x
    using bit_imp_le_length [of x 32] by (auto simp: crc_step_divide divide_bit_def bit_xor_iff bit_drop_bit_eq)
  have "drop_bit 1 a = drop_bit 1 b" "bit a 0 = bit b 0"
    using eq top [of a] top [of b] by (auto simp: crc_step_divide divide_bit_def xor_cancel split: if_splits)
  moreover have "bit a (Suc n) = bit (drop_bit 1 a) n" "bit b (Suc n) = bit (drop_bit 1 b) n" for n
    by (simp_all add: bit_drop_bit_eq)
  ultimately have "bit a n = bit b n" for n by (cases n) simp_all
  then show "a = b" by (intro bit_eqI)
qed simp

lemma crc_steps_inj: "(crc_step ^^ n) a = (crc_step ^^ n) b \<longleftrightarrow> a = b"
  by (induction n) (simp_all add: crc_step_inj)

lemma crc_byte_inj: "crc_byte c d = crc_byte c' d \<longleftrightarrow> c = c'" "crc_byte c d = crc_byte c d' \<longleftrightarrow> d = d'"
proof -
  have "ucast (ucast x :: uint32) = x" for x :: byte by (rule bit_word_eqI) (simp add: bit_simps)
  then have "(ucast d :: uint32) = ucast d' \<longleftrightarrow> d = d'" by metis
  then show "crc_byte c d = crc_byte c' d \<longleftrightarrow> c = c'" "crc_byte c d = crc_byte c d' \<longleftrightarrow> d = d'"
    by (simp_all add: crc_byte_steps crc_steps_inj xor_cancel)
qed

lemma crc_bytes_inj: "foldl crc_byte c data = foldl crc_byte c' data \<longleftrightarrow> c = c'"
  by (induction data arbitrary: c c') (simp_all add: crc_byte_inj)

text \<open>One damaged byte anywhere in a chunk changes its CRC.\<close>

lemma crc_detects_byte: "crc32Of (xs @ b # ys) = crc32Of (xs @ b' # ys) \<longleftrightarrow> b = b'"
  by (simp add: crc32Of_def crc_bytes_inj crc_byte_inj xor_cancel)

section \<open>Big-endian words and chunks\<close>

fun readBE32 :: "bytes \<Rightarrow> (uint32 \<times> bytes) option" where
  "readBE32 (b3 # b2 # b1 # b0 # rest) =
     Some (push_bit 24 (ucast b3) OR push_bit 16 (ucast b2) OR push_bit 8 (ucast b1) OR ucast b0, rest)"
| "readBE32 _ = None"

lemma readBE32_putBE32 [simp]: "readBE32 (putBE32 v @ rest) = Some (v, rest)"
proof -
  have "push_bit 24 (ucast (ucast (drop_bit 24 v) :: byte)) OR push_bit 16 (ucast (ucast (drop_bit 16 v) :: byte)) OR
      push_bit 8 (ucast (ucast (drop_bit 8 v) :: byte)) OR ucast (ucast v :: byte) = v"
  proof (rule bit_word_eqI)
    fix n assume "n < LENGTH(32)"
    then consider "n < 8" | "8 \<le> n" "n < 16" | "16 \<le> n" "n < 24" | "24 \<le> n" "n < 32" by fastforce
    then show "bit ((push_bit 24 (ucast (ucast (drop_bit 24 v) :: byte)) :: uint32) OR push_bit 16 (ucast (ucast (drop_bit 16 v) :: byte)) OR
      push_bit 8 (ucast (ucast (drop_bit 8 v) :: byte)) OR ucast (ucast v :: byte)) n = bit v n"
      by cases (auto simp: bit_simps)
  qed
  then show ?thesis by (simp add: putBE32_def)
qed

lemma length_putBE32 [simp]: "length (putBE32 v) = 4"
  by (simp add: putBE32_def)

text \<open>A PNG reader's view of a chunk: length, type, data, CRC of type and data.\<close>

definition read_chunk :: "bytes \<Rightarrow> (string \<times> bytes \<times> bytes) option" where
  "read_chunk s = (case readBE32 s of None \<Rightarrow> None | Some (n, r) \<Rightarrow>
     if length r < 4 + unat n then None
     else case readBE32 (drop (4 + unat n) r) of None \<Rightarrow> None | Some (crc, rest) \<Rightarrow>
       if crc = crc_of_bits (concat (map byte_bits (take (4 + unat n) r)))
       then Some (map byte_chr (take 4 r), take (unat n) (drop 4 r), rest) else None)"

lemma read_written_chunk:
  assumes "length typ = 4" "length data < 2 ^ 32"
  shows "read_chunk (writePngChunk typ data @ rest) = Some (typ, data, rest)"
proof -
  have "unat (word_of_nat (length data) :: uint32) = length data"
    using assms(2) by (simp add: unat_of_nat take_bit_nat_eq_self)
  then show ?thesis
    using assms(1) by (simp add: read_chunk_def writePngChunk_def Let_def crc_shared comp_def)
qed


section \<open>Adler-32 and stored blocks\<close>

definition adler_low :: "bytes \<Rightarrow> nat" where
  "adler_low data = (1 + sum_list (map unat data)) mod 65521"

definition adler_high :: "bytes \<Rightarrow> nat" where
  "adler_high data = sum_list (map (\<lambda>k. 1 + sum_list (map unat (take k data))) [1..<Suc (length data)]) mod 65521"

definition adler32 :: "bytes \<Rightarrow> nat" where
  "adler32 data = 65536 * adler_high data + adler_low data"

lemma adler_low_snoc: "adler_low (data @ [d]) = (adler_low data + unat d) mod 65521"
  by (simp add: adler_low_def mod_simps)

lemma adler_high_snoc: "adler_high (data @ [d]) = (adler_high data + adler_low (data @ [d])) mod 65521"
proof -
  have "[1..<Suc (length (data @ [d]))] = [1..<Suc (length data)] @ [Suc (length data)]" by simp
  moreover have "map (\<lambda>k. 1 + sum_list (map unat (take k (data @ [d])))) [1..<Suc (length data)] =
      map (\<lambda>k. 1 + sum_list (map unat (take k data))) [1..<Suc (length data)]" by (rule map_cong [OF refl]) (auto simp: take_append simp del: upt_Suc)
  ultimately have "sum_list (map (\<lambda>k. 1 + sum_list (map unat (take k (data @ [d])))) [1..<Suc (length (data @ [d]))]) =
      sum_list (map (\<lambda>k. 1 + sum_list (map unat (take k data))) [1..<Suc (length data)]) + (1 + sum_list (map unat (data @ [d])))"
    by (simp only: map_append sum_list_append) simp
  then show ?thesis unfolding adler_high_def adler_low_def by (simp only: mod_add_eq)
qed

lemma unat_add_mod:
  assumes "unat (a :: uint32) < 65521" "unat (b :: uint32) < 65521"
  shows "unat ((a + b) mod 65521) = (unat a + unat b) mod 65521"
proof -
  have "unat (a + b) = unat a + unat b" using assms by (subst unat_add_lem [THEN iffD1]) simp_all
  then show ?thesis by (simp add: unat_mod_distrib)
qed

lemma adler_loop:
  "unat (fst (foldl adler_step (1, 0) data)) = adler_low data \<and> unat (snd (foldl adler_step (1, 0) data)) = adler_high data"
proof (induction data rule: rev_induct)
  case Nil
  show ?case by (simp add: adler_low_def adler_high_def)
next
  case (snoc d data)
  let ?s = "foldl adler_step (1, 0) data"
  have less: "adler_low xs < 65521" "adler_high xs < 65521" for xs by (simp_all add: adler_low_def adler_high_def)
  have d: "unat (ucast d :: uint32) = unat d" "unat d < 65521"
    using unsigned_less [where ?'a = nat, of d] by (simp_all add: unsigned_ucast_eq take_bit_nat_eq_self)
  have a: "unat ((fst ?s + ucast d) mod 65521) = adler_low (data @ [d])"
    using snoc less d by (simp add: unat_add_mod adler_low_snoc)
  then have "unat ((snd ?s + (fst ?s + ucast d) mod 65521) mod 65521) = adler_high (data @ [d])"
    using snoc less by (subst unat_add_mod) (simp_all add: adler_high_snoc)
  moreover have "foldl adler_step (1, 0) (data @ [d]) = adler_step ?s d" by simp
  ultimately show ?case using a unfolding adler_step_def Let_def by simp
qed

lemma zlib_adler_unat: "unat (zlib_adler data) = adler32 data"
proof -
  let ?s = "foldl adler_step (1, 0) data"
  have less: "unat (fst ?s) < 65521" "unat (snd ?s) < 65521"
    by (simp_all add: adler_loop adler_low_def adler_high_def)
  have low: "\<not> bit (fst ?s) n" if "16 \<le> n" for n
  proof -
    have "take_bit 16 (unat (fst ?s)) = unat (fst ?s)" using less by (simp add: take_bit_nat_eq_self)
    then have "take_bit 16 (fst ?s) = fst ?s" by (metis unsigned_take_bit_eq word_unat_eq_iff)
    then show ?thesis using that by (metis bit_take_bit_iff not_less)
  qed
  have "push_bit 16 (snd ?s) OR fst ?s = push_bit 16 (snd ?s) + fst ?s"
    by (rule disjunctive_add [symmetric]) (use low in \<open>auto simp: bit_push_bit_iff\<close>)
  also have "\<dots> = word_of_nat (65536 * unat (snd ?s) + unat (fst ?s))"
    by (simp add: push_bit_eq_mult mult.commute)
  finally have "unat (zlib_adler data) = unat (word_of_nat (65536 * unat (snd ?s) + unat (fst ?s)) :: uint32)"
    by (simp add: zlib_adler_def Let_def)
  also have "\<dots> = 65536 * unat (snd ?s) + unat (fst ?s)"
  proof -
    have "65536 * unat (snd ?s) + unat (fst ?s) < 2 ^ 32" using less by simp
    then show ?thesis by (simp only: unat_of_nat) simp
  qed
  finally show ?thesis by (simp add: adler_loop adler32_def)
qed

text \<open>A reader of zlib streams with stored blocks (RFC 1950 and 1951): header with its check, blocks with length and complement, Adler-32 of the output.\<close>

function inflate_blocks :: "bytes \<Rightarrow> (bytes \<times> bytes) option" where
  "inflate_blocks s = (case s of h # l0 # l1 # n0 # n1 # rest \<Rightarrow>
      let len = unat l0 + 256 * unat l1 in
      if n0 \<noteq> NOT l0 \<or> n1 \<noteq> NOT l1 \<or> length rest < len \<or> 1 < h then None
      else if h = 1 then Some (take len rest, drop len rest)
      else (case inflate_blocks (drop len rest) of None \<Rightarrow> None | Some (out, tail) \<Rightarrow> Some (take len rest @ out, tail))
    | _ \<Rightarrow> None)"
  by auto
termination by (relation "measure length") auto

declare inflate_blocks.simps [simp del]

definition inflate :: "bytes \<Rightarrow> bytes option" where
  "inflate s = (case s of cmf # flg # r \<Rightarrow>
      if unat cmf mod 16 \<noteq> 8 \<or> (unat cmf * 256 + unat flg) mod 31 \<noteq> 0 then None
      else (case inflate_blocks r of None \<Rightarrow> None | Some (out, tail) \<Rightarrow>
        (case readBE32 tail of Some (v, []) \<Rightarrow> if unat v = adler32 out then Some out else None | _ \<Rightarrow> None))
    | _ \<Rightarrow> None)"

lemma block_length:
  assumes "n \<le> 65535"
  shows "unat (ucast (word_of_nat n :: 16 word) :: byte) + 256 * unat (ucast (drop_bit 8 (word_of_nat n :: 16 word)) :: byte) = n"
proof -
  have "unat (word_of_nat n :: 16 word) = n" using assms by (simp add: unat_of_nat take_bit_nat_eq_self)
  moreover have "unat (drop_bit 8 (word_of_nat n :: 16 word)) = n div 256"
    using calculation by (simp add: drop_bit_eq_div unat_div_distrib)
  ultimately show ?thesis
    using assms by (simp add: unsigned_ucast_eq take_bit_eq_mod)
qed

lemma inflate_block:
  assumes "len = (word_of_nat (length chunk) :: 16 word)" "length chunk \<le> 65535"
  shows "inflate_blocks ([h, ucast len, ucast (drop_bit 8 len), ucast (NOT len), ucast (drop_bit 8 (NOT len))] @ chunk @ tail) =
    (if 1 < h then None else if h = 1 then Some (chunk, tail)
     else case inflate_blocks tail of None \<Rightarrow> None | Some (out, rest) \<Rightarrow> Some (chunk @ out, rest))"
proof -
  have n: "unat (ucast len :: byte) + 256 * unat (ucast (drop_bit 8 len) :: byte) = length chunk"
    unfolding assms(1) by (rule block_length) (rule assms(2))
  have c: "ucast (NOT len) = NOT (ucast len :: byte)" "ucast (drop_bit 8 (NOT len)) = NOT (ucast (drop_bit 8 len) :: byte)"
    by (rule bit_word_eqI; simp add: bit_simps)+
  show ?thesis by (subst inflate_blocks.simps) (simp add: Let_def n c cong: option.case_cong)
qed

lemma inflate_stored: "inflate_blocks (zlib_blocks data @ rest) = Some (data, rest)"
proof (induction data rule: zlib_blocks.induct)
  case (1 data)
  let ?len = "word_of_nat (length (take 65535 data)) :: 16 word"
  have block: "zlib_blocks data = [if length data \<le> 65535 then 1 else 0, ucast ?len, ucast (drop_bit 8 ?len), ucast (NOT ?len),
      ucast (drop_bit 8 (NOT ?len))] @ take 65535 data @ (if length data \<le> 65535 then [] else zlib_blocks (drop 65535 data))"
    by (subst zlib_blocks.simps) (simp only: Let_def)
  show ?case
    unfolding block append_assoc using inflate_block [OF refl, of "take 65535 data"] 1 by (simp del: append.simps)
qed

lemma length_zlib_blocks: "length (zlib_blocks data) \<le> 2 * length data + 5"
proof (induction data rule: zlib_blocks.induct)
  case (1 data)
  have "length (zlib_blocks data) = 5 + min 65535 (length data) + (if length data \<le> 65535 then 0 else length (zlib_blocks (drop 65535 data)))"
    by (subst zlib_blocks.simps) (simp add: Let_def min_def)
  then show ?case using 1 by fastforce
qed

lemma inflate_zlib: "inflate (zlibStoreUncompressed data) = Some data"
  using inflate_stored [of data "putBE32 (zlib_adler data)"] readBE32_putBE32 [of "zlib_adler data" "[]"]
  by (simp add: inflate_def zlibStoreUncompressed_def zlib_adler_unat)

text \<open>
  The hand-written zlib stream is one any reader accepts: for every input, of any number of blocks and the empty one
  included, the header check, every block's length and its complement and the Adler-32 hold, and the blocks give the input back.
\<close>

theorem zlib_stored_roundtrip: "inflate (zlibStoreUncompressed data) = Some data"
  by (rule inflate_zlib)

end
