(* ===== verification/QrCode.thy ===== *)
theory QrCode
  imports Checksums
begin

text \<open>
  Model of how \<open>gendb/ProvisioningClient.cpp\<close> shows the linking code: the link URL (\<open>urlEncode\<close>, \<open>printLinkUrl\<close>), the QR code drawn with
  half blocks on the terminal (\<open>printQrAscii\<close>) and written as a PNG (\<open>writeQrPng\<close>). libqrencode is a parameter, its result a
  record with its \<open>width\<close> and \<open>data\<close>. The theorems read the output back the way a browser, an eye or an image viewer does.
\<close>

section \<open>The code\<close>

definition is_alnum :: "char \<Rightarrow> bool" where
  "is_alnum c \<longleftrightarrow> (let n = (of_char c :: nat) in 48 \<le> n \<and> n \<le> 57 \<or> 65 \<le> n \<and> n \<le> 90 \<or> 97 \<le> n \<and> n \<le> 122)"

definition url_hex :: "byte \<Rightarrow> char" where
  "url_hex n = ''0123456789ABCDEF'' ! unat n"

definition url_char :: "char \<Rightarrow> string" where
  "url_char c = (if is_alnum c \<or> c = CHR ''-'' \<or> c = CHR ''_'' \<or> c = CHR ''.'' \<or> c = CHR ''~'' then [c]
     else [CHR ''%'', url_hex (drop_bit 4 (chr_byte c)), url_hex (chr_byte c AND 0xF)])"

definition urlEncode :: "string \<Rightarrow> string" where
  "urlEncode s = concat (map url_char s)"

definition strip_padding :: "string \<Rightarrow> string" where
  "strip_padding s = rev (dropWhile (\<lambda>c. c = CHR ''='') (rev s))"

definition link_base64 :: "bytes \<Rightarrow> string" where
  "link_base64 data = strip_padding (base64Encode data)"

definition link_url :: "string \<Rightarrow> bytes \<Rightarrow> string" where
  "link_url address publicKey =
     ''sgnl://linkdevice?uuid='' @ urlEncode address @ ''&pub_key='' @ urlEncode (link_base64 publicKey)"

record QRcode =
  qr_width :: nat
  qr_data :: bytes

definition dark :: "QRcode \<Rightarrow> int \<Rightarrow> int \<Rightarrow> bool" where
  "dark qr x y = (if x < 0 \<or> y < 0 \<or> int (qr_width qr) \<le> x \<or> int (qr_width qr) \<le> y then False
     else qr_data qr ! nat (y * int (qr_width qr) + x) AND 1 \<noteq> 0)"

definition glyph :: "bool \<Rightarrow> bool \<Rightarrow> bytes" where
  "glyph upper lower = (if upper \<and> lower then [0xE2, 0x96, 0x88] else if upper then [0xE2, 0x96, 0x80]
     else if lower then [0xE2, 0x96, 0x84] else [0x20])"

definition ascii_line :: "QRcode \<Rightarrow> int \<Rightarrow> bytes" where
  "ascii_line qr y = concat (map (\<lambda>x. glyph (dark qr x y) (dark qr x (y + 1))) [- 6..int (qr_width qr) + 5])"

function ascii_lines :: "QRcode \<Rightarrow> int \<Rightarrow> bytes list" where
  "ascii_lines qr y = (if y < int (qr_width qr) + 6 then ascii_line qr y # ascii_lines qr (y + 2) else [])"
  by auto
termination by (relation "measure (\<lambda>(qr, y). nat (int (qr_width qr) + 6 - y))") auto

declare ascii_lines.simps [simp del]

definition printQrAscii :: "QRcode \<Rightarrow> bytes" where
  "printQrAscii qr = map chr_byte (CHR 27 # ''[30;107m'') @ concat (map (\<lambda>l. l @ [10]) (ascii_lines qr (- 6))) @
     map chr_byte (CHR 27 # ''[0m'')"

definition kQuietModules :: nat where
  "kQuietModules = 4"

definition clear_pixel :: "bytes \<Rightarrow> nat \<Rightarrow> bytes" where
  "clear_pixel row x = row[x div 8 := row ! (x div 8) AND NOT (drop_bit (x mod 8) 0x80)]"

definition png_row :: "(nat \<Rightarrow> bool) \<Rightarrow> nat \<Rightarrow> bytes" where
  "png_row isDark sz = foldl (\<lambda>row x. if isDark x then clear_pixel row x else row) (replicate ((sz + 7) div 8) 0xFF) [0..<sz]"

definition pixel_dark :: "QRcode \<Rightarrow> nat \<Rightarrow> nat \<Rightarrow> nat \<Rightarrow> bool" where
  "pixel_dark qr scale y x =
     dark qr (int (x div scale) - int kQuietModules) (int (y div scale) - int kQuietModules)"

definition png_size :: "QRcode \<Rightarrow> nat \<Rightarrow> nat" where
  "png_size qr scale = (qr_width qr + kQuietModules * 2) * scale"

definition png_raw :: "QRcode \<Rightarrow> nat \<Rightarrow> bytes" where
  "png_raw qr scale = concat (map (\<lambda>y. 0 # png_row (pixel_dark qr scale y) (png_size qr scale)) [0..<png_size qr scale])"

definition png_signature :: bytes where
  "png_signature = [0x89, 0x50, 0x4E, 0x47, 0x0D, 0x0A, 0x1A, 0x0A]"

definition png_ihdr :: "nat \<Rightarrow> bytes" where
  "png_ihdr sz = putBE32 (word_of_nat sz) @ putBE32 (word_of_nat sz) @ [1, 0, 0, 0, 0]"

definition qr_png :: "QRcode \<Rightarrow> nat \<Rightarrow> bytes" where
  "qr_png qr scale = png_signature @ writePngChunk ''IHDR'' (png_ihdr (png_size qr scale)) @
     writePngChunk ''IDAT'' (zlibStoreUncompressed (png_raw qr scale)) @ writePngChunk ''IEND'' []"

text \<open>\<open>writable\<close> is whether the output stream opens. The lines of text \<open>renderQr\<close> prints around the code are left out.\<close>

definition writeQrPng :: "(string \<Rightarrow> bool) \<Rightarrow> QRcode \<Rightarrow> nat \<Rightarrow> string \<Rightarrow> (string \<rightharpoonup> bytes, unit) effect" where
  "writeQrPng writable qr scale path fs =
     (if writable path then (Inr (), fs(path \<mapsto> qr_png qr scale)) else (Inl (Runtime_error (''cannot write '' @ path)), fs))"

definition kQrPngPath :: string where
  "kQrPngPath = ''/tmp/signal2sip-link-qr.png''"

definition renderQr :: "(string \<Rightarrow> QRcode option) \<Rightarrow> (string \<Rightarrow> bool) \<Rightarrow> string \<Rightarrow> (string \<rightharpoonup> bytes) \<Rightarrow> bytes \<times> (string \<rightharpoonup> bytes)" where
  "renderQr encodeString writable url fs = (case encodeString url of
       None \<Rightarrow> ([], fs)
     | Some qr \<Rightarrow> (printQrAscii qr, snd (catch_std (writeQrPng writable qr 8 kQrPngPath) fs)))"

section \<open>The URL\<close>

definition hex_value :: "char \<Rightarrow> nat" where
  "hex_value c = (if of_char c \<le> (57 :: nat) then of_char c - 48 else of_char c - 55)"

fun url_decode :: "string \<Rightarrow> string" where
  "url_decode (c # s) = (if c = CHR ''%'' then (case s of h # l # r \<Rightarrow> char_of (16 * hex_value h + hex_value l) # url_decode r | _ \<Rightarrow> [])
     else c # url_decode s)"
| "url_decode [] = []"

lemma url_char_decode: "url_decode (url_char c @ s) = c # url_decode s"
proof (cases "is_alnum c \<or> c = CHR ''-'' \<or> c = CHR ''_'' \<or> c = CHR ''.'' \<or> c = CHR ''~''")
  case True
  then have "c \<noteq> CHR ''%''" by (auto simp: is_alnum_def)
  with True show ?thesis by (simp add: url_char_def)
next
  case False
  have hex: "hex_value (''0123456789ABCDEF'' ! n) = n" if "n < 16" for n
  proof -
    have "list_all (\<lambda>n. hex_value (''0123456789ABCDEF'' ! n) = n) [0..<16]" by code_simp
    then show ?thesis using that by (simp add: list_all_iff)
  qed
  have b: "unat (chr_byte c) = of_char c"
    by (simp add: chr_byte_def unat_of_nat take_bit_nat_eq_self)
  have "unat (drop_bit 4 (chr_byte c)) = of_char c div 16" "unat (chr_byte c AND 0xF) = of_char c mod 16"
    using b take_bit_eq_mask [of 4 "of_char c :: nat"]
    by (simp_all add: drop_bit_eq_div unat_div_distrib unsigned_and_eq take_bit_eq_mod mask_eq_exp_minus_1)
  moreover have "(of_char c :: nat) div 16 < 16" by (simp add: less_mult_imp_div_less)
  ultimately show ?thesis
    using False hex by (simp add: url_char_def url_hex_def)
qed

lemma url_decode_encode: "url_decode (urlEncode s @ r) = s @ url_decode r"
  by (induction s) (simp_all add: urlEncode_def url_char_decode)

lemma url_decode_url [simp]: "url_decode (urlEncode s) = s"
  using url_decode_encode [of s "[]"] by simp

definition reserved :: "char \<Rightarrow> bool" where
  "reserved c \<longleftrightarrow> c = CHR ''&'' \<or> c = CHR ''='' \<or> c = CHR ''?'' \<or> c = CHR ''#'' \<or> c = CHR '' ''"

lemma url_unreserved: "c \<in> set (urlEncode s) \<Longrightarrow> \<not> reserved c"
proof -
  assume "c \<in> set (urlEncode s)"
  then obtain x where x: "c \<in> set (url_char x)" by (auto simp: urlEncode_def)
  have "\<forall>h \<in> set ''0123456789ABCDEF''. \<not> reserved h" by (simp add: reserved_def)
  moreover have "url_hex n \<in> set ''0123456789ABCDEF''" if "unat n < 16" for n
    unfolding url_hex_def using that by (intro nth_mem) simp
  ultimately have hex: "\<not> reserved (url_hex n)" if "unat n < 16" for n using that by blast
  have "unat (drop_bit 4 (chr_byte x)) < 16" "unat (chr_byte x AND 0xF) < 16"
    using word_and_le1 [of "chr_byte x" "0xF"] unsigned_less [where ?'a = nat, of "chr_byte x"]
    by (simp_all add: drop_bit_eq_div unat_div_distrib word_le_nat_alt less_mult_imp_div_less)
  then have "\<not> reserved (url_hex (drop_bit 4 (chr_byte x)))" "\<not> reserved (url_hex (chr_byte x AND 0xF))" by (simp_all add: hex)
  moreover have "\<not> reserved x" if "is_alnum x" using that by (auto simp: reserved_def is_alnum_def)
  moreover have "\<forall>h \<in> set ''-_.~%''. \<not> reserved h" by (simp add: reserved_def)
  ultimately show ?thesis using x by (auto simp: url_char_def split: if_splits)
qed

text \<open>The value of a parameter of a URL's query.\<close>

fun split_on :: "char \<Rightarrow> string \<Rightarrow> string list" where
  "split_on c [] = [[]]"
| "split_on c (x # s) = (if x = c then [] # split_on c s else (case split_on c s of p # ps \<Rightarrow> (x # p) # ps | [] \<Rightarrow> [[x]]))"

definition query_value :: "string \<Rightarrow> string \<Rightarrow> string option" where
  "query_value key url = map_option url_decode (map_of (map (\<lambda>p. (takeWhile (\<lambda>c. c \<noteq> CHR ''='') p, tl (dropWhile (\<lambda>c. c \<noteq> CHR ''='') p)))
     (split_on (CHR ''&'') (tl (dropWhile (\<lambda>c. c \<noteq> CHR ''?'') url)))) key)"

lemma split_on_none: "c \<notin> set s \<Longrightarrow> split_on c s = [s]"
  by (induction s) auto

lemma split_on_append: "c \<notin> set s \<Longrightarrow> split_on c (s @ c # r) = s # split_on c r"
  by (induction s) auto

lemma link_base64_decode: "base64Decode (link_base64 k) = k"
proof -
  obtain s n where s: "base64Encode k = s @ replicate n (CHR ''='')" "set s \<subseteq> set kAlphabet"
    using base64Encode_shape [of k] by blast
  then have "CHR ''='' \<notin> set s" using kAlphabet_no_pad by blast
  then have "rev s = [] \<or> hd (rev s) \<noteq> CHR ''=''" using hd_in_set [of "rev s"] by auto
  then have "dropWhile (\<lambda>c. c = CHR ''='') (replicate n (CHR ''='') @ rev s) = rev s"
    by (cases "rev s") (simp_all add: dropWhile_append2 dropWhile_append3)
  then have "link_base64 k = s" by (simp add: link_base64_def strip_padding_def s(1))
  then show ?thesis
    using decode_loop_encode [of k 0 "[]"] by (simp add: base64Decode_def s(1) decode_loop_append_pad)
qed

text \<open>
  Whatever the address the server hands out and whatever the key, the link a phone scans carries exactly them: reading the two
  query parameters back, percent-decoding them and decoding the Base64 without padding gives the address and the public key.
\<close>

theorem link_url_carries:
  "query_value ''uuid'' (link_url address k) = Some address \<and> map_option base64Decode (query_value ''pub_key'' (link_url address k)) = Some k"
proof -
  have no: "CHR ''&'' \<notin> set (urlEncode s)" "CHR ''='' \<notin> set (urlEncode s)" for s
    using url_unreserved [of _ s] by (auto simp: reserved_def)
  have "tl (dropWhile (\<lambda>c. c \<noteq> CHR ''?'') (link_url address k)) =
      (''uuid='' @ urlEncode address) @ CHR ''&'' # (''pub_key='' @ urlEncode (link_base64 k))"
    by (simp add: link_url_def)
  moreover have "CHR ''&'' \<notin> set (''uuid='' @ urlEncode address)" "CHR ''&'' \<notin> set (''pub_key='' @ urlEncode (link_base64 k))"
    using no by simp_all
  ultimately have "split_on (CHR ''&'') (tl (dropWhile (\<lambda>c. c \<noteq> CHR ''?'') (link_url address k))) =
      [''uuid='' @ urlEncode address, ''pub_key='' @ urlEncode (link_base64 k)]"
    using split_on_append split_on_none by metis
  then show ?thesis by (simp add: query_value_def link_base64_decode)
qed


section \<open>On the terminal\<close>

text \<open>What an eye reads from the screen: the colours are set and reset, and every line is a row of cells with an upper and a lower half.\<close>

fun read_cells :: "bytes \<Rightarrow> (bool \<times> bool) list option" where
  "read_cells [] = Some []"
| "read_cells (c # s) =
    (if c = 0x20 then map_option (Cons (False, False)) (read_cells s)
     else (case s of d # e # r \<Rightarrow>
        if c = 0xE2 \<and> d = 0x96 \<and> e = 0x88 then map_option (Cons (True, True)) (read_cells r)
        else if c = 0xE2 \<and> d = 0x96 \<and> e = 0x80 then map_option (Cons (True, False)) (read_cells r)
        else if c = 0xE2 \<and> d = 0x96 \<and> e = 0x84 then map_option (Cons (False, True)) (read_cells r)
        else None
      | _ \<Rightarrow> None))"

fun read_lines :: "bytes \<Rightarrow> bytes list" where
  "read_lines s = (if s = [] then [] else takeWhile (\<lambda>b. b \<noteq> 10) s # read_lines (drop (Suc (length (takeWhile (\<lambda>b. b \<noteq> 10) s))) s))"

declare read_lines.simps [simp del]

definition black_on_white :: bytes where
  "black_on_white = map chr_byte (CHR 27 # ''[30;107m'')"

definition plain_again :: bytes where
  "plain_again = map chr_byte (CHR 27 # ''[0m'')"

definition read_screen :: "bytes \<Rightarrow> (bool \<times> bool) list list option" where
  "read_screen s = (if take 9 s = black_on_white \<and> drop (length s - 4) s = plain_again
     then those (map read_cells (read_lines (drop 9 (take (length s - 4) s)))) else None)"

lemma read_cells_line: "read_cells (concat (map (\<lambda>x. glyph (f x) (g x)) xs)) = Some (map (\<lambda>x. (f x, g x)) xs)"
  by (induction xs) (simp_all add: glyph_def)

lemma read_lines_concat:
  assumes "\<forall>l \<in> set ls. 10 \<notin> set l"
  shows "read_lines (concat (map (\<lambda>l. l @ [10]) ls)) = ls"
  using assms
proof (induction ls)
  case (Cons l ls)
  have "takeWhile (\<lambda>b. b \<noteq> 10) (l @ 10 # concat (map (\<lambda>l. l @ [10]) ls)) = l"
    using Cons.prems by (subst takeWhile_append2) auto
  then show ?case using Cons by (subst read_lines.simps) simp
qed (simp add: read_lines.simps)

lemma ascii_lines_map:
  "ascii_lines qr y = map (\<lambda>k. ascii_line qr (y + 2 * int k)) [0..<nat ((int (qr_width qr) + 7 - y) div 2)]"
proof (induction qr y rule: ascii_lines.induct)
  case (1 qr y)
  show ?case
  proof (cases "y < int (qr_width qr) + 6")
    case True
    define n where "n = nat ((int (qr_width qr) + 7 - (y + 2)) div 2)"
    have n: "nat ((int (qr_width qr) + 7 - y) div 2) = Suc n" using True by (simp add: n_def nat_eq_iff)
    have "ascii_lines qr y = ascii_line qr y # map (\<lambda>k. ascii_line qr (y + 2 + 2 * int k)) [0..<n]"
      using 1 True by (subst ascii_lines.simps) (simp add: n_def)
    also have "\<dots> = map (\<lambda>k. ascii_line qr (y + 2 * int k)) [0..<Suc n]"
      unfolding map_upt_Suc by (simp add: algebra_simps)
    finally show ?thesis by (simp only: n)
  next
    case False
    then have "nat ((int (qr_width qr) + 7 - y) div 2) = 0" by simp
    with False show ?thesis by (simp add: ascii_lines.simps)
  qed
qed

lemma those_map_Some: "those (map (\<lambda>x. Some (f x)) xs) = Some (map f xs)"
  by (induction xs) simp_all

lemma read_screen_rows:
  "read_screen (printQrAscii qr) = Some (map (\<lambda>k. map (\<lambda>x. (dark qr x (2 * int k - 6), dark qr x (2 * int k - 5))) [- 6..int (qr_width qr) + 5])
     [0..<nat ((int (qr_width qr) + 13) div 2)])"
proof -
  let ?body = "concat (map (\<lambda>l. l @ [10]) (ascii_lines qr (- 6)))"
  have split: "printQrAscii qr = black_on_white @ ?body @ plain_again"
    by (simp add: printQrAscii_def black_on_white_def plain_again_def)
  have len: "length black_on_white = 9" "length plain_again = 4" by (simp_all add: black_on_white_def plain_again_def)
  have "10 \<notin> set (ascii_line qr y)" for y by (auto simp: ascii_line_def glyph_def)
  then have "read_lines ?body = ascii_lines qr (- 6)" by (intro read_lines_concat) (auto simp: ascii_lines_map)
  moreover have "read_cells (ascii_line qr y) = Some (map (\<lambda>x. (dark qr x y, dark qr x (y + 1))) [- 6..int (qr_width qr) + 5])" for y
    unfolding ascii_line_def by (rule read_cells_line)
  ultimately show ?thesis
    unfolding read_screen_def split using len
    by (simp add: ascii_lines_map comp_def those_map_Some algebra_simps)
qed

text \<open>
  The code on the terminal is the code: reading the screen back cell by cell, every module of the QR code and of a quiet zone of six
  modules on each side is shown exactly once, dark where the code is dark and light elsewhere, in dark on light whatever the terminal's colours.
\<close>

theorem terminal_shows_code:
  "\<exists>rows. read_screen (printQrAscii qr) = Some rows \<and>
     (\<forall>x y. - 6 \<le> x \<and> x < int (qr_width qr) + 6 \<and> - 6 \<le> y \<and> y < int (qr_width qr) + 6 \<longrightarrow>
        nat ((y + 6) div 2) < length rows \<and> length (rows ! nat ((y + 6) div 2)) = qr_width qr + 12 \<and>
        (if even y then fst else snd) (rows ! nat ((y + 6) div 2) ! nat (x + 6)) = dark qr x y)"
proof (intro exI [of _ "map (\<lambda>k. map (\<lambda>x. (dark qr x (2 * int k - 6), dark qr x (2 * int k - 5))) [- 6..int (qr_width qr) + 5])
     [0..<nat ((int (qr_width qr) + 13) div 2)]"] conjI allI impI)
  fix x y :: int
  assume "- 6 \<le> x \<and> x < int (qr_width qr) + 6 \<and> - 6 \<le> y \<and> y < int (qr_width qr) + 6"
  then have b: "- 6 \<le> x" "x < int (qr_width qr) + 6" "- 6 \<le> y" "y < int (qr_width qr) + 6" by auto
  let ?k = "nat ((y + 6) div 2)"
  have k: "?k < nat ((int (qr_width qr) + 13) div 2)" using b by (simp add: nat_less_eq_zless) linarith
  have ys: "2 * int ?k - 6 = (if even y then y else y - 1)" using b(3) by (auto elim!: evenE oddE)
  have xs: "nat (x + 6) < length [- 6..int (qr_width qr) + 5]" "[- 6..int (qr_width qr) + 5] ! nat (x + 6) = x"
    using b by (simp_all add: nth_upto)
  let ?rows = "map (\<lambda>k. map (\<lambda>x. (dark qr x (2 * int k - 6), dark qr x (2 * int k - 5))) [- 6..int (qr_width qr) + 5])
     [0..<nat ((int (qr_width qr) + 13) div 2)]"
  show "?k < length ?rows" using k by simp
  show "length (?rows ! ?k) = qr_width qr + 12" using k by simp
  have "?rows ! ?k ! nat (x + 6) = (dark qr x (2 * int ?k - 6), dark qr x (2 * int ?k - 5))"
    using k xs by (simp del: length_upto)
  then show "(if even y then fst else snd) (?rows ! ?k ! nat (x + 6)) = dark qr x y"
    using ys by (cases "even y") (simp_all add: algebra_simps)
qed (rule read_screen_rows)


section \<open>As an image\<close>

lemma bit_80: "bit (0x80 :: byte) i \<longleftrightarrow> i = 7"
  using bit_exp_iff [where ?'a = byte, of 7 i] by auto

lemma length_clear [simp]: "length (clear_pixel row x) = length row"
  by (simp add: clear_pixel_def)

lemma clear_pixel_bit:
  assumes "x div 8 < length row"
  shows "bit (clear_pixel row n ! (x div 8)) (7 - x mod 8) \<longleftrightarrow> bit (row ! (x div 8)) (7 - x mod 8) \<and> x \<noteq> n"
proof (cases "x div 8 = n div 8")
  case True
  have "x mod 8 = n mod 8 \<longleftrightarrow> x = n" using True by (metis div_mod_decomp)
  moreover have "x mod 8 < 8" "n mod 8 < 8" by simp_all
  ultimately have "(n mod 8 + (7 - x mod 8) = 7) = (x = n)" by linarith
  then have "bit (drop_bit (n mod 8) (0x80 :: byte)) (7 - x mod 8) = (x = n)" unfolding bit_drop_bit_eq comp_def bit_80 .
  with True assms show ?thesis by (auto simp: clear_pixel_def bit_and_iff bit_not_iff)
qed (use assms in \<open>auto simp: clear_pixel_def\<close>)

lemma png_row_prefix:
  assumes "x div 8 < (sz + 7) div 8" "n \<le> sz"
  shows "length (foldl (\<lambda>row x. if isDark x then clear_pixel row x else row) (replicate ((sz + 7) div 8) 0xFF) [0..<n]) = (sz + 7) div 8 \<and>
    (bit (foldl (\<lambda>row x. if isDark x then clear_pixel row x else row) (replicate ((sz + 7) div 8) 0xFF) [0..<n] ! (x div 8)) (7 - x mod 8)
       \<longleftrightarrow> \<not> (x < n \<and> isDark x))"
  using assms(2)
proof (induction n)
  case 0
  have "bit (0xFF :: byte) (7 - x mod 8)" using bit_mask_iff [where ?'a = byte, of 8 "7 - x mod 8"] by (simp add: mask_eq_exp_minus_1)
  with assms(1) show ?case by simp
next
  case (Suc n)
  then show ?case using assms(1) by (auto simp: clear_pixel_bit less_Suc_eq)
qed

lemma png_row_bit:
  assumes "x < sz"
  shows "length (png_row isDark sz) = (sz + 7) div 8" "bit (png_row isDark sz ! (x div 8)) (7 - x mod 8) \<longleftrightarrow> \<not> isDark x"
proof -
  have "x div 8 < (sz + 7) div 8" using assms by linarith
  from png_row_prefix [OF this order_refl, of isDark]
  show "length (png_row isDark sz) = (sz + 7) div 8" "bit (png_row isDark sz ! (x div 8)) (7 - x mod 8) \<longleftrightarrow> \<not> isDark x"
    using assms by (simp_all add: png_row_def)
qed

lemma length_png_row: "length (png_row isDark sz) = (sz + 7) div 8"
proof (cases "sz = 0")
  case False
  then show ?thesis using png_row_bit(1) [of 0 sz] by simp
qed (simp add: png_row_def)

lemma nth_concat_block:
  "\<forall>l \<in> set ls. length l = n \<Longrightarrow> i < length ls \<Longrightarrow> j < n \<Longrightarrow> concat ls ! (i * n + j) = ls ! i ! j"
  by (induction ls arbitrary: i) (auto simp: nth_append nth_Cons split: nat.split)

lemma length_concat_block: "\<forall>l \<in> set ls. length l = n \<Longrightarrow> length (concat ls) = length ls * n"
  by (induction ls) simp_all

text \<open>
  A reader of one-bit greyscale PNG images: signature, header, one data chunk, end chunk, all checksums; rows without a filter, a
  pixel is black when its bit is zero.
\<close>

definition decode_png :: "bytes \<Rightarrow> (nat \<times> nat \<times> (nat \<Rightarrow> nat \<Rightarrow> bool)) option" where
  "decode_png s = (if take 8 s \<noteq> png_signature then None else
     case read_chunk (drop 8 s) of Some (t1, ihdr, r1) \<Rightarrow>
       (case (readBE32 ihdr, read_chunk r1) of (Some (w, ih), Some (t2, z, r2)) \<Rightarrow>
         (case (readBE32 ih, inflate z, read_chunk r2) of (Some (h, flags), Some raw, Some (t3, e, r3)) \<Rightarrow>
            let n = 1 + (unat w + 7) div 8 in
            if t1 = ''IHDR'' \<and> t2 = ''IDAT'' \<and> t3 = ''IEND'' \<and> flags = [1, 0, 0, 0, 0] \<and> e = [] \<and> r3 = [] \<and>
               length raw = unat h * n \<and> (\<forall>y < unat h. raw ! (y * n) = 0)
            then Some (unat w, unat h, \<lambda>x y. \<not> bit (raw ! (y * n + (1 + x div 8))) (7 - x mod 8)) else None
          | _ \<Rightarrow> None)
        | _ \<Rightarrow> None)
      | _ \<Rightarrow> None)"

definition png_stride :: "QRcode \<Rightarrow> nat \<Rightarrow> nat" where
  "png_stride qr scale = 1 + (png_size qr scale + 7) div 8"

lemma png_raw_facts:
  shows "length (png_raw qr scale) = png_size qr scale * png_stride qr scale"
    and "y < png_size qr scale \<Longrightarrow> png_raw qr scale ! (y * png_stride qr scale) = 0"
    and "x < png_size qr scale \<Longrightarrow> y < png_size qr scale \<Longrightarrow>
      bit (png_raw qr scale ! (y * png_stride qr scale + (1 + x div 8))) (7 - x mod 8) \<longleftrightarrow> \<not> pixel_dark qr scale y x"
proof -
  let ?z = "png_size qr scale"
  let ?ls = "map (\<lambda>y. (0 :: byte) # png_row (pixel_dark qr scale y) ?z) [0..<?z]"
  have l: "\<forall>l \<in> set ?ls. length l = png_stride qr scale" by (auto simp: png_stride_def length_png_row)
  show "length (png_raw qr scale) = ?z * png_stride qr scale"
    using length_concat_block [OF l] by (simp add: png_raw_def)
  have at: "png_raw qr scale ! (y * png_stride qr scale + j) = (0 # png_row (pixel_dark qr scale y) ?z) ! j" if "y < ?z" "j < png_stride qr scale" for y j
    using nth_concat_block [OF l, of y j] that by (simp add: png_raw_def)
  show "y < ?z \<Longrightarrow> png_raw qr scale ! (y * png_stride qr scale) = 0" using at [of y 0] by (simp add: png_stride_def)
  show "bit (png_raw qr scale ! (y * png_stride qr scale + (1 + x div 8))) (7 - x mod 8) \<longleftrightarrow> \<not> pixel_dark qr scale y x"
    if "x < ?z" "y < ?z"
  proof -
    have "x div 8 < (?z + 7) div 8" using that(1) by linarith
    then have "png_raw qr scale ! (y * png_stride qr scale + (1 + x div 8)) = png_row (pixel_dark qr scale y) ?z ! (x div 8)"
      using at [OF that(2), of "1 + x div 8"] by (simp add: png_stride_def)
    then show ?thesis using png_row_bit(2) [OF that(1)] by simp
  qed
qed

text \<open>
  C16: the PNG is a valid image of the code: an image reader that checks signature, chunk CRCs, the zlib stream and the row filters accepts it and sees
  a square of \<open>(width + 8) * scale\<close> pixels in which every module is a square of \<open>scale\<close> pixels, inside a quiet zone of four light modules.
\<close>

theorem png_shows_code:
  assumes "0 < png_size qr scale" "png_size qr scale < 65536"
  shows "\<exists>img. decode_png (qr_png qr scale) = Some (png_size qr scale, png_size qr scale, img) \<and>
    (\<forall>x < png_size qr scale. \<forall>y < png_size qr scale.
       img x y = dark qr (int (x div scale) - 4) (int (y div scale) - 4))"
proof -
  let ?z = "png_size qr scale"
  let ?n = "1 + (?z + 7) div 8"
  let ?raw = "png_raw qr scale"
  let ?img = "\<lambda>x y. \<not> bit (?raw ! (y * ?n + (1 + x div 8))) (7 - x mod 8)"
  have z: "unat (word_of_nat ?z :: uint32) = ?z" using assms(2) by (simp add: unat_of_nat take_bit_nat_eq_self)
  have "length ?raw \<le> 65536 * 8200"
  proof -
    have "?n \<le> 8200" using assms(2) by linarith
    then show ?thesis unfolding png_raw_facts(1) png_stride_def using assms(2) by (intro mult_le_mono) simp_all
  qed
  then have "length (zlibStoreUncompressed ?raw) < 2 ^ 32"
    using length_zlib_blocks [of ?raw] by (simp add: zlibStoreUncompressed_def)
  note chunks = read_written_chunk [of "''IHDR''" "png_ihdr ?z"] read_written_chunk [OF _ this, of "''IDAT''"] read_written_chunk [of "''IEND''" "[]" "[]"]
  have "drop 8 (qr_png qr scale) = writePngChunk ''IHDR'' (png_ihdr ?z) @ writePngChunk ''IDAT'' (zlibStoreUncompressed ?raw) @ writePngChunk ''IEND'' []"
    "take 8 (qr_png qr scale) = png_signature"
    by (simp_all add: qr_png_def png_signature_def)
  then have "decode_png (qr_png qr scale) = Some (?z, ?z, ?img)"
    using chunks png_raw_facts(1) [of qr scale] png_raw_facts(2) [of _ qr scale]
    by (simp add: decode_png_def png_stride_def png_ihdr_def inflate_zlib z Let_def)
  moreover have "\<forall>x < ?z. \<forall>y < ?z. ?img x y = dark qr (int (x div scale) - 4) (int (y div scale) - 4)"
    using png_raw_facts(3) by (simp add: png_stride_def pixel_dark_def kQuietModules_def)
  ultimately show ?thesis by blast
qed


theorem png_shows_code_witness:
  "\<exists>img. decode_png (qr_png \<lparr>qr_width = 1, qr_data = [1]\<rparr> 8) = Some (72, 72, img) \<and> img 39 32 \<and> \<not> img 40 32"
proof -
  let ?qr = "\<lparr>qr_width = 1, qr_data = [1 :: byte]\<rparr>"
  have z: "png_size ?qr 8 = 72" by (simp add: png_size_def kQuietModules_def)
  obtain img where img: "decode_png (qr_png ?qr 8) = Some (72, 72, img)"
      "\<forall>x < 72. \<forall>y < 72. img x y = dark ?qr (int (x div 8) - 4) (int (y div 8) - 4)"
    using png_shows_code [of ?qr 8] unfolding z by auto
  then have "img 39 32" "\<not> img 40 32" by (simp_all add: dark_def)
  with img(1) show ?thesis by blast
qed

theorem terminal_shows_code_witness:
  "\<exists>rows. read_screen (printQrAscii \<lparr>qr_width = 1, qr_data = [1]\<rparr>) = Some rows \<and> fst (rows ! 3 ! 6) \<and> \<not> snd (rows ! 3 ! 6)"
proof -
  let ?qr = "\<lparr>qr_width = 1, qr_data = [1 :: byte]\<rparr>"
  obtain rows where rows: "read_screen (printQrAscii ?qr) = Some rows"
      "\<And>x y. - 6 \<le> x \<and> x < int (qr_width ?qr) + 6 \<and> - 6 \<le> y \<and> y < int (qr_width ?qr) + 6 \<Longrightarrow>
         (if even y then fst else snd) (rows ! nat ((y + 6) div 2) ! nat (x + 6)) = dark ?qr x y"
    using terminal_shows_code [of ?qr] by blast
  from rows(2) [of 0 0] rows(2) [of 0 1] have "fst (rows ! 3 ! 6)" "\<not> snd (rows ! 3 ! 6)" by (simp_all add: dark_def)
  with rows(1) show ?thesis by blast
qed

end
