(* ===== verification/Provisioning.thy ===== *)
theory Provisioning
  imports QrCode
begin

text \<open>
  Model of the linking of a device in \<open>gendb\<close>: \<open>ProvisioningCipher.cpp\<close>, \<open>DeviceNameCipher.cpp\<close> and the listener and the
  waiting thread of \<open>ProvisioningClient.cpp\<close> as a step relation. X25519, HKDF, HMAC, AES and the protobuf parsers are parameters.
\<close>

section \<open>The provisioning cipher\<close>

record ProvisionMessage =
  pm_number :: string
  pm_aci :: string
  pm_pni :: string
  pm_aciIdentityKeyPublic :: bytes
  pm_aciIdentityKeyPrivate :: bytes
  pm_pniIdentityKeyPublic :: bytes
  pm_pniIdentityKeyPrivate :: bytes
  pm_provisioningCode :: string
  pm_profileKey :: "bytes option"
  pm_accountEntropyPool :: "string option"
  pm_mediaRootBackupKey :: "bytes option"

record DeviceName =
  dn_ephemeralPublic :: bytes
  dn_syntheticIv :: bytes
  dn_ciphertext :: bytes

text \<open>\<open>pl_agree\<close> deserializes a private and a public key and agrees on a secret; \<open>pl_hkdf\<close> takes the length, the secret, the info and the salt.\<close>

record prov_lib =
  pl_agree :: "bytes \<Rightarrow> bytes \<Rightarrow> bytes result"
  pl_hkdf :: "nat \<Rightarrow> bytes \<Rightarrow> bytes \<Rightarrow> bytes \<Rightarrow> bytes result"
  pl_hmac :: "bytes \<Rightarrow> bytes \<Rightarrow> bytes option"
  pl_cbc_decrypt :: "bytes \<Rightarrow> bytes \<Rightarrow> bytes \<Rightarrow> bytes option"
  pl_ctr_encrypt :: "bytes \<Rightarrow> bytes \<Rightarrow> bytes \<Rightarrow> bytes option"
  pl_parse_envelope :: "bytes \<Rightarrow> (bytes \<times> bytes) option"
  pl_parse_message :: "bytes \<Rightarrow> ProvisionMessage option"
  pl_device_name :: "DeviceName \<Rightarrow> bytes"

definition kIvLength :: nat where
  "kIvLength = 16"

definition kMacLength :: nat where
  "kMacLength = 32"

definition kInfo :: bytes where
  "kInfo = map chr_byte ''TextSecure Provisioning Message''"

definition prov_hmacSha256 :: "prov_lib \<Rightarrow> bytes \<Rightarrow> bytes \<Rightarrow> bytes result" where
  "prov_hmacSha256 l key data = (case pl_hmac l key data of None \<Rightarrow> Inl (Runtime_error ''HMAC-SHA256 failed'') | Some m \<Rightarrow> Inr m)"

definition aes256CbcDecrypt :: "prov_lib \<Rightarrow> bytes \<Rightarrow> bytes \<Rightarrow> bytes \<Rightarrow> bytes result" where
  "aes256CbcDecrypt l key iv ciphertext = (case pl_cbc_decrypt l key iv ciphertext of
       None \<Rightarrow> Inl (Runtime_error ''Provisioning cipher: AES-256-CBC decrypt failed (bad key/iv/padding)'') | Some p \<Rightarrow> Inr p)"

lemma prov_Inr_iff:
  "prov_hmacSha256 l k d = Inr m \<longleftrightarrow> pl_hmac l k d = Some m"
  "aes256CbcDecrypt l k iv c = Inr p \<longleftrightarrow> pl_cbc_decrypt l k iv c = Some p"
  by (auto simp: prov_hmacSha256_def aes256CbcDecrypt_def split: option.splits)

definition decryptProvisionEnvelope :: "prov_lib \<Rightarrow> bytes \<Rightarrow> bytes \<Rightarrow> bytes \<Rightarrow> bytes result" where
  "decryptProvisionEnvelope l ourPrivateKey envelopePublicKey envelopeBody =
     (if length envelopeBody \<le> 1 + kIvLength + kMacLength then Inl (Runtime_error ''Provisioning envelope body too short'')
      else if envelopeBody ! 0 \<noteq> 1
      then Inl (Runtime_error (''Provisioning cipher version mismatch: expected 1, got '' @ to_string (unat (envelopeBody ! 0))))
      else
        let n = length envelopeBody - kMacLength;
            iv = take kIvLength (drop 1 envelopeBody);
            theirMac = drop n envelopeBody;
            macInput = take n envelopeBody;
            ciphertext = drop (1 + kIvLength) (take n envelopeBody)
        in bindR (pl_agree l ourPrivateKey envelopePublicKey) (\<lambda>sharedSecret.
           bindR (pl_hkdf l 64 sharedSecret kInfo []) (\<lambda>derived.
           bindR (prov_hmacSha256 l (drop 32 derived) macInput) (\<lambda>ourMac.
             if length ourMac \<noteq> length theirMac \<or> ourMac \<noteq> theirMac then Inl (Runtime_error ''Provisioning cipher MAC mismatch'')
             else aes256CbcDecrypt l (take 32 derived) iv ciphertext))))"

text \<open>
  C29: \<open>decryptProvisionEnvelope\<close> accepts exactly the well-formed authenticated envelopes: it returns a plaintext if and only if the body is the version byte 1, a
  16 byte IV, a non-empty ciphertext and a 32 byte MAC, the MAC is the one of everything before it under the second half of the derived key, and the
  ciphertext decrypts to the plaintext under the first half. In particular every message a phone seals for this key is opened.
\<close>

theorem provision_envelope_exact:
  "decryptProvisionEnvelope l priv pub body = Inr p \<longleftrightarrow>
    (\<exists>iv ct mac secret derived. body = [1] @ iv @ ct @ mac \<and> length iv = 16 \<and> ct \<noteq> [] \<and> length mac = 32 \<and>
       pl_agree l priv pub = Inr secret \<and> pl_hkdf l 64 secret (map chr_byte ''TextSecure Provisioning Message'') [] = Inr derived \<and>
       pl_hmac l (drop 32 derived) ([1] @ iv @ ct) = Some mac \<and> pl_cbc_decrypt l (take 32 derived) iv ct = Some p)"
    (is "?l \<longleftrightarrow> ?r")
proof
  assume dec: ?l
  then have len: "49 < length body" "body ! 0 = 1"
    by (auto simp: decryptProvisionEnvelope_def kIvLength_def kMacLength_def split: if_splits)
  define iv where "iv = take 16 (drop 1 body)"
  define ct where "ct = drop 17 (take (length body - 32) body)"
  define mac where "mac = drop (length body - 32) body"
  have pre: "take (length body - 32) body = [1] @ iv @ ct"
  proof -
    have "take (length body - 32) body = take 17 (take (length body - 32) body) @ ct" unfolding ct_def by (rule append_take_drop_id [symmetric])
    also have "take 17 (take (length body - 32) body) = take 17 body" using len(1) by simp
    also have "take 17 body = [1] @ iv" using len by (cases body) (simp_all add: iv_def)
    finally show ?thesis by simp
  qed
  then have "body = [1] @ iv @ ct @ mac" unfolding mac_def by (metis append.assoc append_take_drop_id)
  moreover have "length iv = 16" "ct \<noteq> []" "length mac = 32" using len(1) by (simp_all add: iv_def ct_def mac_def)
  moreover obtain secret derived where "pl_agree l priv pub = Inr secret" "pl_hkdf l 64 secret kInfo [] = Inr derived"
    "pl_hmac l (drop 32 derived) (take (length body - 32) body) = Some mac" "pl_cbc_decrypt l (take 32 derived) iv ct = Some p"
    using dec len
    by (auto simp: decryptProvisionEnvelope_def kIvLength_def kMacLength_def Let_def prov_Inr_iff bindR_Inr_iff
        iv_def ct_def mac_def split: if_splits)
  ultimately show ?r unfolding pre kInfo_def by blast
next
  assume ?r
  then obtain iv ct mac secret derived where r: "body = [1] @ iv @ ct @ mac" "length iv = 16" "ct \<noteq> []" "length mac = 32"
    "pl_agree l priv pub = Inr secret" "pl_hkdf l 64 secret kInfo [] = Inr derived"
    "pl_hmac l (drop 32 derived) ([1] @ iv @ ct) = Some mac" "pl_cbc_decrypt l (take 32 derived) iv ct = Some p"
    by (auto simp: kInfo_def)
  then have n: "length body - 32 = length ([1] @ iv @ ct)" "body = ([1] @ iv @ ct) @ mac" "0 < length ct" by simp_all
  have parts: "take (length body - 32) body = [1] @ iv @ ct" "drop (length body - 32) body = mac"
    unfolding n(1) unfolding n(2) by simp_all
  have "take 16 (iv @ ct @ mac) = iv" "drop 16 (iv @ ct) = ct" using r(2) by simp_all
  show ?l
    using r n(3) parts \<open>take 16 (iv @ ct @ mac) = iv\<close> \<open>drop 16 (iv @ ct) = ct\<close>
    by (simp add: decryptProvisionEnvelope_def kIvLength_def kMacLength_def Let_def prov_hmacSha256_def aes256CbcDecrypt_def del: drop_append take_append)
qed

section \<open>The device name\<close>

definition aes256CtrEncrypt :: "prov_lib \<Rightarrow> bytes \<Rightarrow> bytes \<Rightarrow> bytes \<Rightarrow> bytes result" where
  "aes256CtrEncrypt l key iv plaintext = (case pl_ctr_encrypt l key iv plaintext of
       None \<Rightarrow> Inl (Runtime_error ''DeviceName cipher: AES-256-CTR encrypt failed'') | Some c \<Rightarrow> Inr c)"

lemma aes256Ctr_Inr_iff: "aes256CtrEncrypt l k iv p = Inr c \<longleftrightarrow> pl_ctr_encrypt l k iv p = Some c"
  by (auto simp: aes256CtrEncrypt_def split: option.splits)

definition bytesFromLiteral :: "string \<Rightarrow> bytes" where
  "bytesFromLiteral s = map chr_byte s"

text \<open>\<open>ephemeral\<close> is the freshly generated key pair, private and public key.\<close>

definition encryptDeviceName :: "prov_lib \<Rightarrow> bytes \<times> bytes \<Rightarrow> string \<Rightarrow> bytes \<Rightarrow> string result" where
  "encryptDeviceName l ephemeral plaintextDeviceName aciIdentityPrivateKey =
     (let plaintext = map chr_byte plaintextDeviceName in
      bindR (pl_agree l aciIdentityPrivateKey (snd ephemeral)) (\<lambda>masterSecret.
      bindR (prov_hmacSha256 l masterSecret (bytesFromLiteral ''auth'')) (\<lambda>key1.
      bindR (prov_hmacSha256 l key1 plaintext) (\<lambda>syntheticIvFull.
      let syntheticIv = take 16 syntheticIvFull in
      bindR (prov_hmacSha256 l masterSecret (bytesFromLiteral ''cipher'')) (\<lambda>key2.
      bindR (prov_hmacSha256 l key2 syntheticIv) (\<lambda>cipherKey.
      bindR (aes256CtrEncrypt l cipherKey (replicate 16 0) plaintext) (\<lambda>ciphertext.
        Inr (base64Encode (pl_device_name l \<lparr>dn_ephemeralPublic = snd ephemeral, dn_syntheticIv = syntheticIv, dn_ciphertext = ciphertext\<rparr>)))))))))"

text \<open>
  How another device of the account opens a name: it recomputes the secret from its identity key and the ephemeral public key, decrypts, and checks the
  synthetic IV. \<open>parse\<close> is the parser of the \<open>DeviceName\<close> message.
\<close>

definition open_device_name :: "prov_lib \<Rightarrow> (bytes \<Rightarrow> DeviceName option) \<Rightarrow> string \<Rightarrow> bytes \<Rightarrow> string option" where
  "open_device_name l parse b64 identityPrivateKey = (case parse (base64Decode b64) of None \<Rightarrow> None | Some dn \<Rightarrow>
     (case pl_agree l identityPrivateKey (dn_ephemeralPublic dn) of Inl _ \<Rightarrow> None | Inr secret \<Rightarrow>
       (case (pl_hmac l secret (map chr_byte ''auth''), pl_hmac l secret (map chr_byte ''cipher'')) of (Some k1, Some k2) \<Rightarrow>
         (case pl_hmac l k2 (dn_syntheticIv dn) of None \<Rightarrow> None | Some key \<Rightarrow>
           (case pl_ctr_encrypt l key (replicate 16 0) (dn_ciphertext dn) of None \<Rightarrow> None | Some plain \<Rightarrow>
             if map_option (take 16) (pl_hmac l k1 plain) = Some (dn_syntheticIv dn) then Some (map byte_chr plain) else None))
        | _ \<Rightarrow> None)))"

lemma base64_decode_encode: "base64Decode (base64Encode xs) = xs"
  by (simp add: base64Decode_def decode_loop_encode)

text \<open>
  A device name the tool encrypts is the name the account's other devices see, given that CTR mode decrypts by encrypting again and that the
  message format reads back what it writes; its integrity check holds as well.
\<close>

theorem device_name_roundtrip:
  assumes "encryptDeviceName l eph name priv = Inr s" "\<forall>dn. parse (pl_device_name l dn) = Some dn"
    and "\<forall>key iv p c. pl_ctr_encrypt l key iv p = Some c \<longrightarrow> pl_ctr_encrypt l key iv c = Some p"
  shows "open_device_name l parse s priv = Some name"
proof -
  from assms(1) obtain secret k1 full k2 key c where r: "pl_agree l priv (snd eph) = Inr secret" "pl_hmac l secret (map chr_byte ''auth'') = Some k1"
    "pl_hmac l k1 (map chr_byte name) = Some full" "pl_hmac l secret (map chr_byte ''cipher'') = Some k2" "pl_hmac l k2 (take 16 full) = Some key"
    "pl_ctr_encrypt l key (replicate 16 0) (map chr_byte name) = Some c"
    "s = base64Encode (pl_device_name l \<lparr>dn_ephemeralPublic = snd eph, dn_syntheticIv = take 16 full, dn_ciphertext = c\<rparr>)"
    by (auto simp: encryptDeviceName_def Let_def prov_Inr_iff aes256Ctr_Inr_iff bytesFromLiteral_def bindR_Inr_iff)
  have "pl_ctr_encrypt l key (replicate 16 0) c = Some (map chr_byte name)" using assms(3) r(6) by blast
  with r assms(2) show ?thesis by (simp add: open_device_name_def base64_decode_encode comp_def)
qed

text \<open>A library that only concatenates, to show that the assumptions can hold.\<close>

definition tagged :: "bytes \<Rightarrow> bytes" where
  "tagged xs = concat (map (\<lambda>b. [1, b]) xs) @ [0]"

fun untag :: "bytes \<Rightarrow> bytes \<times> bytes" where
  "untag (t # b # r) = (if t = 0 then ([], b # r) else (b # fst (untag r), snd (untag r)))"
| "untag _ = ([], [])"

lemma untag_tagged [simp]: "untag (tagged xs @ r) = (xs, r)"
  by (induction xs) (auto simp: tagged_def intro: list.exhaust [of r])

definition toy_name :: "DeviceName \<Rightarrow> bytes" where
  "toy_name dn = tagged (dn_ephemeralPublic dn) @ tagged (dn_syntheticIv dn) @ tagged (dn_ciphertext dn)"

definition toy_parse :: "bytes \<Rightarrow> DeviceName option" where
  "toy_parse b = (case untag b of (e, r) \<Rightarrow> case untag r of (i, r') \<Rightarrow>
     Some \<lparr>dn_ephemeralPublic = e, dn_syntheticIv = i, dn_ciphertext = fst (untag r')\<rparr>)"

definition toy_lib :: prov_lib where
  "toy_lib = \<lparr>pl_agree = (\<lambda>a b. Inr (a @ b)), pl_hkdf = (\<lambda>n a b c. Inr (take n (a @ replicate n 0))), pl_hmac = (\<lambda>k m. Some (take 32 (k @ m @ replicate 32 0))),
     pl_cbc_decrypt = (\<lambda>_ _ c. Some c), pl_ctr_encrypt = (\<lambda>_ _ p. Some (map NOT p)), pl_parse_envelope = (\<lambda>b. if b = [] then None else Some ([2], b)),
     pl_parse_message = (\<lambda>b. Some \<lparr>pm_number = ''+15550101'', pm_aci = ''aci-2'', pm_pni = ''pni-2'', pm_aciIdentityKeyPublic = b, pm_aciIdentityKeyPrivate = b,
        pm_pniIdentityKeyPublic = b, pm_pniIdentityKeyPrivate = b, pm_provisioningCode = ''code'', pm_profileKey = None, pm_accountEntropyPool = None,
        pm_mediaRootBackupKey = None\<rparr>),
     pl_device_name = toy_name\<rparr>"

theorem device_name_roundtrip_witness:
  "\<exists>s. encryptDeviceName toy_lib ([7], [8]) ''signal2sip'' [9] = Inr s \<and> open_device_name toy_lib toy_parse s [9] = Some ''signal2sip''"
proof -
  obtain s where s: "encryptDeviceName toy_lib ([7], [8]) ''signal2sip'' [9] = Inr s"
    by (simp add: encryptDeviceName_def toy_lib_def Let_def prov_hmacSha256_def aes256CtrEncrypt_def)
  moreover have "toy_parse (pl_device_name toy_lib dn) = Some dn" for dn
    using untag_tagged [of "dn_ciphertext dn" "[]"] by (simp add: toy_parse_def toy_lib_def toy_name_def)
  ultimately show ?thesis
    using device_name_roundtrip [OF s, of toy_parse] by (auto simp: toy_lib_def comp_def)
qed


section \<open>The listener and the waiting thread\<close>

record ProvisionMessageResult =
  pr_e164 :: string
  pr_aci :: string
  pr_pni :: string
  pr_aciIdentity :: "bytes \<times> bytes"
  pr_pniIdentity :: "bytes \<times> bytes"
  pr_provisioningCode :: string
  pr_profileKey :: "bytes option"
  pr_accountEntropyPool :: "string option"
  pr_mediaRootBackupKey :: "bytes option"

text \<open>The two identity key pairs are kept as pairs, private key first.\<close>

definition provision_result :: "ProvisionMessage \<Rightarrow> ProvisionMessageResult" where
  "provision_result pm = \<lparr>pr_e164 = pm_number pm, pr_aci = pm_aci pm, pr_pni = pm_pni pm,
     pr_aciIdentity = (pm_aciIdentityKeyPrivate pm, pm_aciIdentityKeyPublic pm),
     pr_pniIdentity = (pm_pniIdentityKeyPrivate pm, pm_pniIdentityKeyPublic pm), pr_provisioningCode = pm_provisioningCode pm,
     pr_profileKey = pm_profileKey pm, pr_accountEntropyPool = pm_accountEntropyPool pm, pr_mediaRootBackupKey = pm_mediaRootBackupKey pm\<rparr>"

definition read_envelope :: "prov_lib \<Rightarrow> bytes \<Rightarrow> bytes \<Rightarrow> ProvisionMessageResult result" where
  "read_envelope l ourPrivateKey envelopeBytes = (case pl_parse_envelope l envelopeBytes of
       None \<Rightarrow> Inl (Runtime_error ''bad ProvisionEnvelope'')
     | Some (publicKey, bd) \<Rightarrow> bindR (decryptProvisionEnvelope l ourPrivateKey publicKey bd) (\<lambda>plaintext.
         case pl_parse_message l plaintext of None \<Rightarrow> Inl (Runtime_error ''bad ProvisionMessage'') | Some pm \<Rightarrow> Inr (provision_result pm)))"

text \<open>The message of an exception; only \<open>std::runtime_error\<close> is thrown while an envelope is read.\<close>

definition what :: "exn \<Rightarrow> string" where
  "what e = (case e of Runtime_error s \<Rightarrow> s | _ \<Rightarrow> [])"

datatype link_phase = Await_address | Await_result | Linked ProvisionMessageResult | Failed string

definition no_address :: string where
  "no_address = ''no address received within 10s''"

definition lifespan_expired :: string where
  "lifespan_expired = ''lifespan expired with no completed link (90s)''"

definition socket_closed :: string where
  "socket_closed = ''socket closed before linking completed''"

text \<open>The shared members of \<open>Impl\<close>, where the waiting thread is, the milliseconds since the socket was open, and what was received and printed.\<close>

record link =
  gotAddress :: bool
  link_result :: "ProvisionMessageResult option"
  link_failure :: "string option"
  link_phase :: link_phase
  elapsed :: nat
  envelopes :: "bytes list"
  printed :: "string list"

definition link_open :: link where
  "link_open = \<lparr>gotAddress = False, link_result = None, link_failure = None, link_phase = Await_address, elapsed = 0, envelopes = [], printed = []\<rparr>"

definition onReceivedAddress :: "bytes \<times> bytes \<Rightarrow> string \<Rightarrow> link \<Rightarrow> link" where
  "onReceivedAddress ourKeyPair address c = c\<lparr>gotAddress := True, printed := printed c @ [link_url address (snd ourKeyPair)]\<rparr>"

definition onReceivedEnvelope :: "prov_lib \<Rightarrow> bytes \<times> bytes \<Rightarrow> bytes \<Rightarrow> link \<Rightarrow> link" where
  "onReceivedEnvelope l ourKeyPair envelopeBytes c =
     (let c = c\<lparr>envelopes := envelopes c @ [envelopeBytes]\<rparr> in
      case read_envelope l (fst ourKeyPair) envelopeBytes of
        Inr r \<Rightarrow> c\<lparr>link_result := Some r\<rparr>
      | Inl e \<Rightarrow> c\<lparr>link_failure := Some (what e)\<rparr>)"

definition link_interrupted :: "link \<Rightarrow> link" where
  "link_interrupted c = (if link_result c = None \<and> link_failure c = None
     then c\<lparr>link_failure := Some socket_closed\<rparr> else c)"

text \<open>
  The waits of \<open>waitForProvisionMessage\<close>: the thread goes on when what it waits for is there, and gives up at the deadline; otherwise it is blocked.
\<close>

definition wait_step :: "link \<Rightarrow> link option" where
  "wait_step c = (case link_phase c of
       Await_address \<Rightarrow>
         if gotAddress c \<or> link_result c \<noteq> None \<or> link_failure c \<noteq> None
         then Some (c\<lparr>link_phase := (case link_failure c of Some f \<Rightarrow> Failed f | None \<Rightarrow> Await_result)\<rparr>)
         else if 10000 \<le> elapsed c then Some (c\<lparr>link_phase := Failed no_address\<rparr>) else None
     | Await_result \<Rightarrow>
         if link_result c \<noteq> None \<or> link_failure c \<noteq> None
         then Some (c\<lparr>link_phase := (case link_failure c of Some f \<Rightarrow> Failed f | None \<Rightarrow> Linked (the (link_result c)))\<rparr>)
         else if 90000 \<le> elapsed c then Some (c\<lparr>link_phase := Failed lifespan_expired\<rparr>) else None
     | _ \<Rightarrow> None)"

inductive link_step :: "prov_lib \<Rightarrow> bytes \<times> bytes \<Rightarrow> link \<Rightarrow> link \<Rightarrow> bool" for l kp where
  address: "link_step l kp c (onReceivedAddress kp a c)"
| envelope: "link_step l kp c (onReceivedEnvelope l kp e c)"
| interrupted: "link_step l kp c (link_interrupted c)"
| waits: "wait_step c = Some c' \<Longrightarrow> link_step l kp c c'"
| passes: "link_step l kp c (c\<lparr>elapsed := elapsed c + d\<rparr>)"

section \<open>The outcome of a run\<close>

text \<open>A run with what has happened in it, newest first: the server's callbacks, time that passes (in milliseconds), and the moves of the waiting thread.\<close>

datatype link_event = Address string | Envelope bytes | Interruption | Passed nat | Woke

inductive link_run :: "prov_lib \<Rightarrow> bytes \<times> bytes \<Rightarrow> link \<times> link_event list \<Rightarrow> link \<times> link_event list \<Rightarrow> bool" for l kp where
  run_address: "link_run l kp (c, h) (onReceivedAddress kp a c, Address a # h)"
| run_envelope: "link_run l kp (c, h) (onReceivedEnvelope l kp e c, Envelope e # h)"
| run_interrupted: "link_run l kp (c, h) (link_interrupted c, Interruption # h)"
| run_waits: "wait_step c = Some c' \<Longrightarrow> link_run l kp (c, h) (c', Woke # h)"
| run_passes: "link_run l kp (c, h) (c\<lparr>elapsed := elapsed c + d\<rparr>, Passed d # h)"

abbreviation link_reachable :: "prov_lib \<Rightarrow> bytes \<times> bytes \<Rightarrow> link \<times> link_event list \<Rightarrow> bool" where
  "link_reachable l kp \<equiv> reachable (\<lambda>p. p = (link_open, [])) (link_run l kp)"

lemma link_run_step: "link_run l kp (c, h) (c', h') \<Longrightarrow> link_step l kp c c'"
  by (auto elim!: link_run.cases intro: link_step.intros)

text \<open>What such a history should come to, whatever the program keeps of it.\<close>

fun envelopes_in :: "link_event list \<Rightarrow> bytes list" where
  "envelopes_in [] = []"
| "envelopes_in (e # h) = (case e of Envelope b \<Rightarrow> [b] | _ \<Rightarrow> []) @ envelopes_in h"

fun time_of :: "link_event list \<Rightarrow> nat" where
  "time_of [] = 0"
| "time_of (e # h) = (case e of Passed d \<Rightarrow> d | _ \<Rightarrow> 0) + time_of h"

text \<open>The connection was lost before any envelope had come.\<close>

fun cut_off :: "link_event list \<Rightarrow> bool" where
  "cut_off [] = False"
| "cut_off (e # h) \<longleftrightarrow> e = Interruption \<and> envelopes_in h = [] \<or> cut_off h"

definition last_good :: "prov_lib \<Rightarrow> bytes \<Rightarrow> link_event list \<Rightarrow> ProvisionMessageResult option" where
  "last_good l key h = (case concat (map (\<lambda>e. case read_envelope l key e of Inr r \<Rightarrow> [r] | Inl _ \<Rightarrow> []) (envelopes_in h)) of [] \<Rightarrow> None | r # _ \<Rightarrow> Some r)"

definition reason :: "prov_lib \<Rightarrow> bytes \<Rightarrow> link_event list \<Rightarrow> string option" where
  "reason l key h = (case concat (map (\<lambda>e. case read_envelope l key e of Inl x \<Rightarrow> [what x] | Inr _ \<Rightarrow> []) (envelopes_in h)) of
       [] \<Rightarrow> if cut_off h then Some socket_closed else None | m # _ \<Rightarrow> Some m)"

definition expected_phase :: "prov_lib \<Rightarrow> bytes \<Rightarrow> link_event list \<Rightarrow> link_phase \<Rightarrow> bool" where
  "expected_phase l key h p \<longleftrightarrow> (case p of
       Linked r \<Rightarrow> last_good l key h = Some r \<and> reason l key h = None
     | Failed m \<Rightarrow> reason l key h = Some m \<or>
         m = no_address \<and> 10000 \<le> time_of h \<and> (\<forall>a. Address a \<notin> set h) \<and> envelopes_in h = [] \<and> Interruption \<notin> set h \<or>
         m = lifespan_expired \<and> 90000 \<le> time_of h \<and> envelopes_in h = [] \<and> Interruption \<notin> set h
     | _ \<Rightarrow> True)"

definition waits_over :: "link_phase \<Rightarrow> bool" where
  "waits_over p \<longleftrightarrow> p \<notin> {Await_address, Await_result}"

definition link_inv :: "prov_lib \<Rightarrow> bytes \<times> bytes \<Rightarrow> link \<times> link_event list \<Rightarrow> bool" where
  "link_inv l kp p \<longleftrightarrow> (case p of (c, h) \<Rightarrow>
     link_result c = last_good l (fst kp) h \<and> link_failure c = reason l (fst kp) h \<and> elapsed c = time_of h \<and> (gotAddress c \<longleftrightarrow> (\<exists>a. Address a \<in> set h)) \<and>
     (\<forall>u \<in> set (printed c). \<exists>a. Address a \<in> set h \<and> u = link_url a (snd kp)) \<and>
     (waits_over (link_phase c) \<longrightarrow> (\<exists>later before. h = later @ Woke # before \<and> Woke \<notin> set later \<and> expected_phase l (fst kp) before (link_phase c))))"

lemma nothing_known: "last_good l key h = None \<Longrightarrow> reason l key h = None \<Longrightarrow> envelopes_in h = [] \<and> Interruption \<notin> set h"
proof -
  assume n: "last_good l key h = None" "reason l key h = None"
  have a: "concat (map (\<lambda>e. case read_envelope l key e of Inr r \<Rightarrow> [r] | Inl _ \<Rightarrow> []) (envelopes_in h)) = []"
    using n(1) by (simp add: last_good_def split: list.splits)
  have b: "concat (map (\<lambda>e. case read_envelope l key e of Inl x \<Rightarrow> [what x] | Inr _ \<Rightarrow> []) (envelopes_in h)) = []"
    using n(2) by (simp add: reason_def split: list.splits)
  have e: "envelopes_in h = []"
  proof (cases "envelopes_in h")
    case (Cons x xs)
    with a b show ?thesis by (cases "read_envelope l key x") simp_all
  qed
  have "\<not> cut_off h" using n(2) by (simp add: reason_def e split: if_splits)
  moreover have "Interruption \<in> set h \<Longrightarrow> envelopes_in h = [] \<Longrightarrow> cut_off h" for h
    by (induction h) auto
  ultimately show ?thesis using e by blast
qed

lemma spec_quiet:
  assumes "e \<noteq> Interruption" "\<forall>b. e \<noteq> Envelope b"
  shows "last_good l key (e # h) = last_good l key h" "reason l key (e # h) = reason l key h"
  using assms by (simp_all add: last_good_def reason_def split: link_event.split)

lemma link_inv_wait:
  assumes "wait_step c = Some c'" "link_inv l kp (c, h)"
  shows "link_inv l kp (c', Woke # h)"
proof -
  have same: "printed c' = printed c" "elapsed c' = elapsed c" "link_result c' = link_result c" "link_failure c' = link_failure c" "gotAddress c' = gotAddress c"
    using assms(1) by (auto simp: wait_step_def split: link_phase.splits if_splits)
  have "expected_phase l (fst kp) h (link_phase c')"
    using assms nothing_known [of l "fst kp" h]
    by (auto simp: wait_step_def link_inv_def expected_phase_def split: link_phase.splits if_splits option.splits)
  then have "\<exists>later before. Woke # h = later @ Woke # before \<and> Woke \<notin> set later \<and> expected_phase l (fst kp) before (link_phase c')"
    by (intro exI [of _ "[]"] exI [of _ h]) simp
  then show ?thesis using assms(2) by (simp add: link_inv_def spec_quiet same)
qed

lemma later_event: "e \<noteq> Woke \<Longrightarrow> (\<exists>later before. h = later @ Woke # before \<and> Woke \<notin> set later \<and> Q before) \<Longrightarrow>
    (\<exists>later before. e # h = later @ Woke # before \<and> Woke \<notin> set later \<and> Q before)"
  by (metis append_Cons set_ConsD)

lemma link_inv_quiet:
  assumes "link_inv l kp (c, h)" "e \<noteq> Woke" "link_phase c' = link_phase c"
    "link_result c' = last_good l (fst kp) (e # h)" "link_failure c' = reason l (fst kp) (e # h)"
    "elapsed c' = time_of (e # h)" "gotAddress c' \<longleftrightarrow> (\<exists>a. Address a \<in> set (e # h))" "\<forall>u \<in> set (printed c'). u \<in> set (printed c) \<or> (\<exists>a. e = Address a \<and> u = link_url a (snd kp))"
  shows "link_inv l kp (c', e # h)"
proof -
  have "waits_over (link_phase c') \<longrightarrow> (\<exists>later before. e # h = later @ Woke # before \<and> Woke \<notin> set later \<and> expected_phase l (fst kp) before (link_phase c'))"
    using assms(1-3) later_event [OF assms(2), of h "\<lambda>b. expected_phase l (fst kp) b (link_phase c)"] by (simp add: link_inv_def)
  moreover have "\<forall>u \<in> set (printed c'). \<exists>a. Address a \<in> set (e # h) \<and> u = link_url a (snd kp)"
    using assms(1,8) by (fastforce simp: link_inv_def)
  ultimately show ?thesis using assms(4-7) by (simp add: link_inv_def)
qed

lemma spec_envelope:
  "last_good l key (Envelope e # h) = (case read_envelope l key e of Inr r \<Rightarrow> Some r | Inl _ \<Rightarrow> last_good l key h)"
  "reason l key (Envelope e # h) = (case read_envelope l key e of Inl x \<Rightarrow> Some (what x) | Inr _ \<Rightarrow> reason l key h)"
  by (simp_all add: reason_def last_good_def split: sum.split)

lemma spec_interrupted:
  "last_good l key (Interruption # h) = last_good l key h"
  "reason l key (Interruption # h) = (if last_good l key h = None \<and> reason l key h = None then Some socket_closed else reason l key h)"
proof -
  show "last_good l key (Interruption # h) = last_good l key h" by (simp add: last_good_def)
  show "reason l key (Interruption # h) = (if last_good l key h = None \<and> reason l key h = None then Some socket_closed else reason l key h)"
  proof (cases "envelopes_in h = []")
    case True
    then show ?thesis by (simp add: reason_def last_good_def)
  next
    case False
    then have "\<not> (last_good l key h = None \<and> reason l key h = None)" using nothing_known by blast
    moreover have "reason l key (Interruption # h) = reason l key h" using False by (simp add: reason_def)
    ultimately show ?thesis by presburger
  qed
qed

lemma link_inv_step:
  assumes "link_run l kp p p'" "link_inv l kp p"
  shows "link_inv l kp p'"
  using assms
proof (cases rule: link_run.cases)
  case (run_address c h a)
  have i: "link_inv l kp (c, h)" using assms(2) run_address(1) by simp
  show ?thesis unfolding run_address(2)
    by (rule link_inv_quiet [OF i]) (use i in \<open>simp_all add: spec_quiet onReceivedAddress_def link_inv_def\<close>, blast)
next
  case (run_envelope c h e)
  have i: "link_inv l kp (c, h)" using assms(2) run_envelope(1) by simp
  have "link_phase (onReceivedEnvelope l kp e c) = link_phase c" "elapsed (onReceivedEnvelope l kp e c) = elapsed c"
    "gotAddress (onReceivedEnvelope l kp e c) = gotAddress c" "printed (onReceivedEnvelope l kp e c) = printed c"
    "link_result (onReceivedEnvelope l kp e c) = last_good l (fst kp) (Envelope e # h)" "link_failure (onReceivedEnvelope l kp e c) = reason l (fst kp) (Envelope e # h)"
    using i by (simp_all add: onReceivedEnvelope_def spec_envelope link_inv_def Let_def split: sum.split)
  with i show ?thesis unfolding run_envelope(2)
    by (intro link_inv_quiet [OF i]) (simp_all add: link_inv_def)
next
  case (run_interrupted c h)
  have i: "link_inv l kp (c, h)" using assms(2) run_interrupted(1) by simp
  show ?thesis unfolding run_interrupted(2)
    by (rule link_inv_quiet [OF i]) (use i in \<open>simp_all add: spec_interrupted link_interrupted_def link_inv_def\<close>)
next
  case (run_waits c c' h)
  with assms(2) show ?thesis by (simp add: link_inv_wait)
next
  case (run_passes c h d)
  have i: "link_inv l kp (c, h)" using assms(2) run_passes(1) by simp
  show ?thesis unfolding run_passes(2)
    by (rule link_inv_quiet [OF i]) (use i in \<open>simp_all add: spec_quiet link_inv_def\<close>)
qed

interpretation linking: invariant_system "\<lambda>p. p = (link_open, [])" "link_run l kp" "link_inv l kp" for l kp
proof unfold_locales
  show "link_inv l kp p" if "p = (link_open, [])" for p
    using that by (simp add: link_inv_def link_open_def last_good_def reason_def waits_over_def)
qed (rule link_inv_step)

text \<open>
  C30: Whatever the order in which the server's callbacks, the clock and the waiting thread run, the outcome is what had happened when the thread last woke. Linking succeeds with
  the content of the last envelope that decrypts and authenticates under this run's own key, and only if none has failed to and the connection was not lost before the first;
  it fails with the message of the last bad envelope, with a closed socket only if the connection was lost before any envelope came, without an address only if
  ten seconds passed with no address, no envelope and no loss of the connection, and as expired only if ninety passed with no envelope and no loss. Every link shown is for an
  address the server sent and carries this run's public key.
\<close>

theorem linking_outcome:
  assumes "link_reachable l kp (c, h)"
  shows "(link_phase c \<notin> {Await_address, Await_result} \<longrightarrow> (\<exists>later before. h = later @ Woke # before \<and> Woke \<notin> set later \<and> expected_phase l (fst kp) before (link_phase c))) \<and>
    (\<forall>r. link_phase c = Linked r \<longrightarrow> (\<exists>e pub bd p pm. Envelope e \<in> set h \<and> pl_parse_envelope l e = Some (pub, bd) \<and>
       decryptProvisionEnvelope l (fst kp) pub bd = Inr p \<and> pl_parse_message l p = Some pm \<and> r = provision_result pm)) \<and>
    (\<forall>u \<in> set (printed c). \<exists>a. Address a \<in> set h \<and> u = link_url a (snd kp))"
proof -
  have inv: "link_inv l kp (c, h)" by (rule linking.reachable_inv [OF assms])
  then have out: "waits_over (link_phase c) \<longrightarrow> (\<exists>later before. h = later @ Woke # before \<and> Woke \<notin> set later \<and> expected_phase l (fst kp) before (link_phase c))"
    by (simp add: link_inv_def)
  have known: "Envelope e \<in> set h" if "e \<in> set (envelopes_in h)" for e h
    using that by (induction h) (auto split: link_event.splits)
  have read: "\<exists>pub bd p pm. pl_parse_envelope l e = Some (pub, bd) \<and> decryptProvisionEnvelope l (fst kp) pub bd = Inr p \<and>
      pl_parse_message l p = Some pm \<and> r = provision_result pm" if "read_envelope l (fst kp) e = Inr r" for e r
    using that by (auto simp: read_envelope_def bindR_Inr_iff split: option.splits)
  have good: "\<exists>e. Envelope e \<in> set h \<and> read_envelope l (fst kp) e = Inr r" if "link_phase c = Linked r" for r
  proof -
    have "waits_over (link_phase c)" using that by (simp add: waits_over_def)
    with out obtain later before where w: "h = later @ Woke # before" "expected_phase l (fst kp) before (link_phase c)" by blast
    then have "last_good l (fst kp) before = Some r" using that by (simp add: expected_phase_def)
    then have "r \<in> set (concat (map (\<lambda>e. case read_envelope l (fst kp) e of Inr r \<Rightarrow> [r] | Inl _ \<Rightarrow> []) (envelopes_in before)))"
      unfolding last_good_def by (metis (no_types, lifting) list.exhaust list.set_intros(1) list.simps(4,5) option.distinct(1) option.inject)
    then obtain e where "e \<in> set (envelopes_in before)" "read_envelope l (fst kp) e = Inr r" by (auto split: sum.splits)
    then show ?thesis using known w(1) by auto
  qed
  have "link_phase c \<notin> {Await_address, Await_result} \<longrightarrow> (\<exists>later before. h = later @ Woke # before \<and> Woke \<notin> set later \<and> expected_phase l (fst kp) before (link_phase c))"
    using out by (simp add: waits_over_def)
  moreover have "\<forall>r. link_phase c = Linked r \<longrightarrow> (\<exists>e pub bd p pm. Envelope e \<in> set h \<and> pl_parse_envelope l e = Some (pub, bd) \<and>
       decryptProvisionEnvelope l (fst kp) pub bd = Inr p \<and> pl_parse_message l p = Some pm \<and> r = provision_result pm)"
    using good read by blast
  moreover have "\<forall>u \<in> set (printed c). \<exists>a. Address a \<in> set h \<and> u = link_url a (snd kp)" using inv by (simp add: link_inv_def)
  ultimately show ?thesis by blast
qed

definition sealed :: bytes where
  "sealed = [1] @ replicate 16 0 @ [5] @ replicate 32 0"

lemma sealed_opens: "read_envelope toy_lib [9] sealed = Inr (provision_result (the (pl_parse_message toy_lib [5])))"
  by (simp add: read_envelope_def toy_lib_def sealed_def decryptProvisionEnvelope_def kIvLength_def kMacLength_def kInfo_def Let_def prov_hmacSha256_def
      aes256CbcDecrypt_def numeral_eq_Suc)

definition linked_run :: link where
  "linked_run = the (wait_step (onReceivedEnvelope toy_lib ([9], [8]) sealed (the (wait_step (onReceivedAddress ([9], [8]) ''abc'' link_open)))))"

lemma linked_run_reached: "link_reachable toy_lib ([9], [8]) (linked_run, [Woke, Envelope sealed, Woke, Address ''abc''])"
  and linked_run_phase: "link_phase linked_run = Linked (provision_result (the (pl_parse_message toy_lib [5])))"
proof -
  let ?r = "link_reachable toy_lib ([9], [8])"
  define c1 where "c1 = onReceivedAddress ([9], [8]) ''abc'' link_open"
  have "?r (link_open, [])" by (rule reach_init) (rule refl)
  then have r1: "?r (c1, [Address ''abc''])" unfolding c1_def by (rule reach_step) (rule run_address)
  define c2 where "c2 = the (wait_step c1)"
  have w1: "wait_step c1 = Some c2" "link_phase c2 = Await_result" "link_failure c2 = None"
    by (simp_all add: c2_def wait_step_def c1_def onReceivedAddress_def link_open_def)
  define c3 where "c3 = onReceivedEnvelope toy_lib ([9], [8]) sealed c2"
  have c3: "link_phase c3 = Await_result" "link_failure c3 = None" "link_result c3 = Some (provision_result (the (pl_parse_message toy_lib [5])))"
    using w1 sealed_opens by (simp_all add: c3_def onReceivedEnvelope_def Let_def)
  have r3: "?r (c3, [Envelope sealed, Woke, Address ''abc''])"
    unfolding c3_def by (rule reach_step [OF reach_step [OF r1 run_waits [OF w1(1)]]]) (rule run_envelope)
  have run: "linked_run = the (wait_step c3)" by (simp add: linked_run_def c3_def c2_def c1_def)
  have "wait_step c3 = Some linked_run" unfolding run using c3 by (simp add: wait_step_def)
  then show "?r (linked_run, [Woke, Envelope sealed, Woke, Address ''abc''])" by (intro reach_step [OF r3] run_waits)
  show "link_phase linked_run = Linked (provision_result (the (pl_parse_message toy_lib [5])))" unfolding run using c3 by (simp add: wait_step_def)
qed

theorem linking_outcome_witness:
  "\<exists>later before. [Woke, Envelope sealed, Woke, Address ''abc''] = later @ Woke # before \<and>
     last_good toy_lib [9] before = Some (provision_result (the (pl_parse_message toy_lib [5]))) \<and> reason toy_lib [9] before = None"
  using linking_outcome [OF linked_run_reached] linked_run_phase by (auto simp: expected_phase_def)

definition waits_left :: "link_phase \<Rightarrow> nat" where
  "waits_left p = (case p of Await_address \<Rightarrow> 2 | Await_result \<Rightarrow> 1 | _ \<Rightarrow> 0)"

text \<open>
  \<open>waitForProvisionMessage\<close> always ends: each move of the waiting thread leaves it fewer waits, nothing the callbacks do takes it back, and once the 90 seconds
  have passed it is never blocked until it has returned or thrown.
\<close>

theorem linking_ends:
  "(\<forall>c'. wait_step c = Some c' \<longrightarrow> waits_left (link_phase c') < waits_left (link_phase c)) \<and>
   (\<forall>c'. link_step l kp c c' \<longrightarrow> waits_left (link_phase c') \<le> waits_left (link_phase c) \<and> elapsed c \<le> elapsed c') \<and>
   (90000 \<le> elapsed c \<and> wait_step c = None \<longrightarrow> (\<exists>r. link_phase c = Linked r) \<or> (\<exists>m. link_phase c = Failed m))"
proof (intro conjI allI impI)
  have dec: "waits_left (link_phase c') < waits_left (link_phase c) \<and> elapsed c' = elapsed c" if "wait_step c = Some c'" for c'
    using that by (auto simp: wait_step_def waits_left_def split: link_phase.splits if_splits option.splits)
  show "waits_left (link_phase c') < waits_left (link_phase c)" if "wait_step c = Some c'" for c' using dec [OF that] by simp
  have "link_phase (onReceivedEnvelope l kp e c) = link_phase c \<and> elapsed (onReceivedEnvelope l kp e c) = elapsed c" for e
    by (simp add: onReceivedEnvelope_def Let_def split: sum.split)
  then show "waits_left (link_phase c') \<le> waits_left (link_phase c)" "elapsed c \<le> elapsed c'" if "link_step l kp c c'" for c'
    using that by (auto elim!: link_step.cases dest: dec simp: onReceivedAddress_def link_interrupted_def)
  show "(\<exists>r. link_phase c = Linked r) \<or> (\<exists>m. link_phase c = Failed m)" if "90000 \<le> elapsed c \<and> wait_step c = None"
    using that by (auto simp: wait_step_def split: link_phase.splits if_splits)
qed

theorem linking_ends_witness:
  "(\<exists>c'. wait_step (link_open\<lparr>elapsed := 90000\<rparr>) = Some c' \<and> waits_left (link_phase c') < 2) \<and>
   (\<exists>r. link_phase (linked_run\<lparr>elapsed := 90000\<rparr>) = Linked r)"
proof -
  obtain c' where "wait_step (link_open\<lparr>elapsed := 90000\<rparr>) = Some c'"
    by (simp add: wait_step_def link_open_def)
  with linking_ends [of "link_open\<lparr>elapsed := 90000\<rparr>"] have "\<exists>c'. wait_step (link_open\<lparr>elapsed := 90000\<rparr>) = Some c' \<and> waits_left (link_phase c') < 2"
    by (auto simp: waits_left_def link_open_def)
  moreover have "wait_step (linked_run\<lparr>elapsed := 90000\<rparr>) = None" using linked_run_phase by (simp add: wait_step_def)
  with linking_ends [of "linked_run\<lparr>elapsed := 90000\<rparr>"] have "\<exists>r. link_phase (linked_run\<lparr>elapsed := 90000\<rparr>) = Linked r"
    using linked_run_phase by auto
  ultimately show ?thesis by blast
qed

end
