(* ===== verification/Frames.thy ===== *)
theory Frames
  imports Prelude
begin

text \<open>
  Frame conditions of effects: what an operation keeps of its state, whether it returns or raises. The rules for sequencing, branching and catching are
  proved once, for every preorder on states.
\<close>

definition keeps :: "('s \<Rightarrow> 's \<Rightarrow> bool) \<Rightarrow> ('s, 'a) effect \<Rightarrow> bool" where
  "keeps R m \<longleftrightarrow> (\<forall>s x s'. m s = (x, s') \<longrightarrow> R s s')"

lemma keepsD: "m s = (x, s') \<Longrightarrow> keeps R m \<Longrightarrow> R s s'"
  by (auto simp: keeps_def)

locale frame =
  fixes R :: "'s \<Rightarrow> 's \<Rightarrow> bool"
  assumes unchanged: "R s s"
    and composed: "R s t \<Longrightarrow> R t u \<Longrightarrow> R s u"
begin

lemma bind: "keeps R m \<Longrightarrow> (\<And>x. keeps R (f x)) \<Longrightarrow> keeps R (bindS m f)"
  unfolding keeps_def by (blast elim: bindS_cases intro: composed)

lemma basic: "keeps R (liftR f)" "keeps R (returnS x)" "keeps R (throwS e)"
  by (auto simp: keeps_def liftR_def unchanged)

lemma update: "(\<And>s s'. f s = Inr s' \<Longrightarrow> R s s') \<Longrightarrow> keeps R (updR f)"
  by (auto simp: keeps_def updR_def unchanged split: sum.splits)

lemma catch: "keeps R m \<Longrightarrow> keeps R (catch_std m)"
  unfolding keeps_def catch_std_def by (auto split: prod.splits sum.splits)

lemma branch: "keeps R m \<Longrightarrow> keeps R n \<Longrightarrow> keeps R (if b then m else n)"
  by simp

lemma branch_option: "keeps R m \<Longrightarrow> (\<And>x. keeps R (f x)) \<Longrightarrow> keeps R (case opt of None \<Rightarrow> m | Some x \<Rightarrow> f x)"
  by (cases opt) simp_all

lemma branch_list: "keeps R m \<Longrightarrow> (\<And>x xs. keeps R (f x xs)) \<Longrightarrow> keeps R (case l of [] \<Rightarrow> m | x # xs \<Rightarrow> f x xs)"
  by (cases l) simp_all

lemmas rules = bind basic update catch branch branch_option branch_list

end

end
