(* ===== verification/Registration.thy ===== *)
theory Registration
  imports GendbSafety Provisioning StorageServiceSync Frames
begin

text \<open>
  Model of how \<open>gendb\<close> creates accounts: \<open>RegistrationServiceClient.cpp\<close> over libsignal's registration service, the file that carries a
  registration from one run of the tool to the next, and the commands \<open>register\<close>, \<open>register-captcha\<close>, \<open>verify\<close> and \<open>link\<close> of \<open>gendb/main.cpp\<close> with its
  dispatch. Every call to the service is logged; libsignal, the random numbers, the JSON text format and libcurl are parameters.
\<close>

section \<open>The registration service client\<close>

datatype identity_kind = Aci | Pni

datatype reg_set =
    Set_account_password string
  | Set_skip_device_transfer
  | Set_identity_public_key identity_kind bytes
  | Set_identity_signed_pre_key identity_kind uint32 bytes bytes
  | Set_identity_pq_last_resort_pre_key identity_kind uint32 bytes bytes

record reg_attributes =
  at_registrationId :: "16 word"
  at_pniRegistrationId :: "16 word"
  at_unidentifiedAccessKey :: bytes
  at_unrestricted :: bool
  at_capabilities :: "string \<times> nat list"
  at_discoverable :: bool

datatype reg_call =
    Create_session string
  | Resume_session string string
  | Submit_captcha string
  | Request_verification_code string string
  | Submit_verification_code string
  | Register_account "reg_set list" reg_attributes

record reg_session =
  rs_id :: string
  rs_allowedToRequestCode :: bool
  rs_requestedInformation :: bytes
  rs_verified :: bool

record RegistrationSessionState =
  allowedToRequestCode :: bool
  requestedInformation :: "string list"

record RegisteredAccount =
  ra_aci :: string
  ra_pni :: string

text \<open>
  \<open>rl_call\<close> is what a call of the service comes to, given how many were made before; \<open>rl_session\<close> what the session shows after that many calls;
  \<open>rl_set\<close> what a setter of the request comes to, key parsing included. \<open>rl_http\<close> is libcurl.
\<close>

record reg_lib =
  rl_new :: "unit result"
  rl_call :: "nat \<Rightarrow> reg_call \<Rightarrow> unit result"
  rl_session :: "nat \<Rightarrow> reg_session result"
  rl_set :: "reg_set \<Rightarrow> unit result"
  rl_registered :: "nat \<Rightarrow> RegisteredAccount result"
  rl_dump :: "json \<Rightarrow> string"
  rl_parse :: "string \<Rightarrow> json result"
  rl_http :: "http_out \<Rightarrow> string + Response"

record reg =
  rg_world :: gendb
  rg_calls :: "reg_call list"
  rg_http :: "http_out list"

definition in_world :: "(gendb, 'a) effect \<Rightarrow> (reg, 'a) effect" where
  "in_world m s = (case m (rg_world s) of (x, w) \<Rightarrow> (x, s\<lparr>rg_world := w\<rparr>))"

definition service_call :: "reg_lib \<Rightarrow> reg_call \<Rightarrow> (reg, unit) effect" where
  "service_call l c s = (rl_call l (length (rg_calls s)) c, s\<lparr>rg_calls := rg_calls s @ [c]\<rparr>)"

definition session_now :: "reg_lib \<Rightarrow> (reg, reg_session) effect" where
  "session_now l = liftR (\<lambda>s. rl_session l (length (rg_calls s)))"

definition challengeOptionName :: "byte \<Rightarrow> string" where
  "challengeOptionName discriminant = (if discriminant = 0 then ''pushChallenge'' else if discriminant = 1 then ''captcha'' else ''unknown'')"

definition currentSessionState :: "reg_lib \<Rightarrow> (reg, RegistrationSessionState) effect" where
  "currentSessionState l = bindS (session_now l) (\<lambda>session.
     returnS \<lparr>allowedToRequestCode = rs_allowedToRequestCode session, requestedInformation = map challengeOptionName (rs_requestedInformation session)\<rparr>)"

definition sessionId :: "reg_lib \<Rightarrow> (reg, string) effect" where
  "sessionId l = bindS (session_now l) (\<lambda>session. returnS (rs_id session))"

definition createSession :: "reg_lib \<Rightarrow> string \<Rightarrow> (reg, RegistrationSessionState) effect" where
  "createSession l e164 = bindS (service_call l (Create_session e164)) (\<lambda>_. currentSessionState l)"

definition resumeSession :: "reg_lib \<Rightarrow> string \<Rightarrow> string \<Rightarrow> (reg, RegistrationSessionState) effect" where
  "resumeSession l sid e164 = bindS (service_call l (Resume_session sid e164)) (\<lambda>_. currentSessionState l)"

definition submitCaptcha :: "reg_lib \<Rightarrow> string \<Rightarrow> (reg, RegistrationSessionState) effect" where
  "submitCaptcha l captchaToken = bindS (service_call l (Submit_captcha captchaToken)) (\<lambda>_. currentSessionState l)"

definition requestVerificationCode :: "reg_lib \<Rightarrow> string \<Rightarrow> (reg, RegistrationSessionState) effect" where
  "requestVerificationCode l transport =
     bindS (service_call l (Request_verification_code transport ''signal2sip'')) (\<lambda>_. currentSessionState l)"

definition submitVerificationCode :: "reg_lib \<Rightarrow> string \<Rightarrow> (reg, bool) effect" where
  "submitVerificationCode l code =
     bindS (catch_std (service_call l (Submit_verification_code code))) (\<lambda>_.
     bindS (session_now l) (\<lambda>session. returnS (rs_verified session)))"

text \<open>A list of strings as the concatenation and the length of each.\<close>

definition makeBytestrings :: "string list \<Rightarrow> string \<times> nat list" where
  "makeBytestrings items = (concat items, map length items)"

record GeneratedPrekeys =
  aciSignedPreKey :: "WirePreKey \<times> PrekeyRecord"
  pniSignedPreKey :: "WirePreKey \<times> PrekeyRecord"
  aciKyberPreKey :: "WirePreKey \<times> PrekeyRecord"
  pniKyberPreKey :: "WirePreKey \<times> PrekeyRecord"

definition signed_setter :: "identity_kind \<Rightarrow> WirePreKey \<times> PrekeyRecord \<Rightarrow> reg_set" where
  "signed_setter i key = Set_identity_signed_pre_key i (word_of_int (w_keyId (fst key))) (w_publicKey (fst key)) (w_signature (fst key))"

definition kyber_setter :: "identity_kind \<Rightarrow> WirePreKey \<times> PrekeyRecord \<Rightarrow> reg_set" where
  "kyber_setter i key = Set_identity_pq_last_resort_pre_key i (word_of_int (w_keyId (fst key))) (w_publicKey (fst key)) (w_signature (fst key))"

definition register_request :: "string \<Rightarrow> bytes \<times> bytes \<Rightarrow> bytes \<times> bytes \<Rightarrow> GeneratedPrekeys \<Rightarrow> reg_set list" where
  "register_request accountPassword aciIdentity pniIdentity prekeys =
     [Set_account_password accountPassword, Set_skip_device_transfer,
      Set_identity_public_key Aci (snd aciIdentity), Set_identity_public_key Pni (snd pniIdentity),
      signed_setter Aci (aciSignedPreKey prekeys), signed_setter Pni (pniSignedPreKey prekeys),
      kyber_setter Aci (aciKyberPreKey prekeys), kyber_setter Pni (pniKyberPreKey prekeys)]"

fun run_setters :: "reg_lib \<Rightarrow> reg_set list \<Rightarrow> unit result" where
  "run_setters l [] = Inr ()"
| "run_setters l (x # xs) = bindR (rl_set l x) (\<lambda>_. run_setters l xs)"

definition register_attributes :: "int \<Rightarrow> int \<Rightarrow> reg_attributes" where
  "register_attributes registrationId pniRegistrationId =
     \<lparr>at_registrationId = word_of_int registrationId, at_pniRegistrationId = word_of_int pniRegistrationId,
      at_unidentifiedAccessKey = replicate 16 0, at_unrestricted = True,
      at_capabilities = makeBytestrings [''spqr'', ''usernameChangeSyncMessage''], at_discoverable = True\<rparr>"

definition registerAccount ::
  "reg_lib \<Rightarrow> string \<Rightarrow> int \<Rightarrow> int \<Rightarrow> bytes \<times> bytes \<Rightarrow> bytes \<times> bytes \<Rightarrow> GeneratedPrekeys \<Rightarrow> (reg, RegisteredAccount) effect" where
  "registerAccount l accountPassword registrationId pniRegistrationId aciIdentity pniIdentity prekeys =
     (let request = register_request accountPassword aciIdentity pniIdentity prekeys in
      bindS (liftR (\<lambda>_. run_setters l request)) (\<lambda>_.
      bindS (service_call l (Register_account request (register_attributes registrationId pniRegistrationId))) (\<lambda>_.
        liftR (\<lambda>s. rl_registered l (length (rg_calls s))))))"


section \<open>The pending registration\<close>

definition pendingFilePath :: "GlobalConfig \<Rightarrow> string \<Rightarrow> string" where
  "pendingFilePath g accountName = dirName (dbPath g) @ ''/.'' @ accountName @ ''.gendb-pending.json''"

record PendingRegistration =
  pd_e164 :: string
  pd_sessionId :: string
  pd_password :: string
  pd_transport :: string

definition pending_json :: "PendingRegistration \<Rightarrow> json" where
  "pending_json p = JObj [(''e164'', JStr (pd_e164 p)), (''password'', JStr (pd_password p)), (''sessionId'', JStr (pd_sessionId p)),
     (''transport'', JStr (pd_transport p))]"

definition savePending :: "gendb_env \<Rightarrow> reg_lib \<Rightarrow> GlobalConfig \<Rightarrow> string \<Rightarrow> PendingRegistration \<Rightarrow> (gendb, unit) effect" where
  "savePending e l g accountName p w =
     (if \<not> gc_writable e (pendingFilePath g accountName) then throwS (Runtime_error ''cannot write pending-registration file'') w
      else returnS () (w\<lparr>gd_files := (gd_files w)(pendingFilePath g accountName \<mapsto> rl_dump l (pending_json p))\<rparr>))"

definition json_string :: "json \<Rightarrow> string \<Rightarrow> string result" where
  "json_string j key = bindR (json_at j key) get_string"

definition loadPending :: "reg_lib \<Rightarrow> GlobalConfig \<Rightarrow> string \<Rightarrow> gendb \<Rightarrow> PendingRegistration result" where
  "loadPending l g accountName w = (case gd_files w (pendingFilePath g accountName) of
       None \<Rightarrow> Inl (Runtime_error (''no pending registration for account '' @ quoted accountName @ '' - run 'register' first''))
     | Some s \<Rightarrow> bindR (rl_parse l s) (\<lambda>j. bindR (json_string j ''e164'') (\<lambda>a. bindR (json_string j ''sessionId'') (\<lambda>b.
         bindR (json_string j ''password'') (\<lambda>c. bindR (json_string j ''transport'') (\<lambda>d.
           Inr \<lparr>pd_e164 = a, pd_sessionId = b, pd_password = c, pd_transport = d\<rparr>))))))"

definition deletePending :: "GlobalConfig \<Rightarrow> string \<Rightarrow> (gendb, unit) effect" where
  "deletePending g accountName w = returnS () (w\<lparr>gd_files := (gd_files w)(pendingFilePath g accountName := None)\<rparr>)"

section \<open>Commands\<close>

text \<open>What is drawn at random or read from the clock: identity key pairs, registration ids, the four prekey pairs with their time stamps, the ephemeral pair of the device name.\<close>

record reg_random =
  rr_aciIdentity :: "(bytes \<times> bytes) result"
  rr_pniIdentity :: "(bytes \<times> bytes) result"
  rr_registrationId :: int
  rr_pniRegistrationId :: int
  rr_keylib :: keylib
  rr_aciSigned :: "(bytes \<times> bytes) \<times> uint64"
  rr_pniSigned :: "(bytes \<times> bytes) \<times> uint64"
  rr_aciKyber :: "(bytes \<times> bytes) \<times> uint64"
  rr_pniKyber :: "(bytes \<times> bytes) \<times> uint64"
  rr_ephemeral :: "bytes \<times> bytes"
  rr_now :: int

definition generatePrekeys :: "reg_random \<Rightarrow> bytes \<Rightarrow> bytes \<Rightarrow> int \<Rightarrow> GeneratedPrekeys result" where
  "generatePrekeys rnd aciPrivateKey pniPrivateKey keyId =
     bindR (generateSignedPreKey (rr_keylib rnd) (fst (rr_aciSigned rnd)) (snd (rr_aciSigned rnd)) aciPrivateKey keyId) (\<lambda>a.
     bindR (generateSignedPreKey (rr_keylib rnd) (fst (rr_pniSigned rnd)) (snd (rr_pniSigned rnd)) pniPrivateKey keyId) (\<lambda>b.
     bindR (generateKyberPreKey (rr_keylib rnd) (fst (rr_aciKyber rnd)) (snd (rr_aciKyber rnd)) aciPrivateKey keyId) (\<lambda>c.
     bindR (generateKyberPreKey (rr_keylib rnd) (fst (rr_pniKyber rnd)) (snd (rr_pniKyber rnd)) pniPrivateKey keyId) (\<lambda>d.
       Inr \<lparr>aciSignedPreKey = a, pniSignedPreKey = b, aciKyberPreKey = c, pniKyberPreKey = d\<rparr>))))"

text \<open>\<open>try\<close> around a call whose value is used, with a \<open>catch (const std::exception&)\<close> that returns.\<close>

definition try_std :: "('s, 'a) effect \<Rightarrow> ('s, 'a option) effect" where
  "try_std m s = (case m s of (Inl x, s') \<Rightarrow> (if x = Pj_error then Inl x else Inr None, s') | (Inr y, s') \<Rightarrow> (Inr (Some y), s'))"

definition register_e164 :: "DaemonConfig \<Rightarrow> string \<Rightarrow> string \<Rightarrow> string result" where
  "register_e164 cfg accountName e164Arg = (case resolveAccount cfg accountName of
       None \<Rightarrow> if e164Arg = [] then Inl (Runtime_error (''account '' @ quoted accountName @ '' is not in the config yet - pass --e164 <e164> to register it''))
         else Inr e164Arg
     | Some a \<Rightarrow> if e164Arg \<noteq> [] \<and> e164Arg \<noteq> ac_e164 a
         then Inl (Runtime_error (''account '' @ quoted accountName @ '' is already configured with e164='' @ ac_e164 a @ '' - --e164 '' @ e164Arg @ '' does not match''))
         else Inr (ac_e164 a))"

definition cmdRegister :: "gendb_env \<Rightarrow> reg_lib \<Rightarrow> DaemonConfig \<Rightarrow> string \<Rightarrow> string \<Rightarrow> string \<Rightarrow> (reg, unit) effect" where
  "cmdRegister e l cfg accountName e164Arg transport =
     (if transport \<noteq> ''sms'' \<and> transport \<noteq> ''voice'' then throwS (Runtime_error ''transport must be \"sms\" or \"voice\"'')
      else
        bindS (liftR (\<lambda>_. register_e164 cfg accountName e164Arg)) (\<lambda>e164.
        bindS (liftR (\<lambda>_. requireE164NotUsedByOtherAccount cfg accountName e164)) (\<lambda>_.
        bindS (in_world (open_storage e (dc_global cfg))) (\<lambda>_.
        bindS (in_world (requireNoExistingAccount e (dc_global cfg) accountName)) (\<lambda>_.
        bindS (liftR (\<lambda>_. rl_new l)) (\<lambda>_.
        bindS (createSession l e164) (\<lambda>session.
        bindS (sessionId l) (\<lambda>sid.
        bindS (in_world (savePending e l (dc_global cfg) accountName
            \<lparr>pd_e164 = e164, pd_sessionId = sid, pd_password = base64NoPadding (gc_random e 18), pd_transport = transport\<rparr>)) (\<lambda>_.
          if ''captcha'' \<in> set (requestedInformation session) then returnS ()
          else if ''pushChallenge'' \<in> set (requestedInformation session) then returnS ()
          else if \<not> allowedToRequestCode session then returnS ()
          else bindS (requestVerificationCode l transport) (\<lambda>_. returnS ()))))))))))"

definition cmdRegisterCaptcha :: "reg_lib \<Rightarrow> DaemonConfig \<Rightarrow> string \<Rightarrow> string \<Rightarrow> (reg, unit) effect" where
  "cmdRegisterCaptcha l cfg accountName tok =
     (if cleanCaptchaToken tok = [] then throwS (Runtime_error ''captcha token is empty after cleanup'')
      else
        bindS (in_world (liftR (loadPending l (dc_global cfg) accountName))) (\<lambda>pending.
        bindS (liftR (\<lambda>_. rl_new l)) (\<lambda>_.
        bindS (resumeSession l (pd_sessionId pending) (pd_e164 pending)) (\<lambda>_.
        bindS (submitCaptcha l (cleanCaptchaToken tok)) (\<lambda>session.
          if \<not> allowedToRequestCode session then returnS ()
          else bindS (requestVerificationCode l (pd_transport pending)) (\<lambda>_. returnS ()))))))"

definition keypair_record :: "bytes \<times> bytes \<Rightarrow> IdentityKeypairRecord" where
  "keypair_record kp = \<lparr>k_private_key = fst kp, k_public_key = snd kp\<rparr>"

definition finished_standalone :: "string \<Rightarrow> RegisteredAccount \<Rightarrow> string \<Rightarrow> reg_random \<Rightarrow> bytes \<times> bytes \<Rightarrow> bytes \<times> bytes \<Rightarrow> GeneratedPrekeys \<Rightarrow> FinishedAccount" where
  "finished_standalone e164 registered password rnd aciIdentity pniIdentity prekeys =
     \<lparr>fa_e164 = e164, fa_aci = ra_aci registered, fa_pni = ra_pni registered, fa_password = password, fa_deviceId = 1,
      fa_registrationId = rr_registrationId rnd, fa_pniRegistrationId = rr_pniRegistrationId rnd, fa_aciIdentity = keypair_record aciIdentity,
      fa_pniIdentity = keypair_record pniIdentity, fa_aciSigned = snd (aciSignedPreKey prekeys), fa_pniSigned = snd (pniSignedPreKey prekeys),
      fa_aciKyber = snd (aciKyberPreKey prekeys), fa_pniKyber = snd (pniKyberPreKey prekeys), fa_flow = ''standalone'',
      fa_accountEntropyPool = None, fa_mediaRootBackupKey = None, fa_profileKey = None\<rparr>"

definition config_e164 :: "DaemonConfig \<Rightarrow> string \<Rightarrow> string" where
  "config_e164 cfg accountName = (case resolveAccount cfg accountName of None \<Rightarrow> [] | Some a \<Rightarrow> ac_e164 a)"

text \<open>Everything up to the answer of the registration: none when a refusal has been printed.\<close>

definition verify_attempt :: "gendb_env \<Rightarrow> reg_lib \<Rightarrow> reg_random \<Rightarrow> DaemonConfig \<Rightarrow> string \<Rightarrow> string \<Rightarrow> PendingRegistration \<Rightarrow> (reg, FinishedAccount option) effect" where
  "verify_attempt e l rnd cfg accountName code pending =
     (let e164 = (if config_e164 cfg accountName = [] then pd_e164 pending else config_e164 cfg accountName) in
     bindS (liftR (\<lambda>_. requireE164NotUsedByOtherAccount cfg accountName e164)) (\<lambda>_.
     bindS (liftR (\<lambda>_. rl_new l)) (\<lambda>_.
     bindS (resumeSession l (pd_sessionId pending) e164) (\<lambda>_.
     bindS (submitVerificationCode l code) (\<lambda>verified.
       if \<not> verified then returnS None
       else
         bindS (liftR (\<lambda>_. rr_aciIdentity rnd)) (\<lambda>aciIdentity.
         bindS (liftR (\<lambda>_. rr_pniIdentity rnd)) (\<lambda>pniIdentity.
         bindS (liftR (\<lambda>_. generatePrekeys rnd (fst aciIdentity) (fst pniIdentity) 1)) (\<lambda>prekeys.
         bindS (try_std (registerAccount l (pd_password pending) (rr_registrationId rnd) (rr_pniRegistrationId rnd) aciIdentity pniIdentity prekeys)) (\<lambda>registered.
           returnS (map_option (\<lambda>r. finished_standalone e164 r (pd_password pending) rnd aciIdentity pniIdentity prekeys) registered))))))))))"

definition cmdVerify :: "gendb_env \<Rightarrow> reg_lib \<Rightarrow> reg_random \<Rightarrow> DaemonConfig \<Rightarrow> string \<Rightarrow> string \<Rightarrow> (reg, unit) effect" where
  "cmdVerify e l rnd cfg accountName code =
     bindS (in_world (open_storage e (dc_global cfg))) (\<lambda>_.
     bindS (in_world (requireNoExistingAccount e (dc_global cfg) accountName)) (\<lambda>_.
     bindS (in_world (liftR (loadPending l (dc_global cfg) accountName))) (\<lambda>pending.
     bindS (verify_attempt e l rnd cfg accountName code pending) (\<lambda>finished.
       case finished of None \<Rightarrow> returnS ()
       | Some fa \<Rightarrow>
           bindS (in_world (in_db (dc_global cfg) (saveFinishedAccount (gc_q e) (rr_now rnd) accountName fa))) (\<lambda>_.
             in_world (deletePending (dc_global cfg) accountName))))))"

definition kDeviceName :: string where
  "kDeviceName = ''signal2sip''"

definition serverHostFor :: "AccountConfig option \<Rightarrow> string" where
  "serverHostFor account = (case account of None \<Rightarrow> ''chat.signal.org'' | Some a \<Rightarrow> if ac_serverUrl a = [] then ''chat.signal.org'' else ac_serverUrl a)"

definition preKeyJson :: "WirePreKey \<times> PrekeyRecord \<Rightarrow> json" where
  "preKeyJson key = JObj [(''keyId'', JNum (w_keyId (fst key))), (''publicKey'', JStr (base64NoPadding (w_publicKey (fst key)))),
     (''signature'', JStr (base64NoPadding (w_signature (fst key))))]"

definition link_body :: "string \<Rightarrow> reg_random \<Rightarrow> string \<Rightarrow> GeneratedPrekeys \<Rightarrow> json" where
  "link_body provisioningCode rnd encryptedDeviceName prekeys =
     JObj [(''accountAttributes'', JObj [(''capabilities'', capabilitiesJson), (''fetchesMessages'', JBool True), (''name'', JStr encryptedDeviceName),
         (''pniRegistrationId'', JNum (rr_pniRegistrationId rnd)), (''registrationId'', JNum (rr_registrationId rnd))]),
       (''aciPqLastResortPreKey'', preKeyJson (aciKyberPreKey prekeys)), (''aciSignedPreKey'', preKeyJson (aciSignedPreKey prekeys)),
       (''gcmToken'', JNull),
       (''pniPqLastResortPreKey'', preKeyJson (pniKyberPreKey prekeys)), (''pniSignedPreKey'', preKeyJson (pniSignedPreKey prekeys)),
       (''verificationCode'', JStr provisioningCode)]"

definition link_request :: "reg_lib \<Rightarrow> http_out \<Rightarrow> (reg, Response) effect" where
  "link_request l opts s = (case rl_http l opts of
       Inl error \<Rightarrow> (Inl (Runtime_error (''HTTP request to /v1/devices/link failed: '' @ error)), s\<lparr>rg_http := rg_http s @ [opts]\<rparr>)
     | Inr r \<Rightarrow> (Inr r, s\<lparr>rg_http := rg_http s @ [opts]\<rparr>))"

definition finished_linked :: "string \<Rightarrow> string \<Rightarrow> string \<Rightarrow> int \<Rightarrow> string \<Rightarrow> reg_random \<Rightarrow> ProvisionMessageResult \<Rightarrow> GeneratedPrekeys \<Rightarrow> FinishedAccount" where
  "finished_linked e164 aci pni deviceId password rnd provisioned prekeys =
     \<lparr>fa_e164 = e164, fa_aci = aci, fa_pni = pni, fa_password = password, fa_deviceId = deviceId,
      fa_registrationId = rr_registrationId rnd, fa_pniRegistrationId = rr_pniRegistrationId rnd,
      fa_aciIdentity = keypair_record (pr_aciIdentity provisioned), fa_pniIdentity = keypair_record (pr_pniIdentity provisioned),
      fa_aciSigned = snd (aciSignedPreKey prekeys), fa_pniSigned = snd (pniSignedPreKey prekeys),
      fa_aciKyber = snd (aciKyberPreKey prekeys), fa_pniKyber = snd (pniKyberPreKey prekeys), fa_flow = ''linked'',
      fa_accountEntropyPool = pr_accountEntropyPool provisioned, fa_mediaRootBackupKey = pr_mediaRootBackupKey provisioned,
      fa_profileKey = pr_profileKey provisioned\<rparr>"

text \<open>\<open>provision\<close> is what \<open>waitForProvisionMessage\<close> came to.\<close>

definition cmdLink ::
  "gendb_env \<Rightarrow> reg_lib \<Rightarrow> prov_lib \<Rightarrow> reg_random \<Rightarrow> ProvisionMessageResult result \<Rightarrow> DaemonConfig \<Rightarrow> string \<Rightarrow> (reg, unit) effect" where
  "cmdLink e l pl rnd provision cfg accountName =
     bindS (in_world (open_storage e (dc_global cfg))) (\<lambda>_.
     bindS (in_world (requireNoExistingAccount e (dc_global cfg) accountName)) (\<lambda>_.
     bindS (liftR (\<lambda>_. provision)) (\<lambda>provisioned.
     let finalE164 = (if config_e164 cfg accountName \<noteq> [] then config_e164 cfg accountName else pr_e164 provisioned) in
     bindS (liftR (\<lambda>_. requireE164NotUsedByOtherAccount cfg accountName finalE164)) (\<lambda>_.
     bindS (liftR (\<lambda>_. generatePrekeys rnd (fst (pr_aciIdentity provisioned)) (fst (pr_pniIdentity provisioned)) 1)) (\<lambda>prekeys.
     let ourPassword = base64NoPadding (gc_random e 18) in
     bindS (liftR (\<lambda>_. encryptDeviceName pl (rr_ephemeral rnd) kDeviceName (fst (pr_aciIdentity provisioned)))) (\<lambda>encryptedDeviceName.
     bindS (link_request l (http_options (serverHostFor (resolveAccount cfg accountName)) ''PUT'' ''/v1/devices/link''
         (str_bytes (rl_dump l (link_body (pr_provisioningCode provisioned) rnd encryptedDeviceName prekeys))) ''application/json'' (pr_aci provisioned) ourPassword)) (\<lambda>resp.
       if status resp \<noteq> 200 then returnS ()
       else
         bindS (liftR (\<lambda>_. rl_parse l (map byte_chr (body resp)))) (\<lambda>j.
         bindS (liftR (\<lambda>_. json_string j ''uuid'')) (\<lambda>aci.
         bindS (liftR (\<lambda>_. json_string j ''pni'')) (\<lambda>pni.
         bindS (liftR (\<lambda>_. bindR (json_at j ''deviceId'') get_int)) (\<lambda>deviceId.
           in_world (in_db (dc_global cfg) (saveFinishedAccount (gc_q e) (rr_now rnd) accountName
             (finished_linked finalE164 aci pni deviceId ourPassword rnd provisioned prekeys))))))))))))))"

section \<open>The program\<close>

definition resolveGendbConfigPath :: "files \<Rightarrow> string \<Rightarrow> string" where
  "resolveGendbConfigPath fs explicitPath =
     (if explicitPath \<noteq> [] then resolveConfigPath fs [''signal2sip-gendb'', explicitPath] else resolveConfigPath fs [''signal2sip-gendb''])"

definition load_config :: "gendb_env \<Rightarrow> string \<Rightarrow> (gendb, DaemonConfig) effect" where
  "load_config e path w = (case DaemonConfig_load (gc_q e) (gd_files w) path (gd_disk w) of (x, disk) \<Rightarrow> (x, w\<lparr>gd_disk := disk\<rparr>))"

record gendb_libs =
  gl_reg :: reg_lib
  gl_prov :: prov_lib
  gl_random :: reg_random
  gl_provision :: "ProvisionMessageResult result"

definition config_command :: "gendb_env \<Rightarrow> DaemonConfig \<Rightarrow> string \<Rightarrow> string list \<Rightarrow> (gendb, unit) effect" where
  "config_command e cfg name positional = (case positional of
       [] \<Rightarrow> throwS (Runtime_error ''config needs a get/set subcommand'')
     | sub # args \<Rightarrow>
         if sub = ''get'' \<or> sub = ''list'' then cmdConfigGet e (dc_global cfg) name (case args of [] \<Rightarrow> [] | field # _ \<Rightarrow> field)
         else if sub = ''set'' then (case args of field # v # _ \<Rightarrow> cmdConfigSet e (dc_global cfg) name field v
           | _ \<Rightarrow> throwS (Runtime_error ''config set needs <field> <value>''))
         else throwS (Runtime_error (''config: unknown subcommand '' @ quoted sub @ '' - use get/set'')))"

text \<open>The value is whether the command is known; an unknown one prints the usage and exits with 1.\<close>

definition run_command :: "gendb_env \<Rightarrow> gendb_libs \<Rightarrow> ParsedArgs \<Rightarrow> DaemonConfig \<Rightarrow> (reg, bool) effect" where
  "run_command e gl args cfg =
     (let name = pa_accountName args; cmd = pa_command args; pos = pa_positional args; g = dc_global cfg; l = gl_reg gl;
          enc = (\<lambda>k. encryptDeviceName (gl_prov gl) (rr_ephemeral (gl_random gl)) kDeviceName k); ok = (\<lambda>m. bindS m (\<lambda>_. returnS True)) in
      if cmd = ''register'' then ok (cmdRegister e l cfg name (pa_e164 args) (case pos of [] \<Rightarrow> ''sms'' | t # _ \<Rightarrow> t))
      else if cmd = ''register-captcha'' then (case pos of [] \<Rightarrow> throwS (Runtime_error ''register-captcha needs a <token>'') | t # _ \<Rightarrow> ok (cmdRegisterCaptcha l cfg name t))
      else if cmd = ''verify'' then (case pos of [] \<Rightarrow> throwS (Runtime_error ''verify needs a <code>'') | c # _ \<Rightarrow> ok (cmdVerify e l (gl_random gl) cfg name c))
      else if cmd = ''link'' then ok (cmdLink e l (gl_prov gl) (gl_random gl) (gl_provision gl) cfg name)
      else if cmd = ''unlink'' then ok (in_world (cmdUnlink e g name))
      else if cmd = ''deactivate'' \<or> cmd = ''unregister'' then ok (in_world (cmdDeactivate e enc g name))
      else if cmd = ''reactivate'' then ok (in_world (cmdReactivate e enc g name))
      else if cmd = ''delete-account'' then ok (in_world (cmdDeleteAccount e g name))
      else if cmd = ''enable'' then ok (in_world (cmdSetEnabled e g name True))
      else if cmd = ''disable'' then ok (in_world (cmdSetEnabled e g name False))
      else if cmd = ''config'' then ok (in_world (config_command e cfg name pos))
      else if cmd = ''list'' then ok (in_world (cmdListAccounts e g))
      else returnS False)"

text \<open>The exit code; an exception that is no \<open>std::exception\<close> terminates the process (none).\<close>

definition gendb_main :: "gendb_env \<Rightarrow> gendb_libs \<Rightarrow> string list \<Rightarrow> reg \<Rightarrow> nat option \<times> reg" where
  "gendb_main e gl argv s =
     (if list_ex (\<lambda>a. a = ''--help'' \<or> a = ''-h'') (tl argv) then (Some 0, s)
      else case parseArgs argv of Inl _ \<Rightarrow> (Some 1, s)
      | Inr args \<Rightarrow>
          let path = resolveGendbConfigPath (gd_files (rg_world s)) (pa_configPath args);
              m = bindS (in_world (bootstrapGlobalConfigIfNeeded e path)) (\<lambda>_. bindS (in_world (load_config e path)) (run_command e gl args))
          in case m s of (Inr known, s') \<Rightarrow> (Some (if known then 0 else 1), s') | (Inl x, s') \<Rightarrow> (if x = Pj_error then None else Some 1, s'))"


section \<open>What a run of verify leaves\<close>

lemma in_world_run: "in_world m s = (x, s') \<longleftrightarrow> (\<exists>w. m (rg_world s) = (x, w) \<and> s' = s\<lparr>rg_world := w\<rparr>)"
  by (auto simp: in_world_def split: prod.splits)

text \<open>The service client alone leaves files and databases as they are.\<close>

abbreviation same_world :: "reg \<Rightarrow> reg \<Rightarrow> bool" where
  "same_world s s' \<equiv> rg_world s' = rg_world s"

interpretation quiet: frame same_world
  by unfold_locales simp_all

lemma quiet_calls: "keeps same_world (service_call l c)" "keeps same_world (session_now l)"
  by (auto simp: keeps_def liftR_def service_call_def session_now_def)

lemma keeps_try: "keeps R m \<Longrightarrow> keeps R (try_std m)"
  unfolding keeps_def try_std_def by (auto split: prod.splits sum.splits)

lemma quiet_service:
  "keeps same_world (createSession l a)" "keeps same_world (resumeSession l a b)" "keeps same_world (submitCaptcha l a)" "keeps same_world (requestVerificationCode l a)"
  "keeps same_world (submitVerificationCode l a)" "keeps same_world (sessionId l)" "keeps same_world (registerAccount l pw i j k1 k2 pk)"
  unfolding createSession_def resumeSession_def submitCaptcha_def requestVerificationCode_def submitVerificationCode_def currentSessionState_def
    sessionId_def registerAccount_def Let_def
  by (intro quiet.rules quiet_calls)+

lemma try_registered:
  assumes "try_std (registerAccount l pw i j a p pk) s = (Inr (Some r), s')"
  shows "rg_calls s' = rg_calls s @ [Register_account (register_request pw a p pk) (register_attributes i j)] \<and>
    rl_call l (length (rg_calls s)) (Register_account (register_request pw a p pk) (register_attributes i j)) = Inr () \<and>
    rl_registered l (length (rg_calls s')) = Inr r"
  using assms
  by (auto simp: try_std_def registerAccount_def Let_def service_call_def liftR_def elim!: bindS_cases split: prod.splits sum.splits if_splits)

lemma open_storage_run: "open_storage e g w = (x, w') \<Longrightarrow> w' = w\<lparr>gd_disk := snd (Storage (gc_q e) (dbPath g) (dbKey g) (gd_disk w))\<rparr>"
  by (auto simp: open_storage_def split: prod.splits)

lemma in_db_lift: "in_db g (liftR f) w = (x, w') \<Longrightarrow> w' = w"
  by (auto simp: in_db_def liftR_def fun_upd_idem split: option.splits)

lemma requireNoExisting_run: "requireNoExistingAccount e g name w = (x, w') \<Longrightarrow>
    w' = w \<and> (x = Inr () \<longrightarrow> (\<exists>f. gd_disk w (dbPath g) = Some f \<and> hasAccount (gc_q e) name (f_db f) = Inr False))"
  unfolding requireNoExistingAccount_def
  by (auto elim!: bindS_cases dest: in_db_lift split: if_splits) (auto simp: in_db_def liftR_def split: option.splits)

lemma quiet_attempt: "keeps same_world (verify_attempt e l rnd cfg name code pending)"
  unfolding verify_attempt_def Let_def by (intro quiet.rules quiet_service keeps_try)

text \<open>What an attempt that returns an account has told the server: the last call is the registration with exactly this account's keys.\<close>

lemma attempt_registered:
  assumes "verify_attempt e l rnd cfg name code pending s = (Inr (Some fa), s')"
  shows "\<exists>aci pni pk r before. rr_aciIdentity rnd = Inr aci \<and> rr_pniIdentity rnd = Inr pni \<and> generatePrekeys rnd (fst aci) (fst pni) 1 = Inr pk \<and>
     rg_calls s' = before @ [Register_account (register_request (pd_password pending) aci pni pk) (register_attributes (rr_registrationId rnd) (rr_pniRegistrationId rnd))] \<and>
     rl_call l (length before) (last (rg_calls s')) = Inr () \<and> rl_registered l (length (rg_calls s')) = Inr r \<and>
     fa = finished_standalone (if config_e164 cfg name = [] then pd_e164 pending else config_e164 cfg name) r (pd_password pending) rnd aci pni pk"
proof -
  from assms obtain aci pni pk r s1 where t: "rr_aciIdentity rnd = Inr aci" "rr_pniIdentity rnd = Inr pni" "generatePrekeys rnd (fst aci) (fst pni) 1 = Inr pk"
    "try_std (registerAccount l (pd_password pending) (rr_registrationId rnd) (rr_pniRegistrationId rnd) aci pni pk) s1 = (Inr (Some r), s')"
    "fa = finished_standalone (if config_e164 cfg name = [] then pd_e164 pending else config_e164 cfg name) r (pd_password pending) rnd aci pni pk"
    unfolding verify_attempt_def Let_def by (auto simp: liftR_def elim!: bindS_cases split: if_splits)
  note reg = try_registered [OF t(4)]
  then have "last (rg_calls s') = Register_account (register_request (pd_password pending) aci pni pk) (register_attributes (rr_registrationId rnd) (rr_pniRegistrationId rnd))"
    by simp
  with reg t(1-3,5) show ?thesis by metis
qed

lemma verify_run:
  assumes "cmdVerify e l rnd cfg name code s = (x, s')"
  defines "w \<equiv> (rg_world s)\<lparr>gd_disk := snd (Storage (gc_q e) (dbPath (dc_global cfg)) (dbKey (dc_global cfg)) (gd_disk (rg_world s)))\<rparr>"
  shows "rg_world s' = w \<or> (\<exists>pending fa f y d s1 s2. loadPending l (dc_global cfg) name w = Inr pending \<and>
     verify_attempt e l rnd cfg name code pending s1 = (Inr (Some fa), s2) \<and> rg_calls s' = rg_calls s2 \<and>
     gd_disk w (dbPath (dc_global cfg)) = Some f \<and> hasAccount (gc_q e) name (f_db f) = Inr False \<and>
     saveFinishedAccount (gc_q e) (rr_now rnd) name fa (f_db f) = (y, d) \<and> x = y \<and>
     rg_world s' = w\<lparr>gd_disk := (gd_disk w)(dbPath (dc_global cfg) \<mapsto> f\<lparr>f_db := d\<rparr>),
       gd_files := (if y = Inr () then (gd_files w)(pendingFilePath (dc_global cfg) name := None) else gd_files w)\<rparr>)"
proof -
  let ?g = "dc_global cfg"
  from assms(1) consider x1 where "in_world (open_storage e ?g) s = (x1, s')"
    | s1 x1 where "in_world (open_storage e ?g) s = (Inr (), s1)" "in_world (requireNoExistingAccount e ?g name) s1 = (x1, s')"
    | s1 s2 x1 where "in_world (open_storage e ?g) s = (Inr (), s1)" "in_world (requireNoExistingAccount e ?g name) s1 = (Inr (), s2)"
        "in_world (liftR (loadPending l ?g name)) s2 = (x1, s')"
    | s1 s2 s3 pending x1 where "in_world (open_storage e ?g) s = (Inr (), s1)" "in_world (requireNoExistingAccount e ?g name) s1 = (Inr (), s2)"
        "in_world (liftR (loadPending l ?g name)) s2 = (Inr pending, s3)" "verify_attempt e l rnd cfg name code pending s3 = (x1, s')"
    | s1 s2 s3 s4 pending fa where "in_world (open_storage e ?g) s = (Inr (), s1)" "in_world (requireNoExistingAccount e ?g name) s1 = (Inr (), s2)"
        "in_world (liftR (loadPending l ?g name)) s2 = (Inr pending, s3)" "verify_attempt e l rnd cfg name code pending s3 = (Inr (Some fa), s4)"
        "bindS (in_world (in_db ?g (saveFinishedAccount (gc_q e) (rr_now rnd) name fa))) (\<lambda>_. in_world (deletePending ?g name)) s4 = (x, s')"
    unfolding cmdVerify_def by (elim bindS_cases) (auto split: option.splits)
  then show ?thesis
  proof cases
    case (5 s1 s2 s3 s4 pending fa)
    have w: "rg_world s2 = w" "s3 = s2" "rg_world s4 = w" "loadPending l ?g name w = Inr pending"
      and f: "\<exists>f. gd_disk w (dbPath ?g) = Some f \<and> hasAccount (gc_q e) name (f_db f) = Inr False"
      using 5 by (auto simp: in_world_run liftR_def w_def dest!: open_storage_run requireNoExisting_run keepsD [OF _ quiet_attempt])
    then obtain f where f: "gd_disk w (dbPath ?g) = Some f" "hasAccount (gc_q e) name (f_db f) = Inr False" by blast
    obtain y d where y: "saveFinishedAccount (gc_q e) (rr_now rnd) name fa (f_db f) = (y, d)" by fastforce
    have "x = y \<and> rg_calls s' = rg_calls s4 \<and> rg_world s' = w\<lparr>gd_disk := (gd_disk w)(dbPath ?g \<mapsto> f\<lparr>f_db := d\<rparr>),
       gd_files := (if y = Inr () then (gd_files w)(pendingFilePath ?g name := None) else gd_files w)\<rparr>"
      using 5(5) y f(1) w(3) by (auto simp: in_world_def in_db_def deletePending_def elim!: bindS_cases)
    with 5(4) w(4) f y show ?thesis by blast
  qed (auto simp: in_world_run liftR_def w_def dest!: open_storage_run requireNoExisting_run keepsD [OF _ quiet_attempt])
qed


lemma no_account_load:
  "hasAccount q name d = Inr False \<Longrightarrow> Sql.readable q ''hasAccount'' \<Longrightarrow> Sql.readable q ''loadAccount'' \<Longrightarrow> isl (loadAccount q name d)"
  by (auto simp: hasAccount_def Stmt_def Sql.readable_def loadAccount_def run_first_def filter_empty_conv find_None_iff split: if_splits option.splits)

lemma account_loaded_has: "loadAccount q name d = Inr a \<Longrightarrow> hasAccount no_faults name d = Inr True"
  by (auto simp: hasAccount_def Stmt_def loadAccount_def run_first_def bindR_Inr_iff find_Some_iff filter_empty_conv split: if_splits option.splits)

lemma registration_id_fits: "1 \<le> i \<Longrightarrow> i \<le> 16383 \<Longrightarrow> uint (word_of_int i :: 16 word) = i"
  by (simp add: uint_word_of_int)

text \<open>
  C6: when \<open>verify\<close> completes, the account in the database is the account on the server: the password and the registration ids that were sent in the accepted
  registration are those of the saved account, none of the ids is truncated, and for both identities the identity key, the signed and the Kyber prekey that were sent are the public halves
  of the key pairs whose private halves are in the database.
\<close>

theorem verified_account_matches_server:
  assumes "cmdVerify e l rnd cfg name code s = (Inr (), s')" "gd_files (rg_world s') \<noteq> gd_files (rg_world s)" "\<forall>label. Sql.readable (gc_q e) label"
    and "rr_registrationId rnd \<in> {1..16383}" "rr_pniRegistrationId rnd \<in> {1..16383}"
  shows "\<exists>f req ats a before aci pni pk. gd_disk (rg_world s') (dbPath (dc_global cfg)) = Some f \<and> rg_calls s' = before @ [Register_account req ats] \<and>
    rl_call l (length before) (Register_account req ats) = Inr () \<and> loadAccount (gc_q e) name (f_db f) = Inr a \<and>
    Set_account_password (a_password a) \<in> set req \<and> uint (at_registrationId ats) = a_registration_id a \<and> uint (at_pniRegistrationId ats) = a_pni_registration_id a \<and>
    rr_aciIdentity rnd = Inr aci \<and> rr_pniIdentity rnd = Inr pni \<and> generatePrekeys rnd (fst aci) (fst pni) 1 = Inr pk \<and>
    (\<forall>(i, kind, identity, signed, kyber) \<in> {(''aci'', Aci, aci, aciSignedPreKey pk, aciKyberPreKey pk), (''pni'', Pni, pni, pniSignedPreKey pk, pniKyberPreKey pk)}.
       loadIdentityKeypair (gc_q e) name i (f_db f) = Inr (Some \<lparr>k_private_key = fst identity, k_public_key = snd identity\<rparr>) \<and>
       Set_identity_public_key kind (snd identity) \<in> set req \<and>
       loadSignedPrekey (gc_q e) name i (f_db f) = Inr (Some (snd signed)) \<and>
       Set_identity_signed_pre_key kind (word_of_int (p_key_id (snd signed))) (w_publicKey (fst signed)) (w_signature (fst signed)) \<in> set req \<and>
       loadKyberPrekey (gc_q e) name i (f_db f) = Inr (Some (snd kyber)) \<and>
       Set_identity_pq_last_resort_pre_key kind (word_of_int (p_key_id (snd kyber))) (w_publicKey (fst kyber)) (w_signature (fst kyber)) \<in> set req)"
proof -
  let ?g = "dc_global cfg"
  define w where "w = (rg_world s)\<lparr>gd_disk := snd (Storage (gc_q e) (dbPath ?g) (dbKey ?g) (gd_disk (rg_world s)))\<rparr>"
  have "rg_world s' \<noteq> w" using assms(2) by (auto simp: w_def)
  then obtain pending fa f d s1 s2 where r: "verify_attempt e l rnd cfg name code pending s1 = (Inr (Some fa), s2)" "rg_calls s' = rg_calls s2"
      "hasAccount (gc_q e) name (f_db f) = Inr False" "saveFinishedAccount (gc_q e) (rr_now rnd) name fa (f_db f) = (Inr (), d)"
      "gd_disk (rg_world s') (dbPath ?g) = Some (f\<lparr>f_db := d\<rparr>)"
    using verify_run [OF assms(1)] unfolding w_def [symmetric] by auto
  obtain aci pni pk rr before where a: "rr_aciIdentity rnd = Inr aci" "rr_pniIdentity rnd = Inr pni" "generatePrekeys rnd (fst aci) (fst pni) 1 = Inr pk"
     "rg_calls s2 = before @ [Register_account (register_request (pd_password pending) aci pni pk) (register_attributes (rr_registrationId rnd) (rr_pniRegistrationId rnd))]"
     "rl_call l (length before) (last (rg_calls s2)) = Inr ()"
     "fa = finished_standalone (if config_e164 cfg name = [] then pd_e164 pending else config_e164 cfg name) rr (pd_password pending) rnd aci pni pk"
    using attempt_registered [OF r(1)] by blast
  have new: "isl (loadAccount (gc_q e) name (f_db f))" using no_account_load [OF r(3)] assms(3) by blast
  note saved = finished_loads [OF r(4) new]
  have ids: "w_keyId (fst (aciSignedPreKey pk)) = p_key_id (snd (aciSignedPreKey pk))" "w_keyId (fst (pniSignedPreKey pk)) = p_key_id (snd (pniSignedPreKey pk))"
    "w_keyId (fst (aciKyberPreKey pk)) = p_key_id (snd (aciKyberPreKey pk))" "w_keyId (fst (pniKyberPreKey pk)) = p_key_id (snd (pniKyberPreKey pk))"
    using a(3) by (auto simp: generatePrekeys_def generateSignedPreKey_def generateKyberPreKey_def bindR_Inr_iff)
  show ?thesis
    using saved assms(3-5) a(1-5) r(2,5) ids
    by (intro exI [of _ "f\<lparr>f_db := d\<rparr>"] exI [of _ "register_request (pd_password pending) aci pni pk"]
        exI [of _ "register_attributes (rr_registrationId rnd) (rr_pniRegistrationId rnd)"] exI [of _ "finished_record (rr_now rnd) fa"] exI [of _ before] exI)
      (auto simp: a(6) finished_standalone_def finished_record_def register_request_def register_attributes_def signed_setter_def kyber_setter_def keypair_record_def
        registration_id_fits)
qed


text \<open>A registration that goes through, on the sample database.\<close>

definition sample_pending :: PendingRegistration where
  "sample_pending = \<lparr>pd_e164 = ''+15550111'', pd_sessionId = ''sid'', pd_password = ''pw'', pd_transport = ''sms''\<rparr>"

definition sample_reg :: reg_lib where
  "sample_reg = \<lparr>rl_new = Inr (), rl_call = (\<lambda>_ _. Inr ()), rl_session = (\<lambda>_. Inr \<lparr>rs_id = ''sid'', rs_allowedToRequestCode = True, rs_requestedInformation = [],
     rs_verified = True\<rparr>), rl_set = (\<lambda>_. Inr ()), rl_registered = (\<lambda>_. Inr \<lparr>ra_aci = ''aci-n'', ra_pni = ''pni-n''\<rparr>), rl_dump = (\<lambda>_. ''json''),
     rl_parse = (\<lambda>_. Inr (pending_json sample_pending)), rl_http = (\<lambda>_. Inr \<lparr>status = 403, body = []\<rparr>)\<rparr>"

definition sample_random :: reg_random where
  "sample_random = \<lparr>rr_aciIdentity = Inr ([1], [2]), rr_pniIdentity = Inr ([3], [4]), rr_registrationId = 16383, rr_pniRegistrationId = 1,
     rr_keylib = \<lparr>sign = (\<lambda>_ m. Inr m), signed_record = (\<lambda>_ _ _ _. Inr [5]), kyber_record = (\<lambda>_ _ _ _. Inr [6])\<rparr>,
     rr_aciSigned = (([7], [8]), 0), rr_pniSigned = (([9], [10]), 0), rr_aciKyber = (([11], [12]), 0), rr_pniKyber = (([13], [14]), 0),
     rr_ephemeral = ([15], [16]), rr_now = 3\<rparr>"

definition no_accounts :: DaemonConfig where
  "no_accounts = \<lparr>dc_global = sample_global, dc_accounts = []\<rparr>"

definition pending_state :: reg where
  "pending_state = \<lparr>rg_world = one_world\<lparr>gd_files := [pendingFilePath sample_global ''n'' \<mapsto> ''json'']\<rparr>, rg_calls = [], rg_http = []\<rparr>"

definition sample_standalone :: FinishedAccount where
  "sample_standalone = \<lparr>fa_e164 = ''+15550111'', fa_aci = ''aci-n'', fa_pni = ''pni-n'', fa_password = ''pw'', fa_deviceId = 1, fa_registrationId = 16383,
     fa_pniRegistrationId = 1, fa_aciIdentity = \<lparr>k_private_key = [1], k_public_key = [2]\<rparr>, fa_pniIdentity = \<lparr>k_private_key = [3], k_public_key = [4]\<rparr>,
     fa_aciSigned = \<lparr>p_key_id = 1, p_record = [5]\<rparr>, fa_pniSigned = \<lparr>p_key_id = 1, p_record = [5]\<rparr>, fa_aciKyber = \<lparr>p_key_id = 1, p_record = [6]\<rparr>,
     fa_pniKyber = \<lparr>p_key_id = 1, p_record = [6]\<rparr>, fa_flow = ''standalone'', fa_accountEntropyPool = None, fa_mediaRootBackupKey = None, fa_profileKey = None\<rparr>"

lemma sample_attempt:
  "fst (verify_attempt calm sample_reg sample_random no_accounts ''n'' ''123'' sample_pending pending_state) = Inr (Some sample_standalone)"
  by code_simp

lemma sample_saved: "fst (saveFinishedAccount no_faults 3 ''n'' sample_standalone one_account) = Inr ()"
  by code_simp

lemma sample_absent: "hasAccount no_faults ''n'' one_account = Inr False"
  by code_simp

lemma sample_loaded: "loadPending sample_reg sample_global ''n'' (rg_world pending_state) = Inr sample_pending"
  by code_simp

lemma verify_sample_run:
  assumes "Storage (gc_q e) (dbPath sample_global) (dbKey sample_global) sample_disk = (Inr (), sample_disk)" "hasAccount (gc_q e) ''n'' one_account = Inr False"
    and "saveFinishedAccount (gc_q e) 3 ''n'' sample_standalone one_account = (y, d)"
  shows "\<exists>s'. cmdVerify e sample_reg sample_random no_accounts ''n'' ''123'' pending_state = (y, s') \<and>
    gd_disk (rg_world s') = sample_disk(''p'' \<mapsto> \<lparr>f_key = ''k'', f_db = d\<rparr>) \<and> (y = Inr () \<longrightarrow> gd_files (rg_world s') (pendingFilePath sample_global ''n'') = None)"
proof -
  have w: "gd_disk (rg_world pending_state) = sample_disk" "sample_disk ''p'' = Some \<lparr>f_key = ''k'', f_db = one_account\<rparr>"
    by (simp_all add: pending_state_def one_world_def sample_disk_def)
  have o: "in_world (open_storage e sample_global) pending_state = (Inr (), pending_state)"
    using assms(1) w(1) by (simp add: in_world_def open_storage_def)
  have n: "in_world (requireNoExistingAccount e sample_global ''n'') pending_state = (Inr (), pending_state)"
    using assms(2) w by (simp add: in_world_def requireNoExistingAccount_def in_db_def liftR_def bindS_def returnS_def fun_upd_idem)
  have p: "in_world (liftR (loadPending sample_reg sample_global ''n'')) pending_state = (Inr sample_pending, pending_state)"
    using sample_loaded by (simp add: in_world_def liftR_def)
  obtain s1 where "verify_attempt calm sample_reg sample_random no_accounts ''n'' ''123'' sample_pending pending_state = (Inr (Some sample_standalone), s1)"
    using sample_attempt by (metis prod.collapse)
  then have a: "verify_attempt e sample_reg sample_random no_accounts ''n'' ''123'' sample_pending pending_state = (Inr (Some sample_standalone), s1)"
    by (simp add: verify_attempt_def)
  have s1: "gd_disk (rg_world s1) = sample_disk"
    using keepsD [OF a quiet_attempt] w(1) by simp
  have g: "dc_global no_accounts = sample_global" "rr_now sample_random = 3" by (simp_all add: no_accounts_def sample_random_def)
  show ?thesis
    using o n p a s1 assms(3) w(2)
    by (simp add: cmdVerify_def bindS_def g) (cases y, simp_all add: in_world_def in_db_def deletePending_def returnS_def)
qed

lemma verify_sample:
  "\<exists>s'. cmdVerify calm sample_reg sample_random no_accounts ''n'' ''123'' pending_state = (Inr (), s') \<and> gd_files (rg_world s') (pendingFilePath sample_global ''n'') = None"
proof -
  obtain d where "saveFinishedAccount no_faults 3 ''n'' sample_standalone one_account = (Inr (), d)"
    using sample_saved by (metis prod.collapse)
  from verify_sample_run [of calm, OF _ _] this sample_absent one_world_opens show ?thesis by fastforce
qed

theorem verified_account_matches_server_witness:
  "\<exists>f a. gd_disk (rg_world (snd (cmdVerify calm sample_reg sample_random no_accounts ''n'' ''123'' pending_state))) ''p'' = Some f \<and>
     loadAccount no_faults ''n'' (f_db f) = Inr a"
proof -
  obtain s' where s': "cmdVerify calm sample_reg sample_random no_accounts ''n'' ''123'' pending_state = (Inr (), s')"
      "gd_files (rg_world s') (pendingFilePath sample_global ''n'') = None"
    using verify_sample by blast
  have "gd_files (rg_world s') \<noteq> gd_files (rg_world pending_state)"
    using s'(2) by (auto simp: pending_state_def dest: fun_cong [of _ _ "pendingFilePath sample_global ''n''"])
  from verified_account_matches_server [OF s'(1) this] s'(1) show ?thesis
    by (auto simp: sample_random_def Sql.readable_def no_accounts_def)
qed

end
