(* ===== verification/GendbInvariant.thy ===== *)
theory GendbInvariant
  imports Registration
begin

text \<open>
  The database invariant of the account tool: the schema is the current one and account names are a key. Every run of \<open>gendb\<close>, whatever its
  command and whatever fails on the way, keeps it for every database on disk, together with the key the file is encrypted with.
\<close>

section \<open>Databases\<close>

definition db_ok :: "db \<Rightarrow> bool" where
  "db_ok d \<longleftrightarrow> db_current d \<and> named_rows d"

abbreviation db_keeps :: "db \<Rightarrow> db \<Rightarrow> bool" where
  "db_keeps d d' \<equiv> db_ok d \<longrightarrow> db_ok d'"

interpretation db_frame: frame db_keeps
  by unfold_locales simp_all

lemma put_rows_ok: "n \<noteq> ''account'' \<Longrightarrow> db_ok (put_rows n rs d) = db_ok d"
  by (simp add: db_ok_def named_rows_def)

lemma account_rows_ok:
  assumes "db_ok d" "distinct (map (\<lambda>r. r ''account_name'') rs)" "\<forall>r \<in> set rs. \<exists>n. r ''account_name'' = bindText n"
  shows "db_ok (put_rows ''account'' rs d)"
  using assms db_current_account [of d] by (auto simp: db_ok_def named_rows_def)

lemma mapped_ok:
  assumes "db_ok d" "\<And>r. upd r ''account_name'' = r ''account_name''"
  shows "db_ok (put_rows ''account'' (map upd (rows_of d ''account'')) d)"
  using assms by (intro account_rows_ok) (auto simp: db_ok_def named_rows_def comp_def)

lemma filtered_ok:
  assumes "db_ok d"
  shows "db_ok (put_rows ''account'' (filter P (rows_of d ''account'')) d)"
  using assms by (intro account_rows_ok) (auto simp: db_ok_def named_rows_def distinct_map inj_on_def)

lemma saveAccount_ok:
  assumes "saveAccount q acct a d = Inr d'" "db_ok d"
  shows "db_ok d'"
proof -
  let ?cs = "[(''account_name'', bindText acct)]"
  have "d' = put_rows ''account'' (map (\<lambda>r. if matches ?cs r then set_cols r (identity_values a) else r) (rows_of d ''account'')) d \<or>
      \<not> list_ex (matches ?cs) (rows_of d ''account'') \<and> d' = put_rows ''account'' (rows_of d ''account'' @ [new_account_row acct a]) d"
    using assms(1) by (auto simp: saveAccount_def run_write_def sql_upsert_def Let_def bindR_Inr_iff split: option.splits sum.splits if_splits)
  then show ?thesis
  proof (elim disjE conjE)
    assume "d' = put_rows ''account'' (map (\<lambda>r. if matches ?cs r then set_cols r (identity_values a) else r) (rows_of d ''account'')) d"
    then show ?thesis using assms(2) by (simp add: mapped_ok)
  next
    assume new: "\<not> list_ex (matches ?cs) (rows_of d ''account'')" and d': "d' = put_rows ''account'' (rows_of d ''account'' @ [new_account_row acct a]) d"
    have "bindText acct \<notin> (\<lambda>r. r ''account_name'') ` set (rows_of d ''account'')" using new by (auto simp: list_ex_iff)
    then show ?thesis
      unfolding d' using assms(2) by (intro account_rows_ok) (auto simp: db_ok_def named_rows_def)
  qed
qed

lemma upsert_kv_typed: "upsert_kv q label n kcol acct k vals d = Inr d' \<Longrightarrow> n \<noteq> ''account'' \<Longrightarrow> db_ok d \<Longrightarrow> db_ok d'"
  by (auto simp: upsert_kv_def run_write_def sql_upsert_def Let_def bindR_Inr_iff put_rows_ok split: option.splits sum.splits if_splits)

lemma saveAccountConfig_ok: "saveAccountConfig q acct a d = Inr d' \<Longrightarrow> db_ok d \<Longrightarrow> db_ok d'"
  by (auto simp: saveAccountConfig_def run_write_def Let_def bindR_Inr_iff mapped_ok split: option.splits if_splits)

lemma delete_tables_ok: "delete_tables q acct ns d = Inr d' \<Longrightarrow> db_ok d \<Longrightarrow> db_ok d'"
proof (induction ns arbitrary: d)
  case (Cons n ns)
  then obtain d1 where d1: "run_write q (''DELETE FROM '' @ n) (''DELETE FROM '' @ n @ '' failed: '') n (delete_rows acct n) d = Inr d1"
      "delete_tables q acct ns d1 = Inr d'"
    by (auto simp: bindR_Inr_iff)
  have "d1 = sql_delete n [(''account_name'', bindText acct)] d"
    using d1(1) by (auto simp: run_write_def delete_rows_def bindR_Inr_iff split: option.splits sum.splits if_splits)
  then have "db_ok d1"
    using Cons.prems(2) by (cases "n = ''account''") (simp_all add: sql_delete_def filtered_ok put_rows_ok)
  with d1(2) Cons.IH show ?case by blast
qed simp

lemma deleteAccount_ok: "keeps db_keeps (deleteAccount q acct)"
proof (clarsimp simp: keeps_def)
  fix d r d'
  assume r: "deleteAccount q acct d = (r, d')" "db_ok d"
  obtain c where c: "delete_in_txn q acct \<lparr>cn_db = d, cn_begun = None\<rparr> = (r, c)" "d' = durable c"
    using r(1) by (auto simp: deleteAccount_def split: prod.splits)
  from delete_in_txn_result [OF c(1)] c(2) r(2) show "db_ok d'"
    by (auto simp: durable_def dest: delete_tables_ok split: sum.splits)
qed

lemma saveFinishedAccount_ok: "keeps db_keeps (saveFinishedAccount q now name fa)"
  unfolding saveFinishedAccount_def
  by (intro db_frame.rules)
    (auto simp: saveIdentityKeypair_def saveSignedPrekey_def saveKyberPrekey_def intro: saveAccount_ok upsert_kv_typed)

section \<open>Opening\<close>

text \<open>
  The migrations leave a current database alone, whatever else fails, as long as the query for the \<open>id\<close> column is answered: a failure of that query is
  taken for an old table.
\<close>

abbreviation current_alone :: "db \<Rightarrow> db \<Rightarrow> bool" where
  "current_alone d d' \<equiv> db_current d \<longrightarrow> d' = d"

interpretation alone: frame current_alone
  by unfold_locales simp_all

lemma rename_alone: "step q ''hasId'' = None \<Longrightarrow> keeps current_alone (renameOldSyncedContactTableIfNeeded q)"
  by (auto simp: keeps_def renameOldSyncedContactTableIfNeeded_def liftR_def cols_of_def elim!: bindS_cases dest!: db_current_id split: if_splits option.splits)

lemma schema_alone: "keeps current_alone (apply_schema q pre)"
  by (auto simp: keeps_def apply_schema_def kSchemaSql_current db_current_tabs split: option.splits)

lemma copy_alone: "keeps current_alone (copyOldSyncedContactDataIfPresent q)"
  by (auto simp: keeps_def copyOldSyncedContactDataIfPresent_def liftR_def tableExists_def elim!: bindS_cases dest!: db_current_no_old split: if_splits option.splits)

lemma add_column_alone: "fst cd \<in> fst ` set account_config_columns \<Longrightarrow> keeps current_alone (addColumnIfMissing q ''account'' cd)"
  by (force simp: keeps_def addColumnIfMissing_def Let_def cols_of_def dest!: db_current_columns split: if_splits option.splits)

lemma add_columns_alone: "set cds \<subseteq> set account_config_columns \<Longrightarrow> keeps current_alone (add_columns q ''account'' cds)"
  by (induction cds) (auto intro!: alone.rules add_column_alone)

lemma migrate_alone: "step q ''hasId'' = None \<Longrightarrow> keeps current_alone (migrate q pre)"
  unfolding migrate_def migrateAccountConfigColumnsIfNeeded_def
  by (intro alone.rules rename_alone schema_alone copy_alone add_columns_alone) simp_all

section \<open>Disks\<close>

definition disk_keeps :: "disk \<Rightarrow> disk \<Rightarrow> bool" where
  "disk_keeps disk disk' \<longleftrightarrow> (\<forall>path f. disk path = Some f \<and> db_ok (f_db f) \<longrightarrow> (\<exists>f'. disk' path = Some f' \<and> f_key f' = f_key f \<and> db_ok (f_db f')))"

interpretation disk_frame: frame disk_keeps
proof
  show "disk_keeps s u" if "disk_keeps s t" "disk_keeps t u" for s t u
    using that unfolding disk_keeps_def by metis
qed (simp add: disk_keeps_def)

interpretation world_frame: frame "\<lambda>w w'. disk_keeps (gd_disk w) (gd_disk w')"
  using disk_frame.unchanged disk_frame.composed by unfold_locales blast+

interpretation reg_frame: frame "\<lambda>s s'. disk_keeps (gd_disk (rg_world s)) (gd_disk (rg_world s'))"
  using disk_frame.unchanged disk_frame.composed by unfold_locales blast+

abbreviation keeps_databases :: "(gendb, 'a) effect \<Rightarrow> bool" where
  "keeps_databases m \<equiv> keeps (\<lambda>w w'. disk_keeps (gd_disk w) (gd_disk w')) m"

abbreviation run_keeps_databases :: "(reg, 'a) effect \<Rightarrow> bool" where
  "run_keeps_databases m \<equiv> keeps (\<lambda>s s'. disk_keeps (gd_disk (rg_world s)) (gd_disk (rg_world s'))) m"

lemma open_db_keeps:
  assumes "step q ''hasId'' = None"
  shows "keeps disk_keeps (open_db q pre path key)"
proof -
  have m: "d' = d" if "migrate q pre d = (r, d')" "db_current d" for d r d'
    using keepsD [OF that(1) migrate_alone [OF assms]] that(2) by blast
  show ?thesis
    by (auto simp: keeps_def open_db_def Let_def disk_keeps_def db_ok_def split: option.splits prod.splits if_splits dest!: m)
qed

lemma listAllAccounts_keeps: "step q ''hasId'' = None \<Longrightarrow> keeps disk_keeps (listAllAccounts q path key)"
  unfolding listAllAccounts_def
  by (intro disk_frame.bind open_db_keeps) (auto simp: keeps_def disk_frame.unchanged split: option.splits)

lemma load_accounts_keeps:
  assumes "step q ''hasId'' = None"
  shows "disk_keeps disk (snd (load_accounts q g ss disk))"
proof (induction ss arbitrary: disk)
  case (Cons s ss)
  have "disk_keeps disk (snd (load_one q g s disk))"
    using open_db_keeps [OF assms, of "[]" "dbPath g" "dbKey g"]
    by (auto simp: load_one_def Storage_def keeps_def disk_frame.unchanged split: prod.splits sum.splits)
  from disk_frame.composed [OF this Cons.IH] show ?case
    by (auto simp: Let_def split: prod.splits)
qed (simp add: disk_frame.unchanged)

lemma DaemonConfig_load_keeps:
  assumes "step q ''hasId'' = None"
  shows "keeps disk_keeps (DaemonConfig_load q fs path)"
  unfolding keeps_def
proof (intro allI impI)
  fix disk x disk'
  assume "DaemonConfig_load q fs path disk = (x, disk')"
  then show "disk_keeps disk disk'"
    using listAllAccounts_keeps [OF assms, THEN keepsD [rotated]] load_accounts_keeps [OF assms]
    by (auto simp: DaemonConfig_load_def disk_frame.unchanged split: sum.splits prod.splits) (metis disk_frame.composed snd_conv)
qed

section \<open>Commands\<close>

lemma in_world_keeps: "keeps_databases m \<Longrightarrow> run_keeps_databases (in_world m)"
  by (auto simp: keeps_def in_world_run)

lemma in_db_keeps: "keeps db_keeps m \<Longrightarrow> keeps_databases (in_db g m)"
  by (auto simp: keeps_def in_db_def disk_keeps_def split: option.splits prod.splits)

lemma open_storage_keeps: "step (gc_q e) ''hasId'' = None \<Longrightarrow> keeps_databases (open_storage e g)"
  using open_db_keeps [of "gc_q e"] by (auto simp: keeps_def open_storage_def Storage_def split: prod.splits)

lemma same_disk_keeps:
  "keeps_databases (say line)" "keeps_databases (gendb_request e req)" "keeps_databases (deletePending g name)" "keeps_databases (savePending e l g name p)"
  "keeps_databases (signalDaemonBestEffort e g)"
  by (auto simp: keeps_def say_def gendb_request_def deletePending_def savePending_def signalDaemonBestEffort_def Let_def disk_frame.unchanged
      split: option.splits if_splits)

lemma say_all_keeps: "keeps_databases (say_all ls)"
proof (induction ls)
  case (Cons l ls)
  show ?case unfolding say_all.simps by (intro world_frame.rules same_disk_keeps Cons)
qed (simp only: say_all.simps world_frame.basic)

lemma open_account_keeps: "step (gc_q e) ''hasId'' = None \<Longrightarrow> keeps_databases (open_account e g name complaint)"
  unfolding open_account_def by (intro world_frame.rules open_storage_keeps in_db_keeps db_frame.rules)

lemma saveAccountConfig_keeps: "keeps_databases (in_db g (updR (saveAccountConfig q name a)))"
  by (intro in_db_keeps db_frame.update) (auto intro: saveAccountConfig_ok)

lemma listing_keeps:
  assumes "step (gc_q e) ''hasId'' = None"
  shows "keeps_databases (cmdListAccounts e g)"
  unfolding keeps_def
proof (intro allI impI)
  fix w x w'
  assume run: "cmdListAccounts e g w = (x, w')"
  obtain y disk where l: "listAllAccounts (gc_q e) (dbPath g) (dbKey g) (gd_disk w) = (y, disk)" by fastforce
  have "disk_keeps disk (gd_disk w')"
    using run l keepsD [OF _ say_all_keeps, of _ "w\<lparr>gd_disk := disk\<rparr>"]
    by (auto simp: cmdListAccounts_def disk_frame.unchanged split: sum.splits)
  with keepsD [OF l listAllAccounts_keeps [OF assms]] show "disk_keeps (gd_disk w) (gd_disk w')"
    by (rule disk_frame.composed)
qed

lemmas world_rules = world_frame.rules same_disk_keeps say_all_keeps open_account_keeps saveAccountConfig_keeps open_storage_keeps in_db_keeps db_frame.basic
  deleteAccount_ok saveFinishedAccount_ok

lemma local_commands_keep:
  assumes "step (gc_q e) ''hasId'' = None"
  shows "keeps_databases (cmdConfigGet e g name field)" "keeps_databases (cmdConfigSet e g name field v)" "keeps_databases (cmdSetEnabled e g name b)"
    "keeps_databases (cmdUnlink e g name)" "keeps_databases (cmdDeleteAccount e g name)" "keeps_databases (cmdDeactivate e enc g name)"
    "keeps_databases (cmdReactivate e enc g name)" "keeps_databases (requireNoExistingAccount e g name)"
  unfolding cmdConfigGet_def cmdConfigSet_def cmdSetEnabled_def cmdUnlink_def cmdDeleteAccount_def cmdDeactivate_def cmdReactivate_def putFetchesMessages_def
    requireNoExistingAccount_def disableRegistrationLockBestEffort_def
  by (intro world_rules assms)+

lemma bootstrap_keeps: "keeps_databases (bootstrapGlobalConfigIfNeeded e path)"
  by (auto simp: bootstrapGlobalConfigIfNeeded_def keeps_def liftR_def Let_def disk_frame.unchanged elim!: bindS_cases split: if_splits)

lemma load_config_keeps: "step (gc_q e) ''hasId'' = None \<Longrightarrow> keeps_databases (load_config e path)"
  using DaemonConfig_load_keeps [of "gc_q e"] by (auto simp: keeps_def load_config_def split: prod.splits)

lemma config_command_keeps:
  assumes "step (gc_q e) ''hasId'' = None"
  shows "keeps_databases (config_command e cfg name positional)"
  unfolding config_command_def by (intro world_frame.rules local_commands_keep assms)

lemma quiet_keeps: "keeps same_world m \<Longrightarrow> run_keeps_databases m"
  by (auto simp: keeps_def disk_frame.unchanged)

lemma link_request_keeps: "run_keeps_databases (link_request l opts)"
  by (auto simp: keeps_def link_request_def disk_frame.unchanged split: sum.splits)

lemmas run_rules = reg_frame.rules in_world_keeps world_frame.basic link_request_keeps quiet_keeps [OF quiet_service(1)] quiet_keeps [OF quiet_service(2)]
  quiet_keeps [OF quiet_service(3)] quiet_keeps [OF quiet_service(4)] quiet_keeps [OF quiet_service(6)] quiet_keeps [OF quiet_attempt]

lemma account_commands_keep:
  assumes "step (gc_q e) ''hasId'' = None"
  shows "run_keeps_databases (cmdRegister e l cfg name arg transport)" "run_keeps_databases (cmdVerify e l rnd cfg name code)" "run_keeps_databases (cmdLink e l pl rnd provision cfg name)"
  unfolding cmdRegister_def cmdVerify_def cmdLink_def Let_def
  by (intro run_rules local_commands_keep same_disk_keeps open_storage_keeps in_db_keeps saveFinishedAccount_ok assms)+

lemma captcha_keeps: "run_keeps_databases (cmdRegisterCaptcha l cfg name t)"
  unfolding cmdRegisterCaptcha_def by (intro run_rules)

lemma run_command_keeps:
  assumes "step (gc_q e) ''hasId'' = None"
  shows "run_keeps_databases (run_command e gl args cfg)"
  unfolding run_command_def Let_def
  by (intro reg_frame.rules account_commands_keep captcha_keeps in_world_keeps local_commands_keep config_command_keeps listing_keeps assms)

text \<open>
  C18: every run of \<open>gendb\<close>, whatever its command line, whatever Signal answers and whatever fails, keeps the type of every database on disk: a database with the
  current schema and account names that are a key still is one, under the same encryption key.
\<close>

theorem gendb_keeps_database_type:
  assumes "gd_disk (rg_world s) path = Some f" "db_current (f_db f)" "named_rows (f_db f)" "step (gc_q e) ''hasId'' = None"
  shows "\<exists>f'. gd_disk (rg_world (snd (gendb_main e gl argv s))) path = Some f' \<and> f_key f' = f_key f \<and> db_current (f_db f') \<and> named_rows (f_db f')"
proof -
  have m: "run_keeps_databases (bindS (in_world (bootstrapGlobalConfigIfNeeded e p)) (\<lambda>_. bindS (in_world (load_config e p)) (run_command e gl args)))" for p args
    using assms(4) by (intro reg_frame.bind in_world_keeps bootstrap_keeps load_config_keeps run_command_keeps)
  have "disk_keeps (gd_disk (rg_world s)) (gd_disk (rg_world (snd (gendb_main e gl argv s))))"
    using m unfolding gendb_main_def keeps_def Let_def by (auto simp: disk_frame.unchanged split: sum.splits prod.splits)
  then show ?thesis using assms(1-3) unfolding disk_keeps_def db_ok_def by blast
qed

theorem gendb_keeps_database_type_witness:
  "\<exists>f'. gd_disk (rg_world (snd (gendb_main calm \<lparr>gl_reg = sample_reg, gl_prov = toy_lib, gl_random = sample_random, gl_provision = Inl Pj_error\<rparr>
       [''gendb'', ''a'', ''unlink''] pending_state))) ''p'' = Some f' \<and> f_key f' = ''k'' \<and> db_current (f_db f')"
proof -
  have "gd_disk (rg_world pending_state) ''p'' = Some \<lparr>f_key = ''k'', f_db = one_account\<rparr>"
    by (simp add: pending_state_def one_world_def sample_disk_def)
  from gendb_keeps_database_type [OF this] show ?thesis
    using db_current_one_account by (force simp: named_rows_def one_account_rows calm_def)
qed

end
