(* ===== verification/RegistrationSafety.thy ===== *)
theory RegistrationSafety
  imports GendbInvariant
begin

text \<open>
  Properties of the commands that create accounts: an account that is there is protected from them, a registration is carried over from one run of the
  tool to the next, a verification that fails changes nothing, and a linked account is what was sent to the server.
\<close>

section \<open>Existing accounts\<close>

lemma existing_refused:
  assumes "open_storage e g w = (Inr (), w')" "gd_disk w' (dbPath g) = Some f" "hasAccount (gc_q e) name (f_db f) = Inr True"
  shows "\<exists>x. requireNoExistingAccount e g name w' = (Inl x, w')"
  using assms by (simp add: requireNoExistingAccount_def in_db_def liftR_def bindS_def throwS_def fun_upd_idem)

definition refused :: "gendb \<Rightarrow> reg \<Rightarrow> (reg, 'a) effect \<Rightarrow> bool" where
  "refused w' s m \<longleftrightarrow> (\<exists>x s'. m s = (Inl x, s') \<and> s' \<in> {s, s\<lparr>rg_world := w'\<rparr>})"

lemma refused_prefix:
  assumes "open_storage e g (rg_world s) = (Inr (), w')" "gd_disk w' (dbPath g) = Some f" "hasAccount (gc_q e) name (f_db f) = Inr True"
  shows "refused w' s (bindS (in_world (open_storage e g)) (\<lambda>_. bindS (in_world (requireNoExistingAccount e g name)) m))"
  using existing_refused [OF assms] assms(1) by (auto simp: refused_def in_world_def bindS_def)

lemma refused_check: "(\<And>x. refused w' s (k x)) \<Longrightarrow> refused w' s (bindS (liftR r) k)"
  by (cases "r s") (auto simp: refused_def liftR_def bindS_def)

lemma refused_commands:
  assumes "open_storage e (dc_global cfg) (rg_world s) = (Inr (), w')" "gd_disk w' (dbPath (dc_global cfg)) = Some f"
    and "hasAccount (gc_q e) name (f_db f) = Inr True"
  shows "refused w' s (cmdRegister e l cfg name arg transport)" "refused w' s (cmdVerify e l rnd cfg name code)"
    "refused w' s (cmdLink e l pl rnd provision cfg name)"
proof -
  show "refused w' s (cmdRegister e l cfg name arg transport)"
  proof (cases "transport = ''sms'' \<or> transport = ''voice''")
    case True
    then have ok: "\<not> (transport \<noteq> ''sms'' \<and> transport \<noteq> ''voice'')" by blast
    show ?thesis unfolding cmdRegister_def if_not_P [OF ok] by (intro refused_check refused_prefix [OF assms])
  qed (simp add: cmdRegister_def refused_def throwS_def)
qed (unfold cmdVerify_def cmdLink_def, (rule refused_prefix [OF assms])+)

text \<open>
  An account that is in the database is never registered, verified or linked again: \<open>register\<close>, \<open>verify\<close> and \<open>link\<close> under its name end with an error, with no
  call of the registration service, no request to Signal and no change to the files; the database is only opened.
\<close>

theorem existing_account_protected:
  assumes "open_storage e (dc_global cfg) (rg_world s) = (Inr (), w')" "gd_disk w' (dbPath (dc_global cfg)) = Some f"
    and "hasAccount (gc_q e) name (f_db f) = Inr True"
    and "m \<in> {cmdRegister e l cfg name arg transport, cmdVerify e l rnd cfg name code, cmdLink e l pl rnd provision cfg name}"
  shows "isl (fst (m s)) \<and> rg_calls (snd (m s)) = rg_calls s \<and> rg_http (snd (m s)) = rg_http s \<and> rg_world (snd (m s)) \<in> {rg_world s, w'}"
proof -
  have "refused w' s m" using refused_commands [OF assms(1-3)] assms(4) by auto
  then show ?thesis by (auto simp: refused_def)
qed

theorem existing_account_protected_witness:
  "isl (fst (cmdLink calm sample_reg toy_lib sample_random (Inl Pj_error) no_accounts ''a'' pending_state)) \<and>
   rg_http (snd (cmdLink calm sample_reg toy_lib sample_random (Inl Pj_error) no_accounts ''a'' pending_state)) = []"
proof -
  have o: "open_storage calm (dc_global no_accounts) (rg_world pending_state) = (Inr (), rg_world pending_state)"
    using one_world_opens by (simp add: open_storage_def no_accounts_def pending_state_def one_world_def)
  have d: "gd_disk (rg_world pending_state) (dbPath (dc_global no_accounts)) = Some \<lparr>f_key = ''k'', f_db = one_account\<rparr>"
    by (simp add: no_accounts_def pending_state_def one_world_def sample_disk_def)
  have "hasAccount (gc_q calm) ''a'' one_account = Inr True"
    using account_loaded_has [OF one_account_loaded] by simp
  with existing_account_protected [OF o d, of "''a''" "cmdLink calm sample_reg toy_lib sample_random (Inl Pj_error) no_accounts ''a''"
      sample_reg "[]" "[]" sample_random "[]" toy_lib "Inl Pj_error"]
  show ?thesis by (simp add: pending_state_def)
qed

section \<open>A save that is interrupted\<close>

interpretation account_frame: frame "\<lambda>d d'. loadAccount q name d' = loadAccount q name d" for q name
  by unfold_locales simp_all

lemma save_partial:
  assumes "saveFinishedAccount q now name fa d = (Inl x, d')" "d' \<noteq> d"
  shows "\<exists>a. loadAccount no_faults name d' = Inr a"
proof -
  let ?keys = "bindS (updR (saveIdentityKeypair q name ''aci'' (fa_aciIdentity fa))) (\<lambda>_. bindS (updR (saveIdentityKeypair q name ''pni'' (fa_pniIdentity fa))) (\<lambda>_.
     bindS (updR (saveSignedPrekey q name ''aci'' (fa_aciSigned fa))) (\<lambda>_. bindS (updR (saveSignedPrekey q name ''pni'' (fa_pniSigned fa))) (\<lambda>_.
     bindS (updR (saveKyberPrekey q name ''aci'' (fa_aciKyber fa))) (\<lambda>_. updR (saveKyberPrekey q name ''pni'' (fa_pniKyber fa)))))))"
  from assms obtain d1 where d1: "saveAccount q name (finished_record now fa) d = Inr d1" "?keys d1 = (Inl x, d')"
    by (auto simp: saveFinishedAccount_def updR_def [of "saveAccount q name (finished_record now fa)"] elim!: bindS_cases [of "updR (saveAccount q name (finished_record now fa))"] split: sum.splits)
  have "keeps (\<lambda>d d'. loadAccount no_faults name d' = loadAccount no_faults name d) ?keys"
    by (intro account_frame.rules) (simp_all add: frame_identity frame_signed frame_kyber)
  with d1(2) have "loadAccount no_faults name d' = loadAccount no_faults name d1" by (rule keepsD)
  then show ?thesis using saveAccount_row [OF d1(1)] by (simp add: loadAccount_row split: option.splits)
qed

text \<open>
  C40: Saving a verified account is a sequence of separate writes. When one of them fails after the first, \<open>verify\<close> ends with an error although the server has accepted
  the registration, and the incomplete account is in the database: every later run that finds the disk as this one left it and can read it refuses to \<open>register\<close>, \<open>verify\<close> or
  \<open>link\<close> the name, with no call of the registration service, no request and no change on disk, so that neither the registration can be completed nor a
  new one begun until \<open>unlink\<close> or \<open>delete-account\<close> removes the account.
\<close>

theorem interrupted_save_strands_account:
  assumes "cmdVerify e l rnd cfg name code s = (Inl x, s')"
    and "gd_disk (rg_world s') \<noteq> snd (Storage (gc_q e) (dbPath (dc_global cfg)) (dbKey (dc_global cfg)) (gd_disk (rg_world s)))"
    and "gd_disk (rg_world s) (dbPath (dc_global cfg)) = Some f0" "f_key f0 = dbKey (dc_global cfg)" "db_ok (f_db f0)" "step (gc_q e) ''hasId'' = None"
  shows "(\<exists>f before req ats. gd_disk (rg_world s') (dbPath (dc_global cfg)) = Some f \<and> hasAccount no_faults name (f_db f) = Inr True \<and>
      rg_calls s' = before @ [Register_account req ats] \<and> rl_call l (length before) (Register_account req ats) = Inr ()) \<and>
    (\<forall>e2 l2 pl rnd2 provision cfg2 arg transport code2 s2 m.
      gc_q e2 = no_faults \<and> dc_global cfg2 = dc_global cfg \<and> gd_disk (rg_world s2) = gd_disk (rg_world s') \<and>
      m \<in> {cmdRegister e2 l2 cfg2 name arg transport, cmdVerify e2 l2 rnd2 cfg2 name code2, cmdLink e2 l2 pl rnd2 provision cfg2 name} \<longrightarrow>
        isl (fst (m s2)) \<and> rg_calls (snd (m s2)) = rg_calls s2 \<and> rg_http (snd (m s2)) = rg_http s2 \<and> rg_world (snd (m s2)) = rg_world s2)"
proof -
  let ?g = "dc_global cfg"
  define w where "w = (rg_world s)\<lparr>gd_disk := snd (Storage (gc_q e) (dbPath ?g) (dbKey ?g) (gd_disk (rg_world s)))\<rparr>"
  have "rg_world s' \<noteq> w" using assms(2) by (auto simp: w_def)
  then obtain pending fa f d s1 s2 where r: "verify_attempt e l rnd cfg name code pending s1 = (Inr (Some fa), s2)" "rg_calls s' = rg_calls s2"
      "gd_disk w (dbPath ?g) = Some f" "saveFinishedAccount (gc_q e) (rr_now rnd) name fa (f_db f) = (Inl x, d)"
      "gd_disk (rg_world s') = (gd_disk w)(dbPath ?g \<mapsto> f\<lparr>f_db := d\<rparr>)"
    using verify_run [OF assms(1)] unfolding w_def [symmetric] by auto
  have "d \<noteq> f_db f" using assms(2) r(3,5) by (auto simp: w_def fun_upd_idem)
  from save_partial [OF r(4) this] have has: "hasAccount no_faults name d = Inr True" using account_loaded_has by blast
  moreover obtain before req ats where "rg_calls s2 = before @ [Register_account req ats]" "rl_call l (length before) (last (rg_calls s2)) = Inr ()"
    using attempt_registered [OF r(1)] by blast
  ultimately have one: "\<exists>f before req ats. gd_disk (rg_world s') (dbPath ?g) = Some f \<and> hasAccount no_faults name (f_db f) = Inr True \<and>
      rg_calls s' = before @ [Register_account req ats] \<and> rl_call l (length before) (Register_account req ats) = Inr ()"
    using r(2,5) by auto
  have "disk_keeps (gd_disk (rg_world s)) (gd_disk (rg_world s'))" using keepsD [OF assms(1) account_commands_keep(2) [OF assms(6)]] .
  then obtain f' where f': "gd_disk (rg_world s') (dbPath ?g) = Some f'" "f_key f' = dbKey ?g" "db_current (f_db f')"
    using assms(3-5) unfolding disk_keeps_def db_ok_def by metis
  have here: "hasAccount no_faults name (f_db f') = Inr True" using f'(1) r(5) has by auto
  have opens: "open_storage e2 ?g (rg_world t) = (Inr (), rg_world t)" if "gc_q e2 = no_faults" "gd_disk (rg_world t) = gd_disk (rg_world s')" for e2 t
    using open_current [of "gd_disk (rg_world t)" "dbPath ?g" f' "dbKey ?g"] f' that by (simp add: open_storage_def Storage_def)
  have "refused (rg_world t) t m"
    if "gc_q e2 = no_faults" "dc_global cfg2 = ?g" "gd_disk (rg_world t) = gd_disk (rg_world s')"
      "m \<in> {cmdRegister e2 l2 cfg2 name arg transport, cmdVerify e2 l2 rnd2 cfg2 name code2, cmdLink e2 l2 pl rnd2 provision cfg2 name}"
    for e2 l2 pl rnd2 provision cfg2 arg transport code2 t m
  proof -
    have "open_storage e2 (dc_global cfg2) (rg_world t) = (Inr (), rg_world t)" "gd_disk (rg_world t) (dbPath (dc_global cfg2)) = Some f'"
      "hasAccount (gc_q e2) name (f_db f') = Inr True"
      using opens [OF that(1,3)] that(1-3) f'(1) here by simp_all
    note c = refused_commands [OF this]
    show ?thesis using that(4) c(1) [of l2 arg transport] c(2) [of l2 rnd2 code2] c(3) [of l2 pl rnd2 provision] by blast
  qed
  then have two: "isl (fst (m t)) \<and> rg_calls (snd (m t)) = rg_calls t \<and> rg_http (snd (m t)) = rg_http t \<and> rg_world (snd (m t)) = rg_world t"
    if "gc_q e2 = no_faults" "dc_global cfg2 = ?g" "gd_disk (rg_world t) = gd_disk (rg_world s')"
      "m \<in> {cmdRegister e2 l2 cfg2 name arg transport, cmdVerify e2 l2 rnd2 cfg2 name code2, cmdLink e2 l2 pl rnd2 provision cfg2 name}"
    for e2 l2 pl rnd2 provision cfg2 arg transport code2 t m
    using that unfolding refused_def by fastforce
  show ?thesis using one two by blast
qed

definition full_disk :: gendb_env where
  "full_disk = calm\<lparr>gc_q := no_faults\<lparr>step := (\<lambda>label. if label = ''saveKyberPrekey'' then Some ''database or disk is full'' else None)\<rparr>\<rparr>"

text \<open>Opening looks at three queries only.\<close>

lemma open_no_faults:
  assumes "\<forall>l. exec q l = None \<and> prepare q l = None" "step q ''tableExists'' = None" "step q ''hasId'' = None" "step q ''table_info'' = None"
  shows "Storage q path key = Storage no_faults path key"
proof -
  have e: "exec q = exec no_faults" "prepare q = prepare no_faults" using assms(1) by (auto simp: fun_eq_iff)
  have t: "step q ''tableExists'' = step no_faults ''tableExists''" "step q ''hasId'' = step no_faults ''hasId''"
    "step q ''table_info'' = step no_faults ''table_info''" using assms by simp_all
  have x: "tableExists q = tableExists no_faults" unfolding tableExists_def [abs_def] e t ..
  have c: "addColumnIfMissing q = addColumnIfMissing no_faults" unfolding addColumnIfMissing_def [abs_def] e t ..
  have a: "add_columns q n cds = add_columns no_faults n cds" for n cds by (induction cds) (simp_all add: c)
  show ?thesis
    unfolding Storage_def open_db_def [abs_def] migrate_def renameOldSyncedContactTableIfNeeded_def copyOldSyncedContactDataIfPresent_def
      apply_schema_def migrateAccountConfigColumnsIfNeeded_def e t x a ..
qed

lemma full_disk_opens: "Storage (gc_q full_disk) (dbPath sample_global) (dbKey sample_global) sample_disk = (Inr (), sample_disk)"
  using open_no_faults [of "gc_q full_disk"] one_world_opens by (simp add: full_disk_def)

lemma full_disk_fails: "fst (saveFinishedAccount (gc_q full_disk) 3 ''n'' sample_standalone one_account) = Inl (Runtime_error ''saveKyberPrekey failed: database or disk is full'')"
  by code_simp

lemma full_disk_partial: "hasAccount no_faults ''n'' (snd (saveFinishedAccount (gc_q full_disk) 3 ''n'' sample_standalone one_account)) = Inr True"
  by code_simp

theorem interrupted_save_strands_account_witness:
  "\<exists>x s'. cmdVerify full_disk sample_reg sample_random no_accounts ''n'' ''123'' pending_state = (Inl x, s') \<and>
     isl (fst (cmdVerify calm sample_reg sample_random no_accounts ''n'' ''123'' s')) \<and>
     isl (fst (cmdRegister calm sample_reg no_accounts ''n'' ''+3'' ''sms'' s'))"
proof -
  obtain x d where d: "saveFinishedAccount (gc_q full_disk) 3 ''n'' sample_standalone one_account = (Inl x, d)" "hasAccount no_faults ''n'' d = Inr True"
    using full_disk_fails full_disk_partial by (metis prod.collapse)
  have "hasAccount (gc_q full_disk) ''n'' one_account = Inr False" by code_simp
  from verify_sample_run [OF full_disk_opens this d(1)] obtain s' where
    s': "cmdVerify full_disk sample_reg sample_random no_accounts ''n'' ''123'' pending_state = (Inl x, s')"
      "gd_disk (rg_world s') = sample_disk(''p'' \<mapsto> \<lparr>f_key = ''k'', f_db = d\<rparr>)" by blast
  have ne: "gd_disk (rg_world s') \<noteq> snd (Storage (gc_q full_disk) (dbPath (dc_global no_accounts)) (dbKey (dc_global no_accounts)) (gd_disk (rg_world pending_state)))"
    using d(2) sample_absent full_disk_opens unfolding s'(2)
    by (auto simp: no_accounts_def pending_state_def one_world_def sample_disk_def dest: fun_cong [of _ _ "''p''"])
  have ok: "db_ok one_account" using db_current_one_account by (simp add: db_ok_def named_rows_def one_account_rows)
  have f: "gd_disk (rg_world pending_state) (dbPath (dc_global no_accounts)) = Some \<lparr>f_key = ''k'', f_db = one_account\<rparr>"
    "f_key \<lparr>f_key = ''k'', f_db = one_account\<rparr> = dbKey (dc_global no_accounts)" "db_ok (f_db \<lparr>f_key = ''k'', f_db = one_account\<rparr>)" "step (gc_q full_disk) ''hasId'' = None"
    using ok by (simp_all add: no_accounts_def pending_state_def one_world_def sample_disk_def sample_global_def full_disk_def)
  note later = interrupted_save_strands_account [OF s'(1) ne f, THEN conjunct2, rule_format, of calm no_accounts s' _ sample_reg "''+3''" "''sms''" sample_random "''123''" toy_lib "Inl Pj_error"]
  have "gc_q calm = no_faults" by (simp add: calm_def)
  with s'(1) later [of "cmdRegister calm sample_reg no_accounts ''n'' ''+3'' ''sms''"] later [of "cmdVerify calm sample_reg sample_random no_accounts ''n'' ''123''"]
  show ?thesis by blast
qed

section \<open>From one run to the next\<close>

lemma pending_loads:
  assumes "gd_files w (pendingFilePath g name) = Some (rl_dump l (pending_json p))" "rl_parse l (rl_dump l (pending_json p)) = Inr (pending_json p)"
  shows "loadPending l g name w = Inr p"
  using assms by (cases p) (simp add: loadPending_def json_string_def pending_json_def json_at_def get_string_def bindR_def)

interpretation growing: frame "\<lambda>s s'. \<exists>more. rg_calls s' = rg_calls s @ more"
  by unfold_locales auto

lemma service_call_grows: "keeps (\<lambda>s s'. \<exists>more. rg_calls s' = rg_calls s @ more) (service_call l c)"
  by (simp add: keeps_def service_call_def)

lemma captcha_resumes:
  assumes "loadPending l (dc_global cfg) name (rg_world s) = Inr p" "cleanCaptchaToken t \<noteq> []" "rl_new l = Inr ()"
  shows "\<exists>more. rg_calls (snd (cmdRegisterCaptcha l cfg name t s)) = rg_calls s @ Resume_session (pd_sessionId p) (pd_e164 p) # more"
proof -
  let ?c = "Resume_session (pd_sessionId p) (pd_e164 p)"
  let ?s1 = "s\<lparr>rg_calls := rg_calls s @ [?c]\<rparr>"
  define rest where "rest = (\<lambda>_ :: unit. bindS (currentSessionState l) (\<lambda>_. bindS (submitCaptcha l (cleanCaptchaToken t)) (\<lambda>session.
          if \<not> allowedToRequestCode session then returnS ()
          else bindS (requestVerificationCode l (pd_transport p)) (\<lambda>_. returnS ()))))"
  have "cmdRegisterCaptcha l cfg name t s = bindS (service_call l ?c) rest s"
    using assms by (simp add: cmdRegisterCaptcha_def rest_def in_world_def liftR_def resumeSession_def bindS_def split: sum.splits prod.splits)
  moreover have "keeps (\<lambda>s s'. \<exists>more. rg_calls s' = rg_calls s @ more) (rest ())"
    unfolding rest_def submitCaptcha_def requestVerificationCode_def currentSessionState_def session_now_def
    by (intro growing.rules service_call_grows)
  from keepsD [OF surjective_pairing this] have "\<exists>more. rg_calls (snd (rest () ?s1)) = rg_calls ?s1 @ more" .
  ultimately show ?thesis
    by (auto simp: bindS_def service_call_def split: sum.splits)
qed

definition asks_for_code :: "reg_lib \<Rightarrow> string \<Rightarrow> RegistrationSessionState \<Rightarrow> (reg, unit) effect" where
  "asks_for_code l transport session =
     (if ''captcha'' \<in> set (requestedInformation session) then returnS ()
      else if ''pushChallenge'' \<in> set (requestedInformation session) then returnS ()
      else if \<not> allowedToRequestCode session then returnS ()
      else bindS (requestVerificationCode l transport) (\<lambda>_. returnS ()))"

lemma register_steps:
  assumes "cmdRegister e l cfg name arg transport s = (Inr (), s')"
  obtains e164 s1 s2 st s3 sid s4 s5 where "register_e164 cfg name arg = Inr e164" "in_world (open_storage e (dc_global cfg)) s = (Inr (), s1)"
    "in_world (requireNoExistingAccount e (dc_global cfg) name) s1 = (Inr (), s2)" "rl_new l = Inr ()" "createSession l e164 s2 = (Inr st, s3)"
    "sessionId l s3 = (Inr sid, s4)" "in_world (savePending e l (dc_global cfg) name
            \<lparr>pd_e164 = e164, pd_sessionId = sid, pd_password = base64NoPadding (gc_random e 18), pd_transport = transport\<rparr>) s4 = (Inr (), s5)"
    "asks_for_code l transport st s5 = (Inr (), s')"
proof -
  have ok: "\<not> (transport \<noteq> ''sms'' \<and> transport \<noteq> ''voice'')"
  proof
    assume "transport \<noteq> ''sms'' \<and> transport \<noteq> ''voice''"
    with assms show False unfolding cmdRegister_def by (simp only: if_P throwS_def prod.inject sum.distinct simp_thms)
  qed
  show thesis
    using assms that unfolding cmdRegister_def if_not_P [OF ok] asks_for_code_def [symmetric]
    by (auto simp: liftR_def elim!: bindS_cases)
qed

lemma register_run:
  assumes "cmdRegister e l cfg name arg transport s = (Inr (), s')"
  obtains e164 session p where "register_e164 cfg name arg = Inr e164" "rl_new l = Inr ()" "rl_session l (Suc (length (rg_calls s))) = Inr session"
    "rg_calls s' = rg_calls s @ Create_session e164 # (if rs_allowedToRequestCode session \<and> 0 \<notin> set (rs_requestedInformation session)
        \<and> 1 \<notin> set (rs_requestedInformation session) then [Request_verification_code transport ''signal2sip''] else [])"
    "pd_e164 p = e164" "pd_sessionId p = rs_id session" "pd_transport p = transport" "pd_password p = base64NoPadding (gc_random e 18)"
    "gd_files (rg_world s') (pendingFilePath (dc_global cfg) name) = Some (rl_dump l (pending_json p))"
proof -
  have names: "''captcha'' \<in> set (map challengeOptionName bs) \<longleftrightarrow> 1 \<in> set bs" "''pushChallenge'' \<in> set (map challengeOptionName bs) \<longleftrightarrow> 0 \<in> set bs" for bs
    by (auto simp: challengeOptionName_def image_iff split: if_splits)
  from assms obtain e164 s1 s2 st s3 sid s4 s5 where q: "register_e164 cfg name arg = Inr e164" "in_world (open_storage e (dc_global cfg)) s = (Inr (), s1)"
    "in_world (requireNoExistingAccount e (dc_global cfg) name) s1 = (Inr (), s2)" "rl_new l = Inr ()" "createSession l e164 s2 = (Inr st, s3)"
    "sessionId l s3 = (Inr sid, s4)" "in_world (savePending e l (dc_global cfg) name
          \<lparr>pd_e164 = e164, pd_sessionId = sid, pd_password = base64NoPadding (gc_random e 18), pd_transport = transport\<rparr>) s4 = (Inr (), s5)"
    "asks_for_code l transport st s5 = (Inr (), s')" by (rule register_steps)
  have "rg_calls s2 = rg_calls s" using q(2,3) by (auto simp: in_world_run)
  with q(5) obtain session where ses: "rl_session l (Suc (length (rg_calls s))) = Inr session" "rg_calls s3 = rg_calls s @ [Create_session e164]"
    "st = \<lparr>allowedToRequestCode = rs_allowedToRequestCode session, requestedInformation = map challengeOptionName (rs_requestedInformation session)\<rparr>"
    by (auto simp: createSession_def service_call_def currentSessionState_def session_now_def liftR_def elim!: bindS_cases)
  have four: "s4 = s3" "sid = rs_id session" using q(6) ses(1,2) by (auto simp: sessionId_def session_now_def liftR_def elim!: bindS_cases)
  have five: "rg_calls s5 = rg_calls s3" "gd_files (rg_world s5) (pendingFilePath (dc_global cfg) name) = Some (rl_dump l (pending_json
      \<lparr>pd_e164 = e164, pd_sessionId = sid, pd_password = base64NoPadding (gc_random e 18), pd_transport = transport\<rparr>))"
    using q(7) four(1) by (auto simp: in_world_run savePending_def split: if_splits)
  have "same_world s5 s'" "rg_calls s' = rg_calls s5 @ (if rs_allowedToRequestCode session \<and> 0 \<notin> set (rs_requestedInformation session)
      \<and> 1 \<notin> set (rs_requestedInformation session) then [Request_verification_code transport ''signal2sip''] else [])"
    using q(8) unfolding asks_for_code_def ses(3) RegistrationSessionState.simps names
    by (auto simp: requestVerificationCode_def service_call_def currentSessionState_def session_now_def liftR_def elim!: bindS_cases split: if_splits)
  with that [OF q(1,4) ses(1), of "\<lparr>pd_e164 = e164, pd_sessionId = sid, pd_password = base64NoPadding (gc_random e 18), pd_transport = transport\<rparr>"] ses(2) four five
  show thesis by simp
qed

text \<open>
  A registration is carried over from run to run: when \<open>register\<close> completes, it has opened one session, for the number of the account, and asked for a code exactly
  when the session allows it and wants neither a captcha nor a push challenge first. The pending file holds that session, its number, transport and a fresh password,
  and once it reads back as written the next \<open>register-captcha\<close> resumes exactly this session.
\<close>

theorem register_handed_over:
  assumes "cmdRegister e l cfg name arg transport s = (Inr (), s')"
  shows "\<exists>e164 session p. register_e164 cfg name arg = Inr e164 \<and> rl_session l (Suc (length (rg_calls s))) = Inr session \<and>
    rg_calls s' = rg_calls s @ Create_session e164 # (if rs_allowedToRequestCode session \<and> 0 \<notin> set (rs_requestedInformation session)
        \<and> 1 \<notin> set (rs_requestedInformation session) then [Request_verification_code transport ''signal2sip''] else []) \<and>
    pd_e164 p = e164 \<and> pd_sessionId p = rs_id session \<and> pd_transport p = transport \<and> pd_password p = base64NoPadding (gc_random e 18) \<and>
    gd_files (rg_world s') (pendingFilePath (dc_global cfg) name) = Some (rl_dump l (pending_json p)) \<and>
    (rl_parse l (rl_dump l (pending_json p)) = Inr (pending_json p) \<longrightarrow> loadPending l (dc_global cfg) name (rg_world s') = Inr p \<and>
      (\<forall>t. cleanCaptchaToken t \<noteq> [] \<longrightarrow>
        (\<exists>more. rg_calls (snd (cmdRegisterCaptcha l cfg name t s')) = rg_calls s' @ Resume_session (rs_id session) e164 # more)))"
proof -
  obtain e164 session p where r: "register_e164 cfg name arg = Inr e164" "rl_new l = Inr ()" "rl_session l (Suc (length (rg_calls s))) = Inr session"
    "rg_calls s' = rg_calls s @ Create_session e164 # (if rs_allowedToRequestCode session \<and> 0 \<notin> set (rs_requestedInformation session)
        \<and> 1 \<notin> set (rs_requestedInformation session) then [Request_verification_code transport ''signal2sip''] else [])"
    "pd_e164 p = e164" "pd_sessionId p = rs_id session" "pd_transport p = transport" "pd_password p = base64NoPadding (gc_random e 18)"
    "gd_files (rg_world s') (pendingFilePath (dc_global cfg) name) = Some (rl_dump l (pending_json p))"
    using assms by (rule register_run)
  show ?thesis
    using r pending_loads [OF r(9)] captcha_resumes [of l cfg name s' p] by (intro exI [of _ e164] exI [of _ session] exI [of _ p]) auto
qed

definition opened_pending :: PendingRegistration where
  "opened_pending = \<lparr>pd_e164 = ''+15550111'', pd_sessionId = ''sid'', pd_password = base64NoPadding (gc_random calm 18), pd_transport = ''sms''\<rparr>"

definition reading_reg :: reg_lib where
  "reading_reg = sample_reg\<lparr>rl_parse := (\<lambda>_. Inr (pending_json opened_pending))\<rparr>"

lemma lift_ok: "bindS (liftR (\<lambda>_. Inr x)) f s = f x s"
  by (simp add: bindS_def liftR_def)

lemma sample_begins:
  "dc_global no_accounts = sample_global"
  "in_world (open_storage calm sample_global) pending_state = (Inr (), pending_state)"
  "in_world (requireNoExistingAccount calm sample_global ''n'') pending_state = (Inr (), pending_state)"
proof -
  show "dc_global no_accounts = sample_global" by (simp add: no_accounts_def)
  show "in_world (open_storage calm sample_global) pending_state = (Inr (), pending_state)"
    using one_world_opens by (simp add: in_world_def open_storage_def pending_state_def one_world_def)
  show "in_world (requireNoExistingAccount calm sample_global ''n'') pending_state = (Inr (), pending_state)"
    using sample_absent
    by (simp add: in_world_def requireNoExistingAccount_def in_db_def liftR_def bindS_def returnS_def fun_upd_idem pending_state_def one_world_def sample_disk_def)
qed

lemma register_sample: "fst (cmdRegister calm reading_reg no_accounts ''n'' ''+15550111'' ''sms'' pending_state) = Inr ()"
proof -
  have e: "register_e164 no_accounts ''n'' ''+15550111'' = Inr ''+15550111''" "requireE164NotUsedByOtherAccount no_accounts ''n'' ''+15550111'' = Inr ()"
    by code_simp+
  have "fst (bindS (liftR (\<lambda>_. rl_new reading_reg)) (\<lambda>_. bindS (createSession reading_reg ''+15550111'') (\<lambda>session. bindS (sessionId reading_reg) (\<lambda>sid.
        bindS (in_world (savePending calm reading_reg sample_global ''n''
            \<lparr>pd_e164 = ''+15550111'', pd_sessionId = sid, pd_password = base64NoPadding (gc_random calm 18), pd_transport = ''sms''\<rparr>)) (\<lambda>_.
          asks_for_code reading_reg ''sms'' session)))) pending_state) = Inr ()"
    by code_simp
  moreover have ok: "\<not> (''sms'' \<noteq> ''sms'' \<and> ''sms'' \<noteq> ''voice'')" by blast
  ultimately show ?thesis
    using e unfolding cmdRegister_def if_not_P [OF ok] asks_for_code_def [symmetric] sample_begins(1)
    by (simp add: lift_ok sample_begins)
qed

theorem register_handed_over_witness:
  "\<exists>more. rg_calls (snd (cmdRegisterCaptcha reading_reg no_accounts ''n'' ''signalcaptcha://x''
      (snd (cmdRegister calm reading_reg no_accounts ''n'' ''+15550111'' ''sms'' pending_state)))) =
    [Create_session ''+15550111'', Request_verification_code ''sms'' ''signal2sip'', Resume_session ''sid'' ''+15550111''] @ more"
proof -
  obtain s' where s': "cmdRegister calm reading_reg no_accounts ''n'' ''+15550111'' ''sms'' pending_state = (Inr (), s')"
    using register_sample by (metis prod.collapse)
  have t: "cleanCaptchaToken ''signalcaptcha://x'' \<noteq> []" "register_e164 no_accounts ''n'' ''+15550111'' = Inr ''+15550111''" by code_simp+
  obtain p where p: "pd_e164 p = ''+15550111''" "pd_sessionId p = ''sid''" "pd_transport p = ''sms''" "pd_password p = base64NoPadding (gc_random calm 18)"
    "rg_calls s' = [Create_session ''+15550111'', Request_verification_code ''sms'' ''signal2sip'']"
    "rl_parse reading_reg (rl_dump reading_reg (pending_json p)) = Inr (pending_json p) \<longrightarrow> (\<forall>t. cleanCaptchaToken t \<noteq> [] \<longrightarrow>
        (\<exists>more. rg_calls (snd (cmdRegisterCaptcha reading_reg no_accounts ''n'' t s')) = rg_calls s' @ Resume_session ''sid'' ''+15550111'' # more))"
    using register_handed_over [OF s'] t(2) by (auto simp: reading_reg_def sample_reg_def pending_state_def)
  have "p = opened_pending" using p(1-4) by (cases p) (simp add: opened_pending_def)
  then have "\<exists>more. rg_calls (snd (cmdRegisterCaptcha reading_reg no_accounts ''n'' ''signalcaptcha://x'' s')) = rg_calls s' @ Resume_session ''sid'' ''+15550111'' # more"
    using p(6) t(1) by (simp add: reading_reg_def)
  then show ?thesis using p(5) s' by simp
qed

section \<open>Linking\<close>

definition link_options :: "reg_lib \<Rightarrow> reg_random \<Rightarrow> DaemonConfig \<Rightarrow> string \<Rightarrow> ProvisionMessageResult \<Rightarrow> string \<Rightarrow> GeneratedPrekeys \<Rightarrow> string \<Rightarrow> http_out" where
  "link_options l rnd cfg name p encryptedName prekeys password = http_options (serverHostFor (resolveAccount cfg name)) ''PUT'' ''/v1/devices/link''
     (str_bytes (rl_dump l (link_body (pr_provisioningCode p) rnd encryptedName prekeys))) ''application/json'' (pr_aci p) password"

lemma link_request_run: "link_request l opts s = (x, s') \<Longrightarrow> rg_world s' = rg_world s \<and> rg_http s' = rg_http s @ [opts] \<and> (\<forall>r. x = Inr r \<longrightarrow> rl_http l opts = Inr r)"
  by (auto simp: link_request_def split: sum.splits)

lemma in_db_run:
  assumes "in_db g m w = (x, w')" "gd_disk w (dbPath g) = Some f"
  shows "\<exists>d. m (f_db f) = (x, d) \<and> gd_disk w' (dbPath g) = Some (f\<lparr>f_db := d\<rparr>)"
  using assms by (auto simp: in_db_def split: prod.splits)

lemma link_run:
  assumes "cmdLink e l pl rnd provision cfg name s = (x, s')"
    and "gd_disk (rg_world s') \<noteq> snd (Storage (gc_q e) (dbPath (dc_global cfg)) (dbKey (dc_global cfg)) (gd_disk (rg_world s)))"
  obtains p prekeys nm r f d e164 aci pni dev where "provision = Inr p" "generatePrekeys rnd (fst (pr_aciIdentity p)) (fst (pr_pniIdentity p)) 1 = Inr prekeys"
    "rg_http s' = rg_http s @ [link_options l rnd cfg name p nm prekeys (base64NoPadding (gc_random e 18))]"
    "rl_http l (link_options l rnd cfg name p nm prekeys (base64NoPadding (gc_random e 18))) = Inr r" "status r = 200"
    "hasAccount (gc_q e) name (f_db f) = Inr False" "gd_disk (rg_world s') (dbPath (dc_global cfg)) = Some (f\<lparr>f_db := d\<rparr>)"
    "saveFinishedAccount (gc_q e) (rr_now rnd) name (finished_linked e164 aci pni dev (base64NoPadding (gc_random e 18)) rnd p prekeys) (f_db f) = (x, d)"
proof -
  from assms(1) show thesis
    using assms(2) that unfolding cmdLink_def link_options_def [symmetric] Let_def
    by (auto simp: liftR_def in_world_run elim!: bindS_cases dest!: open_storage_run requireNoExisting_run link_request_run split: if_splits)
      (auto dest!: in_db_run)
qed

text \<open>
  C19: \<open>link\<close> writes an account only when the server has answered its one request with 200, and what it writes is what was linked: the identity keys the primary device
  provisioned, the password the request authenticated with, the registration ids of the request, and the private halves of exactly the four prekeys whose public
  halves were in it.
\<close>

theorem linked_account_matches_server:
  assumes "cmdLink e l pl rnd provision cfg name s = (x, s')" "\<forall>label. Sql.readable (gc_q e) label"
    and "gd_disk (rg_world s') \<noteq> snd (Storage (gc_q e) (dbPath (dc_global cfg)) (dbKey (dc_global cfg)) (gd_disk (rg_world s)))"
  shows "\<exists>p nm prekeys password r f. provision = Inr p \<and> rg_http s' = rg_http s @ [link_options l rnd cfg name p nm prekeys password] \<and>
    rl_http l (link_options l rnd cfg name p nm prekeys password) = Inr r \<and> status r = 200 \<and> gd_disk (rg_world s') (dbPath (dc_global cfg)) = Some f \<and>
    (x = Inr () \<longrightarrow> (\<exists>a. loadAccount (gc_q e) name (f_db f) = Inr a \<and> a_password a = password \<and> a_flow a = Some ''linked'' \<and>
        a_registration_id a = rr_registrationId rnd \<and> a_pni_registration_id a = rr_pniRegistrationId rnd) \<and>
      loadIdentityKeypair (gc_q e) name ''aci'' (f_db f) = Inr (Some (keypair_record (pr_aciIdentity p))) \<and>
      loadIdentityKeypair (gc_q e) name ''pni'' (f_db f) = Inr (Some (keypair_record (pr_pniIdentity p))) \<and>
      loadSignedPrekey (gc_q e) name ''aci'' (f_db f) = Inr (Some (snd (aciSignedPreKey prekeys))) \<and>
      loadSignedPrekey (gc_q e) name ''pni'' (f_db f) = Inr (Some (snd (pniSignedPreKey prekeys))) \<and>
      loadKyberPrekey (gc_q e) name ''aci'' (f_db f) = Inr (Some (snd (aciKyberPreKey prekeys))) \<and>
      loadKyberPrekey (gc_q e) name ''pni'' (f_db f) = Inr (Some (snd (pniKyberPreKey prekeys))))"
  using assms(1,3)
proof (rule link_run)
  fix p prekeys nm r f d e164 aci pni dev
  let ?pw = "base64NoPadding (gc_random e 18)"
  let ?fa = "finished_linked e164 aci pni dev ?pw rnd p prekeys"
  assume r: "provision = Inr p" "rg_http s' = rg_http s @ [link_options l rnd cfg name p nm prekeys ?pw]"
    "rl_http l (link_options l rnd cfg name p nm prekeys ?pw) = Inr r" "status r = 200" "hasAccount (gc_q e) name (f_db f) = Inr False"
    "gd_disk (rg_world s') (dbPath (dc_global cfg)) = Some (f\<lparr>f_db := d\<rparr>)" "saveFinishedAccount (gc_q e) (rr_now rnd) name ?fa (f_db f) = (x, d)"
  have new: "isl (loadAccount (gc_q e) name (f_db f))" using no_account_load [OF r(5)] assms(2) by blast
  have "loadAccount (gc_q e) name d = Inr (finished_record (rr_now rnd) ?fa) \<and>
    loadIdentityKeypair (gc_q e) name ''aci'' d = Inr (Some (fa_aciIdentity ?fa)) \<and> loadIdentityKeypair (gc_q e) name ''pni'' d = Inr (Some (fa_pniIdentity ?fa)) \<and>
    loadSignedPrekey (gc_q e) name ''aci'' d = Inr (Some (fa_aciSigned ?fa)) \<and> loadSignedPrekey (gc_q e) name ''pni'' d = Inr (Some (fa_pniSigned ?fa)) \<and>
    loadKyberPrekey (gc_q e) name ''aci'' d = Inr (Some (fa_aciKyber ?fa)) \<and> loadKyberPrekey (gc_q e) name ''pni'' d = Inr (Some (fa_pniKyber ?fa))"
    if "x = Inr ()" using finished_loads [OF r(7) [unfolded that] new] assms(2) by blast
  with r show ?thesis
    by (intro exI [of _ p] exI [of _ nm] exI [of _ prekeys] exI [of _ ?pw] exI [of _ r] exI [of _ "f\<lparr>f_db := d\<rparr>"])
      (auto simp: finished_linked_def finished_record_def)
qed

definition sample_provision :: ProvisionMessageResult where
  "sample_provision = \<lparr>pr_e164 = ''+15550111'', pr_aci = ''aci-n'', pr_pni = ''pni-n'', pr_aciIdentity = ([1], [2]), pr_pniIdentity = ([3], [4]),
     pr_provisioningCode = ''code'', pr_profileKey = None, pr_accountEntropyPool = None, pr_mediaRootBackupKey = None\<rparr>"

definition linking_reg :: reg_lib where
  "linking_reg = sample_reg\<lparr>rl_http := (\<lambda>_. Inr \<lparr>status = 200, body = []\<rparr>),
     rl_parse := (\<lambda>_. Inr (JObj [(''deviceId'', JNum 2), (''pni'', JStr ''pni-n''), (''uuid'', JStr ''aci-n'')]))\<rparr>"

lemma any_saved: "fst (saveFinishedAccount no_faults 3 ''n'' fa one_account) = Inr ()"
  "hasAccount no_faults ''n'' (snd (saveFinishedAccount no_faults 3 ''n'' fa one_account)) = Inr True"
  by code_simp+

lemma link_sample:
  "\<exists>s' d. cmdLink calm linking_reg toy_lib sample_random (Inr sample_provision) no_accounts ''n'' pending_state = (Inr (), s') \<and>
     gd_disk (rg_world s') = sample_disk(''p'' \<mapsto> \<lparr>f_key = ''k'', f_db = d\<rparr>) \<and> hasAccount no_faults ''n'' d = Inr True"
proof -
  obtain nm where nm: "encryptDeviceName toy_lib (rr_ephemeral sample_random) kDeviceName [1] = Inr nm"
    by (simp add: encryptDeviceName_def toy_lib_def Let_def prov_hmacSha256_def aes256CtrEncrypt_def sample_random_def)
  obtain pk where pk: "generatePrekeys sample_random [1] [3] 1 = Inr pk"
    by (simp add: generatePrekeys_def generateSignedPreKey_def generateKyberPreKey_def sample_random_def bindR_def)
  have e: "config_e164 no_accounts ''n'' = []" "requireE164NotUsedByOtherAccount no_accounts ''n'' ''+15550111'' = Inr ()" by code_simp+
  have j: "json_string (JObj [(''deviceId'', JNum 2), (''pni'', JStr ''pni-n''), (''uuid'', JStr ''aci-n'')]) ''uuid'' = Inr ''aci-n''"
    "json_string (JObj [(''deviceId'', JNum 2), (''pni'', JStr ''pni-n''), (''uuid'', JStr ''aci-n'')]) ''pni'' = Inr ''pni-n''"
    "bindR (json_at (JObj [(''deviceId'', JNum 2), (''pni'', JStr ''pni-n''), (''uuid'', JStr ''aci-n'')]) ''deviceId'') get_int = Inr 2" by code_simp+
  let ?fa = "finished_linked ''+15550111'' ''aci-n'' ''pni-n'' 2 (base64NoPadding (gc_random calm 18)) sample_random sample_provision pk"
  obtain d where d: "saveFinishedAccount no_faults 3 ''n'' ?fa one_account = (Inr (), d)" "hasAccount no_faults ''n'' d = Inr True"
    using any_saved [of ?fa] by (metis prod.collapse)
  have p: "pr_e164 sample_provision = ''+15550111''" "pr_aciIdentity sample_provision = ([1], [2])" "pr_pniIdentity sample_provision = ([3], [4])"
    "rr_now sample_random = 3" "rl_parse linking_reg = (\<lambda>_. Inr (JObj [(''deviceId'', JNum 2), (''pni'', JStr ''pni-n''), (''uuid'', JStr ''aci-n'')]))"
    "\<And>opts. rl_http linking_reg opts = Inr \<lparr>status = 200, body = []\<rparr>"
    by (simp_all add: sample_provision_def sample_random_def linking_reg_def)
  show ?thesis
    unfolding cmdLink_def sample_begins(1) using d
    by (simp add: lift_ok sample_begins p e nm pk j Let_def link_request_def bindS_def [of "link_request linking_reg opts" for opts])
      (auto simp: in_world_def in_db_def pending_state_def one_world_def sample_disk_def)
qed

theorem linked_account_matches_server_witness:
  "loadIdentityKeypair no_faults ''n'' ''pni'' (f_db (the (gd_disk (rg_world (snd (cmdLink calm linking_reg toy_lib sample_random (Inr sample_provision) no_accounts ''n''
     pending_state))) ''p''))) = Inr (Some \<lparr>k_private_key = [3], k_public_key = [4]\<rparr>)"
proof -
  obtain s' d where s': "cmdLink calm linking_reg toy_lib sample_random (Inr sample_provision) no_accounts ''n'' pending_state = (Inr (), s')"
     "gd_disk (rg_world s') = sample_disk(''p'' \<mapsto> \<lparr>f_key = ''k'', f_db = d\<rparr>)" "hasAccount no_faults ''n'' d = Inr True"
    using link_sample by blast
  have "gd_disk (rg_world s') \<noteq> snd (Storage (gc_q calm) (dbPath (dc_global no_accounts)) (dbKey (dc_global no_accounts)) (gd_disk (rg_world pending_state)))"
    using s'(3) sample_absent one_world_opens unfolding s'(2) sample_begins(1)
    by (auto simp: pending_state_def one_world_def sample_disk_def dest: fun_cong [of _ _ "''p''"])
  from linked_account_matches_server [OF s'(1) _ this] s'(1) show ?thesis
    by (auto simp: sample_begins(1) Sql.readable_def sample_provision_def keypair_record_def)
qed

end
