(* ===== verification/Tui.thy ===== *)
theory Tui
  imports RegistrationSafety
begin

text \<open>
  Model of \<open>tui/main.cpp\<close>, the terminal program that manages accounts: the state behind its six screens, the handler of keyboard events, the
  configuration editor with its checks, the wizard for new accounts and the background thread that links a device. Every change goes
  through a run of the command line tool, which is \<open>gendb_main\<close> of \<open>Registration\<close>. How screens are drawn is in \<open>TuiScreens\<close>; messages are named by their key.
\<close>

section \<open>Accounts and configuration fields\<close>

record ViewAccount =
  va_name :: string
  va_e164 :: string
  va_flow :: string
  va_enabled :: bool
  va_sip_host :: string
  va_sip_transport :: string
  va_sip_srtp :: string

text \<open>\<open>tw_spawn\<close> says what becomes of the n-th process started, \<open>tw_env\<close> and \<open>tw_libs\<close> are the surroundings of that run,
  \<open>tw_killed\<close> is what a run leaves that is killed before its end.\<close>

datatype spawn = Spawned | Pipe_failed | Fork_failed | Exec_failed

record tui_env =
  tw_q :: sqlite
  tw_global :: GlobalConfig
  tw_configPath :: string
  tw_gendbPath :: string
  tw_spawn :: "nat \<Rightarrow> spawn"
  tw_env :: "nat \<Rightarrow> gendb_env"
  tw_libs :: "nat \<Rightarrow> gendb_libs"
  tw_killed :: "nat \<Rightarrow> reg \<Rightarrow> reg"

text \<open>\<open>Storage storage(...)\<close> and \<open>loadAccount\<close>, as the list and the detail screen read an account.\<close>

definition read_account :: "tui_env \<Rightarrow> string \<Rightarrow> (disk, AccountRecord) effect" where
  "read_account t name = bindS (Storage (tw_q t) (dbPath (tw_global t)) (dbKey (tw_global t))) (\<lambda>_ disk.
     (case disk (dbPath (tw_global t)) of None \<Rightarrow> Inl (Runtime_error ''database is not open'') | Some f \<Rightarrow> loadAccount (tw_q t) name (f_db f), disk))"

definition view_of :: "AccountSummary \<Rightarrow> AccountRecord result \<Rightarrow> ViewAccount" where
  "view_of summary r = (case r of
       Inl _ \<Rightarrow> \<lparr>va_name = s_account_name summary, va_e164 = s_e164 summary, va_flow = [], va_enabled = s_enabled summary, va_sip_host = [], va_sip_transport = [], va_sip_srtp = []\<rparr>
     | Inr a \<Rightarrow> \<lparr>va_name = s_account_name summary, va_e164 = s_e164 summary, va_flow = (case a_flow a of None \<Rightarrow> [] | Some x \<Rightarrow> x), va_enabled = s_enabled summary,
         va_sip_host = a_sip_host a, va_sip_transport = a_sip_transport a, va_sip_srtp = a_sip_srtp a\<rparr>)"

fun load_views :: "tui_env \<Rightarrow> AccountSummary list \<Rightarrow> disk \<Rightarrow> ViewAccount list \<times> disk" where
  "load_views t [] disk = ([], disk)"
| "load_views t (s # ss) disk =
     (let (r, disk1) = read_account t (s_account_name s) disk; (vs, disk2) = load_views t ss disk1 in (view_of s r # vs, disk2))"

text \<open>The accounts, and the error when the list itself could not be read.\<close>

definition loadAccounts :: "tui_env \<Rightarrow> disk \<Rightarrow> (ViewAccount list \<times> exn option) \<times> disk" where
  "loadAccounts t disk = (case listAllAccounts (tw_q t) (dbPath (tw_global t)) (dbKey (tw_global t)) disk of
       (Inl e, disk1) \<Rightarrow> (([], Some e), disk1)
     | (Inr ss, disk1) \<Rightarrow> (let (vs, disk2) = load_views t ss disk1 in ((vs, None), disk2)))"

datatype Kind = Text | Masked | Enum | Bool

record ConfigFieldDef =
  fd_key :: string
  fd_kind :: Kind
  fd_options :: "string list"

abbreviation cfd :: "string \<Rightarrow> Kind \<Rightarrow> string list \<Rightarrow> ConfigFieldDef" where
  "cfd key kind opts \<equiv> \<lparr>fd_key = key, fd_kind = kind, fd_options = opts\<rparr>"

definition kConfigFields :: "ConfigFieldDef list" where
  "kConfigFields =
     [cfd ''sip_host'' Text [], cfd ''sip_extension'' Text [], cfd ''sip_password'' Masked [], cfd ''sip_bridge_destination'' Text [],
      cfd ''sip_bridge_did'' Text [], cfd ''sip_srtp'' Enum [''disabled'', ''optional'', ''mandatory''], cfd ''sip_transport'' Enum [''udp'', ''tls''],
      cfd ''sip_tls_ca_file'' Text [], cfd ''sip_tls_insecure'' Bool [], cfd ''outgoing_call_target'' Text []]"

definition kSignalConfigFields :: "ConfigFieldDef list" where
  "kSignalConfigFields = [cfd ''server_url'' Text [], cfd ''signal_proxy'' Text [], cfd ''signal_censorship_circumvention'' Bool []]"

type_synonym form = "string \<rightharpoonup> string"

text \<open>\<open>operator[]\<close> of \<open>std::map\<close>: a missing key reads as the empty string. \<open>at\<close> raises instead.\<close>

definition value_at :: "form \<Rightarrow> string \<Rightarrow> string" where
  "value_at v k = (case v k of None \<Rightarrow> [] | Some x \<Rightarrow> x)"

definition map_at :: "form \<Rightarrow> string \<Rightarrow> string result" where
  "map_at v k = (case v k of None \<Rightarrow> Inl Out_of_range | Some x \<Rightarrow> Inr x)"

datatype form_error = ErrSipHostRequired | ErrSipExtensionRequired | ErrSipPasswordRequired | ErrTlsRequiresCa

definition sipFieldsInUse :: "form \<Rightarrow> bool result" where
  "sipFieldsInUse v = bindR (map_at v ''sip_host'') (\<lambda>a. if a \<noteq> [] then Inr True else
     bindR (map_at v ''sip_extension'') (\<lambda>b. if b \<noteq> [] then Inr True else bindR (map_at v ''sip_password'') (\<lambda>c. Inr (c \<noteq> []))))"

definition required :: "form \<Rightarrow> string \<Rightarrow> form_error \<Rightarrow> form_error list result" where
  "required v k err = bindR (map_at v k) (\<lambda>x. Inr (if x = [] then [err] else []))"

definition tls_unverified :: "form \<Rightarrow> bool result" where
  "tls_unverified v = bindR (map_at v ''sip_transport'') (\<lambda>x. if x \<noteq> ''tls'' then Inr False else
     bindR (map_at v ''sip_tls_ca_file'') (\<lambda>y. if y \<noteq> [] then Inr False else bindR (map_at v ''sip_tls_insecure'') (\<lambda>z. Inr (z \<noteq> ''yes''))))"

definition configErrors :: "form \<Rightarrow> form_error list result" where
  "configErrors v =
     bindR (sipFieldsInUse v) (\<lambda>used.
     bindR (if used then bindR (required v ''sip_host'' ErrSipHostRequired) (\<lambda>a. bindR (required v ''sip_extension'' ErrSipExtensionRequired) (\<lambda>b.
              bindR (required v ''sip_password'' ErrSipPasswordRequired) (\<lambda>c. Inr (a @ b @ c)))) else Inr []) (\<lambda>errs.
     bindR (tls_unverified v) (\<lambda>tls. Inr (errs @ (if tls then [ErrTlsRequiresCa] else [])))))"

text \<open>A warning only: both bridge targets are set and the number wins.\<close>

definition configWarnings :: "form \<Rightarrow> bool result" where
  "configWarnings v = bindR (map_at v ''sip_bridge_destination'') (\<lambda>a. if a = [] then Inr False else
     bindR (map_at v ''sip_bridge_did'') (\<lambda>b. Inr (b \<noteq> [])))"

section \<open>State\<close>

datatype WizardStep = ChooseType | RegisterForm | RegisterResult | CaptchaForm | CaptchaResult | VerifyForm | VerifyResult | LinkWaiting | LinkResult

datatype PendingAction = No_action | Enable | Disable | Deactivate | DeleteAccount

datatype wiz_error = ErrEnterAccountName | ErrAccountExists | ErrEnterE164

text \<open>The background thread: started but its process not yet known, waiting for its process, or ended with an exit code; none after a join.\<close>

datatype link_thread = No_thread | Starting string | Running string | Ended int

text \<open>
  The variables of \<open>main\<close>. \<open>tu_runs\<close> logs the arguments of every run of the tool in the order the runs begin, \<open>tu_world\<close> is what those runs work on.
  Results of runs are kept as exit codes.
\<close>

record tui =
  tu_accounts :: "ViewAccount list"
  tu_loadError :: "exn option"
  tu_selected :: int
  tu_quit :: bool
  tu_screenIndex :: nat
  tu_detail :: AccountRecord
  tu_detailName :: string
  tu_detailError :: "exn option"
  tu_editValues :: form
  tu_originalValues :: form
  tu_editField :: nat
  tu_configSaveDone :: bool
  tu_configSaveOk :: bool
  tu_signalEditValues :: form
  tu_signalOriginalValues :: form
  tu_signalEditField :: nat
  tu_signalSaveDone :: bool
  tu_signalSaveOk :: bool
  tu_wizardStep :: WizardStep
  tu_wizField :: nat
  tu_wizName :: string
  tu_wizLink :: bool
  tu_wizE164 :: string
  tu_wizTransport :: string
  tu_wizCaptchaToken :: string
  tu_wizVerifyCode :: string
  tu_wizResult :: "int option"
  tu_wizError :: "wiz_error option"
  tu_linkThread :: link_thread
  tu_pending :: PendingAction
  tu_typedConfirm :: string
  tu_lastResult :: "int option"
  tu_runs :: "string list list"
  tu_world :: reg

definition on_disk :: "(disk \<Rightarrow> 'a \<times> disk) \<Rightarrow> tui \<Rightarrow> 'a \<times> tui" where
  "on_disk f u = (case f (gd_disk (rg_world (tu_world u))) of (x, disk) \<Rightarrow>
     (x, u\<lparr>tu_world := (tu_world u)\<lparr>rg_world := (rg_world (tu_world u))\<lparr>gd_disk := disk\<rparr>\<rparr>\<rparr>))"


section \<open>Running the tool\<close>

text \<open>The exit code of the n-th run; a process that is terminated counts as -1.\<close>

definition gendb_process :: "tui_env \<Rightarrow> nat \<Rightarrow> string list \<Rightarrow> reg \<Rightarrow> int \<times> reg" where
  "gendb_process t n args w = (case tw_spawn t n of
       Pipe_failed \<Rightarrow> (- 1, w) | Fork_failed \<Rightarrow> (- 1, w) | Exec_failed \<Rightarrow> (127, w)
     | Spawned \<Rightarrow> (case gendb_main (tw_env t n) (tw_libs t n) (tw_gendbPath t # args) w of
           (None, w') \<Rightarrow> (- 1, w') | (Some code, w') \<Rightarrow> (int code, w')))"

definition runGendb :: "tui_env \<Rightarrow> string list \<Rightarrow> tui \<Rightarrow> int \<times> tui" where
  "runGendb t args u = (case gendb_process t (length (tu_runs u)) args (tu_world u) of
     (code, w) \<Rightarrow> (code, u\<lparr>tu_runs := tu_runs u @ [args], tu_world := w\<rparr>))"

section \<open>List and detail\<close>

definition tui_reload :: "tui_env \<Rightarrow> tui \<Rightarrow> tui" where
  "tui_reload t u = (case on_disk (loadAccounts t) u of ((vs, err), u') \<Rightarrow>
     u'\<lparr>tu_accounts := vs, tu_loadError := (case err of None \<Rightarrow> tu_loadError u | Some e \<Rightarrow> Some e),
        tu_selected := (if int (length vs) \<le> tu_selected u then if vs = [] then 0 else int (length vs) - 1 else tu_selected u)\<rparr>)"

definition read_detail :: "tui_env \<Rightarrow> tui \<Rightarrow> tui" where
  "read_detail t u = (case on_disk (read_account t (tu_detailName u)) u of
       (Inl e, u') \<Rightarrow> u'\<lparr>tu_detailError := Some e\<rparr>
     | (Inr a, u') \<Rightarrow> u'\<lparr>tu_detail := a\<rparr>)"

text \<open>An index that is out of range, undefined in the source, is an error here.\<close>

definition openDetail :: "tui_env \<Rightarrow> tui \<Rightarrow> tui result" where
  "openDetail t u =
     (if tu_accounts u = [] then Inr u
      else if tu_selected u < 0 \<or> int (length (tu_accounts u)) \<le> tu_selected u then Inl Out_of_range
      else Inr ((read_detail t (u\<lparr>tu_detailName := va_name (tu_accounts u ! nat (tu_selected u)), tu_detailError := None\<rparr>))\<lparr>tu_screenIndex := 1\<rparr>))"

section \<open>The editors\<close>

definition yes_no :: "bool \<Rightarrow> string" where
  "yes_no b = (if b then ''yes'' else ''no'')"

definition config_form :: "AccountRecord \<Rightarrow> form" where
  "config_form a = map_of [(''sip_host'', a_sip_host a), (''sip_extension'', a_sip_extension a), (''sip_password'', a_sip_password a),
     (''sip_bridge_destination'', a_sip_bridge_destination a), (''sip_bridge_did'', a_sip_bridge_did a),
     (''sip_srtp'', if a_sip_srtp a = [] then ''disabled'' else a_sip_srtp a), (''sip_transport'', if a_sip_transport a = [] then ''udp'' else a_sip_transport a),
     (''sip_tls_ca_file'', a_sip_tls_ca_file a), (''sip_tls_insecure'', yes_no (a_sip_tls_insecure a)), (''outgoing_call_target'', a_outgoing_call_target a)]"

definition openConfig :: "tui \<Rightarrow> tui" where
  "openConfig u = u\<lparr>tu_editValues := config_form (tu_detail u), tu_originalValues := config_form (tu_detail u), tu_editField := 0,
     tu_configSaveDone := False, tu_screenIndex := 3\<rparr>"

definition set_args :: "tui_env \<Rightarrow> string \<Rightarrow> string \<Rightarrow> string \<Rightarrow> string list" where
  "set_args t name key v = [''--config'', tw_configPath t, name, ''config'', ''set'', key, v]"

text \<open>The loop over the fields: a changed field is one run; the value is whether all of them exited with 0.\<close>

fun save_fields :: "tui_env \<Rightarrow> form \<Rightarrow> form \<Rightarrow> ConfigFieldDef list \<Rightarrow> tui \<Rightarrow> bool \<times> tui" where
  "save_fields t new old [] u = (True, u)"
| "save_fields t new old (f # fs) u =
     (if value_at new (fd_key f) = value_at old (fd_key f) then save_fields t new old fs u
      else let (code, u1) = runGendb t (set_args t (tu_detailName u) (fd_key f) (value_at new (fd_key f))) u;
               (ok, u2) = save_fields t new old fs u1
           in (code = 0 \<and> ok, u2))"

definition saveConfig :: "tui_env \<Rightarrow> tui \<Rightarrow> tui result" where
  "saveConfig t u = bindR (configErrors (tu_editValues u)) (\<lambda>errs.
     if errs \<noteq> [] then Inr u
     else let (ok, u') = save_fields t (tu_editValues u) (tu_originalValues u) kConfigFields u
          in Inr (u'\<lparr>tu_configSaveOk := ok, tu_configSaveDone := True\<rparr>))"

definition signal_form :: "AccountRecord \<Rightarrow> form" where
  "signal_form a = map_of [(''server_url'', a_server_url a), (''signal_proxy'', a_signal_proxy a),
     (''signal_censorship_circumvention'', yes_no (a_signal_censorship_circumvention a))]"

definition openSignalConfig :: "tui \<Rightarrow> tui" where
  "openSignalConfig u = u\<lparr>tu_signalEditValues := signal_form (tu_detail u), tu_signalOriginalValues := signal_form (tu_detail u), tu_signalEditField := 0,
     tu_signalSaveDone := False, tu_screenIndex := 5\<rparr>"

definition saveSignalConfig :: "tui_env \<Rightarrow> tui \<Rightarrow> tui" where
  "saveSignalConfig t u = (let (ok, u') = save_fields t (tu_signalEditValues u) (tu_signalOriginalValues u) kSignalConfigFields u
     in u'\<lparr>tu_signalSaveOk := ok, tu_signalSaveDone := True\<rparr>)"

section \<open>Confirmation and wizard\<close>

definition openConfirm :: "PendingAction \<Rightarrow> tui \<Rightarrow> tui" where
  "openConfirm action u = u\<lparr>tu_pending := action, tu_typedConfirm := [], tu_lastResult := None, tu_screenIndex := 2\<rparr>"

definition action_command :: "PendingAction \<Rightarrow> string option" where
  "action_command p = (case p of No_action \<Rightarrow> None | Enable \<Rightarrow> Some ''enable'' | Disable \<Rightarrow> Some ''disable'' | Deactivate \<Rightarrow> Some ''deactivate''
     | DeleteAccount \<Rightarrow> Some ''delete-account'')"

definition runPendingAction :: "tui_env \<Rightarrow> tui \<Rightarrow> tui" where
  "runPendingAction t u = (case action_command (tu_pending u) of None \<Rightarrow> u
     | Some c \<Rightarrow> (case runGendb t [''--config'', tw_configPath t, tu_detailName u, c] u of (code, u') \<Rightarrow> u'\<lparr>tu_lastResult := Some code\<rparr>))"

definition openWizard :: "tui \<Rightarrow> tui" where
  "openWizard u = u\<lparr>tu_wizardStep := ChooseType, tu_wizField := 0, tu_wizName := [], tu_wizLink := False, tu_wizE164 := [], tu_wizTransport := ''sms'',
     tu_wizCaptchaToken := [], tu_wizVerifyCode := [], tu_wizResult := None, tu_wizError := None, tu_screenIndex := 4\<rparr>"

text \<open>
  The linking thread: it starts the process and publishes its id, then waits for it to end. The process works on the world when it ends.
\<close>

definition startLinkThread :: "string \<Rightarrow> tui \<Rightarrow> tui" where
  "startLinkThread name u = u\<lparr>tu_linkThread := Starting name\<rparr>"

definition link_started :: "tui_env \<Rightarrow> tui \<Rightarrow> tui" where
  "link_started t u = (case tu_linkThread u of
       Starting name \<Rightarrow> let u1 = u\<lparr>tu_runs := tu_runs u @ [[''--config'', tw_configPath t, name, ''link'']]\<rparr> in
         if tw_spawn t (length (tu_runs u)) \<in> {Pipe_failed, Fork_failed} then u1\<lparr>tu_linkThread := Ended (- 1)\<rparr> else u1\<lparr>tu_linkThread := Running name\<rparr>
     | _ \<Rightarrow> u)"

definition link_ended :: "tui_env \<Rightarrow> tui \<Rightarrow> tui" where
  "link_ended t u = (case tu_linkThread u of
       Running name \<Rightarrow> (case gendb_process t (length (tu_runs u) - 1) [''--config'', tw_configPath t, name, ''link''] (tu_world u) of
         (code, w) \<Rightarrow> u\<lparr>tu_linkThread := Ended code, tu_world := w\<rparr>)
     | _ \<Rightarrow> u)"

text \<open>
  \<open>cancelLinkThread\<close> kills the process when its id is known and joins the thread. Before that there is nothing to kill, and the join
  waits for the process to end by itself.
\<close>

definition cancelLinkThread :: "tui_env \<Rightarrow> tui \<Rightarrow> tui" where
  "cancelLinkThread t u = (case tu_linkThread u of
       Starting _ \<Rightarrow> link_ended t (link_started t u)
     | Running _ \<Rightarrow> u\<lparr>tu_world := tw_killed t (length (tu_runs u) - 1) (tu_world u)\<rparr>
     | _ \<Rightarrow> u)\<lparr>tu_linkThread := No_thread\<rparr>"

section \<open>Events\<close>

text \<open>A character is the text of one key press, several bytes when it is not ASCII; \<open>CtrlO\<close> is the byte 15 that saves and submits.\<close>

datatype event = Custom | Escape | CtrlO | ArrowDown | ArrowUp | Tab | TabReverse | Return | Backspace | Character string | Other

definition to_list :: "tui_env \<Rightarrow> tui \<Rightarrow> tui" where
  "to_list t u = tui_reload t (u\<lparr>tu_screenIndex := 0\<rparr>)"

definition wait_event :: "tui_env \<Rightarrow> event \<Rightarrow> tui \<Rightarrow> tui" where
  "wait_event t ev u = (case ev of
       Custom \<Rightarrow> (case tu_linkThread u of
           Ended code \<Rightarrow> u\<lparr>tu_wizResult := Some code, tu_linkThread := No_thread, tu_wizardStep := LinkResult\<rparr> | _ \<Rightarrow> u)
     | Escape \<Rightarrow> to_list t (cancelLinkThread t u)
     | _ \<Rightarrow> u)"

definition choose_event :: "event \<Rightarrow> tui \<Rightarrow> tui" where
  "choose_event ev u = (case ev of
       CtrlO \<Rightarrow>
         if tu_wizName u = [] then u\<lparr>tu_wizError := Some ErrEnterAccountName\<rparr>
         else if list_ex (\<lambda>a. va_name a = tu_wizName u) (tu_accounts u) then u\<lparr>tu_wizError := Some ErrAccountExists\<rparr>
         else let u = u\<lparr>tu_wizError := None\<rparr> in
           if tu_wizLink u then (startLinkThread (tu_wizName u) u)\<lparr>tu_wizardStep := LinkWaiting\<rparr>
           else u\<lparr>tu_wizField := 0, tu_wizardStep := RegisterForm\<rparr>
     | _ \<Rightarrow>
       if ev \<in> {ArrowDown, Tab, ArrowUp, TabReverse} then u\<lparr>tu_wizField := 1 - tu_wizField u\<rparr>
       else if tu_wizField u = 1 then (if ev = Return then u\<lparr>tu_wizLink := \<not> tu_wizLink u\<rparr> else u)
       else (case ev of
           Backspace \<Rightarrow> u\<lparr>tu_wizName := butlast (tu_wizName u), tu_wizError := None\<rparr>
         | Character c \<Rightarrow> u\<lparr>tu_wizName := tu_wizName u @ c, tu_wizError := None\<rparr>
         | _ \<Rightarrow> u))"

definition wizard_run :: "tui_env \<Rightarrow> string list \<Rightarrow> WizardStep \<Rightarrow> tui \<Rightarrow> tui" where
  "wizard_run t args next u = (case runGendb t ([''--config'', tw_configPath t, tu_wizName u] @ args) u of
     (code, u') \<Rightarrow> u'\<lparr>tu_wizResult := Some code, tu_wizardStep := next\<rparr>)"

definition register_event :: "tui_env \<Rightarrow> event \<Rightarrow> tui \<Rightarrow> tui" where
  "register_event t ev u = (case ev of
       CtrlO \<Rightarrow>
         if tu_wizE164 u = [] then u\<lparr>tu_wizError := Some ErrEnterE164\<rparr>
         else wizard_run t [''register'', ''--e164'', tu_wizE164 u, tu_wizTransport u] RegisterResult (u\<lparr>tu_wizError := None\<rparr>)
     | _ \<Rightarrow>
       if ev \<in> {ArrowDown, Tab, ArrowUp, TabReverse} then u\<lparr>tu_wizField := 1 - tu_wizField u\<rparr>
       else if tu_wizField u = 1
       then (if ev = Return then u\<lparr>tu_wizTransport := (if tu_wizTransport u = ''sms'' then ''voice'' else ''sms'')\<rparr> else u)
       else (case ev of
           Backspace \<Rightarrow> u\<lparr>tu_wizE164 := butlast (tu_wizE164 u), tu_wizError := None\<rparr>
         | Character c \<Rightarrow> u\<lparr>tu_wizE164 := tu_wizE164 u @ c, tu_wizError := None\<rparr>
         | _ \<Rightarrow> u))"

definition captcha_event :: "tui_env \<Rightarrow> event \<Rightarrow> tui \<Rightarrow> tui" where
  "captcha_event t ev u = (case ev of
       CtrlO \<Rightarrow> wizard_run t [''register-captcha'', tu_wizCaptchaToken u] CaptchaResult u
     | Backspace \<Rightarrow> u\<lparr>tu_wizCaptchaToken := butlast (tu_wizCaptchaToken u)\<rparr>
     | Character c \<Rightarrow> u\<lparr>tu_wizCaptchaToken := tu_wizCaptchaToken u @ c\<rparr>
     | _ \<Rightarrow> u)"

definition verify_event :: "tui_env \<Rightarrow> event \<Rightarrow> tui \<Rightarrow> tui" where
  "verify_event t ev u = (case ev of
       CtrlO \<Rightarrow> wizard_run t [''verify'', tu_wizVerifyCode u] VerifyResult u
     | Backspace \<Rightarrow> u\<lparr>tu_wizVerifyCode := butlast (tu_wizVerifyCode u)\<rparr>
     | Character c \<Rightarrow> u\<lparr>tu_wizVerifyCode := tu_wizVerifyCode u @ c\<rparr>
     | _ \<Rightarrow> u)"

definition wizard_event :: "tui_env \<Rightarrow> event \<Rightarrow> tui \<Rightarrow> tui" where
  "wizard_event t ev u =
     (if tu_wizardStep u = LinkWaiting then wait_event t ev u
      else if tu_wizardStep u \<in> {VerifyResult, LinkResult} then to_list t u
      else if ev = Escape then to_list t u
      else case tu_wizardStep u of
          ChooseType \<Rightarrow> choose_event ev u
        | RegisterForm \<Rightarrow> register_event t ev u
        | RegisterResult \<Rightarrow> if ev = Character ''g'' then u\<lparr>tu_wizardStep := CaptchaForm\<rparr>
            else if ev = Character ''v'' then u\<lparr>tu_wizardStep := VerifyForm\<rparr> else u
        | CaptchaForm \<Rightarrow> captcha_event t ev u
        | CaptchaResult \<Rightarrow> if ev = Character ''v'' then u\<lparr>tu_wizardStep := VerifyForm\<rparr> else u
        | VerifyForm \<Rightarrow> verify_event t ev u
        | _ \<Rightarrow> u)"

text \<open>Editing one value: enumerations and flags step with the return key, texts take characters.\<close>

definition next_option :: "string list \<Rightarrow> string \<Rightarrow> string" where
  "next_option opts v = (let i = length (takeWhile (\<lambda>x. x \<noteq> v) opts) in opts ! (if i = length opts then 0 else (i + 1) mod length opts))"

definition edit_value :: "ConfigFieldDef \<Rightarrow> event \<Rightarrow> string \<Rightarrow> string" where
  "edit_value f ev v = (case fd_kind f of
       Enum \<Rightarrow> if ev = Return then next_option (fd_options f) v else v
     | Bool \<Rightarrow> if ev = Return then (if v = ''yes'' then ''no'' else ''yes'') else v
     | _ \<Rightarrow> (case ev of Backspace \<Rightarrow> butlast v | Character c \<Rightarrow> v @ c | _ \<Rightarrow> v))"

definition config_event :: "tui_env \<Rightarrow> event \<Rightarrow> tui \<Rightarrow> tui result" where
  "config_event t ev u =
     (let n = length kConfigFields in
      if tu_configSaveDone u then Inr (tui_reload t (read_detail t (u\<lparr>tu_configSaveDone := False, tu_screenIndex := 1\<rparr>)))
      else if ev = Escape then Inr (u\<lparr>tu_screenIndex := 1\<rparr>)
      else if ev = CtrlO then saveConfig t u
      else if ev \<in> {ArrowDown, Tab} then Inr (u\<lparr>tu_editField := (tu_editField u + 1) mod n\<rparr>)
      else if ev \<in> {ArrowUp, TabReverse} then Inr (u\<lparr>tu_editField := (tu_editField u + n - 1) mod n\<rparr>)
      else if n \<le> tu_editField u then Inl Out_of_range
      else let f = kConfigFields ! tu_editField u in
        Inr (u\<lparr>tu_editValues := (tu_editValues u)(fd_key f \<mapsto> edit_value f ev (value_at (tu_editValues u) (fd_key f)))\<rparr>))"

definition signal_event :: "tui_env \<Rightarrow> event \<Rightarrow> tui \<Rightarrow> tui result" where
  "signal_event t ev u =
     (let n = length kSignalConfigFields in
      if tu_signalSaveDone u then Inr (tui_reload t (read_detail t (u\<lparr>tu_signalSaveDone := False, tu_screenIndex := 1\<rparr>)))
      else if ev = Escape then Inr (u\<lparr>tu_screenIndex := 1\<rparr>)
      else if ev = CtrlO then Inr (saveSignalConfig t u)
      else if ev \<in> {ArrowDown, Tab} then Inr (u\<lparr>tu_signalEditField := (tu_signalEditField u + 1) mod n\<rparr>)
      else if ev \<in> {ArrowUp, TabReverse} then Inr (u\<lparr>tu_signalEditField := (tu_signalEditField u + n - 1) mod n\<rparr>)
      else if n \<le> tu_signalEditField u then Inl Out_of_range
      else let f = kSignalConfigFields ! tu_signalEditField u in
        Inr (u\<lparr>tu_signalEditValues := (tu_signalEditValues u)(fd_key f \<mapsto> edit_value f ev (value_at (tu_signalEditValues u) (fd_key f)))\<rparr>))"

definition confirm_event :: "tui_env \<Rightarrow> event \<Rightarrow> tui \<Rightarrow> tui" where
  "confirm_event t ev u =
     (if tu_lastResult u \<noteq> None then to_list t (u\<lparr>tu_pending := No_action, tu_lastResult := None\<rparr>)
      else if ev = Escape then u\<lparr>tu_pending := No_action, tu_screenIndex := 1\<rparr>
      else if tu_pending u = DeleteAccount
      then (case ev of
          Backspace \<Rightarrow> u\<lparr>tu_typedConfirm := butlast (tu_typedConfirm u)\<rparr>
        | Return \<Rightarrow> if tu_typedConfirm u = tu_detailName u then runPendingAction t u else u
        | Character c \<Rightarrow> u\<lparr>tu_typedConfirm := tu_typedConfirm u @ c\<rparr>
        | _ \<Rightarrow> u)
      else if ev = Character ''y'' then runPendingAction t u else u)"

definition list_event :: "tui_env \<Rightarrow> event \<Rightarrow> tui \<Rightarrow> tui result" where
  "list_event t ev u =
     (if ev \<in> {ArrowDown, Character ''j''}
      then Inr (if tu_accounts u = [] then u else u\<lparr>tu_selected := min (tu_selected u + 1) (int (length (tu_accounts u)) - 1)\<rparr>)
      else if ev \<in> {ArrowUp, Character ''k''} then Inr (if tu_accounts u = [] then u else u\<lparr>tu_selected := max (tu_selected u - 1) 0\<rparr>)
      else if ev = Return then openDetail t u
      else if ev = Character ''n'' then Inr (openWizard u)
      else if ev = Character ''r'' then Inr (tui_reload t u)
      else if ev \<in> {Character ''q'', Escape} then Inr (u\<lparr>tu_quit := True\<rparr>)
      else Inr u)"

definition detail_event :: "event \<Rightarrow> tui \<Rightarrow> tui" where
  "detail_event ev u =
     (if ev = Escape then u\<lparr>tu_screenIndex := 0\<rparr>
      else if ev = Character ''d'' then openConfirm (if a_enabled (tu_detail u) then Disable else Enable) u
      else if ev = Character ''u'' then openConfirm Deactivate u
      else if ev = Character ''x'' then openConfirm DeleteAccount u
      else if ev = Character ''c'' then openConfig u
      else if ev = Character ''s'' then openSignalConfig u
      else u)"

definition tui_event :: "tui_env \<Rightarrow> event \<Rightarrow> tui \<Rightarrow> tui result" where
  "tui_event t ev u =
     (if tu_screenIndex u = 4 then Inr (wizard_event t ev u)
      else if tu_screenIndex u = 3 then config_event t ev u
      else if tu_screenIndex u = 5 then signal_event t ev u
      else if tu_screenIndex u = 2 then Inr (confirm_event t ev u)
      else if tu_screenIndex u = 0 then list_event t ev u
      else Inr (detail_event ev u))"

section \<open>The program\<close>

definition blank_record :: AccountRecord where
  "blank_record = \<lparr>a_e164 = [], a_aci = [], a_pni = [], a_password = [], a_device_id = 0, a_registration_id = 0, a_pni_registration_id = 0, a_flow = None,
      a_account_entropy_pool = None, a_media_root_backup_key = None, a_profile_key = None, a_registered_at = None, a_linked_at = None, a_prekeys_refreshed_at = None,
      a_server_url = [], a_sip_host = [], a_sip_extension = [], a_sip_password = [], a_sip_bridge_destination = [], a_sip_bridge_did = [],
      a_sip_srtp = ''disabled'', a_sip_transport = ''udp'', a_sip_tls_ca_file = [], a_sip_tls_insecure = False, a_outgoing_call_target = [], a_signal_proxy = [],
      a_signal_censorship_circumvention = False, a_enabled = True, a_config_version = 0\<rparr>"

definition tui_blank :: "reg \<Rightarrow> tui" where
  "tui_blank w = \<lparr>tu_accounts = [], tu_loadError = None, tu_selected = 0, tu_quit = False, tu_screenIndex = 0, tu_detail = blank_record, tu_detailName = [],
     tu_detailError = None, tu_editValues = Map.empty, tu_originalValues = Map.empty, tu_editField = 0, tu_configSaveDone = False, tu_configSaveOk = True,
     tu_signalEditValues = Map.empty, tu_signalOriginalValues = Map.empty, tu_signalEditField = 0, tu_signalSaveDone = False, tu_signalSaveOk = True,
     tu_wizardStep = ChooseType, tu_wizField = 0, tu_wizName = [], tu_wizLink = False, tu_wizE164 = [], tu_wizTransport = ''sms'', tu_wizCaptchaToken = [],
     tu_wizVerifyCode = [], tu_wizResult = None, tu_wizError = None, tu_linkThread = No_thread, tu_pending = No_action, tu_typedConfirm = [], tu_lastResult = None,
     tu_runs = [], tu_world = w\<rparr>"

text \<open>The tool beside the own executable when there is one, else the one on the path. \<open>readlink\<close> cuts the name at the size of the buffer.\<close>

definition findGendbPath :: "string option \<Rightarrow> (string \<Rightarrow> bool) \<Rightarrow> string" where
  "findGendbPath exe executable = (let path = take 4095 (case exe of None \<Rightarrow> [] | Some x \<Rightarrow> x) in
     case rsplit (CHR ''/'') path of None \<Rightarrow> ''signal2sip-gendb''
     | Some (dir, _) \<Rightarrow> (let candidate = dir @ ''/signal2sip-gendb'' in if executable candidate then candidate else ''signal2sip-gendb''))"

text \<open>Before the first screen: \<open>None\<close> is the exit with status 1.\<close>

definition tui_config :: "files \<Rightarrow> string list \<Rightarrow> (string \<times> GlobalConfig) option result" where
  "tui_config fs argv = (let path = resolveConfigPath fs argv in bindR (loadGlobalConfigLenient fs path) (\<lambda>g.
     Inr (if dbPath g = [] \<or> dbKey g = [] then None else Some (path, g))))"

definition tui_start :: "tui_env \<Rightarrow> reg \<Rightarrow> tui" where
  "tui_start t w = tui_reload t (tui_blank w)"

text \<open>The loop handles events until it is left; the linking thread moves by itself.\<close>

inductive tui_step :: "tui_env \<Rightarrow> tui \<Rightarrow> tui \<Rightarrow> bool" for t where
  key: "\<not> tu_quit u \<Longrightarrow> tui_event t ev u = Inr u' \<Longrightarrow> tui_step t u u'"
| started: "tui_step t u (link_started t u)"
| ended: "tui_step t u (link_ended t u)"

end
