(* ===== verification/TuiSafety.thy ===== *)
theory TuiSafety
  imports Tui
begin

text \<open>
  What holds in every run of the terminal program: no index is out of range and no lookup fails, the linking thread is joined before the wizard is left, and an account is
  deleted only after its name has been typed.
\<close>

section \<open>What the operations change\<close>

lemma runGendb_frame: "runGendb t args u = (code, u') \<Longrightarrow> \<exists>w. u' = u\<lparr>tu_runs := tu_runs u @ [args], tu_world := w\<rparr>"
  by (auto simp: runGendb_def split: prod.splits)

lemma save_fields_frame: "save_fields t new old fs u = (ok, u') \<Longrightarrow>
    \<exists>w keys. u' = u\<lparr>tu_runs := tu_runs u @ map (\<lambda>k. set_args t (tu_detailName u) k (value_at new k)) keys, tu_world := w\<rparr>"
proof (induction fs arbitrary: u ok)
  case Nil
  then have "u' = u\<lparr>tu_runs := tu_runs u @ map (\<lambda>k. set_args t (tu_detailName u) k (value_at new k)) [], tu_world := tu_world u\<rparr>" by simp
  then show ?case by blast
next
  case (Cons f fs)
  show ?case
  proof (cases "value_at new (fd_key f) = value_at old (fd_key f)")
    case True
    with Cons show ?thesis by simp
  next
    case False
    obtain code u1 ok1 where r: "runGendb t (set_args t (tu_detailName u) (fd_key f) (value_at new (fd_key f))) u = (code, u1)" "save_fields t new old fs u1 = (ok1, u')"
      using Cons.prems False by (auto simp: Let_def split: prod.splits)
    obtain w where u1: "u1 = u\<lparr>tu_runs := tu_runs u @ [set_args t (tu_detailName u) (fd_key f) (value_at new (fd_key f))], tu_world := w\<rparr>"
      using runGendb_frame [OF r(1)] by blast
    from Cons.IH [OF r(2)] obtain w' keys where
      "u' = u1\<lparr>tu_runs := tu_runs u1 @ map (\<lambda>k. set_args t (tu_detailName u1) k (value_at new k)) keys, tu_world := w'\<rparr>" by blast
    then have "u' = u\<lparr>tu_runs := tu_runs u @ map (\<lambda>k. set_args t (tu_detailName u) k (value_at new k)) (fd_key f # keys), tu_world := w'\<rparr>"
      by (simp add: u1)
    then show ?thesis by blast
  qed
qed

lemma reload_sel [simp]:
  "tu_screenIndex (tui_reload t u) = tu_screenIndex u"
  "tu_quit (tui_reload t u) = tu_quit u"
  "tu_editValues (tui_reload t u) = tu_editValues u"
  "tu_originalValues (tui_reload t u) = tu_originalValues u"
  "tu_editField (tui_reload t u) = tu_editField u"
  "tu_configSaveDone (tui_reload t u) = tu_configSaveDone u"
  "tu_signalEditField (tui_reload t u) = tu_signalEditField u"
  "tu_signalEditValues (tui_reload t u) = tu_signalEditValues u"
  "tu_signalSaveDone (tui_reload t u) = tu_signalSaveDone u"
  "tu_wizardStep (tui_reload t u) = tu_wizardStep u"
  "tu_wizField (tui_reload t u) = tu_wizField u"
  "tu_linkThread (tui_reload t u) = tu_linkThread u"
  "tu_pending (tui_reload t u) = tu_pending u"
  "tu_lastResult (tui_reload t u) = tu_lastResult u"
  "tu_typedConfirm (tui_reload t u) = tu_typedConfirm u"
  "tu_detailName (tui_reload t u) = tu_detailName u"
  "tu_runs (tui_reload t u) = tu_runs u"
  "tu_wizTransport (tui_reload t u) = tu_wizTransport u"
  "tu_detail (tui_reload t u) = tu_detail u"
  "tu_detailError (tui_reload t u) = tu_detailError u"
  by (simp_all add: tui_reload_def on_disk_def split: prod.splits sum.splits)

lemma read_detail_sel [simp]:
  "tu_screenIndex (read_detail t u) = tu_screenIndex u"
  "tu_quit (read_detail t u) = tu_quit u"
  "tu_editValues (read_detail t u) = tu_editValues u"
  "tu_originalValues (read_detail t u) = tu_originalValues u"
  "tu_editField (read_detail t u) = tu_editField u"
  "tu_configSaveDone (read_detail t u) = tu_configSaveDone u"
  "tu_signalEditField (read_detail t u) = tu_signalEditField u"
  "tu_signalEditValues (read_detail t u) = tu_signalEditValues u"
  "tu_signalSaveDone (read_detail t u) = tu_signalSaveDone u"
  "tu_wizardStep (read_detail t u) = tu_wizardStep u"
  "tu_wizField (read_detail t u) = tu_wizField u"
  "tu_linkThread (read_detail t u) = tu_linkThread u"
  "tu_pending (read_detail t u) = tu_pending u"
  "tu_lastResult (read_detail t u) = tu_lastResult u"
  "tu_typedConfirm (read_detail t u) = tu_typedConfirm u"
  "tu_detailName (read_detail t u) = tu_detailName u"
  "tu_runs (read_detail t u) = tu_runs u"
  "tu_wizTransport (read_detail t u) = tu_wizTransport u"
  "tu_accounts (read_detail t u) = tu_accounts u"
  "tu_selected (read_detail t u) = tu_selected u"
  "tu_loadError (read_detail t u) = tu_loadError u"
  by (simp_all add: read_detail_def on_disk_def split: prod.splits sum.splits)

lemma reload_selected: "0 \<le> tu_selected u \<Longrightarrow> 0 \<le> tu_selected (tui_reload t u) \<and>
    (tu_accounts (tui_reload t u) \<noteq> [] \<longrightarrow> tu_selected (tui_reload t u) < int (length (tu_accounts (tui_reload t u))))"
  by (auto simp: tui_reload_def on_disk_def split: prod.splits)

section \<open>The invariant\<close>

definition edited_ok :: "form \<Rightarrow> form \<Rightarrow> bool" where
  "edited_ok new old \<longleftrightarrow> (\<forall>f \<in> set kConfigFields. fd_key f \<in> dom new \<and>
     (fd_kind f = Enum \<longrightarrow> value_at new (fd_key f) = value_at old (fd_key f) \<or> value_at new (fd_key f) \<in> set (fd_options f)) \<and>
     (fd_kind f = Bool \<longrightarrow> value_at new (fd_key f) \<in> {''yes'', ''no''}))"

definition editor_ok :: "AccountRecord \<Rightarrow> form \<Rightarrow> form \<Rightarrow> bool" where
  "editor_ok a new old \<longleftrightarrow> old = config_form a \<and> edited_ok new old"

definition signal_ok :: "form \<Rightarrow> bool" where
  "signal_ok v \<longleftrightarrow> (\<forall>f \<in> set kSignalConfigFields. fd_key f \<in> dom v)"

definition code_transport :: "string \<Rightarrow> bool" where
  "code_transport x \<longleftrightarrow> x = ''sms'' \<or> x = ''voice''"

definition tui_inv :: "tui \<Rightarrow> bool" where
  "tui_inv u \<longleftrightarrow> 0 \<le> tu_selected u \<and> (tu_accounts u \<noteq> [] \<longrightarrow> tu_selected u < int (length (tu_accounts u))) \<and>
     tu_editField u < length kConfigFields \<and> tu_signalEditField u < length kSignalConfigFields \<and> tu_wizField u \<le> 1 \<and> tu_screenIndex u \<le> 5 \<and>
     code_transport (tu_wizTransport u) \<and> (tu_screenIndex u = 2 \<longrightarrow> tu_pending u \<noteq> No_action) \<and>
     (tu_screenIndex u = 3 \<longrightarrow> editor_ok (tu_detail u) (tu_editValues u) (tu_originalValues u)) \<and> (tu_screenIndex u = 5 \<longrightarrow> signal_ok (tu_signalEditValues u)) \<and>
     (tu_linkThread u \<noteq> No_thread \<longrightarrow> tu_screenIndex u = 4 \<and> tu_wizardStep u = LinkWaiting) \<and> (tu_quit u \<longrightarrow> tu_screenIndex u = 0)"

lemma reload_inv: "tui_inv u \<Longrightarrow> tui_inv (tui_reload t u)"
  using reload_selected [of u t] by (auto simp: tui_inv_def)

lemma to_list_inv: "tui_inv u \<Longrightarrow> tu_linkThread u = No_thread \<Longrightarrow> tui_inv (to_list t u)"
  unfolding to_list_def by (rule reload_inv) (simp add: tui_inv_def)

lemma runs_inv: "tui_inv (u\<lparr>tu_runs := rs, tu_world := w\<rparr>) = tui_inv u"
  by (simp add: tui_inv_def)

lemma thread_updates:
  assumes "tui_inv u" "tu_linkThread u \<noteq> No_thread"
  shows "tui_inv (u\<lparr>tu_runs := rs, tu_linkThread := th\<rparr>)" "tui_inv (u\<lparr>tu_linkThread := th, tu_world := w\<rparr>)"
  using assms by (auto simp: tui_inv_def)

lemma thread_inv: "tui_inv u \<Longrightarrow> tui_inv (link_started t u)" "tui_inv u \<Longrightarrow> tui_inv (link_ended t u)"
  by (cases "tu_linkThread u"; simp add: link_started_def Let_def thread_updates; fail)
    (cases "tu_linkThread u"; simp add: link_ended_def thread_updates split: prod.split)

lemma joined_inv: "tui_inv u \<Longrightarrow> tui_inv (u\<lparr>tu_linkThread := No_thread\<rparr>)"
  by (auto simp: tui_inv_def)

lemma cancel_inv: "tui_inv u \<Longrightarrow> tui_inv (cancelLinkThread t u)" "tu_linkThread (cancelLinkThread t u) = No_thread"
proof -
  assume "tui_inv u"
  then have "tui_inv (case tu_linkThread u of Starting _ \<Rightarrow> link_ended t (link_started t u)
      | Running _ \<Rightarrow> u\<lparr>tu_world := tw_killed t (length (tu_runs u) - 1) (tu_world u)\<rparr> | _ \<Rightarrow> u)"
    using runs_inv [where u = u and rs = "tu_runs u"] by (auto simp: thread_inv split: link_thread.split)
  then show "tui_inv (cancelLinkThread t u)" unfolding cancelLinkThread_def by (rule joined_inv)
qed (simp add: cancelLinkThread_def)

lemma wizard_run_inv: "tui_inv u \<Longrightarrow> tu_linkThread u = No_thread \<Longrightarrow> tui_inv (wizard_run t args next u)"
  unfolding wizard_run_def by (auto simp: tui_inv_def split: prod.splits dest!: runGendb_frame)

text \<open>Updates of fields the invariant does not look at, or looks at alone.\<close>

lemma inv_updates [simp]:
  "tui_inv (u\<lparr>tu_wizError := e\<rparr>) = tui_inv u"
  "tui_inv (u\<lparr>tu_wizName := x\<rparr>) = tui_inv u"
  "tui_inv (u\<lparr>tu_wizLink := b\<rparr>) = tui_inv u"
  "tui_inv (u\<lparr>tu_wizE164 := x\<rparr>) = tui_inv u"
  "tui_inv (u\<lparr>tu_wizCaptchaToken := x\<rparr>) = tui_inv u"
  "tui_inv (u\<lparr>tu_wizVerifyCode := x\<rparr>) = tui_inv u"
  "tui_inv (u\<lparr>tu_typedConfirm := x\<rparr>) = tui_inv u"
  "tui_inv (u\<lparr>tu_lastResult := r\<rparr>) = tui_inv u"
  "tui_inv (u\<lparr>tu_configSaveDone := b\<rparr>) = tui_inv u"
  "tui_inv (u\<lparr>tu_configSaveOk := b\<rparr>) = tui_inv u"
  "tui_inv (u\<lparr>tu_signalSaveDone := b\<rparr>) = tui_inv u"
  "tui_inv (u\<lparr>tu_signalSaveOk := b\<rparr>) = tui_inv u"
  by (simp_all add: tui_inv_def)

lemma field_updates:
  assumes "tui_inv u"
  shows "tui_inv (u\<lparr>tu_wizField := 1 - tu_wizField u\<rparr>)" "tui_inv (u\<lparr>tu_wizTransport := if b then ''voice'' else ''sms''\<rparr>)"
    "tu_linkThread u = No_thread \<Longrightarrow> tui_inv (u\<lparr>tu_wizardStep := st\<rparr>)"
  using assms by (auto simp: tui_inv_def code_transport_def)

lemma choose_inv:
  assumes "tui_inv u" "tu_screenIndex u = 4" "tu_linkThread u = No_thread"
  shows "tui_inv (choose_event ev u)"
proof -
  have "tui_inv (u\<lparr>tu_wizError := e, tu_linkThread := Starting n, tu_wizardStep := LinkWaiting\<rparr>)"
    "tui_inv (u\<lparr>tu_wizError := e, tu_wizField := 0, tu_wizardStep := RegisterForm\<rparr>)" for e n
    using assms by (auto simp: tui_inv_def)
  then show ?thesis using assms field_updates(1) by (cases ev) (auto simp: choose_event_def startLinkThread_def Let_def)
qed

lemma form_inv:
  assumes "tui_inv u" "tu_linkThread u = No_thread"
  shows "tui_inv (register_event t ev u)" "tui_inv (captcha_event t ev u)" "tui_inv (verify_event t ev u)"
proof -
  have run: "tui_inv (wizard_run t args st (u\<lparr>tu_wizError := e\<rparr>))" "tui_inv (wizard_run t args st u)" for args st e
    using assms by (auto intro!: wizard_run_inv)
  show "tui_inv (register_event t ev u)"
    using assms(1) run(1) field_updates(1,2) [OF assms(1)] unfolding register_event_def by (cases ev) simp_all
  show "tui_inv (captcha_event t ev u)" "tui_inv (verify_event t ev u)"
    using assms(1) run(2) unfolding captcha_event_def verify_event_def by (cases ev; simp)+
qed

lemma next_option_in: "opts \<noteq> [] \<Longrightarrow> next_option opts v \<in> set opts"
  by (auto simp: next_option_def Let_def)

lemma edited_form: "edited_ok (config_form a) (config_form a)"
  by (simp add: edited_ok_def kConfigFields_def config_form_def value_at_def yes_no_def dom_def)

lemma config_keys: "f \<in> set kConfigFields \<Longrightarrow> g \<in> set kConfigFields \<Longrightarrow> fd_key f = fd_key g \<Longrightarrow> f = g"
  "f \<in> set kConfigFields \<Longrightarrow> fd_kind f = Enum \<Longrightarrow> fd_options f \<noteq> []"
proof -
  have "distinct (map fd_key kConfigFields)" by (simp add: kConfigFields_def)
  then show "f \<in> set kConfigFields \<Longrightarrow> g \<in> set kConfigFields \<Longrightarrow> fd_key f = fd_key g \<Longrightarrow> f = g" by (auto simp: distinct_map inj_on_def)
  have "list_all (\<lambda>f. fd_kind f = Enum \<longrightarrow> fd_options f \<noteq> []) kConfigFields" by (simp add: kConfigFields_def)
  then show "f \<in> set kConfigFields \<Longrightarrow> fd_kind f = Enum \<Longrightarrow> fd_options f \<noteq> []" by (simp add: list_all_iff)
qed

lemma edited_step:
  assumes "edited_ok new old" "f \<in> set kConfigFields"
  shows "edited_ok (new(fd_key f \<mapsto> edit_value f ev (value_at new (fd_key f)))) old"
  unfolding edited_ok_def
proof (intro ballI)
  fix g
  assume g: "g \<in> set kConfigFields"
  have old: "fd_key g \<in> dom new" "fd_kind g = Enum \<longrightarrow> value_at new (fd_key g) = value_at old (fd_key g) \<or> value_at new (fd_key g) \<in> set (fd_options g)"
    "fd_kind g = Bool \<longrightarrow> value_at new (fd_key g) \<in> {''yes'', ''no''}" using assms(1) g by (auto simp: edited_ok_def)
  let ?new = "new(fd_key f \<mapsto> edit_value f ev (value_at new (fd_key f)))"
  have v: "value_at ?new (fd_key g) = (if fd_key g = fd_key f then edit_value f ev (value_at new (fd_key f)) else value_at new (fd_key g))"
    by (simp add: value_at_def)
  show "fd_key g \<in> dom ?new \<and> (fd_kind g = Enum \<longrightarrow> value_at ?new (fd_key g) = value_at old (fd_key g) \<or> value_at ?new (fd_key g) \<in> set (fd_options g)) \<and>
      (fd_kind g = Bool \<longrightarrow> value_at ?new (fd_key g) \<in> {''yes'', ''no''})"
  proof (cases "fd_key g = fd_key f")
    case True
    with config_keys(1) [OF g assms(2)] have "g = f" by simp
    then show ?thesis
      unfolding v using old next_option_in [of "fd_options f"] config_keys(2) [OF assms(2)] by (auto simp: edit_value_def)
  next
    case False
    then show ?thesis unfolding v using old by auto
  qed
qed

lemma save_inv: "tui_inv u \<Longrightarrow> save_fields t new old fs u = (ok, u') \<Longrightarrow> tui_inv u'"
  by (auto simp: runs_inv dest!: save_fields_frame)

lemma config_inv:
  assumes "tui_inv u" "tu_screenIndex u = 3" "config_event t ev u = Inr u'"
  shows "tui_inv u'"
proof -
  consider "u' = tui_reload t (read_detail t (u\<lparr>tu_configSaveDone := False, tu_screenIndex := 1\<rparr>))" | "u' = u\<lparr>tu_screenIndex := 1\<rparr>" | "saveConfig t u = Inr u'"
    | i where "u' = u\<lparr>tu_editField := i mod length kConfigFields\<rparr>"
    | "tu_editField u < length kConfigFields" "u' = u\<lparr>tu_editValues := (tu_editValues u)(fd_key (kConfigFields ! tu_editField u) \<mapsto>
        edit_value (kConfigFields ! tu_editField u) ev (value_at (tu_editValues u) (fd_key (kConfigFields ! tu_editField u))))\<rparr>"
    using assms(3) by (auto simp: config_event_def Let_def split: if_splits)
  then show ?thesis
  proof cases
    case 1
    have "tui_inv (read_detail t (u\<lparr>tu_configSaveDone := False, tu_screenIndex := 1\<rparr>))" using assms(1,2) by (auto simp: tui_inv_def)
    then show ?thesis unfolding 1 by (rule reload_inv)
  next
    case 3
    then obtain ok v where v: "u' = u \<or> save_fields t (tu_editValues u) (tu_originalValues u) kConfigFields u = (ok, v) \<and> u' = v\<lparr>tu_configSaveOk := ok, tu_configSaveDone := True\<rparr>"
      by (auto simp: saveConfig_def bindR_Inr_iff Let_def split: if_splits prod.splits)
    then show ?thesis using assms(1) save_inv by fastforce
  next
    case 5
    define f new where "f = kConfigFields ! tu_editField u" and "new = (tu_editValues u)(fd_key f \<mapsto> edit_value f ev (value_at (tu_editValues u) (fd_key f)))"
    have "f \<in> set kConfigFields" using 5(1) by (simp add: f_def)
    then have "editor_ok (tu_detail u) new (tu_originalValues u)"
      using assms(1,2) edited_step unfolding new_def by (auto simp: tui_inv_def editor_ok_def)
    then show ?thesis using assms(1) 5(2) by (simp add: tui_inv_def flip: f_def new_def)
  next
    case (4 i)
    have "i mod length kConfigFields < length kConfigFields" by (simp add: kConfigFields_def)
    with 4 show ?thesis using assms(1) by (simp add: tui_inv_def)
  qed (use assms(1,2) in \<open>auto simp: tui_inv_def\<close>)
qed

lemma signal_inv:
  assumes "tui_inv u" "tu_screenIndex u = 5" "signal_event t ev u = Inr u'"
  shows "tui_inv u'"
proof -
  consider "u' = tui_reload t (read_detail t (u\<lparr>tu_signalSaveDone := False, tu_screenIndex := 1\<rparr>))" | "u' = u\<lparr>tu_screenIndex := 1\<rparr>" | "u' = saveSignalConfig t u"
    | i where "u' = u\<lparr>tu_signalEditField := i mod length kSignalConfigFields\<rparr>" | k x where "u' = u\<lparr>tu_signalEditValues := (tu_signalEditValues u)(k \<mapsto> x)\<rparr>"
    using assms(3) by (auto simp: signal_event_def Let_def split: if_splits)
  then show ?thesis
  proof cases
    case 1
    have "tui_inv (read_detail t (u\<lparr>tu_signalSaveDone := False, tu_screenIndex := 1\<rparr>))" using assms(1,2) by (auto simp: tui_inv_def)
    then show ?thesis unfolding 1 by (rule reload_inv)
  next
    case 3
    then show ?thesis using assms(1) save_inv by (fastforce simp: saveSignalConfig_def Let_def split: prod.splits)
  next
    case (4 i)
    have "i mod length kSignalConfigFields < length kSignalConfigFields" by (simp add: kSignalConfigFields_def)
    with 4 show ?thesis using assms(1) by (simp add: tui_inv_def)
  next
    case (5 k x)
    have "signal_ok (v(k \<mapsto> x))" if "signal_ok v" for v using that by (auto simp: signal_ok_def)
    with 5 show ?thesis using assms(1,2) by (simp add: tui_inv_def)
  qed (use assms(1,2) in \<open>auto simp: tui_inv_def\<close>)
qed

lemma pending_inv: "tui_inv u \<Longrightarrow> tui_inv (runPendingAction t u)"
  by (auto simp: runPendingAction_def runs_inv split: option.splits prod.splits dest!: runGendb_frame)

lemma confirm_inv:
  assumes "tui_inv u" "tu_screenIndex u = 2"
  shows "tui_inv (confirm_event t ev u)"
proof -
  have th: "tu_linkThread u = No_thread" using assms by (auto simp: tui_inv_def)
  have "tui_inv (u\<lparr>tu_pending := No_action, tu_lastResult := None, tu_screenIndex := 0\<rparr>)" "tui_inv (u\<lparr>tu_pending := No_action, tu_screenIndex := 1\<rparr>)"
    using assms by (auto simp: tui_inv_def)
  then show ?thesis
    using assms(1) pending_inv [OF assms(1)] reload_inv unfolding confirm_event_def to_list_def by (cases ev) simp_all
qed

lemma list_inv:
  assumes "tui_inv u" "tu_screenIndex u = 0" "list_event t ev u = Inr u'" "\<not> tu_quit u"
  shows "tui_inv u'"
proof -
  have "tui_inv (u\<lparr>tu_selected := min (tu_selected u + 1) (int (length (tu_accounts u)) - 1)\<rparr>)" "tui_inv (u\<lparr>tu_selected := max (tu_selected u - 1) 0\<rparr>)"
    if "tu_accounts u \<noteq> []" using that assms(1) by (auto simp: tui_inv_def)
  moreover have "tui_inv v" if "openDetail t u = Inr v" for v
    using that assms(1,2,4) by (auto simp: openDetail_def tui_inv_def split: if_splits)
  moreover have "tui_inv (openWizard u)" using assms(1,2,4) by (auto simp: openWizard_def tui_inv_def code_transport_def)
  moreover have "tui_inv (u\<lparr>tu_quit := True\<rparr>)" using assms(1,2) by (simp add: tui_inv_def)
  ultimately show ?thesis
    using assms(1,3) reload_inv [OF assms(1)] unfolding list_event_def by (simp only: split: if_split_asm) auto
qed

lemma detail_inv:
  assumes "tui_inv u" "tu_screenIndex u = 1"
  shows "tui_inv (detail_event ev u)"
proof -
  have th: "tu_linkThread u = No_thread" "\<not> tu_quit u" using assms by (auto simp: tui_inv_def)
  have "tui_inv (u\<lparr>tu_screenIndex := 0\<rparr>)" using assms th by (simp add: tui_inv_def)
  moreover have "tui_inv (openConfirm p u)" if "p \<noteq> No_action" for p using that assms th by (simp add: openConfirm_def tui_inv_def)
  moreover have "tui_inv (openConfig u)" using assms th edited_form [of "tu_detail u"] by (simp add: openConfig_def tui_inv_def editor_ok_def kConfigFields_def)
  moreover have "signal_ok (signal_form a)" for a by (simp add: signal_ok_def kSignalConfigFields_def signal_form_def)
  then have "tui_inv (openSignalConfig u)" using assms th by (simp add: openSignalConfig_def tui_inv_def kSignalConfigFields_def)
  ultimately show ?thesis using assms(1) by (simp add: detail_event_def)
qed

lemma wizard_inv:
  assumes "tui_inv u" "tu_screenIndex u = 4"
  shows "tui_inv (wizard_event t ev u)"
proof (cases "tu_wizardStep u = LinkWaiting")
  case True
  have "tui_inv (to_list t (cancelLinkThread t u))" using cancel_inv(1) [OF assms(1)] cancel_inv(2) to_list_inv by simp
  moreover have "tui_inv (u\<lparr>tu_wizResult := r, tu_linkThread := No_thread, tu_wizardStep := LinkResult\<rparr>)" for r using assms by (simp add: tui_inv_def)
  ultimately show ?thesis using True assms(1) by (simp add: wizard_event_def wait_event_def split: event.split link_thread.split)
next
  case False
  then have th: "tu_linkThread u = No_thread" using assms by (auto simp: tui_inv_def)
  show ?thesis
    using False assms th to_list_inv [OF assms(1) th] choose_inv [OF assms th] form_inv [OF assms(1) th] field_updates(3) [OF assms(1) th]
    by (simp add: wizard_event_def split: WizardStep.split)
qed

lemma event_inv: "tui_inv u \<Longrightarrow> tui_event t ev u = Inr u' \<Longrightarrow> \<not> tu_quit u \<Longrightarrow> tui_inv u'"
proof -
  assume a: "tui_inv u" "tui_event t ev u = Inr u'" "\<not> tu_quit u"
  have "tu_screenIndex u \<in> {0, 1, 2, 3, 4, 5}" using a(1) by (auto simp: tui_inv_def)
  then show "tui_inv u'"
    using a list_inv [OF a(1)] detail_inv [OF a(1)] confirm_inv [OF a(1)] config_inv [OF a(1)] wizard_inv [OF a(1)] signal_inv [OF a(1)]
    unfolding tui_event_def insert_iff empty_iff by (elim disjE) (simp_all, metis+)
qed

lemma start_inv: "tui_inv (tui_start t w)"
  unfolding tui_start_def
  by (rule reload_inv) (simp add: tui_inv_def tui_blank_def kConfigFields_def kSignalConfigFields_def code_transport_def)

abbreviation tui_reachable :: "tui_env \<Rightarrow> reg \<Rightarrow> tui \<Rightarrow> bool" where
  "tui_reachable t w \<equiv> reachable (\<lambda>u. u = tui_start t w) (tui_step t)"

interpretation terminal: invariant_system "\<lambda>u. u = tui_start t w" "tui_step t" tui_inv for t w
  by unfold_locales (auto simp: start_inv event_inv thread_inv elim!: tui_step.cases)

section \<open>No event fails\<close>

lemma form_complete: "edited_ok v old \<Longrightarrow> f \<in> set kConfigFields \<Longrightarrow> \<exists>x. map_at v (fd_key f) = Inr x"
  by (auto simp: edited_ok_def map_at_def split: option.split)

lemma configErrors_ends: "edited_ok v old \<Longrightarrow> \<exists>errs. configErrors v = Inr errs"
proof -
  assume v: "edited_ok v old"
  have k: "\<exists>x. map_at v k = Inr x" if "k \<in> set (map fd_key kConfigFields)" for k using that form_complete [OF v] by auto
  have "\<exists>x. map_at v ''sip_host'' = Inr x" "\<exists>x. map_at v ''sip_extension'' = Inr x" "\<exists>x. map_at v ''sip_password'' = Inr x"
    "\<exists>x. map_at v ''sip_transport'' = Inr x" "\<exists>x. map_at v ''sip_tls_ca_file'' = Inr x" "\<exists>x. map_at v ''sip_tls_insecure'' = Inr x"
    by (rule k, simp add: kConfigFields_def)+
  then show ?thesis by (auto simp: configErrors_def sipFieldsInUse_def required_def tls_unverified_def)
qed

text \<open>
  C36: The terminal program handles every key on every screen it can get to: no index runs out of range, no field is missing from the editor's map (both \<open>configErrors\<close>
  and the keys look fields up with \<open>at\<close>), a dialog always has an action, and only the screen that waits for a link has a linking thread, so none is left when the program ends.
\<close>

theorem tui_never_fails:
  assumes "tui_reachable t w u"
  shows "(\<exists>u'. tui_event t ev u = Inr u') \<and>
    (tu_linkThread u \<noteq> No_thread \<longrightarrow> tu_screenIndex u = 4 \<and> tu_wizardStep u = LinkWaiting \<and> \<not> tu_quit u) \<and>
    (tu_screenIndex u = 2 \<longrightarrow> action_command (tu_pending u) \<noteq> None)"
proof (intro conjI)
  note i = terminal.reachable_inv [OF assms]
  show "tu_linkThread u \<noteq> No_thread \<longrightarrow> tu_screenIndex u = 4 \<and> tu_wizardStep u = LinkWaiting \<and> \<not> tu_quit u"
    using i by (auto simp: tui_inv_def)
  show "tu_screenIndex u = 2 \<longrightarrow> action_command (tu_pending u) \<noteq> None"
    using i by (auto simp: tui_inv_def action_command_def split: PendingAction.splits)
  have "\<exists>u'. openDetail t u = Inr u'" using i by (auto simp: openDetail_def tui_inv_def)
  then have "\<exists>u'. list_event t ev u = Inr u'" unfolding list_event_def by simp
  moreover have "\<exists>u'. signal_event t ev u = Inr u'" using i by (simp add: signal_event_def Let_def tui_inv_def)
  moreover have "\<exists>u'. config_event t ev u = Inr u'" if "tu_screenIndex u = 3"
  proof -
    have "\<exists>u'. saveConfig t u = Inr u'"
      using i that configErrors_ends by (fastforce simp: tui_inv_def editor_ok_def saveConfig_def Let_def split: prod.split)
    then show ?thesis using i by (simp add: config_event_def Let_def tui_inv_def)
  qed
  ultimately show "\<exists>u'. tui_event t ev u = Inr u'" by (simp add: tui_event_def)
qed

section \<open>What runs the tool\<close>

text \<open>The runs a step adds.\<close>

definition new_runs :: "tui \<Rightarrow> tui \<Rightarrow> string list list" where
  "new_runs u u' = drop (length (tu_runs u)) (tu_runs u')"

lemma new_runs_same [simp]: "tu_runs u' = tu_runs u \<Longrightarrow> new_runs u u' = []"
  by (simp add: new_runs_def)

abbreviation deletes :: "tui_env \<Rightarrow> string \<Rightarrow> string list" where
  "deletes t name \<equiv> [''--config'', tw_configPath t, name, ''delete-account'']"

lemma to_list_runs [simp]: "tu_runs (to_list t u) = tu_runs u"
  by (simp add: to_list_def)

lemma started_runs: "\<exists>ns. tu_runs (link_started t u) = tu_runs u @ map (\<lambda>n. [''--config'', tw_configPath t, n, ''link'']) ns"
proof (cases "tu_linkThread u")
  case (Starting n)
  then show ?thesis by (auto simp: link_started_def Let_def intro!: exI [of _ "[n]"])
qed (auto simp: link_started_def intro!: exI [of _ "[]"])

lemma ended_runs [simp]: "tu_runs (link_ended t u) = tu_runs u"
  by (auto simp: link_ended_def split: link_thread.split prod.split)

lemma cancel_runs: "\<exists>ns. tu_runs (cancelLinkThread t u) = tu_runs u @ map (\<lambda>n. [''--config'', tw_configPath t, n, ''link'']) ns"
proof (cases "tu_linkThread u")
  case (Starting n)
  then show ?thesis using started_runs [of t u] by (simp add: cancelLinkThread_def)
qed (auto simp: cancelLinkThread_def intro!: exI [of _ "[]"])

lemma link_runs_safe: "tu_runs u' = tu_runs u @ map (\<lambda>n. [''--config'', c, n, ''link'']) ns \<Longrightarrow> deletes t name \<notin> set (new_runs u u')"
  by (auto simp: new_runs_def)

lemma wizard_run_safe: "length args = 2 \<or> length args = 4 \<Longrightarrow> deletes t name \<notin> set (new_runs u (wizard_run t args st v))" if "tu_runs v = tu_runs u"
  using that by (auto simp: wizard_run_def new_runs_def split: prod.splits dest!: runGendb_frame)

lemma wizard_safe: "deletes t name \<notin> set (new_runs u (wizard_event t ev u))"
proof -
  obtain ns where c: "tu_runs (cancelLinkThread t u) = tu_runs u @ map (\<lambda>n. [''--config'', tw_configPath t, n, ''link'']) ns" using cancel_runs by blast
  then have "deletes t name \<notin> set (new_runs u (to_list t (cancelLinkThread t u)))" by (auto simp: new_runs_def)
  then have "deletes t name \<notin> set (new_runs u (wait_event t ev u))"
    by (simp add: wait_event_def split: event.split link_thread.split)
  moreover have "deletes t name \<notin> set (new_runs u (choose_event ev u))"
    by (cases ev) (simp_all add: choose_event_def startLinkThread_def Let_def)
  moreover have "deletes t name \<notin> set (new_runs u (register_event t ev u))" "deletes t name \<notin> set (new_runs u (captcha_event t ev u))"
    "deletes t name \<notin> set (new_runs u (verify_event t ev u))"
    unfolding register_event_def captcha_event_def verify_event_def by (cases ev; simp add: wizard_run_safe)+
  ultimately show ?thesis unfolding wizard_event_def by (cases "tu_wizardStep u") auto
qed

lemma list_runs: "list_event t ev u = Inr u' \<Longrightarrow> tu_runs u' = tu_runs u"
proof -
  have "openDetail t u = Inr u' \<Longrightarrow> tu_runs u' = tu_runs u" by (auto simp: openDetail_def split: if_splits)
  then show "list_event t ev u = Inr u' \<Longrightarrow> tu_runs u' = tu_runs u"
    unfolding list_event_def openWizard_def by (simp only: split: if_split_asm) auto
qed

lemma detail_runs: "tu_runs (detail_event ev u) = tu_runs u"
  by (simp add: detail_event_def openConfirm_def openConfig_def openSignalConfig_def)

lemma save_safe: "save_fields t new old fs u = (ok, v) \<Longrightarrow> tu_runs u' = tu_runs v \<Longrightarrow> deletes t name \<notin> set (new_runs u u')"
  by (auto simp: new_runs_def set_args_def dest!: save_fields_frame)

lemma editors_safe:
  "config_event t ev u = Inr u' \<Longrightarrow> deletes t name \<notin> set (new_runs u u')"
  "signal_event t ev u = Inr u' \<Longrightarrow> deletes t name \<notin> set (new_runs u u')"
proof -
  have "saveConfig t u = Inr u' \<Longrightarrow> deletes t name \<notin> set (new_runs u u')"
    by (auto simp: saveConfig_def bindR_Inr_iff Let_def save_safe split: if_splits prod.splits)
  then show "config_event t ev u = Inr u' \<Longrightarrow> deletes t name \<notin> set (new_runs u u')"
    unfolding config_event_def Let_def by (simp only: split: if_split_asm) auto
  have "deletes t name \<notin> set (new_runs u (saveSignalConfig t u))"
    by (auto simp: saveSignalConfig_def Let_def save_safe split: prod.splits)
  then show "signal_event t ev u = Inr u' \<Longrightarrow> deletes t name \<notin> set (new_runs u u')"
    unfolding signal_event_def Let_def by (simp only: split: if_split_asm) auto
qed

text \<open>
  C37: Of all the program does, on any screen and in the background thread, one thing only runs \<open>delete-account\<close>: the return key in the deletion dialog of
  the account shown, when what has been typed is exactly that account's name.
\<close>

theorem delete_needs_typed_name:
  assumes "tui_step t u u'" "[''--config'', tw_configPath t, name, ''delete-account''] \<in> set (new_runs u u')"
  shows "tui_event t Return u = Inr u' \<and> tu_screenIndex u = 2 \<and> tu_pending u = DeleteAccount \<and> tu_lastResult u = None \<and>
    name = tu_detailName u \<and> tu_typedConfirm u = name \<and> tu_runs u' = tu_runs u @ [[''--config'', tw_configPath t, name, ''delete-account'']]"
  using assms(1)
proof cases
  case started
  then show ?thesis using assms(2) started_runs [of t u] link_runs_safe by fastforce
next
  case ended
  then show ?thesis using assms(2) by simp
next
  case (key ev)
  have screen: "tu_screenIndex u = 2" and cf: "u' = confirm_event t ev u"
    using key(2) assms(2) wizard_safe editors_safe list_runs detail_runs
    unfolding tui_event_def by (simp_all only: split: if_split_asm) (auto dest!: list_runs)
  have run: "tu_runs (runPendingAction t u) = tu_runs u @ (case action_command (tu_pending u) of None \<Rightarrow> [] | Some c \<Rightarrow> [[''--config'', tw_configPath t, tu_detailName u, c]])"
    by (auto simp: runPendingAction_def split: option.split prod.split dest!: runGendb_frame)
  have "u' = runPendingAction t u" "tu_lastResult u = None" "tu_pending u = DeleteAccount \<longrightarrow> ev = Return \<and> tu_typedConfirm u = tu_detailName u"
    using assms(2) unfolding cf confirm_event_def by (auto split: if_splits event.splits)
  moreover from this have "tu_pending u = DeleteAccount" "name = tu_detailName u"
    using assms(2) run by (auto simp: new_runs_def action_command_def split: PendingAction.splits)
  ultimately show ?thesis using screen key(2) run by (auto simp: action_command_def)
qed

section \<open>A terminal at work\<close>

definition sample_tui :: tui_env where
  "sample_tui = \<lparr>tw_q = no_faults, tw_global = sample_global, tw_configPath = ''c'', tw_gendbPath = ''gendb'', tw_spawn = (\<lambda>_. Spawned), tw_env = (\<lambda>_. calm),
     tw_libs = (\<lambda>_. \<lparr>gl_reg = sample_reg, gl_prov = toy_lib, gl_random = sample_random, gl_provision = Inl Pj_error\<rparr>), tw_killed = (\<lambda>_ w. w)\<rparr>"

definition tui_world :: reg where
  "tui_world = \<lparr>rg_world = one_world\<lparr>gd_files := sample_files\<rparr>, rg_calls = [], rg_http = []\<rparr>"

lemma start_sel [simp]: "tu_screenIndex (tui_start t w) = 0" "tu_quit (tui_start t w) = False" "tu_runs (tui_start t w) = []" "tu_linkThread (tui_start t w) = No_thread"
  by (simp_all add: tui_start_def tui_blank_def)

theorem tui_never_fails_witness:
  "\<exists>u'. tui_event sample_tui CtrlO (openWizard (tui_start sample_tui tui_world)) = Inr u'"
proof -
  have "tui_event sample_tui (Character ''n'') (tui_start sample_tui tui_world) = Inr (openWizard (tui_start sample_tui tui_world))"
    by (simp add: tui_event_def list_event_def)
  then have "tui_step sample_tui (tui_start sample_tui tui_world) (openWizard (tui_start sample_tui tui_world))" by (intro tui_step.key) simp_all
  then have "tui_reachable sample_tui tui_world (openWizard (tui_start sample_tui tui_world))" by (intro reach_step [OF reach_init]) simp_all
  from tui_never_fails [OF this] show ?thesis by blast
qed

definition deletion_dialog :: tui where
  "deletion_dialog = (openConfirm DeleteAccount ((tui_start sample_tui tui_world)\<lparr>tu_detailName := ''a''\<rparr>))\<lparr>tu_typedConfirm := ''a''\<rparr>"

theorem delete_needs_typed_name_witness:
  "\<exists>u'. tui_step sample_tui deletion_dialog u' \<and> [''--config'', ''c'', ''a'', ''delete-account''] \<in> set (new_runs deletion_dialog u') \<and>
     tui_event sample_tui Return deletion_dialog = Inr u' \<and> tu_runs u' = [[''--config'', ''c'', ''a'', ''delete-account'']]"
proof -
  have s: "tu_screenIndex deletion_dialog = 2" "tu_lastResult deletion_dialog = None" "tu_pending deletion_dialog = DeleteAccount" "tu_runs deletion_dialog = []"
    "tu_typedConfirm deletion_dialog = ''a''" "tu_detailName deletion_dialog = ''a''" "\<not> tu_quit deletion_dialog" "tw_configPath sample_tui = ''c''"
    by (simp_all add: deletion_dialog_def openConfirm_def sample_tui_def)
  define u' where "u' = runPendingAction sample_tui deletion_dialog"
  have e: "tui_event sample_tui Return deletion_dialog = Inr u'" by (simp add: tui_event_def confirm_event_def s u'_def)
  then have st: "tui_step sample_tui deletion_dialog u'" using s(7) by (rule tui_step.key [rotated])
  have "tu_runs u' = [[''--config'', ''c'', ''a'', ''delete-account'']]"
    by (auto simp: u'_def runPendingAction_def action_command_def s split: prod.split dest!: runGendb_frame)
  then have "[''--config'', tw_configPath sample_tui, ''a'', ''delete-account''] \<in> set (new_runs deletion_dialog u')" by (simp add: new_runs_def s)
  from delete_needs_typed_name [OF st this] this st show ?thesis using s by auto
qed

text \<open>
  The result of a link can be lost. The thread posts one wake-up for every chunk of output and one at the end, and the result screen takes any event for a key. When the
  process has ended before the wake-up for its last output is handled, that one shows the result and the last one, still in the queue, leaves it again for the list.
\<close>

theorem late_wakeup_hides_result:
  assumes "tu_screenIndex u = 4" "tu_wizardStep u = LinkWaiting" "tu_linkThread u = Ended code"
  shows "\<exists>u1 u2. tui_event t Custom u = Inr u1 \<and> tu_screenIndex u1 = 4 \<and> tu_wizardStep u1 = LinkResult \<and> tu_wizResult u1 = Some code \<and>
    tui_event t Custom u1 = Inr u2 \<and> tu_screenIndex u2 = 0"
  using assms by (simp add: tui_event_def wizard_event_def wait_event_def to_list_def)

definition link_over :: tui where
  "link_over = link_ended sample_tui (link_started sample_tui ((startLinkThread ''n'' (openWizard (tui_start sample_tui tui_world)))\<lparr>tu_wizardStep := LinkWaiting\<rparr>))"

theorem late_wakeup_hides_result_witness:
  "\<exists>code u1 u2. tu_linkThread link_over = Ended code \<and> tui_event sample_tui Custom link_over = Inr u1 \<and> tu_wizResult u1 = Some code \<and>
     tui_event sample_tui Custom u1 = Inr u2 \<and> tu_screenIndex u2 = 0"
proof -
  have "\<exists>code. tu_linkThread link_over = Ended code" "tu_screenIndex link_over = 4" "tu_wizardStep link_over = LinkWaiting"
    by (simp_all add: link_over_def link_ended_def link_started_def startLinkThread_def openWizard_def sample_tui_def split: prod.split)
  then show ?thesis using late_wakeup_hides_result [of link_over _ sample_tui] by blast
qed

end
