(* ===== verification/TuiEditor.thy ===== *)
theory TuiEditor
  imports TuiSafety
begin

text \<open>
  The configuration editor of the terminal program together with the tool it runs: what a save leaves in the database, and how the editor's checks
  compare with the daemon's.
\<close>

section \<open>One run of config set\<close>

text \<open>The configuration file leads to a database of the current schema in which the account is the given record.\<close>

definition account_in :: "GlobalConfig \<Rightarrow> string \<Rightarrow> string \<Rightarrow> reg \<Rightarrow> AccountRecord \<Rightarrow> bool" where
  "account_in g path name s a \<longleftrightarrow> bindR (parseIni (gd_files (rg_world s)) path) load_global = Inr g \<and>
     (\<exists>f. gd_disk (rg_world s) (dbPath g) = Some f \<and> f_key f = dbKey g \<and> db_current (f_db f) \<and> loadAccount no_faults name (f_db f) = Inr a)"

text \<open>Names and values the tool does not take for an option.\<close>

definition plain_arguments :: "tui_env \<Rightarrow> string \<Rightarrow> string \<Rightarrow> bool" where
  "plain_arguments t name v \<longleftrightarrow> tw_configPath t \<noteq> [] \<and> name \<notin> {''--config'', ''--e164''} \<and> list_all (\<lambda>x. x \<noteq> ''--help'' \<and> x \<noteq> ''-h'') [tw_configPath t, name, v]"

abbreviation field_names :: "string set" where
  "field_names \<equiv> set (map cf_name configFields)"

lemma load_global_lenient:
  assumes "bindR (parseIni fs path) load_global = Inr g"
  shows "\<exists>g'. loadGlobalConfigLenient fs path = Inr g' \<and> dbPath g' = dbPath g \<and> dbKey g' = dbKey g \<and> dbPath g \<noteq> [] \<and> dbKey g \<noteq> []"
  using assms by (auto simp: loadGlobalConfigLenient_def parseIni_def fileExists_def load_global_def Let_def bindR_Inr_iff split: if_splits option.splits)

lemma bootstrap_nothing:
  assumes "bindR (parseIni (gd_files w) path) load_global = Inr g"
  shows "bootstrapGlobalConfigIfNeeded e path w = (Inr (), w)"
  using load_global_lenient [OF assms] by (auto simp: bootstrapGlobalConfigIfNeeded_def bindS_def liftR_def)

lemma set_args_parsed:
  assumes "plain_arguments t name v" "key \<in> field_names"
  shows "parseArgs (tool # set_args t name key v) =
    Inr \<lparr>pa_accountName = name, pa_command = ''config'', pa_positional = [''set'', key, v], pa_e164 = [], pa_configPath = tw_configPath t\<rparr>"
proof -
  have "''--e164'' \<notin> field_names" "''--config'' \<notin> field_names" unfolding configFields_names by simp_all
  with assms(2) have "key \<noteq> ''--e164''" "key \<noteq> ''--config''" by metis+
  then show ?thesis using assms(1) by (simp add: parseArgs_def set_args_def plain_arguments_def)
qed

lemma set_args_no_help:
  assumes "plain_arguments t name v" "key \<in> field_names"
  shows "\<not> list_ex (\<lambda>a. a = ''--help'' \<or> a = ''-h'') (set_args t name key v)"
proof -
  have "''--help'' \<notin> field_names" "''-h'' \<notin> field_names" unfolding configFields_names by simp_all
  with assms(2) have "key \<noteq> ''--help''" "key \<noteq> ''-h''" by metis+
  with assms(1) show ?thesis by (simp add: set_args_def plain_arguments_def)
qed

lemma set_main:
  assumes "account_in g (tw_configPath t) name s a" "gc_q e = no_faults" "plain_arguments t name v" "key \<in> field_names"
  shows "gendb_main e gl (tool # set_args t name key v) s = (case cmdConfigSet e g name key v (rg_world s) of
      (Inr _, w') \<Rightarrow> (Some 0, s\<lparr>rg_world := w'\<rparr>) | (Inl x, w') \<Rightarrow> (if x = Pj_error then None else Some 1, s\<lparr>rg_world := w'\<rparr>))"
proof -
  let ?w = "rg_world s" and ?path = "tw_configPath t"
  obtain f where g: "bindR (parseIni (gd_files ?w) ?path) load_global = Inr g"
    and f: "gd_disk ?w (dbPath g) = Some f" "f_key f = dbKey g" "db_current (f_db f)"
    using assms(1) by (auto simp: account_in_def)
  have p: "resolveGendbConfigPath (gd_files ?w) ?path = ?path"
    using assms(3) by (simp add: resolveGendbConfigPath_def resolveConfigPath_def plain_arguments_def)
  have l: "load_config e ?path ?w = (Inr \<lparr>dc_global = g, dc_accounts = loaded_configs (f_db f)\<rparr>, ?w)"
    using load_current [where disk = "gd_disk ?w", OF g f] by (simp add: load_config_def assms(2))
  show ?thesis
    using set_args_no_help [OF assms(3,4)] set_args_parsed [OF assms(3,4), of tool]
    by (simp add: gendb_main_def p bindS_def in_world_def bootstrap_nothing [OF g] l run_command_def config_command_def Let_def split: prod.split sum.split)
qed

lemma config_set_main:
  assumes "account_in g (tw_configPath t) name s a" "gc_q e = no_faults" "plain_arguments t name v" "key \<in> field_names"
    and "gendb_main e gl (tool # set_args t name key v) s = (Some 0, s')"
  shows "\<exists>w'. cmdConfigSet e g name key v (rg_world s) = (Inr (), w') \<and> s' = s\<lparr>rg_world := w'\<rparr>"
  using assms(5) unfolding set_main [OF assms(1-4)] by (auto split: prod.splits sum.splits if_splits)

lemma set_run:
  assumes "account_in g (tw_configPath t) name s a" "gc_q e = no_faults" "plain_arguments t name v" "key \<in> field_names"
    and "gendb_main e gl (tool # set_args t name key v) s = (Some 0, s')"
  shows "\<exists>a'. account_in g (tw_configPath t) name s' a' \<and> (\<forall>k \<in> field_names. shown k a' = (if k = key then normal_value key v else shown k a)) \<and>
    default_config a' = default_config a \<and> a_enabled a' = a_enabled a"
proof -
  let ?w = "rg_world s"
  obtain w' where w': "cmdConfigSet e g name key v ?w = (Inr (), w')" "s' = s\<lparr>rg_world := w'\<rparr>" using config_set_main [OF assms] by blast
  obtain f where g: "bindR (parseIni (gd_files ?w) (tw_configPath t)) load_global = Inr g"
    and f: "gd_disk ?w (dbPath g) = Some f" "f_key f = dbKey g" "db_current (f_db f)" "loadAccount no_faults name (f_db f) = Inr a"
    using assms(1) by (auto simp: account_in_def)
  have op: "Storage no_faults (dbPath g) (dbKey g) (gd_disk ?w) = (Inr (), gd_disk ?w)"
    using open_current [where disk = "gd_disk ?w", OF f(1-3)] by (simp add: Storage_def)
  obtain a1 d where d: "saveAccountConfig no_faults name a1 (f_db f) = Inr d" "gd_disk w' (dbPath g) = Some (f\<lparr>f_db := d\<rparr>)"
    using config_set_run [OF w'(1)] op f(1) assms(2) by auto
  have files: "gd_files w' = gd_files ?w"
    using w'(1) unfolding cmdConfigSet_def by (auto simp: liftR_def say_def elim!: bindS_cases dest!: open_account_frame in_db_updR signal_frame)
  have cur: "db_current d" using saveAccountConfig_rows [OF d(1)] f(3) by auto
  obtain fld a' where a': "loadAccount no_faults name d = Inr a'" "findConfigField key = Inr fld" "cf_get fld a' = normal_value key v"
    "\<forall>f2 \<in> set configFields. cf_name f2 \<noteq> key \<longrightarrow> cf_get f2 a' = cf_get f2 a" "default_config a' = default_config a" "a_enabled a' = a_enabled a"
    using config_set_result [OF w'(1), of "name @ ''x''"] op assms(2) d(2) f(1,4) by (auto simp: Sql.readable_def)
  have "shown k a' = (if k = key then normal_value key v else shown k a)" if k: "k \<in> field_names" for k
  proof -
    obtain f2 where f2: "f2 \<in> set configFields" "cf_name f2 = k" using k by auto
    have "fld \<in> set configFields" "cf_name fld = key" using a'(2) by (simp_all add: findConfigField_Inr)
    then show ?thesis using f2 a'(3,4) by (cases "k = key") (auto simp: cf_get_shown)
  qed
  then show ?thesis
    using a'(1,5,6) d(2) cur f(2) g files by (intro exI [of _ a']) (simp add: account_in_def w'(2))
qed

section \<open>A whole save\<close>

lemma process_ok: "gendb_process t n args w = (0, w') \<Longrightarrow> gendb_main (tw_env t n) (tw_libs t n) (tw_gendbPath t # args) w = (Some 0, w')"
  by (auto simp: gendb_process_def split: spawn.splits prod.splits option.splits)

definition changed :: "form \<Rightarrow> form \<Rightarrow> ConfigFieldDef list \<Rightarrow> string \<Rightarrow> bool" where
  "changed new old fs k \<longleftrightarrow> k \<in> set (map fd_key fs) \<and> value_at new k \<noteq> value_at old k"

lemma save_stored:
  assumes "save_fields t new old fs u = (True, u')" "account_in g (tw_configPath t) (tu_detailName u) (tu_world u) a" "\<forall>n. gc_q (tw_env t n) = no_faults"
    and "\<forall>f \<in> set fs. fd_key f \<in> field_names \<and> plain_arguments t (tu_detailName u) (value_at new (fd_key f))" "distinct (map fd_key fs)"
  shows "\<exists>a'. account_in g (tw_configPath t) (tu_detailName u) (tu_world u') a' \<and>
    (\<forall>k \<in> field_names. shown k a' = (if changed new old fs k then normal_value k (value_at new k) else shown k a)) \<and>
    default_config a' = default_config a \<and> a_enabled a' = a_enabled a"
  using assms
proof (induction fs arbitrary: u a)
  case Nil
  then show ?case by (auto simp: changed_def)
next
  case (Cons f fs)
  let ?key = "fd_key f" and ?v = "value_at new (fd_key f)" and ?p = "tw_configPath t"
  show ?case
  proof (cases "?v = value_at old ?key")
    case True
    then have "changed new old (f # fs) k = changed new old fs k" for k using Cons.prems(5) by (auto simp: changed_def)
    then show ?thesis using Cons.IH [OF _ Cons.prems(2,3)] Cons.prems True by simp
  next
    case False
    define args where "args = set_args t (tu_detailName u) ?key ?v"
    obtain u1 where r: "runGendb t args u = (0, u1)" "save_fields t new old fs u1 = (True, u')"
      using Cons.prems(1) False by (auto simp: Let_def args_def split: prod.splits)
    have n: "tu_detailName u1 = tu_detailName u" using runGendb_frame [OF r(1)] by auto
    have "gendb_main (tw_env t (length (tu_runs u))) (tw_libs t (length (tu_runs u))) (tw_gendbPath t # args) (tu_world u) = (Some 0, tu_world u1)"
      using r(1) process_ok by (auto simp: runGendb_def split: prod.splits)
    from set_run [OF Cons.prems(2) _ _ _ this [unfolded args_def]] Cons.prems(3,4) obtain a1 where
      a1: "account_in g ?p (tu_detailName u1) (tu_world u1) a1" "\<forall>k \<in> field_names. shown k a1 = (if k = ?key then normal_value ?key ?v else shown k a)"
        "default_config a1 = default_config a" "a_enabled a1 = a_enabled a" by (auto simp: n)
    from Cons.IH [OF r(2) a1(1) Cons.prems(3)] Cons.prems(4,5) obtain a' where
      a': "account_in g ?p (tu_detailName u) (tu_world u') a'" "default_config a' = default_config a" "a_enabled a' = a_enabled a"
        "\<forall>k \<in> field_names. shown k a' = (if changed new old fs k then normal_value k (value_at new k) else shown k a1)" by (auto simp: n a1(3,4))
    have "shown k a' = (if changed new old (f # fs) k then normal_value k (value_at new k) else shown k a)" if "k \<in> field_names" for k
      using bspec [OF a'(4) that] bspec [OF a1(2) that] False Cons.prems(5) by (cases "k = ?key") (simp_all add: changed_def)
    then show ?thesis using a'(1-3) by blast
  qed
qed

text \<open>What the editor shows of a record, from what the tool shows.\<close>

definition with_default :: "string \<Rightarrow> string \<Rightarrow> string" where
  "with_default k v = (if v \<noteq> [] then v else if k = ''sip_srtp'' then ''disabled'' else if k = ''sip_transport'' then ''udp'' else v)"

lemma config_form_shown: "f \<in> set kConfigFields \<Longrightarrow> value_at (config_form a) (fd_key f) = with_default (fd_key f) (shown (fd_key f) a) \<and> fd_key f \<in> field_names"
  unfolding configFields_names unfolding kConfigFields_def set_simps insert_iff empty_iff simp_thms
  by (elim disjE) (simp_all add: config_form_def value_at_def with_default_def shown_def yes_no_def)

lemma normal_edited:
  assumes "edited_ok new old" "f \<in> set kConfigFields" "value_at new (fd_key f) \<noteq> value_at old (fd_key f)"
  shows "with_default (fd_key f) (normal_value (fd_key f) (value_at new (fd_key f))) = value_at new (fd_key f)"
proof -
  define v where "v = value_at new (fd_key f)"
  have "fd_kind f = Enum \<longrightarrow> v \<in> set (fd_options f)" "fd_kind f = Bool \<longrightarrow> v \<in> {''yes'', ''no''}"
    using assms by (auto simp: edited_ok_def v_def)
  then show ?thesis
    using assms(2) unfolding v_def [symmetric] unfolding kConfigFields_def set_simps insert_iff empty_iff simp_thms
    by (elim disjE) (auto simp: with_default_def normal_value_def flag_names_def)
qed

section \<open>The editor's checks and the daemon's\<close>

lemma form_lookup: "edited_ok v old \<Longrightarrow> k \<in> set (map fd_key kConfigFields) \<Longrightarrow> map_at v k = Inr (value_at v k)"
  by (auto simp: edited_ok_def map_at_def value_at_def split: option.split)

lemma config_key_names:
  "''sip_host'' \<in> set (map fd_key kConfigFields)" "''sip_extension'' \<in> set (map fd_key kConfigFields)" "''sip_password'' \<in> set (map fd_key kConfigFields)"
  "''sip_transport'' \<in> set (map fd_key kConfigFields)" "''sip_tls_ca_file'' \<in> set (map fd_key kConfigFields)" "''sip_tls_insecure'' \<in> set (map fd_key kConfigFields)"
  "''sip_srtp'' \<in> set (map fd_key kConfigFields)"
  by (simp_all add: kConfigFields_def)

lemmas form_lookups = form_lookup [OF _ config_key_names(1)] form_lookup [OF _ config_key_names(2)] form_lookup [OF _ config_key_names(3)]
  form_lookup [OF _ config_key_names(4)] form_lookup [OF _ config_key_names(5)] form_lookup [OF _ config_key_names(6)]

lemma configErrors_form:
  assumes "edited_ok v old"
  shows "configErrors v = Inr (let x = value_at v; used = x ''sip_host'' \<noteq> [] \<or> x ''sip_extension'' \<noteq> [] \<or> x ''sip_password'' \<noteq> [] in
    (if used \<and> x ''sip_host'' = [] then [ErrSipHostRequired] else []) @ (if used \<and> x ''sip_extension'' = [] then [ErrSipExtensionRequired] else []) @
    (if used \<and> x ''sip_password'' = [] then [ErrSipPasswordRequired] else []) @
    (if x ''sip_transport'' = ''tls'' \<and> x ''sip_tls_ca_file'' = [] \<and> x ''sip_tls_insecure'' \<noteq> ''yes'' then [ErrTlsRequiresCa] else []))"
  by (simp add: configErrors_def sipFieldsInUse_def required_def tls_unverified_def Let_def form_lookups [OF assms])

lemma form_values:
  "value_at (config_form a) ''sip_host'' = a_sip_host a" "value_at (config_form a) ''sip_extension'' = a_sip_extension a"
  "value_at (config_form a) ''sip_password'' = a_sip_password a"
  "value_at (config_form a) ''sip_srtp'' = (if a_sip_srtp a = [] then ''disabled'' else a_sip_srtp a)"
  "value_at (config_form a) ''sip_transport'' = (if a_sip_transport a = [] then ''udp'' else a_sip_transport a)"
  "value_at (config_form a) ''sip_tls_ca_file'' = a_sip_tls_ca_file a" "value_at (config_form a) ''sip_tls_insecure'' = yes_no (a_sip_tls_insecure a)"
  by (simp_all add: value_at_def config_form_def)

definition choices_known :: "AccountRecord \<Rightarrow> bool" where
  "choices_known a \<longleftrightarrow> a_sip_srtp a \<in> {[], ''disabled'', ''optional'', ''mandatory''} \<and> a_sip_transport a \<in> {[], ''udp'', ''tls''}"

text \<open>
  C33: The editor's checks against the daemon's. An account with a number and known choices is run by the daemon exactly when the editor has no objection to its TLS settings;
  what else the editor objects to (a host, an extension and a password come together) it asks on its own, the daemon takes such an account.
\<close>

theorem editor_checks_match_daemon:
  assumes "a_e164 a \<noteq> []" "choices_known a"
  shows "\<exists>errs. configErrors (config_form a) = Inr errs \<and> (ErrTlsRequiresCa \<notin> set errs \<longleftrightarrow> (\<exists>c. accountConfigFromRecord name a = Inr c)) \<and>
    (set errs \<subseteq> {ErrTlsRequiresCa} \<longleftrightarrow> (a_sip_host a = [] \<longleftrightarrow> a_sip_extension a = []) \<and> (a_sip_host a = [] \<longleftrightarrow> a_sip_password a = []))"
  unfolding configErrors_form [OF edited_form] accountConfig_valid_iff form_values Let_def
  using assms by (auto simp: valid_record_def choices_known_def yes_no_def)

section \<open>From the keyboard to the database and back\<close>

lemma read_account_in:
  assumes "account_in g path name s a" "dbPath (tw_global t) = dbPath g" "dbKey (tw_global t) = dbKey g" "tw_q t = no_faults"
  shows "read_account t name (gd_disk (rg_world s)) = (Inr a, gd_disk (rg_world s))"
proof -
  obtain f where f: "gd_disk (rg_world s) (dbPath g) = Some f" "f_key f = dbKey g" "db_current (f_db f)" "loadAccount no_faults name (f_db f) = Inr a"
    using assms(1) by (auto simp: account_in_def)
  then show ?thesis
    using open_current [where disk = "gd_disk (rg_world s)", OF f(1-3)] by (simp add: read_account_def Storage_def bindS_def assms(2-4))
qed

lemma shown_choices: "shown ''sip_srtp'' a = a_sip_srtp a" "shown ''sip_transport'' a = a_sip_transport a"
  by (simp_all add: shown_def)

lemma choices_form: "value_at (config_form a) ''sip_srtp'' \<in> {''disabled'', ''optional'', ''mandatory''} \<Longrightarrow> value_at (config_form a) ''sip_transport'' \<in> {''udp'', ''tls''} \<Longrightarrow> choices_known a"
  by (auto simp: form_values choices_known_def split: if_splits)

lemma edited_choices:
  assumes "edited_ok new (config_form a)" "choices_known a"
  shows "value_at new ''sip_srtp'' \<in> {''disabled'', ''optional'', ''mandatory''}" "value_at new ''sip_transport'' \<in> {''udp'', ''tls''}"
proof -
  have "cfd ''sip_srtp'' Enum [''disabled'', ''optional'', ''mandatory''] \<in> set kConfigFields" "cfd ''sip_transport'' Enum [''udp'', ''tls''] \<in> set kConfigFields"
    by (simp_all add: kConfigFields_def)
  from bspec [OF assms(1) [unfolded edited_ok_def] this(1)] bspec [OF assms(1) [unfolded edited_ok_def] this(2)]
  show "value_at new ''sip_srtp'' \<in> {''disabled'', ''optional'', ''mandatory''}" "value_at new ''sip_transport'' \<in> {''udp'', ''tls''}"
    using assms(2) by (auto simp: form_values choices_known_def)
qed

lemma form_after_save:
  assumes "edited_ok new (config_form a)" "\<forall>k \<in> field_names. shown k a' = (if changed new (config_form a) kConfigFields k then normal_value k (value_at new k) else shown k a)"
    and f: "f \<in> set kConfigFields"
  shows "value_at (config_form a') (fd_key f) = value_at new (fd_key f)"
proof -
  have k: "fd_key f \<in> field_names" "fd_key f \<in> set (map fd_key kConfigFields)" using f config_form_shown by auto
  show ?thesis
    using config_form_shown [OF f, of a'] config_form_shown [OF f, of a] bspec [OF assms(2) k(1)] normal_edited [OF assms(1) f] k(2)
    by (cases "value_at new (fd_key f) = value_at (config_form a) (fd_key f)") (simp_all add: changed_def)
qed

lemma accepted_after_save:
  assumes "edited_ok new (config_form a)" "\<forall>f \<in> set kConfigFields. value_at (config_form a') (fd_key f) = value_at new (fd_key f)"
    and "configErrors new = Inr []" "default_config a' = default_config a" "a_e164 a \<noteq> []" "choices_known a"
  shows "\<exists>c. accountConfigFromRecord name a' = Inr c"
proof -
  have key: "value_at (config_form a') k = value_at new k" if "k \<in> set (map fd_key kConfigFields)" for k using that assms(2) by auto
  note vals = config_key_names [THEN key]
  have "configErrors (config_form a') = Inr []" using assms(3) unfolding configErrors_form [OF assms(1)] configErrors_form [OF edited_form] by (simp only: vals Let_def)
  moreover have "a_e164 a' = a_e164 a" using arg_cong [OF assms(4), of a_e164] by (simp add: default_config_def)
  moreover have "choices_known a'" using edited_choices [OF assms(1,6)] by (intro choices_form) (simp_all only: vals)
  ultimately show ?thesis
    using assms(5) unfolding configErrors_form [OF edited_form] form_values Let_def accountConfig_valid_iff
    by (auto simp: valid_record_def choices_known_def yes_no_def split: if_splits)
qed

text \<open>
  C5: Saving in the editor takes effect, provided the account is in the database as the editor has read it, the database engine has no fault, and neither the name of the
  account, the path of the configuration nor a value of the form is one \<open>gendb\<close> takes for an option (a value \<open>--help\<close> or \<open>-h\<close> makes its run print the usage and
  end with success). Then, when the save reports success, the next key leads back to the account's screen, which has read from the database exactly what was
  edited, every field of the form; and since the editor checks before it writes, an account with a number and known choices is one the daemon accepts.
\<close>

theorem saved_form_takes_effect:
  assumes "tui_reachable t w u" "tu_screenIndex u = 3" "\<not> tu_configSaveDone u"
    and "tui_event t CtrlO u = Inr u1" "tu_configSaveDone u1" "tu_configSaveOk u1" "tui_event t ev u1 = Inr u2"
    and "account_in g (tw_configPath t) (tu_detailName u) (tu_world u) (tu_detail u)" "dbPath (tw_global t) = dbPath g" "dbKey (tw_global t) = dbKey g"
    and "tw_q t = no_faults" "\<forall>n. gc_q (tw_env t n) = no_faults"
    and "\<forall>f \<in> set kConfigFields. plain_arguments t (tu_detailName u) (value_at (tu_editValues u) (fd_key f))"
  shows "tu_screenIndex u2 = 1 \<and> (\<forall>f \<in> set kConfigFields. value_at (config_form (tu_detail u2)) (fd_key f) = value_at (tu_editValues u) (fd_key f)) \<and>
    (a_e164 (tu_detail u) \<noteq> [] \<and> choices_known (tu_detail u) \<longrightarrow> (\<exists>c. accountConfigFromRecord (tu_detailName u) (tu_detail u2) = Inr c))"
proof -
  let ?new = "tu_editValues u" and ?old = "config_form (tu_detail u)" and ?a = "tu_detail u"
  have e: "tu_originalValues u = ?old" "edited_ok ?new ?old" using terminal.reachable_inv [OF assms(1)] assms(2) by (auto simp: tui_inv_def editor_ok_def)
  obtain v where v: "configErrors ?new = Inr []" "save_fields t ?new ?old kConfigFields u = (True, v)" "u1 = v\<lparr>tu_configSaveOk := True, tu_configSaveDone := True\<rparr>"
    using assms(2-6) e(1) by (auto simp: tui_event_def config_event_def Let_def saveConfig_def bindR_Inr_iff split: if_splits prod.splits)
  have d: "distinct (map fd_key kConfigFields)" by (simp add: kConfigFields_def)
  have nm: "\<forall>f \<in> set kConfigFields. fd_key f \<in> field_names \<and> plain_arguments t (tu_detailName u) (value_at ?new (fd_key f))"
    using assms(13) config_form_shown by blast
  from save_stored [OF v(2) assms(8,12) nm d] obtain a' where a': "account_in g (tw_configPath t) (tu_detailName u) (tu_world v) a'"
      "\<forall>k \<in> field_names. shown k a' = (if changed ?new ?old kConfigFields k then normal_value k (value_at ?new k) else shown k ?a)" "default_config a' = default_config ?a"
    by blast
  have same: "tu_screenIndex v = 3" "tu_detailName v = tu_detailName u" using save_fields_frame [OF v(2)] assms(2) by auto
  have u2: "tu_screenIndex u2 = 1 \<and> tu_detail u2 = a'"
    using assms(7) same read_account_in [OF a'(1) assms(9-11)]
    by (auto simp: v(3) tui_event_def config_event_def Let_def read_detail_def on_disk_def)
  have form: "\<forall>f \<in> set kConfigFields. value_at (config_form a') (fd_key f) = value_at ?new (fd_key f)" using form_after_save [OF e(2) a'(2)] by blast
  with u2 accepted_after_save [OF e(2) form v(1) a'(3)] show ?thesis by simp
qed

text \<open>One session: open the account, go up to the last field, type a digit, save, and press a key.\<close>

lemma tui_world_account: "account_in sample_global ''c'' ''a'' tui_world (default_config sample_account)"
  using sample_load_global db_current_one_account one_account_loaded by (simp add: account_in_def tui_world_def one_world_def sample_disk_def sample_global_def)

lemma sample_tui_sel [simp]: "tw_q sample_tui = no_faults" "tw_global sample_tui = sample_global" "tw_configPath sample_tui = ''c''" "tw_env sample_tui n = calm"
  "tw_spawn sample_tui n = Spawned"
  by (simp_all add: sample_tui_def)

lemma sample_reads: "read_account sample_tui ''a'' sample_disk = (Inr (default_config sample_account), sample_disk)"
  using read_account_in [OF tui_world_account, of sample_tui] by (simp add: tui_world_def one_world_def)

lemma sample_start: "\<exists>v. va_name v = ''a'' \<and> tui_start sample_tui tui_world = (tui_blank tui_world)\<lparr>tu_accounts := [v]\<rparr>"
proof -
  have "listAllAccounts no_faults ''p'' ''k'' sample_disk = (Inr [summary_of_row (new_account_row ''a'' sample_account)], sample_disk)"
    using listAllAccounts_current [of sample_disk "''p''" "\<lparr>f_key = ''k'', f_db = one_account\<rparr>" "''k''"] db_current_one_account
    by (simp add: sample_disk_def one_account_rows)
  moreover have n: "s_account_name (summary_of_row (new_account_row ''a'' sample_account)) = ''a''"
    by (simp add: summary_of_row_def new_account_row_def)
  ultimately have "loadAccounts sample_tui sample_disk = (([view_of (summary_of_row (new_account_row ''a'' sample_account)) (Inr (default_config sample_account))], None), sample_disk)"
    using sample_reads by (simp add: loadAccounts_def sample_global_def)
  then show ?thesis
    using n by (intro exI [of _ "view_of (summary_of_row (new_account_row ''a'' sample_account)) (Inr (default_config sample_account))"])
      (simp add: tui_start_def tui_reload_def on_disk_def tui_blank_def tui_world_def one_world_def view_of_def)
qed

lemma sample_set: "\<exists>w'. cmdConfigSet calm sample_global ''a'' ''outgoing_call_target'' ''9'' (rg_world tui_world) = (Inr (), w')"
proof -
  let ?w = "one_world\<lparr>gd_files := sample_files\<rparr>"
  obtain fld where fld: "findConfigField ''outgoing_call_target'' = Inr fld" by (simp add: findConfigField_def field_defs)
  then have st: "cf_set fld ''9'' a = Inr (stored_as ''outgoing_call_target'' ''9'' a)" for a
    using cf_set_stored [of fld] by (auto simp: findConfigField_Inr accepted_def)
  have present: "hasAccount no_faults ''a'' one_account = Inr True"
    using one_account_tab by (simp add: hasAccount_def Stmt_def one_account_rows)
  have "open_account calm sample_global ''a'' c ?w = (Inr (default_config sample_account), ?w)" for c
    using one_world_opens one_account_loaded present
    by (simp add: open_account_def open_storage_def in_db_def liftR_def bindS_def one_world_def sample_global_def sample_disk_def fun_upd_idem)
  moreover obtain d where "saveAccountConfig no_faults ''a'' (stored_as ''outgoing_call_target'' ''9'' (default_config sample_account)) one_account = Inr d"
    using one_account_tab by (simp add: saveAccountConfig_def run_write_def Stmt_def one_account_rows Let_def)
  ultimately show ?thesis
    using fld st by (simp add: cmdConfigSet_def bindS_def liftR_def in_db_def updR_def say_def tui_world_def) (simp add: signalDaemonBestEffort_def say_def Let_def split: option.split)
qed

definition typed_form :: form where
  "typed_form = (config_form (default_config sample_account))(''outgoing_call_target'' \<mapsto> ''9'')"

definition editing :: "ViewAccount \<Rightarrow> tui" where
  "editing v = (openConfig ((tui_blank tui_world)\<lparr>tu_accounts := [v], tu_detailName := ''a'', tu_detail := default_config sample_account\<rparr>))
     \<lparr>tu_editField := 9, tu_editValues := typed_form\<rparr>"

lemma editing_reachable: "\<exists>v. tui_reachable sample_tui tui_world (editing v)"
proof -
  obtain v where v: "va_name v = ''a''" "tui_start sample_tui tui_world = (tui_blank tui_world)\<lparr>tu_accounts := [v]\<rparr>" using sample_start by blast
  let ?a = "default_config sample_account"
  define u1 where "u1 = (tui_blank tui_world)\<lparr>tu_accounts := [v], tu_detailName := ''a'', tu_detail := ?a, tu_screenIndex := 1\<rparr>"
  have "tui_event sample_tui Return (tui_start sample_tui tui_world) = Inr u1"
    unfolding v(2) using sample_reads v(1) by (simp add: u1_def tui_event_def list_event_def openDetail_def read_detail_def on_disk_def tui_blank_def tui_world_def one_world_def)
  moreover have "tui_event sample_tui (Character ''c'') u1 = Inr (openConfig u1)"
    by (simp add: tui_event_def detail_event_def u1_def)
  moreover have "tui_event sample_tui ArrowUp (openConfig u1) = Inr ((openConfig u1)\<lparr>tu_editField := 9\<rparr>)"
    by (simp add: tui_event_def config_event_def openConfig_def kConfigFields_def)
  moreover have "tui_event sample_tui (Character ''9'') ((openConfig u1)\<lparr>tu_editField := 9\<rparr>) = Inr (editing v)"
    by (simp add: tui_event_def config_event_def openConfig_def kConfigFields_def u1_def editing_def typed_form_def edit_value_def value_at_def config_form_def
        default_config_def)
  moreover have "\<not> tu_quit u1" "\<not> tu_quit (openConfig u1)" by (simp_all add: u1_def openConfig_def tui_blank_def)
  ultimately have "tui_step sample_tui (tui_start sample_tui tui_world) u1" "tui_step sample_tui u1 (openConfig u1)"
    "tui_step sample_tui (openConfig u1) ((openConfig u1)\<lparr>tu_editField := 9\<rparr>)" "tui_step sample_tui ((openConfig u1)\<lparr>tu_editField := 9\<rparr>) (editing v)"
    by (auto intro!: tui_step.key)
  then have "tui_reachable sample_tui tui_world (editing v)" by (intro reach_step [OF reach_step [OF reach_step [OF reach_step [OF reach_init]]]]) simp_all
  then show ?thesis by blast
qed

lemma value_at_upd: "value_at (m(k \<mapsto> x)) k' = (if k' = k then x else value_at m k')"
  by (simp add: value_at_def)

lemma typed_values: "k \<noteq> ''outgoing_call_target'' \<Longrightarrow> value_at typed_form k = value_at (config_form (default_config sample_account)) k"
  "value_at typed_form ''outgoing_call_target'' = ''9''"
  by (simp_all add: typed_form_def value_at_upd)

lemma editing_saves: "\<exists>u1. tui_event sample_tui CtrlO (editing v) = Inr u1 \<and> tu_configSaveDone u1 \<and> tu_configSaveOk u1 \<and> tu_screenIndex u1 = 3"
  if "edited_ok typed_form (config_form (default_config sample_account))"
proof -
  let ?a = "default_config sample_account" and ?u = "editing v"
  have o: "value_at (config_form ?a) ''outgoing_call_target'' = []" by (simp add: value_at_def config_form_def default_config_def)
  have errs: "configErrors typed_form = Inr []" by (simp add: configErrors_form [OF that] typed_values form_values default_config_def Let_def)
  have plain: "plain_arguments sample_tui ''a'' ''9''" by (simp add: plain_arguments_def)
  have fld: "''outgoing_call_target'' \<in> field_names" unfolding configFields_names by simp
  obtain w' where w': "cmdConfigSet calm sample_global ''a'' ''outgoing_call_target'' ''9'' (rg_world tui_world) = (Inr (), w')" using sample_set by blast
  have sel: "tu_world ?u = tui_world" "tu_detailName ?u = ''a''" "tu_editValues ?u = typed_form" "tu_originalValues ?u = config_form ?a" "tu_screenIndex ?u = 3"
    "\<not> tu_configSaveDone ?u" by (simp_all add: editing_def openConfig_def tui_blank_def)
  have "gendb_main calm (tw_libs sample_tui n) (tw_gendbPath sample_tui # set_args sample_tui ''a'' ''outgoing_call_target'' ''9'') tui_world = (Some 0, tui_world\<lparr>rg_world := w'\<rparr>)" for n
    using set_main [OF tui_world_account [folded sample_tui_sel(3)] _ plain fld] w' by simp
  then have "\<exists>u'. runGendb sample_tui (set_args sample_tui ''a'' ''outgoing_call_target'' ''9'') ?u = (0, u') \<and> tu_screenIndex u' = 3"
    by (simp add: runGendb_def gendb_process_def sel)
  then obtain u' where u': "runGendb sample_tui (set_args sample_tui ''a'' ''outgoing_call_target'' ''9'') ?u = (0, u')" "tu_screenIndex u' = 3" by blast
  then have "save_fields sample_tui typed_form (config_form ?a) kConfigFields ?u = (True, u')"
    by (simp add: kConfigFields_def typed_values o sel)
  then show ?thesis using u'(2) by (simp add: tui_event_def config_event_def saveConfig_def sel errs)
qed

theorem saved_form_takes_effect_witness:
  "\<exists>v u1 u2. tui_event sample_tui CtrlO (editing v) = Inr u1 \<and> tui_event sample_tui Return u1 = Inr u2 \<and> tu_screenIndex u2 = 1 \<and>
     a_outgoing_call_target (tu_detail u2) = ''9'' \<and> (\<exists>c. accountConfigFromRecord ''a'' (tu_detail u2) = Inr c)"
proof -
  let ?a = "default_config sample_account"
  obtain v where v: "tui_reachable sample_tui tui_world (editing v)" using editing_reachable by blast
  have sel: "tu_world (editing v) = tui_world" "tu_detailName (editing v) = ''a''" "tu_editValues (editing v) = typed_form" "tu_screenIndex (editing v) = 3"
    "\<not> tu_configSaveDone (editing v)" "tu_detail (editing v) = ?a" "tu_originalValues (editing v) = config_form ?a"
    by (simp_all add: editing_def openConfig_def tui_blank_def)
  have "edited_ok typed_form (config_form ?a)" using terminal.reachable_inv [OF v] sel by (simp add: tui_inv_def editor_ok_def)
  then obtain u1 where u1: "tui_event sample_tui CtrlO (editing v) = Inr u1" "tu_configSaveDone u1" "tu_configSaveOk u1" "tu_screenIndex u1 = 3"
    using editing_saves by blast
  then obtain u2 where u2: "tui_event sample_tui Return u1 = Inr u2" by (simp add: tui_event_def config_event_def)
  have plain: "\<forall>f \<in> set kConfigFields. plain_arguments sample_tui (tu_detailName (editing v)) (value_at (tu_editValues (editing v)) (fd_key f))"
    by (simp add: kConfigFields_def sel plain_arguments_def typed_values, simp add: value_at_def config_form_def default_config_def yes_no_def)
  have acc: "account_in sample_global (tw_configPath sample_tui) (tu_detailName (editing v)) (tu_world (editing v)) (tu_detail (editing v))"
    using tui_world_account by (simp add: sel)
  have f: "cfd ''outgoing_call_target'' Text [] \<in> set kConfigFields" by (simp add: kConfigFields_def)
  from saved_form_takes_effect [OF v sel(4,5) u1(1-3) u2 acc _ _ _ _ plain] have r: "tu_screenIndex u2 = 1"
    "\<forall>f \<in> set kConfigFields. value_at (config_form (tu_detail u2)) (fd_key f) = value_at typed_form (fd_key f)"
    "a_e164 ?a \<noteq> [] \<and> choices_known ?a \<longrightarrow> (\<exists>c. accountConfigFromRecord ''a'' (tu_detail u2) = Inr c)"
    by (simp_all add: sel)
  moreover have "a_outgoing_call_target (tu_detail u2) = ''9''"
    using bspec [OF r(2) f] typed_values(2) by (simp add: value_at_def config_form_def)
  ultimately show ?thesis using u1(1) u2 by (auto simp: choices_known_def default_config_def sample_account_def)
qed

theorem editor_checks_match_daemon_witness:
  "(\<exists>errs. configErrors (config_form (sample_account\<lparr>a_sip_transport := ''tls''\<rparr>)) = Inr errs \<and> ErrTlsRequiresCa \<in> set errs) \<and>
   (\<exists>c. accountConfigFromRecord ''a'' (sample_account\<lparr>a_sip_extension := []\<rparr>) = Inr c) \<and>
   (\<exists>errs. configErrors (config_form (sample_account\<lparr>a_sip_extension := []\<rparr>)) = Inr errs \<and> \<not> set errs \<subseteq> {ErrTlsRequiresCa})"
proof -
  let ?tls = "sample_account\<lparr>a_sip_transport := ''tls''\<rparr>" and ?part = "sample_account\<lparr>a_sip_extension := []\<rparr>"
  have h: "a_e164 ?tls \<noteq> []" "choices_known ?tls" "a_e164 ?part \<noteq> []" "choices_known ?part" by (simp_all add: choices_known_def sample_account_def)
  have d: "\<not> (\<exists>c. accountConfigFromRecord ''a'' ?tls = Inr c)" "\<exists>c. accountConfigFromRecord ''a'' ?part = Inr c"
    unfolding accountConfig_valid_iff by (simp_all add: valid_record_def sample_account_def)
  from editor_checks_match_daemon [OF h(1,2), of "''a''"] d(1) editor_checks_match_daemon [OF h(3,4), of "''a''"] d(2) show ?thesis
    by (auto simp: sample_account_def)
qed

end
