(* ===== verification/TuiScreens.thy ===== *)
theory TuiScreens
  imports TuiEditor
begin

text \<open>
  What the terminal program draws: the screens of \<open>tui/main.cpp\<close> as documents of the terminal library, whose layout engine is not modelled, and the choice of
  a language from \<open>tui/i18n.h\<close>. The texts are an argument (\<open>tr\<close>; theory \<open>Texts\<close> has the table), and so is the text the runs of the tool have printed (\<open>tui_out\<close>).
  Strings are bytes; the characters outside ASCII are written out in UTF-8.
\<close>

section \<open>Languages and texts\<close>

datatype Lang = EN | UK | RU | PL | DE | FR | IT | ES | PT

text \<open>The keys of the translations, by their names.\<close>

type_synonym Key = string

type_synonym texts = "Key \<Rightarrow> string"

definition to_lower :: "char \<Rightarrow> char" where
  "to_lower c = (if 65 \<le> (of_char c :: nat) \<and> (of_char c :: nat) \<le> 90 then char_of (of_char c + 32 :: nat) else c)"

definition to_upper :: "char \<Rightarrow> char" where
  "to_upper c = (if 97 \<le> (of_char c :: nat) \<and> (of_char c :: nat) \<le> 122 then char_of (of_char c - 32 :: nat) else c)"

definition lang_code :: "string \<Rightarrow> string" where
  "lang_code v = map to_lower (takeWhile (\<lambda>c. c \<noteq> CHR ''_'' \<and> c \<noteq> CHR ''.'' \<and> c \<noteq> CHR ''@'') v)"

definition lang_of :: "string \<Rightarrow> Lang option" where
  "lang_of code = map_of [(''en'', EN), (''uk'', UK), (''ru'', RU), (''pl'', PL), (''de'', DE), (''fr'', FR), (''it'', IT), (''es'', ES), (''pt'', PT),
     (''c'', EN), (''posix'', EN)] code"

text \<open>The variables \<open>LC_ALL\<close>, \<open>LC_MESSAGES\<close> and \<open>LANG\<close> in this order; a language there is no text for is passed over.\<close>

fun detectLang :: "string option list \<Rightarrow> Lang" where
  "detectLang [] = EN"
| "detectLang (v # vs) = (case v of None \<Rightarrow> detectLang vs
     | Some x \<Rightarrow> if x = [] then detectLang vs else (case lang_of (lang_code x) of Some l \<Rightarrow> l | None \<Rightarrow> detectLang vs))"

fun find_str :: "string \<Rightarrow> string \<Rightarrow> nat option" where
  "find_str pat [] = (if pat = [] then Some 0 else None)"
| "find_str pat (c # s) = (if take (length pat) (c # s) = pat then Some 0 else map_option Suc (find_str pat s))"

definition format1 :: "texts \<Rightarrow> Key \<Rightarrow> string \<Rightarrow> string" where
  "format1 tr k arg = (case find_str ''{}'' (tr k) of None \<Rightarrow> tr k | Some pos \<Rightarrow> take pos (tr k) @ arg @ drop (pos + 2) (tr k))"

section \<open>Documents\<close>

datatype color = RGB nat nat nat | Black | White

definition kBg :: color where "kBg = RGB 0x0f 0x12 0x18"

definition kBgAlt :: color where "kBgAlt = RGB 0x17 0x1b 0x22"

definition kBorder :: color where "kBorder = RGB 0x2b 0x32 0x3d"

definition kFg :: color where "kFg = RGB 0xda 0xdd 0xe3"

definition kDim :: color where "kDim = RGB 0x7e 0x87 0x99"

definition kAccent :: color where "kAccent = RGB 0xe8 0xa3 0x3d"

definition kGood :: color where "kGood = RGB 0x5c 0xc9 0xa7"

definition kBad :: color where "kBad = RGB 0xe8 0x68 0x7a"

definition kLinked :: color where "kLinked = RGB 0x9e 0xa6 0xc9"

definition kRow :: color where "kRow = RGB 0x1c 0x22 0x2c"

lemmas color_defs = kBg_def kBgAlt_def kBorder_def kFg_def kDim_def kAccent_def kGood_def kBad_def kLinked_def kRow_def

datatype style = Fore color | Back color | Width nat | Max_width nat | Min_height nat | Flex | Border | Center

datatype element = Txt string | Paragraph string | Separator | Filler | Hbox "element list" | Vbox "element list" | Hflow "element list" | Styled style element

abbreviation col :: "color \<Rightarrow> element \<Rightarrow> element" where "col k e \<equiv> Styled (Fore k) e"

abbreviation bgcol :: "color \<Rightarrow> element \<Rightarrow> element" where "bgcol k e \<equiv> Styled (Back k) e"

abbreviation wide :: "nat \<Rightarrow> element \<Rightarrow> element" where "wide n e \<equiv> Styled (Width n) e"

definition bullet :: string where "bullet = [CHR 0xE2, CHR 0x97, CHR 0x8F, CHR '' '']"

definition pointer :: string where "pointer = [CHR 0xE2, CHR 0x96, CHR 0xB8, CHR '' '']"

definition block :: string where "block = [CHR 0xE2, CHR 0x96, CHR 0x88]"

definition dash :: string where "dash = [CHR 0xE2, CHR 0x80, CHR 0x94]"

definition check :: string where "check = [CHR 0xE2, CHR 0x9C, CHR 0x93, CHR '' '']"

definition warning :: string where "warning = [CHR 0xE2, CHR 0x9A, CHR 0xA0, CHR '' '']"

definition cross :: string where "cross = [CHR 0xE2, CHR 0x9C, CHR 0x97, CHR '' '']"

definition ellipsis :: string where "ellipsis = [CHR 0xE2, CHR 0x80, CHR 0xA6]"

definition arrows :: string where "arrows = [CHR 0xE2, CHR 0x86, CHR 0x91, CHR 0xE2, CHR 0x86, CHR 0x93]"

definition enter_sign :: string where "enter_sign = [CHR 0xE2, CHR 0x86, CHR 0xB5]"

definition keyHint :: "string \<Rightarrow> string \<Rightarrow> color \<Rightarrow> element" where
  "keyHint key desc keyColor = Hbox [col keyColor (Txt (''['' @ map to_upper key @ '']'')), col kDim (Txt ('' '' @ desc @ ''  ''))]"

abbreviation hint :: "string \<Rightarrow> string \<Rightarrow> element" where "hint key desc \<equiv> keyHint key desc kAccent"

definition titlebar :: "string \<Rightarrow> element" where
  "titlebar title = bgcol kBgAlt (Hbox [col kBorder (Txt bullet), col kBorder (Txt bullet), col kBorder (Txt bullet), col kDim (Txt title)])"

definition panel :: "color \<Rightarrow> element \<Rightarrow> element \<Rightarrow> element list \<Rightarrow> element" where
  "panel edge bar inner footers = bgcol kBg (col edge (Styled Border (Vbox ([bar, col kBorder Separator,
     col kFg (bgcol kBg (Styled (Min_height 3) (Styled Flex inner))), col kBorder Separator] @ footers))))"

definition cut :: "nat \<Rightarrow> string \<Rightarrow> string" where
  "cut n out = (if n < length out then take n out @ ellipsis else out)"

definition mediaCell :: "texts \<Rightarrow> ViewAccount \<Rightarrow> element" where
  "mediaCell tr a = (if va_sip_host a = [] then col kDim (Txt dash)
     else if va_sip_srtp a = ''mandatory'' then col kGood (Txt (check @ tr ''SrtpMandatory''))
     else if va_sip_srtp a = ''optional'' then col kAccent (Txt (warning @ tr ''SrtpOptional''))
     else col kAccent (Txt (warning @ tr ''StatusDisabled'')))"

definition enabledCell :: "texts \<Rightarrow> ViewAccount \<Rightarrow> element" where
  "enabledCell tr a = (if va_enabled a then col kFg (Hbox [col kGood (Txt bullet), Txt (tr ''StatusEnabled'')])
     else col kDim (Hbox [col kBorder (Txt bullet), Txt (tr ''StatusDisabled'')]))"

definition typeCell :: "texts \<Rightarrow> ViewAccount \<Rightarrow> element" where
  "typeCell tr a = (if va_flow a = ''linked'' then col kLinked (Txt (tr ''TypeLinked'')) else if va_flow a = ''standalone'' then col kFg (Txt (tr ''TypePrimary''))
     else col kDim (Txt ''?''))"

text \<open>\<open>gmtime_r\<close> and \<open>strftime\<close> with \<open>%Y-%m-%d\<close>: the civil date of a day counted from 1970, in eras of 400 years that begin on the first of March.\<close>

definition civil :: "int \<Rightarrow> int \<times> int \<times> int" where
  "civil days = (let z = days + 719468; era = z div 146097; doe = z mod 146097;
       yoe = (doe - doe div 1460 + doe div 36524 - doe div 146096) div 365; doy = doe - (365 * yoe + yoe div 4 - yoe div 100);
       mp = (5 * doy + 2) div 153; d = doy - (153 * mp + 2) div 5 + 1; m = (if mp < 10 then mp + 3 else mp - 9)
     in (yoe + era * 400 + (if m \<le> 2 then 1 else 0), m, d))"

definition two_digits :: "int \<Rightarrow> string" where
  "two_digits n = (if n < 10 then ''0'' else []) @ int_to_string n"

definition formatDate :: "int option \<Rightarrow> string" where
  "formatDate t = (case t of None \<Rightarrow> dash | Some s \<Rightarrow> (case civil (s div 86400) of (y, m, d) \<Rightarrow> int_to_string y @ ''-'' @ two_digits m @ ''-'' @ two_digits d))"

definition signalingRow :: "texts \<Rightarrow> AccountRecord \<Rightarrow> element" where
  "signalingRow tr a = (if a_sip_host a = [] then col kDim (Txt dash) else if a_sip_transport a = ''tls'' then col kGood (Txt (check @ ''TLS (sips:)''))
     else col kAccent (Txt (tr ''SignalingUdpInsecure'')))"

definition mediaRow :: "texts \<Rightarrow> AccountRecord \<Rightarrow> element" where
  "mediaRow tr a = (if a_sip_host a = [] then col kDim (Txt dash) else if a_sip_srtp a = ''mandatory'' then col kGood (Txt (check @ ''SRTP '' @ tr ''SrtpMandatory''))
     else col kAccent (Txt (tr ''MediaSrtpNotGuaranteedPrefix'' @ ''('' @ (if a_sip_srtp a = ''optional'' then tr ''SrtpOptional'' else tr ''StatusDisabled'') @ '')'')))"

section \<open>The screens\<close>

text \<open>What the runs have printed, by the variable that keeps it.\<close>

record tui_out =
  to_confirm :: string
  to_config :: string
  to_signal :: string
  to_wizard :: string
  to_link :: string

definition list_row :: "texts \<Rightarrow> int \<Rightarrow> nat \<times> ViewAccount \<Rightarrow> element" where
  "list_row tr selected = (\<lambda>(i, a). let sel = (int i = selected);
      row = Hbox [col kAccent (Txt (if sel then pointer else ''  '')), col (if sel then kAccent else kFg) (wide 18 (Txt (va_name a))),
        col kFg (wide 16 (Txt (va_e164 a))), wide 9 (typeCell tr a), wide 12 (enabledCell tr a), Styled Flex (mediaCell tr a)]
     in if sel then bgcol kRow row else row)"

text \<open>\<open>loadError\<close> and \<open>detailError\<close> are the texts of the errors, empty when there is none.\<close>

definition error_text :: "exn option \<Rightarrow> string" where
  "error_text e = (case e of None \<Rightarrow> [] | Some x \<Rightarrow> what x)"

definition renderList :: "texts \<Rightarrow> GlobalConfig \<Rightarrow> tui \<Rightarrow> element" where
  "renderList tr g u = (let
      header = col kDim (Hbox [wide 2 (Txt []), wide 18 (Txt (tr ''ColName'')), wide 16 (Txt ''E.164''), wide 9 (Txt (tr ''ColType'')), wide 12 (Txt (tr ''ColStatus'')),
        Styled Flex (Txt (tr ''ColMedia''))]);
      err = error_text (tu_loadError u);
      note = (if err \<noteq> [] then [col kBad (Txt (tr ''DbReadError'' @ err))] else if tu_accounts u = [] then [col kDim (Txt (tr ''NoAccounts''))] else []);
      body = col kFg (Vbox ([header, col kBorder Separator] @ note @ map (list_row tr (tu_selected u)) (enumerate 0 (tu_accounts u))))
     in panel kBorder (titlebar (''  signal2sip-tui '' @ dash @ '' '' @ dbPath g)) body
       [bgcol kBgAlt (Hflow [Txt '' '', hint arrows (tr ''FooterSelect''), hint enter_sign (tr ''FooterDetails''), hint ''n'' (tr ''FooterNew''), hint ''r'' (tr ''FooterRefresh''),
         hint ''q'' (tr ''FooterQuit'')])])"

definition kv :: "string \<Rightarrow> element \<Rightarrow> element" where
  "kv label v = Hbox [col kDim (wide 16 (Txt label)), v]"

definition detail_status :: "texts \<Rightarrow> AccountRecord \<Rightarrow> element list" where
  "detail_status tr a =
     kv (tr ''DetailEnabled'') (if a_enabled a then col kFg (Hbox [col kGood (Txt bullet), Txt (tr ''YesWord'')]) else col kDim (Hbox [col kBorder (Txt bullet), Txt (tr ''NoWord'')])) #
     (if a_sip_host a = [] then [kv ''SIP'' (col kDim (Txt (tr ''DetailSipNone'')))]
      else [kv ''SIP'' (col kFg (Txt (a_sip_extension a @ ''@'' @ a_sip_host a))), kv (tr ''DetailSignaling'') (signalingRow tr a), kv (tr ''DetailMedia'') (mediaRow tr a)])"

definition renderDetail :: "texts \<Rightarrow> tui \<Rightarrow> element" where
  "renderDetail tr u = (let a = tu_detail u;
      linked = (a_flow a = Some ''linked'');
      idRows = [kv ''E.164'' (col kFg (Txt (a_e164 a))), kv ''ACI'' (col kDim (Txt (a_aci a))),
        kv (tr ''ColType'') (if linked then col kLinked (Txt (tr ''TypeLinked'')) else if a_flow a = Some ''standalone'' then col kFg (Txt (tr ''TypePrimary'')) else col kDim (Txt ''?'')),
        kv (if linked then tr ''DetailLinkedAt'' else tr ''DetailRegisteredAt'') (col kFg (Txt (formatDate (if linked then a_linked_at a else a_registered_at a))))];
      err = error_text (tu_detailError u);
      body = (if err \<noteq> [] then [col kBad (Txt (tr ''AccountReadError'' @ err))] else [col kDim (Txt (tr ''SectionIdentity'')), Vbox idRows, Txt [], col kDim (Txt (tr ''SectionStatus'')), Vbox (detail_status tr a)])
     in panel kBorder (titlebar (tr ''DetailTitlebar'' @ tu_detailName u)) (Vbox body)
       [bgcol kBgAlt (Hflow [Txt '' '', hint ''c'' (tr ''FooterConfigureSip''), hint ''s'' (tr ''FooterSignalSettings''),
          hint ''d'' (if a_enabled a then tr ''FooterDisable'' else tr ''FooterEnable''), hint ''u'' ''deactivate'']),
        bgcol kBgAlt (Hflow [Txt '' '', Hbox [col kBad (Txt ''[X]''), col kBad (Txt ('' '' @ tr ''FooterDeleteAccount''))], hint ''esc'' (tr ''FooterBack'')])])"

definition actionTitle :: "texts \<Rightarrow> string \<Rightarrow> PendingAction \<Rightarrow> string" where
  "actionTitle tr name p = (case p of Enable \<Rightarrow> format1 tr ''ActionEnableTitle'' name | Disable \<Rightarrow> format1 tr ''ActionDisableTitle'' name
     | Deactivate \<Rightarrow> format1 tr ''ActionDeactivateTitle'' name | DeleteAccount \<Rightarrow> format1 tr ''ActionDeleteTitle'' name | No_action \<Rightarrow> [])"

definition actionBody :: "texts \<Rightarrow> PendingAction \<Rightarrow> string" where
  "actionBody tr p = (case p of Enable \<Rightarrow> tr ''ActionEnableBody'' | Disable \<Rightarrow> tr ''ActionDisableBody'' | Deactivate \<Rightarrow> tr ''ActionDeactivateBody''
     | DeleteAccount \<Rightarrow> tr ''ActionDeleteBody'' | No_action \<Rightarrow> [])"

definition result_line :: "texts \<Rightarrow> Key \<Rightarrow> int \<Rightarrow> element" where
  "result_line tr failed code = col (if code = 0 then kGood else kBad) (Txt (if code = 0 then tr ''ResultDone'' else format1 tr failed (int_to_string code)))"

definition renderConfirm :: "texts \<Rightarrow> tui_out \<Rightarrow> tui \<Rightarrow> element" where
  "renderConfirm tr out u = (let severe = (tu_pending u = DeleteAccount);
      body = (case tu_lastResult u of
          Some code \<Rightarrow> [result_line tr ''ResultError'' code, Txt [], col kDim (Paragraph (cut 2000 (to_confirm out))), Txt [], col kDim (Txt (tr ''AnyKeyToList''))]
        | None \<Rightarrow> col kFg (Paragraph (actionBody tr (tu_pending u))) #
            (if severe then [Txt [], Hbox [col kDim (Txt (tr ''TypeAccountName'')), col kAccent (Txt (tu_typedConfirm u)), col kAccent (Txt block)]] else []));
      head = bgcol kBgAlt (col (if severe then kBad else kAccent)
        (Txt ('' '' @ (if tu_lastResult u \<noteq> None then tr ''ConfirmAccountLabel'' @ tu_detailName u else actionTitle tr (tu_detailName u) (tu_pending u)))));
      footer = (if tu_lastResult u \<noteq> None then bgcol kBgAlt (col kDim (Txt ('' '' @ tr ''AnyKeyToList'' @ '' '')))
        else if severe then bgcol kBgAlt (Hflow [Txt '' '', hint ''esc'' (tr ''FooterCancel''),
          if tu_typedConfirm u = tu_detailName u then keyHint ''enter'' (tr ''EnterDelete'') kBad else col kDim (Txt (tr ''TypeNameInFull''))])
        else bgcol kBgAlt (Hflow [Txt '' '', hint ''esc'' (tr ''FooterCancel''), hint ''y'' (tr ''FooterConfirm'')]))
     in bgcol kBgAlt (Styled Center (bgcol kBg (col (if severe then kBad else kBorder) (Styled Border
       (Vbox [head, col kBorder Separator, wide 60 (Vbox body), col kBorder Separator, footer]))))))"

definition error_key :: "form_error \<Rightarrow> Key" where
  "error_key e = (case e of ErrSipHostRequired \<Rightarrow> ''ErrSipHostRequired'' | ErrSipExtensionRequired \<Rightarrow> ''ErrSipExtensionRequired'' | ErrSipPasswordRequired \<Rightarrow> ''ErrSipPasswordRequired''
     | ErrTlsRequiresCa \<Rightarrow> ''ErrTlsRequiresCa'')"

definition display_value :: "ConfigFieldDef \<Rightarrow> bool \<Rightarrow> string \<Rightarrow> string" where
  "display_value f active v = (let d = (if fd_kind f = Masked \<and> v \<noteq> [] then replicate (length v) (CHR ''*'') else v)
     in (if d = [] then dash else d) @ (if active then block else []))"

definition config_row :: "form \<Rightarrow> bool \<Rightarrow> nat \<Rightarrow> nat \<times> ConfigFieldDef \<Rightarrow> element result" where
  "config_row v used cur = (\<lambda>(i, f). bindR (map_at v (fd_key f)) (\<lambda>x.
     let active = (i = cur); need = (used \<and> fd_key f \<in> {''sip_host'', ''sip_extension'', ''sip_password''});
       row = Hbox [col kAccent (Txt (if active then pointer else ''  '')), col (if need \<and> x = [] then kBad else kDim) (Txt (if need then ''* '' else ''  '')),
         col kDim (wide 24 (Txt (fd_key f))), col (if active then kAccent else kFg) (Txt (display_value f active x))]
     in Inr (if active then bgcol kRow row else row)))"

definition saved_lines :: "texts \<Rightarrow> bool \<Rightarrow> bool \<Rightarrow> string \<Rightarrow> element list" where
  "saved_lines tr done ok out = (if done then [Txt [], col (if ok then kGood else kBad) (Txt (if ok then tr ''ConfigSaved'' else tr ''ConfigSaveError'')),
     col kDim (Paragraph (cut 1500 out)), Txt [], col kDim (Txt (tr ''AnyKeyBackToAccount''))] else [])"

definition renderConfig :: "texts \<Rightarrow> tui_out \<Rightarrow> tui \<Rightarrow> element result" where
  "renderConfig tr out u = (let v = tu_editValues u in
     bindR (sipFieldsInUse v) (\<lambda>used. bindR (configErrors v) (\<lambda>errs. bindR (configWarnings v) (\<lambda>warn.
     bindR (mapR (config_row v used (tu_editField u)) (enumerate 0 kConfigFields)) (\<lambda>rows.
       let body = [Vbox rows] @ (if errs \<noteq> [] then Txt [] # map (\<lambda>e. col kBad (Txt (cross @ tr (error_key e)))) errs else []) @
         (if warn then [Txt [], col kAccent (Txt (warning @ tr ''WarnBridgeBothSet''))] else []) @ saved_lines tr (tu_configSaveDone u) (tu_configSaveOk u) (to_config out)
       in Inr (panel (if errs = [] then kBorder else kBad) (titlebar (tr ''ConfigTitlebar'' @ tu_detailName u)) (Vbox body)
         [bgcol kBgAlt (Hflow [Txt '' '', hint (arrows @ ''/tab'') (tr ''FooterField''), col kDim (Txt (tr ''FooterTextType'')), hint enter_sign (tr ''FooterListCycles''),
            hint ''^o'' (tr ''FooterSave''), hint ''esc'' (tr ''FooterBack'')])]))))))"

definition signal_row :: "form \<Rightarrow> nat \<Rightarrow> nat \<times> ConfigFieldDef \<Rightarrow> element result" where
  "signal_row v cur = (\<lambda>(i, f). bindR (map_at v (fd_key f)) (\<lambda>x.
     let active = (i = cur);
       row = Hbox [col kAccent (Txt (if active then pointer else ''  '')), col kDim (wide 32 (Txt (fd_key f))),
         col (if active then kAccent else kFg) (Txt ((if x = [] then dash else x) @ (if active then block else [])))]
     in Inr (if active then bgcol kRow row else row)))"

definition renderSignalConfig :: "texts \<Rightarrow> tui_out \<Rightarrow> tui \<Rightarrow> element result" where
  "renderSignalConfig tr out u =
     bindR (mapR (signal_row (tu_signalEditValues u) (tu_signalEditField u)) (enumerate 0 kSignalConfigFields)) (\<lambda>rows.
       Inr (panel kBorder (titlebar (tr ''SignalConfigTitlebar'' @ tu_detailName u))
         (Vbox ([Vbox rows] @ saved_lines tr (tu_signalSaveDone u) (tu_signalSaveOk u) (to_signal out)))
         [bgcol kBgAlt (Hflow [hint (arrows @ ''/tab'') (tr ''FooterField''), col kDim (Txt (tr ''SignalConfigTypeText'')), hint enter_sign (tr ''FooterListCycles''),
            hint ''^o'' (tr ''FooterSave''), hint ''esc'' (tr ''FooterBack'')])]))"

section \<open>The wizard\<close>

definition fieldRow :: "string \<Rightarrow> string \<Rightarrow> bool \<Rightarrow> element" where
  "fieldRow label v active = (let row = Hbox [col kAccent (Txt (if active then pointer else ''  '')), col kDim (wide 20 (Txt label)),
       col (if active then kAccent else kFg) (Txt (v @ (if active then block else [])))]
     in if active then bgcol kRow row else row)"

text \<open>Escape sequences end with the next \<open>m\<close>, or with the text.\<close>

function stripAnsi :: "string \<Rightarrow> string" where
  "stripAnsi [] = []"
| "stripAnsi [c] = [c]"
| "stripAnsi (c # d # s) = (if c = CHR 27 \<and> d = CHR ''['' then stripAnsi (drop 1 (dropWhile (\<lambda>x. x \<noteq> CHR ''m'') s)) else c # stripAnsi (d # s))"
  by pat_completeness auto
termination
proof (relation "measure length")
  fix c d :: char and s :: string
  have "length (dropWhile (\<lambda>x. x \<noteq> CHR ''m'') s) \<le> length s" by (rule length_dropWhile_le)
  then show "(drop 1 (dropWhile (\<lambda>x. x \<noteq> CHR ''m'') s), c # d # s) \<in> measure length" by simp
qed simp_all

definition utf8ColumnWidth :: "string \<Rightarrow> nat" where
  "utf8ColumnWidth s = length (filter (\<lambda>c. chr_byte c AND 0xC0 \<noteq> 0x80) s)"

function text_lines :: "string \<Rightarrow> string list" where
  "text_lines s = takeWhile (\<lambda>c. c \<noteq> CHR 10) s # (case dropWhile (\<lambda>c. c \<noteq> CHR 10) s of [] \<Rightarrow> [] | _ # r \<Rightarrow> text_lines r)"
  by auto
termination
proof (relation "measure length")
  fix s :: string and x r
  assume "dropWhile (\<lambda>c. c \<noteq> CHR 10) s = x # r"
  then have "length (x # r) \<le> length s" by (metis length_dropWhile_le)
  then show "(r, s) \<in> measure length" by simp
qed simp

declare text_lines.simps [simp del]

definition emitPlainLines :: "string \<Rightarrow> element list" where
  "emitPlainLines segment = map (\<lambda>l. col kFg (Txt l)) (text_lines (stripAnsi segment))"

definition kQrStart :: string where "kQrStart = CHR 27 # ''[30;107m''"

definition kQrEnd :: string where "kQrEnd = CHR 27 # ''[0m''"

definition qr_row :: "string \<Rightarrow> element" where
  "qr_row line = wide (utf8ColumnWidth line) (bgcol White (col Black (Txt line)))"

definition pushLines :: "string \<Rightarrow> element list" where
  "pushLines rawOut = (case find_str kQrStart rawOut of None \<Rightarrow> emitPlainLines rawOut
     | Some start \<Rightarrow> let rest = drop (start + length kQrStart) rawOut in
         (case find_str kQrEnd rest of None \<Rightarrow> emitPlainLines rawOut
          | Some len \<Rightarrow> emitPlainLines (take start rawOut) @ map qr_row (text_lines (take len rest)) @ emitPlainLines (drop (len + length kQrEnd) rest)))"

definition wiz_error_key :: "wiz_error \<Rightarrow> Key" where
  "wiz_error_key e = (case e of ErrEnterAccountName \<Rightarrow> ''ErrEnterAccountName'' | ErrAccountExists \<Rightarrow> ''ErrAccountExists'' | ErrEnterE164 \<Rightarrow> ''ErrEnterE164'')"

definition wiz_error_lines :: "texts \<Rightarrow> tui \<Rightarrow> element list" where
  "wiz_error_lines tr u = (case tu_wizError u of None \<Rightarrow> [] | Some e \<Rightarrow> [Txt [], col kBad (Txt (cross @ tr (wiz_error_key e)))])"

definition result_lines :: "texts \<Rightarrow> tui_out \<Rightarrow> tui \<Rightarrow> element list" where
  "result_lines tr out u = (case tu_wizResult u of None \<Rightarrow> [] | Some code \<Rightarrow> [result_line tr ''ResultError'' code, Txt [], col kFg (Paragraph (to_wizard out))])"

definition any_key :: "texts \<Rightarrow> element" where
  "any_key tr = bgcol kBgAlt (col kDim (Txt ('' '' @ tr ''AnyKeyToList'' @ '' '')))"

text \<open>The suffix of the title, the body and the footer of each step.\<close>

definition wizard_parts :: "texts \<Rightarrow> tui_out \<Rightarrow> tui \<Rightarrow> string \<times> element list \<times> element" where
  "wizard_parts tr out u = (case tu_wizardStep u of
       ChooseType \<Rightarrow> (tr ''WizardNewAccount'',
         [fieldRow (tr ''FieldAccountName'') (tu_wizName u) (tu_wizField u = 0), fieldRow (tr ''FieldMethod'') (if tu_wizLink u then ''link (QR)'' else tr ''MethodRegister'') (tu_wizField u = 1),
          Txt [], col kDim (Txt (tr ''WizardNameHint''))] @ wiz_error_lines tr u,
         bgcol kBgAlt (Hflow [Txt '' '', hint arrows (tr ''FooterField''), hint enter_sign (tr ''FooterToggleMethod''), hint ''^o'' (tr ''FooterNext''), hint ''esc'' (tr ''FooterCancel'')]))
     | RegisterForm \<Rightarrow> (tr ''WizardRegistration'' @ tu_wizName u,
         [fieldRow ''e164 (+...)'' (tu_wizE164 u) (tu_wizField u = 0), fieldRow (tr ''FieldCodeMethod'') (tu_wizTransport u) (tu_wizField u = 1)] @ wiz_error_lines tr u,
         bgcol kBgAlt (Hflow [Txt '' '', hint arrows (tr ''FooterField''), hint enter_sign (tr ''FooterToggleCodeMethod''), hint ''^o'' (tr ''FooterRegister''), hint ''esc'' (tr ''FooterCancel'')]))
     | RegisterResult \<Rightarrow> (tr ''WizardResult'' @ tu_wizName u, result_lines tr out u,
         bgcol kBgAlt (Hflow [Txt '' '', hint ''g'' ''captcha'', hint ''v'' (tr ''FooterEnterCode''), hint ''esc'' (tr ''FooterToList'')]))
     | CaptchaResult \<Rightarrow> (tr ''WizardResult'' @ tu_wizName u, result_lines tr out u, bgcol kBgAlt (Hflow [Txt '' '', hint ''v'' (tr ''FooterEnterCode''), hint ''esc'' (tr ''FooterToList'')]))
     | CaptchaForm \<Rightarrow> (''captcha: '' @ tu_wizName u, [col kDim (Paragraph (tr ''CaptchaInstructions'')), Txt [], fieldRow (tr ''FieldToken'') (tu_wizCaptchaToken u) True],
         bgcol kBgAlt (Hflow [col kDim (Txt (tr ''FooterTypeToken'')), hint ''^o'' (tr ''FooterSubmit''), hint ''esc'' (tr ''FooterCancel'')]))
     | VerifyForm \<Rightarrow> (tr ''WizardVerify'' @ tu_wizName u, [fieldRow (tr ''FieldSmsCode'') (tu_wizVerifyCode u) True],
         bgcol kBgAlt (Hflow [col kDim (Txt (tr ''FooterTypeCode'')), hint ''^o'' (tr ''FooterConfirm''), hint ''esc'' (tr ''FooterCancel'')]))
     | VerifyResult \<Rightarrow> (tr ''WizardResult'' @ tu_wizName u, result_lines tr out u, any_key tr)
     | LinkWaiting \<Rightarrow> (tr ''WizardLinking'' @ tu_wizName u, [col kDim (Txt (tr ''LinkWaitingInstructions'')), Txt []] @ pushLines (to_link out),
         bgcol kBgAlt (Hflow [Txt '' '', hint ''esc'' (tr ''FooterCancelWaiting'')]))
     | LinkResult \<Rightarrow> (tr ''WizardLinking'' @ tu_wizName u,
         (case tu_wizResult u of None \<Rightarrow> [] | Some code \<Rightarrow> [result_line tr ''ResultErrorCancelled'' code, Txt []] @ pushLines (to_wizard out)), any_key tr))"

definition renderWizard :: "texts \<Rightarrow> tui_out \<Rightarrow> tui \<Rightarrow> element" where
  "renderWizard tr out u = (case wizard_parts tr out u of (title, parts, footer) \<Rightarrow> panel kBorder (titlebar (tr ''WizardTitlebar'' @ title)) (Vbox parts) [footer])"

definition kMaxPanelWidth :: nat where "kMaxPanelWidth = 110"

definition render_screen :: "texts \<Rightarrow> GlobalConfig \<Rightarrow> tui_out \<Rightarrow> tui \<Rightarrow> element result" where
  "render_screen tr g out u =
     (if tu_screenIndex u = 2 then Inr (renderConfirm tr out u)
      else bindR (if tu_screenIndex u = 0 then Inr (renderList tr g u) else if tu_screenIndex u = 1 then Inr (renderDetail tr u)
          else if tu_screenIndex u = 3 then renderConfig tr out u else if tu_screenIndex u = 5 then renderSignalConfig tr out u else Inr (renderWizard tr out u))
        (\<lambda>content. Inr (bgcol kBg (Hbox [Filler, Styled (Max_width kMaxPanelWidth) content, Filler]))))"

section \<open>The link code on the screen\<close>

lemma find_str_marker: "CHR 27 \<notin> set pre \<Longrightarrow> find_str (CHR 27 # pat) (pre @ (CHR 27 # pat) @ s) = Some (length pre)"
  by (induction pre) auto

lemma text_lines_concat:
  assumes "\<forall>l \<in> set ls. CHR 10 \<notin> set l"
  shows "text_lines (concat (map (\<lambda>l. l @ [CHR 10]) ls)) = ls @ [[]]"
  using assms
proof (induction ls)
  case Nil
  show ?case by (simp add: text_lines.simps)
next
  case (Cons l ls)
  let ?r = "concat (map (\<lambda>l. l @ [CHR 10]) ls)"
  have "takeWhile (\<lambda>c. c \<noteq> CHR 10) (l @ CHR 10 # ?r) = l" "dropWhile (\<lambda>c. c \<noteq> CHR 10) (l @ CHR 10 # ?r) = CHR 10 # ?r"
    using Cons.prems by (auto simp: takeWhile_tail dropWhile_append3)
  then show ?case using Cons by (subst text_lines.simps) simp
qed

definition screen_line :: "QRcode \<Rightarrow> int \<Rightarrow> string" where
  "screen_line qr y = map byte_chr (ascii_line qr y)"

lemma screen_line_facts:
  "utf8ColumnWidth (screen_line qr y) = qr_width qr + 12" "CHR 10 \<notin> set (screen_line qr y)" "CHR 27 \<notin> set (screen_line qr y)"
proof -
  have g: "length (filter (\<lambda>b. b AND 0xC0 \<noteq> 0x80) (glyph p q)) = 1" for p q by (simp add: glyph_def)
  have "length (filter (\<lambda>b. b AND 0xC0 \<noteq> 0x80) (concat (map (\<lambda>x. glyph (f x) (h x)) xs))) = length xs" for f h and xs :: "int list"
    by (induction xs) (simp_all only: list.map concat.simps filter_append length_append g, simp_all)
  then show "utf8ColumnWidth (screen_line qr y) = qr_width qr + 12"
    by (simp add: utf8ColumnWidth_def screen_line_def ascii_line_def filter_map comp_def)
  have b: "b \<noteq> chr_byte c" if "b \<in> set (ascii_line qr y)" "chr_byte c \<notin> {0xE2, 0x96, 0x88, 0x80, 0x84, 0x20}" for b c
    using that by (auto simp: ascii_line_def glyph_def split: if_splits)
  have "chr_byte (CHR 10) = 10" "chr_byte (CHR 27) = 27" by (simp_all add: chr_byte_def)
  then show "CHR 10 \<notin> set (screen_line qr y)" "CHR 27 \<notin> set (screen_line qr y)"
    using b [of _ "CHR 10"] b [of _ "CHR 27"] by (auto simp: screen_line_def)
qed

lemma printed_code: "map byte_chr (printQrAscii qr) = kQrStart @ concat (map (\<lambda>l. l @ [CHR 10]) (map (map byte_chr) (ascii_lines qr (- 6)))) @ kQrEnd"
proof -
  have "chr_byte (CHR 10) = 10" by (simp add: chr_byte_def)
  then have "byte_chr 10 = CHR 10" by (metis byte_chr_chr_byte)
  then show ?thesis by (simp add: printQrAscii_def kQrStart_def kQrEnd_def map_concat comp_def)
qed

text \<open>
  C17: The code for linking arrives on the screen as it was printed. Whatever the tool prints around it, the terminal program finds the block between the escape sequences and
  draws each of its lines in black on white, exactly as wide as the code with its quiet zone, and reading these lines back cell by cell gives the modules of the code.
\<close>

theorem tui_shows_code:
  assumes "CHR 27 \<notin> set pre"
  shows "\<exists>ls. pushLines (pre @ map byte_chr (printQrAscii qr) @ post) = emitPlainLines pre @ map qr_row (ls @ [[]]) @ emitPlainLines post \<and>
    length ls = nat ((int (qr_width qr) + 13) div 2) \<and>
    (\<forall>k < length ls. utf8ColumnWidth (ls ! k) = qr_width qr + 12 \<and> read_cells (map chr_byte (ls ! k)) =
       Some (map (\<lambda>x. (dark qr x (2 * int k - 6), dark qr x (2 * int k - 5))) [- 6..int (qr_width qr) + 5]))"
proof -
  define ls where "ls = map (\<lambda>k. screen_line qr (2 * int k - 6)) [0..<nat ((int (qr_width qr) + 13) div 2)]"
  have ls: "map (map byte_chr) (ascii_lines qr (- 6)) = ls" by (simp add: ls_def ascii_lines_map screen_line_def algebra_simps)
  let ?b = "concat (map (\<lambda>l. l @ [CHR 10]) ls)"
  have out: "pre @ map byte_chr (printQrAscii qr) @ post = pre @ kQrStart @ ?b @ kQrEnd @ post" by (simp add: printed_code ls)
  have "find_str kQrStart (pre @ kQrStart @ ?b @ kQrEnd @ post) = Some (length pre)" unfolding kQrStart_def by (rule find_str_marker [OF assms])
  moreover have "CHR 27 \<notin> set ?b" using screen_line_facts(3) by (auto simp: ls_def)
  then have "find_str kQrEnd (?b @ kQrEnd @ post) = Some (length ?b)" unfolding kQrEnd_def by (rule find_str_marker)
  moreover have "text_lines ?b = ls @ [[]]" using screen_line_facts(2) by (intro text_lines_concat) (auto simp: ls_def)
  ultimately have "pushLines (pre @ map byte_chr (printQrAscii qr) @ post) = emitPlainLines pre @ map qr_row (ls @ [[]]) @ emitPlainLines post"
    unfolding out by (simp add: pushLines_def Let_def)
  moreover have "utf8ColumnWidth (ls ! k) = qr_width qr + 12 \<and> read_cells (map chr_byte (ls ! k)) =
       Some (map (\<lambda>x. (dark qr x (2 * int k - 6), dark qr x (2 * int k - 5))) [- 6..int (qr_width qr) + 5])" if "k < length ls" for k
  proof -
    have "ls ! k = screen_line qr (2 * int k - 6)" using that by (simp add: ls_def)
    moreover have "read_cells (ascii_line qr y) = Some (map (\<lambda>x. (dark qr x y, dark qr x (y + 1))) [- 6..int (qr_width qr) + 5])" for y
      unfolding ascii_line_def by (rule read_cells_line)
    ultimately show ?thesis using screen_line_facts(1) by (simp add: screen_line_def comp_def algebra_simps)
  qed
  ultimately show ?thesis by (intro exI [of _ ls]) (simp add: ls_def)
qed

theorem tui_shows_code_witness:
  "\<exists>ls. pushLines (''scan this'' @ map byte_chr (printQrAscii \<lparr>qr_width = 1, qr_data = [1]\<rparr>) @ ''waiting'') =
     emitPlainLines ''scan this'' @ map qr_row (ls @ [[]]) @ emitPlainLines ''waiting'' \<and> length ls = 7 \<and> utf8ColumnWidth (ls ! 3) = 13"
proof -
  obtain ls where "pushLines (''scan this'' @ map byte_chr (printQrAscii \<lparr>qr_width = 1, qr_data = [1]\<rparr>) @ ''waiting'') =
     emitPlainLines ''scan this'' @ map qr_row (ls @ [[]]) @ emitPlainLines ''waiting''" "length ls = 7" "\<forall>k < length ls. utf8ColumnWidth (ls ! k) = 13"
    using tui_shows_code [of "''scan this''" "\<lparr>qr_width = 1, qr_data = [1]\<rparr>" "''waiting''"] by auto
  then show ?thesis by auto
qed

section \<open>What is not on the screen\<close>

abbreviation with_password :: "form \<Rightarrow> string \<Rightarrow> form" where
  "with_password v p \<equiv> v(''sip_password'' \<mapsto> p)"

lemma mapR_cong: "(\<And>x. x \<in> set xs \<Longrightarrow> f x = h x) \<Longrightarrow> mapR f xs = mapR h xs"
  by (induction xs) simp_all

lemma mapR_ends: "(\<And>x. x \<in> set xs \<Longrightarrow> \<exists>y. f x = Inr y) \<Longrightarrow> \<exists>ys. mapR f xs = Inr ys"
proof (induction xs)
  case (Cons x xs)
  obtain y ys where "f x = Inr y" "mapR f xs = Inr ys" using Cons by (metis list.set_intros)
  then show ?case by simp
qed simp

lemma enumerated: "x \<in> set (enumerate n xs) \<Longrightarrow> snd x \<in> set xs"
  by (auto simp: in_set_enumerate_eq intro!: nth_mem dest!: sym [of _ "snd x"])

lemma masked_field: "f \<in> set kConfigFields \<Longrightarrow> fd_key f = ''sip_password'' \<Longrightarrow> fd_kind f = Masked"
proof -
  have "list_all (\<lambda>f. fd_key f = ''sip_password'' \<longrightarrow> fd_kind f = Masked) kConfigFields" by (simp add: kConfigFields_def)
  then show "f \<in> set kConfigFields \<Longrightarrow> fd_key f = ''sip_password'' \<Longrightarrow> fd_kind f = Masked" by (simp add: list_all_iff)
qed

lemma masked_display: "fd_kind f = Masked \<Longrightarrow> length p = length x \<Longrightarrow> display_value f active p = display_value f active x"
  by (cases "x = []") (auto simp: display_value_def Let_def)

lemma config_row_masked:
  assumes "edited_ok v old" "length p = length (value_at v ''sip_password'')" "f \<in> set kConfigFields"
  shows "config_row (with_password v p) used cur (i, f) = config_row v used cur (i, f)"
proof (cases "fd_key f = ''sip_password''")
  case True
  have x: "map_at v (fd_key f) = Inr (value_at v (fd_key f))" using form_lookup [OF assms(1)] assms(3) by simp
  have e: "(p = []) = (value_at v ''sip_password'' = [])" using assms(2) by auto
  show ?thesis
    using x True masked_display [OF masked_field [OF assms(3) True] assms(2)] e by (simp add: config_row_def map_at_def [of "with_password v p"] Let_def)
next
  case False
  then show ?thesis by (simp add: config_row_def map_at_def)
qed

lemma password_emptiness:
  assumes "edited_ok v old" "length p = length (value_at v ''sip_password'')"
  shows "sipFieldsInUse (with_password v p) = sipFieldsInUse v" "configErrors (with_password v p) = configErrors v" "configWarnings (with_password v p) = configWarnings v"
proof -
  have l: "map_at (with_password v p) ''sip_password'' = Inr p" "map_at v ''sip_password'' = Inr (value_at v ''sip_password'')"
    "k \<noteq> ''sip_password'' \<Longrightarrow> map_at (with_password v p) k = map_at v k" for k
    using form_lookups(3) [OF assms(1)] by (simp_all add: map_at_def)
  have e: "(p = []) = (value_at v ''sip_password'' = [])" using assms(2) by auto
  show s: "sipFieldsInUse (with_password v p) = sipFieldsInUse v" by (simp add: sipFieldsInUse_def l e cong: if_cong)
  have "tls_unverified (with_password v p) = tls_unverified v" by (simp add: tls_unverified_def l cong: if_cong)
  then show "configErrors (with_password v p) = configErrors v" by (simp add: configErrors_def s required_def l e cong: if_cong)
  show "configWarnings (with_password v p) = configWarnings v" by (simp add: configWarnings_def l cong: if_cong)
qed

lemma renderConfig_masked:
  assumes "edited_ok (tu_editValues u) old" "length p = length (value_at (tu_editValues u) ''sip_password'')"
  shows "renderConfig tr out (u\<lparr>tu_editValues := with_password (tu_editValues u) p, tu_detail := a\<rparr>) = renderConfig tr out u"
proof -
  have "mapR (config_row (with_password (tu_editValues u) p) used (tu_editField u)) (enumerate 0 kConfigFields) =
    mapR (config_row (tu_editValues u) used (tu_editField u)) (enumerate 0 kConfigFields)" for used
    using config_row_masked [OF assms] by (intro mapR_cong) (auto dest: enumerated)
  then show ?thesis by (simp add: renderConfig_def password_emptiness [OF assms] Let_def)
qed

lemma config_drawn:
  assumes "edited_ok (tu_editValues u) old"
  shows "\<exists>e. renderConfig tr out u = Inr e"
proof -
  let ?v = "tu_editValues u"
  have k: "map_at ?v k = Inr (value_at ?v k)" if "k \<in> set (map fd_key kConfigFields)" for k using form_lookup [OF assms that] .
  have "\<exists>used. sipFieldsInUse ?v = Inr used" by (auto simp: sipFieldsInUse_def form_lookups [OF assms] cong: if_cong)
  moreover have "\<exists>warn. configWarnings ?v = Inr warn"
    using k [of "''sip_bridge_destination''"] k [of "''sip_bridge_did''"] by (auto simp: configWarnings_def kConfigFields_def)
  ultimately obtain used warn errs where r: "sipFieldsInUse ?v = Inr used" "configWarnings ?v = Inr warn" "configErrors ?v = Inr errs"
    using configErrors_ends [OF assms] by blast
  have "\<exists>ys. mapR (config_row ?v used (tu_editField u)) (enumerate 0 kConfigFields) = Inr ys"
  proof (rule mapR_ends)
    fix x
    assume "x \<in> set (enumerate 0 kConfigFields)"
    from k [of "fd_key (snd x)"] enumerated [OF this] show "\<exists>y. config_row ?v used (tu_editField u) x = Inr y" by (cases x) (simp add: config_row_def Let_def)
  qed
  then obtain ys where "mapR (config_row ?v used (tu_editField u)) (enumerate 0 kConfigFields) = Inr ys" by blast
  with r show ?thesis by (simp add: renderConfig_def Let_def)
qed

lemma signal_drawn: "signal_ok (tu_signalEditValues u) \<Longrightarrow> \<exists>e. renderSignalConfig tr out u = Inr e"
proof -
  assume s: "signal_ok (tu_signalEditValues u)"
  have "\<exists>ys. mapR (signal_row (tu_signalEditValues u) (tu_signalEditField u)) (enumerate 0 kSignalConfigFields) = Inr ys"
  proof (rule mapR_ends)
    fix x
    assume "x \<in> set (enumerate 0 kSignalConfigFields)"
    from enumerated [OF this] obtain i f where x: "x = (i, f)" "f \<in> set kSignalConfigFields" by (cases x) simp
    obtain y where "tu_signalEditValues u (fd_key f) = Some y" using s x(2) by (auto simp: signal_ok_def)
    then show "\<exists>y. signal_row (tu_signalEditValues u) (tu_signalEditField u) x = Inr y" by (simp add: x(1) signal_row_def map_at_def Let_def)
  qed
  then show ?thesis by (auto simp: renderSignalConfig_def)
qed

lemma password_masked:
  assumes "tui_reachable t w u" "length p = length (value_at (tu_editValues u) ''sip_password'')"
  shows "\<exists>e. render_screen tr g out u = Inr e \<and>
    render_screen tr g out (u\<lparr>tu_editValues := with_password (tu_editValues u) p, tu_detail := (tu_detail u)\<lparr>a_sip_password := q\<rparr>\<rparr>) = Inr e"
proof -
  note i = terminal.reachable_inv [OF assms(1)]
  let ?u = "u\<lparr>tu_editValues := with_password (tu_editValues u) p, tu_detail := (tu_detail u)\<lparr>a_sip_password := q\<rparr>\<rparr>"
  have "renderDetail tr ?u = renderDetail tr u"
    by (cases "error_text (tu_detailError u) = []") (simp_all add: renderDetail_def detail_status_def signalingRow_def mediaRow_def Let_def cong: if_cong)
  moreover have "renderConfirm tr out ?u = renderConfirm tr out u" by (cases "tu_lastResult u") (simp_all add: renderConfirm_def Let_def)
  moreover have "renderList tr g ?u = renderList tr g u" "renderSignalConfig tr out ?u = renderSignalConfig tr out u"
    by (simp_all add: renderList_def renderSignalConfig_def Let_def cong: option.case_cong)
  moreover have "renderWizard tr out ?u = renderWizard tr out u"
    by (cases "tu_wizardStep u"; cases "tu_wizResult u") (simp_all add: renderWizard_def wizard_parts_def wiz_error_lines_def result_lines_def)
  moreover have "renderConfig tr out ?u = renderConfig tr out u" "\<exists>e. renderConfig tr out u = Inr e" if "tu_screenIndex u = 3"
    using i that assms(2) by (auto simp: tui_inv_def editor_ok_def intro!: renderConfig_masked config_drawn)
  moreover have "\<exists>e. renderSignalConfig tr out u = Inr e" if "tu_screenIndex u = 5" using i that by (auto simp: tui_inv_def intro!: signal_drawn)
  ultimately show ?thesis by (auto simp: render_screen_def)
qed

lemma unsaved_output: "\<not> tu_configSaveDone u \<Longrightarrow> renderConfig tr (out\<lparr>to_config := x\<rparr>) u = renderConfig tr out u"
  by (simp add: renderConfig_def saved_lines_def)

lemma other_output: "tu_screenIndex u \<noteq> 3 \<Longrightarrow> render_screen tr g (out\<lparr>to_config := x\<rparr>) u = render_screen tr g out u"
  by (cases "tu_wizardStep u"; cases "tu_wizResult u"; cases "tu_lastResult u")
    (simp_all add: render_screen_def renderConfirm_def renderSignalConfig_def renderWizard_def wizard_parts_def wiz_error_lines_def result_lines_def Let_def)

text \<open>
  C38: Every screen the program can get to is drawn, and until a save has ended none of them shows the SIP password: with another password of the same length in
  the editor, any other in the account record, and whatever the runs of \<open>config set\<close> have printed, the screen is the same. The screen of a save that has ended is
  excepted: it shows what the runs printed, and the runs print the values they store (\<open>saved_output_shown\<close>, \<open>config_set_prints_value\<close>).
\<close>

theorem password_masked_until_saved:
  assumes "tui_reachable t w u" "length p = length (value_at (tu_editValues u) ''sip_password'')" "\<not> (tu_screenIndex u = 3 \<and> tu_configSaveDone u)"
  shows "\<exists>e. render_screen tr g out u = Inr e \<and>
    render_screen tr g (out\<lparr>to_config := x\<rparr>) (u\<lparr>tu_editValues := with_password (tu_editValues u) p, tu_detail := (tu_detail u)\<lparr>a_sip_password := q\<rparr>\<rparr>) = Inr e"
proof -
  let ?u = "u\<lparr>tu_editValues := with_password (tu_editValues u) p, tu_detail := (tu_detail u)\<lparr>a_sip_password := q\<rparr>\<rparr>"
  obtain e where e: "render_screen tr g out u = Inr e" "render_screen tr g out ?u = Inr e" using password_masked [OF assms(1,2)] by blast
  have "render_screen tr g (out\<lparr>to_config := x\<rparr>) ?u = render_screen tr g out ?u"
  proof (cases "tu_screenIndex u = 3")
    case True
    then have "\<not> tu_configSaveDone ?u" using assms(3) by simp
    with unsaved_output [OF this, of tr x out] True show ?thesis by (simp add: render_screen_def)
  qed (simp add: other_output)
  with e show ?thesis by auto
qed


theorem password_masked_until_saved_witness:
  "\<exists>v e. render_screen (\<lambda>k. k) sample_global \<lparr>to_confirm = [], to_config = [], to_signal = [], to_wizard = [], to_link = []\<rparr> (editing v) = Inr e \<and> tu_screenIndex (editing v) = 3"
proof -
  obtain v where v: "tui_reachable sample_tui tui_world (editing v)" using editing_reachable by blast
  have "\<not> tu_configSaveDone (editing v)" "tu_screenIndex (editing v) = 3" by (simp_all add: editing_def openConfig_def tui_blank_def)
  with password_masked_until_saved [OF v refl, where tr = "\<lambda>k. k" and g = sample_global] show ?thesis by blast
qed

section \<open>What the screen says\<close>

fun parts :: "element \<Rightarrow> element set" where
  "parts (Hbox es) = insert (Hbox es) (\<Union>e \<in> set es. parts e)"
| "parts (Vbox es) = insert (Vbox es) (\<Union>e \<in> set es. parts e)"
| "parts (Hflow es) = insert (Hflow es) (\<Union>e \<in> set es. parts e)"
| "parts (Styled s e) = insert (Styled s e) (parts e)"
| "parts e = {e}"

text \<open>After a save the screen shows what the runs of \<open>config set\<close> have printed, and each run that stored a value has printed it, the password's in clear as well.\<close>

theorem saved_output_shown:
  assumes "tui_reachable t w u" "tu_screenIndex u = 3" "tu_configSaveDone u"
  shows "\<exists>e. render_screen tr g out u = Inr e \<and> col kDim (Paragraph (cut 1500 (to_config out))) \<in> parts e"
proof -
  have "\<exists>e. renderConfig tr out u = Inr e" using terminal.reachable_inv [OF assms(1)] assms(2) by (auto simp: tui_inv_def editor_ok_def intro!: config_drawn)
  then obtain e where e: "renderConfig tr out u = Inr e" by blast
  then have "col kDim (Paragraph (cut 1500 (to_config out))) \<in> parts e"
    using assms(3) by (auto simp: renderConfig_def Let_def panel_def saved_lines_def bindR_Inr_iff)
  then show ?thesis using assms(2) e by (simp add: render_screen_def bindR_def)
qed

theorem config_set_prints_value:
  assumes "cmdConfigSet e g name field v w = (Inr (), w')"
  shows "(''[config] '' @ name @ '': '' @ field @ ''='' @ v) \<in> set (gd_out w')"
proof -
  let ?line = "''[config] '' @ name @ '': '' @ field @ ''='' @ v"
  have "\<exists>w1 w2. say ?line w1 = (Inr (), w2) \<and> signalDaemonBestEffort e g w2 = (Inr (), w')"
    using assms unfolding cmdConfigSet_def by (elim bindS_cases) (blast | simp)+
  then obtain w1 where "signalDaemonBestEffort e g (w1\<lparr>gd_out := gd_out w1 @ [?line]\<rparr>) = (Inr (), w')"
    by (auto simp: say_def returnS_def)
  then have "\<exists>more. gd_out w' = (gd_out w1 @ [?line]) @ more"
    by (auto simp: signalDaemonBestEffort_def say_def returnS_def Let_def split: option.splits if_splits)
  then show ?thesis by auto
qed

theorem saved_output_shown_witness:
  "\<exists>v u1 e. tui_event sample_tui CtrlO (editing v) = Inr u1 \<and>
     render_screen (\<lambda>k. k) sample_global \<lparr>to_confirm = [], to_config = ''[config] a: sip_password=secret'', to_signal = [], to_wizard = [], to_link = []\<rparr> u1 = Inr e \<and>
     col kDim (Paragraph ''[config] a: sip_password=secret'') \<in> parts e"
proof -
  obtain v where v: "tui_reachable sample_tui tui_world (editing v)" using editing_reachable by blast
  have sel: "tu_editValues (editing v) = typed_form" "tu_screenIndex (editing v) = 3" "tu_originalValues (editing v) = config_form (default_config sample_account)"
    "tu_detail (editing v) = default_config sample_account"
    by (simp_all add: editing_def openConfig_def tui_blank_def)
  have "edited_ok typed_form (config_form (default_config sample_account))" using terminal.reachable_inv [OF v] sel by (simp add: tui_inv_def editor_ok_def)
  then obtain u1 where u1: "tui_event sample_tui CtrlO (editing v) = Inr u1" "tu_configSaveDone u1" "tu_screenIndex u1 = 3"
    using editing_saves by blast
  have r: "tui_reachable sample_tui tui_world u1" by (rule reach_step [OF v], rule tui_step.key [OF _ u1(1)]) (simp add: editing_def openConfig_def tui_blank_def)
  from saved_output_shown [OF r u1(3,2), of "\<lambda>k. k" sample_global
      "\<lparr>to_confirm = [], to_config = ''[config] a: sip_password=secret'', to_signal = [], to_wizard = [], to_link = []\<rparr>"] u1(1)
  show ?thesis by (auto simp: cut_def)
qed

text \<open>The colours in which something is written.\<close>

definition ink :: "element \<Rightarrow> color set" where
  "ink e = {k. \<exists>x. Styled (Fore k) x \<in> parts e}"

lemma ink_simps [simp]:
  "ink (Txt s) = {}" "ink (Paragraph s) = {}" "ink Separator = {}" "ink Filler = {}"
  "ink (Hbox es) = (\<Union>e \<in> set es. ink e)" "ink (Vbox es) = (\<Union>e \<in> set es. ink e)" "ink (Hflow es) = (\<Union>e \<in> set es. ink e)"
  "ink (Styled st e) = (case st of Fore k \<Rightarrow> {k} | _ \<Rightarrow> {}) \<union> ink e"
  by (auto simp: ink_def split: style.split)

lemma ink_hint: "ink (keyHint key desc k) = {k, kDim}"
  by (auto simp: keyHint_def)

lemma list_row_not_red: "kBad \<notin> ink (list_row tr sel (i, a))"
  by (auto simp: list_row_def Let_def typeCell_def enabledCell_def mediaCell_def color_defs split: if_splits)

text \<open>
  The colours of the list mean what they should: green media is an account with a SIP host whose calls are encrypted or not made at all, everything else with a host is amber,
  a disabled account is never red, and red is on the list exactly when the database could not be read.
\<close>

theorem list_colours:
  "(kGood \<in> ink (mediaCell tr a) \<longleftrightarrow> va_sip_host a \<noteq> [] \<and> va_sip_srtp a = ''mandatory'') \<and>
   (kAccent \<in> ink (mediaCell tr a) \<longleftrightarrow> va_sip_host a \<noteq> [] \<and> va_sip_srtp a \<noteq> ''mandatory'') \<and>
   (kBad \<in> ink (renderList tr g u) \<longleftrightarrow> error_text (tu_loadError u) \<noteq> [])"
proof (intro conjI)
  have "kBad \<notin> ink (list_row tr (tu_selected u) x)" for x using list_row_not_red by (cases x) simp
  then show "kBad \<in> ink (renderList tr g u) \<longleftrightarrow> error_text (tu_loadError u) \<noteq> []"
    by (cases "error_text (tu_loadError u) = []") (simp_all add: renderList_def Let_def panel_def titlebar_def ink_hint, simp_all add: color_defs)
qed (simp_all add: mediaCell_def color_defs)

lemma hint_text: "keyHint k d c = keyHint k' d' c' \<longleftrightarrow> map to_upper k = map to_upper k' \<and> d = d' \<and> c = c'"
  by (auto simp: keyHint_def)

text \<open>
  The deletion dialog offers the return key exactly when pressing it deletes: the hint is drawn if and only if the next return starts a run of the tool, which is then
  \<open>delete-account\<close> on the account whose name has been typed.
\<close>

theorem delete_hint_truthful:
  assumes "tu_screenIndex u = 2" "tu_pending u = DeleteAccount" "tu_lastResult u = None" "tui_event t Return u = Inr u'"
  shows "(keyHint ''enter'' (tr ''EnterDelete'') kBad \<in> parts (renderConfirm tr out u) \<longleftrightarrow> new_runs u u' \<noteq> []) \<and>
    (new_runs u u' \<noteq> [] \<longrightarrow> new_runs u u' = [[''--config'', tw_configPath t, tu_detailName u, ''delete-account'']])"
proof -
  have "to_upper (CHR ''e'') = CHR ''E''" "to_upper (CHR ''s'') = CHR ''S''" "to_upper (CHR ''n'') = CHR ''N''" by code_simp+
  then have "keyHint ''enter'' (tr ''EnterDelete'') kBad \<in> parts (renderConfirm tr out u) \<longleftrightarrow> tu_typedConfirm u = tu_detailName u"
    by (auto simp: renderConfirm_def Let_def assms(2,3) keyHint_def)
  moreover have "u' = (if tu_typedConfirm u = tu_detailName u then runPendingAction t u else u)"
    using assms by (simp add: tui_event_def confirm_event_def split: if_splits)
  moreover have "new_runs u (runPendingAction t u) = [[''--config'', tw_configPath t, tu_detailName u, ''delete-account'']]"
    by (auto simp: runPendingAction_def action_command_def assms(2) new_runs_def split: prod.split dest!: runGendb_frame)
  ultimately show ?thesis by simp
qed

theorem delete_hint_truthful_witness:
  "keyHint ''enter'' ''EnterDelete'' kBad \<in> parts (renderConfirm (\<lambda>k. k) \<lparr>to_confirm = [], to_config = [], to_signal = [], to_wizard = [], to_link = []\<rparr> deletion_dialog)"
proof -
  have s: "tu_screenIndex deletion_dialog = 2" "tu_pending deletion_dialog = DeleteAccount" "tu_lastResult deletion_dialog = None"
    "tu_typedConfirm deletion_dialog = tu_detailName deletion_dialog" "tu_runs deletion_dialog = []"
    by (simp_all add: deletion_dialog_def openConfirm_def)
  have e: "tui_event sample_tui Return deletion_dialog = Inr (runPendingAction sample_tui deletion_dialog)" by (simp add: tui_event_def confirm_event_def s)
  have "new_runs deletion_dialog (runPendingAction sample_tui deletion_dialog) \<noteq> []"
    by (auto simp: runPendingAction_def action_command_def s new_runs_def split: prod.split dest!: runGendb_frame)
  with delete_hint_truthful [OF s(1-3) e, of "\<lambda>k. k"] show ?thesis by blast
qed

end
