(* ===== verification/Texts.thy ===== *)
theory Texts
  imports TuiScreens
begin

text \<open>
  The table of translations of \<open>tui/i18n.h\<close>, byte by byte in UTF-8, and what the screens show of it. Each row of the table stands with the name its comment gives it.
\<close>

section \<open>The table\<close>

definition keys :: "Key list" where
  "keys = [''ColName'', ''ColType'', ''ColStatus'', ''ColMedia'', ''DbReadError'', ''NoAccounts'', ''FooterSelect'', ''FooterDetails'', ''FooterNew'',
     ''FooterRefresh'', ''FooterQuit'', ''TypeLinked'', ''TypePrimary'', ''StatusEnabled'', ''StatusDisabled'', ''SrtpMandatory'', ''SrtpOptional'',
     ''DetailLinkedAt'', ''DetailRegisteredAt'', ''DetailEnabled'', ''YesWord'', ''NoWord'', ''DetailSipNone'', ''DetailSignaling'', ''DetailMedia'',
     ''AccountReadError'', ''SectionIdentity'', ''SectionStatus'', ''DetailTitlebar'', ''FooterConfigureSip'', ''FooterDisable'', ''FooterEnable'',
     ''FooterSignalSettings'', ''FooterDeleteAccount'', ''FooterBack'', ''SignalingUdpInsecure'', ''MediaSrtpNotGuaranteedPrefix'', ''ActionEnableTitle'',
     ''ActionDisableTitle'', ''ActionDeactivateTitle'', ''ActionDeleteTitle'', ''ActionEnableBody'', ''ActionDisableBody'', ''ActionDeactivateBody'',
     ''ActionDeleteBody'', ''ResultDone'', ''ResultError'', ''AnyKeyToList'', ''TypeAccountName'', ''ConfirmAccountLabel'', ''FooterCancel'',
     ''EnterDelete'', ''TypeNameInFull'', ''FooterConfirm'', ''ErrSipHostRequired'', ''ErrSipExtensionRequired'', ''ErrSipPasswordRequired'',
     ''ErrTlsRequiresCa'', ''WarnBridgeBothSet'', ''ConfigSaved'', ''ConfigSaveError'', ''NoChanges'', ''AnyKeyBackToAccount'', ''ConfigTitlebar'',
     ''FooterField'', ''FooterTextType'', ''FooterListCycles'', ''FooterSave'', ''SignalConfigTitlebar'', ''SignalConfigTypeText'', ''WizardNewAccount'',
     ''FieldAccountName'', ''FieldMethod'', ''MethodRegister'', ''WizardNameHint'', ''ErrEnterAccountName'', ''ErrAccountExists'', ''FooterToggleMethod'',
     ''FooterNext'', ''WizardRegistration'', ''FieldCodeMethod'', ''ErrEnterE164'', ''FooterToggleCodeMethod'', ''FooterRegister'', ''WizardResult'',
     ''FooterEnterCode'', ''FooterToList'', ''CaptchaInstructions'', ''FieldToken'', ''FooterTypeToken'', ''FooterSubmit'', ''WizardVerify'',
     ''FieldSmsCode'', ''FooterTypeCode'', ''WizardLinking'', ''LinkWaitingInstructions'', ''FooterCancelWaiting'', ''ResultErrorCancelled'',
     ''WizardTitlebar'', ''StartupNoDbConfig'']"

definition texts_list :: "(Key \<times> string list) list" where
  "texts_list = [
    (''ColName'', [''Name'',
      [CHR 0xD0, CHR 0x86, CHR 0xD0, CHR 0xBC, CHR 0x27, CHR 0xD1, CHR 0x8F],
      [CHR 0xD0, CHR 0x98, CHR 0xD0, CHR 0xBC, CHR 0xD1, CHR 0x8F],
      ''Nazwa'',
      ''Name'',
      ''Nom'',
      ''Nome'',
      ''Nombre'',
      ''Nome'']),
    (''ColType'', [''Type'',
      [CHR 0xD0, CHR 0xA2, CHR 0xD0, CHR 0xB8, CHR 0xD0, CHR 0xBF],
      [CHR 0xD0, CHR 0xA2, CHR 0xD0, CHR 0xB8, CHR 0xD0, CHR 0xBF],
      ''Typ'',
      ''Typ'',
      ''Type'',
      ''Tipo'',
      ''Tipo'',
      ''Tipo'']),
    (''ColStatus'', [''Status'',
      [CHR 0xD0, CHR 0xA1, CHR 0xD1, CHR 0x82, CHR 0xD0, CHR 0xB0, CHR 0xD1, CHR 0x82, CHR 0xD1, CHR 0x83, CHR 0xD1, CHR 0x81],
      [CHR 0xD0, CHR 0xA1, CHR 0xD1, CHR 0x82, CHR 0xD0, CHR 0xB0, CHR 0xD1, CHR 0x82, CHR 0xD1, CHR 0x83, CHR 0xD1, CHR 0x81],
      ''Status'',
      ''Status'',
      ''Statut'',
      ''Stato'',
      ''Estado'',
      ''Estado'']),
    (''ColMedia'', [''Media'',
      [CHR 0xD0, CHR 0x9C, CHR 0xD0, CHR 0xB5, CHR 0xD0, CHR 0xB4, CHR 0xD1, CHR 0x96, CHR 0xD0, CHR 0xB0],
      [CHR 0xD0, CHR 0x9C, CHR 0xD0, CHR 0xB5, CHR 0xD0, CHR 0xB4, CHR 0xD0, CHR 0xB8, CHR 0xD0, CHR 0xB0],
      ''Media'',
      ''Medien'',
      [CHR ''M'', CHR 0xC3, CHR 0xA9, CHR ''d'', CHR ''i'', CHR ''a''],
      ''Media'',
      ''Medios'',
      [CHR ''M'', CHR 0xC3, CHR 0xAD, CHR ''d'', CHR ''i'', CHR ''a'']]),
    (''DbReadError'', [''database read error: '',
      [CHR 0xD0, CHR 0xBF, CHR 0xD0, CHR 0xBE, CHR 0xD0, CHR 0xBC, CHR 0xD0, CHR 0xB8, CHR 0xD0, CHR 0xBB, CHR 0xD0, CHR 0xBA, CHR 0xD0, CHR 0xB0, CHR '' '', CHR 0xD1, CHR 0x87, CHR 0xD0, CHR 0xB8, CHR 0xD1, CHR 0x82, CHR 0xD0, CHR 0xB0, CHR 0xD0, CHR 0xBD, CHR 0xD0, CHR 0xBD, CHR 0xD1, CHR 0x8F, CHR '' '', CHR 0xD0, CHR 0x91, CHR 0xD0, CHR 0x94, CHR '':'', CHR '' ''],
      [CHR 0xD0, CHR 0xBE, CHR 0xD1, CHR 0x88, CHR 0xD0, CHR 0xB8, CHR 0xD0, CHR 0xB1, CHR 0xD0, CHR 0xBA, CHR 0xD0, CHR 0xB0, CHR '' '', CHR 0xD1, CHR 0x87, CHR 0xD1, CHR 0x82, CHR 0xD0, CHR 0xB5, CHR 0xD0, CHR 0xBD, CHR 0xD0, CHR 0xB8, CHR 0xD1, CHR 0x8F, CHR '' '', CHR 0xD0, CHR 0x91, CHR 0xD0, CHR 0x94, CHR '':'', CHR '' ''],
      [CHR ''b'', CHR 0xC5, CHR 0x82, CHR 0xC4, CHR 0x85] @ ''d odczytu bazy danych: '',
      ''Fehler beim Lesen der Datenbank: '',
      ''erreur de lecture de la base de donn'' @ [CHR 0xC3, CHR 0xA9] @ ''es : '',
      ''errore di lettura del database: '',
      ''error al leer la base de datos: '',
      ''erro ao ler o banco de dados: '']),
    (''NoAccounts'', [''(no accounts - signal2sip-gendb <name> register/link)'',
      [CHR ''('', CHR 0xD0, CHR 0xBD, CHR 0xD0, CHR 0xB5, CHR 0xD0, CHR 0xBC, CHR 0xD0, CHR 0xB0, CHR 0xD1, CHR 0x94, CHR '' '', CHR 0xD0, CHR 0xB0, CHR 0xD0, CHR 0xBA, CHR 0xD0, CHR 0xB0, CHR 0xD1, CHR 0x83, CHR 0xD0, CHR 0xBD, CHR 0xD1, CHR 0x82, CHR 0xD1, CHR 0x96, CHR 0xD0, CHR 0xB2] @ '' - signal2sip-gendb <name> register/link)'',
      [CHR ''('', CHR 0xD0, CHR 0xBD, CHR 0xD0, CHR 0xB5, CHR 0xD1, CHR 0x82, CHR '' '', CHR 0xD0, CHR 0xB0, CHR 0xD0, CHR 0xBA, CHR 0xD0, CHR 0xBA, CHR 0xD0, CHR 0xB0, CHR 0xD1, CHR 0x83, CHR 0xD0, CHR 0xBD, CHR 0xD1, CHR 0x82, CHR 0xD0, CHR 0xBE, CHR 0xD0, CHR 0xB2] @ '' - signal2sip-gendb <name> register/link)'',
      ''(brak kont - signal2sip-gendb <name> register/link)'',
      ''(keine Konten - signal2sip-gendb <name> register/link)'',
      ''(aucun compte - signal2sip-gendb <name> register/link)'',
      ''(nessun account - signal2sip-gendb <name> register/link)'',
      ''(sin cuentas - signal2sip-gendb <name> register/link)'',
      ''(nenhuma conta - signal2sip-gendb <name> register/link)'']),
    (''FooterSelect'', [''select'',
      [CHR 0xD0, CHR 0xB2, CHR 0xD0, CHR 0xB8, CHR 0xD0, CHR 0xB1, CHR 0xD1, CHR 0x96, CHR 0xD1, CHR 0x80],
      [CHR 0xD0, CHR 0xB2, CHR 0xD1, CHR 0x8B, CHR 0xD0, CHR 0xB1, CHR 0xD0, CHR 0xBE, CHR 0xD1, CHR 0x80],
      [CHR ''w'', CHR ''y'', CHR ''b'', CHR 0xC3, CHR 0xB3, CHR ''r''],
      ''ausw'' @ [CHR 0xC3, CHR 0xA4] @ ''hlen'',
      [CHR ''s'', CHR 0xC3, CHR 0xA9] @ ''lection'',
      ''seleziona'',
      ''seleccionar'',
      ''selecionar'']),
    (''FooterDetails'', [''details'',
      [CHR 0xD0, CHR 0xB4, CHR 0xD0, CHR 0xB5, CHR 0xD1, CHR 0x82, CHR 0xD0, CHR 0xB0, CHR 0xD0, CHR 0xBB, CHR 0xD1, CHR 0x96],
      [CHR 0xD0, CHR 0xB4, CHR 0xD0, CHR 0xB5, CHR 0xD1, CHR 0x82, CHR 0xD0, CHR 0xB0, CHR 0xD0, CHR 0xBB, CHR 0xD0, CHR 0xB8],
      ''szczeg'' @ [CHR 0xC3, CHR 0xB3, CHR 0xC5, CHR 0x82, CHR ''y''],
      ''Details'',
      [CHR ''d'', CHR 0xC3, CHR 0xA9] @ ''tails'',
      ''dettagli'',
      ''detalles'',
      ''detalhes'']),
    (''FooterNew'', [''new'',
      [CHR 0xD0, CHR 0xBD, CHR 0xD0, CHR 0xBE, CHR 0xD0, CHR 0xB2, CHR 0xD0, CHR 0xB8, CHR 0xD0, CHR 0xB9],
      [CHR 0xD0, CHR 0xBD, CHR 0xD0, CHR 0xBE, CHR 0xD0, CHR 0xB2, CHR 0xD1, CHR 0x8B, CHR 0xD0, CHR 0xB9],
      ''nowe'',
      ''neu'',
      ''nouveau'',
      ''nuovo'',
      ''nuevo'',
      ''novo'']),
    (''FooterRefresh'', [''refresh'',
      [CHR 0xD0, CHR 0xBE, CHR 0xD0, CHR 0xBD, CHR 0xD0, CHR 0xBE, CHR 0xD0, CHR 0xB2, CHR 0xD0, CHR 0xB8, CHR 0xD1, CHR 0x82, CHR 0xD0, CHR 0xB8],
      [CHR 0xD0, CHR 0xBE, CHR 0xD0, CHR 0xB1, CHR 0xD0, CHR 0xBD, CHR 0xD0, CHR 0xBE, CHR 0xD0, CHR 0xB2, CHR 0xD0, CHR 0xB8, CHR 0xD1, CHR 0x82, CHR 0xD1, CHR 0x8C],
      [CHR ''o'', CHR ''d'', CHR 0xC5, CHR 0x9B, CHR ''w'', CHR ''i'', CHR ''e'', CHR 0xC5, CHR 0xBC],
      ''aktualisieren'',
      ''actualiser'',
      ''aggiorna'',
      ''actualizar'',
      ''atualizar'']),
    (''FooterQuit'', [''quit'',
      [CHR 0xD0, CHR 0xB2, CHR 0xD0, CHR 0xB8, CHR 0xD1, CHR 0x85, CHR 0xD1, CHR 0x96, CHR 0xD0, CHR 0xB4],
      [CHR 0xD0, CHR 0xB2, CHR 0xD1, CHR 0x8B, CHR 0xD1, CHR 0x85, CHR 0xD0, CHR 0xBE, CHR 0xD0, CHR 0xB4],
      [CHR ''w'', CHR ''y'', CHR ''j'', CHR 0xC5, CHR 0x9B, CHR ''c'', CHR ''i'', CHR ''e''],
      ''beenden'',
      ''quitter'',
      ''esci'',
      ''salir'',
      ''sair'']),
    (''TypeLinked'', [''linked'',
      [CHR 0xD0, CHR 0xBF, CHR 0xD1, CHR 0x80, CHR 0xD0, CHR 0xB8, CHR 0xD0, CHR 0xB2, CHR 0x27, CHR 0xD1, CHR 0x8F, CHR 0xD0, CHR 0xB7, CHR 0xD0, CHR 0xB0, CHR 0xD0, CHR 0xBD, CHR 0xD0, CHR 0xB8, CHR 0xD0, CHR 0xB9],
      [CHR 0xD0, CHR 0xBF, CHR 0xD1, CHR 0x80, CHR 0xD0, CHR 0xB8, CHR 0xD0, CHR 0xB2, CHR 0xD1, CHR 0x8F, CHR 0xD0, CHR 0xB7, CHR 0xD0, CHR 0xB0, CHR 0xD0, CHR 0xBD],
      ''powi'' @ [CHR 0xC4, CHR 0x85] @ ''zane'',
      ''verkn'' @ [CHR 0xC3, CHR 0xBC, CHR ''p'', CHR ''f'', CHR ''t''],
      [CHR ''l'', CHR ''i'', CHR 0xC3, CHR 0xA9],
      ''collegato'',
      ''vinculado'',
      ''vinculado'']),
    (''TypePrimary'', [''primary'',
      [CHR 0xD0, CHR 0xBE, CHR 0xD1, CHR 0x81, CHR 0xD0, CHR 0xBD, CHR 0xD0, CHR 0xBE, CHR 0xD0, CHR 0xB2, CHR 0xD0, CHR 0xBD, CHR 0xD0, CHR 0xB8, CHR 0xD0, CHR 0xB9],
      [CHR 0xD0, CHR 0xBE, CHR 0xD1, CHR 0x81, CHR 0xD0, CHR 0xBD, CHR 0xD0, CHR 0xBE, CHR 0xD0, CHR 0xB2, CHR 0xD0, CHR 0xBD, CHR 0xD0, CHR 0xBE, CHR 0xD0, CHR 0xB9],
      [CHR ''g'', CHR 0xC5, CHR 0x82, CHR 0xC3, CHR 0xB3, CHR ''w'', CHR ''n'', CHR ''e''],
      ''prim'' @ [CHR 0xC3, CHR 0xA4, CHR ''r''],
      ''principal'',
      ''primario'',
      ''principal'',
      ''principal''])]"

definition texts_status :: "(Key \<times> string list) list" where
  "texts_status = [
    (''StatusEnabled'', [''enabled'',
      [CHR 0xD1, CHR 0x83, CHR 0xD0, CHR 0xB2, CHR 0xD1, CHR 0x96, CHR 0xD0, CHR 0xBC, CHR 0xD0, CHR 0xBA, CHR 0xD0, CHR 0xBD, CHR 0xD0, CHR 0xB5, CHR 0xD0, CHR 0xBD, CHR 0xD0, CHR 0xBE],
      [CHR 0xD0, CHR 0xB2, CHR 0xD0, CHR 0xBA, CHR 0xD0, CHR 0xBB, CHR 0xD1, CHR 0x8E, CHR 0xD1, CHR 0x87, CHR 0xD1, CHR 0x91, CHR 0xD0, CHR 0xBD],
      [CHR ''w'', CHR 0xC5, CHR 0x82, CHR 0xC4, CHR 0x85] @ ''czone'',
      ''aktiviert'',
      ''activ'' @ [CHR 0xC3, CHR 0xA9],
      ''abilitato'',
      ''habilitado'',
      ''habilitado'']),
    (''StatusDisabled'', [''disabled'',
      [CHR 0xD0, CHR 0xB2, CHR 0xD0, CHR 0xB8, CHR 0xD0, CHR 0xBC, CHR 0xD0, CHR 0xBA, CHR 0xD0, CHR 0xBD, CHR 0xD0, CHR 0xB5, CHR 0xD0, CHR 0xBD, CHR 0xD0, CHR 0xBE],
      [CHR 0xD0, CHR 0xB2, CHR 0xD1, CHR 0x8B, CHR 0xD0, CHR 0xBA, CHR 0xD0, CHR 0xBB, CHR 0xD1, CHR 0x8E, CHR 0xD1, CHR 0x87, CHR 0xD0, CHR 0xB5, CHR 0xD0, CHR 0xBD],
      [CHR ''w'', CHR ''y'', CHR 0xC5, CHR 0x82, CHR 0xC4, CHR 0x85] @ ''czone'',
      ''deaktiviert'',
      [CHR ''d'', CHR 0xC3, CHR 0xA9] @ ''sactiv'' @ [CHR 0xC3, CHR 0xA9],
      ''disabilitato'',
      ''deshabilitado'',
      ''desabilitado'']),
    (''SrtpMandatory'', [''mandatory'',
      [CHR 0xD0, CHR 0xBE, CHR 0xD0, CHR 0xB1, CHR 0xD0, CHR 0xBE, CHR 0xD0, CHR 0xB2, CHR 0x27, CHR 0xD1, CHR 0x8F, CHR 0xD0, CHR 0xB7, CHR 0xD0, CHR 0xBA, CHR 0xD0, CHR 0xBE, CHR 0xD0, CHR 0xB2, CHR 0xD0, CHR 0xBE],
      [CHR 0xD0, CHR 0xBE, CHR 0xD0, CHR 0xB1, CHR 0xD1, CHR 0x8F, CHR 0xD0, CHR 0xB7, CHR 0xD0, CHR 0xB0, CHR 0xD1, CHR 0x82, CHR 0xD0, CHR 0xB5, CHR 0xD0, CHR 0xBB, CHR 0xD1, CHR 0x8C, CHR 0xD0, CHR 0xBD, CHR 0xD0, CHR 0xBE],
      ''wymagane'',
      ''erforderlich'',
      ''obligatoire'',
      ''obbligatorio'',
      ''obligatorio'',
      ''obrigat'' @ [CHR 0xC3, CHR 0xB3, CHR ''r'', CHR ''i'', CHR ''o'']]),
    (''SrtpOptional'', [''optional'',
      [CHR 0xD0, CHR 0xBD, CHR 0xD0, CHR 0xB5, CHR 0xD0, CHR 0xBE, CHR 0xD0, CHR 0xB1, CHR 0xD0, CHR 0xBE, CHR 0xD0, CHR 0xB2, CHR 0x27, CHR 0xD1, CHR 0x8F, CHR 0xD0, CHR 0xB7, CHR 0xD0, CHR 0xBA, CHR 0xD0, CHR 0xBE, CHR 0xD0, CHR 0xB2, CHR 0xD0, CHR 0xBE],
      [CHR 0xD0, CHR 0xBE, CHR 0xD0, CHR 0xBF, CHR 0xD1, CHR 0x86, CHR 0xD0, CHR 0xB8, CHR 0xD0, CHR 0xBE, CHR 0xD0, CHR 0xBD, CHR 0xD0, CHR 0xB0, CHR 0xD0, CHR 0xBB, CHR 0xD1, CHR 0x8C, CHR 0xD0, CHR 0xBD, CHR 0xD0, CHR 0xBE],
      ''opcjonalne'',
      ''optional'',
      ''facultatif'',
      ''opzionale'',
      ''opcional'',
      ''opcional'']),
    (''DetailLinkedAt'', [''Linked'',
      [CHR 0xD0, CHR 0x9F, CHR 0xD1, CHR 0x80, CHR 0xD0, CHR 0xB8, CHR 0xD0, CHR 0xB2, CHR 0x27, CHR 0xD1, CHR 0x8F, CHR 0xD0, CHR 0xB7, CHR 0xD0, CHR 0xB0, CHR 0xD0, CHR 0xBD, CHR 0xD0, CHR 0xBE],
      [CHR 0xD0, CHR 0x9F, CHR 0xD1, CHR 0x80, CHR 0xD0, CHR 0xB8, CHR 0xD0, CHR 0xB2, CHR 0xD1, CHR 0x8F, CHR 0xD0, CHR 0xB7, CHR 0xD0, CHR 0xB0, CHR 0xD0, CHR 0xBD],
      ''Powi'' @ [CHR 0xC4, CHR 0x85] @ ''zano'',
      ''Verkn'' @ [CHR 0xC3, CHR 0xBC, CHR ''p'', CHR ''f'', CHR ''t''],
      [CHR ''L'', CHR ''i'', CHR 0xC3, CHR 0xA9],
      ''Collegato'',
      ''Vinculado'',
      ''Vinculado'']),
    (''DetailRegisteredAt'', [''Registered'',
      [CHR 0xD0, CHR 0x97, CHR 0xD0, CHR 0xB0, CHR 0xD1, CHR 0x80, CHR 0xD0, CHR 0xB5, CHR 0xD1, CHR 0x94, CHR 0xD1, CHR 0x81, CHR 0xD1, CHR 0x82, CHR 0xD1, CHR 0x80, CHR 0xD0, CHR 0xBE, CHR 0xD0, CHR 0xB2, CHR 0xD0, CHR 0xB0, CHR 0xD0, CHR 0xBD, CHR 0xD0, CHR 0xBE],
      [CHR 0xD0, CHR 0x97, CHR 0xD0, CHR 0xB0, CHR 0xD1, CHR 0x80, CHR 0xD0, CHR 0xB5, CHR 0xD0, CHR 0xB3, CHR 0xD0, CHR 0xB8, CHR 0xD1, CHR 0x81, CHR 0xD1, CHR 0x82, CHR 0xD1, CHR 0x80, CHR 0xD0, CHR 0xB8, CHR 0xD1, CHR 0x80, CHR 0xD0, CHR 0xBE, CHR 0xD0, CHR 0xB2, CHR 0xD0, CHR 0xB0, CHR 0xD0, CHR 0xBD],
      ''Zarejestrowano'',
      ''Registriert'',
      ''Enregistr'' @ [CHR 0xC3, CHR 0xA9],
      ''Registrato'',
      ''Registrado'',
      ''Registrado'']),
    (''DetailEnabled'', [''Enabled'',
      [CHR 0xD0, CHR 0xA3, CHR 0xD0, CHR 0xB2, CHR 0xD1, CHR 0x96, CHR 0xD0, CHR 0xBC, CHR 0xD0, CHR 0xBA, CHR 0xD0, CHR 0xBD, CHR 0xD0, CHR 0xB5, CHR 0xD0, CHR 0xBD, CHR 0xD0, CHR 0xBE],
      [CHR 0xD0, CHR 0x92, CHR 0xD0, CHR 0xBA, CHR 0xD0, CHR 0xBB, CHR 0xD1, CHR 0x8E, CHR 0xD1, CHR 0x87, CHR 0xD1, CHR 0x91, CHR 0xD0, CHR 0xBD],
      [CHR ''W'', CHR 0xC5, CHR 0x82, CHR 0xC4, CHR 0x85] @ ''czone'',
      ''Aktiviert'',
      ''Activ'' @ [CHR 0xC3, CHR 0xA9],
      ''Abilitato'',
      ''Habilitado'',
      ''Habilitado'']),
    (''YesWord'', [''yes'',
      [CHR 0xD1, CHR 0x82, CHR 0xD0, CHR 0xB0, CHR 0xD0, CHR 0xBA],
      [CHR 0xD0, CHR 0xB4, CHR 0xD0, CHR 0xB0],
      ''tak'',
      ''ja'',
      ''oui'',
      [CHR ''s'', CHR 0xC3, CHR 0xAC],
      [CHR ''s'', CHR 0xC3, CHR 0xAD],
      ''sim'']),
    (''NoWord'', [''no'',
      [CHR 0xD0, CHR 0xBD, CHR 0xD1, CHR 0x96],
      [CHR 0xD0, CHR 0xBD, CHR 0xD0, CHR 0xB5, CHR 0xD1, CHR 0x82],
      ''nie'',
      ''nein'',
      ''non'',
      ''no'',
      ''no'',
      [CHR ''n'', CHR 0xC3, CHR 0xA3, CHR ''o'']]),
    (''DetailSipNone'', [[CHR 0xE2, CHR 0x80, CHR 0x94] @ '' Signal-only, no SIP'',
      [CHR 0xE2, CHR 0x80, CHR 0x94, CHR '' '', CHR 0xD0, CHR 0xBB, CHR 0xD0, CHR 0xB8, CHR 0xD1, CHR 0x88, CHR 0xD0, CHR 0xB5] @ '' Signal, '' @ [CHR 0xD0, CHR 0xB1, CHR 0xD0, CHR 0xB5, CHR 0xD0, CHR 0xB7] @ '' SIP'',
      [CHR 0xE2, CHR 0x80, CHR 0x94, CHR '' '', CHR 0xD1, CHR 0x82, CHR 0xD0, CHR 0xBE, CHR 0xD0, CHR 0xBB, CHR 0xD1, CHR 0x8C, CHR 0xD0, CHR 0xBA, CHR 0xD0, CHR 0xBE] @ '' Signal, '' @ [CHR 0xD0, CHR 0xB1, CHR 0xD0, CHR 0xB5, CHR 0xD0, CHR 0xB7] @ '' SIP'',
      [CHR 0xE2, CHR 0x80, CHR 0x94] @ '' tylko Signal, bez SIP'',
      [CHR 0xE2, CHR 0x80, CHR 0x94] @ '' nur Signal, kein SIP'',
      [CHR 0xE2, CHR 0x80, CHR 0x94] @ '' Signal uniquement, sans SIP'',
      [CHR 0xE2, CHR 0x80, CHR 0x94] @ '' solo Signal, senza SIP'',
      [CHR 0xE2, CHR 0x80, CHR 0x94] @ '' solo Signal, sin SIP'',
      [CHR 0xE2, CHR 0x80, CHR 0x94] @ '' somente Signal, sem SIP'']),
    (''DetailSignaling'', [''Signaling'',
      [CHR 0xD0, CHR 0xA1, CHR 0xD0, CHR 0xB8, CHR 0xD0, CHR 0xB3, CHR 0xD0, CHR 0xBD, CHR 0xD0, CHR 0xB0, CHR 0xD0, CHR 0xBB, CHR 0xD1, CHR 0x96, CHR 0xD0, CHR 0xB7, CHR 0xD0, CHR 0xB0, CHR 0xD1, CHR 0x86, CHR 0xD1, CHR 0x96, CHR 0xD1, CHR 0x8F],
      [CHR 0xD0, CHR 0xA1, CHR 0xD0, CHR 0xB8, CHR 0xD0, CHR 0xB3, CHR 0xD0, CHR 0xBD, CHR 0xD0, CHR 0xB0, CHR 0xD0, CHR 0xBB, CHR 0xD0, CHR 0xB8, CHR 0xD0, CHR 0xB7, CHR 0xD0, CHR 0xB0, CHR 0xD1, CHR 0x86, CHR 0xD0, CHR 0xB8, CHR 0xD1, CHR 0x8F],
      ''Sygnalizacja'',
      ''Signalisierung'',
      ''Signalisation'',
      ''Segnalazione'',
      [CHR ''S'', CHR ''e'', CHR 0xC3, CHR 0xB1] @ ''alizaci'' @ [CHR 0xC3, CHR 0xB3, CHR ''n''],
      ''Sinaliza'' @ [CHR 0xC3, CHR 0xA7, CHR 0xC3, CHR 0xA3, CHR ''o'']]),
    (''DetailMedia'', [''Media (RTP)'',
      [CHR 0xD0, CHR 0x9C, CHR 0xD0, CHR 0xB5, CHR 0xD0, CHR 0xB4, CHR 0xD1, CHR 0x96, CHR 0xD0, CHR 0xB0] @ '' (RTP)'',
      [CHR 0xD0, CHR 0x9C, CHR 0xD0, CHR 0xB5, CHR 0xD0, CHR 0xB4, CHR 0xD0, CHR 0xB8, CHR 0xD0, CHR 0xB0] @ '' (RTP)'',
      ''Media (RTP)'',
      ''Medien (RTP)'',
      [CHR ''M'', CHR 0xC3, CHR 0xA9] @ ''dia (RTP)'',
      ''Media (RTP)'',
      ''Medios (RTP)'',
      [CHR ''M'', CHR 0xC3, CHR 0xAD] @ ''dia (RTP)'']),
    (''AccountReadError'', [''account read error: '',
      [CHR 0xD0, CHR 0xBF, CHR 0xD0, CHR 0xBE, CHR 0xD0, CHR 0xBC, CHR 0xD0, CHR 0xB8, CHR 0xD0, CHR 0xBB, CHR 0xD0, CHR 0xBA, CHR 0xD0, CHR 0xB0, CHR '' '', CHR 0xD1, CHR 0x87, CHR 0xD0, CHR 0xB8, CHR 0xD1, CHR 0x82, CHR 0xD0, CHR 0xB0, CHR 0xD0, CHR 0xBD, CHR 0xD0, CHR 0xBD, CHR 0xD1, CHR 0x8F, CHR '' '', CHR 0xD0, CHR 0xB0, CHR 0xD0, CHR 0xBA, CHR 0xD0, CHR 0xB0, CHR 0xD1, CHR 0x83, CHR 0xD0, CHR 0xBD, CHR 0xD1, CHR 0x82, CHR 0xD0, CHR 0xB0, CHR '':'', CHR '' ''],
      [CHR 0xD0, CHR 0xBE, CHR 0xD1, CHR 0x88, CHR 0xD0, CHR 0xB8, CHR 0xD0, CHR 0xB1, CHR 0xD0, CHR 0xBA, CHR 0xD0, CHR 0xB0, CHR '' '', CHR 0xD1, CHR 0x87, CHR 0xD1, CHR 0x82, CHR 0xD0, CHR 0xB5, CHR 0xD0, CHR 0xBD, CHR 0xD0, CHR 0xB8, CHR 0xD1, CHR 0x8F, CHR '' '', CHR 0xD0, CHR 0xB0, CHR 0xD0, CHR 0xBA, CHR 0xD0, CHR 0xBA, CHR 0xD0, CHR 0xB0, CHR 0xD1, CHR 0x83, CHR 0xD0, CHR 0xBD, CHR 0xD1, CHR 0x82, CHR 0xD0, CHR 0xB0, CHR '':'', CHR '' ''],
      [CHR ''b'', CHR 0xC5, CHR 0x82, CHR 0xC4, CHR 0x85] @ ''d odczytu konta: '',
      ''Fehler beim Lesen des Kontos: '',
      ''erreur de lecture du compte : '',
      ''errore di lettura dell'' @ [CHR 0x27] @ ''account: '',
      ''error al leer la cuenta: '',
      ''erro ao ler a conta: '']),
    (''SectionIdentity'', [''IDENTITY'',
      [CHR 0xD0, CHR 0x86, CHR 0xD0, CHR 0x94, CHR 0xD0, CHR 0x95, CHR 0xD0, CHR 0x9D, CHR 0xD0, CHR 0xA2, CHR 0xD0, CHR 0x98, CHR 0xD0, CHR 0xA7, CHR 0xD0, CHR 0x9D, CHR 0xD0, CHR 0x86, CHR 0xD0, CHR 0xA1, CHR 0xD0, CHR 0xA2, CHR 0xD0, CHR 0xAC],
      [CHR 0xD0, CHR 0x98, CHR 0xD0, CHR 0x94, CHR 0xD0, CHR 0x95, CHR 0xD0, CHR 0x9D, CHR 0xD0, CHR 0xA2, CHR 0xD0, CHR 0x98, CHR 0xD0, CHR 0xA7, CHR 0xD0, CHR 0x9D, CHR 0xD0, CHR 0x9E, CHR 0xD0, CHR 0xA1, CHR 0xD0, CHR 0xA2, CHR 0xD0, CHR 0xAC],
      [CHR ''T'', CHR ''O'', CHR 0xC5, CHR 0xBB] @ ''SAMO'' @ [CHR 0xC5, CHR 0x9A, CHR 0xC4, CHR 0x86],
      ''IDENTIT'' @ [CHR 0xC3, CHR 0x84, CHR ''T''],
      ''IDENTIT'' @ [CHR 0xC3, CHR 0x89],
      ''IDENTIT'' @ [CHR 0xC3, CHR 0x80],
      ''IDENTIDAD'',
      ''IDENTIDADE'']),
    (''SectionStatus'', [''STATUS (from DB - not live connection)'',
      [CHR 0xD0, CHR 0xA1, CHR 0xD0, CHR 0xA2, CHR 0xD0, CHR 0x90, CHR 0xD0, CHR 0xA2, CHR 0xD0, CHR 0xA3, CHR 0xD0, CHR 0xA1, CHR '' '', CHR ''('', CHR 0xD0, CHR 0xB7, CHR '' '', CHR 0xD0, CHR 0x91, CHR 0xD0, CHR 0x94, CHR '' '', CHR ''-'', CHR '' '', CHR 0xD0, CHR 0xBD, CHR 0xD0, CHR 0xB5, CHR '' '', CHR 0xD0, CHR 0xBF, CHR 0xD0, CHR 0xBE, CHR 0xD1, CHR 0x82, CHR 0xD0, CHR 0xBE, CHR 0xD1, CHR 0x87, CHR 0xD0, CHR 0xBD, CHR 0xD0, CHR 0xB5, CHR '' '', CHR 0xD0, CHR 0xB7, CHR 0x27, CHR 0xD1, CHR 0x94, CHR 0xD0, CHR 0xB4, CHR 0xD0, CHR 0xBD, CHR 0xD0, CHR 0xB0, CHR 0xD0, CHR 0xBD, CHR 0xD0, CHR 0xBD, CHR 0xD1, CHR 0x8F, CHR '')''],
      [CHR 0xD0, CHR 0xA1, CHR 0xD0, CHR 0xA2, CHR 0xD0, CHR 0x90, CHR 0xD0, CHR 0xA2, CHR 0xD0, CHR 0xA3, CHR 0xD0, CHR 0xA1, CHR '' '', CHR ''('', CHR 0xD0, CHR 0xB8, CHR 0xD0, CHR 0xB7, CHR '' '', CHR 0xD0, CHR 0x91, CHR 0xD0, CHR 0x94, CHR '' '', CHR ''-'', CHR '' '', CHR 0xD0, CHR 0xBD, CHR 0xD0, CHR 0xB5] @ '' live-'' @ [CHR 0xD1, CHR 0x81, CHR 0xD0, CHR 0xBE, CHR 0xD0, CHR 0xB5, CHR 0xD0, CHR 0xB4, CHR 0xD0, CHR 0xB8, CHR 0xD0, CHR 0xBD, CHR 0xD0, CHR 0xB5, CHR 0xD0, CHR 0xBD, CHR 0xD0, CHR 0xB8, CHR 0xD0, CHR 0xB5, CHR '')''],
      ''STATUS (z bazy danych - nie na '' @ [CHR 0xC5, CHR 0xBC] @ ''ywo)'',
      ''STATUS (aus DB - keine Live-Verbindung)'',
      ''STATUT (depuis la BD - pas une connexion en direct)'',
      ''STATO (dal DB - non connessione in tempo reale)'',
      ''ESTADO (desde la BD - no conexi'' @ [CHR 0xC3, CHR 0xB3] @ ''n en vivo)'',
      ''STATUS (do BD - n'' @ [CHR 0xC3, CHR 0xA3, CHR ''o'', CHR '' '', CHR 0xC3, CHR 0xA9] @ '' conex'' @ [CHR 0xC3, CHR 0xA3] @ ''o ao vivo)''])]"

definition texts_detail :: "(Key \<times> string list) list" where
  "texts_detail = [
    (''DetailTitlebar'', [''  Account: '',
      [CHR '' '', CHR '' '', CHR 0xD0, CHR 0x90, CHR 0xD0, CHR 0xBA, CHR 0xD0, CHR 0xB0, CHR 0xD1, CHR 0x83, CHR 0xD0, CHR 0xBD, CHR 0xD1, CHR 0x82, CHR '':'', CHR '' ''],
      [CHR '' '', CHR '' '', CHR 0xD0, CHR 0x90, CHR 0xD0, CHR 0xBA, CHR 0xD0, CHR 0xBA, CHR 0xD0, CHR 0xB0, CHR 0xD1, CHR 0x83, CHR 0xD0, CHR 0xBD, CHR 0xD1, CHR 0x82, CHR '':'', CHR '' ''],
      ''  Konto: '',
      ''  Konto: '',
      ''  Compte : '',
      ''  Account: '',
      ''  Cuenta: '',
      ''  Conta: '']),
    (''FooterConfigureSip'', [''configure SIP'',
      [CHR 0xD0, CHR 0xBD, CHR 0xD0, CHR 0xB0, CHR 0xD0, CHR 0xBB, CHR 0xD0, CHR 0xB0, CHR 0xD1, CHR 0x88, CHR 0xD1, CHR 0x82, CHR 0xD1, CHR 0x83, CHR 0xD0, CHR 0xB2, CHR 0xD0, CHR 0xB0, CHR 0xD1, CHR 0x82, CHR 0xD0, CHR 0xB8] @ '' SIP'',
      [CHR 0xD0, CHR 0xBD, CHR 0xD0, CHR 0xB0, CHR 0xD1, CHR 0x81, CHR 0xD1, CHR 0x82, CHR 0xD1, CHR 0x80, CHR 0xD0, CHR 0xBE, CHR 0xD0, CHR 0xB8, CHR 0xD1, CHR 0x82, CHR 0xD1, CHR 0x8C] @ '' SIP'',
      ''konfiguruj SIP'',
      ''SIP konfigurieren'',
      ''configurer SIP'',
      ''configura SIP'',
      ''configurar SIP'',
      ''configurar SIP'']),
    (''FooterDisable'', [''disable'',
      [CHR 0xD0, CHR 0xB2, CHR 0xD0, CHR 0xB8, CHR 0xD0, CHR 0xBC, CHR 0xD0, CHR 0xBA, CHR 0xD0, CHR 0xBD, CHR 0xD1, CHR 0x83, CHR 0xD1, CHR 0x82, CHR 0xD0, CHR 0xB8],
      [CHR 0xD0, CHR 0xB2, CHR 0xD1, CHR 0x8B, CHR 0xD0, CHR 0xBA, CHR 0xD0, CHR 0xBB, CHR 0xD1, CHR 0x8E, CHR 0xD1, CHR 0x87, CHR 0xD0, CHR 0xB8, CHR 0xD1, CHR 0x82, CHR 0xD1, CHR 0x8C],
      [CHR ''w'', CHR ''y'', CHR 0xC5, CHR 0x82, CHR 0xC4, CHR 0x85, CHR ''c'', CHR ''z''],
      ''deaktivieren'',
      [CHR ''d'', CHR 0xC3, CHR 0xA9] @ ''sactiver'',
      ''disabilita'',
      ''deshabilitar'',
      ''desabilitar'']),
    (''FooterEnable'', [''enable'',
      [CHR 0xD1, CHR 0x83, CHR 0xD0, CHR 0xB2, CHR 0xD1, CHR 0x96, CHR 0xD0, CHR 0xBC, CHR 0xD0, CHR 0xBA, CHR 0xD0, CHR 0xBD, CHR 0xD1, CHR 0x83, CHR 0xD1, CHR 0x82, CHR 0xD0, CHR 0xB8],
      [CHR 0xD0, CHR 0xB2, CHR 0xD0, CHR 0xBA, CHR 0xD0, CHR 0xBB, CHR 0xD1, CHR 0x8E, CHR 0xD1, CHR 0x87, CHR 0xD0, CHR 0xB8, CHR 0xD1, CHR 0x82, CHR 0xD1, CHR 0x8C],
      [CHR ''w'', CHR 0xC5, CHR 0x82, CHR 0xC4, CHR 0x85, CHR ''c'', CHR ''z''],
      ''aktivieren'',
      ''activer'',
      ''abilita'',
      ''habilitar'',
      ''habilitar'']),
    (''FooterSignalSettings'', [''Signal settings'',
      [CHR 0xD0, CHR 0xBD, CHR 0xD0, CHR 0xB0, CHR 0xD0, CHR 0xBB, CHR 0xD0, CHR 0xB0, CHR 0xD1, CHR 0x88, CHR 0xD1, CHR 0x82, CHR 0xD1, CHR 0x83, CHR 0xD0, CHR 0xB2, CHR 0xD0, CHR 0xB0, CHR 0xD0, CHR 0xBD, CHR 0xD0, CHR 0xBD, CHR 0xD1, CHR 0x8F] @ '' Signal'',
      [CHR 0xD0, CHR 0xBD, CHR 0xD0, CHR 0xB0, CHR 0xD1, CHR 0x81, CHR 0xD1, CHR 0x82, CHR 0xD1, CHR 0x80, CHR 0xD0, CHR 0xBE, CHR 0xD0, CHR 0xB9, CHR 0xD0, CHR 0xBA, CHR 0xD0, CHR 0xB8] @ '' Signal'',
      ''ustawienia Signal'',
      ''Signal-Einstellungen'',
      ''param'' @ [CHR 0xC3, CHR 0xA8] @ ''tres Signal'',
      ''impostazioni Signal'',
      ''configuraci'' @ [CHR 0xC3, CHR 0xB3] @ ''n de Signal'',
      ''configura'' @ [CHR 0xC3, CHR 0xA7, CHR 0xC3, CHR 0xB5] @ ''es do Signal'']),
    (''FooterDeleteAccount'', [''delete account  '',
      [CHR 0xD0, CHR 0xB2, CHR 0xD0, CHR 0xB8, CHR 0xD0, CHR 0xB4, CHR 0xD0, CHR 0xB0, CHR 0xD0, CHR 0xBB, CHR 0xD0, CHR 0xB8, CHR 0xD1, CHR 0x82, CHR 0xD0, CHR 0xB8, CHR '' '', CHR 0xD0, CHR 0xB0, CHR 0xD0, CHR 0xBA, CHR 0xD0, CHR 0xB0, CHR 0xD1, CHR 0x83, CHR 0xD0, CHR 0xBD, CHR 0xD1, CHR 0x82, CHR '' '', CHR '' ''],
      [CHR 0xD1, CHR 0x83, CHR 0xD0, CHR 0xB4, CHR 0xD0, CHR 0xB0, CHR 0xD0, CHR 0xBB, CHR 0xD0, CHR 0xB8, CHR 0xD1, CHR 0x82, CHR 0xD1, CHR 0x8C, CHR '' '', CHR 0xD0, CHR 0xB0, CHR 0xD0, CHR 0xBA, CHR 0xD0, CHR 0xBA, CHR 0xD0, CHR 0xB0, CHR 0xD1, CHR 0x83, CHR 0xD0, CHR 0xBD, CHR 0xD1, CHR 0x82, CHR '' '', CHR '' ''],
      [CHR ''u'', CHR ''s'', CHR ''u'', CHR 0xC5, CHR 0x84] @ '' konto  '',
      ''Konto l'' @ [CHR 0xC3, CHR 0xB6] @ ''schen  '',
      ''supprimer le compte  '',
      ''elimina account  '',
      ''eliminar cuenta  '',
      ''excluir conta  '']),
    (''FooterBack'', [''back'',
      [CHR 0xD0, CHR 0xBD, CHR 0xD0, CHR 0xB0, CHR 0xD0, CHR 0xB7, CHR 0xD0, CHR 0xB0, CHR 0xD0, CHR 0xB4],
      [CHR 0xD0, CHR 0xBD, CHR 0xD0, CHR 0xB0, CHR 0xD0, CHR 0xB7, CHR 0xD0, CHR 0xB0, CHR 0xD0, CHR 0xB4],
      ''wstecz'',
      [CHR ''z'', CHR ''u'', CHR ''r'', CHR 0xC3, CHR 0xBC, CHR ''c'', CHR ''k''],
      ''retour'',
      ''indietro'',
      [CHR ''a'', CHR ''t'', CHR ''r'', CHR 0xC3, CHR 0xA1, CHR ''s''],
      ''voltar'']),
    (''SignalingUdpInsecure'', [[CHR 0xE2, CHR 0x9A, CHR 0xA0] @ '' UDP (not encrypted)'',
      [CHR 0xE2, CHR 0x9A, CHR 0xA0] @ '' UDP ('' @ [CHR 0xD0, CHR 0xBD, CHR 0xD0, CHR 0xB5, CHR '' '', CHR 0xD1, CHR 0x88, CHR 0xD0, CHR 0xB8, CHR 0xD1, CHR 0x84, CHR 0xD1, CHR 0x80, CHR 0xD0, CHR 0xBE, CHR 0xD0, CHR 0xB2, CHR 0xD0, CHR 0xB0, CHR 0xD0, CHR 0xBD, CHR 0xD0, CHR 0xBE, CHR '')''],
      [CHR 0xE2, CHR 0x9A, CHR 0xA0] @ '' UDP ('' @ [CHR 0xD0, CHR 0xBD, CHR 0xD0, CHR 0xB5, CHR '' '', CHR 0xD1, CHR 0x88, CHR 0xD0, CHR 0xB8, CHR 0xD1, CHR 0x84, CHR 0xD1, CHR 0x80, CHR 0xD0, CHR 0xBE, CHR 0xD0, CHR 0xB2, CHR 0xD0, CHR 0xB0, CHR 0xD0, CHR 0xBD, CHR 0xD0, CHR 0xBE, CHR '')''],
      [CHR 0xE2, CHR 0x9A, CHR 0xA0] @ '' UDP (nieszyfrowane)'',
      [CHR 0xE2, CHR 0x9A, CHR 0xA0] @ '' UDP (nicht verschl'' @ [CHR 0xC3, CHR 0xBC] @ ''sselt)'',
      [CHR 0xE2, CHR 0x9A, CHR 0xA0] @ '' UDP (non chiffr'' @ [CHR 0xC3, CHR 0xA9, CHR '')''],
      [CHR 0xE2, CHR 0x9A, CHR 0xA0] @ '' UDP (non cifrato)'',
      [CHR 0xE2, CHR 0x9A, CHR 0xA0] @ '' UDP (no cifrado)'',
      [CHR 0xE2, CHR 0x9A, CHR 0xA0] @ '' UDP (n'' @ [CHR 0xC3, CHR 0xA3] @ ''o criptografado)'']),
    (''MediaSrtpNotGuaranteedPrefix'', [[CHR 0xE2, CHR 0x9A, CHR 0xA0] @ '' SRTP not guaranteed '',
      [CHR 0xE2, CHR 0x9A, CHR 0xA0] @ '' SRTP '' @ [CHR 0xD0, CHR 0xBD, CHR 0xD0, CHR 0xB5, CHR '' '', CHR 0xD0, CHR 0xB3, CHR 0xD0, CHR 0xB0, CHR 0xD1, CHR 0x80, CHR 0xD0, CHR 0xB0, CHR 0xD0, CHR 0xBD, CHR 0xD1, CHR 0x82, CHR 0xD0, CHR 0xBE, CHR 0xD0, CHR 0xB2, CHR 0xD0, CHR 0xB0, CHR 0xD0, CHR 0xBD, CHR 0xD0, CHR 0xBE, CHR '' ''],
      [CHR 0xE2, CHR 0x9A, CHR 0xA0] @ '' SRTP '' @ [CHR 0xD0, CHR 0xBD, CHR 0xD0, CHR 0xB5, CHR '' '', CHR 0xD0, CHR 0xB3, CHR 0xD0, CHR 0xB0, CHR 0xD1, CHR 0x80, CHR 0xD0, CHR 0xB0, CHR 0xD0, CHR 0xBD, CHR 0xD1, CHR 0x82, CHR ''.'', CHR '' ''],
      [CHR 0xE2, CHR 0x9A, CHR 0xA0] @ '' SRTP niegwarantowane '',
      [CHR 0xE2, CHR 0x9A, CHR 0xA0] @ '' SRTP nicht garantiert '',
      [CHR 0xE2, CHR 0x9A, CHR 0xA0] @ '' SRTP non garanti '',
      [CHR 0xE2, CHR 0x9A, CHR 0xA0] @ '' SRTP non garantito '',
      [CHR 0xE2, CHR 0x9A, CHR 0xA0] @ '' SRTP no garantizado '',
      [CHR 0xE2, CHR 0x9A, CHR 0xA0] @ '' SRTP n'' @ [CHR 0xC3, CHR 0xA3] @ ''o garantido ''])]"

definition texts_titles :: "(Key \<times> string list) list" where
  "texts_titles = [
    (''ActionEnableTitle'', [''enable {}?'',
      [CHR 0xD1, CHR 0x83, CHR 0xD0, CHR 0xB2, CHR 0xD1, CHR 0x96, CHR 0xD0, CHR 0xBC, CHR 0xD0, CHR 0xBA, CHR 0xD0, CHR 0xBD, CHR 0xD1, CHR 0x83, CHR 0xD1, CHR 0x82, CHR 0xD0, CHR 0xB8] @ '' {}?'',
      [CHR 0xD0, CHR 0xB2, CHR 0xD0, CHR 0xBA, CHR 0xD0, CHR 0xBB, CHR 0xD1, CHR 0x8E, CHR 0xD1, CHR 0x87, CHR 0xD0, CHR 0xB8, CHR 0xD1, CHR 0x82, CHR 0xD1, CHR 0x8C] @ '' {}?'',
      [CHR ''w'', CHR 0xC5, CHR 0x82, CHR 0xC4, CHR 0x85, CHR ''c'', CHR ''z'', CHR ''y'', CHR 0xC4, CHR 0x87] @ '' {}?'',
      ''{} aktivieren?'',
      ''activer {} ?'',
      ''abilitare {}?'',
      [CHR 0xC2, CHR 0xBF] @ ''habilitar {}?'',
      ''habilitar {}?'']),
    (''ActionDisableTitle'', [''disable {}?'',
      [CHR 0xD0, CHR 0xB2, CHR 0xD0, CHR 0xB8, CHR 0xD0, CHR 0xBC, CHR 0xD0, CHR 0xBA, CHR 0xD0, CHR 0xBD, CHR 0xD1, CHR 0x83, CHR 0xD1, CHR 0x82, CHR 0xD0, CHR 0xB8] @ '' {}?'',
      [CHR 0xD0, CHR 0xB2, CHR 0xD1, CHR 0x8B, CHR 0xD0, CHR 0xBA, CHR 0xD0, CHR 0xBB, CHR 0xD1, CHR 0x8E, CHR 0xD1, CHR 0x87, CHR 0xD0, CHR 0xB8, CHR 0xD1, CHR 0x82, CHR 0xD1, CHR 0x8C] @ '' {}?'',
      [CHR ''w'', CHR ''y'', CHR 0xC5, CHR 0x82, CHR 0xC4, CHR 0x85, CHR ''c'', CHR ''z'', CHR ''y'', CHR 0xC4, CHR 0x87] @ '' {}?'',
      ''{} deaktivieren?'',
      [CHR ''d'', CHR 0xC3, CHR 0xA9] @ ''sactiver {} ?'',
      ''disabilitare {}?'',
      [CHR 0xC2, CHR 0xBF] @ ''deshabilitar {}?'',
      ''desabilitar {}?'']),
    (''ActionDeactivateTitle'', [''deactivate {}?'',
      ''deactivate {}?'',
      ''deactivate {}?'',
      ''deactivate {}?'',
      ''deactivate {}?'',
      ''deactivate {}?'',
      ''deactivate {}?'',
      ''deactivate {}?'',
      ''deactivate {}?'']),
    (''ActionDeleteTitle'', [[CHR 0xE2, CHR 0x9A, CHR 0xA0] @ '' delete account {}'',
      [CHR 0xE2, CHR 0x9A, CHR 0xA0, CHR '' '', CHR 0xD0, CHR 0xB2, CHR 0xD0, CHR 0xB8, CHR 0xD0, CHR 0xB4, CHR 0xD0, CHR 0xB0, CHR 0xD0, CHR 0xBB, CHR 0xD0, CHR 0xB8, CHR 0xD1, CHR 0x82, CHR 0xD0, CHR 0xB8, CHR '' '', CHR 0xD0, CHR 0xB0, CHR 0xD0, CHR 0xBA, CHR 0xD0, CHR 0xB0, CHR 0xD1, CHR 0x83, CHR 0xD0, CHR 0xBD, CHR 0xD1, CHR 0x82, CHR '' '', CHR ''{'', CHR ''}''],
      [CHR 0xE2, CHR 0x9A, CHR 0xA0, CHR '' '', CHR 0xD1, CHR 0x83, CHR 0xD0, CHR 0xB4, CHR 0xD0, CHR 0xB0, CHR 0xD0, CHR 0xBB, CHR 0xD0, CHR 0xB8, CHR 0xD1, CHR 0x82, CHR 0xD1, CHR 0x8C, CHR '' '', CHR 0xD0, CHR 0xB0, CHR 0xD0, CHR 0xBA, CHR 0xD0, CHR 0xBA, CHR 0xD0, CHR 0xB0, CHR 0xD1, CHR 0x83, CHR 0xD0, CHR 0xBD, CHR 0xD1, CHR 0x82, CHR '' '', CHR ''{'', CHR ''}''],
      [CHR 0xE2, CHR 0x9A, CHR 0xA0] @ '' usu'' @ [CHR 0xC5, CHR 0x84] @ '' konto {}'',
      [CHR 0xE2, CHR 0x9A, CHR 0xA0] @ '' Konto {} l'' @ [CHR 0xC3, CHR 0xB6] @ ''schen'',
      [CHR 0xE2, CHR 0x9A, CHR 0xA0] @ '' supprimer le compte {}'',
      [CHR 0xE2, CHR 0x9A, CHR 0xA0] @ '' elimina l'' @ [CHR 0x27] @ ''account {}'',
      [CHR 0xE2, CHR 0x9A, CHR 0xA0] @ '' eliminar la cuenta {}'',
      [CHR 0xE2, CHR 0x9A, CHR 0xA0] @ '' excluir a conta {}''])]"

definition texts_bodies :: "(Key \<times> string list) list" where
  "texts_bodies = [
    (''ActionEnableBody'', [''The daemon will bring the Signal session and SIP for this account back up within 30s (or immediately on SIGHUP).'',
      [CHR 0xD0, CHR 0x94, CHR 0xD0, CHR 0xB5, CHR 0xD0, CHR 0xBC, CHR 0xD0, CHR 0xBE, CHR 0xD0, CHR 0xBD, CHR '' '', CHR 0xD0, CHR 0xB7, CHR 0xD0, CHR 0xBD, CHR 0xD0, CHR 0xBE, CHR 0xD0, CHR 0xB2, CHR 0xD1, CHR 0x83, CHR '' '', CHR 0xD0, CHR 0xBF, CHR 0xD1, CHR 0x96, CHR 0xD0, CHR 0xB4, CHR 0xD0, CHR 0xBD, CHR 0xD1, CHR 0x96, CHR 0xD0, CHR 0xBC, CHR 0xD0, CHR 0xB5] @ '' Signal-'' @ [CHR 0xD1, CHR 0x81, CHR 0xD0, CHR 0xB5, CHR 0xD1, CHR 0x81, CHR 0xD1, CHR 0x96, CHR 0xD1, CHR 0x8E, CHR '' '', CHR 0xD1, CHR 0x82, CHR 0xD0, CHR 0xB0] @ '' SIP '' @ [CHR 0xD0, CHR 0xB4, CHR 0xD0, CHR 0xBB, CHR 0xD1, CHR 0x8F, CHR '' '', CHR 0xD1, CHR 0x86, CHR 0xD1, CHR 0x8C, CHR 0xD0, CHR 0xBE, CHR 0xD0, CHR 0xB3, CHR 0xD0, CHR 0xBE, CHR '' '', CHR 0xD0, CHR 0xB0, CHR 0xD0, CHR 0xBA, CHR 0xD0, CHR 0xB0, CHR 0xD1, CHR 0x83, CHR 0xD0, CHR 0xBD, CHR 0xD1, CHR 0x82, CHR 0xD0, CHR 0xB0, CHR '' '', CHR 0xD0, CHR 0xBF, CHR 0xD1, CHR 0x80, CHR 0xD0, CHR 0xBE, CHR 0xD1, CHR 0x82, CHR 0xD1, CHR 0x8F, CHR 0xD0, CHR 0xB3, CHR 0xD0, CHR 0xBE, CHR 0xD0, CHR 0xBC, CHR '' '', CHR ''3'', CHR ''0'', CHR 0xD1, CHR 0x81, CHR '' '', CHR ''('', CHR 0xD0, CHR 0xB0, CHR 0xD0, CHR 0xB1, CHR 0xD0, CHR 0xBE, CHR '' '', CHR 0xD0, CHR 0xBE, CHR 0xD0, CHR 0xB4, CHR 0xD1, CHR 0x80, CHR 0xD0, CHR 0xB0, CHR 0xD0, CHR 0xB7, CHR 0xD1, CHR 0x83, CHR '' '', CHR 0xD0, CHR 0xBF, CHR 0xD0, CHR 0xBE] @ '' SIGHUP).'',
      [CHR 0xD0, CHR 0x94, CHR 0xD0, CHR 0xB5, CHR 0xD0, CHR 0xBC, CHR 0xD0, CHR 0xBE, CHR 0xD0, CHR 0xBD, CHR '' '', CHR 0xD1, CHR 0x81, CHR 0xD0, CHR 0xBD, CHR 0xD0, CHR 0xBE, CHR 0xD0, CHR 0xB2, CHR 0xD0, CHR 0xB0, CHR '' '', CHR 0xD0, CHR 0xBF, CHR 0xD0, CHR 0xBE, CHR 0xD0, CHR 0xB4, CHR 0xD0, CHR 0xBD, CHR 0xD0, CHR 0xB8, CHR 0xD0, CHR 0xBC, CHR 0xD0, CHR 0xB5, CHR 0xD1, CHR 0x82] @ '' Signal-'' @ [CHR 0xD1, CHR 0x81, CHR 0xD0, CHR 0xB5, CHR 0xD1, CHR 0x81, CHR 0xD1, CHR 0x81, CHR 0xD0, CHR 0xB8, CHR 0xD1, CHR 0x8E, CHR '' '', CHR 0xD0, CHR 0xB8] @ '' SIP '' @ [CHR 0xD0, CHR 0xB4, CHR 0xD0, CHR 0xBB, CHR 0xD1, CHR 0x8F, CHR '' '', CHR 0xD1, CHR 0x8D, CHR 0xD1, CHR 0x82, CHR 0xD0, CHR 0xBE, CHR 0xD0, CHR 0xB3, CHR 0xD0, CHR 0xBE, CHR '' '', CHR 0xD0, CHR 0xB0, CHR 0xD0, CHR 0xBA, CHR 0xD0, CHR 0xBA, CHR 0xD0, CHR 0xB0, CHR 0xD1, CHR 0x83, CHR 0xD0, CHR 0xBD, CHR 0xD1, CHR 0x82, CHR 0xD0, CHR 0xB0, CHR '' '', CHR 0xD0, CHR 0xB2, CHR '' '', CHR 0xD1, CHR 0x82, CHR 0xD0, CHR 0xB5, CHR 0xD1, CHR 0x87, CHR 0xD0, CHR 0xB5, CHR 0xD0, CHR 0xBD, CHR 0xD0, CHR 0xB8, CHR 0xD0, CHR 0xB5, CHR '' '', CHR ''3'', CHR ''0'', CHR 0xD1, CHR 0x81, CHR '' '', CHR ''('', CHR 0xD0, CHR 0xB8, CHR 0xD0, CHR 0xBB, CHR 0xD0, CHR 0xB8, CHR '' '', CHR 0xD1, CHR 0x81, CHR 0xD1, CHR 0x80, CHR 0xD0, CHR 0xB0, CHR 0xD0, CHR 0xB7, CHR 0xD1, CHR 0x83, CHR '' '', CHR 0xD0, CHR 0xBF, CHR 0xD0, CHR 0xBE] @ '' SIGHUP).'',
      ''Demon ponownie uruchomi sesj'' @ [CHR 0xC4, CHR 0x99] @ '' Signal i SIP dla tego konta w ci'' @ [CHR 0xC4, CHR 0x85] @ ''gu 30s (lub natychmiast po SIGHUP).'',
      ''Der Daemon bringt die Signal-Sitzung und SIP f'' @ [CHR 0xC3, CHR 0xBC] @ ''r dieses Konto innerhalb von 30s wieder hoch (oder sofort bei SIGHUP).'',
      ''Le d'' @ [CHR 0xC3, CHR 0xA9] @ ''mon relancera la session Signal et le SIP pour ce compte dans les 30s (ou imm'' @ [CHR 0xC3, CHR 0xA9] @ ''diatement sur SIGHUP).'',
      ''Il demone riattiver'' @ [CHR 0xC3, CHR 0xA0] @ '' la sessione Signal e il SIP per questo account entro 30s (o subito con SIGHUP).'',
      ''El demonio volver'' @ [CHR 0xC3, CHR 0xA1] @ '' a levantar la sesi'' @ [CHR 0xC3, CHR 0xB3] @ ''n de Signal y el SIP para esta cuenta en 30s (o de inmediato con SIGHUP).'',
      ''O daemon vai reerguer a sess'' @ [CHR 0xC3, CHR 0xA3] @ ''o do Signal e o SIP desta conta em at'' @ [CHR 0xC3, CHR 0xA9] @ '' 30s (ou imediatamente com SIGHUP).'']),
    (''ActionDisableBody'', [''The daemon will stop bringing up SIP and the Signal session for this account within 30s (or immediately on SIGHUP). Incoming calls will stop arriving. Reversible - enable will restore it.'',
      [CHR 0xD0, CHR 0x94, CHR 0xD0, CHR 0xB5, CHR 0xD0, CHR 0xBC, CHR 0xD0, CHR 0xBE, CHR 0xD0, CHR 0xBD, CHR '' '', CHR 0xD0, CHR 0xBF, CHR 0xD0, CHR 0xB5, CHR 0xD1, CHR 0x80, CHR 0xD0, CHR 0xB5, CHR 0xD1, CHR 0x81, CHR 0xD1, CHR 0x82, CHR 0xD0, CHR 0xB0, CHR 0xD0, CHR 0xBD, CHR 0xD0, CHR 0xB5, CHR '' '', CHR 0xD0, CHR 0xBF, CHR 0xD1, CHR 0x96, CHR 0xD0, CHR 0xB4, CHR 0xD0, CHR 0xBD, CHR 0xD1, CHR 0x96, CHR 0xD0, CHR 0xBC, CHR 0xD0, CHR 0xB0, CHR 0xD1, CHR 0x82, CHR 0xD0, CHR 0xB8] @ '' SIP '' @ [CHR 0xD1, CHR 0x82, CHR 0xD0, CHR 0xB0] @ '' Signal-'' @ [CHR 0xD1, CHR 0x81, CHR 0xD0, CHR 0xB5, CHR 0xD1, CHR 0x81, CHR 0xD1, CHR 0x96, CHR 0xD1, CHR 0x8E, CHR '' '', CHR 0xD0, CHR 0xB4, CHR 0xD0, CHR 0xBB, CHR 0xD1, CHR 0x8F, CHR '' '', CHR 0xD1, CHR 0x86, CHR 0xD1, CHR 0x8C, CHR 0xD0, CHR 0xBE, CHR 0xD0, CHR 0xB3, CHR 0xD0, CHR 0xBE, CHR '' '', CHR 0xD0, CHR 0xB0, CHR 0xD0, CHR 0xBA, CHR 0xD0, CHR 0xB0, CHR 0xD1, CHR 0x83, CHR 0xD0, CHR 0xBD, CHR 0xD1, CHR 0x82, CHR 0xD0, CHR 0xB0, CHR '' '', CHR 0xD0, CHR 0xBF, CHR 0xD1, CHR 0x80, CHR 0xD0, CHR 0xBE, CHR 0xD1, CHR 0x82, CHR 0xD1, CHR 0x8F, CHR 0xD0, CHR 0xB3, CHR 0xD0, CHR 0xBE, CHR 0xD0, CHR 0xBC, CHR '' '', CHR ''3'', CHR ''0'', CHR 0xD1, CHR 0x81, CHR '' '', CHR ''('', CHR 0xD0, CHR 0xB0, CHR 0xD0, CHR 0xB1, CHR 0xD0, CHR 0xBE, CHR '' '', CHR 0xD0, CHR 0xBE, CHR 0xD0, CHR 0xB4, CHR 0xD1, CHR 0x80, CHR 0xD0, CHR 0xB0, CHR 0xD0, CHR 0xB7, CHR 0xD1, CHR 0x83, CHR '' '', CHR 0xD0, CHR 0xBF, CHR 0xD0, CHR 0xBE] @ '' SIGHUP). '' @ [CHR 0xD0, CHR 0x92, CHR 0xD1, CHR 0x85, CHR 0xD1, CHR 0x96, CHR 0xD0, CHR 0xB4, CHR 0xD0, CHR 0xBD, CHR 0xD1, CHR 0x96, CHR '' '', CHR 0xD0, CHR 0xB4, CHR 0xD0, CHR 0xB7, CHR 0xD0, CHR 0xB2, CHR 0xD1, CHR 0x96, CHR 0xD0, CHR 0xBD, CHR 0xD0, CHR 0xBA, CHR 0xD0, CHR 0xB8, CHR '' '', CHR 0xD0, CHR 0xBF, CHR 0xD0, CHR 0xB5, CHR 0xD1, CHR 0x80, CHR 0xD0, CHR 0xB5, CHR 0xD1, CHR 0x81, CHR 0xD1, CHR 0x82, CHR 0xD0, CHR 0xB0, CHR 0xD0, CHR 0xBD, CHR 0xD1, CHR 0x83, CHR 0xD1, CHR 0x82, CHR 0xD1, CHR 0x8C, CHR '' '', CHR 0xD0, CHR 0xBD, CHR 0xD0, CHR 0xB0, CHR 0xD0, CHR 0xB4, CHR 0xD1, CHR 0x85, CHR 0xD0, CHR 0xBE, CHR 0xD0, CHR 0xB4, CHR 0xD0, CHR 0xB8, CHR 0xD1, CHR 0x82, CHR 0xD0, CHR 0xB8, CHR ''.'', CHR '' '', CHR 0xD0, CHR 0x9E, CHR 0xD0, CHR 0xB1, CHR 0xD0, CHR 0xBE, CHR 0xD1, CHR 0x80, CHR 0xD0, CHR 0xBE, CHR 0xD1, CHR 0x82, CHR 0xD0, CHR 0xBD, CHR 0xD0, CHR 0xBE] @ '' - enable '' @ [CHR 0xD0, CHR 0xBF, CHR 0xD0, CHR 0xBE, CHR 0xD0, CHR 0xB2, CHR 0xD0, CHR 0xB5, CHR 0xD1, CHR 0x80, CHR 0xD0, CHR 0xBD, CHR 0xD0, CHR 0xB5, CHR '' '', CHR 0xD1, CHR 0x8F, CHR 0xD0, CHR 0xBA, CHR '' '', CHR 0xD0, CHR 0xB1, CHR 0xD1, CHR 0x83, CHR 0xD0, CHR 0xBB, CHR 0xD0, CHR 0xBE, CHR ''.''],
      [CHR 0xD0, CHR 0x94, CHR 0xD0, CHR 0xB5, CHR 0xD0, CHR 0xBC, CHR 0xD0, CHR 0xBE, CHR 0xD0, CHR 0xBD, CHR '' '', CHR 0xD0, CHR 0xBF, CHR 0xD0, CHR 0xB5, CHR 0xD1, CHR 0x80, CHR 0xD0, CHR 0xB5, CHR 0xD1, CHR 0x81, CHR 0xD1, CHR 0x82, CHR 0xD0, CHR 0xB0, CHR 0xD0, CHR 0xBD, CHR 0xD0, CHR 0xB5, CHR 0xD1, CHR 0x82, CHR '' '', CHR 0xD0, CHR 0xBF, CHR 0xD0, CHR 0xBE, CHR 0xD0, CHR 0xB4, CHR 0xD0, CHR 0xBD, CHR 0xD0, CHR 0xB8, CHR 0xD0, CHR 0xBC, CHR 0xD0, CHR 0xB0, CHR 0xD1, CHR 0x82, CHR 0xD1, CHR 0x8C] @ '' SIP '' @ [CHR 0xD0, CHR 0xB8] @ '' Signal-'' @ [CHR 0xD1, CHR 0x81, CHR 0xD0, CHR 0xB5, CHR 0xD1, CHR 0x81, CHR 0xD1, CHR 0x81, CHR 0xD0, CHR 0xB8, CHR 0xD1, CHR 0x8E, CHR '' '', CHR 0xD0, CHR 0xB4, CHR 0xD0, CHR 0xBB, CHR 0xD1, CHR 0x8F, CHR '' '', CHR 0xD1, CHR 0x8D, CHR 0xD1, CHR 0x82, CHR 0xD0, CHR 0xBE, CHR 0xD0, CHR 0xB3, CHR 0xD0, CHR 0xBE, CHR '' '', CHR 0xD0, CHR 0xB0, CHR 0xD0, CHR 0xBA, CHR 0xD0, CHR 0xBA, CHR 0xD0, CHR 0xB0, CHR 0xD1, CHR 0x83, CHR 0xD0, CHR 0xBD, CHR 0xD1, CHR 0x82, CHR 0xD0, CHR 0xB0, CHR '' '', CHR 0xD0, CHR 0xB2, CHR '' '', CHR 0xD1, CHR 0x82, CHR 0xD0, CHR 0xB5, CHR 0xD1, CHR 0x87, CHR 0xD0, CHR 0xB5, CHR 0xD0, CHR 0xBD, CHR 0xD0, CHR 0xB8, CHR 0xD0, CHR 0xB5, CHR '' '', CHR ''3'', CHR ''0'', CHR 0xD1, CHR 0x81, CHR '' '', CHR ''('', CHR 0xD0, CHR 0xB8, CHR 0xD0, CHR 0xBB, CHR 0xD0, CHR 0xB8, CHR '' '', CHR 0xD1, CHR 0x81, CHR 0xD1, CHR 0x80, CHR 0xD0, CHR 0xB0, CHR 0xD0, CHR 0xB7, CHR 0xD1, CHR 0x83, CHR '' '', CHR 0xD0, CHR 0xBF, CHR 0xD0, CHR 0xBE] @ '' SIGHUP). '' @ [CHR 0xD0, CHR 0x92, CHR 0xD1, CHR 0x85, CHR 0xD0, CHR 0xBE, CHR 0xD0, CHR 0xB4, CHR 0xD1, CHR 0x8F, CHR 0xD1, CHR 0x89, CHR 0xD0, CHR 0xB8, CHR 0xD0, CHR 0xB5, CHR '' '', CHR 0xD0, CHR 0xB7, CHR 0xD0, CHR 0xB2, CHR 0xD0, CHR 0xBE, CHR 0xD0, CHR 0xBD, CHR 0xD0, CHR 0xBA, CHR 0xD0, CHR 0xB8, CHR '' '', CHR 0xD0, CHR 0xBF, CHR 0xD0, CHR 0xB5, CHR 0xD1, CHR 0x80, CHR 0xD0, CHR 0xB5, CHR 0xD1, CHR 0x81, CHR 0xD1, CHR 0x82, CHR 0xD0, CHR 0xB0, CHR 0xD0, CHR 0xBD, CHR 0xD1, CHR 0x83, CHR 0xD1, CHR 0x82, CHR '' '', CHR 0xD0, CHR 0xB4, CHR 0xD0, CHR 0xBE, CHR 0xD1, CHR 0x85, CHR 0xD0, CHR 0xBE, CHR 0xD0, CHR 0xB4, CHR 0xD0, CHR 0xB8, CHR 0xD1, CHR 0x82, CHR 0xD1, CHR 0x8C, CHR ''.'', CHR '' '', CHR 0xD0, CHR 0x9E, CHR 0xD0, CHR 0xB1, CHR 0xD1, CHR 0x80, CHR 0xD0, CHR 0xB0, CHR 0xD1, CHR 0x82, CHR 0xD0, CHR 0xB8, CHR 0xD0, CHR 0xBC, CHR 0xD0, CHR 0xBE] @ '' - enable '' @ [CHR 0xD0, CHR 0xB2, CHR 0xD0, CHR 0xB5, CHR 0xD1, CHR 0x80, CHR 0xD0, CHR 0xBD, CHR 0xD1, CHR 0x91, CHR 0xD1, CHR 0x82, CHR '' '', CHR 0xD0, CHR 0xBA, CHR 0xD0, CHR 0xB0, CHR 0xD0, CHR 0xBA, CHR '' '', CHR 0xD0, CHR 0xB1, CHR 0xD1, CHR 0x8B, CHR 0xD0, CHR 0xBB, CHR 0xD0, CHR 0xBE, CHR ''.''],
      ''Demon przestanie uruchamia'' @ [CHR 0xC4, CHR 0x87] @ '' SIP i sesj'' @ [CHR 0xC4, CHR 0x99] @ '' Signal dla tego konta w ci'' @ [CHR 0xC4, CHR 0x85] @ ''gu 30s (lub natychmiast po SIGHUP). Po'' @ [CHR 0xC5, CHR 0x82, CHR 0xC4, CHR 0x85] @ ''czenia przychodz'' @ [CHR 0xC4, CHR 0x85] @ ''ce przestan'' @ [CHR 0xC4, CHR 0x85] @ '' dociera'' @ [CHR 0xC4, CHR 0x87] @ ''. Odwracalne - enable przywr'' @ [CHR 0xC3, CHR 0xB3] @ ''ci poprzedni stan.'',
      ''Der Daemon stellt SIP und die Signal-Sitzung f'' @ [CHR 0xC3, CHR 0xBC] @ ''r dieses Konto innerhalb von 30s ein (oder sofort bei SIGHUP). Eingehende Anrufe kommen nicht mehr an. Reversibel - enable stellt den vorherigen Zustand wieder her.'',
      ''Le d'' @ [CHR 0xC3, CHR 0xA9] @ ''mon arr'' @ [CHR 0xC3, CHR 0xAA] @ ''tera le SIP et la session Signal pour ce compte dans les 30s (ou imm'' @ [CHR 0xC3, CHR 0xA9] @ ''diatement sur SIGHUP). Les appels entrants cesseront d'' @ [CHR 0x27] @ ''arriver. R'' @ [CHR 0xC3, CHR 0xA9] @ ''versible - enable r'' @ [CHR 0xC3, CHR 0xA9] @ ''tablira l'' @ [CHR 0x27, CHR 0xC3, CHR 0xA9] @ ''tat pr'' @ [CHR 0xC3, CHR 0xA9, CHR ''c'', CHR 0xC3, CHR 0xA9] @ ''dent.'',
      ''Il demone smetter'' @ [CHR 0xC3, CHR 0xA0] @ '' di attivare il SIP e la sessione Signal per questo account entro 30s (o subito con SIGHUP). Le chiamate in arrivo smetteranno di arrivare. Reversibile - enable ripristiner'' @ [CHR 0xC3, CHR 0xA0] @ '' lo stato precedente.'',
      ''El demonio dejar'' @ [CHR 0xC3, CHR 0xA1] @ '' de levantar el SIP y la sesi'' @ [CHR 0xC3, CHR 0xB3] @ ''n de Signal para esta cuenta en 30s (o de inmediato con SIGHUP). Las llamadas entrantes dejar'' @ [CHR 0xC3, CHR 0xA1] @ ''n de llegar. Reversible - enable restaurar'' @ [CHR 0xC3, CHR 0xA1] @ '' el estado anterior.'',
      ''O daemon vai parar de erguer o SIP e a sess'' @ [CHR 0xC3, CHR 0xA3] @ ''o do Signal desta conta em at'' @ [CHR 0xC3, CHR 0xA9] @ '' 30s (ou imediatamente com SIGHUP). As chamadas recebidas v'' @ [CHR 0xC3, CHR 0xA3] @ ''o parar de chegar. Revers'' @ [CHR 0xC3, CHR 0xAD] @ ''vel - enable restaura o estado anterior.'']),
    (''ActionDeactivateBody'', [''A real but reversible server-side flag (fetchesMessages=false) - the number becomes unreachable for incoming Signal messages until reactivate. Doesn'' @ [CHR 0x27] @ ''t touch local data.'',
      [CHR 0xD0, CHR 0xA0, CHR 0xD0, CHR 0xB5, CHR 0xD0, CHR 0xB0, CHR 0xD0, CHR 0xBB, CHR 0xD1, CHR 0x8C, CHR 0xD0, CHR 0xBD, CHR 0xD0, CHR 0xB8, CHR 0xD0, CHR 0xB9, CHR '','', CHR '' '', CHR 0xD0, CHR 0xB0, CHR 0xD0, CHR 0xBB, CHR 0xD0, CHR 0xB5, CHR '' '', CHR 0xD0, CHR 0xBE, CHR 0xD0, CHR 0xB1, CHR 0xD0, CHR 0xBE, CHR 0xD1, CHR 0x80, CHR 0xD0, CHR 0xBE, CHR 0xD1, CHR 0x82, CHR 0xD0, CHR 0xBD, CHR 0xD0, CHR 0xB8, CHR 0xD0, CHR 0xB9, CHR '' '', CHR 0xD1, CHR 0x81, CHR 0xD0, CHR 0xB5, CHR 0xD1, CHR 0x80, CHR 0xD0, CHR 0xB2, CHR 0xD0, CHR 0xB5, CHR 0xD1, CHR 0x80, CHR 0xD0, CHR 0xBD, CHR 0xD0, CHR 0xB8, CHR 0xD0, CHR 0xB9, CHR '' '', CHR 0xD0, CHR 0xBF, CHR 0xD1, CHR 0x80, CHR 0xD0, CHR 0xB0, CHR 0xD0, CHR 0xBF, CHR 0xD0, CHR 0xBE, CHR 0xD1, CHR 0x80, CHR 0xD0, CHR 0xB5, CHR 0xD1, CHR 0x86, CHR 0xD1, CHR 0x8C] @ '' (fetchesMessages=false) - '' @ [CHR 0xD0, CHR 0xBD, CHR 0xD0, CHR 0xBE, CHR 0xD0, CHR 0xBC, CHR 0xD0, CHR 0xB5, CHR 0xD1, CHR 0x80, CHR '' '', CHR 0xD1, CHR 0x81, CHR 0xD1, CHR 0x82, CHR 0xD0, CHR 0xB0, CHR 0xD0, CHR 0xBD, CHR 0xD0, CHR 0xB5, CHR '' '', CHR 0xD0, CHR 0xBD, CHR 0xD0, CHR 0xB5, CHR 0xD0, CHR 0xB4, CHR 0xD0, CHR 0xBE, CHR 0xD1, CHR 0x81, CHR 0xD1, CHR 0x82, CHR 0xD1, CHR 0x83, CHR 0xD0, CHR 0xBF, CHR 0xD0, CHR 0xBD, CHR 0xD0, CHR 0xB8, CHR 0xD0, CHR 0xBC, CHR '' '', CHR 0xD0, CHR 0xB4, CHR 0xD0, CHR 0xBB, CHR 0xD1, CHR 0x8F, CHR '' '', CHR 0xD0, CHR 0xB2, CHR 0xD1, CHR 0x85, CHR 0xD1, CHR 0x96, CHR 0xD0, CHR 0xB4, CHR 0xD0, CHR 0xBD, CHR 0xD0, CHR 0xB8, CHR 0xD1, CHR 0x85] @ '' Signal-'' @ [CHR 0xD0, CHR 0xBF, CHR 0xD0, CHR 0xBE, CHR 0xD0, CHR 0xB2, CHR 0xD1, CHR 0x96, CHR 0xD0, CHR 0xB4, CHR 0xD0, CHR 0xBE, CHR 0xD0, CHR 0xBC, CHR 0xD0, CHR 0xBB, CHR 0xD0, CHR 0xB5, CHR 0xD0, CHR 0xBD, CHR 0xD1, CHR 0x8C, CHR '' '', CHR 0xD0, CHR 0xB4, CHR 0xD0, CHR 0xBE] @ '' reactivate. '' @ [CHR 0xD0, CHR 0x9B, CHR 0xD0, CHR 0xBE, CHR 0xD0, CHR 0xBA, CHR 0xD0, CHR 0xB0, CHR 0xD0, CHR 0xBB, CHR 0xD1, CHR 0x8C, CHR 0xD0, CHR 0xBD, CHR 0xD1, CHR 0x96, CHR '' '', CHR 0xD0, CHR 0xB4, CHR 0xD0, CHR 0xB0, CHR 0xD0, CHR 0xBD, CHR 0xD1, CHR 0x96, CHR '' '', CHR 0xD0, CHR 0xBD, CHR 0xD0, CHR 0xB5, CHR '' '', CHR 0xD0, CHR 0xB7, CHR 0xD0, CHR 0xB0, CHR 0xD1, CHR 0x87, CHR 0xD1, CHR 0x96, CHR 0xD0, CHR 0xBF, CHR 0xD0, CHR 0xB0, CHR 0xD1, CHR 0x94, CHR ''.''],
      [CHR 0xD0, CHR 0xA0, CHR 0xD0, CHR 0xB5, CHR 0xD0, CHR 0xB0, CHR 0xD0, CHR 0xBB, CHR 0xD1, CHR 0x8C, CHR 0xD0, CHR 0xBD, CHR 0xD1, CHR 0x8B, CHR 0xD0, CHR 0xB9, CHR '','', CHR '' '', CHR 0xD0, CHR 0xBD, CHR 0xD0, CHR 0xBE, CHR '' '', CHR 0xD0, CHR 0xBE, CHR 0xD0, CHR 0xB1, CHR 0xD1, CHR 0x80, CHR 0xD0, CHR 0xB0, CHR 0xD1, CHR 0x82, CHR 0xD0, CHR 0xB8, CHR 0xD0, CHR 0xBC, CHR 0xD1, CHR 0x8B, CHR 0xD0, CHR 0xB9, CHR '' '', CHR 0xD1, CHR 0x81, CHR 0xD0, CHR 0xB5, CHR 0xD1, CHR 0x80, CHR 0xD0, CHR 0xB2, CHR 0xD0, CHR 0xB5, CHR 0xD1, CHR 0x80, CHR 0xD0, CHR 0xBD, CHR 0xD1, CHR 0x8B, CHR 0xD0, CHR 0xB9, CHR '' '', CHR 0xD1, CHR 0x84, CHR 0xD0, CHR 0xBB, CHR 0xD0, CHR 0xB0, CHR 0xD0, CHR 0xB3] @ '' (fetchesMessages=false) - '' @ [CHR 0xD0, CHR 0xBD, CHR 0xD0, CHR 0xBE, CHR 0xD0, CHR 0xBC, CHR 0xD0, CHR 0xB5, CHR 0xD1, CHR 0x80, CHR '' '', CHR 0xD1, CHR 0x81, CHR 0xD1, CHR 0x82, CHR 0xD0, CHR 0xB0, CHR 0xD0, CHR 0xBD, CHR 0xD0, CHR 0xB5, CHR 0xD1, CHR 0x82, CHR '' '', CHR 0xD0, CHR 0xBD, CHR 0xD0, CHR 0xB5, CHR 0xD0, CHR 0xB4, CHR 0xD0, CHR 0xBE, CHR 0xD1, CHR 0x81, CHR 0xD1, CHR 0x82, CHR 0xD1, CHR 0x83, CHR 0xD0, CHR 0xBF, CHR 0xD0, CHR 0xB5, CHR 0xD0, CHR 0xBD, CHR '' '', CHR 0xD0, CHR 0xB4, CHR 0xD0, CHR 0xBB, CHR 0xD1, CHR 0x8F, CHR '' '', CHR 0xD0, CHR 0xB2, CHR 0xD1, CHR 0x85, CHR 0xD0, CHR 0xBE, CHR 0xD0, CHR 0xB4, CHR 0xD1, CHR 0x8F, CHR 0xD1, CHR 0x89, CHR 0xD0, CHR 0xB8, CHR 0xD1, CHR 0x85] @ '' Signal-'' @ [CHR 0xD1, CHR 0x81, CHR 0xD0, CHR 0xBE, CHR 0xD0, CHR 0xBE, CHR 0xD0, CHR 0xB1, CHR 0xD1, CHR 0x89, CHR 0xD0, CHR 0xB5, CHR 0xD0, CHR 0xBD, CHR 0xD0, CHR 0xB8, CHR 0xD0, CHR 0xB9, CHR '' '', CHR 0xD0, CHR 0xB4, CHR 0xD0, CHR 0xBE] @ '' reactivate. '' @ [CHR 0xD0, CHR 0x9B, CHR 0xD0, CHR 0xBE, CHR 0xD0, CHR 0xBA, CHR 0xD0, CHR 0xB0, CHR 0xD0, CHR 0xBB, CHR 0xD1, CHR 0x8C, CHR 0xD0, CHR 0xBD, CHR 0xD1, CHR 0x8B, CHR 0xD0, CHR 0xB5, CHR '' '', CHR 0xD0, CHR 0xB4, CHR 0xD0, CHR 0xB0, CHR 0xD0, CHR 0xBD, CHR 0xD0, CHR 0xBD, CHR 0xD1, CHR 0x8B, CHR 0xD0, CHR 0xB5, CHR '' '', CHR 0xD0, CHR 0xBD, CHR 0xD0, CHR 0xB5, CHR '' '', CHR 0xD1, CHR 0x82, CHR 0xD1, CHR 0x80, CHR 0xD0, CHR 0xBE, CHR 0xD0, CHR 0xB3, CHR 0xD0, CHR 0xB0, CHR 0xD0, CHR 0xB5, CHR 0xD1, CHR 0x82, CHR ''.''],
      ''Prawdziwa, ale odwracalna flaga po stronie serwera (fetchesMessages=false) - numer stanie si'' @ [CHR 0xC4, CHR 0x99] @ '' niedost'' @ [CHR 0xC4, CHR 0x99] @ ''pny dla przychodz'' @ [CHR 0xC4, CHR 0x85] @ ''cych wiadomo'' @ [CHR 0xC5, CHR 0x9B] @ ''ci Signal do czasu reactivate. Nie dotyka danych lokalnych.'',
      ''Ein echtes, aber reversibles serverseitiges Flag (fetchesMessages=false) - die Nummer wird bis zur Reaktivierung f'' @ [CHR 0xC3, CHR 0xBC] @ ''r eingehende Signal-Nachrichten unerreichbar. Lokale Daten bleiben unber'' @ [CHR 0xC3, CHR 0xBC] @ ''hrt.'',
      ''Un indicateur c'' @ [CHR 0xC3, CHR 0xB4, CHR ''t'', CHR 0xC3, CHR 0xA9] @ '' serveur r'' @ [CHR 0xC3, CHR 0xA9] @ ''el mais r'' @ [CHR 0xC3, CHR 0xA9] @ ''versible (fetchesMessages=false) - le num'' @ [CHR 0xC3, CHR 0xA9] @ ''ro deviendra injoignable pour les messages Signal entrants jusqu'' @ [CHR 0x27, CHR 0xC3, CHR 0xA0] @ '' la r'' @ [CHR 0xC3, CHR 0xA9] @ ''activation. Ne touche pas aux donn'' @ [CHR 0xC3, CHR 0xA9] @ ''es locales.'',
      ''Un flag lato server reale ma reversibile (fetchesMessages=false) - il numero diventer'' @ [CHR 0xC3, CHR 0xA0] @ '' irraggiungibile per i messaggi Signal in arrivo fino alla riattivazione. Non tocca i dati locali.'',
      ''Un indicador real pero reversible del lado del servidor (fetchesMessages=false) - el n'' @ [CHR 0xC3, CHR 0xBA] @ ''mero quedar'' @ [CHR 0xC3, CHR 0xA1] @ '' inaccesible para los mensajes de Signal entrantes hasta la reactivaci'' @ [CHR 0xC3, CHR 0xB3] @ ''n. No afecta los datos locales.'',
      ''Uma flag real, por'' @ [CHR 0xC3, CHR 0xA9] @ ''m revers'' @ [CHR 0xC3, CHR 0xAD] @ ''vel, do lado do servidor (fetchesMessages=false) - o n'' @ [CHR 0xC3, CHR 0xBA] @ ''mero ficar'' @ [CHR 0xC3, CHR 0xA1] @ '' inacess'' @ [CHR 0xC3, CHR 0xAD] @ ''vel para mensagens do Signal recebidas at'' @ [CHR 0xC3, CHR 0xA9] @ '' a reativa'' @ [CHR 0xC3, CHR 0xA7, CHR 0xC3, CHR 0xA3] @ ''o. N'' @ [CHR 0xC3, CHR 0xA3] @ ''o afeta os dados locais.'']),
    (''ActionDeleteBody'', [''Irreversible. A real DELETE /v1/accounts/me on the Signal server - the number is freed up for someone else to register, local keys are wiped on success.'',
      [CHR 0xD0, CHR 0x9D, CHR 0xD0, CHR 0xB5, CHR 0xD0, CHR 0xB7, CHR 0xD0, CHR 0xB2, CHR 0xD0, CHR 0xBE, CHR 0xD1, CHR 0x80, CHR 0xD0, CHR 0xBE, CHR 0xD1, CHR 0x82, CHR 0xD0, CHR 0xBD, CHR 0xD0, CHR 0xBE, CHR ''.'', CHR '' '', CHR 0xD0, CHR 0xA0, CHR 0xD0, CHR 0xB5, CHR 0xD0, CHR 0xB0, CHR 0xD0, CHR 0xBB, CHR 0xD1, CHR 0x8C, CHR 0xD0, CHR 0xBD, CHR 0xD0, CHR 0xB8, CHR 0xD0, CHR 0xB9] @ '' DELETE /v1/accounts/me '' @ [CHR 0xD0, CHR 0xBD, CHR 0xD0, CHR 0xB0, CHR '' '', CHR 0xD1, CHR 0x81, CHR 0xD0, CHR 0xB5, CHR 0xD1, CHR 0x80, CHR 0xD0, CHR 0xB2, CHR 0xD0, CHR 0xB5, CHR 0xD1, CHR 0x80, CHR 0xD1, CHR 0x96] @ '' Signal - '' @ [CHR 0xD0, CHR 0xBD, CHR 0xD0, CHR 0xBE, CHR 0xD0, CHR 0xBC, CHR 0xD0, CHR 0xB5, CHR 0xD1, CHR 0x80, CHR '' '', CHR 0xD0, CHR 0xB7, CHR 0xD0, CHR 0xB2, CHR 0xD1, CHR 0x96, CHR 0xD0, CHR 0xBB, CHR 0xD1, CHR 0x8C, CHR 0xD0, CHR 0xBD, CHR 0xD1, CHR 0x8F, CHR 0xD1, CHR 0x94, CHR 0xD1, CHR 0x82, CHR 0xD1, CHR 0x8C, CHR 0xD1, CHR 0x81, CHR 0xD1, CHR 0x8F, CHR '' '', CHR 0xD0, CHR 0xB4, CHR 0xD0, CHR 0xBB, CHR 0xD1, CHR 0x8F, CHR '' '', CHR 0xD1, CHR 0x87, CHR 0xD1, CHR 0x83, CHR 0xD0, CHR 0xB6, CHR 0xD0, CHR 0xBE, CHR 0xD1, CHR 0x97, CHR '' '', CHR 0xD1, CHR 0x80, CHR 0xD0, CHR 0xB5, CHR 0xD1, CHR 0x94, CHR 0xD1, CHR 0x81, CHR 0xD1, CHR 0x82, CHR 0xD1, CHR 0x80, CHR 0xD0, CHR 0xB0, CHR 0xD1, CHR 0x86, CHR 0xD1, CHR 0x96, CHR 0xD1, CHR 0x97, CHR '','', CHR '' '', CHR 0xD0, CHR 0xBB, CHR 0xD0, CHR 0xBE, CHR 0xD0, CHR 0xBA, CHR 0xD0, CHR 0xB0, CHR 0xD0, CHR 0xBB, CHR 0xD1, CHR 0x8C, CHR 0xD0, CHR 0xBD, CHR 0xD1, CHR 0x96, CHR '' '', CHR 0xD0, CHR 0xBA, CHR 0xD0, CHR 0xBB, CHR 0xD1, CHR 0x8E, CHR 0xD1, CHR 0x87, CHR 0xD1, CHR 0x96, CHR '' '', CHR 0xD1, CHR 0x81, CHR 0xD1, CHR 0x82, CHR 0xD0, CHR 0xB8, CHR 0xD1, CHR 0x80, CHR 0xD0, CHR 0xB0, CHR 0xD1, CHR 0x8E, CHR 0xD1, CHR 0x82, CHR 0xD1, CHR 0x8C, CHR 0xD1, CHR 0x81, CHR 0xD1, CHR 0x8F, CHR '' '', CHR 0xD0, CHR 0xBF, CHR 0xD1, CHR 0x80, CHR 0xD0, CHR 0xB8, CHR '' '', CHR 0xD1, CHR 0x83, CHR 0xD1, CHR 0x81, CHR 0xD0, CHR 0xBF, CHR 0xD1, CHR 0x96, CHR 0xD1, CHR 0x85, CHR 0xD1, CHR 0x83, CHR ''.''],
      [CHR 0xD0, CHR 0x9D, CHR 0xD0, CHR 0xB5, CHR 0xD0, CHR 0xBE, CHR 0xD0, CHR 0xB1, CHR 0xD1, CHR 0x80, CHR 0xD0, CHR 0xB0, CHR 0xD1, CHR 0x82, CHR 0xD0, CHR 0xB8, CHR 0xD0, CHR 0xBC, CHR 0xD0, CHR 0xBE, CHR ''.'', CHR '' '', CHR 0xD0, CHR 0xA0, CHR 0xD0, CHR 0xB5, CHR 0xD0, CHR 0xB0, CHR 0xD0, CHR 0xBB, CHR 0xD1, CHR 0x8C, CHR 0xD0, CHR 0xBD, CHR 0xD1, CHR 0x8B, CHR 0xD0, CHR 0xB9] @ '' DELETE /v1/accounts/me '' @ [CHR 0xD0, CHR 0xBD, CHR 0xD0, CHR 0xB0, CHR '' '', CHR 0xD1, CHR 0x81, CHR 0xD0, CHR 0xB5, CHR 0xD1, CHR 0x80, CHR 0xD0, CHR 0xB2, CHR 0xD0, CHR 0xB5, CHR 0xD1, CHR 0x80, CHR 0xD0, CHR 0xB5] @ '' Signal - '' @ [CHR 0xD0, CHR 0xBD, CHR 0xD0, CHR 0xBE, CHR 0xD0, CHR 0xBC, CHR 0xD0, CHR 0xB5, CHR 0xD1, CHR 0x80, CHR '' '', CHR 0xD0, CHR 0xBE, CHR 0xD1, CHR 0x81, CHR 0xD0, CHR 0xB2, CHR 0xD0, CHR 0xBE, CHR 0xD0, CHR 0xB1, CHR 0xD0, CHR 0xBE, CHR 0xD0, CHR 0xB6, CHR 0xD0, CHR 0xB4, CHR 0xD0, CHR 0xB0, CHR 0xD0, CHR 0xB5, CHR 0xD1, CHR 0x82, CHR 0xD1, CHR 0x81, CHR 0xD1, CHR 0x8F, CHR '' '', CHR 0xD0, CHR 0xB4, CHR 0xD0, CHR 0xBB, CHR 0xD1, CHR 0x8F, CHR '' '', CHR 0xD1, CHR 0x87, CHR 0xD1, CHR 0x83, CHR 0xD0, CHR 0xB6, CHR 0xD0, CHR 0xBE, CHR 0xD0, CHR 0xB9, CHR '' '', CHR 0xD1, CHR 0x80, CHR 0xD0, CHR 0xB5, CHR 0xD0, CHR 0xB3, CHR 0xD0, CHR 0xB8, CHR 0xD1, CHR 0x81, CHR 0xD1, CHR 0x82, CHR 0xD1, CHR 0x80, CHR 0xD0, CHR 0xB0, CHR 0xD1, CHR 0x86, CHR 0xD0, CHR 0xB8, CHR 0xD0, CHR 0xB8, CHR '','', CHR '' '', CHR 0xD0, CHR 0xBB, CHR 0xD0, CHR 0xBE, CHR 0xD0, CHR 0xBA, CHR 0xD0, CHR 0xB0, CHR 0xD0, CHR 0xBB, CHR 0xD1, CHR 0x8C, CHR 0xD0, CHR 0xBD, CHR 0xD1, CHR 0x8B, CHR 0xD0, CHR 0xB5, CHR '' '', CHR 0xD0, CHR 0xBA, CHR 0xD0, CHR 0xBB, CHR 0xD1, CHR 0x8E, CHR 0xD1, CHR 0x87, CHR 0xD0, CHR 0xB8, CHR '' '', CHR 0xD1, CHR 0x81, CHR 0xD1, CHR 0x82, CHR 0xD0, CHR 0xB8, CHR 0xD1, CHR 0x80, CHR 0xD0, CHR 0xB0, CHR 0xD1, CHR 0x8E, CHR 0xD1, CHR 0x82, CHR 0xD1, CHR 0x81, CHR 0xD1, CHR 0x8F, CHR '' '', CHR 0xD0, CHR 0xBF, CHR 0xD1, CHR 0x80, CHR 0xD0, CHR 0xB8, CHR '' '', CHR 0xD1, CHR 0x83, CHR 0xD1, CHR 0x81, CHR 0xD0, CHR 0xBF, CHR 0xD0, CHR 0xB5, CHR 0xD1, CHR 0x85, CHR 0xD0, CHR 0xB5, CHR ''.''],
      ''Nieodwracalne. Prawdziwe DELETE /v1/accounts/me na serwerze Signal - numer zostaje zwolniony do rejestracji przez kogo'' @ [CHR 0xC5, CHR 0x9B] @ '' innego, lokalne klucze s'' @ [CHR 0xC4, CHR 0x85] @ '' usuwane po powodzeniu.'',
      ''Unwiderruflich. Ein echtes DELETE /v1/accounts/me auf dem Signal-Server - die Nummer wird f'' @ [CHR 0xC3, CHR 0xBC] @ ''r die Registrierung durch jemand anderen freigegeben, lokale Schl'' @ [CHR 0xC3, CHR 0xBC] @ ''ssel werden bei Erfolg gel'' @ [CHR 0xC3, CHR 0xB6] @ ''scht.'',
      [CHR ''I'', CHR ''r'', CHR ''r'', CHR 0xC3, CHR 0xA9] @ ''versible. Un vrai DELETE /v1/accounts/me sur le serveur Signal - le num'' @ [CHR 0xC3, CHR 0xA9] @ ''ro est lib'' @ [CHR 0xC3, CHR 0xA9, CHR ''r'', CHR 0xC3, CHR 0xA9] @ '' pour l'' @ [CHR 0x27] @ ''enregistrement par quelqu'' @ [CHR 0x27] @ ''un d'' @ [CHR 0x27] @ ''autre, les cl'' @ [CHR 0xC3, CHR 0xA9] @ ''s locales sont effac'' @ [CHR 0xC3, CHR 0xA9] @ ''es en cas de succ'' @ [CHR 0xC3, CHR 0xA8, CHR ''s'', CHR ''.''],
      ''Irreversibile. Una vera DELETE /v1/accounts/me sul server Signal - il numero viene liberato per la registrazione da parte di qualcun altro, le chiavi locali vengono cancellate in caso di successo.'',
      ''Irreversible. Un DELETE /v1/accounts/me real en el servidor de Signal - el n'' @ [CHR 0xC3, CHR 0xBA] @ ''mero queda liberado para que otra persona lo registre, las claves locales se borran si tiene '' @ [CHR 0xC3, CHR 0xA9] @ ''xito.'',
      ''Irrevers'' @ [CHR 0xC3, CHR 0xAD] @ ''vel. Um DELETE /v1/accounts/me real no servidor do Signal - o n'' @ [CHR 0xC3, CHR 0xBA] @ ''mero '' @ [CHR 0xC3, CHR 0xA9] @ '' liberado para que outra pessoa o registre, as chaves locais s'' @ [CHR 0xC3, CHR 0xA3] @ ''o apagadas em caso de sucesso.''])]"

definition texts_confirm :: "(Key \<times> string list) list" where
  "texts_confirm = [
    (''ResultDone'', [''done'',
      [CHR 0xD0, CHR 0xB2, CHR 0xD0, CHR 0xB8, CHR 0xD0, CHR 0xBA, CHR 0xD0, CHR 0xBE, CHR 0xD0, CHR 0xBD, CHR 0xD0, CHR 0xB0, CHR 0xD0, CHR 0xBD, CHR 0xD0, CHR 0xBE],
      [CHR 0xD0, CHR 0xB2, CHR 0xD1, CHR 0x8B, CHR 0xD0, CHR 0xBF, CHR 0xD0, CHR 0xBE, CHR 0xD0, CHR 0xBB, CHR 0xD0, CHR 0xBD, CHR 0xD0, CHR 0xB5, CHR 0xD0, CHR 0xBD, CHR 0xD0, CHR 0xBE],
      ''wykonano'',
      ''erledigt'',
      ''termin'' @ [CHR 0xC3, CHR 0xA9],
      ''eseguito'',
      ''hecho'',
      ''conclu'' @ [CHR 0xC3, CHR 0xAD, CHR ''d'', CHR ''o'']]),
    (''ResultError'', [''error (code {})'',
      [CHR 0xD0, CHR 0xBF, CHR 0xD0, CHR 0xBE, CHR 0xD0, CHR 0xBC, CHR 0xD0, CHR 0xB8, CHR 0xD0, CHR 0xBB, CHR 0xD0, CHR 0xBA, CHR 0xD0, CHR 0xB0, CHR '' '', CHR ''('', CHR 0xD0, CHR 0xBA, CHR 0xD0, CHR 0xBE, CHR 0xD0, CHR 0xB4] @ '' {})'',
      [CHR 0xD0, CHR 0xBE, CHR 0xD1, CHR 0x88, CHR 0xD0, CHR 0xB8, CHR 0xD0, CHR 0xB1, CHR 0xD0, CHR 0xBA, CHR 0xD0, CHR 0xB0, CHR '' '', CHR ''('', CHR 0xD0, CHR 0xBA, CHR 0xD0, CHR 0xBE, CHR 0xD0, CHR 0xB4] @ '' {})'',
      [CHR ''b'', CHR 0xC5, CHR 0x82, CHR 0xC4, CHR 0x85] @ ''d (kod {})'',
      ''Fehler (Code {})'',
      ''erreur (code {})'',
      ''errore (codice {})'',
      ''error (c'' @ [CHR 0xC3, CHR 0xB3] @ ''digo {})'',
      ''erro (c'' @ [CHR 0xC3, CHR 0xB3] @ ''digo {})'']),
    (''AnyKeyToList'', [''any key - back to list'',
      [CHR 0xD0, CHR 0xB1, CHR 0xD1, CHR 0x83, CHR 0xD0, CHR 0xB4, CHR 0xD1, CHR 0x8C, CHR ''-'', CHR 0xD1, CHR 0x8F, CHR 0xD0, CHR 0xBA, CHR 0xD0, CHR 0xB0, CHR '' '', CHR 0xD0, CHR 0xBA, CHR 0xD0, CHR 0xBB, CHR 0xD0, CHR 0xB0, CHR 0xD0, CHR 0xB2, CHR 0xD1, CHR 0x96, CHR 0xD1, CHR 0x88, CHR 0xD0, CHR 0xB0, CHR '' '', CHR ''-'', CHR '' '', CHR 0xD0, CHR 0xB4, CHR 0xD0, CHR 0xBE, CHR '' '', CHR 0xD1, CHR 0x81, CHR 0xD0, CHR 0xBF, CHR 0xD0, CHR 0xB8, CHR 0xD1, CHR 0x81, CHR 0xD0, CHR 0xBA, CHR 0xD1, CHR 0x83],
      [CHR 0xD0, CHR 0xBB, CHR 0xD1, CHR 0x8E, CHR 0xD0, CHR 0xB1, CHR 0xD0, CHR 0xB0, CHR 0xD1, CHR 0x8F, CHR '' '', CHR 0xD0, CHR 0xBA, CHR 0xD0, CHR 0xBB, CHR 0xD0, CHR 0xB0, CHR 0xD0, CHR 0xB2, CHR 0xD0, CHR 0xB8, CHR 0xD1, CHR 0x88, CHR 0xD0, CHR 0xB0, CHR '' '', CHR ''-'', CHR '' '', CHR 0xD0, CHR 0xBA, CHR '' '', CHR 0xD1, CHR 0x81, CHR 0xD0, CHR 0xBF, CHR 0xD0, CHR 0xB8, CHR 0xD1, CHR 0x81, CHR 0xD0, CHR 0xBA, CHR 0xD1, CHR 0x83],
      ''dowolny klawisz - wr'' @ [CHR 0xC3, CHR 0xB3, CHR 0xC4, CHR 0x87] @ '' do listy'',
      ''beliebige Taste - zur'' @ [CHR 0xC3, CHR 0xBC] @ ''ck zur Liste'',
      [CHR ''n'', CHR 0x27] @ ''importe quelle touche - retour '' @ [CHR 0xC3, CHR 0xA0] @ '' la liste'',
      ''qualsiasi tasto - torna alla lista'',
      ''cualquier tecla - volver a la lista'',
      ''qualquer tecla - voltar '' @ [CHR 0xC3, CHR 0xA0] @ '' lista'']),
    (''TypeAccountName'', [''type account name: '',
      [CHR 0xD0, CHR 0xB2, CHR 0xD0, CHR 0xB2, CHR 0xD0, CHR 0xB5, CHR 0xD0, CHR 0xB4, CHR 0xD1, CHR 0x96, CHR 0xD1, CHR 0x82, CHR 0xD1, CHR 0x8C, CHR '' '', CHR 0xD1, CHR 0x96, CHR 0xD0, CHR 0xBC, CHR 0x27, CHR 0xD1, CHR 0x8F, CHR '' '', CHR 0xD0, CHR 0xB0, CHR 0xD0, CHR 0xBA, CHR 0xD0, CHR 0xB0, CHR 0xD1, CHR 0x83, CHR 0xD0, CHR 0xBD, CHR 0xD1, CHR 0x82, CHR 0xD0, CHR 0xB0, CHR '':'', CHR '' ''],
      [CHR 0xD0, CHR 0xB2, CHR 0xD0, CHR 0xB2, CHR 0xD0, CHR 0xB5, CHR 0xD0, CHR 0xB4, CHR 0xD0, CHR 0xB8, CHR 0xD1, CHR 0x82, CHR 0xD0, CHR 0xB5, CHR '' '', CHR 0xD0, CHR 0xB8, CHR 0xD0, CHR 0xBC, CHR 0xD1, CHR 0x8F, CHR '' '', CHR 0xD0, CHR 0xB0, CHR 0xD0, CHR 0xBA, CHR 0xD0, CHR 0xBA, CHR 0xD0, CHR 0xB0, CHR 0xD1, CHR 0x83, CHR 0xD0, CHR 0xBD, CHR 0xD1, CHR 0x82, CHR 0xD0, CHR 0xB0, CHR '':'', CHR '' ''],
      ''wpisz nazw'' @ [CHR 0xC4, CHR 0x99] @ '' konta: '',
      ''Kontoname eingeben: '',
      ''saisissez le nom du compte : '',
      ''digita il nome dell'' @ [CHR 0x27] @ ''account: '',
      ''escriba el nombre de la cuenta: '',
      ''digite o nome da conta: '']),
    (''ConfirmAccountLabel'', [''Account: '',
      [CHR 0xD0, CHR 0x90, CHR 0xD0, CHR 0xBA, CHR 0xD0, CHR 0xB0, CHR 0xD1, CHR 0x83, CHR 0xD0, CHR 0xBD, CHR 0xD1, CHR 0x82, CHR '':'', CHR '' ''],
      [CHR 0xD0, CHR 0x90, CHR 0xD0, CHR 0xBA, CHR 0xD0, CHR 0xBA, CHR 0xD0, CHR 0xB0, CHR 0xD1, CHR 0x83, CHR 0xD0, CHR 0xBD, CHR 0xD1, CHR 0x82, CHR '':'', CHR '' ''],
      ''Konto: '',
      ''Konto: '',
      ''Compte : '',
      ''Account: '',
      ''Cuenta: '',
      ''Conta: '']),
    (''FooterCancel'', [''cancel'',
      [CHR 0xD1, CHR 0x81, CHR 0xD0, CHR 0xBA, CHR 0xD0, CHR 0xB0, CHR 0xD1, CHR 0x81, CHR 0xD1, CHR 0x83, CHR 0xD0, CHR 0xB2, CHR 0xD0, CHR 0xB0, CHR 0xD1, CHR 0x82, CHR 0xD0, CHR 0xB8],
      [CHR 0xD0, CHR 0xBE, CHR 0xD1, CHR 0x82, CHR 0xD0, CHR 0xBC, CHR 0xD0, CHR 0xB5, CHR 0xD0, CHR 0xBD, CHR 0xD0, CHR 0xB0],
      ''anuluj'',
      ''abbrechen'',
      ''annuler'',
      ''annulla'',
      ''cancelar'',
      ''cancelar'']),
    (''EnterDelete'', [''delete'',
      [CHR 0xD0, CHR 0xB2, CHR 0xD0, CHR 0xB8, CHR 0xD0, CHR 0xB4, CHR 0xD0, CHR 0xB0, CHR 0xD0, CHR 0xBB, CHR 0xD0, CHR 0xB8, CHR 0xD1, CHR 0x82, CHR 0xD0, CHR 0xB8],
      [CHR 0xD1, CHR 0x83, CHR 0xD0, CHR 0xB4, CHR 0xD0, CHR 0xB0, CHR 0xD0, CHR 0xBB, CHR 0xD0, CHR 0xB8, CHR 0xD1, CHR 0x82, CHR 0xD1, CHR 0x8C],
      [CHR ''u'', CHR ''s'', CHR ''u'', CHR 0xC5, CHR 0x84],
      [CHR ''l'', CHR 0xC3, CHR 0xB6] @ ''schen'',
      ''supprimer'',
      ''elimina'',
      ''eliminar'',
      ''excluir'']),
    (''TypeNameInFull'', [''(type the full name)'',
      [CHR ''('', CHR 0xD0, CHR 0xB2, CHR 0xD0, CHR 0xB2, CHR 0xD0, CHR 0xB5, CHR 0xD0, CHR 0xB4, CHR 0xD1, CHR 0x96, CHR 0xD1, CHR 0x82, CHR 0xD1, CHR 0x8C, CHR '' '', CHR 0xD1, CHR 0x96, CHR 0xD0, CHR 0xBC, CHR 0x27, CHR 0xD1, CHR 0x8F, CHR '' '', CHR 0xD0, CHR 0xBF, CHR 0xD0, CHR 0xBE, CHR 0xD0, CHR 0xB2, CHR 0xD0, CHR 0xBD, CHR 0xD1, CHR 0x96, CHR 0xD1, CHR 0x81, CHR 0xD1, CHR 0x82, CHR 0xD1, CHR 0x8E, CHR '')''],
      [CHR ''('', CHR 0xD0, CHR 0xBD, CHR 0xD0, CHR 0xB0, CHR 0xD0, CHR 0xB1, CHR 0xD0, CHR 0xB5, CHR 0xD1, CHR 0x80, CHR 0xD0, CHR 0xB8, CHR 0xD1, CHR 0x82, CHR 0xD0, CHR 0xB5, CHR '' '', CHR 0xD0, CHR 0xB8, CHR 0xD0, CHR 0xBC, CHR 0xD1, CHR 0x8F, CHR '' '', CHR 0xD0, CHR 0xBF, CHR 0xD0, CHR 0xBE, CHR 0xD0, CHR 0xBB, CHR 0xD0, CHR 0xBD, CHR 0xD0, CHR 0xBE, CHR 0xD1, CHR 0x81, CHR 0xD1, CHR 0x82, CHR 0xD1, CHR 0x8C, CHR 0xD1, CHR 0x8E, CHR '')''],
      ''(wpisz pe'' @ [CHR 0xC5, CHR 0x82, CHR ''n'', CHR 0xC4, CHR 0x85] @ '' nazw'' @ [CHR 0xC4, CHR 0x99, CHR '')''],
      ''(vollst'' @ [CHR 0xC3, CHR 0xA4] @ ''ndigen Namen eingeben)'',
      ''(saisissez le nom complet)'',
      ''(digita il nome completo)'',
      ''(escriba el nombre completo)'',
      ''(digite o nome completo)'']),
    (''FooterConfirm'', [''confirm'',
      [CHR 0xD0, CHR 0xBF, CHR 0xD1, CHR 0x96, CHR 0xD0, CHR 0xB4, CHR 0xD1, CHR 0x82, CHR 0xD0, CHR 0xB2, CHR 0xD0, CHR 0xB5, CHR 0xD1, CHR 0x80, CHR 0xD0, CHR 0xB4, CHR 0xD0, CHR 0xB8, CHR 0xD1, CHR 0x82, CHR 0xD0, CHR 0xB8],
      [CHR 0xD0, CHR 0xBF, CHR 0xD0, CHR 0xBE, CHR 0xD0, CHR 0xB4, CHR 0xD1, CHR 0x82, CHR 0xD0, CHR 0xB2, CHR 0xD0, CHR 0xB5, CHR 0xD1, CHR 0x80, CHR 0xD0, CHR 0xB4, CHR 0xD0, CHR 0xB8, CHR 0xD1, CHR 0x82, CHR 0xD1, CHR 0x8C],
      ''potwierd'' @ [CHR 0xC5, CHR 0xBA],
      ''best'' @ [CHR 0xC3, CHR 0xA4] @ ''tigen'',
      ''confirmer'',
      ''conferma'',
      ''confirmar'',
      ''confirmar''])]"

definition texts_checks :: "(Key \<times> string list) list" where
  "texts_checks = [
    (''ErrSipHostRequired'', [''sip_host is required once SIP is being configured'',
      ''sip_host '' @ [CHR 0xD0, CHR 0xBE, CHR 0xD0, CHR 0xB1, CHR 0xD0, CHR 0xBE, CHR 0xD0, CHR 0xB2, CHR 0x27, CHR 0xD1, CHR 0x8F, CHR 0xD0, CHR 0xB7, CHR 0xD0, CHR 0xBA, CHR 0xD0, CHR 0xBE, CHR 0xD0, CHR 0xB2, CHR 0xD0, CHR 0xB8, CHR 0xD0, CHR 0xB9, CHR '','', CHR '' '', CHR 0xD1, CHR 0x8F, CHR 0xD0, CHR 0xBA, CHR 0xD1, CHR 0x89, CHR 0xD0, CHR 0xBE, CHR '' '', CHR 0xD0, CHR 0xBD, CHR 0xD0, CHR 0xB0, CHR 0xD0, CHR 0xBB, CHR 0xD0, CHR 0xB0, CHR 0xD1, CHR 0x88, CHR 0xD1, CHR 0x82, CHR 0xD0, CHR 0xBE, CHR 0xD0, CHR 0xB2, CHR 0xD1, CHR 0x83, CHR 0xD1, CHR 0x94, CHR 0xD1, CHR 0x82, CHR 0xD1, CHR 0x8C, CHR 0xD1, CHR 0x81, CHR 0xD1, CHR 0x8F] @ '' SIP'',
      ''sip_host '' @ [CHR 0xD0, CHR 0xBE, CHR 0xD0, CHR 0xB1, CHR 0xD1, CHR 0x8F, CHR 0xD0, CHR 0xB7, CHR 0xD0, CHR 0xB0, CHR 0xD1, CHR 0x82, CHR 0xD0, CHR 0xB5, CHR 0xD0, CHR 0xBB, CHR 0xD0, CHR 0xB5, CHR 0xD0, CHR 0xBD, CHR '','', CHR '' '', CHR 0xD1, CHR 0x80, CHR 0xD0, CHR 0xB0, CHR 0xD0, CHR 0xB7, CHR '' '', CHR 0xD0, CHR 0xBD, CHR 0xD0, CHR 0xB0, CHR 0xD1, CHR 0x81, CHR 0xD1, CHR 0x82, CHR 0xD1, CHR 0x80, CHR 0xD0, CHR 0xB0, CHR 0xD0, CHR 0xB8, CHR 0xD0, CHR 0xB2, CHR 0xD0, CHR 0xB0, CHR 0xD0, CHR 0xB5, CHR 0xD1, CHR 0x82, CHR 0xD1, CHR 0x81, CHR 0xD1, CHR 0x8F] @ '' SIP'',
      ''sip_host jest wymagane, skoro konfigurowane jest SIP'',
      ''sip_host ist erforderlich, sobald SIP konfiguriert wird'',
      ''sip_host est requis d'' @ [CHR 0xC3, CHR 0xA8] @ ''s lors que le SIP est configur'' @ [CHR 0xC3, CHR 0xA9],
      ''sip_host '' @ [CHR 0xC3, CHR 0xA8] @ '' obbligatorio se si configura il SIP'',
      ''sip_host es obligatorio si se est'' @ [CHR 0xC3, CHR 0xA1] @ '' configurando SIP'',
      ''sip_host '' @ [CHR 0xC3, CHR 0xA9] @ '' obrigat'' @ [CHR 0xC3, CHR 0xB3] @ ''rio quando o SIP est'' @ [CHR 0xC3, CHR 0xA1] @ '' sendo configurado'']),
    (''ErrSipExtensionRequired'', [''sip_extension is required once SIP is being configured'',
      ''sip_extension '' @ [CHR 0xD0, CHR 0xBE, CHR 0xD0, CHR 0xB1, CHR 0xD0, CHR 0xBE, CHR 0xD0, CHR 0xB2, CHR 0x27, CHR 0xD1, CHR 0x8F, CHR 0xD0, CHR 0xB7, CHR 0xD0, CHR 0xBA, CHR 0xD0, CHR 0xBE, CHR 0xD0, CHR 0xB2, CHR 0xD0, CHR 0xB8, CHR 0xD0, CHR 0xB9, CHR '','', CHR '' '', CHR 0xD1, CHR 0x8F, CHR 0xD0, CHR 0xBA, CHR 0xD1, CHR 0x89, CHR 0xD0, CHR 0xBE, CHR '' '', CHR 0xD0, CHR 0xBD, CHR 0xD0, CHR 0xB0, CHR 0xD0, CHR 0xBB, CHR 0xD0, CHR 0xB0, CHR 0xD1, CHR 0x88, CHR 0xD1, CHR 0x82, CHR 0xD0, CHR 0xBE, CHR 0xD0, CHR 0xB2, CHR 0xD1, CHR 0x83, CHR 0xD1, CHR 0x94, CHR 0xD1, CHR 0x82, CHR 0xD1, CHR 0x8C, CHR 0xD1, CHR 0x81, CHR 0xD1, CHR 0x8F] @ '' SIP'',
      ''sip_extension '' @ [CHR 0xD0, CHR 0xBE, CHR 0xD0, CHR 0xB1, CHR 0xD1, CHR 0x8F, CHR 0xD0, CHR 0xB7, CHR 0xD0, CHR 0xB0, CHR 0xD1, CHR 0x82, CHR 0xD0, CHR 0xB5, CHR 0xD0, CHR 0xBB, CHR 0xD0, CHR 0xB5, CHR 0xD0, CHR 0xBD, CHR '','', CHR '' '', CHR 0xD1, CHR 0x80, CHR 0xD0, CHR 0xB0, CHR 0xD0, CHR 0xB7, CHR '' '', CHR 0xD0, CHR 0xBD, CHR 0xD0, CHR 0xB0, CHR 0xD1, CHR 0x81, CHR 0xD1, CHR 0x82, CHR 0xD1, CHR 0x80, CHR 0xD0, CHR 0xB0, CHR 0xD0, CHR 0xB8, CHR 0xD0, CHR 0xB2, CHR 0xD0, CHR 0xB0, CHR 0xD0, CHR 0xB5, CHR 0xD1, CHR 0x82, CHR 0xD1, CHR 0x81, CHR 0xD1, CHR 0x8F] @ '' SIP'',
      ''sip_extension jest wymagane, skoro konfigurowane jest SIP'',
      ''sip_extension ist erforderlich, sobald SIP konfiguriert wird'',
      ''sip_extension est requis d'' @ [CHR 0xC3, CHR 0xA8] @ ''s lors que le SIP est configur'' @ [CHR 0xC3, CHR 0xA9],
      ''sip_extension '' @ [CHR 0xC3, CHR 0xA8] @ '' obbligatorio se si configura il SIP'',
      ''sip_extension es obligatorio si se est'' @ [CHR 0xC3, CHR 0xA1] @ '' configurando SIP'',
      ''sip_extension '' @ [CHR 0xC3, CHR 0xA9] @ '' obrigat'' @ [CHR 0xC3, CHR 0xB3] @ ''rio quando o SIP est'' @ [CHR 0xC3, CHR 0xA1] @ '' sendo configurado'']),
    (''ErrSipPasswordRequired'', [''sip_password is required once SIP is being configured'',
      ''sip_password '' @ [CHR 0xD0, CHR 0xBE, CHR 0xD0, CHR 0xB1, CHR 0xD0, CHR 0xBE, CHR 0xD0, CHR 0xB2, CHR 0x27, CHR 0xD1, CHR 0x8F, CHR 0xD0, CHR 0xB7, CHR 0xD0, CHR 0xBA, CHR 0xD0, CHR 0xBE, CHR 0xD0, CHR 0xB2, CHR 0xD0, CHR 0xB8, CHR 0xD0, CHR 0xB9, CHR '','', CHR '' '', CHR 0xD1, CHR 0x8F, CHR 0xD0, CHR 0xBA, CHR 0xD1, CHR 0x89, CHR 0xD0, CHR 0xBE, CHR '' '', CHR 0xD0, CHR 0xBD, CHR 0xD0, CHR 0xB0, CHR 0xD0, CHR 0xBB, CHR 0xD0, CHR 0xB0, CHR 0xD1, CHR 0x88, CHR 0xD1, CHR 0x82, CHR 0xD0, CHR 0xBE, CHR 0xD0, CHR 0xB2, CHR 0xD1, CHR 0x83, CHR 0xD1, CHR 0x94, CHR 0xD1, CHR 0x82, CHR 0xD1, CHR 0x8C, CHR 0xD1, CHR 0x81, CHR 0xD1, CHR 0x8F] @ '' SIP'',
      ''sip_password '' @ [CHR 0xD0, CHR 0xBE, CHR 0xD0, CHR 0xB1, CHR 0xD1, CHR 0x8F, CHR 0xD0, CHR 0xB7, CHR 0xD0, CHR 0xB0, CHR 0xD1, CHR 0x82, CHR 0xD0, CHR 0xB5, CHR 0xD0, CHR 0xBB, CHR 0xD0, CHR 0xB5, CHR 0xD0, CHR 0xBD, CHR '','', CHR '' '', CHR 0xD1, CHR 0x80, CHR 0xD0, CHR 0xB0, CHR 0xD0, CHR 0xB7, CHR '' '', CHR 0xD0, CHR 0xBD, CHR 0xD0, CHR 0xB0, CHR 0xD1, CHR 0x81, CHR 0xD1, CHR 0x82, CHR 0xD1, CHR 0x80, CHR 0xD0, CHR 0xB0, CHR 0xD0, CHR 0xB8, CHR 0xD0, CHR 0xB2, CHR 0xD0, CHR 0xB0, CHR 0xD0, CHR 0xB5, CHR 0xD1, CHR 0x82, CHR 0xD1, CHR 0x81, CHR 0xD1, CHR 0x8F] @ '' SIP'',
      ''sip_password jest wymagane, skoro konfigurowane jest SIP'',
      ''sip_password ist erforderlich, sobald SIP konfiguriert wird'',
      ''sip_password est requis d'' @ [CHR 0xC3, CHR 0xA8] @ ''s lors que le SIP est configur'' @ [CHR 0xC3, CHR 0xA9],
      ''sip_password '' @ [CHR 0xC3, CHR 0xA8] @ '' obbligatorio se si configura il SIP'',
      ''sip_password es obligatorio si se est'' @ [CHR 0xC3, CHR 0xA1] @ '' configurando SIP'',
      ''sip_password '' @ [CHR 0xC3, CHR 0xA9] @ '' obrigat'' @ [CHR 0xC3, CHR 0xB3] @ ''rio quando o SIP est'' @ [CHR 0xC3, CHR 0xA1] @ '' sendo configurado'']),
    (''ErrTlsRequiresCa'', [''sip_transport=tls requires sip_tls_ca_file or sip_tls_insecure=yes'',
      ''sip_transport=tls '' @ [CHR 0xD0, CHR 0xBF, CHR 0xD0, CHR 0xBE, CHR 0xD1, CHR 0x82, CHR 0xD1, CHR 0x80, CHR 0xD0, CHR 0xB5, CHR 0xD0, CHR 0xB1, CHR 0xD1, CHR 0x83, CHR 0xD1, CHR 0x94] @ '' sip_tls_ca_file '' @ [CHR 0xD0, CHR 0xB0, CHR 0xD0, CHR 0xB1, CHR 0xD0, CHR 0xBE] @ '' sip_tls_insecure=yes'',
      ''sip_transport=tls '' @ [CHR 0xD1, CHR 0x82, CHR 0xD1, CHR 0x80, CHR 0xD0, CHR 0xB5, CHR 0xD0, CHR 0xB1, CHR 0xD1, CHR 0x83, CHR 0xD0, CHR 0xB5, CHR 0xD1, CHR 0x82] @ '' sip_tls_ca_file '' @ [CHR 0xD0, CHR 0xB8, CHR 0xD0, CHR 0xBB, CHR 0xD0, CHR 0xB8] @ '' sip_tls_insecure=yes'',
      ''sip_transport=tls wymaga sip_tls_ca_file lub sip_tls_insecure=yes'',
      ''sip_transport=tls erfordert sip_tls_ca_file oder sip_tls_insecure=yes'',
      ''sip_transport=tls n'' @ [CHR 0xC3, CHR 0xA9] @ ''cessite sip_tls_ca_file ou sip_tls_insecure=yes'',
      ''sip_transport=tls richiede sip_tls_ca_file o sip_tls_insecure=yes'',
      ''sip_transport=tls requiere sip_tls_ca_file o sip_tls_insecure=yes'',
      ''sip_transport=tls requer sip_tls_ca_file ou sip_tls_insecure=yes'']),
    (''WarnBridgeBothSet'', [''both sip_bridge_destination and sip_bridge_did are set - only sip_bridge_did will apply'',
      [CHR 0xD0, CHR 0xB7, CHR 0xD0, CHR 0xB0, CHR 0xD0, CHR 0xB4, CHR 0xD0, CHR 0xB0, CHR 0xD0, CHR 0xBD, CHR 0xD1, CHR 0x96, CHR '' '', CHR 0xD1, CHR 0x96] @ '' sip_bridge_destination, '' @ [CHR 0xD1, CHR 0x96] @ '' sip_bridge_did - '' @ [CHR 0xD0, CHR 0xB7, CHR 0xD0, CHR 0xB0, CHR 0xD1, CHR 0x81, CHR 0xD1, CHR 0x82, CHR 0xD0, CHR 0xBE, CHR 0xD1, CHR 0x81, CHR 0xD1, CHR 0x83, CHR 0xD1, CHR 0x94, CHR 0xD1, CHR 0x82, CHR 0xD1, CHR 0x8C, CHR 0xD1, CHR 0x81, CHR 0xD1, CHR 0x8F, CHR '' '', CHR 0xD0, CHR 0xBB, CHR 0xD0, CHR 0xB8, CHR 0xD1, CHR 0x88, CHR 0xD0, CHR 0xB5] @ '' sip_bridge_did'',
      [CHR 0xD0, CHR 0xB7, CHR 0xD0, CHR 0xB0, CHR 0xD0, CHR 0xB4, CHR 0xD0, CHR 0xB0, CHR 0xD0, CHR 0xBD, CHR 0xD1, CHR 0x8B, CHR '' '', CHR 0xD0, CHR 0xB8] @ '' sip_bridge_destination, '' @ [CHR 0xD0, CHR 0xB8] @ '' sip_bridge_did - '' @ [CHR 0xD0, CHR 0xBF, CHR 0xD1, CHR 0x80, CHR 0xD0, CHR 0xB8, CHR 0xD0, CHR 0xBC, CHR 0xD0, CHR 0xB5, CHR 0xD0, CHR 0xBD, CHR 0xD0, CHR 0xB8, CHR 0xD1, CHR 0x82, CHR 0xD1, CHR 0x81, CHR 0xD1, CHR 0x8F, CHR '' '', CHR 0xD1, CHR 0x82, CHR 0xD0, CHR 0xBE, CHR 0xD0, CHR 0xBB, CHR 0xD1, CHR 0x8C, CHR 0xD0, CHR 0xBA, CHR 0xD0, CHR 0xBE] @ '' sip_bridge_did'',
      ''ustawione s'' @ [CHR 0xC4, CHR 0x85] @ '' zar'' @ [CHR 0xC3, CHR 0xB3] @ ''wno sip_bridge_destination, jak i sip_bridge_did - zastosowane zostanie tylko sip_bridge_did'',
      ''sowohl sip_bridge_destination als auch sip_bridge_did sind gesetzt - nur sip_bridge_did wird angewendet'',
      ''sip_bridge_destination et sip_bridge_did sont tous deux d'' @ [CHR 0xC3, CHR 0xA9] @ ''finis - seul sip_bridge_did sera appliqu'' @ [CHR 0xC3, CHR 0xA9],
      ''sono impostati sia sip_bridge_destination che sip_bridge_did - verr'' @ [CHR 0xC3, CHR 0xA0] @ '' applicato solo sip_bridge_did'',
      [CHR ''e'', CHR ''s'', CHR ''t'', CHR 0xC3, CHR 0xA1] @ ''n definidos tanto sip_bridge_destination como sip_bridge_did - solo se aplicar'' @ [CHR 0xC3, CHR 0xA1] @ '' sip_bridge_did'',
      ''tanto sip_bridge_destination quanto sip_bridge_did est'' @ [CHR 0xC3, CHR 0xA3] @ ''o definidos - apenas sip_bridge_did ser'' @ [CHR 0xC3, CHR 0xA1] @ '' aplicado'']),
    (''ConfigSaved'', [''saved'',
      [CHR 0xD0, CHR 0xB7, CHR 0xD0, CHR 0xB1, CHR 0xD0, CHR 0xB5, CHR 0xD1, CHR 0x80, CHR 0xD0, CHR 0xB5, CHR 0xD0, CHR 0xB6, CHR 0xD0, CHR 0xB5, CHR 0xD0, CHR 0xBD, CHR 0xD0, CHR 0xBE],
      [CHR 0xD1, CHR 0x81, CHR 0xD0, CHR 0xBE, CHR 0xD1, CHR 0x85, CHR 0xD1, CHR 0x80, CHR 0xD0, CHR 0xB0, CHR 0xD0, CHR 0xBD, CHR 0xD0, CHR 0xB5, CHR 0xD0, CHR 0xBD, CHR 0xD0, CHR 0xBE],
      ''zapisano'',
      ''gespeichert'',
      ''enregistr'' @ [CHR 0xC3, CHR 0xA9],
      ''salvato'',
      ''guardado'',
      ''salvo'']),
    (''ConfigSaveError'', [''save error'',
      [CHR 0xD0, CHR 0xBF, CHR 0xD0, CHR 0xBE, CHR 0xD0, CHR 0xBC, CHR 0xD0, CHR 0xB8, CHR 0xD0, CHR 0xBB, CHR 0xD0, CHR 0xBA, CHR 0xD0, CHR 0xB0, CHR '' '', CHR 0xD0, CHR 0xB7, CHR 0xD0, CHR 0xB1, CHR 0xD0, CHR 0xB5, CHR 0xD1, CHR 0x80, CHR 0xD0, CHR 0xB5, CHR 0xD0, CHR 0xB6, CHR 0xD0, CHR 0xB5, CHR 0xD0, CHR 0xBD, CHR 0xD0, CHR 0xBD, CHR 0xD1, CHR 0x8F],
      [CHR 0xD0, CHR 0xBE, CHR 0xD1, CHR 0x88, CHR 0xD0, CHR 0xB8, CHR 0xD0, CHR 0xB1, CHR 0xD0, CHR 0xBA, CHR 0xD0, CHR 0xB0, CHR '' '', CHR 0xD1, CHR 0x81, CHR 0xD0, CHR 0xBE, CHR 0xD1, CHR 0x85, CHR 0xD1, CHR 0x80, CHR 0xD0, CHR 0xB0, CHR 0xD0, CHR 0xBD, CHR 0xD0, CHR 0xB5, CHR 0xD0, CHR 0xBD, CHR 0xD0, CHR 0xB8, CHR 0xD1, CHR 0x8F],
      [CHR ''b'', CHR 0xC5, CHR 0x82, CHR 0xC4, CHR 0x85] @ ''d zapisu'',
      ''Fehler beim Speichern'',
      ''erreur d'' @ [CHR 0x27] @ ''enregistrement'',
      ''errore di salvataggio'',
      ''error al guardar'',
      ''erro ao salvar'']),
    (''NoChanges'', [''(no changes)'',
      [CHR ''('', CHR 0xD0, CHR 0xB1, CHR 0xD0, CHR 0xB5, CHR 0xD0, CHR 0xB7, CHR '' '', CHR 0xD0, CHR 0xB7, CHR 0xD0, CHR 0xBC, CHR 0xD1, CHR 0x96, CHR 0xD0, CHR 0xBD, CHR '')''],
      [CHR ''('', CHR 0xD0, CHR 0xB8, CHR 0xD0, CHR 0xB7, CHR 0xD0, CHR 0xBC, CHR 0xD0, CHR 0xB5, CHR 0xD0, CHR 0xBD, CHR 0xD0, CHR 0xB5, CHR 0xD0, CHR 0xBD, CHR 0xD0, CHR 0xB8, CHR 0xD0, CHR 0xB9, CHR '' '', CHR 0xD0, CHR 0xBD, CHR 0xD0, CHR 0xB5, CHR 0xD1, CHR 0x82, CHR '')''],
      ''(brak zmian)'',
      ''(keine '' @ [CHR 0xC3, CHR 0x84] @ ''nderungen)'',
      ''(aucun changement)'',
      ''(nessuna modifica)'',
      ''(sin cambios)'',
      ''(sem altera'' @ [CHR 0xC3, CHR 0xA7, CHR 0xC3, CHR 0xB5, CHR ''e'', CHR ''s'', CHR '')'']]),
    (''AnyKeyBackToAccount'', [''any key - back to account'',
      [CHR 0xD0, CHR 0xB1, CHR 0xD1, CHR 0x83, CHR 0xD0, CHR 0xB4, CHR 0xD1, CHR 0x8C, CHR ''-'', CHR 0xD1, CHR 0x8F, CHR 0xD0, CHR 0xBA, CHR 0xD0, CHR 0xB0, CHR '' '', CHR 0xD0, CHR 0xBA, CHR 0xD0, CHR 0xBB, CHR 0xD0, CHR 0xB0, CHR 0xD0, CHR 0xB2, CHR 0xD1, CHR 0x96, CHR 0xD1, CHR 0x88, CHR 0xD0, CHR 0xB0, CHR '' '', CHR ''-'', CHR '' '', CHR 0xD0, CHR 0xBD, CHR 0xD0, CHR 0xB0, CHR 0xD0, CHR 0xB7, CHR 0xD0, CHR 0xB0, CHR 0xD0, CHR 0xB4, CHR '' '', CHR 0xD0, CHR 0xB4, CHR 0xD0, CHR 0xBE, CHR '' '', CHR 0xD0, CHR 0xB0, CHR 0xD0, CHR 0xBA, CHR 0xD0, CHR 0xB0, CHR 0xD1, CHR 0x83, CHR 0xD0, CHR 0xBD, CHR 0xD1, CHR 0x82, CHR 0xD0, CHR 0xB0],
      [CHR 0xD0, CHR 0xBB, CHR 0xD1, CHR 0x8E, CHR 0xD0, CHR 0xB1, CHR 0xD0, CHR 0xB0, CHR 0xD1, CHR 0x8F, CHR '' '', CHR 0xD0, CHR 0xBA, CHR 0xD0, CHR 0xBB, CHR 0xD0, CHR 0xB0, CHR 0xD0, CHR 0xB2, CHR 0xD0, CHR 0xB8, CHR 0xD1, CHR 0x88, CHR 0xD0, CHR 0xB0, CHR '' '', CHR ''-'', CHR '' '', CHR 0xD0, CHR 0xBD, CHR 0xD0, CHR 0xB0, CHR 0xD0, CHR 0xB7, CHR 0xD0, CHR 0xB0, CHR 0xD0, CHR 0xB4, CHR '' '', CHR 0xD0, CHR 0xBA, CHR '' '', CHR 0xD0, CHR 0xB0, CHR 0xD0, CHR 0xBA, CHR 0xD0, CHR 0xBA, CHR 0xD0, CHR 0xB0, CHR 0xD1, CHR 0x83, CHR 0xD0, CHR 0xBD, CHR 0xD1, CHR 0x82, CHR 0xD1, CHR 0x83],
      ''dowolny klawisz - wr'' @ [CHR 0xC3, CHR 0xB3, CHR 0xC4, CHR 0x87] @ '' do konta'',
      ''beliebige Taste - zur'' @ [CHR 0xC3, CHR 0xBC] @ ''ck zum Konto'',
      [CHR ''n'', CHR 0x27] @ ''importe quelle touche - retour au compte'',
      ''qualsiasi tasto - torna all'' @ [CHR 0x27] @ ''account'',
      ''cualquier tecla - volver a la cuenta'',
      ''qualquer tecla - voltar '' @ [CHR 0xC3, CHR 0xA0] @ '' conta''])]"

definition texts_config :: "(Key \<times> string list) list" where
  "texts_config = [
    (''ConfigTitlebar'', [''  SIP configuration: '',
      [CHR '' '', CHR '' '', CHR 0xD0, CHR 0x9D, CHR 0xD0, CHR 0xB0, CHR 0xD0, CHR 0xBB, CHR 0xD0, CHR 0xB0, CHR 0xD1, CHR 0x88, CHR 0xD1, CHR 0x82, CHR 0xD1, CHR 0x83, CHR 0xD0, CHR 0xB2, CHR 0xD0, CHR 0xB0, CHR 0xD0, CHR 0xBD, CHR 0xD0, CHR 0xBD, CHR 0xD1, CHR 0x8F] @ '' SIP: '',
      [CHR '' '', CHR '' '', CHR 0xD0, CHR 0x9D, CHR 0xD0, CHR 0xB0, CHR 0xD1, CHR 0x81, CHR 0xD1, CHR 0x82, CHR 0xD1, CHR 0x80, CHR 0xD0, CHR 0xBE, CHR 0xD0, CHR 0xB9, CHR 0xD0, CHR 0xBA, CHR 0xD0, CHR 0xB0] @ '' SIP: '',
      ''  Konfiguracja SIP: '',
      ''  SIP-Konfiguration: '',
      ''  Configuration SIP : '',
      ''  Configurazione SIP: '',
      ''  Configuraci'' @ [CHR 0xC3, CHR 0xB3] @ ''n SIP: '',
      ''  Configura'' @ [CHR 0xC3, CHR 0xA7, CHR 0xC3, CHR 0xA3] @ ''o SIP: '']),
    (''FooterField'', [''field'',
      [CHR 0xD0, CHR 0xBF, CHR 0xD0, CHR 0xBE, CHR 0xD0, CHR 0xBB, CHR 0xD0, CHR 0xB5],
      [CHR 0xD0, CHR 0xBF, CHR 0xD0, CHR 0xBE, CHR 0xD0, CHR 0xBB, CHR 0xD0, CHR 0xB5],
      ''pole'',
      ''Feld'',
      ''champ'',
      ''campo'',
      ''campo'',
      ''campo'']),
    (''FooterTextType'', [''text: type  '',
      [CHR 0xD1, CHR 0x82, CHR 0xD0, CHR 0xB5, CHR 0xD0, CHR 0xBA, CHR 0xD1, CHR 0x81, CHR 0xD1, CHR 0x82, CHR '':'', CHR '' '', CHR 0xD0, CHR 0xB2, CHR 0xD0, CHR 0xB2, CHR 0xD0, CHR 0xBE, CHR 0xD0, CHR 0xB4, CHR 0xD1, CHR 0x8C, CHR 0xD1, CHR 0x82, CHR 0xD0, CHR 0xB5, CHR '' '', CHR '' ''],
      [CHR 0xD1, CHR 0x82, CHR 0xD0, CHR 0xB5, CHR 0xD0, CHR 0xBA, CHR 0xD1, CHR 0x81, CHR 0xD1, CHR 0x82, CHR '':'', CHR '' '', CHR 0xD0, CHR 0xB2, CHR 0xD0, CHR 0xB2, CHR 0xD0, CHR 0xBE, CHR 0xD0, CHR 0xB4, CHR 0xD0, CHR 0xB8, CHR 0xD1, CHR 0x82, CHR 0xD0, CHR 0xB5, CHR '' '', CHR '' ''],
      ''tekst: wpisz  '',
      ''Text: eingeben  '',
      ''texte : saisissez  '',
      ''testo: digita  '',
      ''texto: escriba  '',
      ''texto: digite  '']),
    (''FooterListCycles'', [''list: cycles'',
      [CHR 0xD1, CHR 0x81, CHR 0xD0, CHR 0xBF, CHR 0xD0, CHR 0xB8, CHR 0xD1, CHR 0x81, CHR 0xD0, CHR 0xBE, CHR 0xD0, CHR 0xBA, CHR '':'', CHR '' '', CHR 0xD0, CHR 0xBF, CHR 0xD0, CHR 0xB5, CHR 0xD1, CHR 0x80, CHR 0xD0, CHR 0xB5, CHR 0xD0, CHR 0xBC, CHR 0xD0, CHR 0xB8, CHR 0xD0, CHR 0xBA, CHR 0xD0, CHR 0xB0, CHR 0xD1, CHR 0x94],
      [CHR 0xD1, CHR 0x81, CHR 0xD0, CHR 0xBF, CHR 0xD0, CHR 0xB8, CHR 0xD1, CHR 0x81, CHR 0xD0, CHR 0xBE, CHR 0xD0, CHR 0xBA, CHR '':'', CHR '' '', CHR 0xD0, CHR 0xBF, CHR 0xD0, CHR 0xB5, CHR 0xD1, CHR 0x80, CHR 0xD0, CHR 0xB5, CHR 0xD0, CHR 0xBA, CHR 0xD0, CHR 0xBB, CHR 0xD1, CHR 0x8E, CHR 0xD1, CHR 0x87, CHR 0xD0, CHR 0xB0, CHR 0xD0, CHR 0xB5, CHR 0xD1, CHR 0x82],
      ''lista: prze'' @ [CHR 0xC5, CHR 0x82, CHR 0xC4, CHR 0x85, CHR ''c'', CHR ''z'', CHR ''a''],
      ''Liste: wechselt'',
      ''liste : change'',
      ''elenco: cambia'',
      ''lista: cambia'',
      ''lista: alterna'']),
    (''FooterSave'', [''save'',
      [CHR 0xD0, CHR 0xB7, CHR 0xD0, CHR 0xB1, CHR 0xD0, CHR 0xB5, CHR 0xD1, CHR 0x80, CHR 0xD0, CHR 0xB5, CHR 0xD0, CHR 0xB3, CHR 0xD1, CHR 0x82, CHR 0xD0, CHR 0xB8],
      [CHR 0xD1, CHR 0x81, CHR 0xD0, CHR 0xBE, CHR 0xD1, CHR 0x85, CHR 0xD1, CHR 0x80, CHR 0xD0, CHR 0xB0, CHR 0xD0, CHR 0xBD, CHR 0xD0, CHR 0xB8, CHR 0xD1, CHR 0x82, CHR 0xD1, CHR 0x8C],
      ''zapisz'',
      ''speichern'',
      ''enregistrer'',
      ''salva'',
      ''guardar'',
      ''salvar'']),
    (''SignalConfigTitlebar'', [''  Signal settings: '',
      [CHR '' '', CHR '' '', CHR 0xD0, CHR 0x9D, CHR 0xD0, CHR 0xB0, CHR 0xD0, CHR 0xBB, CHR 0xD0, CHR 0xB0, CHR 0xD1, CHR 0x88, CHR 0xD1, CHR 0x82, CHR 0xD1, CHR 0x83, CHR 0xD0, CHR 0xB2, CHR 0xD0, CHR 0xB0, CHR 0xD0, CHR 0xBD, CHR 0xD0, CHR 0xBD, CHR 0xD1, CHR 0x8F] @ '' Signal: '',
      [CHR '' '', CHR '' '', CHR 0xD0, CHR 0x9D, CHR 0xD0, CHR 0xB0, CHR 0xD1, CHR 0x81, CHR 0xD1, CHR 0x82, CHR 0xD1, CHR 0x80, CHR 0xD0, CHR 0xBE, CHR 0xD0, CHR 0xB9, CHR 0xD0, CHR 0xBA, CHR 0xD0, CHR 0xB8] @ '' Signal: '',
      ''  Ustawienia Signal: '',
      ''  Signal-Einstellungen: '',
      ''  Param'' @ [CHR 0xC3, CHR 0xA8] @ ''tres Signal : '',
      ''  Impostazioni Signal: '',
      ''  Configuraci'' @ [CHR 0xC3, CHR 0xB3] @ ''n de Signal: '',
      ''  Configura'' @ [CHR 0xC3, CHR 0xA7, CHR 0xC3, CHR 0xB5] @ ''es do Signal: '']),
    (''SignalConfigTypeText'', ['' type text  '',
      [CHR '' '', CHR 0xD0, CHR 0xB2, CHR 0xD0, CHR 0xB2, CHR 0xD0, CHR 0xBE, CHR 0xD0, CHR 0xB4, CHR 0xD1, CHR 0x8C, CHR 0xD1, CHR 0x82, CHR 0xD0, CHR 0xB5, CHR '' '', CHR 0xD1, CHR 0x82, CHR 0xD0, CHR 0xB5, CHR 0xD0, CHR 0xBA, CHR 0xD1, CHR 0x81, CHR 0xD1, CHR 0x82, CHR '' '', CHR '' ''],
      [CHR '' '', CHR 0xD0, CHR 0xB2, CHR 0xD0, CHR 0xB2, CHR 0xD0, CHR 0xBE, CHR 0xD0, CHR 0xB4, CHR 0xD0, CHR 0xB8, CHR 0xD1, CHR 0x82, CHR 0xD0, CHR 0xB5, CHR '' '', CHR 0xD1, CHR 0x82, CHR 0xD0, CHR 0xB5, CHR 0xD0, CHR 0xBA, CHR 0xD1, CHR 0x81, CHR 0xD1, CHR 0x82, CHR '' '', CHR '' ''],
      '' wpisz tekst  '',
      '' Text eingeben  '',
      '' saisissez le texte  '',
      '' digita il testo  '',
      '' escriba el texto  '',
      '' digite o texto  ''])]"

definition texts_wizard :: "(Key \<times> string list) list" where
  "texts_wizard = [
    (''WizardNewAccount'', [''new account'',
      [CHR 0xD0, CHR 0xBD, CHR 0xD0, CHR 0xBE, CHR 0xD0, CHR 0xB2, CHR 0xD0, CHR 0xB8, CHR 0xD0, CHR 0xB9, CHR '' '', CHR 0xD0, CHR 0xB0, CHR 0xD0, CHR 0xBA, CHR 0xD0, CHR 0xB0, CHR 0xD1, CHR 0x83, CHR 0xD0, CHR 0xBD, CHR 0xD1, CHR 0x82],
      [CHR 0xD0, CHR 0xBD, CHR 0xD0, CHR 0xBE, CHR 0xD0, CHR 0xB2, CHR 0xD1, CHR 0x8B, CHR 0xD0, CHR 0xB9, CHR '' '', CHR 0xD0, CHR 0xB0, CHR 0xD0, CHR 0xBA, CHR 0xD0, CHR 0xBA, CHR 0xD0, CHR 0xB0, CHR 0xD1, CHR 0x83, CHR 0xD0, CHR 0xBD, CHR 0xD1, CHR 0x82],
      ''nowe konto'',
      ''neues Konto'',
      ''nouveau compte'',
      ''nuovo account'',
      ''nueva cuenta'',
      ''nova conta'']),
    (''FieldAccountName'', [''account name'',
      [CHR 0xD1, CHR 0x96, CHR 0xD0, CHR 0xBC, CHR 0x27, CHR 0xD1, CHR 0x8F, CHR '' '', CHR 0xD0, CHR 0xB0, CHR 0xD0, CHR 0xBA, CHR 0xD0, CHR 0xB0, CHR 0xD1, CHR 0x83, CHR 0xD0, CHR 0xBD, CHR 0xD1, CHR 0x82, CHR 0xD0, CHR 0xB0],
      [CHR 0xD0, CHR 0xB8, CHR 0xD0, CHR 0xBC, CHR 0xD1, CHR 0x8F, CHR '' '', CHR 0xD0, CHR 0xB0, CHR 0xD0, CHR 0xBA, CHR 0xD0, CHR 0xBA, CHR 0xD0, CHR 0xB0, CHR 0xD1, CHR 0x83, CHR 0xD0, CHR 0xBD, CHR 0xD1, CHR 0x82, CHR 0xD0, CHR 0xB0],
      ''nazwa konta'',
      ''Kontoname'',
      ''nom du compte'',
      ''nome account'',
      ''nombre de la cuenta'',
      ''nome da conta'']),
    (''FieldMethod'', [''method'',
      [CHR 0xD1, CHR 0x81, CHR 0xD0, CHR 0xBF, CHR 0xD0, CHR 0xBE, CHR 0xD1, CHR 0x81, CHR 0xD1, CHR 0x96, CHR 0xD0, CHR 0xB1],
      [CHR 0xD1, CHR 0x81, CHR 0xD0, CHR 0xBF, CHR 0xD0, CHR 0xBE, CHR 0xD1, CHR 0x81, CHR 0xD0, CHR 0xBE, CHR 0xD0, CHR 0xB1],
      ''metoda'',
      ''Methode'',
      [CHR ''m'', CHR 0xC3, CHR 0xA9] @ ''thode'',
      ''metodo'',
      [CHR ''m'', CHR 0xC3, CHR 0xA9] @ ''todo'',
      [CHR ''m'', CHR 0xC3, CHR 0xA9] @ ''todo'']),
    (''MethodRegister'', [''register (SMS/call)'',
      ''register (SMS/'' @ [CHR 0xD0, CHR 0xB4, CHR 0xD0, CHR 0xB7, CHR 0xD0, CHR 0xB2, CHR 0xD1, CHR 0x96, CHR 0xD0, CHR 0xBD, CHR 0xD0, CHR 0xBE, CHR 0xD0, CHR 0xBA, CHR '')''],
      ''register (SMS/'' @ [CHR 0xD0, CHR 0xB7, CHR 0xD0, CHR 0xB2, CHR 0xD0, CHR 0xBE, CHR 0xD0, CHR 0xBD, CHR 0xD0, CHR 0xBE, CHR 0xD0, CHR 0xBA, CHR '')''],
      ''register (SMS/po'' @ [CHR 0xC5, CHR 0x82, CHR 0xC4, CHR 0x85] @ ''czenie)'',
      ''register (SMS/Anruf)'',
      ''register (SMS/appel)'',
      ''register (SMS/chiamata)'',
      ''register (SMS/llamada)'',
      ''register (SMS/chamada)'']),
    (''WizardNameHint'', [''name is an arbitrary label (letters/digits/-/_), Signal/SIP never see it'',
      [CHR 0xD1, CHR 0x96, CHR 0xD0, CHR 0xBC, CHR 0x27, CHR 0xD1, CHR 0x8F, CHR '' '', CHR ''-'', CHR '' '', CHR 0xD0, CHR 0xB4, CHR 0xD0, CHR 0xBE, CHR 0xD0, CHR 0xB2, CHR 0xD1, CHR 0x96, CHR 0xD0, CHR 0xBB, CHR 0xD1, CHR 0x8C, CHR 0xD0, CHR 0xBD, CHR 0xD0, CHR 0xB0, CHR '' '', CHR 0xD0, CHR 0xBC, CHR 0xD1, CHR 0x96, CHR 0xD1, CHR 0x82, CHR 0xD0, CHR 0xBA, CHR 0xD0, CHR 0xB0, CHR '' '', CHR ''('', CHR 0xD0, CHR 0xBB, CHR 0xD1, CHR 0x96, CHR 0xD1, CHR 0x82, CHR 0xD0, CHR 0xB5, CHR 0xD1, CHR 0x80, CHR 0xD0, CHR 0xB8, CHR ''/'', CHR 0xD1, CHR 0x86, CHR 0xD0, CHR 0xB8, CHR 0xD1, CHR 0x84, CHR 0xD1, CHR 0x80, CHR 0xD0, CHR 0xB8] @ ''/-/_), Signal/SIP '' @ [CHR 0xD1, CHR 0x97, CHR 0xD1, CHR 0x97, CHR '' '', CHR 0xD0, CHR 0xBD, CHR 0xD0, CHR 0xB5, CHR '' '', CHR 0xD0, CHR 0xB1, CHR 0xD0, CHR 0xB0, CHR 0xD1, CHR 0x87, CHR 0xD0, CHR 0xB0, CHR 0xD1, CHR 0x82, CHR 0xD1, CHR 0x8C],
      [CHR 0xD0, CHR 0xB8, CHR 0xD0, CHR 0xBC, CHR 0xD1, CHR 0x8F, CHR '' '', CHR ''-'', CHR '' '', CHR 0xD0, CHR 0xBF, CHR 0xD1, CHR 0x80, CHR 0xD0, CHR 0xBE, CHR 0xD0, CHR 0xB8, CHR 0xD0, CHR 0xB7, CHR 0xD0, CHR 0xB2, CHR 0xD0, CHR 0xBE, CHR 0xD0, CHR 0xBB, CHR 0xD1, CHR 0x8C, CHR 0xD0, CHR 0xBD, CHR 0xD0, CHR 0xB0, CHR 0xD1, CHR 0x8F, CHR '' '', CHR 0xD0, CHR 0xBC, CHR 0xD0, CHR 0xB5, CHR 0xD1, CHR 0x82, CHR 0xD0, CHR 0xBA, CHR 0xD0, CHR 0xB0, CHR '' '', CHR ''('', CHR 0xD0, CHR 0xB1, CHR 0xD1, CHR 0x83, CHR 0xD0, CHR 0xBA, CHR 0xD0, CHR 0xB2, CHR 0xD1, CHR 0x8B, CHR ''/'', CHR 0xD1, CHR 0x86, CHR 0xD0, CHR 0xB8, CHR 0xD1, CHR 0x84, CHR 0xD1, CHR 0x80, CHR 0xD1, CHR 0x8B] @ ''/-/_), Signal/SIP '' @ [CHR 0xD0, CHR 0xB5, CHR 0xD1, CHR 0x91, CHR '' '', CHR 0xD0, CHR 0xBD, CHR 0xD0, CHR 0xB5, CHR '' '', CHR 0xD0, CHR 0xB2, CHR 0xD0, CHR 0xB8, CHR 0xD0, CHR 0xB4, CHR 0xD1, CHR 0x8F, CHR 0xD1, CHR 0x82],
      ''nazwa to dowolna etykieta (litery/cyfry/-/_), Signal/SIP jej nie widz'' @ [CHR 0xC4, CHR 0x85],
      ''der Name ist ein frei w'' @ [CHR 0xC3, CHR 0xA4] @ ''hlbares Label (Buchstaben/Zahlen/-/_), Signal/SIP sehen ihn nie'',
      ''le nom est une '' @ [CHR 0xC3, CHR 0xA9] @ ''tiquette libre (lettres/chiffres/-/_), Signal/SIP ne le voient jamais'',
      ''il nome '' @ [CHR 0xC3, CHR 0xA8, CHR '' '', CHR ''u'', CHR ''n'', CHR 0x27] @ ''etichetta arbitraria (lettere/numeri/-/_), Signal/SIP non lo vedono mai'',
      ''el nombre es una etiqueta arbitraria (letras/d'' @ [CHR 0xC3, CHR 0xAD] @ ''gitos/-/_), Signal/SIP nunca lo ven'',
      ''o nome '' @ [CHR 0xC3, CHR 0xA9] @ '' um r'' @ [CHR 0xC3, CHR 0xB3] @ ''tulo arbitr'' @ [CHR 0xC3, CHR 0xA1] @ ''rio (letras/d'' @ [CHR 0xC3, CHR 0xAD] @ ''gitos/-/_), Signal/SIP nunca o veem'']),
    (''ErrEnterAccountName'', [''enter an account name'',
      [CHR 0xD0, CHR 0xB2, CHR 0xD0, CHR 0xBA, CHR 0xD0, CHR 0xB0, CHR 0xD0, CHR 0xB6, CHR 0xD1, CHR 0x96, CHR 0xD1, CHR 0x82, CHR 0xD1, CHR 0x8C, CHR '' '', CHR 0xD1, CHR 0x96, CHR 0xD0, CHR 0xBC, CHR 0x27, CHR 0xD1, CHR 0x8F, CHR '' '', CHR 0xD0, CHR 0xB0, CHR 0xD0, CHR 0xBA, CHR 0xD0, CHR 0xB0, CHR 0xD1, CHR 0x83, CHR 0xD0, CHR 0xBD, CHR 0xD1, CHR 0x82, CHR 0xD0, CHR 0xB0],
      [CHR 0xD1, CHR 0x83, CHR 0xD0, CHR 0xBA, CHR 0xD0, CHR 0xB0, CHR 0xD0, CHR 0xB6, CHR 0xD0, CHR 0xB8, CHR 0xD1, CHR 0x82, CHR 0xD0, CHR 0xB5, CHR '' '', CHR 0xD0, CHR 0xB8, CHR 0xD0, CHR 0xBC, CHR 0xD1, CHR 0x8F, CHR '' '', CHR 0xD0, CHR 0xB0, CHR 0xD0, CHR 0xBA, CHR 0xD0, CHR 0xBA, CHR 0xD0, CHR 0xB0, CHR 0xD1, CHR 0x83, CHR 0xD0, CHR 0xBD, CHR 0xD1, CHR 0x82, CHR 0xD0, CHR 0xB0],
      ''podaj nazw'' @ [CHR 0xC4, CHR 0x99] @ '' konta'',
      ''Kontoname eingeben'',
      ''indiquez un nom de compte'',
      ''inserisci un nome account'',
      ''indique un nombre de cuenta'',
      ''informe um nome de conta'']),
    (''ErrAccountExists'', [''an account with this name already exists'',
      [CHR 0xD0, CHR 0xB0, CHR 0xD0, CHR 0xBA, CHR 0xD0, CHR 0xB0, CHR 0xD1, CHR 0x83, CHR 0xD0, CHR 0xBD, CHR 0xD1, CHR 0x82, CHR '' '', CHR 0xD0, CHR 0xB7, CHR '' '', CHR 0xD1, CHR 0x82, CHR 0xD0, CHR 0xB0, CHR 0xD0, CHR 0xBA, CHR 0xD0, CHR 0xB8, CHR 0xD0, CHR 0xBC, CHR '' '', CHR 0xD1, CHR 0x96, CHR 0xD0, CHR 0xBC, CHR 0x27, CHR 0xD1, CHR 0x8F, CHR 0xD0, CHR 0xBC, CHR '' '', CHR 0xD0, CHR 0xB2, CHR 0xD0, CHR 0xB6, CHR 0xD0, CHR 0xB5, CHR '' '', CHR 0xD1, CHR 0x96, CHR 0xD1, CHR 0x81, CHR 0xD0, CHR 0xBD, CHR 0xD1, CHR 0x83, CHR 0xD1, CHR 0x94],
      [CHR 0xD0, CHR 0xB0, CHR 0xD0, CHR 0xBA, CHR 0xD0, CHR 0xBA, CHR 0xD0, CHR 0xB0, CHR 0xD1, CHR 0x83, CHR 0xD0, CHR 0xBD, CHR 0xD1, CHR 0x82, CHR '' '', CHR 0xD1, CHR 0x81, CHR '' '', CHR 0xD1, CHR 0x82, CHR 0xD0, CHR 0xB0, CHR 0xD0, CHR 0xBA, CHR 0xD0, CHR 0xB8, CHR 0xD0, CHR 0xBC, CHR '' '', CHR 0xD0, CHR 0xB8, CHR 0xD0, CHR 0xBC, CHR 0xD0, CHR 0xB5, CHR 0xD0, CHR 0xBD, CHR 0xD0, CHR 0xB5, CHR 0xD0, CHR 0xBC, CHR '' '', CHR 0xD1, CHR 0x83, CHR 0xD0, CHR 0xB6, CHR 0xD0, CHR 0xB5, CHR '' '', CHR 0xD1, CHR 0x81, CHR 0xD1, CHR 0x83, CHR 0xD1, CHR 0x89, CHR 0xD0, CHR 0xB5, CHR 0xD1, CHR 0x81, CHR 0xD1, CHR 0x82, CHR 0xD0, CHR 0xB2, CHR 0xD1, CHR 0x83, CHR 0xD0, CHR 0xB5, CHR 0xD1, CHR 0x82],
      ''konto o tej nazwie ju'' @ [CHR 0xC5, CHR 0xBC] @ '' istnieje'',
      ''ein Konto mit diesem Namen existiert bereits'',
      ''un compte portant ce nom existe d'' @ [CHR 0xC3, CHR 0xA9, CHR ''j'', CHR 0xC3, CHR 0xA0],
      ''esiste gi'' @ [CHR 0xC3, CHR 0xA0] @ '' un account con questo nome'',
      ''ya existe una cuenta con ese nombre'',
      [CHR ''j'', CHR 0xC3, CHR 0xA1] @ '' existe uma conta com esse nome'']),
    (''FooterToggleMethod'', [''toggle method'',
      [CHR 0xD0, CHR 0xBF, CHR 0xD0, CHR 0xB5, CHR 0xD1, CHR 0x80, CHR 0xD0, CHR 0xB5, CHR 0xD0, CHR 0xBC, CHR 0xD0, CHR 0xBA, CHR 0xD0, CHR 0xBD, CHR 0xD1, CHR 0x83, CHR 0xD1, CHR 0x82, CHR 0xD0, CHR 0xB8, CHR '' '', CHR 0xD1, CHR 0x81, CHR 0xD0, CHR 0xBF, CHR 0xD0, CHR 0xBE, CHR 0xD1, CHR 0x81, CHR 0xD1, CHR 0x96, CHR 0xD0, CHR 0xB1],
      [CHR 0xD0, CHR 0xBF, CHR 0xD0, CHR 0xB5, CHR 0xD1, CHR 0x80, CHR 0xD0, CHR 0xB5, CHR 0xD0, CHR 0xBA, CHR 0xD0, CHR 0xBB, CHR 0xD1, CHR 0x8E, CHR 0xD1, CHR 0x87, CHR 0xD0, CHR 0xB8, CHR 0xD1, CHR 0x82, CHR 0xD1, CHR 0x8C, CHR '' '', CHR 0xD1, CHR 0x81, CHR 0xD0, CHR 0xBF, CHR 0xD0, CHR 0xBE, CHR 0xD1, CHR 0x81, CHR 0xD0, CHR 0xBE, CHR 0xD0, CHR 0xB1],
      ''prze'' @ [CHR 0xC5, CHR 0x82, CHR 0xC4, CHR 0x85] @ ''cz metod'' @ [CHR 0xC4, CHR 0x99],
      ''Methode wechseln'',
      ''changer de m'' @ [CHR 0xC3, CHR 0xA9] @ ''thode'',
      ''cambia metodo'',
      ''cambiar m'' @ [CHR 0xC3, CHR 0xA9] @ ''todo'',
      ''alternar m'' @ [CHR 0xC3, CHR 0xA9] @ ''todo'']),
    (''FooterNext'', [''next'',
      [CHR 0xD0, CHR 0xB4, CHR 0xD0, CHR 0xB0, CHR 0xD0, CHR 0xBB, CHR 0xD1, CHR 0x96],
      [CHR 0xD0, CHR 0xB4, CHR 0xD0, CHR 0xB0, CHR 0xD0, CHR 0xBB, CHR 0xD0, CHR 0xB5, CHR 0xD0, CHR 0xB5],
      ''dalej'',
      ''weiter'',
      ''suivant'',
      ''avanti'',
      ''siguiente'',
      [CHR ''p'', CHR ''r'', CHR 0xC3, CHR 0xB3] @ ''ximo'']),
    (''WizardRegistration'', [''registration: '',
      [CHR 0xD1, CHR 0x80, CHR 0xD0, CHR 0xB5, CHR 0xD1, CHR 0x94, CHR 0xD1, CHR 0x81, CHR 0xD1, CHR 0x82, CHR 0xD1, CHR 0x80, CHR 0xD0, CHR 0xB0, CHR 0xD1, CHR 0x86, CHR 0xD1, CHR 0x96, CHR 0xD1, CHR 0x8F, CHR '':'', CHR '' ''],
      [CHR 0xD1, CHR 0x80, CHR 0xD0, CHR 0xB5, CHR 0xD0, CHR 0xB3, CHR 0xD0, CHR 0xB8, CHR 0xD1, CHR 0x81, CHR 0xD1, CHR 0x82, CHR 0xD1, CHR 0x80, CHR 0xD0, CHR 0xB0, CHR 0xD1, CHR 0x86, CHR 0xD0, CHR 0xB8, CHR 0xD1, CHR 0x8F, CHR '':'', CHR '' ''],
      ''rejestracja: '',
      ''Registrierung: '',
      ''inscription : '',
      ''registrazione: '',
      ''registro: '',
      ''registro: ''])]"

definition texts_register :: "(Key \<times> string list) list" where
  "texts_register = [
    (''FieldCodeMethod'', [''code method'',
      [CHR 0xD1, CHR 0x81, CHR 0xD0, CHR 0xBF, CHR 0xD0, CHR 0xBE, CHR 0xD1, CHR 0x81, CHR 0xD1, CHR 0x96, CHR 0xD0, CHR 0xB1, CHR '' '', CHR 0xD0, CHR 0xBA, CHR 0xD0, CHR 0xBE, CHR 0xD0, CHR 0xB4, CHR 0xD1, CHR 0x83],
      [CHR 0xD1, CHR 0x81, CHR 0xD0, CHR 0xBF, CHR 0xD0, CHR 0xBE, CHR 0xD1, CHR 0x81, CHR 0xD0, CHR 0xBE, CHR 0xD0, CHR 0xB1, CHR '' '', CHR 0xD0, CHR 0xBA, CHR 0xD0, CHR 0xBE, CHR 0xD0, CHR 0xB4, CHR 0xD0, CHR 0xB0],
      ''metoda kodu'',
      ''Code-Methode'',
      [CHR ''m'', CHR 0xC3, CHR 0xA9] @ ''thode du code'',
      ''metodo del codice'',
      [CHR ''m'', CHR 0xC3, CHR 0xA9] @ ''todo del c'' @ [CHR 0xC3, CHR 0xB3] @ ''digo'',
      [CHR ''m'', CHR 0xC3, CHR 0xA9] @ ''todo do c'' @ [CHR 0xC3, CHR 0xB3] @ ''digo'']),
    (''ErrEnterE164'', [''enter e164'',
      [CHR 0xD0, CHR 0xB2, CHR 0xD0, CHR 0xBA, CHR 0xD0, CHR 0xB0, CHR 0xD0, CHR 0xB6, CHR 0xD1, CHR 0x96, CHR 0xD1, CHR 0x82, CHR 0xD1, CHR 0x8C] @ '' e164'',
      [CHR 0xD1, CHR 0x83, CHR 0xD0, CHR 0xBA, CHR 0xD0, CHR 0xB0, CHR 0xD0, CHR 0xB6, CHR 0xD0, CHR 0xB8, CHR 0xD1, CHR 0x82, CHR 0xD0, CHR 0xB5] @ '' e164'',
      ''podaj e164'',
      ''e164 eingeben'',
      ''indiquez le e164'',
      ''inserisci e164'',
      ''indique el e164'',
      ''informe o e164'']),
    (''FooterToggleCodeMethod'', [''toggle code method'',
      [CHR 0xD0, CHR 0xBF, CHR 0xD0, CHR 0xB5, CHR 0xD1, CHR 0x80, CHR 0xD0, CHR 0xB5, CHR 0xD0, CHR 0xBC, CHR 0xD0, CHR 0xBA, CHR 0xD0, CHR 0xBD, CHR 0xD1, CHR 0x83, CHR 0xD1, CHR 0x82, CHR 0xD0, CHR 0xB8, CHR '' '', CHR 0xD1, CHR 0x81, CHR 0xD0, CHR 0xBF, CHR 0xD0, CHR 0xBE, CHR 0xD1, CHR 0x81, CHR 0xD1, CHR 0x96, CHR 0xD0, CHR 0xB1, CHR '' '', CHR 0xD0, CHR 0xBA, CHR 0xD0, CHR 0xBE, CHR 0xD0, CHR 0xB4, CHR 0xD1, CHR 0x83],
      [CHR 0xD0, CHR 0xBF, CHR 0xD0, CHR 0xB5, CHR 0xD1, CHR 0x80, CHR 0xD0, CHR 0xB5, CHR 0xD0, CHR 0xBA, CHR 0xD0, CHR 0xBB, CHR 0xD1, CHR 0x8E, CHR 0xD1, CHR 0x87, CHR 0xD0, CHR 0xB8, CHR 0xD1, CHR 0x82, CHR 0xD1, CHR 0x8C, CHR '' '', CHR 0xD1, CHR 0x81, CHR 0xD0, CHR 0xBF, CHR 0xD0, CHR 0xBE, CHR 0xD1, CHR 0x81, CHR 0xD0, CHR 0xBE, CHR 0xD0, CHR 0xB1, CHR '' '', CHR 0xD0, CHR 0xBA, CHR 0xD0, CHR 0xBE, CHR 0xD0, CHR 0xB4, CHR 0xD0, CHR 0xB0],
      ''prze'' @ [CHR 0xC5, CHR 0x82, CHR 0xC4, CHR 0x85] @ ''cz metod'' @ [CHR 0xC4, CHR 0x99] @ '' kodu'',
      ''Code-Methode wechseln'',
      ''changer la m'' @ [CHR 0xC3, CHR 0xA9] @ ''thode du code'',
      ''cambia metodo del codice'',
      ''cambiar m'' @ [CHR 0xC3, CHR 0xA9] @ ''todo del c'' @ [CHR 0xC3, CHR 0xB3] @ ''digo'',
      ''alternar m'' @ [CHR 0xC3, CHR 0xA9] @ ''todo do c'' @ [CHR 0xC3, CHR 0xB3] @ ''digo'']),
    (''FooterRegister'', [''register'',
      ''register'',
      ''register'',
      ''register'',
      ''register'',
      ''register'',
      ''register'',
      ''register'',
      ''register'']),
    (''WizardResult'', [''result: '',
      [CHR 0xD1, CHR 0x80, CHR 0xD0, CHR 0xB5, CHR 0xD0, CHR 0xB7, CHR 0xD1, CHR 0x83, CHR 0xD0, CHR 0xBB, CHR 0xD1, CHR 0x8C, CHR 0xD1, CHR 0x82, CHR 0xD0, CHR 0xB0, CHR 0xD1, CHR 0x82, CHR '':'', CHR '' ''],
      [CHR 0xD1, CHR 0x80, CHR 0xD0, CHR 0xB5, CHR 0xD0, CHR 0xB7, CHR 0xD1, CHR 0x83, CHR 0xD0, CHR 0xBB, CHR 0xD1, CHR 0x8C, CHR 0xD1, CHR 0x82, CHR 0xD0, CHR 0xB0, CHR 0xD1, CHR 0x82, CHR '':'', CHR '' ''],
      ''wynik: '',
      ''Ergebnis: '',
      [CHR ''r'', CHR 0xC3, CHR 0xA9] @ ''sultat : '',
      ''risultato: '',
      ''resultado: '',
      ''resultado: '']),
    (''FooterEnterCode'', [''enter code'',
      [CHR 0xD0, CHR 0xB2, CHR 0xD0, CHR 0xB2, CHR 0xD0, CHR 0xB5, CHR 0xD1, CHR 0x81, CHR 0xD1, CHR 0x82, CHR 0xD0, CHR 0xB8, CHR '' '', CHR 0xD0, CHR 0xBA, CHR 0xD0, CHR 0xBE, CHR 0xD0, CHR 0xB4],
      [CHR 0xD0, CHR 0xB2, CHR 0xD0, CHR 0xB2, CHR 0xD0, CHR 0xB5, CHR 0xD1, CHR 0x81, CHR 0xD1, CHR 0x82, CHR 0xD0, CHR 0xB8, CHR '' '', CHR 0xD0, CHR 0xBA, CHR 0xD0, CHR 0xBE, CHR 0xD0, CHR 0xB4],
      ''wpisz kod'',
      ''Code eingeben'',
      ''saisir le code'',
      ''inserisci codice'',
      ''ingresar c'' @ [CHR 0xC3, CHR 0xB3] @ ''digo'',
      ''inserir c'' @ [CHR 0xC3, CHR 0xB3] @ ''digo''])]"

definition texts_captcha :: "(Key \<times> string list) list" where
  "texts_captcha = [
    (''FooterToList'', [''to list'',
      [CHR 0xD0, CHR 0xB4, CHR 0xD0, CHR 0xBE, CHR '' '', CHR 0xD1, CHR 0x81, CHR 0xD0, CHR 0xBF, CHR 0xD0, CHR 0xB8, CHR 0xD1, CHR 0x81, CHR 0xD0, CHR 0xBA, CHR 0xD1, CHR 0x83],
      [CHR 0xD0, CHR 0xBA, CHR '' '', CHR 0xD1, CHR 0x81, CHR 0xD0, CHR 0xBF, CHR 0xD0, CHR 0xB8, CHR 0xD1, CHR 0x81, CHR 0xD0, CHR 0xBA, CHR 0xD1, CHR 0x83],
      ''do listy'',
      ''zur Liste'',
      ''vers la liste'',
      ''alla lista'',
      ''a la lista'',
      ''para a lista'']),
    (''CaptchaInstructions'', [''Open in a browser: https://signalcaptchas.org/registration/generate.html - solve the captcha; it will try to navigate to signalcaptcha://<token> (the navigation won'' @ [CHR 0x27] @ ''t work in a normal browser, but the token stays visible in the address bar).'',
      [CHR 0xD0, CHR 0x92, CHR 0xD1, CHR 0x96, CHR 0xD0, CHR 0xB4, CHR 0xD0, CHR 0xBA, CHR 0xD1, CHR 0x80, CHR 0xD0, CHR 0xB8, CHR 0xD0, CHR 0xB9, CHR 0xD1, CHR 0x82, CHR 0xD0, CHR 0xB5, CHR '' '', CHR 0xD0, CHR 0xB2, CHR '' '', CHR 0xD0, CHR 0xB1, CHR 0xD1, CHR 0x80, CHR 0xD0, CHR 0xB0, CHR 0xD1, CHR 0x83, CHR 0xD0, CHR 0xB7, CHR 0xD0, CHR 0xB5, CHR 0xD1, CHR 0x80, CHR 0xD1, CHR 0x96] @ '': https://signalcaptchas.org/registration/generate.html - '' @ [CHR 0xD1, CHR 0x80, CHR 0xD0, CHR 0xBE, CHR 0xD0, CHR 0xB7, CHR 0xD0, CHR 0xB2, CHR 0x27, CHR 0xD1, CHR 0x8F, CHR 0xD0, CHR 0xB6, CHR 0xD1, CHR 0x96, CHR 0xD1, CHR 0x82, CHR 0xD1, CHR 0x8C, CHR '' '', CHR 0xD0, CHR 0xBA, CHR 0xD0, CHR 0xB0, CHR 0xD0, CHR 0xBF, CHR 0xD1, CHR 0x87, CHR 0xD1, CHR 0x83, CHR '';'', CHR '' '', CHR 0xD0, CHR 0xB2, CHR 0xD0, CHR 0xBE, CHR 0xD0, CHR 0xBD, CHR 0xD0, CHR 0xB0, CHR '' '', CHR 0xD1, CHR 0x81, CHR 0xD0, CHR 0xBF, CHR 0xD1, CHR 0x80, CHR 0xD0, CHR 0xBE, CHR 0xD0, CHR 0xB1, CHR 0xD1, CHR 0x83, CHR 0xD1, CHR 0x94, CHR '' '', CHR 0xD0, CHR 0xBF, CHR 0xD0, CHR 0xB5, CHR 0xD1, CHR 0x80, CHR 0xD0, CHR 0xB5, CHR 0xD0, CHR 0xB9, CHR 0xD1, CHR 0x82, CHR 0xD0, CHR 0xB8, CHR '' '', CHR 0xD0, CHR 0xBD, CHR 0xD0, CHR 0xB0] @ '' signalcaptcha://<token> ('' @ [CHR 0xD0, CHR 0xBF, CHR 0xD0, CHR 0xB5, CHR 0xD1, CHR 0x80, CHR 0xD0, CHR 0xB5, CHR 0xD1, CHR 0x85, CHR 0xD1, CHR 0x96, CHR 0xD0, CHR 0xB4, CHR '' '', CHR 0xD0, CHR 0xBD, CHR 0xD0, CHR 0xB5, CHR '' '', CHR 0xD1, CHR 0x81, CHR 0xD0, CHR 0xBF, CHR 0xD1, CHR 0x80, CHR 0xD0, CHR 0xB0, CHR 0xD1, CHR 0x86, CHR 0xD1, CHR 0x8E, CHR 0xD1, CHR 0x94, CHR '' '', CHR 0xD1, CHR 0x83, CHR '' '', CHR 0xD0, CHR 0xB7, CHR 0xD0, CHR 0xB2, CHR 0xD0, CHR 0xB8, CHR 0xD1, CHR 0x87, CHR 0xD0, CHR 0xB0, CHR 0xD0, CHR 0xB9, CHR 0xD0, CHR 0xBD, CHR 0xD0, CHR 0xBE, CHR 0xD0, CHR 0xBC, CHR 0xD1, CHR 0x83, CHR '' '', CHR 0xD0, CHR 0xB1, CHR 0xD1, CHR 0x80, CHR 0xD0, CHR 0xB0, CHR 0xD1, CHR 0x83, CHR 0xD0, CHR 0xB7, CHR 0xD0, CHR 0xB5, CHR 0xD1, CHR 0x80, CHR 0xD1, CHR 0x96, CHR '','', CHR '' '', CHR 0xD0, CHR 0xB0, CHR 0xD0, CHR 0xBB, CHR 0xD0, CHR 0xB5, CHR '' '', CHR 0xD1, CHR 0x82, CHR 0xD0, CHR 0xBE, CHR 0xD0, CHR 0xBA, CHR 0xD0, CHR 0xB5, CHR 0xD0, CHR 0xBD, CHR '' '', CHR 0xD0, CHR 0xB7, CHR 0xD0, CHR 0xB0, CHR 0xD0, CHR 0xBB, CHR 0xD0, CHR 0xB8, CHR 0xD1, CHR 0x88, CHR 0xD0, CHR 0xB8, CHR 0xD1, CHR 0x82, CHR 0xD1, CHR 0x8C, CHR 0xD1, CHR 0x81, CHR 0xD1, CHR 0x8F, CHR '' '', CHR 0xD0, CHR 0xB2, CHR 0xD0, CHR 0xB8, CHR 0xD0, CHR 0xB4, CHR 0xD0, CHR 0xB8, CHR 0xD0, CHR 0xBC, CHR 0xD0, CHR 0xB8, CHR 0xD0, CHR 0xBC, CHR '' '', CHR 0xD0, CHR 0xB2, CHR '' '', CHR 0xD0, CHR 0xB0, CHR 0xD0, CHR 0xB4, CHR 0xD1, CHR 0x80, CHR 0xD0, CHR 0xB5, CHR 0xD1, CHR 0x81, CHR 0xD0, CHR 0xBD, CHR 0xD0, CHR 0xBE, CHR 0xD0, CHR 0xBC, CHR 0xD1, CHR 0x83, CHR '' '', CHR 0xD1, CHR 0x80, CHR 0xD1, CHR 0x8F, CHR 0xD0, CHR 0xB4, CHR 0xD0, CHR 0xBA, CHR 0xD1, CHR 0x83, CHR '')'', CHR ''.''],
      [CHR 0xD0, CHR 0x9E, CHR 0xD1, CHR 0x82, CHR 0xD0, CHR 0xBA, CHR 0xD1, CHR 0x80, CHR 0xD0, CHR 0xBE, CHR 0xD0, CHR 0xB9, CHR 0xD1, CHR 0x82, CHR 0xD0, CHR 0xB5, CHR '' '', CHR 0xD0, CHR 0xB2, CHR '' '', CHR 0xD0, CHR 0xB1, CHR 0xD1, CHR 0x80, CHR 0xD0, CHR 0xB0, CHR 0xD1, CHR 0x83, CHR 0xD0, CHR 0xB7, CHR 0xD0, CHR 0xB5, CHR 0xD1, CHR 0x80, CHR 0xD0, CHR 0xB5] @ '': https://signalcaptchas.org/registration/generate.html - '' @ [CHR 0xD1, CHR 0x80, CHR 0xD0, CHR 0xB5, CHR 0xD1, CHR 0x88, CHR 0xD0, CHR 0xB8, CHR 0xD1, CHR 0x82, CHR 0xD0, CHR 0xB5, CHR '' '', CHR 0xD0, CHR 0xBA, CHR 0xD0, CHR 0xB0, CHR 0xD0, CHR 0xBF, CHR 0xD1, CHR 0x87, CHR 0xD1, CHR 0x83, CHR '';'', CHR '' '', CHR 0xD0, CHR 0xBE, CHR 0xD0, CHR 0xBD, CHR 0xD0, CHR 0xB0, CHR '' '', CHR 0xD0, CHR 0xBF, CHR 0xD0, CHR 0xBE, CHR 0xD0, CHR 0xBF, CHR 0xD1, CHR 0x80, CHR 0xD0, CHR 0xBE, CHR 0xD0, CHR 0xB1, CHR 0xD1, CHR 0x83, CHR 0xD0, CHR 0xB5, CHR 0xD1, CHR 0x82, CHR '' '', CHR 0xD0, CHR 0xBF, CHR 0xD0, CHR 0xB5, CHR 0xD1, CHR 0x80, CHR 0xD0, CHR 0xB5, CHR 0xD0, CHR 0xB9, CHR 0xD1, CHR 0x82, CHR 0xD0, CHR 0xB8, CHR '' '', CHR 0xD0, CHR 0xBD, CHR 0xD0, CHR 0xB0] @ '' signalcaptcha://<token> ('' @ [CHR 0xD0, CHR 0xBF, CHR 0xD0, CHR 0xB5, CHR 0xD1, CHR 0x80, CHR 0xD0, CHR 0xB5, CHR 0xD1, CHR 0x85, CHR 0xD0, CHR 0xBE, CHR 0xD0, CHR 0xB4, CHR '' '', CHR 0xD0, CHR 0xBD, CHR 0xD0, CHR 0xB5, CHR '' '', CHR 0xD1, CHR 0x81, CHR 0xD1, CHR 0x80, CHR 0xD0, CHR 0xB0, CHR 0xD0, CHR 0xB1, CHR 0xD0, CHR 0xBE, CHR 0xD1, CHR 0x82, CHR 0xD0, CHR 0xB0, CHR 0xD0, CHR 0xB5, CHR 0xD1, CHR 0x82, CHR '' '', CHR 0xD0, CHR 0xB2, CHR '' '', CHR 0xD0, CHR 0xBE, CHR 0xD0, CHR 0xB1, CHR 0xD1, CHR 0x8B, CHR 0xD1, CHR 0x87, CHR 0xD0, CHR 0xBD, CHR 0xD0, CHR 0xBE, CHR 0xD0, CHR 0xBC, CHR '' '', CHR 0xD0, CHR 0xB1, CHR 0xD1, CHR 0x80, CHR 0xD0, CHR 0xB0, CHR 0xD1, CHR 0x83, CHR 0xD0, CHR 0xB7, CHR 0xD0, CHR 0xB5, CHR 0xD1, CHR 0x80, CHR 0xD0, CHR 0xB5, CHR '','', CHR '' '', CHR 0xD0, CHR 0xBD, CHR 0xD0, CHR 0xBE, CHR '' '', CHR 0xD1, CHR 0x82, CHR 0xD0, CHR 0xBE, CHR 0xD0, CHR 0xBA, CHR 0xD0, CHR 0xB5, CHR 0xD0, CHR 0xBD, CHR '' '', CHR 0xD0, CHR 0xBE, CHR 0xD1, CHR 0x81, CHR 0xD1, CHR 0x82, CHR 0xD0, CHR 0xB0, CHR 0xD0, CHR 0xBD, CHR 0xD0, CHR 0xB5, CHR 0xD1, CHR 0x82, CHR 0xD1, CHR 0x81, CHR 0xD1, CHR 0x8F, CHR '' '', CHR 0xD0, CHR 0xB2, CHR 0xD0, CHR 0xB8, CHR 0xD0, CHR 0xB4, CHR 0xD0, CHR 0xB5, CHR 0xD0, CHR 0xBD, CHR '' '', CHR 0xD0, CHR 0xB2, CHR '' '', CHR 0xD0, CHR 0xB0, CHR 0xD0, CHR 0xB4, CHR 0xD1, CHR 0x80, CHR 0xD0, CHR 0xB5, CHR 0xD1, CHR 0x81, CHR 0xD0, CHR 0xBD, CHR 0xD0, CHR 0xBE, CHR 0xD0, CHR 0xB9, CHR '' '', CHR 0xD1, CHR 0x81, CHR 0xD1, CHR 0x82, CHR 0xD1, CHR 0x80, CHR 0xD0, CHR 0xBE, CHR 0xD0, CHR 0xBA, CHR 0xD0, CHR 0xB5, CHR '')'', CHR ''.''],
      [CHR ''O'', CHR ''t'', CHR ''w'', CHR 0xC3, CHR 0xB3] @ ''rz w przegl'' @ [CHR 0xC4, CHR 0x85] @ ''darce: https://signalcaptchas.org/registration/generate.html - rozwi'' @ [CHR 0xC4, CHR 0x85, CHR 0xC5, CHR 0xBC] @ '' captch'' @ [CHR 0xC4, CHR 0x99] @ ''; spr'' @ [CHR 0xC3, CHR 0xB3] @ ''buje ona przej'' @ [CHR 0xC5, CHR 0x9B, CHR 0xC4, CHR 0x87] @ '' do signalcaptcha://<token> (przej'' @ [CHR 0xC5, CHR 0x9B] @ ''cie nie zadzia'' @ [CHR 0xC5, CHR 0x82] @ ''a w zwyk'' @ [CHR 0xC5, CHR 0x82] @ ''ej przegl'' @ [CHR 0xC4, CHR 0x85] @ ''darce, ale token pozostanie widoczny w pasku adresu).'',
      ''Im Browser '' @ [CHR 0xC3, CHR 0xB6] @ ''ffnen: https://signalcaptchas.org/registration/generate.html - Captcha l'' @ [CHR 0xC3, CHR 0xB6] @ ''sen; es versucht, zu signalcaptcha://<token> zu navigieren (funktioniert in einem normalen Browser nicht, aber das Token bleibt in der Adressleiste sichtbar).'',
      ''Ouvrez dans un navigateur : https://signalcaptchas.org/registration/generate.html - r'' @ [CHR 0xC3, CHR 0xA9] @ ''solvez le captcha ; il essaiera de naviguer vers signalcaptcha://<token> (la navigation ne fonctionnera pas dans un navigateur normal, mais le jeton restera visible dans la barre d'' @ [CHR 0x27] @ ''adresse).'',
      ''Apri nel browser: https://signalcaptchas.org/registration/generate.html - risolvi il captcha; prover'' @ [CHR 0xC3, CHR 0xA0] @ '' a passare a signalcaptcha://<token> (la navigazione non funzioner'' @ [CHR 0xC3, CHR 0xA0] @ '' in un browser normale, ma il token rimarr'' @ [CHR 0xC3, CHR 0xA0] @ '' visibile nella barra degli indirizzi).'',
      ''Abra en un navegador: https://signalcaptchas.org/registration/generate.html - resuelva el captcha; intentar'' @ [CHR 0xC3, CHR 0xA1] @ '' navegar a signalcaptcha://<token> (la navegaci'' @ [CHR 0xC3, CHR 0xB3] @ ''n no funcionar'' @ [CHR 0xC3, CHR 0xA1] @ '' en un navegador normal, pero el token seguir'' @ [CHR 0xC3, CHR 0xA1] @ '' visible en la barra de direcciones).'',
      ''Abra no navegador: https://signalcaptchas.org/registration/generate.html - resolva o captcha; ele tentar'' @ [CHR 0xC3, CHR 0xA1] @ '' navegar para signalcaptcha://<token> (a navega'' @ [CHR 0xC3, CHR 0xA7, CHR 0xC3, CHR 0xA3, CHR ''o'', CHR '' '', CHR ''n'', CHR 0xC3, CHR 0xA3] @ ''o vai funcionar em um navegador normal, mas o token continuar'' @ [CHR 0xC3, CHR 0xA1] @ '' vis'' @ [CHR 0xC3, CHR 0xAD] @ ''vel na barra de endere'' @ [CHR 0xC3, CHR 0xA7, CHR ''o'', CHR '')'', CHR ''.'']]),
    (''FieldToken'', [''token'',
      [CHR 0xD1, CHR 0x82, CHR 0xD0, CHR 0xBE, CHR 0xD0, CHR 0xBA, CHR 0xD0, CHR 0xB5, CHR 0xD0, CHR 0xBD],
      [CHR 0xD1, CHR 0x82, CHR 0xD0, CHR 0xBE, CHR 0xD0, CHR 0xBA, CHR 0xD0, CHR 0xB5, CHR 0xD0, CHR 0xBD],
      ''token'',
      ''Token'',
      ''jeton'',
      ''token'',
      ''token'',
      ''token'']),
    (''FooterTypeToken'', ['' type the token  '',
      [CHR '' '', CHR 0xD0, CHR 0xB2, CHR 0xD0, CHR 0xB2, CHR 0xD0, CHR 0xBE, CHR 0xD0, CHR 0xB4, CHR 0xD1, CHR 0x8C, CHR 0xD1, CHR 0x82, CHR 0xD0, CHR 0xB5, CHR '' '', CHR 0xD1, CHR 0x82, CHR 0xD0, CHR 0xBE, CHR 0xD0, CHR 0xBA, CHR 0xD0, CHR 0xB5, CHR 0xD0, CHR 0xBD, CHR '' '', CHR '' ''],
      [CHR '' '', CHR 0xD0, CHR 0xB2, CHR 0xD0, CHR 0xB2, CHR 0xD0, CHR 0xBE, CHR 0xD0, CHR 0xB4, CHR 0xD0, CHR 0xB8, CHR 0xD1, CHR 0x82, CHR 0xD0, CHR 0xB5, CHR '' '', CHR 0xD1, CHR 0x82, CHR 0xD0, CHR 0xBE, CHR 0xD0, CHR 0xBA, CHR 0xD0, CHR 0xB5, CHR 0xD0, CHR 0xBD, CHR '' '', CHR '' ''],
      '' wpisz token  '',
      '' Token eingeben  '',
      '' saisissez le jeton  '',
      '' digita il token  '',
      '' escriba el token  '',
      '' digite o token  '']),
    (''FooterSubmit'', [''submit'',
      [CHR 0xD0, CHR 0xBD, CHR 0xD0, CHR 0xB0, CHR 0xD0, CHR 0xB4, CHR 0xD1, CHR 0x96, CHR 0xD1, CHR 0x81, CHR 0xD0, CHR 0xBB, CHR 0xD0, CHR 0xB0, CHR 0xD1, CHR 0x82, CHR 0xD0, CHR 0xB8],
      [CHR 0xD0, CHR 0xBE, CHR 0xD1, CHR 0x82, CHR 0xD0, CHR 0xBF, CHR 0xD1, CHR 0x80, CHR 0xD0, CHR 0xB0, CHR 0xD0, CHR 0xB2, CHR 0xD0, CHR 0xB8, CHR 0xD1, CHR 0x82, CHR 0xD1, CHR 0x8C],
      [CHR ''w'', CHR ''y'', CHR 0xC5, CHR 0x9B, CHR ''l'', CHR ''i'', CHR ''j''],
      ''senden'',
      ''envoyer'',
      ''invia'',
      ''enviar'',
      ''enviar'']),
    (''WizardVerify'', [''verification code: '',
      [CHR 0xD0, CHR 0xBA, CHR 0xD0, CHR 0xBE, CHR 0xD0, CHR 0xB4, CHR '' '', CHR 0xD0, CHR 0xBF, CHR 0xD1, CHR 0x96, CHR 0xD0, CHR 0xB4, CHR 0xD1, CHR 0x82, CHR 0xD0, CHR 0xB2, CHR 0xD0, CHR 0xB5, CHR 0xD1, CHR 0x80, CHR 0xD0, CHR 0xB4, CHR 0xD0, CHR 0xB6, CHR 0xD0, CHR 0xB5, CHR 0xD0, CHR 0xBD, CHR 0xD0, CHR 0xBD, CHR 0xD1, CHR 0x8F, CHR '':'', CHR '' ''],
      [CHR 0xD0, CHR 0xBA, CHR 0xD0, CHR 0xBE, CHR 0xD0, CHR 0xB4, CHR '' '', CHR 0xD0, CHR 0xBF, CHR 0xD0, CHR 0xBE, CHR 0xD0, CHR 0xB4, CHR 0xD1, CHR 0x82, CHR 0xD0, CHR 0xB2, CHR 0xD0, CHR 0xB5, CHR 0xD1, CHR 0x80, CHR 0xD0, CHR 0xB6, CHR 0xD0, CHR 0xB4, CHR 0xD0, CHR 0xB5, CHR 0xD0, CHR 0xBD, CHR 0xD0, CHR 0xB8, CHR 0xD1, CHR 0x8F, CHR '':'', CHR '' ''],
      ''kod weryfikacyjny: '',
      ''Best'' @ [CHR 0xC3, CHR 0xA4] @ ''tigungscode: '',
      ''code de v'' @ [CHR 0xC3, CHR 0xA9] @ ''rification : '',
      ''codice di verifica: '',
      [CHR ''c'', CHR 0xC3, CHR 0xB3] @ ''digo de verificaci'' @ [CHR 0xC3, CHR 0xB3, CHR ''n'', CHR '':'', CHR '' ''],
      [CHR ''c'', CHR 0xC3, CHR 0xB3] @ ''digo de verifica'' @ [CHR 0xC3, CHR 0xA7, CHR 0xC3, CHR 0xA3, CHR ''o'', CHR '':'', CHR '' '']]),
    (''FieldSmsCode'', [''code from SMS/call'',
      [CHR 0xD0, CHR 0xBA, CHR 0xD0, CHR 0xBE, CHR 0xD0, CHR 0xB4, CHR '' '', CHR 0xD0, CHR 0xB7] @ '' SMS/'' @ [CHR 0xD0, CHR 0xB4, CHR 0xD0, CHR 0xB7, CHR 0xD0, CHR 0xB2, CHR 0xD1, CHR 0x96, CHR 0xD0, CHR 0xBD, CHR 0xD0, CHR 0xBA, CHR 0xD0, CHR 0xB0],
      [CHR 0xD0, CHR 0xBA, CHR 0xD0, CHR 0xBE, CHR 0xD0, CHR 0xB4, CHR '' '', CHR 0xD0, CHR 0xB8, CHR 0xD0, CHR 0xB7] @ '' SMS/'' @ [CHR 0xD0, CHR 0xB7, CHR 0xD0, CHR 0xB2, CHR 0xD0, CHR 0xBE, CHR 0xD0, CHR 0xBD, CHR 0xD0, CHR 0xBA, CHR 0xD0, CHR 0xB0],
      ''kod z SMS/po'' @ [CHR 0xC5, CHR 0x82, CHR 0xC4, CHR 0x85] @ ''czenia'',
      ''Code aus SMS/Anruf'',
      ''code re'' @ [CHR 0xC3, CHR 0xA7] @ ''u par SMS/appel'',
      ''codice da SMS/chiamata'',
      [CHR ''c'', CHR 0xC3, CHR 0xB3] @ ''digo de SMS/llamada'',
      [CHR ''c'', CHR 0xC3, CHR 0xB3] @ ''digo do SMS/chamada''])]"

definition texts_link :: "(Key \<times> string list) list" where
  "texts_link = [
    (''FooterTypeCode'', ['' type the code  '',
      [CHR '' '', CHR 0xD0, CHR 0xB2, CHR 0xD0, CHR 0xB2, CHR 0xD0, CHR 0xBE, CHR 0xD0, CHR 0xB4, CHR 0xD1, CHR 0x8C, CHR 0xD1, CHR 0x82, CHR 0xD0, CHR 0xB5, CHR '' '', CHR 0xD0, CHR 0xBA, CHR 0xD0, CHR 0xBE, CHR 0xD0, CHR 0xB4, CHR '' '', CHR '' ''],
      [CHR '' '', CHR 0xD0, CHR 0xB2, CHR 0xD0, CHR 0xB2, CHR 0xD0, CHR 0xBE, CHR 0xD0, CHR 0xB4, CHR 0xD0, CHR 0xB8, CHR 0xD1, CHR 0x82, CHR 0xD0, CHR 0xB5, CHR '' '', CHR 0xD0, CHR 0xBA, CHR 0xD0, CHR 0xBE, CHR 0xD0, CHR 0xB4, CHR '' '', CHR '' ''],
      '' wpisz kod  '',
      '' Code eingeben  '',
      '' saisissez le code  '',
      '' digita il codice  '',
      '' escriba el c'' @ [CHR 0xC3, CHR 0xB3] @ ''digo  '',
      '' digite o c'' @ [CHR 0xC3, CHR 0xB3] @ ''digo  '']),
    (''WizardLinking'', [''linking: '',
      [CHR 0xD0, CHR 0xBB, CHR 0xD1, CHR 0x96, CHR 0xD0, CHR 0xBD, CHR 0xD0, CHR 0xBA, CHR 0xD1, CHR 0x83, CHR 0xD0, CHR 0xB2, CHR 0xD0, CHR 0xB0, CHR 0xD0, CHR 0xBD, CHR 0xD0, CHR 0xBD, CHR 0xD1, CHR 0x8F, CHR '':'', CHR '' ''],
      [CHR 0xD0, CHR 0xBB, CHR 0xD0, CHR 0xB8, CHR 0xD0, CHR 0xBD, CHR 0xD0, CHR 0xBA, CHR 0xD0, CHR 0xBE, CHR 0xD0, CHR 0xB2, CHR 0xD0, CHR 0xBA, CHR 0xD0, CHR 0xB0, CHR '':'', CHR '' ''],
      [CHR 0xC5, CHR 0x82, CHR 0xC4, CHR 0x85] @ ''czenie: '',
      ''Verkn'' @ [CHR 0xC3, CHR 0xBC] @ ''pfung: '',
      ''liaison : '',
      ''collegamento: '',
      ''vinculaci'' @ [CHR 0xC3, CHR 0xB3, CHR ''n'', CHR '':'', CHR '' ''],
      ''vincula'' @ [CHR 0xC3, CHR 0xA7, CHR 0xC3, CHR 0xA3, CHR ''o'', CHR '':'', CHR '' '']]),
    (''LinkWaitingInstructions'', [''Waiting for the QR to be scanned (up to ~90s) - on the phone'' @ [CHR 0x27] @ ''s Signal: Settings '' @ [CHR 0xE2, CHR 0x86, CHR 0x92] @ '' Linked Devices '' @ [CHR 0xE2, CHR 0x86, CHR 0x92] @ '' Link New Device'',
      [CHR 0xD0, CHR 0x9E, CHR 0xD1, CHR 0x87, CHR 0xD1, CHR 0x96, CHR 0xD0, CHR 0xBA, CHR 0xD1, CHR 0x83, CHR 0xD0, CHR 0xB2, CHR 0xD0, CHR 0xB0, CHR 0xD0, CHR 0xBD, CHR 0xD0, CHR 0xBD, CHR 0xD1, CHR 0x8F, CHR '' '', CHR 0xD1, CHR 0x81, CHR 0xD0, CHR 0xBA, CHR 0xD0, CHR 0xB0, CHR 0xD0, CHR 0xBD, CHR 0xD1, CHR 0x83, CHR 0xD0, CHR 0xB2, CHR 0xD0, CHR 0xB0, CHR 0xD0, CHR 0xBD, CHR 0xD0, CHR 0xBD, CHR 0xD1, CHR 0x8F] @ '' QR ('' @ [CHR 0xD0, CHR 0xB4, CHR 0xD0, CHR 0xBE] @ '' ~90'' @ [CHR 0xD1, CHR 0x81] @ '') - Signal '' @ [CHR 0xD0, CHR 0xBD, CHR 0xD0, CHR 0xB0, CHR '' '', CHR 0xD1, CHR 0x82, CHR 0xD0, CHR 0xB5, CHR 0xD0, CHR 0xBB, CHR 0xD0, CHR 0xB5, CHR 0xD1, CHR 0x84, CHR 0xD0, CHR 0xBE, CHR 0xD0, CHR 0xBD, CHR 0xD1, CHR 0x96, CHR '':'', CHR '' '', CHR 0xD0, CHR 0x9D, CHR 0xD0, CHR 0xB0, CHR 0xD0, CHR 0xBB, CHR 0xD0, CHR 0xB0, CHR 0xD1, CHR 0x88, CHR 0xD1, CHR 0x82, CHR 0xD1, CHR 0x83, CHR 0xD0, CHR 0xB2, CHR 0xD0, CHR 0xB0, CHR 0xD0, CHR 0xBD, CHR 0xD0, CHR 0xBD, CHR 0xD1, CHR 0x8F, CHR '' '', CHR 0xE2, CHR 0x86, CHR 0x92, CHR '' '', CHR 0xD0, CHR 0x9F, CHR 0xD0, CHR 0xBE, CHR 0xD0, CHR 0xB2, CHR 0x27, CHR 0xD1, CHR 0x8F, CHR 0xD0, CHR 0xB7, CHR 0xD0, CHR 0xB0, CHR 0xD0, CHR 0xBD, CHR 0xD1, CHR 0x96, CHR '' '', CHR 0xD0, CHR 0xBF, CHR 0xD1, CHR 0x80, CHR 0xD0, CHR 0xB8, CHR 0xD1, CHR 0x81, CHR 0xD1, CHR 0x82, CHR 0xD1, CHR 0x80, CHR 0xD0, CHR 0xBE, CHR 0xD1, CHR 0x97, CHR '' '', CHR 0xE2, CHR 0x86, CHR 0x92, CHR '' '', CHR 0xD0, CHR 0x9F, CHR 0xD0, CHR 0xBE, CHR 0xD0, CHR 0xB2, CHR 0x27, CHR 0xD1, CHR 0x8F, CHR 0xD0, CHR 0xB7, CHR 0xD0, CHR 0xB0, CHR 0xD1, CHR 0x82, CHR 0xD0, CHR 0xB8, CHR '' '', CHR 0xD0, CHR 0xBF, CHR 0xD1, CHR 0x80, CHR 0xD0, CHR 0xB8, CHR 0xD1, CHR 0x81, CHR 0xD1, CHR 0x82, CHR 0xD1, CHR 0x80, CHR 0xD1, CHR 0x96, CHR 0xD0, CHR 0xB9],
      [CHR 0xD0, CHR 0x9E, CHR 0xD0, CHR 0xB6, CHR 0xD0, CHR 0xB8, CHR 0xD0, CHR 0xB4, CHR 0xD0, CHR 0xB0, CHR 0xD0, CHR 0xBD, CHR 0xD0, CHR 0xB8, CHR 0xD0, CHR 0xB5, CHR '' '', CHR 0xD1, CHR 0x81, CHR 0xD0, CHR 0xBA, CHR 0xD0, CHR 0xB0, CHR 0xD0, CHR 0xBD, CHR 0xD0, CHR 0xB8, CHR 0xD1, CHR 0x80, CHR 0xD0, CHR 0xBE, CHR 0xD0, CHR 0xB2, CHR 0xD0, CHR 0xB0, CHR 0xD0, CHR 0xBD, CHR 0xD0, CHR 0xB8, CHR 0xD1, CHR 0x8F] @ '' QR ('' @ [CHR 0xD0, CHR 0xB4, CHR 0xD0, CHR 0xBE] @ '' ~90'' @ [CHR 0xD1, CHR 0x81] @ '') - Signal '' @ [CHR 0xD0, CHR 0xBD, CHR 0xD0, CHR 0xB0, CHR '' '', CHR 0xD1, CHR 0x82, CHR 0xD0, CHR 0xB5, CHR 0xD0, CHR 0xBB, CHR 0xD0, CHR 0xB5, CHR 0xD1, CHR 0x84, CHR 0xD0, CHR 0xBE, CHR 0xD0, CHR 0xBD, CHR 0xD0, CHR 0xB5, CHR '':'', CHR '' '', CHR 0xD0, CHR 0x9D, CHR 0xD0, CHR 0xB0, CHR 0xD1, CHR 0x81, CHR 0xD1, CHR 0x82, CHR 0xD1, CHR 0x80, CHR 0xD0, CHR 0xBE, CHR 0xD0, CHR 0xB9, CHR 0xD0, CHR 0xBA, CHR 0xD0, CHR 0xB8, CHR '' '', CHR 0xE2, CHR 0x86, CHR 0x92, CHR '' '', CHR 0xD0, CHR 0xA1, CHR 0xD0, CHR 0xB2, CHR 0xD1, CHR 0x8F, CHR 0xD0, CHR 0xB7, CHR 0xD0, CHR 0xB0, CHR 0xD0, CHR 0xBD, CHR 0xD0, CHR 0xBD, CHR 0xD1, CHR 0x8B, CHR 0xD0, CHR 0xB5, CHR '' '', CHR 0xD1, CHR 0x83, CHR 0xD1, CHR 0x81, CHR 0xD1, CHR 0x82, CHR 0xD1, CHR 0x80, CHR 0xD0, CHR 0xBE, CHR 0xD0, CHR 0xB9, CHR 0xD1, CHR 0x81, CHR 0xD1, CHR 0x82, CHR 0xD0, CHR 0xB2, CHR 0xD0, CHR 0xB0, CHR '' '', CHR 0xE2, CHR 0x86, CHR 0x92, CHR '' '', CHR 0xD0, CHR 0xA1, CHR 0xD0, CHR 0xB2, CHR 0xD1, CHR 0x8F, CHR 0xD0, CHR 0xB7, CHR 0xD0, CHR 0xB0, CHR 0xD1, CHR 0x82, CHR 0xD1, CHR 0x8C, CHR '' '', CHR 0xD1, CHR 0x83, CHR 0xD1, CHR 0x81, CHR 0xD1, CHR 0x82, CHR 0xD1, CHR 0x80, CHR 0xD0, CHR 0xBE, CHR 0xD0, CHR 0xB9, CHR 0xD1, CHR 0x81, CHR 0xD1, CHR 0x82, CHR 0xD0, CHR 0xB2, CHR 0xD0, CHR 0xBE],
      ''Oczekiwanie na zeskanowanie kodu QR (do ~90s) - Signal na telefonie: Ustawienia '' @ [CHR 0xE2, CHR 0x86, CHR 0x92, CHR '' '', CHR ''P'', CHR ''o'', CHR 0xC5, CHR 0x82, CHR 0xC4, CHR 0x85] @ ''czone urz'' @ [CHR 0xC4, CHR 0x85] @ ''dzenia '' @ [CHR 0xE2, CHR 0x86, CHR 0x92, CHR '' '', CHR ''P'', CHR ''o'', CHR 0xC5, CHR 0x82, CHR 0xC4, CHR 0x85] @ ''cz urz'' @ [CHR 0xC4, CHR 0x85] @ ''dzenie'',
      ''Warten auf das Scannen des QR-Codes (bis zu ~90s) - Signal auf dem Telefon: Einstellungen '' @ [CHR 0xE2, CHR 0x86, CHR 0x92] @ '' Verkn'' @ [CHR 0xC3, CHR 0xBC] @ ''pfte Ger'' @ [CHR 0xC3, CHR 0xA4, CHR ''t'', CHR ''e'', CHR '' '', CHR 0xE2, CHR 0x86, CHR 0x92] @ '' Ger'' @ [CHR 0xC3, CHR 0xA4] @ ''t verkn'' @ [CHR 0xC3, CHR 0xBC] @ ''pfen'',
      ''En attente du scan du QR (jusqu'' @ [CHR 0x27, CHR 0xC3, CHR 0xA0] @ '' ~90s) - Signal sur le t'' @ [CHR 0xC3, CHR 0xA9, CHR ''l'', CHR 0xC3, CHR 0xA9] @ ''phone : Param'' @ [CHR 0xC3, CHR 0xA8] @ ''tres '' @ [CHR 0xE2, CHR 0x86, CHR 0x92] @ '' Appareils li'' @ [CHR 0xC3, CHR 0xA9, CHR ''s'', CHR '' '', CHR 0xE2, CHR 0x86, CHR 0x92] @ '' Lier un appareil'',
      ''In attesa della scansione del QR (fino a ~90s) - Signal sul telefono: Impostazioni '' @ [CHR 0xE2, CHR 0x86, CHR 0x92] @ '' Dispositivi collegati '' @ [CHR 0xE2, CHR 0x86, CHR 0x92] @ '' Collega dispositivo'',
      ''Esperando a que se escanee el QR (hasta ~90s) - Signal en el tel'' @ [CHR 0xC3, CHR 0xA9] @ ''fono: Configuraci'' @ [CHR 0xC3, CHR 0xB3, CHR ''n'', CHR '' '', CHR 0xE2, CHR 0x86, CHR 0x92] @ '' Dispositivos vinculados '' @ [CHR 0xE2, CHR 0x86, CHR 0x92] @ '' Vincular nuevo dispositivo'',
      ''Aguardando a leitura do QR (at'' @ [CHR 0xC3, CHR 0xA9] @ '' ~90s) - Signal no telefone: Configura'' @ [CHR 0xC3, CHR 0xA7, CHR 0xC3, CHR 0xB5, CHR ''e'', CHR ''s'', CHR '' '', CHR 0xE2, CHR 0x86, CHR 0x92] @ '' Dispositivos vinculados '' @ [CHR 0xE2, CHR 0x86, CHR 0x92] @ '' Vincular novo dispositivo'']),
    (''FooterCancelWaiting'', [''cancel waiting'',
      [CHR 0xD1, CHR 0x81, CHR 0xD0, CHR 0xBA, CHR 0xD0, CHR 0xB0, CHR 0xD1, CHR 0x81, CHR 0xD1, CHR 0x83, CHR 0xD0, CHR 0xB2, CHR 0xD0, CHR 0xB0, CHR 0xD1, CHR 0x82, CHR 0xD0, CHR 0xB8, CHR '' '', CHR 0xD0, CHR 0xBE, CHR 0xD1, CHR 0x87, CHR 0xD1, CHR 0x96, CHR 0xD0, CHR 0xBA, CHR 0xD1, CHR 0x83, CHR 0xD0, CHR 0xB2, CHR 0xD0, CHR 0xB0, CHR 0xD0, CHR 0xBD, CHR 0xD0, CHR 0xBD, CHR 0xD1, CHR 0x8F],
      [CHR 0xD0, CHR 0xBE, CHR 0xD1, CHR 0x82, CHR 0xD0, CHR 0xBC, CHR 0xD0, CHR 0xB5, CHR 0xD0, CHR 0xBD, CHR 0xD0, CHR 0xB8, CHR 0xD1, CHR 0x82, CHR 0xD1, CHR 0x8C, CHR '' '', CHR 0xD0, CHR 0xBE, CHR 0xD0, CHR 0xB6, CHR 0xD0, CHR 0xB8, CHR 0xD0, CHR 0xB4, CHR 0xD0, CHR 0xB0, CHR 0xD0, CHR 0xBD, CHR 0xD0, CHR 0xB8, CHR 0xD0, CHR 0xB5],
      ''anuluj oczekiwanie'',
      ''Warten abbrechen'',
      ''annuler l'' @ [CHR 0x27] @ ''attente'',
      ''annulla attesa'',
      ''cancelar espera'',
      ''cancelar espera'']),
    (''ResultErrorCancelled'', [''error/cancelled (code {})'',
      [CHR 0xD0, CHR 0xBF, CHR 0xD0, CHR 0xBE, CHR 0xD0, CHR 0xBC, CHR 0xD0, CHR 0xB8, CHR 0xD0, CHR 0xBB, CHR 0xD0, CHR 0xBA, CHR 0xD0, CHR 0xB0, CHR ''/'', CHR 0xD1, CHR 0x81, CHR 0xD0, CHR 0xBA, CHR 0xD0, CHR 0xB0, CHR 0xD1, CHR 0x81, CHR 0xD0, CHR 0xBE, CHR 0xD0, CHR 0xB2, CHR 0xD0, CHR 0xB0, CHR 0xD0, CHR 0xBD, CHR 0xD0, CHR 0xBE, CHR '' '', CHR ''('', CHR 0xD0, CHR 0xBA, CHR 0xD0, CHR 0xBE, CHR 0xD0, CHR 0xB4] @ '' {})'',
      [CHR 0xD0, CHR 0xBE, CHR 0xD1, CHR 0x88, CHR 0xD0, CHR 0xB8, CHR 0xD0, CHR 0xB1, CHR 0xD0, CHR 0xBA, CHR 0xD0, CHR 0xB0, CHR ''/'', CHR 0xD0, CHR 0xBE, CHR 0xD1, CHR 0x82, CHR 0xD0, CHR 0xBC, CHR 0xD0, CHR 0xB5, CHR 0xD0, CHR 0xBD, CHR 0xD0, CHR 0xB5, CHR 0xD0, CHR 0xBD, CHR 0xD0, CHR 0xBE, CHR '' '', CHR ''('', CHR 0xD0, CHR 0xBA, CHR 0xD0, CHR 0xBE, CHR 0xD0, CHR 0xB4] @ '' {})'',
      [CHR ''b'', CHR 0xC5, CHR 0x82, CHR 0xC4, CHR 0x85] @ ''d/anulowano (kod {})'',
      ''Fehler/abgebrochen (Code {})'',
      ''erreur/annul'' @ [CHR 0xC3, CHR 0xA9] @ '' (code {})'',
      ''errore/annullato (codice {})'',
      ''error/cancelado (c'' @ [CHR 0xC3, CHR 0xB3] @ ''digo {})'',
      ''erro/cancelado (c'' @ [CHR 0xC3, CHR 0xB3] @ ''digo {})'']),
    (''WizardTitlebar'', [''  New account: '',
      [CHR '' '', CHR '' '', CHR 0xD0, CHR 0x9D, CHR 0xD0, CHR 0xBE, CHR 0xD0, CHR 0xB2, CHR 0xD0, CHR 0xB8, CHR 0xD0, CHR 0xB9, CHR '' '', CHR 0xD0, CHR 0xB0, CHR 0xD0, CHR 0xBA, CHR 0xD0, CHR 0xB0, CHR 0xD1, CHR 0x83, CHR 0xD0, CHR 0xBD, CHR 0xD1, CHR 0x82, CHR '':'', CHR '' ''],
      [CHR '' '', CHR '' '', CHR 0xD0, CHR 0x9D, CHR 0xD0, CHR 0xBE, CHR 0xD0, CHR 0xB2, CHR 0xD1, CHR 0x8B, CHR 0xD0, CHR 0xB9, CHR '' '', CHR 0xD0, CHR 0xB0, CHR 0xD0, CHR 0xBA, CHR 0xD0, CHR 0xBA, CHR 0xD0, CHR 0xB0, CHR 0xD1, CHR 0x83, CHR 0xD0, CHR 0xBD, CHR 0xD1, CHR 0x82, CHR '':'', CHR '' ''],
      ''  Nowe konto: '',
      ''  Neues Konto: '',
      ''  Nouveau compte : '',
      ''  Nuovo account: '',
      ''  Nueva cuenta: '',
      ''  Nova conta: '']),
    (''StartupNoDbConfig'', ['' has no usable [global] db_path/db_key - run signal2sip-gendb once first (it bootstraps [global] on a clean setup).'' @ [CHR 10],
      [CHR '' '', CHR 0xD0, CHR 0xBD, CHR 0xD0, CHR 0xB5, CHR '' '', CHR 0xD0, CHR 0xBC, CHR 0xD0, CHR 0xB0, CHR 0xD1, CHR 0x94, CHR '' '', CHR 0xD0, CHR 0xBF, CHR 0xD1, CHR 0x80, CHR 0xD0, CHR 0xB8, CHR 0xD0, CHR 0xB4, CHR 0xD0, CHR 0xB0, CHR 0xD1, CHR 0x82, CHR 0xD0, CHR 0xBD, CHR 0xD0, CHR 0xB8, CHR 0xD1, CHR 0x85] @ '' [global] db_path/db_key - '' @ [CHR 0xD1, CHR 0x81, CHR 0xD0, CHR 0xBF, CHR 0xD0, CHR 0xBE, CHR 0xD1, CHR 0x87, CHR 0xD0, CHR 0xB0, CHR 0xD1, CHR 0x82, CHR 0xD0, CHR 0xBA, CHR 0xD1, CHR 0x83, CHR '' '', CHR 0xD0, CHR 0xBE, CHR 0xD0, CHR 0xB4, CHR 0xD0, CHR 0xB8, CHR 0xD0, CHR 0xBD, CHR '' '', CHR 0xD1, CHR 0x80, CHR 0xD0, CHR 0xB0, CHR 0xD0, CHR 0xB7, CHR '' '', CHR 0xD0, CHR 0xB7, CHR 0xD0, CHR 0xB0, CHR 0xD0, CHR 0xBF, CHR 0xD1, CHR 0x83, CHR 0xD1, CHR 0x81, CHR 0xD1, CHR 0x82, CHR 0xD1, CHR 0x96, CHR 0xD1, CHR 0x82, CHR 0xD1, CHR 0x8C] @ '' signal2sip-gendb ('' @ [CHR 0xD0, CHR 0xB2, CHR 0xD1, CHR 0x96, CHR 0xD0, CHR 0xBD, CHR '' '', CHR 0xD1, CHR 0x96, CHR 0xD0, CHR 0xBD, CHR 0xD1, CHR 0x96, CHR 0xD1, CHR 0x86, CHR 0xD1, CHR 0x96, CHR 0xD0, CHR 0xB0, CHR 0xD0, CHR 0xBB, CHR 0xD1, CHR 0x96, CHR 0xD0, CHR 0xB7, CHR 0xD1, CHR 0x83, CHR 0xD1, CHR 0x94] @ '' [global] '' @ [CHR 0xD0, CHR 0xBD, CHR 0xD0, CHR 0xB0, CHR '' '', CHR 0xD1, CHR 0x87, CHR 0xD0, CHR 0xB8, CHR 0xD1, CHR 0x81, CHR 0xD1, CHR 0x82, CHR 0xD1, CHR 0x96, CHR 0xD0, CHR 0xB9, CHR '' '', CHR 0xD1, CHR 0x83, CHR 0xD1, CHR 0x81, CHR 0xD1, CHR 0x82, CHR 0xD0, CHR 0xB0, CHR 0xD0, CHR 0xBD, CHR 0xD0, CHR 0xBE, CHR 0xD0, CHR 0xB2, CHR 0xD1, CHR 0x86, CHR 0xD1, CHR 0x96, CHR '')'', CHR ''.'', CHR 10],
      [CHR '' '', CHR 0xD0, CHR 0xBD, CHR 0xD0, CHR 0xB5, CHR '' '', CHR 0xD1, CHR 0x81, CHR 0xD0, CHR 0xBE, CHR 0xD0, CHR 0xB4, CHR 0xD0, CHR 0xB5, CHR 0xD1, CHR 0x80, CHR 0xD0, CHR 0xB6, CHR 0xD0, CHR 0xB8, CHR 0xD1, CHR 0x82, CHR '' '', CHR 0xD0, CHR 0xBF, CHR 0xD1, CHR 0x80, CHR 0xD0, CHR 0xB8, CHR 0xD0, CHR 0xB3, CHR 0xD0, CHR 0xBE, CHR 0xD0, CHR 0xB4, CHR 0xD0, CHR 0xBD, CHR 0xD1, CHR 0x8B, CHR 0xD1, CHR 0x85] @ '' [global] db_path/db_key - '' @ [CHR 0xD1, CHR 0x81, CHR 0xD0, CHR 0xBD, CHR 0xD0, CHR 0xB0, CHR 0xD1, CHR 0x87, CHR 0xD0, CHR 0xB0, CHR 0xD0, CHR 0xBB, CHR 0xD0, CHR 0xB0, CHR '' '', CHR 0xD0, CHR 0xBE, CHR 0xD0, CHR 0xB4, CHR 0xD0, CHR 0xB8, CHR 0xD0, CHR 0xBD, CHR '' '', CHR 0xD1, CHR 0x80, CHR 0xD0, CHR 0xB0, CHR 0xD0, CHR 0xB7, CHR '' '', CHR 0xD0, CHR 0xB7, CHR 0xD0, CHR 0xB0, CHR 0xD0, CHR 0xBF, CHR 0xD1, CHR 0x83, CHR 0xD1, CHR 0x81, CHR 0xD1, CHR 0x82, CHR 0xD0, CHR 0xB8, CHR 0xD1, CHR 0x82, CHR 0xD0, CHR 0xB5] @ '' signal2sip-gendb ('' @ [CHR 0xD0, CHR 0xBE, CHR 0xD0, CHR 0xBD, CHR '' '', CHR 0xD0, CHR 0xB8, CHR 0xD0, CHR 0xBD, CHR 0xD0, CHR 0xB8, CHR 0xD1, CHR 0x86, CHR 0xD0, CHR 0xB8, CHR 0xD0, CHR 0xB0, CHR 0xD0, CHR 0xBB, CHR 0xD0, CHR 0xB8, CHR 0xD0, CHR 0xB7, CHR 0xD0, CHR 0xB8, CHR 0xD1, CHR 0x80, CHR 0xD1, CHR 0x83, CHR 0xD0, CHR 0xB5, CHR 0xD1, CHR 0x82] @ '' [global] '' @ [CHR 0xD0, CHR 0xBD, CHR 0xD0, CHR 0xB0, CHR '' '', CHR 0xD1, CHR 0x87, CHR 0xD0, CHR 0xB8, CHR 0xD1, CHR 0x81, CHR 0xD1, CHR 0x82, CHR 0xD0, CHR 0xBE, CHR 0xD0, CHR 0xB9, CHR '' '', CHR 0xD1, CHR 0x83, CHR 0xD1, CHR 0x81, CHR 0xD1, CHR 0x82, CHR 0xD0, CHR 0xB0, CHR 0xD0, CHR 0xBD, CHR 0xD0, CHR 0xBE, CHR 0xD0, CHR 0xB2, CHR 0xD0, CHR 0xBA, CHR 0xD0, CHR 0xB5, CHR '')'', CHR ''.'', CHR 10],
      '' nie zawiera u'' @ [CHR 0xC5, CHR 0xBC] @ ''ytecznych [global] db_path/db_key - najpierw uruchom raz signal2sip-gendb (inicjuje [global] przy czystej instalacji).'' @ [CHR 10],
      '' enth'' @ [CHR 0xC3, CHR 0xA4] @ ''lt kein nutzbares [global] db_path/db_key - f'' @ [CHR 0xC3, CHR 0xBC] @ ''hren Sie zuerst einmal signal2sip-gendb aus (es initialisiert [global] bei einer sauberen Installation).'' @ [CHR 10],
      '' ne contient pas de [global] db_path/db_key utilisable - lancez d'' @ [CHR 0x27] @ ''abord signal2sip-gendb une fois (il initialise [global] sur une installation vierge).'' @ [CHR 10],
      '' non contiene un [global] db_path/db_key utilizzabile - esegui prima signal2sip-gendb una volta (inizializza [global] su un'' @ [CHR 0x27] @ ''installazione pulita).'' @ [CHR 10],
      '' no tiene un [global] db_path/db_key utilizable - ejecute primero signal2sip-gendb una vez (inicializa [global] en una instalaci'' @ [CHR 0xC3, CHR 0xB3] @ ''n limpia).'' @ [CHR 10],
      [CHR '' '', CHR ''n'', CHR 0xC3, CHR 0xA3] @ ''o tem um [global] db_path/db_key utiliz'' @ [CHR 0xC3, CHR 0xA1] @ ''vel - execute o signal2sip-gendb uma vez primeiro (ele inicializa o [global] numa instala'' @ [CHR 0xC3, CHR 0xA7, CHR 0xC3, CHR 0xA3] @ ''o limpa).'' @ [CHR 10]])]"

definition texts_table :: "(Key \<times> string list) list" where
  "texts_table = texts_list @ texts_status @ texts_detail @ texts_titles @ texts_bodies @ texts_confirm @ texts_checks @ texts_config @ texts_wizard @ texts_register @ texts_captcha @ texts_link"

lemmas texts_table_defs = texts_table_def texts_list_def texts_status_def texts_detail_def texts_titles_def texts_bodies_def texts_confirm_def texts_checks_def texts_config_def
  texts_wizard_def texts_register_def texts_captcha_def texts_link_def

fun lang_index :: "Lang \<Rightarrow> nat" where
  "lang_index EN = 0" | "lang_index UK = 1" | "lang_index RU = 2" | "lang_index PL = 3" | "lang_index DE = 4" | "lang_index FR = 5" | "lang_index IT = 6"
| "lang_index ES = 7" | "lang_index PT = 8"

fun key_index :: "Key list \<Rightarrow> Key \<Rightarrow> nat" where
  "key_index [] k = 0"
| "key_index (x # xs) k = (if x = k then 0 else Suc (key_index xs k))"

definition tr_of :: "Lang \<Rightarrow> texts" where
  "tr_of lang k = snd (texts_table ! key_index keys k) ! lang_index lang"

section \<open>The table fits the keys\<close>

lemma rows_named: "map fst texts_table = keys"
  by (simp add: texts_table_defs keys_def)

lemma rows_full: "list_all (\<lambda>r. length (snd r) = 9) texts_table"
  by (simp add: texts_table_defs)

text \<open>The texts with a place for a name or an exit code, and what is asked of all texts.\<close>

definition filled :: "Key list" where
  "filled = [''ActionEnableTitle'', ''ActionDisableTitle'', ''ActionDeactivateTitle'', ''ActionDeleteTitle'', ''ResultError'', ''ResultErrorCancelled'']"

definition one_place :: "string \<Rightarrow> bool" where
  "one_place s = (case find_str ''{}'' s of None \<Rightarrow> False | Some p \<Rightarrow> CHR ''{'' \<notin> set (take p s) \<and> CHR ''{'' \<notin> set (drop (p + 2) s))"

definition text_ok :: "Key \<Rightarrow> string \<Rightarrow> bool" where
  "text_ok k s \<longleftrightarrow> s \<noteq> [] \<and> (if k \<in> set filled then one_place s else CHR ''{'' \<notin> set s)"

abbreviation rows_ok :: "(Key \<times> string list) list \<Rightarrow> bool" where
  "rows_ok \<equiv> list_all (\<lambda>r. list_all (text_ok (fst r)) (snd r))"

lemma rows_ok_table: "rows_ok texts_list" "rows_ok texts_status" "rows_ok texts_detail" "rows_ok texts_titles" "rows_ok texts_bodies" "rows_ok texts_confirm"
  "rows_ok texts_checks" "rows_ok texts_config" "rows_ok texts_wizard" "rows_ok texts_register" "rows_ok texts_captcha" "rows_ok texts_link"
  by code_simp+

lemma rows_ok_all: "rows_ok texts_table"
  by (simp only: texts_table_def list_all_append rows_ok_table simp_thms)

lemma key_index_nth: "k \<in> set ks \<Longrightarrow> key_index ks k < length ks \<and> ks ! key_index ks k = k"
  by (induction ks) auto

lemma lang_index_less: "lang_index l < 9"
  by (cases l) simp_all

lemma tr_of_row:
  assumes "k \<in> set keys"
  obtains ts where "(k, ts) \<in> set texts_table" "length ts = 9" "tr_of l k = ts ! lang_index l"
proof -
  from key_index_nth [OF assms] have i: "key_index keys k < length texts_table" "fst (texts_table ! key_index keys k) = k"
    by (metis length_map rows_named, metis length_map nth_map rows_named)
  then have "(k, snd (texts_table ! key_index keys k)) \<in> set texts_table" by (metis nth_mem prod.collapse)
  moreover from this rows_full have "length (snd (texts_table ! key_index keys k)) = 9" by (auto simp: list_all_iff)
  ultimately show ?thesis using that by (simp add: tr_of_def)
qed

lemma tr_of_ok:
  assumes "k \<in> set keys"
  shows "text_ok k (tr_of l k)"
proof -
  obtain ts where "(k, ts) \<in> set texts_table" "length ts = 9" "tr_of l k = ts ! lang_index l" using assms by (rule tr_of_row)
  with rows_ok_all lang_index_less [of l] show ?thesis by (fastforce simp: list_all_iff)
qed

lemma format1_fills:
  assumes "k \<in> set filled"
  obtains a b where "CHR ''{'' \<notin> set (a @ b)" "\<And>arg. format1 (tr_of l) k arg = a @ arg @ b"
proof -
  have "k \<in> set keys" using assms by (auto simp: filled_def keys_def)
  from tr_of_ok [OF this] assms have "one_place (tr_of l k)" by (simp add: text_ok_def)
  then obtain p where "find_str ''{}'' (tr_of l k) = Some p" "CHR ''{'' \<notin> set (take p (tr_of l k))" "CHR ''{'' \<notin> set (drop (p + 2) (tr_of l k))"
    by (auto simp: one_place_def split: option.splits)
  then show ?thesis by (intro that [of "take p (tr_of l k)" "drop (p + 2) (tr_of l k)"]) (auto simp: format1_def)
qed

section \<open>What the screens show of it\<close>

text \<open>
  Every key has its own row, in the order the enumeration declares them and under the key's own name, and a text in each of the nine languages: neither index of the table is out
  of range, no text is empty, and only the six texts that are filled in have a place for it.
\<close>

theorem every_text_present:
  assumes "k \<in> set keys"
  shows "key_index keys k < length texts_table \<and> fst (texts_table ! key_index keys k) = k \<and> lang_index l < length (snd (texts_table ! key_index keys k)) \<and>
    tr_of l k \<noteq> [] \<and> (k \<notin> set filled \<longrightarrow> CHR ''{'' \<notin> set (tr_of l k))"
proof -
  from key_index_nth [OF assms] have i: "key_index keys k < length texts_table" "fst (texts_table ! key_index keys k) = k"
    by (metis length_map rows_named, metis length_map nth_map rows_named)
  then have "length (snd (texts_table ! key_index keys k)) = 9" using rows_full nth_mem by (fastforce simp: list_all_iff)
  with i tr_of_ok [OF assms, of l] lang_index_less [of l] show ?thesis by (simp add: text_ok_def split: if_splits)
qed

theorem every_text_present_witness:
  "tr_of UK ''StartupNoDbConfig'' \<noteq> [] \<and> CHR ''{'' \<notin> set (tr_of UK ''StartupNoDbConfig'')"
proof -
  have "''StartupNoDbConfig'' \<in> set keys" "''StartupNoDbConfig'' \<notin> set filled" by (simp_all add: keys_def filled_def)
  with every_text_present show ?thesis by blast
qed

lemma actionTitle_names:
  assumes "p \<noteq> No_action"
  shows "\<exists>a b. CHR ''{'' \<notin> set (a @ b) \<and> (\<forall>name. actionTitle (tr_of l) name p = a @ name @ b)"
proof -
  have "\<exists>k \<in> set filled. \<forall>name. actionTitle (tr_of l) name p = format1 (tr_of l) k name"
    using assms by (cases p) (simp_all add: actionTitle_def filled_def)
  then obtain k where "k \<in> set filled" "\<forall>name. actionTitle (tr_of l) name p = format1 (tr_of l) k name" by blast
  with format1_fills [of k l] show ?thesis by metis
qed

text \<open>
  Whatever the language, the dialog before an action has the name of the account in its heading, with a text around it that does not depend on the name, and the line under a run
  that failed, in the dialog and at the end of a linking, has the exit code of the run.
\<close>

theorem confirm_names_account:
  assumes "tui_reachable t w u" "tu_screenIndex u = 2"
  shows "\<exists>a b k. CHR ''{'' \<notin> set (a @ b) \<and>
    (\<forall>name. bgcol kBgAlt (col k (Txt (a @ name @ b))) \<in> parts (renderConfirm (tr_of l) out (u\<lparr>tu_detailName := name\<rparr>)))"
proof (cases "tu_lastResult u")
  case None
  have "tu_pending u \<noteq> No_action" using terminal.reachable_inv [OF assms(1)] assms(2) by (simp add: tui_inv_def)
  then obtain a b where ab: "CHR ''{'' \<notin> set (a @ b)" "\<And>name. actionTitle (tr_of l) name (tu_pending u) = a @ name @ b"
    using actionTitle_names by metis
  then have "bgcol kBgAlt (col (if tu_pending u = DeleteAccount then kBad else kAccent) (Txt (('' '' @ a) @ name @ b)))
      \<in> parts (renderConfirm (tr_of l) out (u\<lparr>tu_detailName := name\<rparr>))" for name
    by (simp add: renderConfirm_def Let_def None)
  then show ?thesis using ab(1) by (intro exI [of _ "'' '' @ a"] exI [of _ b]) auto
next
  case (Some code)
  let ?a = "'' '' @ tr_of l ''ConfirmAccountLabel''"
  have "''ConfirmAccountLabel'' \<in> set keys" "''ConfirmAccountLabel'' \<notin> set filled" by (simp_all add: keys_def filled_def)
  then have "CHR ''{'' \<notin> set ?a" using tr_of_ok [of "''ConfirmAccountLabel''" l] by (simp add: text_ok_def)
  moreover have "bgcol kBgAlt (col (if tu_pending u = DeleteAccount then kBad else kAccent) (Txt (?a @ name @ [])))
      \<in> parts (renderConfirm (tr_of l) out (u\<lparr>tu_detailName := name\<rparr>))" for name
    by (simp add: renderConfirm_def Let_def Some)
  ultimately show ?thesis by (intro exI [of _ ?a] exI [of _ "[]"]) auto
qed

theorem failure_shows_code:
  "\<exists>a b c d. CHR ''{'' \<notin> set (a @ b @ c @ d) \<and>
    (\<forall>code. code \<noteq> 0 \<longrightarrow>
      col kBad (Txt (a @ int_to_string code @ b)) \<in> parts (renderConfirm (tr_of l) out (u\<lparr>tu_lastResult := Some code\<rparr>)) \<and>
      col kBad (Txt (c @ int_to_string code @ d)) \<in> parts (renderWizard (tr_of l) out (u\<lparr>tu_wizardStep := LinkResult, tu_wizResult := Some code\<rparr>)))"
proof -
  obtain a b where ab: "CHR ''{'' \<notin> set (a @ b)" "\<And>arg. format1 (tr_of l) ''ResultError'' arg = a @ arg @ b"
    using format1_fills [of "''ResultError''" l] by (auto simp: filled_def)
  obtain c d where cd: "CHR ''{'' \<notin> set (c @ d)" "\<And>arg. format1 (tr_of l) ''ResultErrorCancelled'' arg = c @ arg @ d"
    using format1_fills [of "''ResultErrorCancelled''" l] by (auto simp: filled_def)
  have "col kBad (Txt (a @ int_to_string code @ b)) \<in> parts (renderConfirm (tr_of l) out (u\<lparr>tu_lastResult := Some code\<rparr>))" if "code \<noteq> 0" for code
    using that by (simp add: renderConfirm_def Let_def result_line_def ab(2))
  moreover have "col kBad (Txt (c @ int_to_string code @ d)) \<in> parts (renderWizard (tr_of l) out (u\<lparr>tu_wizardStep := LinkResult, tu_wizResult := Some code\<rparr>))"
    if "code \<noteq> 0" for code
    using that by (simp add: renderWizard_def wizard_parts_def panel_def result_line_def cd(2))
  ultimately show ?thesis using ab(1) cd(1) by (intro exI [of _ a] exI [of _ b] exI [of _ c] exI [of _ d]) auto
qed

theorem failure_shows_code_witness:
  "\<exists>a b. col kBad (Txt (a @ ''127'' @ b)) \<in> parts (renderConfirm (tr_of DE) \<lparr>to_confirm = [], to_config = [], to_signal = [], to_wizard = [], to_link = []\<rparr>
     (deletion_dialog\<lparr>tu_lastResult := Some 127\<rparr>))"
proof -
  have "int_to_string 127 = ''127''" by code_simp
  with failure_shows_code [of DE "\<lparr>to_confirm = [], to_config = [], to_signal = [], to_wizard = [], to_link = []\<rparr>" deletion_dialog] show ?thesis
    by (metis zero_neq_numeral)
qed

text \<open>A dialog that is reached: the account's screen is left for the editor, the editor for the account's screen, and there the key for a deletion is pressed.\<close>

theorem confirm_names_account_witness:
  "\<exists>u a b k. tu_screenIndex u = 2 \<and> tu_pending u = DeleteAccount \<and> bgcol kBgAlt (col k (Txt (a @ ''a'' @ b)))
     \<in> parts (renderConfirm (tr_of FR) \<lparr>to_confirm = [], to_config = [], to_signal = [], to_wizard = [], to_link = []\<rparr> (u\<lparr>tu_detailName := ''a''\<rparr>))"
proof -
  obtain v where v: "tui_reachable sample_tui tui_world (editing v)" using editing_reachable by blast
  let ?u1 = "(editing v)\<lparr>tu_screenIndex := 1\<rparr>" and ?u2 = "openConfirm DeleteAccount ((editing v)\<lparr>tu_screenIndex := 1\<rparr>)"
  have s: "tu_screenIndex (editing v) = 3" "\<not> tu_configSaveDone (editing v)" "\<not> tu_quit (editing v)"
    by (simp_all add: editing_def openConfig_def tui_blank_def)
  have "tui_event sample_tui Escape (editing v) = Inr ?u1" by (simp add: tui_event_def config_event_def s)
  moreover have "tui_event sample_tui (Character ''x'') ?u1 = Inr ?u2" by (simp add: tui_event_def detail_event_def)
  ultimately have "tui_step sample_tui (editing v) ?u1" "tui_step sample_tui ?u1 ?u2" using s(3) by (auto intro!: tui_step.key)
  with v have "tui_reachable sample_tui tui_world ?u2" by (blast intro: reach_step)
  moreover have "tu_screenIndex ?u2 = 2" "tu_pending ?u2 = DeleteAccount" by (simp_all add: openConfirm_def)
  ultimately show ?thesis using confirm_names_account by blast
qed

end
