(* ===== verification/Handles.thy ===== *)
theory Handles
  imports Resolver "HOL-Library.Multiset"
begin

text \<open>
  The handles of libsignal that the clients own: \<open>cdsiLookup\<close> of \<open>signal/Cdsi.cpp\<close> call by call, and the constructors and destructors of the \<open>Impl\<close> classes of
  \<open>signal/AuthSocket.cpp\<close>, \<open>gendb/ProvisioningClient.cpp\<close> and \<open>gendb/RegistrationServiceClient.cpp\<close>. The state is the handles that are alive and the
  calls made; what libsignal answers is a parameter. A wait for a promise is one step, the promise completes once.
\<close>

section \<open>Calls\<close>

datatype handle = Async_context | String_map | Connection_manager | Lookup_request | Cdsi_lookup | Response_entries | Registration_service | Chat_connection

datatype ffi_call = New handle | Destroy handle | Add_e164 string | Lookup_new string string | Lookup_complete | Free_entries | Create_or_resume | Disconnect

record ffi =
  ff_live :: "handle multiset"
  ff_calls :: "ffi_call list"

text \<open>The error the n-th call returns, the error its promise is completed with, and the response of a lookup (none when the pointer is null).\<close>

record ffi_lib =
  fl_call :: "nat \<Rightarrow> ffi_call \<Rightarrow> ffi_error option"
  fl_promise :: "nat \<Rightarrow> ffi_error option"
  fl_response :: "nat \<Rightarrow> cdsi_entry list option"

definition ffi_do :: "ffi_lib \<Rightarrow> ffi_call \<Rightarrow> (handle multiset \<Rightarrow> handle multiset) \<Rightarrow> (ffi, unit) effect" where
  "ffi_do l c upd s = (let s1 = s\<lparr>ff_calls := ff_calls s @ [c]\<rparr> in
     case checkError (fl_call l (length (ff_calls s)) c) of Inl e \<Rightarrow> (Inl e, s1) | Inr _ \<Rightarrow> (Inr (), s1\<lparr>ff_live := upd (ff_live s1)\<rparr>))"

definition new_handle :: "ffi_lib \<Rightarrow> handle \<Rightarrow> (ffi, unit) effect" where
  "new_handle l h = ffi_do l (New h) (add_mset h)"

definition destroy_handle :: "ffi_lib \<Rightarrow> handle \<Rightarrow> (ffi, unit) effect" where
  "destroy_handle l h = ffi_do l (Destroy h) (\<lambda>m. m - {#h#})"

text \<open>An asynchronous call, then the wait for its promise; a success hands over what the call is for.\<close>

definition ffi_await :: "ffi_lib \<Rightarrow> ffi_call \<Rightarrow> (nat \<Rightarrow> handle multiset \<Rightarrow> handle multiset) \<Rightarrow> (ffi, nat) effect" where
  "ffi_await l c upd = (\<lambda>s. bindS (ffi_do l c (\<lambda>m. m)) (\<lambda>_.
     case checkError (fl_promise l (length (ff_calls s))) of Inl e \<Rightarrow> throwS e
     | Inr _ \<Rightarrow> (\<lambda>s1. (Inr (length (ff_calls s)), s1\<lparr>ff_live := upd (length (ff_calls s)) (ff_live s1)\<rparr>))) s)"

definition makeConnectionManager :: "ffi_lib \<Rightarrow> (ffi, unit) effect" where
  "makeConnectionManager l = bindS (new_handle l String_map) (\<lambda>_. bindS (new_handle l Connection_manager) (\<lambda>_. destroy_handle l String_map))"

section \<open>A lookup\<close>

fun add_numbers :: "ffi_lib \<Rightarrow> string list \<Rightarrow> (ffi, unit) effect" where
  "add_numbers l [] = returnS ()"
| "add_numbers l (n # ns) = bindS (ffi_do l (Add_e164 n) (\<lambda>m. m)) (\<lambda>_. add_numbers l ns)"

definition awaitLookupHandle :: "ffi_lib \<Rightarrow> string \<Rightarrow> string \<Rightarrow> (ffi, nat) effect" where
  "awaitLookupHandle l username password = ffi_await l (Lookup_new username password) (\<lambda>_. add_mset Cdsi_lookup)"

definition awaitLookupResponse :: "ffi_lib \<Rightarrow> (ffi, CdsiLookupResult list) effect" where
  "awaitLookupResponse l = bindS (ffi_await l Lookup_complete (\<lambda>n. if fl_response l n = None then (\<lambda>m. m) else add_mset Response_entries)) (\<lambda>n s.
     (case fl_response l n of None \<Rightarrow> (Inr [], s)
      | Some _ \<Rightarrow> (Inr (lookup_results (fl_response l n)), s\<lparr>ff_live := ff_live s - {#Response_entries#}, ff_calls := ff_calls s @ [Free_entries]\<rparr>)))"

definition cdsi_lookup :: "ffi_lib \<Rightarrow> string \<Rightarrow> string \<Rightarrow> string list \<Rightarrow> (ffi, CdsiLookupResult list) effect" where
  "cdsi_lookup l username password e164s =
     bindS (new_handle l Async_context) (\<lambda>_.
     bindS (makeConnectionManager l) (\<lambda>_.
     bindS (new_handle l Lookup_request) (\<lambda>_.
     bindS (add_numbers l e164s) (\<lambda>_.
     bindS (awaitLookupHandle l username password) (\<lambda>_.
     bindS (destroy_handle l Lookup_request) (\<lambda>_.
     bindS (awaitLookupResponse l) (\<lambda>results.
     bindS (destroy_handle l Cdsi_lookup) (\<lambda>_.
     bindS (destroy_handle l Connection_manager) (\<lambda>_.
     bindS (destroy_handle l Async_context) (\<lambda>_.
       returnS results))))))))))"

section \<open>Clients\<close>

text \<open>A constructor; \<open>last\<close> is what it does after the connection manager (the proxy of the chat socket, the key pair of the provisioning client, nothing).\<close>

definition client_new :: "ffi_lib \<Rightarrow> unit result \<Rightarrow> (ffi, unit) effect" where
  "client_new l final = bindS (new_handle l Async_context) (\<lambda>_. bindS (makeConnectionManager l) (\<lambda>_. liftR (\<lambda>_. final)))"

text \<open>Errors in a destructor are freed and forgotten.\<close>

definition ignoring :: "(ffi, 'a) effect \<Rightarrow> (ffi, unit) effect" where
  "ignoring m s = (Inr (), snd (m s))"

definition disconnect_and_destroy :: "ffi_lib \<Rightarrow> (ffi, unit) effect" where
  "disconnect_and_destroy l = (\<lambda>s. if Chat_connection \<notin># ff_live s then (Inr (), s)
     else bindS (ignoring (ffi_await l Disconnect (\<lambda>_ m. m))) (\<lambda>_. ignoring (destroy_handle l Chat_connection)) s)"

definition chat_client_delete :: "ffi_lib \<Rightarrow> (ffi, unit) effect" where
  "chat_client_delete l = bindS (disconnect_and_destroy l) (\<lambda>_. bindS (ignoring (destroy_handle l Connection_manager)) (\<lambda>_. ignoring (destroy_handle l Async_context)))"

definition provisioning_client_delete :: "ffi_lib \<Rightarrow> (ffi, unit) effect" where
  "provisioning_client_delete l = bindS (\<lambda>s. if Chat_connection \<in># ff_live s
       then bindS (ignoring (ffi_await l Disconnect (\<lambda>_ m. m))) (\<lambda>_. ignoring (destroy_handle l Chat_connection)) s else (Inr (), s)) (\<lambda>_.
     bindS (ignoring (destroy_handle l Connection_manager)) (\<lambda>_. ignoring (destroy_handle l Async_context)))"

definition registration_client_delete :: "ffi_lib \<Rightarrow> (ffi, unit) effect" where
  "registration_client_delete l = bindS (\<lambda>s. if Registration_service \<in># ff_live s then ignoring (destroy_handle l Registration_service) s else (Inr (), s)) (\<lambda>_.
     bindS (ignoring (destroy_handle l Connection_manager)) (\<lambda>_. ignoring (destroy_handle l Async_context)))"

definition runCreateOrResume :: "ffi_lib \<Rightarrow> (ffi, unit) effect" where
  "runCreateOrResume l = bindS (ffi_await l Create_or_resume (\<lambda>_. add_mset Registration_service)) (\<lambda>_. returnS ())"

section \<open>What a lookup leaves\<close>

lemma bindS_run:
  assumes "bindS m f s = (Inr x, s'')"
  obtains y s' where "m s = (Inr y, s')" "f y s' = (Inr x, s'')"
  using assms by (auto elim!: bindS_cases)

lemma ffi_do_run: "ffi_do l c upd s = (Inr u, s') \<longleftrightarrow> fl_call l (length (ff_calls s)) c = None \<and> s' = s\<lparr>ff_calls := ff_calls s @ [c], ff_live := upd (ff_live s)\<rparr>"
  by (auto simp: ffi_do_def checkError_def Let_def split: option.splits)

lemma ffi_await_run: "ffi_await l c upd s = (Inr n, s') \<longleftrightarrow> n = length (ff_calls s) \<and> fl_call l n c = None \<and> fl_promise l n = None \<and>
    s' = s\<lparr>ff_calls := ff_calls s @ [c], ff_live := upd n (ff_live s)\<rparr>"
  by (auto simp: ffi_await_def bindS_def ffi_do_def checkError_def throwS_def Let_def split: option.splits)

lemma manager_run: "makeConnectionManager l s = (Inr u, s') \<Longrightarrow>
    s' = s\<lparr>ff_calls := ff_calls s @ [New String_map, New Connection_manager, Destroy String_map], ff_live := add_mset Connection_manager (ff_live s)\<rparr>"
  unfolding makeConnectionManager_def by (auto simp: new_handle_def destroy_handle_def ffi_do_run elim!: bindS_cases)

lemma numbers_run: "add_numbers l ns s = (Inr u, s') \<Longrightarrow> s' = s\<lparr>ff_calls := ff_calls s @ map Add_e164 ns\<rparr>"
proof (induction ns arbitrary: s)
  case (Cons n ns)
  then obtain s1 where "s1 = s\<lparr>ff_calls := ff_calls s @ [Add_e164 n]\<rparr>" "add_numbers l ns s1 = (Inr u, s')"
    by (auto simp: ffi_do_run elim!: bindS_cases)
  then show ?case using Cons.IH [of s1] by simp
qed (simp add: returnS_def)

lemma response_run: "awaitLookupResponse l s = (Inr results, s') \<Longrightarrow> \<exists>n. n = length (ff_calls s) \<and> results = lookup_results (fl_response l n) \<and>
    s' = s\<lparr>ff_calls := ff_calls s @ Lookup_complete # (if fl_response l n = None then [] else [Free_entries])\<rparr>"
  unfolding awaitLookupResponse_def by (auto simp: ffi_await_run lookup_results_def elim!: bindS_cases split: option.splits)

text \<open>
  A lookup that succeeds asks for the numbers it was given, in their order, before it contacts the enclave, returns the entries of the response one by one with their
  identifiers in text, and has released every handle it made.
\<close>

theorem lookup_exact:
  assumes "cdsi_lookup l username password ns s = (Inr results, s')"
  shows "results = lookup_results (fl_response l (length (ff_calls s) + length ns + 7)) \<and> ff_live s' = ff_live s \<and>
    ff_calls s' = ff_calls s @ [New Async_context, New String_map, New Connection_manager, Destroy String_map, New Lookup_request] @ map Add_e164 ns @
      [Lookup_new username password, Destroy Lookup_request, Lookup_complete] @ (if fl_response l (length (ff_calls s) + length ns + 7) = None then [] else [Free_entries]) @
      [Destroy Cdsi_lookup, Destroy Connection_manager, Destroy Async_context]"
  using assms unfolding cdsi_lookup_def awaitLookupHandle_def
  by (elim bindS_run, unfold new_handle_def destroy_handle_def ffi_do_run ffi_await_run returnS_def)
     (auto simp: eval_nat_numeral dest!: manager_run numbers_run response_run)

lemma all_calls_ok:
  assumes "\<forall>n c. fl_call l n c = None"
  shows "ffi_do l c upd s = (Inr (), s\<lparr>ff_calls := ff_calls s @ [c], ff_live := upd (ff_live s)\<rparr>)"
  using assms by (simp add: ffi_do_def checkError_def Let_def)

lemma numbers_ok: "\<forall>n c. fl_call l n c = None \<Longrightarrow> add_numbers l ns s = (Inr (), s\<lparr>ff_calls := ff_calls s @ map Add_e164 ns\<rparr>)"
  by (induction ns arbitrary: s) (simp_all add: all_calls_ok returnS_def)

text \<open>
  C39: A lookup that fails on the network (the enclave refuses the connection, limits the rate, or the answer does not come) keeps its runtime with its threads, its connection
  manager and the request or the lookup: nothing owns the handles while \<open>checkError\<close> throws, so every failed resolution of a number loses them for good.
\<close>

theorem failed_lookup_leaks:
  assumes "\<forall>n c. fl_call l n c = None" "cdsi_lookup l username password ns s = (Inl e, s')"
  shows "ff_live s' = ff_live s + {#Async_context, Connection_manager, Lookup_request#} \<or>
    ff_live s' = ff_live s + {#Async_context, Connection_manager, Cdsi_lookup#}"
proof -
  note ok = all_calls_ok [OF assms(1)] numbers_ok [OF assms(1)]
  show ?thesis
    using assms(2) unfolding cdsi_lookup_def awaitLookupHandle_def awaitLookupResponse_def makeConnectionManager_def new_handle_def destroy_handle_def ffi_await_def
    by (auto simp: bindS_def ok returnS_def throwS_def checkError_def split: option.splits if_splits)
qed

section \<open>What a client leaves\<close>

lemma manager_ok: "\<forall>n c. fl_call l n c = None \<Longrightarrow> \<exists>calls. makeConnectionManager l s = (Inr (), s\<lparr>ff_calls := calls, ff_live := add_mset Connection_manager (ff_live s)\<rparr>)"
  by (simp add: makeConnectionManager_def new_handle_def destroy_handle_def bindS_def all_calls_ok) (rule exI, rule refl)

lemma ignoring_destroy: "\<forall>n c. fl_call l n c = None \<Longrightarrow> \<exists>calls. ignoring (destroy_handle l h) s = (Inr (), s\<lparr>ff_calls := calls, ff_live := ff_live s - {#h#}\<rparr>)"
  by (simp add: ignoring_def destroy_handle_def all_calls_ok) blast

lemma provisioning_delete_same: "provisioning_client_delete = chat_client_delete"
  by (intro ext) (simp add: provisioning_client_delete_def chat_client_delete_def disconnect_and_destroy_def bindS_def)

lemma ignored_calls:
  assumes "\<forall>n c. fl_call l n c = None"
  shows "snd (ignoring (destroy_handle l h) s) = s\<lparr>ff_calls := ff_calls s @ [Destroy h], ff_live := ff_live s - {#h#}\<rparr>" "fst (ignoring m s) = Inr ()"
    "snd (ignoring (ffi_await l c (\<lambda>_ m. m)) s) = s\<lparr>ff_calls := ff_calls s @ [c]\<rparr>"
  by (auto simp: ignoring_def destroy_handle_def ffi_await_def bindS_def all_calls_ok [OF assms] throwS_def split: sum.splits)

lemma chat_deleted:
  assumes "\<forall>n c. fl_call l n c = None"
  shows "ff_live (snd (chat_client_delete l t)) = (if Chat_connection \<in># ff_live t then ff_live t - {#Chat_connection#} else ff_live t) - {#Connection_manager#} - {#Async_context#}"
  by (simp add: chat_client_delete_def disconnect_and_destroy_def bindS_def ignored_calls [OF assms] split_def)

text \<open>
  Clients own what they make. A client of the registration service that has been made, has created or resumed a session at most once, and is deleted leaves the handles as they
  were, also when the session could not be created; so does a chat client that is deleted with or without its connection, whatever the server answers to the disconnection.
  A client whose constructor throws after its first calls is never deleted and keeps its runtime and its manager.
\<close>

theorem client_handles:
  assumes "\<forall>n c. fl_call l n c = None" "Registration_service \<notin># ff_live s" "Chat_connection \<notin># ff_live s" "client_new l final s = (r, s1)"
  shows "(r = Inr () \<longrightarrow> ff_live (snd (registration_client_delete l s1)) = ff_live s \<and>
      ff_live (snd (registration_client_delete l (snd (runCreateOrResume l s1)))) = ff_live s \<and>
      (\<forall>delete \<in> {chat_client_delete, provisioning_client_delete}. ff_live (snd (delete l s1)) = ff_live s \<and>
         ff_live (snd (delete l (s1\<lparr>ff_live := add_mset Chat_connection (ff_live s1)\<rparr>))) = ff_live s)) \<and>
    (r \<noteq> Inr () \<longrightarrow> ff_live s1 = ff_live s + {#Async_context, Connection_manager#})"
proof -
  note ok = all_calls_ok [OF assms(1)]
  obtain calls where s1: "s1 = s\<lparr>ff_calls := calls, ff_live := add_mset Connection_manager (add_mset Async_context (ff_live s))\<rparr>" "r = final"
    using assms(4) manager_ok [OF assms(1), of "s\<lparr>ff_calls := ff_calls s @ [New Async_context], ff_live := add_mset Async_context (ff_live s)\<rparr>"]
    by (auto simp: client_new_def new_handle_def bindS_def ok liftR_def)
  have del: "ff_live (snd (registration_client_delete l t)) = (if Registration_service \<in># ff_live t then ff_live t - {#Registration_service#} else ff_live t) - {#Connection_manager#} - {#Async_context#}" for t
    by (simp add: registration_client_delete_def ignoring_def destroy_handle_def ok bindS_def)
  have run: "ff_live (snd (runCreateOrResume l s1)) = ff_live s1 \<or> ff_live (snd (runCreateOrResume l s1)) = add_mset Registration_service (ff_live s1)"
    by (auto simp: runCreateOrResume_def ffi_await_def bindS_def ok returnS_def throwS_def checkError_def split: option.splits)
  show ?thesis using run assms(2,3) by (auto simp: del s1 provisioning_delete_same chat_deleted [OF assms(1)])
qed

section \<open>Runs\<close>

definition refusing :: ffi_lib where
  "refusing = \<lparr>fl_call = (\<lambda>_ _. None), fl_promise = (\<lambda>_. Some \<lparr>err_code = 0, err_message = ''rate limited''\<rparr>), fl_response = (\<lambda>_. None)\<rparr>"

definition one_entry :: "cdsi_entry list" where
  "one_entry = [(15550100, replicate 16 1, replicate 16 0)]"

definition answering :: ffi_lib where
  "answering = \<lparr>fl_call = (\<lambda>_ _. None), fl_promise = (\<lambda>_. None), fl_response = (\<lambda>_. Some one_entry)\<rparr>"

definition no_handles :: ffi where
  "no_handles = \<lparr>ff_live = {#}, ff_calls = []\<rparr>"

lemma refusing_simps [simp]: "fl_call refusing n c = None" "fl_promise refusing n = Some \<lparr>err_code = 0, err_message = ''rate limited''\<rparr>" "fl_response refusing n = None"
  by (simp_all add: refusing_def)

lemma answering_simps [simp]: "fl_call answering n c = None" "fl_promise answering n = None" "fl_response answering n = Some one_entry"
  by (simp_all add: answering_def)

lemma bindS_after: "m s = (Inr x, s1) \<Longrightarrow> bindS m f s = f x s1"
  by (simp add: bindS_def)

lemma calls_ok:
  assumes "\<forall>n c. fl_call l n c = None"
  shows "new_handle l h s = (Inr (), s\<lparr>ff_calls := ff_calls s @ [New h], ff_live := add_mset h (ff_live s)\<rparr>)"
    "destroy_handle l h s = (Inr (), s\<lparr>ff_calls := ff_calls s @ [Destroy h], ff_live := ff_live s - {#h#}\<rparr>)"
    "(\<forall>n. fl_promise l n = None) \<Longrightarrow> ffi_await l c upd s = (Inr (length (ff_calls s)), s\<lparr>ff_calls := ff_calls s @ [c], ff_live := upd (length (ff_calls s)) (ff_live s)\<rparr>)"
  using assms by (simp_all add: new_handle_def destroy_handle_def all_calls_ok ffi_await_def bindS_def checkError_def)

lemma response_ok:
  assumes "\<forall>n c. fl_call l n c = None" "\<forall>n. fl_promise l n = None" "\<forall>n. fl_response l n = Some es"
  shows "awaitLookupResponse l s = (Inr (lookup_results (Some es)), s\<lparr>ff_calls := ff_calls s @ [Lookup_complete, Free_entries]\<rparr>)"
  by (simp add: awaitLookupResponse_def bindS_def calls_ok [OF assms(1)] assms)

lemma lookup_answered:
  assumes "\<forall>n c. fl_call l n c = None" "\<forall>n. fl_promise l n = None" "\<forall>n. fl_response l n = Some es"
  shows "\<exists>results s'. cdsi_lookup l username password ns s = (Inr results, s')"
  unfolding cdsi_lookup_def makeConnectionManager_def awaitLookupHandle_def
  by (simp add: bindS_after calls_ok [OF assms(1)] assms(2) numbers_ok [OF assms(1)] response_ok [OF assms] returnS_def)

lemmas lookup_steps = awaitLookupHandle_def awaitLookupResponse_def makeConnectionManager_def new_handle_def destroy_handle_def ffi_await_def bindS_def returnS_def throwS_def
  checkError_def ffi_do_def Let_def

theorem lookup_exact_witness:
  "\<exists>results s'. cdsi_lookup answering ''u'' ''p'' [''+15550100''] no_handles = (Inr results, s') \<and> map l_e164 results = [''+15550100''] \<and> ff_live s' = {#}"
proof -
  obtain results s' where r: "cdsi_lookup answering ''u'' ''p'' [''+15550100''] no_handles = (Inr results, s')"
    using lookup_answered [of answering one_entry "''u''" "''p''" "[''+15550100'']" no_handles] by auto
  have "to_string 15550100 = ''15550100''" by (simp add: to_string.simps, code_simp)
  with lookup_exact [OF r] show ?thesis using r by (auto simp: lookup_results_def one_entry_def no_handles_def)
qed

theorem failed_lookup_leaks_witness:
  "\<exists>e s'. cdsi_lookup refusing ''u'' ''p'' [''+15550100''] no_handles = (Inl e, s') \<and> Async_context \<in># ff_live s'"
proof -
  have ok: "\<forall>n c. fl_call refusing n c = None" by simp
  obtain e s' where r: "cdsi_lookup refusing ''u'' ''p'' [''+15550100''] no_handles = (Inl e, s')"
    by (simp add: cdsi_lookup_def lookup_steps split: if_splits)
  from failed_lookup_leaks [OF ok r] show ?thesis using r by (auto simp: no_handles_def)
qed

theorem client_handles_witness:
  "ff_live (snd (registration_client_delete answering (snd (runCreateOrResume answering (snd (client_new answering (Inr ()) no_handles)))))) = {#} \<and>
   Async_context \<in># ff_live (snd (client_new answering (Inl Invalid_argument) no_handles))"
proof -
  have n: "Registration_service \<notin># ff_live no_handles" "Chat_connection \<notin># ff_live no_handles" by (simp_all add: no_handles_def)
  have f: "fst (client_new answering final no_handles) = final" for final
    by (simp add: client_new_def lookup_steps liftR_def)
  have c: "client_new answering final no_handles = (final, snd (client_new answering final no_handles))" for final
    using f by (metis prod.collapse)
  from client_handles [OF _ n(1,2) c [of "Inr ()"]] client_handles [OF _ n(1,2) c [of "Inl Invalid_argument"]] show ?thesis
    by (simp add: no_handles_def)
qed

end
