(* ===== verification/DaemonProcess.thy ===== *)
theory DaemonProcess
  imports Watchdogs GendbSafety
begin

text \<open>
  The daemon as a process: \<open>main\<close> of \<open>daemon/main.cpp\<close> from the arguments to the exit, its signal handlers, its pid file, and the transports it creates
  for the SIP accounts. The main thread, signals, runs of \<open>gendb\<close> and other writers of files interleave as steps; a pass of the
  main loop is one step (\<open>Watchdogs\<close>) and reads the files and the databases at one instant.
\<close>

section \<open>Transports\<close>

text \<open>What \<open>transportCreate\<close> is given; the versions of TLS are the bits of \<open>pj_ssl_sock_proto\<close> the code names.\<close>

datatype tls_version = TLS1_2 | TLS1_3

record transport_config =
  tc_tls :: bool
  tc_port :: nat
  tc_proto :: "tls_version list"
  tc_CaListFile :: string
  tc_verifyServer :: bool

definition createAccountUdpTransport :: "AccountConfig \<Rightarrow> transport_config" where
  "createAccountUdpTransport c = \<lparr>tc_tls = False, tc_port = 0, tc_proto = [], tc_CaListFile = [], tc_verifyServer = False\<rparr>"

definition createAccountTlsTransport :: "AccountConfig \<Rightarrow> transport_config" where
  "createAccountTlsTransport c = \<lparr>tc_tls = True, tc_port = 0, tc_proto = [TLS1_2, TLS1_3],
     tc_CaListFile = (if ac_sipTlsCaFile c \<noteq> [] then ac_sipTlsCaFile c else []), tc_verifyServer = (ac_sipTlsCaFile c \<noteq> [])\<rparr>"

text \<open>\<open>None\<close>: the transport is not created, for want of an endpoint or because PJSIP failed.\<close>

definition account_transport :: "(transport_config \<Rightarrow> int option) \<Rightarrow> AccountConfig \<Rightarrow> daemon \<Rightarrow> (transport_config \<times> int) option" where
  "account_transport pjsip c d = (if \<not> g_ep d then None
     else let tc = (if ac_sipTransport c = ''tls'' then createAccountTlsTransport c else createAccountUdpTransport c)
          in map_option (Pair tc) (pjsip tc))"

section \<open>The pid file\<close>

definition daemon_dirName :: "string \<Rightarrow> string" where
  "daemon_dirName path = (if CHR ''/'' \<notin> set path then ''.'' else rev (tl (dropWhile (\<lambda>c. c \<noteq> CHR ''/'') (rev path))))"

definition daemon_pidFilePath :: "GlobalConfig \<Rightarrow> string" where
  "daemon_pidFilePath g = daemon_dirName (dbPath g) @ ''/signal2sip.pid''"

definition pid_text :: "nat \<Rightarrow> string" where
  "pid_text pid = to_string pid @ [CHR 10]"

definition writePidFile :: "(string \<Rightarrow> bool) \<Rightarrow> nat \<Rightarrow> GlobalConfig \<Rightarrow> files \<Rightarrow> files" where
  "writePidFile writable pid g fs = (if writable (daemon_pidFilePath g) then fs(daemon_pidFilePath g \<mapsto> pid_text pid) else fs)"

text \<open>The \<open>unlink\<close> at the end of \<open>main\<close>, which may fail.\<close>

definition removePidFile :: "(string \<Rightarrow> bool) \<Rightarrow> GlobalConfig \<Rightarrow> files \<Rightarrow> files" where
  "removePidFile unlinks g fs = (if unlinks (daemon_pidFilePath g) then fs(daemon_pidFilePath g := None) else fs)"

section \<open>The process\<close>

datatype sig = SIGHUP | SIGINT | SIGTERM

text \<open>Where \<open>main\<close> is; \<open>Aborted\<close> is an exception that leaves \<open>setupAccount\<close> or a null queue state.\<close>

datatype phase = Launching | Installing "sig list" | Loading | Writing_pid "AccountConfig list" | Setting_up "AccountConfig list" | Looping | Tearing_down
  | Exit_code nat | Killed sig | Aborted

record process =
  ps_pid :: nat
  ps_phase :: phase
  ps_handlers :: "sig list"
  ps_running :: bool
  ps_reloadRequested :: bool
  ps_configPath :: string
  ps_loop :: main_loop
  ps_files :: files
  ps_disk :: disk

abbreviation the_daemon :: "process \<Rightarrow> daemon" where
  "the_daemon p \<equiv> ml_daemon (ps_loop p)"

definition with_daemon :: "daemon \<Rightarrow> process \<Rightarrow> process" where
  "with_daemon d p = p\<lparr>ps_loop := (ps_loop p)\<lparr>ml_daemon := d\<rparr>\<rparr>"

definition ended :: "process \<Rightarrow> bool" where
  "ended p \<longleftrightarrow> (case ps_phase p of Exit_code _ \<Rightarrow> True | Killed _ \<Rightarrow> True | Aborted \<Rightarrow> True | _ \<Rightarrow> False)"

definition onSignal :: "process \<Rightarrow> process" where
  "onSignal p = p\<lparr>ps_running := False\<rparr>"

definition onReloadSignal :: "process \<Rightarrow> process" where
  "onReloadSignal p = p\<lparr>ps_reloadRequested := True\<rparr>"

text \<open>Without a handler each of the three signals ends the process.\<close>

definition deliver :: "sig \<Rightarrow> process \<Rightarrow> process" where
  "deliver sg p = (if ended p then p else if sg \<notin> set (ps_handlers p) then p\<lparr>ps_phase := Killed sg\<rparr>
     else if sg = SIGHUP then onReloadSignal p else onSignal p)"

text \<open>What the steps of \<open>main\<close> get from outside.\<close>

record surroundings =
  su_q :: sqlite
  su_argv :: "string list"
  su_writable :: "string \<Rightarrow> bool"
  su_unlinks :: "string \<Rightarrow> bool"
  su_fuel :: nat
  su_boot :: "AccountConfig \<Rightarrow> boot"
  su_now :: int
  su_connect :: "string \<Rightarrow> outcome \<times> ffi_error option"
  su_syncAt :: "string \<Rightarrow> int"

definition load_configuration :: "surroundings \<Rightarrow> process \<Rightarrow> disk \<Rightarrow> DaemonConfig result \<times> disk" where
  "load_configuration su p k = DaemonConfig_load (su_q su) (ps_files p) (ps_configPath p) k"

definition hup_load :: "surroundings \<Rightarrow> process \<Rightarrow> (DaemonConfig result \<times> (AccountConfig \<Rightarrow> boot)) option \<times> disk" where
  "hup_load su p = (if ps_reloadRequested p then (case load_configuration su p (ps_disk p) of (r, k) \<Rightarrow> (Some (r, su_boot su), k)) else (None, ps_disk p))"

definition pass_tick :: "surroundings \<Rightarrow> process \<Rightarrow> tick" where
  "pass_tick su p = \<lparr>tk_now = su_now su, tk_hup = fst (hup_load su p), tk_poll = (fst (load_configuration su p (snd (hup_load su p))), su_boot su),
     tk_connect = su_connect su, tk_syncAt = su_syncAt su\<rparr>"

definition poll_due :: "surroundings \<Rightarrow> process \<Rightarrow> bool" where
  "poll_due su p = (case reload_on_signal (su_fuel su) (pass_tick su p) (the_daemon p) of None \<Rightarrow> False
     | Some d \<Rightarrow> overdue (su_now su) (configPollIntervalSec (g_global d)) (ml_lastConfigPollMs (ps_loop p)))"

definition main_pass :: "surroundings \<Rightarrow> process \<Rightarrow> process" where
  "main_pass su p = (case loop_pass (su_fuel su) (pass_tick su p) (ps_loop p) of None \<Rightarrow> p\<lparr>ps_phase := Aborted\<rparr>
     | Some l \<Rightarrow> p\<lparr>ps_reloadRequested := False, ps_loop := l,
         ps_disk := (let k = snd (hup_load su p) in if poll_due su p then snd (load_configuration su p k) else k)\<rparr>)"

text \<open>The stages of \<open>main\<close>.\<close>

definition launch :: "surroundings \<Rightarrow> process \<Rightarrow> process" where
  "launch su p = p\<lparr>ps_phase := (if ''--help'' \<in> set (tl (su_argv su)) \<or> ''-h'' \<in> set (tl (su_argv su)) then Exit_code 0 else Installing [SIGINT, SIGTERM, SIGHUP])\<rparr>"

definition install_handlers :: "surroundings \<Rightarrow> sig list \<Rightarrow> process \<Rightarrow> process" where
  "install_handlers su sgs p = (case sgs of
       sg # rest \<Rightarrow> p\<lparr>ps_handlers := sg # ps_handlers p, ps_phase := Installing rest\<rparr>
     | [] \<Rightarrow> p\<lparr>ps_configPath := resolveConfigPath (ps_files p) (su_argv su), ps_phase := Loading\<rparr>)"

definition first_load :: "surroundings \<Rightarrow> process \<Rightarrow> process" where
  "first_load su p = (case load_configuration su p (ps_disk p) of
       (Inl _, k) \<Rightarrow> p\<lparr>ps_disk := k, ps_phase := Exit_code 1\<rparr>
     | (Inr cfg, k) \<Rightarrow> (with_daemon ((the_daemon p)\<lparr>g_global := dc_global cfg\<rparr>) p)\<lparr>ps_disk := k, ps_phase := Writing_pid (dc_accounts cfg)\<rparr>)"

definition first_setups :: "surroundings \<Rightarrow> AccountConfig list \<Rightarrow> process \<Rightarrow> process" where
  "first_setups su cs p = (case cs of
       c # rest \<Rightarrow> (case setup_alive (su_fuel su) (su_boot su c) c (the_daemon p) of
           None \<Rightarrow> p\<lparr>ps_phase := Aborted\<rparr>
         | Some d \<Rightarrow> (with_daemon d p)\<lparr>ps_phase := Setting_up rest\<rparr>)
     | [] \<Rightarrow> if g_accounts (the_daemon p) = [] then p\<lparr>ps_phase := Exit_code 1\<rparr>
         else p\<lparr>ps_loop := (ps_loop p)\<lparr>ml_lastConfigPollMs := su_now su\<rparr>, ps_phase := Looping\<rparr>)"

definition shut_down :: "surroundings \<Rightarrow> process \<Rightarrow> process" where
  "shut_down su p = (case g_accounts (the_daemon p) of
       [] \<Rightarrow> p\<lparr>ps_files := removePidFile (su_unlinks su) (g_global (the_daemon p)) (ps_files p), ps_phase := Exit_code 0\<rparr>
     | (name, _) # _ \<Rightarrow> (case teardownAccount (su_fuel su) name (the_daemon p) of
           None \<Rightarrow> p\<lparr>ps_phase := Aborted\<rparr>
         | Some d \<Rightarrow> with_daemon d p))"

definition main_step :: "surroundings \<Rightarrow> process \<Rightarrow> process" where
  "main_step su p = (case ps_phase p of
       Launching \<Rightarrow> launch su p
     | Installing sgs \<Rightarrow> install_handlers su sgs p
     | Loading \<Rightarrow> first_load su p
     | Writing_pid cs \<Rightarrow> p\<lparr>ps_files := writePidFile (su_writable su) (ps_pid p) (g_global (the_daemon p)) (ps_files p), ps_phase := Setting_up cs\<rparr>
     | Setting_up cs \<Rightarrow> first_setups su cs p
     | Looping \<Rightarrow> if ps_running p then main_pass su p else p\<lparr>ps_phase := Tearing_down\<rparr>
     | Tearing_down \<Rightarrow> shut_down su p
     | _ \<Rightarrow> p)"

lemmas main_step_defs = main_step_def launch_def install_handlers_def first_load_def first_setups_def shut_down_def

text \<open>A process that has just been started; and no pid file, left by an earlier daemon, names it.\<close>

definition launched :: "process \<Rightarrow> bool" where
  "launched p \<longleftrightarrow> ps_phase p = Launching \<and> ps_handlers p = [] \<and> ps_running p \<and> \<not> ps_reloadRequested p \<and> the_daemon p = empty_daemon \<and> 0 < ps_pid p"

definition named_by_pid_file :: "files \<Rightarrow> nat \<Rightarrow> bool" where
  "named_by_pid_file fs pid \<longleftrightarrow> (\<exists>x txt. fs (x @ ''/signal2sip.pid'') = Some txt \<and> read_pid txt = int pid)"

definition fresh_process :: "process \<Rightarrow> bool" where
  "fresh_process p \<longleftrightarrow> launched p \<and> \<not> named_by_pid_file (ps_files p) (ps_pid p)"

text \<open>The processes a run of \<open>gendb\<close> has signalled beyond those it had before.\<close>

definition newly_signalled :: "gendb \<Rightarrow> gendb \<Rightarrow> int list" where
  "newly_signalled w w' = drop (length (gd_signalled w)) (gd_signalled w')"

definition gendb_signals :: "gendb \<Rightarrow> gendb \<Rightarrow> process \<Rightarrow> process" where
  "gendb_signals w w' p = (if int (ps_pid p) \<in> set (newly_signalled w w') then deliver SIGHUP p else p)"

inductive proc_step :: "process \<Rightarrow> process \<Rightarrow> bool" where
  proc_main: "\<forall>c. pj_only (su_boot su c) \<Longrightarrow> proc_step p (main_step su p)"
| proc_stop: "sg \<noteq> SIGHUP \<Longrightarrow> proc_step p (deliver sg p)"
| proc_gendb: "\<lbrakk>signalDaemonBestEffort e g w = (Inr (), w'); gd_files w = ps_files p\<rbrakk> \<Longrightarrow> proc_step p (gendb_signals w w' p)"
| proc_others: "\<forall>x. fs (x @ ''/signal2sip.pid'') = ps_files p (x @ ''/signal2sip.pid'') \<Longrightarrow> proc_step p (p\<lparr>ps_files := fs, ps_disk := k\<rparr>)"

section \<open>The paths and the number agree\<close>

lemma daemon_dirName_same: "daemon_dirName = dirName"
proof
  fix path
  show "daemon_dirName path = dirName path"
  proof (cases "rsplit (CHR ''/'') path")
    case None
    then show ?thesis using rsplit_None [of "CHR ''/''" path] by (simp add: daemon_dirName_def dirName_def)
  next
    case (Some ab)
    obtain a b where ab: "ab = (a, b)" by (cases ab)
    have p: "path = a @ CHR ''/'' # b" "CHR ''/'' \<notin> set b" using rsplit_Some Some ab by auto
    then have e: "dropWhile (\<lambda>c. c \<noteq> CHR ''/'') (rev b) = []" by (auto simp: dropWhile_eq_Nil_conv)
    have "daemon_dirName path = a" unfolding p(1) by (simp add: daemon_dirName_def dropWhile_append3 e)
    moreover have "dirName path = a" using Some ab by (simp add: dirName_def)
    ultimately show ?thesis by simp
  qed
qed

lemma pid_path_same: "daemon_pidFilePath g = pidFilePath g"
  by (simp add: daemon_pidFilePath_def pidFilePath_def daemon_dirName_same)

lemma strtol_pid_text: "strtol (pid_text n) = Some (False, n)"
proof -
  obtain c cs where c: "to_string n = c # cs" "is_digit c" "list_all is_digit cs"
    using to_string_digits [of n] by (cases "to_string n") auto
  have "\<not> is_digit (CHR 10)" by (simp add: is_digit_def)
  then have "takeWhile is_digit (cs @ [CHR 10]) = cs"
    using c(3) by (simp add: list_all_iff takeWhile_append2)
  then show ?thesis
    using c digit_not_space_sign [of c] nat_of_digits_to_string [of n]
    by (simp add: pid_text_def strtol_def Let_def)
qed

lemma read_pid_text [simp]: "read_pid (pid_text n) = int n"
  by (simp add: read_pid_def strtol_pid_text)

lemma signal_run:
  assumes "signalDaemonBestEffort e g w = (Inr (), w')"
  shows "newly_signalled w w' = [] \<or> (\<exists>txt. gd_files w (pidFilePath g) = Some txt \<and> newly_signalled w w' = [read_pid txt])"
  using assms by (auto simp: signalDaemonBestEffort_def say_def newly_signalled_def returnS_def Let_def split: option.splits if_splits)

section \<open>Invariants of the process\<close>

definition tidy :: "daemon \<Rightarrow> bool" where
  "tidy d \<longleftrightarrow> started d \<and> distinct (map fst (g_accounts d))"

interpretation alive: life_invariant tidy
proof
  show "tidy d'" if "setupAccount n bo cfg d = (v, d')" "v \<noteq> Crashed" "pj_only bo" "tidy d" for n bo cfg d v d'
    using setup_summary [OF that(1-3)] that(4) by (auto simp: tidy_def started_def was_skipped_def came_up_def distinct_erase distinct_store split: if_splits)
  show "tidy d'" if "teardownAccount n name d = Some d'" "tidy d" for n name d d'
    using teardown_summary [OF that(1)] that(2) by (auto simp: tidy_def started_def distinct_erase split: if_splits)
  show "tidy (d\<lparr>g_global := g\<rparr>)" if "tidy d" for d g
    using that by (simp add: tidy_def started_def)
qed

text \<open>The watchdogs change neither which accounts run nor what they run with.\<close>

lemma for_accounts_tidy:
  assumes "for_accounts f d = (d', evs)" "\<And>x r. rn_queue (fst (f x r)) = rn_queue r" "tidy d"
  shows "tidy d'"
proof -
  have "map fst (g_accounts d') = map fst (g_accounts d)" using assms(1) by (auto simp: for_accounts_def)
  then show ?thesis using assms by (auto simp: tidy_def started_def map_of_for_accounts [OF assms(1)])
qed

lemma watch_socket_same: "rn_queue (fst (watch_socket now conn sip name r)) = rn_queue r" "rn_config (fst (watch_socket now conn sip name r)) = rn_config r"
  by (auto simp: watch_socket_def try_reconnect_def Let_def split: option.splits prod.splits sum.splits)

lemma watchdogs_parts:
  assumes "watchdogs tk d = (d', evs)"
  obtains d1 e1 d2 e2 e3 where "registration_watchdog (tk_now tk) d = (d1, e1)" "socket_watchdog tk d1 = (d2, e2)" "storage_timer tk d2 = (d', e3)"
  using assms by (auto simp: watchdogs_def split: prod.splits)

lemma watchdogs_tidy:
  assumes "watchdogs tk d = (d', evs)" "tidy d"
  shows "tidy d'"
proof -
  from assms(1) obtain d1 e1 d2 e2 e3 where r: "registration_watchdog (tk_now tk) d = (d1, e1)" "socket_watchdog tk d1 = (d2, e2)" "storage_timer tk d2 = (d', e3)"
    by (rule watchdogs_parts)
  have "tidy d1" using registration_watchdog_frame [OF r(1)] assms(2) by (simp add: tidy_def started_def)
  then have "tidy d2" using for_accounts_tidy [OF r(2) [unfolded socket_watchdog_def]] by (simp add: watch_socket_same)
  then show ?thesis using for_accounts_tidy [OF r(3) [unfolded storage_timer_def]] by simp
qed

lemma watchdogs_configs:
  assumes "watchdogs tk d = (d', evs)"
  shows "map_option rn_config (map_of (g_accounts d') x) = map_option rn_config (map_of (g_accounts d) x)"
proof -
  from assms obtain d1 e1 d2 e2 e3 where r: "registration_watchdog (tk_now tk) d = (d1, e1)" "socket_watchdog tk d1 = (d2, e2)" "storage_timer tk d2 = (d', e3)"
    by (rule watchdogs_parts)
  have "map_of (g_accounts d1) x = map_of (g_accounts d) x" using registration_watchdog_frame [OF r(1)] by simp
  moreover note map_of_for_accounts [OF r(2) [unfolded socket_watchdog_def], of x] map_of_for_accounts [OF r(3) [unfolded storage_timer_def], of x]
  ultimately show ?thesis
    by (cases "map_of (g_accounts d) x") (simp_all add: watch_socket_same)
qed

lemma loop_pass_parts:
  assumes "loop_pass n tk l = Some l'"
  obtains d1 lp d2 evs where "reload_on_signal n tk (ml_daemon l) = Some d1" "config_poll n tk (ml_lastConfigPollMs l) d1 = Some (lp, d2)"
    "watchdogs tk d2 = (ml_daemon l', evs)"
  using assms by (auto simp: loop_pass_def Let_def split: bind_splits prod.splits)

lemma loop_pass_tidy:
  assumes "loop_pass n tk l = Some l'" "tidy (ml_daemon l)" "\<forall>c. pj_only (snd (tk_poll tk) c)" "\<forall>cfg bo. tk_hup tk = Some (cfg, bo) \<longrightarrow> (\<forall>c. pj_only (bo c))"
  shows "tidy (ml_daemon l')"
proof -
  from assms(1) obtain d1 lp d2 evs where r: "reload_on_signal n tk (ml_daemon l) = Some d1" "config_poll n tk (ml_lastConfigPollMs l) d1 = Some (lp, d2)"
    "watchdogs tk d2 = (ml_daemon l', evs)" by (rule loop_pass_parts)
  have "tidy d1" using r(1) assms(2,4) by (auto simp: reload_on_signal_def split: option.splits intro: alive.reload_keeps)
  then have "tidy d2" using r(2) assms(3) by (auto simp: config_poll_def split: if_splits intro: alive.reload_keeps)
  with r(3) show ?thesis by (rule watchdogs_tidy)
qed

lemma pass_tick_boot:
  assumes "\<forall>c. pj_only (su_boot su c)"
  shows "\<forall>c. pj_only (snd (tk_poll (pass_tick su p)) c)" "\<forall>cfg bo. tk_hup (pass_tick su p) = Some (cfg, bo) \<longrightarrow> (\<forall>c. pj_only (bo c))"
  using assms by (auto simp: pass_tick_def hup_load_def split: prod.splits)

definition handlers_set :: "process \<Rightarrow> bool" where
  "handlers_set p \<longleftrightarrow> {SIGHUP, SIGINT, SIGTERM} \<subseteq> set (ps_handlers p)"

definition phase_ok :: "process \<Rightarrow> bool" where
  "phase_ok p \<longleftrightarrow> (case ps_phase p of
       Launching \<Rightarrow> \<not> named_by_pid_file (ps_files p) (ps_pid p)
     | Installing sgs \<Rightarrow> {SIGHUP, SIGINT, SIGTERM} \<subseteq> set sgs \<union> set (ps_handlers p) \<and> \<not> named_by_pid_file (ps_files p) (ps_pid p)
     | Loading \<Rightarrow> handlers_set p | Writing_pid _ \<Rightarrow> handlers_set p | Setting_up _ \<Rightarrow> handlers_set p | Looping \<Rightarrow> handlers_set p | Tearing_down \<Rightarrow> handlers_set p
     | Killed sg \<Rightarrow> sg \<noteq> SIGHUP | _ \<Rightarrow> True)"

definition proc_inv :: "process \<Rightarrow> bool" where
  "proc_inv p \<longleftrightarrow> phase_ok p \<and> tidy (the_daemon p) \<and> 0 < ps_pid p"

lemma with_daemon_simps [simp]:
  "the_daemon (with_daemon d p) = d" "ps_phase (with_daemon d p) = ps_phase p" "ps_files (with_daemon d p) = ps_files p" "ps_handlers (with_daemon d p) = ps_handlers p"
  "ps_pid (with_daemon d p) = ps_pid p" "ps_running (with_daemon d p) = ps_running p"
  by (simp_all add: with_daemon_def)

lemma deliver_inv:
  assumes "proc_inv p" "sg = SIGHUP \<Longrightarrow> handlers_set p \<or> ended p"
  shows "proc_inv (deliver sg p)"
  using assms by (auto simp: deliver_def proc_inv_def phase_ok_def ended_def handlers_set_def onSignal_def onReloadSignal_def split: phase.splits)

lemma main_pass_inv:
  assumes "proc_inv p" "ps_phase p = Looping" "\<forall>c. pj_only (su_boot su c)"
  shows "proc_inv (main_pass su p)"
  using assms loop_pass_tidy [OF _ _ pass_tick_boot [OF assms(3)]]
  by (auto simp: main_pass_def proc_inv_def phase_ok_def handlers_set_def split: option.splits)

lemma main_step_inv:
  assumes "proc_inv p" "\<forall>c. pj_only (su_boot su c)"
  shows "proc_inv (main_step su p)"
proof (cases "ps_phase p")
  case (Installing sgs)
  with assms(1) show ?thesis by (cases sgs) (auto simp: main_step_defs proc_inv_def phase_ok_def handlers_set_def)
next
  case Loading
  with assms(1) show ?thesis by (auto simp: main_step_defs proc_inv_def phase_ok_def handlers_set_def tidy_def started_def split: prod.splits sum.splits)
next
  case (Setting_up cs)
  with assms alive.setup_alive_keeps show ?thesis
    by (auto simp: main_step_defs proc_inv_def phase_ok_def handlers_set_def split: list.splits option.splits)
next
  case Looping
  with assms main_pass_inv show ?thesis by (auto simp: main_step_defs proc_inv_def phase_ok_def handlers_set_def)
next
  case Tearing_down
  with assms alive.teardown_keeps show ?thesis
    by (auto simp: main_step_defs proc_inv_def phase_ok_def handlers_set_def split: list.splits option.splits)
qed (use assms(1) in \<open>auto simp: main_step_defs proc_inv_def phase_ok_def handlers_set_def\<close>)

lemma named_handled: "proc_inv p \<Longrightarrow> named_by_pid_file (ps_files p) (ps_pid p) \<Longrightarrow> handlers_set p \<or> ended p"
  by (auto simp: proc_inv_def phase_ok_def ended_def split: phase.splits)

lemma signalled_named:
  assumes "signalDaemonBestEffort e g w = (Inr (), w')" "gd_files w = fs" "int pid \<in> set (newly_signalled w w')"
  shows "named_by_pid_file fs pid"
  using signal_run [OF assms(1)] assms(2,3) unfolding named_by_pid_file_def pidFilePath_def by (metis empty_iff empty_set set_ConsD)

lemma others_named:
  assumes "\<forall>x. fs (x @ ''/signal2sip.pid'') = fs' (x @ ''/signal2sip.pid'')"
  shows "named_by_pid_file fs = named_by_pid_file fs'"
  using assms by (simp add: named_by_pid_file_def fun_eq_iff)

lemma proc_step_inv:
  assumes "proc_step p p'" "proc_inv p"
  shows "proc_inv p'"
  using assms
proof (cases rule: proc_step.cases)
  case (proc_gendb e g w w')
  then show ?thesis
    using assms(2) signalled_named [OF proc_gendb(2,3)] named_handled [OF assms(2)] by (auto simp: gendb_signals_def intro!: deliver_inv)
next
  case (proc_others fs k)
  then show ?thesis
    using assms(2) others_named [OF proc_others(2)] by (auto simp: proc_inv_def phase_ok_def handlers_set_def split: phase.splits)
qed (auto intro: main_step_inv deliver_inv)

interpretation process: invariant_system fresh_process proc_step proc_inv
proof
  show "proc_inv p" if "fresh_process p" for p
    using that by (simp add: fresh_process_def launched_def proc_inv_def phase_ok_def tidy_def started_def empty_daemon_def)
qed (rule proc_step_inv)

section \<open>Signals\<close>

text \<open>
  C13: Runs of \<open>gendb\<close> never kill the daemon. SIGHUP ends a process that does not handle it; the daemon writes its pid file only once it does, so that however its start, its
  shutdown, other writers and signals interleave with runs of \<open>gendb\<close>, none of these ends it by SIGHUP, unless a pid file left over from before names the new process.
\<close>

theorem gendb_never_kills_daemon:
  assumes "reachable fresh_process proc_step p"
  shows "ps_phase p \<noteq> Killed SIGHUP \<and> (named_by_pid_file (ps_files p) (ps_pid p) \<and> \<not> ended p \<longrightarrow> SIGHUP \<in> set (ps_handlers p))"
  using process.reachable_inv [OF assms] named_handled [of p]
  by (auto simp: proc_inv_def phase_ok_def handlers_set_def split: phase.splits)

lemma tear_down_runs:
  assumes "ps_phase p = Tearing_down" "tidy (the_daemon p)"
  shows "\<exists>p'. (main_step su ^^ (length (g_accounts (the_daemon p)) + 1)) p = p' \<and> ps_phase p' = Exit_code 0 \<and> g_accounts (the_daemon p') = [] \<and>
    g_global (the_daemon p') = g_global (the_daemon p) \<and> ps_files p' = removePidFile (su_unlinks su) (g_global (the_daemon p)) (ps_files p)"
  using assms
proof (induction "length (g_accounts (the_daemon p))" arbitrary: p)
  case 0
  then show ?case by (simp add: main_step_defs)
next
  case (Suc k)
  then obtain x r rest where acc: "g_accounts (the_daemon p) = (x, r) # rest" by (metis length_Suc_conv surj_pair)
  obtain d where d: "teardownAccount (su_fuel su) x (the_daemon p) = Some d" using teardown_started [of "the_daemon p"] Suc.prems(2) unfolding tidy_def by blast
  have "x \<notin> fst ` set rest" using Suc.prems(2) by (simp add: acc tidy_def)
  then have e: "g_accounts d = rest" "g_global d = g_global (the_daemon p)"
    using teardown_summary [OF d] acc by (auto simp: erase_def filter_id_conv intro!: filter_True)
  have step: "main_step su p = with_daemon d p" by (simp add: main_step_defs Suc.prems(1) acc d)
  have "tidy d" using alive.teardown_keeps [OF d Suc.prems(2)] .
  with Suc.hyps(1) [of "with_daemon d p"] Suc.hyps(2) Suc.prems e show ?case
    by (simp add: acc funpow_swap1 step del: funpow.simps(2)) (simp add: funpow_swap1 step)
qed

text \<open>
  C22: A stopped daemon ends: a daemon in its main loop that has been sent SIGINT or SIGTERM tears down every account in turn and exits with 0, with no account left, as many
  steps later as it has accounts and two more. On the way it removes the pid file of the database directory it is configured with at the time (where the system lets it), and no other file: when a
  reload has changed \<open>db_path\<close> since the start, the one written then stays.
\<close>

theorem stop_ends_daemon:
  assumes "reachable fresh_process proc_step p" "ps_phase p = Looping" "sg \<noteq> SIGHUP"
  shows "\<exists>p'. (main_step su ^^ (length (g_accounts (the_daemon p)) + 2)) (deliver sg p) = p' \<and> ps_phase p' = Exit_code 0 \<and> g_accounts (the_daemon p') = [] \<and>
    ps_files p' = (if su_unlinks su (pidFilePath (g_global (the_daemon p))) then (ps_files p)(pidFilePath (g_global (the_daemon p)) := None) else ps_files p)"
proof -
  have i: "tidy (the_daemon p)" "handlers_set p" using process.reachable_inv [OF assms(1)] assms(2) by (simp_all add: proc_inv_def phase_ok_def)
  have "sg \<in> set (ps_handlers p)" using i(2) by (cases sg) (simp_all add: handlers_set_def)
  let ?q = "p\<lparr>ps_running := False, ps_phase := Tearing_down\<rparr>"
  have "main_step su (deliver sg p) = ?q" using assms(2,3) \<open>sg \<in> _\<close> by (simp add: deliver_def ended_def onSignal_def main_step_defs)
  then have "(main_step su ^^ (length (g_accounts (the_daemon p)) + 2)) (deliver sg p) = (main_step su ^^ (length (g_accounts (the_daemon ?q)) + 1)) ?q"
    by (simp add: funpow_swap1)
  with tear_down_runs [of ?q su] i show ?thesis by (simp add: removePidFile_def pid_path_same)
qed

text \<open>
  A pid file left over from before can kill a daemon that starts: if it names the new process (the pids of containers repeat) and \<open>gendb\<close> changes an account before
  \<open>main\<close> has installed its handlers, the run passes every check of \<open>signalDaemonBestEffort\<close> and ends the daemon.
\<close>

theorem stale_pid_file_kills:
  assumes "launched p" "ps_files p (pidFilePath g) = Some (pid_text (ps_pid p))" "gd_files w = ps_files p"
    "gc_exe e (int (ps_pid p)) = Some exe" "is_daemon_exe exe" "gc_kill e (int (ps_pid p))"
  shows "\<exists>w'. signalDaemonBestEffort e g w = (Inr (), w') \<and> ps_phase (gendb_signals w w' p) = Killed SIGHUP"
proof -
  have "exe \<noteq> []" using assms(5) by (auto simp: is_daemon_exe_def kDaemonName_def)
  then show ?thesis
    using assms by (simp add: signalDaemonBestEffort_def say_def returnS_def gendb_signals_def newly_signalled_def launched_def deliver_def ended_def Let_def)
qed

section \<open>Starts that fail\<close>

lemma skipped_setups:
  assumes "ps_phase p = Setting_up cs" "g_accounts (the_daemon p) = []" "\<forall>c \<in> set cs. \<forall>d. fst (setupAccount (su_fuel su) (su_boot su c) c d) = Skipped"
    "\<forall>c. pj_only (su_boot su c)"
  shows "\<exists>p'. (main_step su ^^ (length cs + 1)) p = p' \<and> ps_phase p' = Exit_code 1 \<and> ps_files p' = ps_files p \<and> ps_pid p' = ps_pid p"
  using assms
proof (induction cs arbitrary: p)
  case Nil
  then show ?case by (simp add: main_step_defs)
next
  case (Cons c cs)
  obtain d where d: "setupAccount (su_fuel su) (su_boot su c) c (the_daemon p) = (Skipped, d)"
    using Cons.prems(3) by (metis list.set_intros(1) prod.collapse)
  have "g_accounts d = []" using setup_summary [OF d] Cons.prems(2,4) by (auto simp: was_skipped_def erase_def)
  moreover have "main_step su p = (with_daemon d p)\<lparr>ps_phase := Setting_up cs\<rparr>"
    using Cons.prems(1) by (simp add: main_step_defs setup_alive_def d)
  ultimately show ?case
    using Cons.IH [of "(with_daemon d p)\<lparr>ps_phase := Setting_up cs\<rparr>"] Cons.prems(3,4) by (simp add: funpow_swap1)
qed

text \<open>
  A daemon none of whose accounts comes up exits with 1 and leaves its pid file behind: only the exit through the main loop removes it.
\<close>

theorem failed_start_keeps_pid_file:
  assumes "ps_phase p = Writing_pid cs" "g_accounts (the_daemon p) = []" "\<forall>c \<in> set cs. \<forall>d. fst (setupAccount (su_fuel su) (su_boot su c) c d) = Skipped"
    "\<forall>c. pj_only (su_boot su c)" "su_writable su (pidFilePath (g_global (the_daemon p)))"
  shows "\<exists>p'. (main_step su ^^ (length cs + 2)) p = p' \<and> ps_phase p' = Exit_code 1 \<and>
    ps_files p' (pidFilePath (g_global (the_daemon p))) = Some (pid_text (ps_pid p))"
proof -
  let ?q = "p\<lparr>ps_files := writePidFile (su_writable su) (ps_pid p) (g_global (the_daemon p)) (ps_files p), ps_phase := Setting_up cs\<rparr>"
  have "main_step su p = ?q" using assms(1) by (simp add: main_step_defs)
  then have "(main_step su ^^ (length cs + 2)) p = (main_step su ^^ (length cs + 1)) ?q" by (simp add: funpow_swap1)
  moreover have "ps_files ?q (pidFilePath (g_global (the_daemon p))) = Some (pid_text (ps_pid p))"
    using assms(5) by (simp add: writePidFile_def pid_path_same)
  ultimately show ?thesis using skipped_setups [of ?q cs su] assms(2-4) by simp
qed

section \<open>A start that succeeds\<close>

lemma find_snoc: "find P (xs @ [x]) = (case find P xs of None \<Rightarrow> if P x then Some x else None | Some y \<Rightarrow> Some y)"
  by (induction xs) auto

text \<open>How the setup of a configured account ends: it comes up, or it is skipped.\<close>

definition up_or_skipped :: "surroundings \<Rightarrow> AccountConfig \<Rightarrow> bool" where
  "up_or_skipped su c \<longleftrightarrow> good_boot (su_boot su c) c \<or> pj_only (su_boot su c) \<and> (\<forall>d. fst (setupAccount (su_fuel su) (su_boot su c) c d) = Skipped)"

definition running_config :: "surroundings \<Rightarrow> AccountConfig option \<Rightarrow> AccountConfig option" where
  "running_config su co = (case co of None \<Rightarrow> None | Some c \<Rightarrow> if good_boot (su_boot su c) c then Some c else None)"

lemma one_setup:
  assumes "up_or_skipped su c"
  obtains d where "setup_alive (su_fuel su) (su_boot su c) c d0 = Some d" "g_global d = g_global d0"
    "\<And>x. map_option rn_config (map_of (g_accounts d) x) = (if x = ac_name c then running_config su (Some c) else map_option rn_config (map_of (g_accounts d0) x))"
proof (cases "good_boot (su_boot su c) c")
  case True
  from setup_good [OF this, of "su_fuel su" d0] obtain r where r: "fst (setupAccount (su_fuel su) (su_boot su c) c d0) = Up" "rn_config r = c"
    "g_accounts (snd (setupAccount (su_fuel su) (su_boot su c) c d0)) = store (ac_name c) r (g_accounts d0)"
    "g_global (snd (setupAccount (su_fuel su) (su_boot su c) c d0)) = g_global d0" by blast
  then obtain d where d: "setupAccount (su_fuel su) (su_boot su c) c d0 = (Up, d)" by (metis prod.collapse)
  show thesis by (rule that [of d]) (use r d True in \<open>simp_all add: setup_alive_def running_config_def\<close>)
next
  case False
  then have s: "pj_only (su_boot su c)" "fst (setupAccount (su_fuel su) (su_boot su c) c d0) = Skipped" using assms by (simp_all add: up_or_skipped_def)
  then obtain d where d: "setupAccount (su_fuel su) (su_boot su c) c d0 = (Skipped, d)" by (metis prod.collapse)
  from setup_summary [OF d _ s(1)] have "g_accounts d = erase (ac_name c) (g_accounts d0)" "g_global d = g_global d0" by (simp_all add: was_skipped_def)
  then show thesis by (intro that [of d]) (use d False in \<open>simp_all add: setup_alive_def running_config_def\<close>)
qed

lemma first_setups_run:
  assumes "ps_phase p = Setting_up cs" "\<forall>c \<in> set cs. up_or_skipped su c"
  shows "\<exists>d. (main_step su ^^ length cs) p = (with_daemon d p)\<lparr>ps_phase := Setting_up []\<rparr> \<and> g_global d = g_global (the_daemon p) \<and>
    (\<forall>x. map_option rn_config (map_of (g_accounts d) x) = (case find (\<lambda>c. ac_name c = x) (rev cs) of None \<Rightarrow> map_option rn_config (map_of (g_accounts (the_daemon p)) x)
       | Some c \<Rightarrow> running_config su (Some c)))"
  using assms
proof (induction cs arbitrary: p)
  case Nil
  then show ?case by (intro exI [of _ "the_daemon p"]) (simp add: with_daemon_def)
next
  case (Cons c cs)
  obtain d1 where d1: "setup_alive (su_fuel su) (su_boot su c) c (the_daemon p) = Some d1" "g_global d1 = g_global (the_daemon p)"
    "\<And>x. map_option rn_config (map_of (g_accounts d1) x) = (if x = ac_name c then running_config su (Some c) else map_option rn_config (map_of (g_accounts (the_daemon p)) x))"
    using one_setup [of su c "the_daemon p"] Cons.prems(2) by (metis list.set_intros(1))
  let ?q = "(with_daemon d1 p)\<lparr>ps_phase := Setting_up cs\<rparr>"
  have step: "main_step su p = ?q" using Cons.prems(1) by (simp add: main_step_defs d1(1))
  obtain d where d: "(main_step su ^^ length cs) ?q = (with_daemon d ?q)\<lparr>ps_phase := Setting_up []\<rparr>" "g_global d = g_global d1"
    "\<And>x. map_option rn_config (map_of (g_accounts d) x) = (case find (\<lambda>c. ac_name c = x) (rev cs) of None \<Rightarrow> map_option rn_config (map_of (g_accounts d1) x) | Some c \<Rightarrow> running_config su (Some c))"
    using Cons.IH [of ?q] Cons.prems(2) by (auto cong: option.case_cong)
  have "(main_step su ^^ length (c # cs)) p = (with_daemon d p)\<lparr>ps_phase := Setting_up []\<rparr>"
    using d(1) step by (simp add: funpow_swap1 with_daemon_def)
  moreover have "map_option rn_config (map_of (g_accounts d) x) = (case find (\<lambda>c. ac_name c = x) (rev (c # cs)) of None \<Rightarrow> map_option rn_config (map_of (g_accounts (the_daemon p)) x)
       | Some c \<Rightarrow> running_config su (Some c))" for x
    using d(3) [of x] d1(3) [of x] by (cases "find (\<lambda>c. ac_name c = x) (rev cs)") (auto simp: find_snoc)
  ultimately show ?case using d(2) d1(2) by (intro exI [of _ d]) simp
qed

lemma loaded_last:
  assumes "named_rows d" "tabs d ''account'' \<noteq> None"
  shows "find (\<lambda>c. ac_name c = x) (rev (loaded_configs d)) = configured x d"
proof -
  let ?f = "find (\<lambda>c. ac_name c = x) (rev (loaded_configs d))"
  have mem: "c \<in> set (loaded_configs d) \<longleftrightarrow> configured (ac_name c) d = Some c" for c
    using loaded_iff [OF assms, of c] configured_name [of _ d c] by blast
  have some: "configured x d = Some c" if fd: "?f = Some c" for c
  proof -
    obtain i where "i < length (rev (loaded_configs d))" "rev (loaded_configs d) ! i = c" "ac_name c = x" using fd unfolding find_Some_iff by blast
    then have "c \<in> set (rev (loaded_configs d))" using nth_mem by blast
    then show ?thesis using mem \<open>ac_name c = x\<close> by simp
  qed
  have none: "configured x d = None" if "?f = None"
  proof (rule ccontr)
    assume "configured x d \<noteq> None"
    then obtain c where "configured x d = Some c" by blast
    moreover from this have "ac_name c = x" by (rule configured_name)
    ultimately have "c \<in> set (loaded_configs d)" "ac_name c = x" using mem by simp_all
    with that show False by (simp add: find_None_iff)
  qed
  show ?thesis using some none by (cases ?f) simp_all
qed

lemma funpow_stages: "(f ^^ (n + 8)) p = f ((f ^^ n) ((f ^^ 7) p))"
proof -
  have "n + 8 = Suc (n + 7)" by simp
  then show ?thesis by (simp only: funpow.simps(2) funpow_add o_apply)
qed

lemma start_run:
  assumes "launched p" "''--help'' \<notin> set (tl (su_argv su))" "''-h'' \<notin> set (tl (su_argv su))" "su_q su = no_faults"
    and "bindR (parseIni (ps_files p) (resolveConfigPath (ps_files p) (su_argv su))) load_global = Inr g"
    and "ps_disk p (dbPath g) = Some f" "f_key f = dbKey g" "db_current (f_db f)" "named_rows (f_db f)"
    and "\<forall>x c. configured x (f_db f) = Some c \<longrightarrow> up_or_skipped su c"
  shows "\<exists>p'. (main_step su ^^ (length (loaded_configs (f_db f)) + 8)) p = p' \<and>
    ps_phase p' = (if \<exists>x. running_config su (configured x (f_db f)) \<noteq> None then Looping else Exit_code 1) \<and> set (ps_handlers p') = {SIGHUP, SIGINT, SIGTERM} \<and> ps_running p' \<and>
    ps_pid p' = ps_pid p \<and> ps_files p' = (if su_writable su (pidFilePath g) then (ps_files p)(pidFilePath g \<mapsto> pid_text (ps_pid p)) else ps_files p) \<and>
    ps_disk p' = ps_disk p \<and> g_global (the_daemon p') = g \<and> ps_configPath p' = resolveConfigPath (ps_files p) (su_argv su) \<and>
    (\<forall>x. map_option rn_config (map_of (g_accounts (the_daemon p')) x) = running_config su (configured x (f_db f)))"
proof -
  let ?path = "resolveConfigPath (ps_files p) (su_argv su)"
  let ?cs = "loaded_configs (f_db f)"
  have t: "tabs (f_db f) ''account'' \<noteq> None" using assms(8) by (simp add: db_current_account)
  have load: "DaemonConfig_load no_faults (ps_files p) ?path (ps_disk p) = (Inr \<lparr>dc_global = g, dc_accounts = ?cs\<rparr>, ps_disk p)"
    using load_current [OF assms(5), of "ps_disk p" f] assms(6-8) by simp
  let ?fs = "if su_writable su (pidFilePath g) then (ps_files p)(pidFilePath g \<mapsto> pid_text (ps_pid p)) else ps_files p"
  let ?q = "p\<lparr>ps_phase := Setting_up ?cs, ps_handlers := [SIGHUP, SIGTERM, SIGINT], ps_configPath := ?path, ps_files := ?fs,
     ps_loop := (ps_loop p)\<lparr>ml_daemon := empty_daemon\<lparr>g_global := g\<rparr>\<rparr>\<rparr>"
  have start: "(main_step su ^^ 7) p = ?q"
    using assms(1-4) load by (simp add: eval_nat_numeral main_step_defs launched_def load_configuration_def with_daemon_def writePidFile_def pid_path_same)
  have "\<forall>c \<in> set ?cs. up_or_skipped su c" using loaded_iff [OF assms(9) t] assms(10) by blast
  then obtain d where d: "(main_step su ^^ length ?cs) ?q = (with_daemon d ?q)\<lparr>ps_phase := Setting_up []\<rparr>" "g_global d = g_global (the_daemon ?q)"
    "\<forall>x. map_option rn_config (map_of (g_accounts d) x) = (case find (\<lambda>c. ac_name c = x) (rev ?cs) of None \<Rightarrow> map_option rn_config (map_of (g_accounts (the_daemon ?q)) x)
       | Some c \<Rightarrow> running_config su (Some c))"
    using first_setups_run [of ?q ?cs su] by fastforce
  have acc: "map_option rn_config (map_of (g_accounts d) x) = running_config su (configured x (f_db f))" for x
    using d(3) loaded_last [OF assms(9) t, of x] by (simp add: empty_daemon_def running_config_def split: option.splits)
  have "g_accounts d = [] \<longleftrightarrow> (\<forall>x. map_of (g_accounts d) x = None)" by (cases "g_accounts d") auto
  then have ne: "g_accounts d = [] \<longleftrightarrow> \<not> (\<exists>x. running_config su (configured x (f_db f)) \<noteq> None)" using acc by (metis option.map_disc_iff)
  let ?ph = "if \<exists>x. running_config su (configured x (f_db f)) \<noteq> None then Looping else Exit_code 1"
  obtain m where m: "main_step su ((with_daemon d ?q)\<lparr>ps_phase := Setting_up []\<rparr>) = (with_daemon d ?q)\<lparr>ps_phase := ?ph, ps_loop := \<lparr>ml_daemon = d, ml_lastConfigPollMs = m, ml_log = ml_log (ps_loop p)\<rparr>\<rparr>"
  proof
    show "main_step su ((with_daemon d ?q)\<lparr>ps_phase := Setting_up []\<rparr>) = (with_daemon d ?q)\<lparr>ps_phase := ?ph, ps_loop := \<lparr>ml_daemon = d,
        ml_lastConfigPollMs = (if g_accounts d = [] then ml_lastConfigPollMs (ps_loop p) else su_now su), ml_log = ml_log (ps_loop p)\<rparr>\<rparr>"
      using ne by (simp add: main_step_defs with_daemon_def)
  qed
  have "(main_step su ^^ (length ?cs + 8)) p = (with_daemon d ?q)\<lparr>ps_phase := ?ph, ps_loop := \<lparr>ml_daemon = d, ml_lastConfigPollMs = m, ml_log = ml_log (ps_loop p)\<rparr>\<rparr>"
    by (simp only: funpow_stages start d(1) m)
  then show ?thesis using d(2) acc assms(1) by (auto simp: launched_def with_daemon_def)
qed

text \<open>
  C14: A start brings up the configured accounts that can be. A daemon started with a readable configuration and a current database, none of whose accounts takes the process
  down, has tried every configured account after eight steps and one per account: it runs exactly those that come up, each with its configuration, and skips the others; it is in its
  main loop if there is one such account and has exited with 1 otherwise. It handles the three signals, and the pid file
  \<open>gendb\<close> reads names it where that file could be written.
\<close>

theorem start_brings_accounts_up:
  assumes "launched p" "''--help'' \<notin> set (tl (su_argv su))" "''-h'' \<notin> set (tl (su_argv su))" "su_q su = no_faults"
    and "bindR (parseIni (ps_files p) (resolveConfigPath (ps_files p) (su_argv su))) load_global = Inr g"
    and "ps_disk p (dbPath g) = Some f" "f_key f = dbKey g" "db_current (f_db f)" "named_rows (f_db f)"
    and "\<forall>x c. configured x (f_db f) = Some c \<longrightarrow> up_or_skipped su c"
  shows "\<exists>p'. (main_step su ^^ (length (loaded_configs (f_db f)) + 8)) p = p' \<and>
    ps_phase p' = (if \<exists>x. running_config su (configured x (f_db f)) \<noteq> None then Looping else Exit_code 1) \<and> set (ps_handlers p') = {SIGHUP, SIGINT, SIGTERM} \<and> ps_running p' \<and>
    ps_pid p' = ps_pid p \<and> ps_files p' = (if su_writable su (pidFilePath g) then (ps_files p)(pidFilePath g \<mapsto> pid_text (ps_pid p)) else ps_files p) \<and>
    ps_disk p' = ps_disk p \<and> g_global (the_daemon p') = g \<and> ps_configPath p' = resolveConfigPath (ps_files p) (su_argv su) \<and>
    (\<forall>x. map_option rn_config (map_of (g_accounts (the_daemon p')) x) = running_config su (configured x (f_db f)))"
  using start_run [OF assms] .

section \<open>TLS\<close>

lemma config_tls:
  assumes "accountConfigFromRecord name a = Inr c"
  shows "ac_sipTransport c = ''tls'' \<longleftrightarrow> a_sip_transport a = ''tls''" "ac_sipTlsCaFile c = a_sip_tls_ca_file a"
    "ac_sipTransport c = ''tls'' \<Longrightarrow> a_sip_tls_ca_file a = [] \<Longrightarrow> a_sip_tls_insecure a"
  using assms by (auto simp: accountConfigFromRecord_def Let_def split: if_splits)

text \<open>
  C23: An account configured for TLS never runs over an unverified connection unless it was asked for: its transport speaks TLS 1.2 or 1.3 only, verifies the server against
  the certificate of the account when there is one, whatever \<open>sip_tls_insecure\<close> says, and skips the verification only with \<open>sip_tls_insecure\<close>; no other account gets TLS.
\<close>

theorem tls_never_silently_unverified:
  assumes "accountConfigFromRecord name a = Inr c" "account_transport pjsip c d = Some (tc, t)"
  shows "(tc_tls tc \<longleftrightarrow> a_sip_transport a = ''tls'') \<and>
    (tc_tls tc \<longrightarrow> set (tc_proto tc) = {TLS1_2, TLS1_3} \<and> (tc_verifyServer tc \<longleftrightarrow> a_sip_tls_ca_file a \<noteq> []) \<and> tc_CaListFile tc = a_sip_tls_ca_file a \<and>
       (\<not> tc_verifyServer tc \<longrightarrow> a_sip_tls_insecure a))"
proof -
  have "tc = (if ac_sipTransport c = ''tls'' then createAccountTlsTransport c else createAccountUdpTransport c)"
    using assms(2) by (auto simp: account_transport_def Let_def split: if_split_asm)
  with config_tls [OF assms(1)] show ?thesis
    by (cases "ac_sipTransport c = ''tls''") (auto simp: createAccountTlsTransport_def createAccountUdpTransport_def)
qed

section \<open>A run\<close>

definition sample_process :: process where
  "sample_process = \<lparr>ps_pid = 7, ps_phase = Launching, ps_handlers = [], ps_running = True, ps_reloadRequested = False, ps_configPath = [],
     ps_loop = \<lparr>ml_daemon = empty_daemon, ml_lastConfigPollMs = 0, ml_log = []\<rparr>, ps_files = sample_files, ps_disk = sample_disk\<rparr>"

definition sample_su :: surroundings where
  "sample_su = \<lparr>su_q = no_faults, su_argv = [''signal2sip-daemon'', ''c''], su_writable = (\<lambda>_. True), su_unlinks = (\<lambda>_. True), su_fuel = 0, su_boot = (\<lambda>_. working_boot), su_now = 1000,
     su_connect = (\<lambda>_. (Timed_out, None)), su_syncAt = (\<lambda>_. 0)\<rparr>"

lemma sample_launched: "launched sample_process" "fresh_process sample_process"
proof -
  show l: "launched sample_process" by (simp add: launched_def sample_process_def)
  have "x @ ''/signal2sip.pid'' \<noteq> ''c''" for x :: string by (cases x) auto
  then show "fresh_process sample_process" using l by (simp add: fresh_process_def named_by_pid_file_def sample_process_def sample_files_def)
qed

lemma one_account_configured: "configured x one_account = (if x = ''a'' then Some (sample_config\<lparr>ac_sipHost := [], ac_sipExtension := [], ac_sipPassword := [], ac_sipBridgeDestination := []\<rparr>) else None)"
proof -
  have "account_row x one_account = (if x = ''a'' then Some (new_account_row ''a'' sample_account) else None)"
    by (simp add: account_row_def one_account_rows)
  then show ?thesis
    by (simp add: configured_def account_of_new_row accountConfigFromRecord_def Let_def default_config_def sample_account_def sample_config_def)
qed

lemma working_boot_pj: "\<forall>c. pj_only (su_boot sample_su c)"
  by (simp add: sample_su_def pj_only_def working_boot_def)

lemma sample_comes: "configured x one_account = Some c \<Longrightarrow> good_boot (su_boot sample_su c) c"
  by (auto simp: one_account_configured sample_su_def sample_config_def intro!: working_boot_good split: if_splits)

lemma sample_running: "running_config sample_su (configured x one_account) = configured x one_account"
  using sample_comes by (auto simp: running_config_def split: option.split)

lemma sample_facts:
  "''--help'' \<notin> set (tl (su_argv sample_su))" "''-h'' \<notin> set (tl (su_argv sample_su))" "su_q sample_su = no_faults"
  "bindR (parseIni (ps_files sample_process) (resolveConfigPath (ps_files sample_process) (su_argv sample_su))) load_global = Inr sample_global"
  "ps_disk sample_process (dbPath sample_global) = Some \<lparr>f_key = ''k'', f_db = one_account\<rparr>" "f_key \<lparr>f_key = ''k'', f_db = one_account\<rparr> = dbKey sample_global"
  "db_current (f_db \<lparr>f_key = ''k'', f_db = one_account\<rparr>)" "named_rows (f_db \<lparr>f_key = ''k'', f_db = one_account\<rparr>)"
  "\<forall>x c. configured x (f_db \<lparr>f_key = ''k'', f_db = one_account\<rparr>) = Some c \<longrightarrow> up_or_skipped sample_su c"
proof -
  have path: "resolveConfigPath (ps_files sample_process) (su_argv sample_su) = ''c''" by (simp add: resolveConfigPath_def sample_su_def)
  show "bindR (parseIni (ps_files sample_process) (resolveConfigPath (ps_files sample_process) (su_argv sample_su))) load_global = Inr sample_global"
    using sample_load_global unfolding path by (simp add: sample_process_def)
  show "\<forall>x c. configured x (f_db \<lparr>f_key = ''k'', f_db = one_account\<rparr>) = Some c \<longrightarrow> up_or_skipped sample_su c"
    using sample_comes by (auto simp: up_or_skipped_def)
qed (simp_all add: sample_su_def sample_process_def sample_disk_def sample_global_def named_rows_def one_account_rows db_current_one_account one_account_configured)

lemma sample_comes_up:
  "\<exists>n p. (main_step sample_su ^^ n) sample_process = p \<and> ps_phase p = Looping \<and> ps_running p \<and> ps_pid p = 7 \<and> ps_files p = sample_files(''./signal2sip.pid'' \<mapsto> pid_text 7) \<and>
     ps_disk p = sample_disk \<and> g_global (the_daemon p) = sample_global \<and> ps_configPath p = ''c'' \<and>
     map_option rn_config (map_of (g_accounts (the_daemon p)) ''a'') = configured ''a'' one_account"
proof -
  have "pidFilePath sample_global = ''./signal2sip.pid''" "resolveConfigPath (ps_files sample_process) (su_argv sample_su) = ''c''"
    by (simp_all add: resolveConfigPath_def sample_su_def pidFilePath_def dirName_def sample_global_def)
  moreover have "su_writable sample_su (pidFilePath sample_global)" "\<exists>x. configured x one_account \<noteq> None"
    by (auto simp: sample_su_def one_account_configured intro!: exI [of _ "''a''"])
  moreover note start_run [OF sample_launched(1) sample_facts]
  ultimately show ?thesis by (simp add: sample_running) (fastforce simp: sample_process_def)
qed

lemma main_reachable:
  assumes "reachable fresh_process proc_step p" "\<forall>c. pj_only (su_boot su c)"
  shows "reachable fresh_process proc_step ((main_step su ^^ n) p)"
proof (induction n)
  case (Suc n)
  then show ?case using reach_step [OF Suc proc_main [OF assms(2)]] by simp
qed (simp add: assms(1))

lemma looping_reachable:
  "\<exists>p. reachable fresh_process proc_step p \<and> ps_phase p = Looping \<and> ps_running p \<and> ps_pid p = 7 \<and> ps_files p = sample_files(''./signal2sip.pid'' \<mapsto> pid_text 7) \<and>
     ps_disk p = sample_disk \<and> g_global (the_daemon p) = sample_global \<and> ps_configPath p = ''c'' \<and>
     map_option rn_config (map_of (g_accounts (the_daemon p)) ''a'') = configured ''a'' one_account"
proof -
  have "reachable fresh_process proc_step sample_process" using sample_launched(2) by (rule reach_init)
  then show ?thesis using sample_comes_up main_reachable [OF _ working_boot_pj] by metis
qed

theorem gendb_never_kills_daemon_witness:
  "\<exists>p :: process. ps_phase p = Looping \<and> named_by_pid_file (ps_files p) (ps_pid p) \<and> SIGHUP \<in> set (ps_handlers p)"
proof -
  obtain p where p: "reachable fresh_process proc_step p" "ps_phase p = Looping" "ps_pid p = 7" "ps_files p = sample_files(''./signal2sip.pid'' \<mapsto> pid_text 7)"
    using looping_reachable by blast
  have n: "named_by_pid_file (ps_files p) (ps_pid p)" by (auto simp: named_by_pid_file_def p(3,4) intro!: exI [of _ "''.''"])
  then have "SIGHUP \<in> set (ps_handlers p)" using gendb_never_kills_daemon [OF p(1)] p(2) by (simp add: ended_def)
  with n p(2) show ?thesis by blast
qed

theorem stop_ends_daemon_witness:
  "\<exists>p n p'. ps_phase p = Looping \<and> ps_files p ''./signal2sip.pid'' \<noteq> None \<and> (main_step sample_su ^^ n) (deliver SIGTERM p) = p' \<and> ps_phase p' = Exit_code 0 \<and>
     ps_files p' ''./signal2sip.pid'' = None"
proof -
  obtain p where p: "reachable fresh_process proc_step p" "ps_phase p = Looping" "ps_files p = sample_files(''./signal2sip.pid'' \<mapsto> pid_text 7)" "g_global (the_daemon p) = sample_global"
    using looping_reachable by blast
  have "pidFilePath sample_global = ''./signal2sip.pid''" by (simp add: pidFilePath_def dirName_def sample_global_def)
  moreover have "su_unlinks sample_su x" for x by (simp add: sample_su_def)
  ultimately
  have "\<exists>p'. (main_step sample_su ^^ (length (g_accounts (the_daemon p)) + 2)) (deliver SIGTERM p) = p' \<and> ps_phase p' = Exit_code 0 \<and> ps_files p' ''./signal2sip.pid'' = None"
    using stop_ends_daemon [OF p(1,2), of SIGTERM sample_su] p(4) by fastforce
  then show ?thesis using p(2,3) by (metis fun_upd_same option.distinct(1))
qed

theorem stale_pid_file_kills_witness:
  "\<exists>w'. signalDaemonBestEffort (calm\<lparr>gc_exe := (\<lambda>_. Some ''/usr/bin/signal2sip-daemon'')\<rparr>) sample_global (one_world\<lparr>gd_files := [''./signal2sip.pid'' \<mapsto> pid_text 7]\<rparr>) = (Inr (), w')"
proof -
  let ?p = "sample_process\<lparr>ps_files := [''./signal2sip.pid'' \<mapsto> pid_text 7]\<rparr>"
  have "launched ?p" using sample_launched(1) by (simp add: launched_def)
  moreover have "ps_files ?p (pidFilePath sample_global) = Some (pid_text (ps_pid ?p))"
    by (simp add: pidFilePath_def dirName_def sample_global_def sample_process_def)
  ultimately show ?thesis
    using stale_pid_file_kills [of ?p sample_global "one_world\<lparr>gd_files := ps_files ?p\<rparr>" "calm\<lparr>gc_exe := (\<lambda>_. Some ''/usr/bin/signal2sip-daemon'')\<rparr>" "''/usr/bin/signal2sip-daemon''"]
    by (auto simp: is_daemon_exe_def kDaemonName_def calm_def)
qed

lemma unreachable_server: "fst (setupAccount 0 (working_boot\<lparr>bo_connect := (Timed_out, None)\<rparr>) sample_config d) = Skipped"
  by (simp add: setupAccount_def before_queue_def after_queue_def working_boot_def sample_config_def bindS_def liftR_def Let_def AuthSocket_new_def applyProxyConfig_def
      connect_def doConnect_def fresh_account_def setup_threw_def setup_failed_def queue_start_def new_queue_def stopAndJoin_def request_stop_def split: option.splits)

theorem failed_start_keeps_pid_file_witness:
  "\<exists>p'. (main_step (sample_su\<lparr>su_boot := \<lambda>_. working_boot\<lparr>bo_connect := (Timed_out, None)\<rparr>\<rparr>) ^^ 3)
       (with_daemon (empty_daemon\<lparr>g_global := sample_global\<rparr>) (sample_process\<lparr>ps_phase := Writing_pid [sample_config]\<rparr>)) = p' \<and>
     ps_phase p' = Exit_code 1 \<and> ps_files p' ''./signal2sip.pid'' = Some (pid_text 7)"
proof -
  let ?su = "sample_su\<lparr>su_boot := \<lambda>_. working_boot\<lparr>bo_connect := (Timed_out, None)\<rparr>\<rparr>"
  let ?p = "with_daemon (empty_daemon\<lparr>g_global := sample_global\<rparr>) (sample_process\<lparr>ps_phase := Writing_pid [sample_config]\<rparr>)"
  have "ps_phase ?p = Writing_pid [sample_config]" "g_accounts (the_daemon ?p) = []" "\<forall>c. pj_only (su_boot ?su c)" "su_writable ?su (pidFilePath (g_global (the_daemon ?p)))"
    "\<forall>c \<in> set [sample_config]. \<forall>d. fst (setupAccount (su_fuel ?su) (su_boot ?su c) c d) = Skipped"
    using unreachable_server by (simp_all add: empty_daemon_def sample_su_def pj_only_def working_boot_def)
  note f = failed_start_keeps_pid_file [OF this(1,2,5,3,4)]
  have "pidFilePath sample_global = ''./signal2sip.pid''" "ps_pid ?p = 7" by (simp_all add: pidFilePath_def dirName_def sample_global_def sample_process_def)
  with f show ?thesis by (simp add: eval_nat_numeral)
qed

theorem tls_never_silently_unverified_witness:
  "\<exists>tc c. accountConfigFromRecord ''a'' (sample_account\<lparr>a_sip_transport := ''tls'', a_sip_tls_insecure := True\<rparr>) = Inr c \<and>
     account_transport (\<lambda>_. Some 3) c (empty_daemon\<lparr>g_ep := True\<rparr>) = Some (tc, 3) \<and> tc_tls tc \<and> \<not> tc_verifyServer tc"
proof -
  let ?a = "sample_account\<lparr>a_sip_transport := ''tls'', a_sip_tls_insecure := True\<rparr>"
  obtain c where c: "accountConfigFromRecord ''a'' ?a = Inr c" by (simp add: accountConfigFromRecord_def sample_account_def)
  obtain tc where tc: "account_transport (\<lambda>_. Some 3) c (empty_daemon\<lparr>g_ep := True\<rparr>) = Some (tc, 3)" by (simp add: account_transport_def Let_def)
  from tls_never_silently_unverified [OF c tc] c tc show ?thesis by (auto simp: sample_account_def)
qed

theorem start_brings_accounts_up_witness:
  "\<exists>p'. (main_step sample_su ^^ (length (loaded_configs one_account) + 8)) sample_process = p' \<and> ps_phase p' = Looping \<and>
     map_option rn_config (map_of (g_accounts (the_daemon p')) ''a'') = configured ''a'' one_account"
proof -
  have "\<exists>x. configured x one_account \<noteq> None" by (auto simp: one_account_configured intro!: exI [of _ "''a''"])
  then show ?thesis
    using start_brings_accounts_up [OF sample_launched(1) sample_facts] by (simp add: sample_running)
qed

end
