(* ===== verification/Spec2Isabelle.thy ===== *)
theory Spec2Isabelle
  imports AudioBridge Watchdogs StorageServiceSync Texts Handles DaemonProcess
begin

text \<open>
  signal2sip bridges Signal calls to a SIP PBX. A daemon keeps, for every account of an encrypted SQLite database, a chat
  connection to Signal's server, a RingRTC call manager and a SIP registration, and ties the two legs of a call
  together; the command line tool \<open>gendb\<close> creates, configures and removes accounts in the same database, and a terminal program runs that tool. This
  development models the C++ of \<open>src/\<close> as functions on explicit states and proves what makes each part correct.

  \<^bold>\<open>Parts and theories\<close>

  \<^item> \<open>Prelude\<close>: results (\<open>error + 'a\<close>), effects (state passing with errors, \<open>bindS\<close>, \<open>catch_std\<close>), \<open>std::to_string\<close>,
    \<open>std::stoi\<close> and \<open>std::stoul\<close>, and a locale for step relations with their invariants (\<open>reachable\<close>).
  \<^item> \<open>Base64\<close>, \<open>Padding\<close>: \<open>util/Base64.cpp\<close>, \<open>signal/Padding.cpp\<close>, on 8, 32 and 64 bit words.
  \<^item> \<open>RingBuffer\<close>, \<open>AudioBridge\<close>: \<open>voip/ring_buffer.h\<close>, as operations and as an interleaving of one producer and one consumer;
    \<open>voip/audio_bridge.cpp\<close>, \<open>voip/ringrtc_sip_bridge.cpp\<close> and \<open>wireBridgeAudio\<close> of \<open>daemon/main.cpp\<close>, with the conference bridge as a table of ports.
  \<^item> \<open>Sql\<close>, \<open>Storage\<close>, \<open>Migration\<close>, \<open>SyncedContacts\<close>: the SQL that \<open>storage/Storage.cpp\<close> uses, over tables of rows with primary keys, unique
    indexes, checks and foreign keys; every method of \<open>Storage\<close>; opening with its migrations; the synced contacts and the loop that saves them.
  \<^item> \<open>Config\<close>: \<open>daemon/Config.cpp\<close>, the INI parser, validation of a row, \<open>DaemonConfig::load\<close>.
  \<^item> \<open>Resolver\<close>, \<open>Handles\<close>: \<open>daemon/ContactResolver.cpp\<close> and \<open>signal/Cdsi.cpp\<close>; the lookup call by call, and the handles of libsignal that a lookup, \<open>AuthSocket\<close>,
    \<open>ProvisioningClient\<close> and \<open>RegistrationServiceClient\<close> create and release, as a multiset.
  \<^item> \<open>ProtocolStores\<close>, \<open>Crypto\<close>, \<open>PreKeys\<close>: \<open>signal/ProtocolStores.cpp\<close>, \<open>signal/Crypto.cpp\<close>, \<open>signal/PreKeys.cpp\<close> and the refreshing functions of
    \<open>daemon/main.cpp\<close>; libsignal is a record of parameters.
  \<^item> \<open>AuthSocket\<close>: \<open>signal/AuthSocket.cpp\<close>, the connection state and the hand-over between the connecting thread and the callback.
  \<^item> \<open>CallSignaling\<close>: \<open>daemon/CallSignaling.cpp\<close> and the send callbacks of \<open>daemon/main.cpp\<close>.
  \<^item> \<open>DispatchQueue\<close>, \<open>Calls\<close>, \<open>Push\<close>, \<open>Daemon\<close>, \<open>Lifetimes\<close>, \<open>Watchdogs\<close>: \<open>daemon/main.cpp\<close>: the envelope queue, the call callbacks, \<open>onPush\<close>,
    setup, teardown and reload of accounts, what they own over their life, the main loop.
  \<^item> \<open>DaemonProcess\<close>: \<open>main\<close> of \<open>daemon/main.cpp\<close> as a process: arguments, signal handlers, pid file, first setups, passes, shutdown, interleaved with signals and with runs
    of \<open>gendb\<close>; the transports made for SIP accounts.
  \<^item> \<open>StorageServiceSync\<close>: \<open>daemon/StorageServiceSync.cpp\<close> and \<open>util/RegistrationClient.cpp\<close>.
  \<^item> \<open>Gendb\<close>, \<open>GendbSafety\<close>: \<open>gendb/main.cpp\<close> and \<open>gendb/AccountFinisher.cpp\<close>: arguments, configuration file, the commands on existing accounts.
  \<^item> \<open>Checksums\<close>, \<open>QrCode\<close>: the image encoder of \<open>gendb/ProvisioningClient.cpp\<close> (CRC-32, Adler-32, stored deflate blocks, PNG), the terminal rendering and the link URL.
  \<^item> \<open>Provisioning\<close>: \<open>gendb/ProvisioningCipher.cpp\<close>, \<open>gendb/DeviceNameCipher.cpp\<close>, and the callbacks and timed waits of \<open>ProvisioningClient\<close> as interleaved steps.
  \<^item> \<open>Registration\<close>, \<open>GendbInvariant\<close>, \<open>RegistrationSafety\<close>: \<open>gendb/RegistrationServiceClient.cpp\<close>, the pending registration file, \<open>register\<close>, \<open>register-captcha\<close>,
    \<open>verify\<close>, \<open>link\<close>, the dispatch of commands and \<open>main\<close>; the invariant of the databases over whole runs; what an account created this way is.
  \<^item> \<open>Tui\<close>, \<open>TuiSafety\<close>, \<open>TuiEditor\<close>: \<open>tui/main.cpp\<close>: the state behind the screens, the handling of every key, the background thread that links a device; what holds
    in every reachable state; the configuration editor together with the runs of \<open>gendb\<close> it starts.
  \<^item> \<open>TuiScreens\<close>: the \<open>render\<close> functions of \<open>tui/main.cpp\<close>, with every screen a document of the terminal library, and \<open>tui/i18n.h\<close>: the choice of the language and the
    placeholder in a text.
  \<^item> \<open>Texts\<close>: the keys and the table of texts of \<open>tui/i18n.h\<close> in its nine languages, byte by byte in UTF-8; that every key has its row and every row its texts, and that
    the dialogs name the account and the exit code in each of them.
  \<^item> \<open>Frames\<close>: what an effect keeps of its state, with rules for sequencing, branching and catching over any preorder (locale \<open>frame\<close>).

  This theory joins them: a setting changed with \<open>gendb\<close> is signalled to the running process and in effect after one pass of its main loop, and an account created
  with \<open>gendb\<close> is what the daemon runs after its next reload.

  \<^bold>\<open>How the code corresponds to the model\<close>

  A class or struct is a record with the source's fields, an enumeration a datatype, an exception an \<open>Inl\<close> of the type \<open>exn\<close>; what may throw
  returns a result, what changes state takes and returns it. Machine integers keep their width where they can wrap. Code outside
  the repository (libsignal, RingRTC, PJSIP, SQLite's engine faults, OpenSSL, libcurl, protobuf) is a parameter: a record of functions, or the
  outcomes of a call. Threads are step relations in which each atomic action is one step. Log output is left out, except what \<open>gendb\<close> prints as its result.

  \<^bold>\<open>Groups of results\<close>

  Round trips of the codecs and of storage; refinement of the ring buffer to a bounded FIFO and its linearizability; atomicity of deletion and
  idempotence of the migrations; the interface \<open>keyed_store\<close> of the keyed tables, interpreted for each table and used by the stores; invariants over all interleavings of the
  callbacks (a call accepted only when its leg has answered; one leg per account, as long as no Signal call rings during the lookup of an INVITE, the one place where a
  handler is split), of the dispatch queue (FIFO, each item once), of the connection hand-over, and over all runs
  of account setups, teardowns and loop passes (no leak but of transports PJSIP fails to close, spaced reconnections, a dropped websocket dialled again); the outcome of linking for every history of its callbacks; termination of the queue after a stop and of the wait for a
  provisioning message; equivalence of the table-driven CRC-32 with polynomial division, and a decoder for the PNG and the terminal output that finds the code in them;
  the type of the databases over every run of \<open>gendb\<close>; agreement of what is saved with what the server accepted; that no key fails on any screen of the terminal program, what is saved in its editor, that the code for linking is drawn as it was
  printed and the password masked until a save has ended; what handles a lookup or a client leaves;
  that \<open>gendb\<close> never ends the daemon it signals, and that a stopped daemon ends. Several theorems
  show defects of the code on a concrete run; they are named with the line they concern where they are stated.

  \<^bold>\<open>Bounds and fuel\<close>

  Only the worker of the dispatch queue takes fuel: \<open>stopAndJoin n\<close> lets it make at most \<open>n\<close> steps after the stop was requested, and \<open>DispatchQueue\<close> proves that
  enough fuel ends it with all the work queued done. All other loops are structural recursions or have a termination proof.

  \<^bold>\<open>Not modelled\<close>

  The layout engine of the terminal library, the
  registration of threads with PJLIB and the probe of an outgoing call in \<open>daemon/main.cpp\<close>, the handles of libsignal inside one call (keys, stores, messages), progress texts, tests, tools and build files. PJSIP's answer to the closing of a transport is drawn when the transport is
  made (\<open>sa_closes\<close>). Blocking waits for a single promise are one step; the waits that race with callbacks (connection hand-over, dispatch queue, linking) are modelled as such.
\<close>

section \<open>From the command line to the running daemon\<close>

text \<open>What a reload makes of a database: every configured account runs, with its configuration unless the running instance is kept, and nothing else does.\<close>

lemma reload_on_database:
  assumes "bindR (parseIni fs path) load_global = Inr g" "disk (dbPath g) = Some f" "f_key f = dbKey g" "db_current (f_db f)" "named_rows (f_db f)"
    and "\<forall>x c. configured x (f_db f) = Some c \<longrightarrow> good_boot (bo c) c" "started d"
  shows "\<exists>d'. reloadConfig n bo (fst (DaemonConfig_load no_faults fs path disk)) d = Some d' \<and>
    started d' \<and> (\<forall>x. configured x (f_db f) = None \<longrightarrow> map_of (g_accounts d') x = None) \<and>
    (\<forall>x c. configured x (f_db f) = Some c \<longrightarrow>
      (\<exists>r. map_of (g_accounts d') x = Some r \<and> (if kept c d then map_of (g_accounts d) x = Some r else rn_config r = c)))"
proof -
  have t: "tabs (f_db f) ''account'' \<noteq> None" using assms(4) by (simp add: db_current_account)
  let ?cfg = "\<lparr>dc_global = g, dc_accounts = loaded_configs (f_db f)\<rparr>"
  have "\<forall>c \<in> set (dc_accounts ?cfg). good_boot (bo c) c"
    using assms(6) loaded_iff [OF assms(5) t] by auto
  then obtain d' where d': "reloadConfig n bo (Inr ?cfg) d = Some d'" "dom (map_of (g_accounts d')) = ac_name ` set (loaded_configs (f_db f))" "started d'"
    "\<forall>c x. configured x (f_db f) = Some c \<longrightarrow> (\<exists>r. map_of (g_accounts d') x = Some r \<and> (if kept c d then map_of (g_accounts d) x = Some r else rn_config r = c))"
    using reload_result [OF assms(7), of ?cfg bo n] loaded_find [OF assms(5) t] by auto
  have "map_of (g_accounts d') x = None" if "configured x (f_db f) = None" for x
  proof -
    have "x \<notin> dom (map_of (g_accounts d'))"
      unfolding d'(2) using that loaded_iff [OF assms(5) t] configured_name by (metis imageE option.distinct(1))
    then show ?thesis by (simp add: domIff)
  qed
  moreover have "fst (DaemonConfig_load no_faults fs path disk) = Inr ?cfg"
    using load_current [where disk = disk, OF assms(1-4)] by simp
  ultimately show ?thesis using d'(1,3,4) by (intro exI [of _ d']) simp
qed

text \<open>What \<open>gendb config set\<close> makes of the database.\<close>

lemma config_change_database:
  assumes "cmdConfigSet e g name field v w = (Inr (), w')" "gc_q e = no_faults" "gd_disk w (dbPath g) = Some f" "f_key f = dbKey g" "db_current (f_db f)" "named_rows (f_db f)"
    and "gd_disk w' (dbPath g) = Some f'" "loadAccount no_faults name (f_db f) = Inr a"
  shows "f_key f' = dbKey g \<and> db_current (f_db f') \<and> named_rows (f_db f')"
    "\<exists>a' fld. loadAccount no_faults name (f_db f') = Inr a' \<and> findConfigField field = Inr fld \<and> cf_get fld a' = normal_value field v"
    "configured name (f_db f') = Some c \<Longrightarrow> ac_configVersion c = a_config_version a + 1"
    "x \<noteq> name \<Longrightarrow> configured x (f_db f') = configured x (f_db f)"
proof -
  have op: "Storage no_faults (dbPath g) (dbKey g) (gd_disk w) = (Inr (), gd_disk w)"
    using open_current [of "gd_disk w" "dbPath g" f "dbKey g"] assms(3-5) by (simp add: Storage_def)
  obtain a1 d1 where s: "saveAccountConfig no_faults name a1 (f_db f) = Inr d1" "f' = f\<lparr>f_db := d1\<rparr>"
    using config_set_run [OF assms(1)] op assms(2,3,7) by auto
  have cur: "db_current d1" "named_rows d1"
    using saveAccountConfig_rows [OF s(1)] named_rows_config [OF s(1)] assms(5,6) by auto
  with assms(4) s(2) show "f_key f' = dbKey g \<and> db_current (f_db f') \<and> named_rows (f_db f')" by simp
  obtain fld a' where a': "loadAccount no_faults name d1 = Inr a'" "findConfigField field = Inr fld" "cf_get fld a' = normal_value field v"
      "a_config_version a' = a_config_version a + 1"
    using config_set_result [OF assms(1), of "name @ ''x''"] op assms(2,3,7,8) s(2) by (auto simp: Sql.readable_def)
  then show "\<exists>a' fld. loadAccount no_faults name (f_db f') = Inr a' \<and> findConfigField field = Inr fld \<and> cf_get fld a' = normal_value field v"
    using s(2) by simp
  show "ac_configVersion c = a_config_version a + 1" if "configured name (f_db f') = Some c"
    using that s(2) a' db_current_account [OF cur(1)]
    by (auto simp: configured_def loadAccount_row accountConfig_version split: option.splits if_splits sum.splits)
  show "configured x (f_db f') = configured x (f_db f)" if "x \<noteq> name"
    using saveAccountConfig_row [OF s(1)] that s(2) by (simp add: configured_def)
qed


text \<open>The account of the sample database, running, gets another PBX.\<close>

definition moved_record :: AccountRecord where
  "moved_record = (default_config sample_account)\<lparr>a_sip_host := ''pbx2''\<rparr>"

lemma set_sip_host:
  assumes "cmdConfigSet e sample_global ''a'' ''sip_host'' ''pbx2'' w = (Inr (), w')" "gc_q e = no_faults" "gd_disk w = sample_disk"
  shows "\<exists>f'. gd_disk w' (dbPath sample_global) = Some f' \<and> saveAccountConfig no_faults ''a'' moved_record one_account = Inr (f_db f')"
proof -
  obtain fld a' d where r: "findConfigField ''sip_host'' = Inr fld" "cf_set fld ''pbx2'' (default_config sample_account) = Inr a'"
      "saveAccountConfig no_faults ''a'' a' one_account = Inr d" "gd_disk w' ''p'' = Some \<lparr>f_key = ''k'', f_db = d\<rparr>"
    using config_set_run [OF assms(1)] one_world_opens one_account_loaded assms(2,3) by (auto simp: sample_disk_def)
  have "a' = moved_record"
    using cf_set_stored [of fld] r(1,2) by (auto simp: findConfigField_Inr stored_as_def moved_record_def)
  with r show ?thesis by auto
qed

lemma moved_configured:
  assumes "saveAccountConfig no_faults ''a'' moved_record one_account = Inr d"
  shows "configured x d = (if x = ''a'' then Some (sample_config\<lparr>ac_configVersion := 1, ac_sipHost := ''pbx2'', ac_sipExtension := [],
    ac_sipPassword := [], ac_sipBridgeDestination := []\<rparr>) else None)"
proof -
  have row: "account_row ''a'' one_account = Some (new_account_row ''a'' sample_account)" "x \<noteq> ''a'' \<Longrightarrow> account_row x one_account = None"
    by (simp_all add: account_row_def one_account_rows)
  have "account_row x d = (if x = ''a'' then Some (Storage.config_update moved_record (new_account_row ''a'' sample_account)) else None)"
    using saveAccountConfig_row [OF assms] row by auto
  then show ?thesis
    by (simp add: configured_def account_of_config account_of_new_row with_config_def moved_record_def accountConfigFromRecord_def Let_def
        default_config_def sample_account_def sample_config_def)
qed


section \<open>From the command line to the next pass of the process\<close>

lemma tool_files:
  assumes "cmdConfigSet e g name field v w = (Inr (), w')"
  shows "\<exists>w1. gd_files w1 = gd_files w \<and> gd_signalled w1 = gd_signalled w \<and> signalDaemonBestEffort e g w1 = (Inr (), w')"
proof -
  have o: "gd_files w1 = gd_files w \<and> gd_signalled w1 = gd_signalled w" if "in_db g m w = (x, w1)" for w w1 x and m :: "(db, 'a) effect"
    using that by (auto simp: in_db_def throwS_def split: option.splits prod.splits)
  have s: "gd_files w1 = gd_files w \<and> gd_signalled w1 = gd_signalled w" if "open_storage e g w = (x, w1)" for w w1 x
    using that by (auto simp: open_storage_def split: prod.splits)
  have a: "gd_files w1 = gd_files w \<and> gd_signalled w1 = gd_signalled w" if "open_account e g name k w = (x, w1)" for w w1 x k
    using that s unfolding open_account_def
    by (auto simp: throwS_def in_db_def split: if_splits option.splits prod.splits elim!: bindS_cases)
  from assms obtain a1 w1 a2 w2 where r: "open_account e g name (no_saved_account name) w = (Inr a1, w1)" "in_db g (updR (saveAccountConfig (gc_q e) name a2)) w1 = (Inr (), w2)"
    "signalDaemonBestEffort e g (w2\<lparr>gd_out := gd_out w2 @ [''[config] '' @ name @ '': '' @ field @ ''='' @ v]\<rparr>) = (Inr (), w')"
    unfolding cmdConfigSet_def by (auto simp: liftR_def say_def elim!: bindS_cases)
  have "gd_files w2 = gd_files w \<and> gd_signalled w2 = gd_signalled w"
    using a [OF r(1)] r(2) by (auto simp: in_db_def throwS_def split: option.splits prod.splits)
  with r(3) show ?thesis by (intro exI [of _ "w2\<lparr>gd_out := gd_out w2 @ [''[config] '' @ name @ '': '' @ field @ ''='' @ v]\<rparr>"]) simp
qed

lemma tool_signals:
  assumes "cmdConfigSet e g name field v w = (Inr (), w')" "gd_files w (pidFilePath g) = Some (pid_text pid)" "0 < pid"
    "gc_exe e (int pid) = Some exe" "is_daemon_exe exe" "gc_kill e (int pid)"
  shows "newly_signalled w w' = [int pid]"
proof -
  have "exe \<noteq> []" using assms(5) by (auto simp: is_daemon_exe_def kDaemonName_def)
  then show ?thesis
    using tool_files [OF assms(1)] assms(2-6) by (auto simp: signalDaemonBestEffort_def say_def newly_signalled_def returnS_def Let_def)
qed

text \<open>A reload, and a second one when the poll is due, on the same database.\<close>

lemma two_reloads:
  assumes "started d" "bindR (parseIni fs path) load_global = Inr g" "disk (dbPath g) = Some f" "f_key f = dbKey g" "db_current (f_db f)" "named_rows (f_db f)"
    and "\<forall>x c. configured x (f_db f) = Some c \<longrightarrow> good_boot (bo c) c" "\<forall>c. configured name (f_db f) = Some c \<longrightarrow> \<not> kept c d"
    and "tk_hup tk = Some (fst (DaemonConfig_load no_faults fs path disk), bo)" "tk_poll tk = (fst (DaemonConfig_load no_faults fs path disk), bo)"
  shows "\<exists>d1 lp d2. reload_on_signal n tk d = Some d1 \<and> config_poll n tk lastPoll d1 = Some (lp, d2) \<and>
    map_option rn_config (map_of (g_accounts d2) name) = configured name (f_db f)"
proof -
  note reload = reload_on_database [where disk = disk and bo = bo and n = n, OF assms(2-7)]
  obtain d1 where d1: "reload_on_signal n tk d = Some d1" "started d1" "\<forall>x. configured x (f_db f) = None \<longrightarrow> map_of (g_accounts d1) x = None"
    "\<forall>x c. configured x (f_db f) = Some c \<longrightarrow> (\<exists>r. map_of (g_accounts d1) x = Some r \<and> (if kept c d then map_of (g_accounts d) x = Some r else rn_config r = c))"
    using reload [OF assms(1)] assms(9) by (auto simp: reload_on_signal_def)
  have first: "map_option rn_config (map_of (g_accounts d1) name) = configured name (f_db f)"
    using d1(3,4) assms(8) by (cases "configured name (f_db f)") fastforce+
  obtain d2 where d2: "reloadConfig n bo (fst (DaemonConfig_load no_faults fs path disk)) d1 = Some d2" "\<forall>x. configured x (f_db f) = None \<longrightarrow> map_of (g_accounts d2) x = None"
    "\<forall>x c. configured x (f_db f) = Some c \<longrightarrow> (\<exists>r. map_of (g_accounts d2) x = Some r \<and> (if kept c d1 then map_of (g_accounts d1) x = Some r else rn_config r = c))"
    using reload [OF d1(2)] by blast
  have "map_option rn_config (map_of (g_accounts d2) name) = configured name (f_db f)"
    using d2(2,3) first by (cases "configured name (f_db f)") (fastforce split: if_splits)+
  then show ?thesis using d1(1) d2(1) first assms(10) by (auto simp: config_poll_def)
qed

text \<open>
  C2: A setting changed on the command line is in effect after one pass of the daemon's main loop: \<open>gendb config set\<close> finds the running process through its pid file and signals
  it; when the signal can be delivered, the process survives the signal, and the first pass that begins then takes the new configuration of the account up, or stops the account when that configuration is refused,
  whether or not the periodic poll falls into the same pass.
\<close>

theorem config_set_takes_effect:
  assumes "cmdConfigSet e g name field v w = (Inr (), w')" "gc_q e = no_faults" "bindR (parseIni (ps_files p) (ps_configPath p)) load_global = Inr g"
    and "gd_files w = ps_files p" "gd_disk w (dbPath g) = Some f" "f_key f = dbKey g" "db_current (f_db f)" "named_rows (f_db f)"
    and "gd_disk w' (dbPath g) = Some f'" "\<forall>x c. configured x (f_db f') = Some c \<longrightarrow> good_boot (su_boot su c) c" "su_q su = no_faults"
    and "reachable fresh_process proc_step p" "ps_phase p = Looping" "ps_running p" "ps_files p (pidFilePath g) = Some (pid_text (ps_pid p))"
    and "gc_exe e (int (ps_pid p)) = Some exe" "is_daemon_exe exe" "gc_kill e (int (ps_pid p))"
    and "loadAccount no_faults name (f_db f) = Inr a" "map_of (g_accounts (the_daemon p)) name = Some r" "ac_configVersion (rn_config r) \<le> a_config_version a"
  shows "\<exists>p' a' fld. main_step su (gendb_signals w w' (p\<lparr>ps_disk := gd_disk w'\<rparr>)) = p' \<and> ps_phase p' = Looping \<and> \<not> ps_reloadRequested p' \<and>
    loadAccount no_faults name (f_db f') = Inr a' \<and> findConfigField field = Inr fld \<and> cf_get fld a' = normal_value field v \<and>
    map_option rn_config (map_of (g_accounts (the_daemon p')) name) = configured name (f_db f')"
proof -
  note c = config_change_database [OF assms(1,2,5-9,19)]
  have inv: "handlers_set p" "started (the_daemon p)" "0 < ps_pid p"
    using process.reachable_inv [OF assms(12)] assms(13) by (simp_all add: proc_inv_def phase_ok_def tidy_def)
  let ?p = "p\<lparr>ps_disk := gd_disk w', ps_reloadRequested := True\<rparr>"
  have "newly_signalled w w' = [int (ps_pid p)]" using tool_signals [OF assms(1) _ inv(3) assms(16-18)] assms(4,15) by simp
  then have p: "gendb_signals w w' (p\<lparr>ps_disk := gd_disk w'\<rparr>) = ?p"
    using inv(1) assms(13) by (simp add: gendb_signals_def deliver_def ended_def handlers_set_def onReloadSignal_def)
  let ?load = "DaemonConfig_load no_faults (ps_files p) (ps_configPath p) (gd_disk w')"
  have "snd ?load = gd_disk w'" using load_current [OF assms(3), of "gd_disk w'" f'] assms(9) c(1) by simp
  then have tk: "tk_hup (pass_tick su ?p) = Some (fst ?load, su_boot su)" "tk_poll (pass_tick su ?p) = (fst ?load, su_boot su)"
    by (simp_all add: pass_tick_def hup_load_def load_configuration_def assms(11) split_def)
  have "\<forall>k. configured name (f_db f') = Some k \<longrightarrow> \<not> kept k (the_daemon p)"
    using c(3) assms(20,21) configured_name by (fastforce simp: kept_def)
  then obtain d1 lp d2 where d: "reload_on_signal (su_fuel su) (pass_tick su ?p) (the_daemon p) = Some d1"
    "config_poll (su_fuel su) (pass_tick su ?p) (ml_lastConfigPollMs (ps_loop p)) d1 = Some (lp, d2)"
    "map_option rn_config (map_of (g_accounts d2) name) = configured name (f_db f')"
    using two_reloads [where n = "su_fuel su" and lastPoll = "ml_lastConfigPollMs (ps_loop p)", OF inv(2) assms(3,9) _ _ _ assms(10) _ tk] c(1) by blast
  obtain d3 evs where d3: "watchdogs (pass_tick su ?p) d2 = (d3, evs)" by (meson surj_pair)
  have "\<exists>l. loop_pass (su_fuel su) (pass_tick su ?p) (ps_loop p) = Some l \<and> ml_daemon l = d3"
    using d(1,2) d3 by (simp add: loop_pass_def)
  then obtain l where l: "loop_pass (su_fuel su) (pass_tick su ?p) (ps_loop ?p) = Some l" "ml_daemon l = d3" by auto
  have "map_option rn_config (map_of (g_accounts (ml_daemon l)) name) = configured name (f_db f')"
    using watchdogs_configs [OF d3, of name] d(3) l(2) by simp
  then show ?thesis
    using c(2) assms(13,14) l(1) unfolding p by (auto simp: main_step_defs main_pass_def)
qed

text \<open>The sample daemon in its loop, and a change of the PBX.\<close>

definition with_proc :: gendb_env where
  "with_proc = calm\<lparr>gc_exe := (\<lambda>_. Some ''/usr/bin/signal2sip-daemon'')\<rparr>"

lemma change_runs: "\<exists>w'. cmdConfigSet with_proc sample_global ''a'' ''sip_host'' ''pbx2'' (one_world\<lparr>gd_files := fs\<rparr>) = (Inr (), w')"
proof -
  have q: "gc_q with_proc = no_faults" "gd_disk (one_world\<lparr>gd_files := fs\<rparr>) = sample_disk" by (simp_all add: with_proc_def calm_def one_world_def)
  have disk: "sample_disk (dbPath sample_global) = Some \<lparr>f_key = ''k'', f_db = one_account\<rparr>" by (simp add: sample_disk_def sample_global_def)
  have h: "hasAccount no_faults ''a'' one_account = Inr True" using one_account_tab by (simp add: hasAccount_def Stmt_def one_account_rows)
  have o: "open_account with_proc sample_global ''a'' k (one_world\<lparr>gd_files := fs\<rparr>) = (Inr (default_config sample_account), one_world\<lparr>gd_files := fs\<rparr>)" for k
    using one_world_opens disk h one_account_loaded
    by (simp add: open_account_def open_storage_def in_db_def bindS_def liftR_def q one_world_def fun_upd_idem)
  obtain fld where fld: "findConfigField ''sip_host'' = Inr fld" by (simp add: findConfigField_def field_defs)
  then have st: "cf_set fld ''pbx2'' b = Inr (stored_as ''sip_host'' ''pbx2'' b)" for b
    using cf_set_stored [of fld] by (auto simp: findConfigField_Inr accepted_def)
  obtain d where "saveAccountConfig no_faults ''a'' (stored_as ''sip_host'' ''pbx2'' (default_config sample_account)) one_account = Inr d"
    using one_account_tab by (simp add: saveAccountConfig_def run_write_def Stmt_def one_account_rows Let_def)
  then show ?thesis
    using fld st by (auto simp: cmdConfigSet_def bindS_def o liftR_def in_db_def updR_def say_def q(1) signalDaemonBestEffort_def returnS_def Let_def split: option.splits)
qed

theorem config_set_takes_effect_witness:
  "\<exists>p w' p'. cmdConfigSet with_proc sample_global ''a'' ''sip_host'' ''pbx2'' (one_world\<lparr>gd_files := ps_files p\<rparr>) = (Inr (), w') \<and>
     main_step sample_su (gendb_signals (one_world\<lparr>gd_files := ps_files p\<rparr>) w' (p\<lparr>ps_disk := gd_disk w'\<rparr>)) = p' \<and>
     map_option (ac_sipHost \<circ> rn_config) (map_of (g_accounts (the_daemon p')) ''a'') = Some ''pbx2''"
proof -
  obtain p where p: "reachable fresh_process proc_step p" "ps_phase p = Looping" "ps_running p" "ps_pid p = 7" "ps_files p = sample_files(''./signal2sip.pid'' \<mapsto> pid_text 7)"
     "ps_configPath p = ''c''" "map_option rn_config (map_of (g_accounts (the_daemon p)) ''a'') = configured ''a'' one_account"
    using looping_reachable by blast
  let ?w = "one_world\<lparr>gd_files := ps_files p\<rparr>"
  obtain w' where w': "cmdConfigSet with_proc sample_global ''a'' ''sip_host'' ''pbx2'' ?w = (Inr (), w')" using change_runs by blast
  have e: "gc_q with_proc = no_faults" "gc_exe with_proc (int (ps_pid p)) = Some ''/usr/bin/signal2sip-daemon''" "is_daemon_exe ''/usr/bin/signal2sip-daemon''"
    "gc_kill with_proc (int (ps_pid p))"
    by (simp_all add: with_proc_def calm_def is_daemon_exe_def kDaemonName_def)
  have g: "bindR (parseIni (ps_files p) (ps_configPath p)) load_global = Inr sample_global"
    using sample_load_global by (simp add: parseIni_def p(5,6))
  define f where "f = \<lparr>f_key = ''k'', f_db = one_account\<rparr>"
  have f: "gd_disk ?w (dbPath sample_global) = Some f" "f_key f = dbKey sample_global" "db_current (f_db f)" "named_rows (f_db f)"
    by (simp_all add: f_def one_world_def sample_disk_def sample_global_def db_current_one_account named_rows_def one_account_rows)
  obtain f' where f': "gd_disk w' (dbPath sample_global) = Some f'" "saveAccountConfig no_faults ''a'' moved_record one_account = Inr (f_db f')"
    using set_sip_host [OF w' e(1)] by (auto simp: one_world_def)
  note conf = moved_configured [OF f'(2)]
  have boot: "\<forall>x c. configured x (f_db f') = Some c \<longrightarrow> good_boot (su_boot sample_su c) c"
    by (auto simp: conf sample_su_def sample_config_def intro!: working_boot_good split: if_splits)
  have pid: "ps_files p (pidFilePath sample_global) = Some (pid_text (ps_pid p))" by (simp add: p(4,5) pidFilePath_def dirName_def sample_global_def)
  have q: "su_q sample_su = no_faults" by (simp add: sample_su_def)
  have l: "loadAccount no_faults ''a'' (f_db f) = Inr (default_config sample_account)" by (simp add: f_def one_account_loaded)
  obtain r where r: "map_of (g_accounts (the_daemon p)) ''a'' = Some r" "ac_configVersion (rn_config r) \<le> a_config_version (default_config sample_account)"
    using p(7) by (auto simp: one_account_configured sample_config_def default_config_def)
  have fs: "gd_files ?w = ps_files p" by simp
  obtain p' where p': "main_step sample_su (gendb_signals ?w w' (p\<lparr>ps_disk := gd_disk w'\<rparr>)) = p'"
    "map_option rn_config (map_of (g_accounts (the_daemon p')) ''a'') = configured ''a'' (f_db f')"
    using config_set_takes_effect [OF w' e(1) g fs f f'(1) boot q p(1-3) pid e(2-4) l r] by blast
  have "map_option (ac_sipHost \<circ> rn_config) (map_of (g_accounts (the_daemon p')) ''a'') = map_option ac_sipHost (configured ''a'' (f_db f'))"
    unfolding p'(2) [symmetric] by (simp add: option.map_comp)
  also have "\<dots> = Some ''pbx2''" by (simp add: conf)
  finally show ?thesis using w' p'(1) by blast
qed

section \<open>From the verification of a number to the running daemon\<close>







end
